(* ===== verification/Halquen_Prelude.thy ===== *)
theory Halquen_Prelude
  imports Main "HOL-Library.Sublist" "HOL-Library.Char_ord" "HOL-Library.List_Lexorder"
    "HOL-Library.Product_Lexorder"
begin

text \<open>
  Shared vocabulary of the development: the machine-integer types of the Rust sources, results and
  their propagation, byte strings with the operations of \<open>str\<close> the code uses, ordered maps
  (\<open>BTreeMap\<close>), and the relational operations of the SQL statements (\<open>WHERE\<close>, \<open>ORDER BY\<close>,
  \<open>LIMIT\<close>, keyed upserts). The three interfaces of this theory are locales: \<open>ordered_map\<close>,
  \<open>keyed_rows\<close> and \<open>text_codec\<close>.
\<close>

named_theorems result_simps \<open>unfolding of result propagation\<close>
named_theorems str_simps \<open>byte-string operations\<close>
named_theorems sql_simps \<open>relational operations on tables\<close>

section \<open>Integers and results\<close>

text \<open>
  Timestamps (\<open>i64\<close>) are only compared, and subtracted with saturation; counters and sizes
  (\<open>u16\<close>, \<open>u32\<close>, \<open>u64\<close>, \<open>usize\<close>) are unsigned. Wrap-around or saturation is written out at the
  operation that has it.
\<close>

type_synonym i64 = int
type_synonym u16 = nat
type_synonym u32 = nat
type_synonym u64 = nat
type_synonym ('e, 'a) result = "'e + 'a"

definition i64_max :: int where "i64_max = 9223372036854775807"
definition i64_min :: int where "i64_min = - 9223372036854775808"
definition u32_max :: nat where "u32_max = 4294967295"

definition saturating_sub_i64 :: "i64 \<Rightarrow> i64 \<Rightarrow> i64" where
  "saturating_sub_i64 a b = max i64_min (min i64_max (a - b))"

definition saturating_add_u32 :: "u32 \<Rightarrow> u32 \<Rightarrow> u32" where
  "saturating_add_u32 a b = min u32_max (a + b)"

text \<open>Rust's \<open>?\<close> operator: the first error is returned, a value is passed on.\<close>

definition and_then :: "('e, 'a) result \<Rightarrow> ('a \<Rightarrow> ('e, 'b) result) \<Rightarrow> ('e, 'b) result" where
  "and_then r f = (case r of Inl e \<Rightarrow> Inl e | Inr a \<Rightarrow> f a)"

definition map_err :: "('e \<Rightarrow> 'f) \<Rightarrow> ('e, 'a) result \<Rightarrow> ('f, 'a) result" where
  "map_err f r = (case r of Inl e \<Rightarrow> Inl (f e) | Inr a \<Rightarrow> Inr a)"

definition is_err :: "('e, 'a) result \<Rightarrow> bool" where
  "is_err r = (case r of Inl _ \<Rightarrow> True | Inr _ \<Rightarrow> False)"

definition ok_or :: "'e \<Rightarrow> 'a option \<Rightarrow> ('e, 'a) result" where
  "ok_or e x = (case x of None \<Rightarrow> Inl e | Some a \<Rightarrow> Inr a)"

lemma and_then_simps [simp, result_simps]:
  "and_then (Inl e) f = Inl e" "and_then (Inr a) f = f a"
  by (simp_all add: and_then_def)

lemma and_then_Inr_iff [result_simps]:
  "and_then r f = Inr b \<longleftrightarrow> (\<exists>a. r = Inr a \<and> f a = Inr b)"
  by (cases r) simp_all

lemma map_err_simps [simp, result_simps]:
  "map_err f (Inl e) = Inl (f e)" "map_err f (Inr a) = Inr a"
  by (simp_all add: map_err_def)

lemma map_err_Inr_iff [simp]: "map_err f r = Inr a \<longleftrightarrow> r = Inr a"
  by (cases r) simp_all

lemma is_err_simps [simp, result_simps]: "is_err (Inl e)" "\<not> is_err (Inr a)"
  by (simp_all add: is_err_def)

lemma not_is_err_unit: "\<not> is_err (r :: ('e, unit) result) \<longleftrightarrow> r = Inr ()"
  by (cases r) simp_all

lemma ok_or_simps [simp]: "ok_or e None = Inl e" "ok_or e (Some a) = Inr a"
  by (simp_all add: ok_or_def)

lemma ok_or_Inr_iff [simp]: "ok_or e x = Inr a \<longleftrightarrow> x = Some a"
  by (cases x) simp_all

definition is_some_and :: "('a \<Rightarrow> bool) \<Rightarrow> 'a option \<Rightarrow> bool" where
  "is_some_and p x = (case x of None \<Rightarrow> False | Some a \<Rightarrow> p a)"

definition is_none_or :: "('a \<Rightarrow> bool) \<Rightarrow> 'a option \<Rightarrow> bool" where
  "is_none_or p x = (case x of None \<Rightarrow> True | Some a \<Rightarrow> p a)"

lemma is_some_and_simps [simp]:
  "\<not> is_some_and p None" "is_some_and p (Some a) = p a"
  "is_none_or p None" "is_none_or p (Some a) = p a"
  by (simp_all add: is_some_and_def is_none_or_def)

lemma is_some_and_iff: "is_some_and p x \<longleftrightarrow> (\<exists>a. x = Some a \<and> p a)"
  by (cases x) simp_all

section \<open>Byte strings\<close>

text \<open>
  A Rust \<open>String\<close> is its UTF-8 bytes, one \<^typ>\<open>char\<close> each, so \<^const>\<open>length\<close> is \<open>str::len\<close> and
  the order of \<^typ>\<open>string\<close> is the byte-wise order of \<open>str\<close>.
\<close>

definition byte :: "char \<Rightarrow> nat" where "byte c = of_char c"

definition is_ascii_digit :: "char \<Rightarrow> bool" where
  "is_ascii_digit c = (48 \<le> byte c \<and> byte c \<le> 57)"

definition is_ascii_lowercase :: "char \<Rightarrow> bool" where
  "is_ascii_lowercase c = (97 \<le> byte c \<and> byte c \<le> 122)"

definition is_ascii_uppercase :: "char \<Rightarrow> bool" where
  "is_ascii_uppercase c = (65 \<le> byte c \<and> byte c \<le> 90)"

definition is_ascii_alphanumeric :: "char \<Rightarrow> bool" where
  "is_ascii_alphanumeric c = (is_ascii_digit c \<or> is_ascii_lowercase c \<or> is_ascii_uppercase c)"

text \<open>
  The UTF-8 encodings of the characters with the Unicode \<open>White_Space\<close> property, which
  \<open>str::trim\<close> removes at both ends: U+0009 to U+000D, U+0020, U+0085, U+00A0, U+1680,
  U+2000 to U+200A, U+2028, U+2029, U+202F, U+205F and U+3000.
\<close>

definition white_space :: "string list" where
  "white_space =
     map (\<lambda>n. [char_of (n::nat)]) [9, 10, 11, 12, 13, 32]
     @ map (\<lambda>n. [char_of (194::nat), char_of (n::nat)]) [133, 160]
     @ [map char_of [225, 154, 128::nat]]
     @ map (\<lambda>n. [char_of (226::nat), char_of (128::nat), char_of (n::nat)])
         ([128..<139] @ [168, 169, 175])
     @ [map char_of [226, 129, 159::nat], map char_of [227, 128, 128::nat]]"

lemma white_space_code [code]:
  "white_space =
     [[CHR 0x09], [CHR 0x0A], [CHR 0x0B], [CHR 0x0C], [CHR 0x0D], [CHR 0x20],
      [CHR 0xC2, CHR 0x85], [CHR 0xC2, CHR 0xA0], [CHR 0xE1, CHR 0x9A, CHR 0x80],
      [CHR 0xE2, CHR 0x80, CHR 0x80], [CHR 0xE2, CHR 0x80, CHR 0x81], [CHR 0xE2, CHR 0x80, CHR 0x82],
      [CHR 0xE2, CHR 0x80, CHR 0x83], [CHR 0xE2, CHR 0x80, CHR 0x84], [CHR 0xE2, CHR 0x80, CHR 0x85],
      [CHR 0xE2, CHR 0x80, CHR 0x86], [CHR 0xE2, CHR 0x80, CHR 0x87], [CHR 0xE2, CHR 0x80, CHR 0x88],
      [CHR 0xE2, CHR 0x80, CHR 0x89], [CHR 0xE2, CHR 0x80, CHR 0x8A], [CHR 0xE2, CHR 0x80, CHR 0xA8],
      [CHR 0xE2, CHR 0x80, CHR 0xA9], [CHR 0xE2, CHR 0x80, CHR 0xAF], [CHR 0xE2, CHR 0x81, CHR 0x9F],
      [CHR 0xE3, CHR 0x80, CHR 0x80]]"
  by code_simp

function trim_start :: "string \<Rightarrow> string" where
  "trim_start s =
     (case find (\<lambda>w. w \<noteq> [] \<and> prefix w s) white_space of
        None \<Rightarrow> s
      | Some w \<Rightarrow> trim_start (drop (length w) s))"
  by pat_completeness auto
termination
  by (relation "measure length")
    (auto simp: find_Some_iff prefix_def simp flip: length_greater_0_conv)

declare trim_start.simps [simp del]

text \<open>
  UTF-8 is self-synchronising, so stripping encoded white-space characters from the end is
  stripping their reversed encodings from the front of the reversed string.
\<close>

function trim_start_rev :: "string \<Rightarrow> string" where
  "trim_start_rev s =
     (case find (\<lambda>w. w \<noteq> [] \<and> prefix (rev w) s) white_space of
        None \<Rightarrow> s
      | Some w \<Rightarrow> trim_start_rev (drop (length w) s))"
  by pat_completeness auto
termination
  by (relation "measure length")
    (auto simp: find_Some_iff prefix_def simp flip: length_greater_0_conv)

declare trim_start_rev.simps [simp del]

definition trim :: "string \<Rightarrow> string" where
  "trim s = rev (trim_start_rev (rev (trim_start s)))"

definition starts_with :: "string \<Rightarrow> string \<Rightarrow> bool" where
  "starts_with s p = prefix p s"

text \<open>\<open>str::split\<close> on one character: always at least one segment.\<close>

fun split_on :: "char \<Rightarrow> string \<Rightarrow> string list" where
  "split_on c [] = [[]]"
| "split_on c (x # xs) =
     (if x = c then [] # split_on c xs
      else (case split_on c xs of [] \<Rightarrow> [[x]] | s # ss \<Rightarrow> (x # s) # ss))"

lemma split_on_not_Nil [simp]: "split_on c s \<noteq> []"
  by (induction s) (auto split: list.splits)

lemma split_on_append_sep: "c \<notin> set a \<Longrightarrow> split_on c (a @ c # b) = a # split_on c b"
  by (induction a) auto

lemma split_on_no_sep: "c \<notin> set a \<Longrightarrow> split_on c a = [a]"
  by (induction a) auto

lemma set_split_on: "set s \<subseteq> insert c (\<Union> (set ` set (split_on c s)))"
proof (induction s)
  case Nil
  then show ?case by simp
next
  case (Cons x xs)
  then show ?case by (cases "split_on c xs") auto
qed

lemma trim_start_no_space:
  assumes "\<And>w. w \<in> set white_space \<Longrightarrow> w \<noteq> [] \<Longrightarrow> \<not> prefix w s"
  shows "trim_start s = s"
proof -
  have "find (\<lambda>w. w \<noteq> [] \<and> prefix w s) white_space = None"
    using assms by (auto simp: find_None_iff)
  then show ?thesis by (simp add: trim_start.simps [of s])
qed

lemma length_trim_start: "length (trim_start s) \<le> length s"
proof (induction s rule: trim_start.induct)
  case (1 s)
  show ?case
  proof (cases "find (\<lambda>w. w \<noteq> [] \<and> prefix w s) white_space")
    case None
    then show ?thesis by (simp add: trim_start.simps [of s])
  next
    case (Some w)
    with "1.IH" have "length (trim_start (drop (length w) s)) \<le> length s - length w" by simp
    with Some show ?thesis by (simp add: trim_start.simps [of s])
  qed
qed

lemma length_trim_start_rev: "length (trim_start_rev s) \<le> length s"
proof (induction s rule: trim_start_rev.induct)
  case (1 s)
  show ?case
  proof (cases "find (\<lambda>w. w \<noteq> [] \<and> prefix (rev w) s) white_space")
    case None
    then show ?thesis by (simp add: trim_start_rev.simps [of s])
  next
    case (Some w)
    with "1.IH" have "length (trim_start_rev (drop (length w) s)) \<le> length s - length w" by simp
    with Some show ?thesis by (simp add: trim_start_rev.simps [of s])
  qed
qed

lemma length_trim_le: "length (trim s) \<le> length s"
  using length_trim_start_rev [of "rev (trim_start s)"] length_trim_start [of s]
  by (simp add: trim_def)

lemma trim_not_empty: "trim s \<noteq> [] \<Longrightarrow> s \<noteq> []"
  using length_trim_le [of s] by auto

text \<open>Decimal printing of an unsigned integer (\<open>Display\<close>).\<close>

fun dec :: "nat \<Rightarrow> string" where
  "dec n = (if n < 10 then [char_of (48 + n)] else dec (n div 10) @ [char_of (48 + n mod 10)])"

declare dec.simps [simp del]

lemma dec_not_Nil [simp]: "dec n \<noteq> []"
  by (subst dec.simps) simp

lemma byte_range_set:
  assumes "map char_of [m..<n] = cs" and "n \<le> 256"
  shows "m \<le> byte c \<and> byte c < n \<longleftrightarrow> c \<in> set cs"
proof
  assume "m \<le> byte c \<and> byte c < n"
  then have "char_of (byte c) \<in> set (map char_of [m..<n])" by simp
  then show "c \<in> set cs" using assms(1) by (simp add: byte_def)
next
  assume "c \<in> set cs"
  then obtain k where "m \<le> k" "k < n" "c = char_of k" using assms(1) by auto
  then show "m \<le> byte c \<and> byte c < n" using assms(2) by (simp add: byte_def of_char_of)
qed

lemma byte_char_of_digit: "n < 10 \<Longrightarrow> byte (char_of (48 + n)) = 48 + n"
  by (simp add: byte_def)

lemma dec_digits: "c \<in> set (dec n) \<Longrightarrow> is_ascii_digit c"
proof (induction n rule: dec.induct)
  case (1 n)
  have digit: "m < 10 \<Longrightarrow> is_ascii_digit (char_of (48 + m))" for m :: nat
    by (simp add: is_ascii_digit_def byte_char_of_digit)
  show ?case
  proof (cases "n < 10")
    case True
    with "1.prems" digit [of n] show ?thesis by (simp add: dec.simps [of n])
  next
    case False
    with "1.prems" have "c \<in> set (dec (n div 10)) \<or> c = char_of (48 + n mod 10)"
      by (auto simp: dec.simps [of n])
    with "1.IH" False digit [of "n mod 10"] show ?thesis by auto
  qed
qed

fun undec :: "string \<Rightarrow> nat" where
  "undec s = foldl (\<lambda>a c. 10 * a + (byte c - 48)) 0 s"

lemma undec_dec: "undec (dec n) = n"
proof (induction n rule: dec.induct)
  case (1 n)
  show ?case
  proof (cases "n < 10")
    case True
    then show ?thesis by (simp add: dec.simps [of n] byte_char_of_digit)
  next
    case False
    with "1.IH" have "undec (dec (n div 10)) = n div 10" by simp
    with False show ?thesis
      by (simp add: dec.simps [of n] byte_char_of_digit)
  qed
qed

lemma dec_inject [simp]: "dec m = dec n \<longleftrightarrow> m = n"
  by (metis undec_dec)

lemma length_dec_le: "n < 10 ^ k \<Longrightarrow> 0 < k \<Longrightarrow> length (dec n) \<le> k"
proof (induction n arbitrary: k rule: dec.induct)
  case (1 n)
  show ?case
  proof (cases "n < 10")
    case True
    with "1.prems" show ?thesis by (simp add: dec.simps [of n])
  next
    case False
    then have "k \<noteq> 1" using "1.prems" by auto
    then obtain j where j: "k = Suc j" "0 < j" using "1.prems"(2) by (cases k) auto
    then have "n div 10 < 10 ^ j" using "1.prems"(1) by (simp add: less_mult_imp_div_less mult.commute)
    with "1.IH" False j have "length (dec (n div 10)) \<le> j" by blast
    with False j show ?thesis by (simp add: dec.simps [of n])
  qed
qed

lemma find_append: "find P (xs @ ys) = (case find P xs of None \<Rightarrow> find P ys | Some x \<Rightarrow> Some x)"
  by (induction xs) auto

section \<open>Ordered maps\<close>

text \<open>
  \<open>BTreeMap\<close> as an association list in strictly increasing key order, which is also the order
  \<open>values()\<close> and \<open>into_iter()\<close> enumerate.
\<close>

type_synonym ('k, 'v) btree_map = "('k \<times> 'v) list"

fun bt_insert :: "'k::linorder \<Rightarrow> 'v \<Rightarrow> ('k, 'v) btree_map \<Rightarrow> ('k, 'v) btree_map" where
  "bt_insert k v [] = [(k, v)]"
| "bt_insert k v ((k', v') # m) =
     (if k < k' then (k, v) # (k', v') # m
      else if k = k' then (k, v) # m
      else (k', v') # bt_insert k v m)"

definition bt_remove :: "'k::linorder \<Rightarrow> ('k, 'v) btree_map \<Rightarrow> ('k, 'v) btree_map" where
  "bt_remove k m = filter (\<lambda>(k', _). k' \<noteq> k) m"

definition bt_get :: "('k, 'v) btree_map \<Rightarrow> 'k \<Rightarrow> 'v option" where
  "bt_get m k = map_of m k"

definition bt_values :: "('k, 'v) btree_map \<Rightarrow> 'v list" where
  "bt_values m = map snd m"

definition bt_invar :: "('k::linorder, 'v) btree_map \<Rightarrow> bool" where
  "bt_invar m = sorted_wrt (<) (map fst m)"

text \<open>The contract clients of an ordered map rely on.\<close>

locale ordered_map =
  fixes empty :: "'m"
    and insert :: "'k::linorder \<Rightarrow> 'v \<Rightarrow> 'm \<Rightarrow> 'm"
    and remove :: "'k \<Rightarrow> 'm \<Rightarrow> 'm"
    and get :: "'m \<Rightarrow> 'k \<Rightarrow> 'v option"
    and entries :: "'m \<Rightarrow> ('k \<times> 'v) list"
    and invar :: "'m \<Rightarrow> bool"
  assumes get_empty: "get empty k = None"
    and get_insert: "invar m \<Longrightarrow> get (insert k v m) = (get m)(k \<mapsto> v)"
    and get_remove: "invar m \<Longrightarrow> get (remove k m) = (get m)(k := None)"
    and entries_get: "invar m \<Longrightarrow> (k, v) \<in> set (entries m) \<longleftrightarrow> get m k = Some v"
    and entries_sorted: "invar m \<Longrightarrow> sorted_wrt (<) (map fst (entries m))"
    and invar_empty: "invar empty"
    and invar_insert: "invar m \<Longrightarrow> invar (insert k v m)"
    and invar_remove: "invar m \<Longrightarrow> invar (remove k m)"
begin

lemma get_insert_same: "invar m \<Longrightarrow> get (insert k v m) k = Some v"
  by (simp add: get_insert)

lemma get_insert_other: "invar m \<Longrightarrow> k \<noteq> k' \<Longrightarrow> get (insert k v m) k' = get m k'"
  by (simp add: get_insert)

lemma dom_insert: "invar m \<Longrightarrow> dom (get (insert k v m)) = {k} \<union> dom (get m)"
  by (auto simp: get_insert)

lemma distinct_keys: "invar m \<Longrightarrow> distinct (map fst (entries m))"
  using entries_sorted [of m] strict_sorted_iff by blast

lemma all_insert:
  "invar m \<Longrightarrow> (\<And>k' v'. get m k' = Some v' \<Longrightarrow> P k' v') \<Longrightarrow> P k v \<Longrightarrow>
   get (insert k v m) k' = Some v' \<Longrightarrow> P k' v'"
  by (auto simp: get_insert split: if_splits)

lemma all_remove:
  "invar m \<Longrightarrow> (\<And>k' v'. get m k' = Some v' \<Longrightarrow> P k' v') \<Longrightarrow>
   get (remove k m) k' = Some v' \<Longrightarrow> P k' v'"
  by (auto simp: get_remove split: if_splits)

lemma keys_entries: "invar m \<Longrightarrow> fst ` set (entries m) = dom (get m)"
  using entries_get by (force simp: image_iff)

lemma length_entries: "invar m \<Longrightarrow> length (entries m) = card (dom (get m))"
  by (metis distinct_card distinct_keys keys_entries length_map set_map)

lemma length_entries_insert:
  assumes "invar m" and "get m k = None"
  shows "length (entries (insert k v m)) = Suc (length (entries m))"
proof -
  have "finite (dom (get m))"
    using keys_entries [OF assms(1)] by (metis List.finite_set finite_imageI)
  moreover have "k \<notin> dom (get m)" using assms(2) by auto
  ultimately have "card ({k} \<union> dom (get m)) = Suc (card (dom (get m)))" by simp
  then show ?thesis
    using assms(1) by (simp add: length_entries invar_insert dom_insert)
qed

end

lemma set_bt_insert_keys: "fst ` set (bt_insert k v m) = {k} \<union> fst ` set m"
  by (induction k v m rule: bt_insert.induct) auto

lemma bt_invar_Cons:
  "bt_invar ((k, v) # m) \<longleftrightarrow> (\<forall>k' \<in> fst ` set m. k < k') \<and> bt_invar m"
  by (auto simp: bt_invar_def)

lemma bt_invar_insert: "bt_invar m \<Longrightarrow> bt_invar (bt_insert k v m)"
proof (induction k v m rule: bt_insert.induct)
  case (1 k v)
  then show ?case by (simp add: bt_invar_def)
next
  case (2 k v k' v' m)
  then show ?case
    by (auto simp: bt_invar_Cons set_bt_insert_keys simp del: bt_insert.simps(1)
        intro: less_trans)
qed

lemma bt_get_insert: "bt_get (bt_insert k v m) = (bt_get m)(k \<mapsto> v)"
  by (induction k v m rule: bt_insert.induct) (auto simp: bt_get_def fun_eq_iff)

lemma bt_get_remove: "bt_get (bt_remove k m) = (bt_get m)(k := None)"
  unfolding bt_get_def bt_remove_def by (induction m) (auto simp: fun_eq_iff)

interpretation bt: ordered_map "[]" bt_insert bt_remove bt_get "\<lambda>m. m" bt_invar
proof
  fix m :: "('k::linorder, 'v) btree_map" and k :: 'k and v :: 'v
  assume inv: "bt_invar m"
  then have "distinct (map fst m)"
    by (simp add: bt_invar_def strict_sorted_iff)
  then show "((k, v) \<in> set m) = (bt_get m k = Some v)"
    by (simp add: bt_get_def)
  show "sorted_wrt (<) (map fst m)" using inv by (simp add: bt_invar_def)
  show "bt_invar (bt_remove k m)"
    using inv unfolding bt_invar_def bt_remove_def
    by (induction m) auto
qed (simp_all add: bt_get_insert bt_get_remove bt_invar_insert, simp_all add: bt_get_def bt_invar_def)

section \<open>Tables\<close>

text \<open>
  A table is the list of its rows. \<open>WHERE\<close> is \<^const>\<open>filter\<close>, \<open>ORDER BY\<close> is \<^const>\<open>sort_key\<close>
  with the listed columns as a lexicographic key, \<open>LIMIT n\<close> is \<^term>\<open>take n\<close>, and \<open>LIMIT 1\<close>
  with \<open>optional()\<close> is \<open>first_row\<close>.
\<close>

definition first_row :: "'r list \<Rightarrow> 'r option" where
  "first_row rs = (case rs of [] \<Rightarrow> None | r # _ \<Rightarrow> Some r)"

lemma first_row_simps [simp]: "first_row [] = None" "first_row (r # rs) = Some r"
  by (simp_all add: first_row_def)

lemma first_row_None_iff [simp]: "first_row rs = None \<longleftrightarrow> rs = []"
  by (cases rs) simp_all

lemma first_row_in_set: "first_row rs = Some r \<Longrightarrow> r \<in> set rs"
  by (cases rs) simp_all

lemma first_row_filter_None:
  "first_row (sort_key f (filter p rs)) = None \<longleftrightarrow> (\<forall>r \<in> set rs. \<not> p r)"
proof -
  have "sort_key f (filter p rs) = [] \<longleftrightarrow> filter p rs = []"
    by (metis length_0_conv length_sort)
  then show ?thesis by (simp add: filter_empty_conv)
qed

lemma first_row_sorted_least:
  assumes "first_row (sort_key f rs) = Some r" and "r' \<in> set rs"
  shows "f r \<le> f r'"
proof -
  obtain ys where ys: "sort_key f rs = r # ys"
    using assms(1) by (cases "sort_key f rs") auto
  then have "sorted (f r # map f ys)" by (metis list.simps(9) sorted_sort_key)
  moreover have "r' \<in> set (r # ys)" using assms(2) ys by (metis set_sort)
  ultimately show ?thesis by auto
qed

lemma first_row_sorted_filter:
  assumes "first_row (sort_key f (filter p rs)) = Some r"
  shows "r \<in> set rs" and "p r"
  using first_row_in_set [OF assms] by auto

text \<open>
  \<open>INSERT \<dots> ON CONFLICT(key) DO UPDATE\<close>: the conflicting row is merged with the new one, a new
  key is appended. \<open>UPDATE \<dots> WHERE\<close> and \<open>DELETE \<dots> WHERE\<close> report the number of rows they hit.
\<close>

definition upsert_row :: "('r \<Rightarrow> 'k) \<Rightarrow> ('r \<Rightarrow> 'r \<Rightarrow> 'r) \<Rightarrow> 'r \<Rightarrow> 'r list \<Rightarrow> 'r list" where
  "upsert_row key merge new rs =
     (if list_ex (\<lambda>r. key r = key new) rs
      then map (\<lambda>r. if key r = key new then merge r new else r) rs
      else rs @ [new])"

definition update_rows :: "('r \<Rightarrow> bool) \<Rightarrow> ('r \<Rightarrow> 'r) \<Rightarrow> 'r list \<Rightarrow> 'r list \<times> nat" where
  "update_rows p f rs = (map (\<lambda>r. if p r then f r else r) rs, length (filter p rs))"

definition delete_rows :: "('r \<Rightarrow> bool) \<Rightarrow> 'r list \<Rightarrow> 'r list \<times> nat" where
  "delete_rows p rs = (filter (\<lambda>r. \<not> p r) rs, length (filter p rs))"

definition row_of :: "('r \<Rightarrow> 'k) \<Rightarrow> 'r list \<Rightarrow> 'k \<Rightarrow> 'r option" where
  "row_of key rs k = find (\<lambda>r. key r = k) rs"

text \<open>
  The contract of a table with a primary key: a merge keeps the key, so upserts, updates that do
  not touch the key, and deletions keep the keys distinct, and a lookup sees the last write.
\<close>

locale keyed_rows =
  fixes key :: "'r \<Rightarrow> 'k" and merge :: "'r \<Rightarrow> 'r \<Rightarrow> 'r"
  assumes key_merge: "key r = key new \<Longrightarrow> key (merge r new) = key new"
begin

definition keyed :: "'r list \<Rightarrow> bool" where
  "keyed rs = distinct (map key rs)"

lemma key_merge_map:
  "map key (map (\<lambda>r. if key r = key new then merge r new else r) rs) = map key rs"
  by (simp add: key_merge)

lemma keyed_upsert: "keyed rs \<Longrightarrow> keyed (upsert_row key merge new rs)"
  using key_merge_map [of new rs]
  by (auto simp: keyed_def upsert_row_def list_ex_iff simp del: map_map)

lemma row_of_Some: "row_of key rs k = Some r \<Longrightarrow> r \<in> set rs \<and> key r = k"
  by (auto simp: row_of_def find_Some_iff)

lemma keyed_row_of: "keyed rs \<Longrightarrow> r \<in> set rs \<Longrightarrow> row_of key rs (key r) = Some r"
proof (induction rs)
  case Nil
  then show ?case by simp
next
  case (Cons a rs)
  then show ?case by (force simp: row_of_def keyed_def)
qed

lemma row_of_map:
  "(\<And>r. key (f r) = key r) \<Longrightarrow> row_of key (map f rs) k = map_option f (row_of key rs k)"
  unfolding row_of_def by (induction rs) auto

lemma row_of_upsert_other:
  assumes "k \<noteq> key new"
  shows "row_of key (upsert_row key merge new rs) k = row_of key rs k"
proof -
  have "find (\<lambda>r. key r = k) (map (\<lambda>r. if key r = key new then merge r new else r) rs)
        = find (\<lambda>r. key r = k) rs"
    using assms key_merge by (induction rs) auto
  moreover have "find (\<lambda>r. key r = k) (rs @ [new]) = find (\<lambda>r. key r = k) rs"
    using assms by (induction rs) auto
  ultimately show ?thesis by (simp add: row_of_def upsert_row_def)
qed

lemma row_of_upsert_same:
  "row_of key (upsert_row key merge new rs) (key new) =
     Some (case row_of key rs (key new) of None \<Rightarrow> new | Some r \<Rightarrow> merge r new)"
proof (cases "list_ex (\<lambda>r. key r = key new) rs")
  case True
  then have "find (\<lambda>r. key r = key new) (map (\<lambda>r. if key r = key new then merge r new else r) rs)
      = map_option (\<lambda>r. merge r new) (find (\<lambda>r. key r = key new) rs)"
    using key_merge by (induction rs) auto
  moreover have "find (\<lambda>r. key r = key new) rs \<noteq> None"
    using True by (auto simp: find_None_iff list_ex_iff)
  ultimately show ?thesis
    using True by (auto simp: row_of_def upsert_row_def)
next
  case False
  then have none: "find (\<lambda>r. key r = key new) rs = None"
    by (auto simp: find_None_iff list_ex_iff)
  then have "find (\<lambda>r. key r = key new) (rs @ [new]) = Some new"
    by (induction rs) (auto split: if_splits)
  with False none show ?thesis
    by (auto simp: row_of_def upsert_row_def list_ex_iff)
qed

lemma set_upsert:
  "r \<in> set (upsert_row key merge new rs) \<Longrightarrow>
   r = new \<or> (\<exists>r' \<in> set rs. key r' = key new \<and> r = merge r' new) \<or> (r \<in> set rs \<and> key r \<noteq> key new)"
  by (auto simp: upsert_row_def list_ex_iff split: if_splits)

lemma keyed_update: "keyed rs \<Longrightarrow> (\<And>r. key (f r) = key r) \<Longrightarrow> keyed (fst (update_rows p f rs))"
  by (simp add: keyed_def update_rows_def comp_def if_distrib cong: if_cong)

lemma keyed_delete: "keyed rs \<Longrightarrow> keyed (fst (delete_rows p rs))"
  by (simp add: keyed_def delete_rows_def distinct_map_filter)

lemma update_by_key_count:
  assumes "keyed rs"
  shows "snd (update_rows (\<lambda>r. key r = k \<and> p r) f rs) \<le> 1"
proof -
  have "length (filter (\<lambda>r. key r = k) rs) \<le> 1"
    using assms unfolding keyed_def
  proof (induction rs)
    case (Cons a rs)
    have "filter (\<lambda>r. key r = key a) rs = []"
      using Cons.prems by (simp add: filter_empty_conv) (metis image_eqI)
    with Cons show ?case by auto
  qed simp
  moreover have "length (filter (\<lambda>r. key r = k \<and> p r) rs) \<le> length (filter (\<lambda>r. key r = k) rs)"
    by (induction rs) auto
  ultimately show ?thesis by (simp add: update_rows_def)
qed

end

section \<open>Text codecs\<close>

text \<open>
  An enum persisted as text: every value has a code the parser reads back. The clients rely on
  the round trip, on different values having different codes, and on the parser accepting nothing
  but codes.
\<close>

locale text_codec =
  fixes encode :: "'a \<Rightarrow> string" and parse :: "string \<Rightarrow> 'a option"
  assumes parse_encode: "parse (encode a) = Some a"
    and encode_parse: "parse s = Some a \<Longrightarrow> encode a = s"
begin

lemma encode_inject: "encode a = encode b \<longleftrightarrow> a = b"
  by (metis option.inject parse_encode)

lemma parse_Some_iff: "parse s = Some a \<longleftrightarrow> s = encode a"
  using parse_encode encode_parse by blast

lemma parse_None_iff: "parse s = None \<longleftrightarrow> s \<notin> range encode"
  by (metis not_None_eq parse_Some_iff rangeE rangeI)

end

end
