(* ===== verification/Halquen_Domain.thy ===== *)
theory Halquen_Domain
  imports Halquen_Prelude
begin

text \<open>
  The fundamental data of \<open>crates/domain\<close>: typed identifiers and their validators (\<open>ids.rs\<close>),
  action requests (\<open>action.rs\<close>), trust classes (\<open>trust.rs\<close>), capability descriptors with their
  validation (\<open>capability.rs\<close>) and registered applications (\<open>application.rs\<close>). The theorems
  characterise the identifier grammar, the shape of generated identifiers, and what a validated
  descriptor or registration guarantees.
\<close>

section \<open>Identifiers\<close>

datatype id_error = Id_Empty | Id_TooLong | Id_InvalidCharacter | Id_InvalidCapabilityFormat

definition MAX_ID_LEN :: nat where "MAX_ID_LEN = 128"

definition id_byte :: "char \<Rightarrow> bool" where
  "id_byte c = (is_ascii_alphanumeric c \<or> c \<in> {CHR '':'', CHR ''.'', CHR ''_'', CHR ''-''})"

definition validate_opaque :: "string \<Rightarrow> (id_error, unit) result" where
  "validate_opaque value =
     (if value = [] then Inl Id_Empty
      else if length value > MAX_ID_LEN then Inl Id_TooLong
      else if \<not> list_all id_byte value then Inl Id_InvalidCharacter
      else Inr ())"

definition segment_byte :: "char \<Rightarrow> bool" where
  "segment_byte c = (is_ascii_lowercase c \<or> is_ascii_digit c \<or> c = CHR ''_'')"

fun valid_capability_segment :: "string \<Rightarrow> bool" where
  "valid_capability_segment [] = False"
| "valid_capability_segment (c # cs) = (is_ascii_lowercase c \<and> list_all segment_byte cs)"

definition validate_capability :: "string \<Rightarrow> (id_error, unit) result" where
  "validate_capability value =
     and_then (validate_opaque value) (\<lambda>_.
       let segments = split_on CHR ''.'' value;
           namespace = (case segments of [] \<Rightarrow> [] | s # _ \<Rightarrow> s);
           operation = (case segments of _ # s # _ \<Rightarrow> s | _ \<Rightarrow> []);
           rest = drop 2 segments
       in if \<not> valid_capability_segment namespace \<or> \<not> valid_capability_segment operation
             \<or> list_ex (\<lambda>s. \<not> valid_capability_segment s) rest
          then Inl Id_InvalidCapabilityFormat
          else Inr ())"

text \<open>The \<open>typed_id!\<close> constructor, for the capability validator and for the opaque one.\<close>

definition CapabilityId_new :: "string \<Rightarrow> (id_error, string) result" where
  "CapabilityId_new value = and_then (validate_capability value) (\<lambda>_. Inr value)"

definition OpaqueId_new :: "string \<Rightarrow> (id_error, string) result" where
  "OpaqueId_new value = and_then (validate_opaque value) (\<lambda>_. Inr value)"

text \<open>
  Every identifier type is a newtype over \<open>String\<close>; the newtypes only separate the name spaces,
  which the model does with synonyms.
\<close>

type_synonym capability_id = string
type_synonym entity_id = string
type_synonym execution_id = string
type_synonym proposal_id = string
type_synonym audit_id = string
type_synonym permission_id = string
type_synonym resource_label_id = string
type_synonym agent_id = string
type_synonym agent_instance_id = string
type_synonym agent_session_id = string
type_synonym daemon_session_id = string
type_synonym chat_session_id = string
type_synonym behaviour_event_id = string
type_synonym evidence_id = string
type_synonym memory_id = string
type_synonym memory_revision_id = string

text \<open>\<open>generated_value\<close>: the process id, the clock and the process-wide counter are its inputs.\<close>

definition generated_value :: "string \<Rightarrow> nat \<Rightarrow> nat \<Rightarrow> nat \<Rightarrow> string" where
  "generated_value pre pid nanos sequence =
     pre @ '':'' @ dec pid @ '':'' @ dec nanos @ '':'' @ dec sequence"

section \<open>Actions and trust\<close>

datatype action_argument_kind = ArgKind_None | ArgKind_OpenApp

datatype action_arguments = Args_None | Args_OpenApp entity_id

fun arguments_kind :: "action_arguments \<Rightarrow> action_argument_kind" where
  "arguments_kind Args_None = ArgKind_None"
| "arguments_kind (Args_OpenApp app) = ArgKind_OpenApp"

record action_request =
  ar_capability_id :: capability_id
  ar_arguments :: action_arguments

datatype trust_class =
  TC_UserExplicit | TC_LocalVerified | TC_UserConfirmedResult | TC_UserBehaviour
| TC_AiInferred | TC_PluginAsserted | TC_ExternalContent

definition independently_authorizes_procedural_memory :: "trust_class \<Rightarrow> bool" where
  "independently_authorizes_procedural_memory t =
     (case t of TC_UserExplicit \<Rightarrow> True | TC_UserConfirmedResult \<Rightarrow> True | _ \<Rightarrow> False)"

section \<open>Capability descriptors\<close>

datatype risk_class =
  ReadOnly | LocalSideEffect | ReversibleLocalWrite | ExternalSideEffect | Destructive
| Privileged | UnknownRisk

datatype confirmation_policy = RiskBased | AlwaysConfirm

datatype scope_requirement =
  Scope_Application entity_id | Scope_PathPrefix string | Scope_Named string

text \<open>The derived \<open>Ord\<close>: the variants in declaration order, then their field.\<close>

fun scope_key :: "scope_requirement \<Rightarrow> nat \<times> string" where
  "scope_key (Scope_Application e) = (0, e)"
| "scope_key (Scope_PathPrefix p) = (1, p)"
| "scope_key (Scope_Named s) = (2, s)"

lemma scope_key_inject: "scope_key a = scope_key b \<longleftrightarrow> a = b"
  by (cases a; cases b) auto

instantiation scope_requirement :: linorder
begin

definition less_eq_scope_requirement :: "scope_requirement \<Rightarrow> scope_requirement \<Rightarrow> bool" where
  "less_eq_scope_requirement a b = (scope_key a \<le> scope_key b)"

definition less_scope_requirement :: "scope_requirement \<Rightarrow> scope_requirement \<Rightarrow> bool" where
  "less_scope_requirement a b = (scope_key a < scope_key b)"

instance
  by standard
    (auto simp: less_eq_scope_requirement_def less_scope_requirement_def scope_key_inject
      dest: order.antisym)

end

record capability_descriptor =
  cd_id :: capability_id
  cd_version :: u32
  cd_description :: string
  cd_risk :: risk_class
  cd_side_effect :: bool
  cd_idempotent :: bool
  cd_reversible :: bool
  cd_scope_requirements :: "scope_requirement list"
  cd_confirmation :: confirmation_policy
  cd_timeout_ms :: u64
  cd_arguments :: action_argument_kind

datatype capability_validation_error =
  InvalidId id_error | ZeroVersion | InvalidDescription | InvalidTimeout | ReadOnlySideEffect
| ReadOnlyReversible | InvalidLocalSideEffect | InvalidReversibleLocalWrite
| RiskRequiresSideEffect | DestructiveReversible | ReversibleWithoutSideEffect

definition descriptor_validate ::
  "capability_descriptor \<Rightarrow> (capability_validation_error, unit) result" where
  "descriptor_validate d =
     and_then (map_err InvalidId (CapabilityId_new (cd_id d))) (\<lambda>_.
     if cd_version d = 0 then Inl ZeroVersion
     else if trim (cd_description d) = [] \<or> length (cd_description d) > 512
       then Inl InvalidDescription
     else if \<not> (1 \<le> cd_timeout_ms d \<and> cd_timeout_ms d \<le> 300000) then Inl InvalidTimeout
     else if cd_risk d = ReadOnly \<and> cd_side_effect d then Inl ReadOnlySideEffect
     else if cd_risk d = ReadOnly \<and> cd_reversible d then Inl ReadOnlyReversible
     else if cd_risk d = LocalSideEffect \<and> (\<not> cd_side_effect d \<or> cd_reversible d)
       then Inl InvalidLocalSideEffect
     else if cd_risk d = ReversibleLocalWrite \<and> (\<not> cd_side_effect d \<or> \<not> cd_reversible d)
       then Inl InvalidReversibleLocalWrite
     else if (cd_risk d = ExternalSideEffect \<or> cd_risk d = Destructive) \<and> \<not> cd_side_effect d
       then Inl RiskRequiresSideEffect
     else if cd_risk d = Destructive \<and> cd_reversible d then Inl DestructiveReversible
     else if cd_reversible d \<and> \<not> cd_side_effect d then Inl ReversibleWithoutSideEffect
     else Inr ())"

section \<open>Validation errors and registered applications\<close>

datatype security_validation_error =
  InvalidBounds | InvalidProvenance | InvalidAuthority | InvalidPermission | InvalidResourceLabel
| InvalidAgentConfiguration | InvalidExecutableIdentity | InvalidApplicationRegistration

datatype executable_ownership = RootOnly | RootOrCurrentUser

record executable_identity =
  ei_canonical_path :: string
  ei_device :: u64
  ei_inode :: u64
  ei_owner_uid :: u32
  ei_size :: u64
  ei_modified_seconds :: i64
  ei_modified_nanoseconds :: i64
  ei_sha256_hex :: "string option"

definition lower_hex_byte :: "char \<Rightarrow> bool" where
  "lower_hex_byte c = (is_ascii_digit c \<or> (97 \<le> byte c \<and> byte c \<le> 102))"

definition identity_validate :: "executable_identity \<Rightarrow> (security_validation_error, unit) result" where
  "identity_validate i =
     (if \<not> starts_with (ei_canonical_path i) ''/''
         \<or> length (ei_canonical_path i) > 1024
         \<or> \<not> (0 \<le> ei_modified_nanoseconds i \<and> ei_modified_nanoseconds i < 1000000000)
         \<or> is_some_and (\<lambda>hash. length hash \<noteq> 64 \<or> \<not> list_all lower_hex_byte hash) (ei_sha256_hex i)
      then Inl InvalidExecutableIdentity
      else Inr ())"

record registered_application =
  ra_entity_id :: entity_id
  ra_display_name :: string
  ra_executable :: string
  ra_arguments :: "string list"
  ra_ownership :: executable_ownership
  ra_identity :: executable_identity
  ra_enabled :: bool
  ra_created_at_ms :: i64
  ra_updated_at_ms :: i64

definition application_validate ::
  "registered_application \<Rightarrow> (security_validation_error, unit) result" where
  "application_validate a =
     (if \<not> starts_with (ra_entity_id a) ''app:''
         \<or> trim (ra_display_name a) = []
         \<or> length (ra_display_name a) > 128
         \<or> \<not> starts_with (ra_executable a) ''/''
         \<or> length (ra_executable a) > 1024
         \<or> length (ra_arguments a) > 32
         \<or> list_ex (\<lambda>argument. length argument > 1024 \<or> char_of (0::nat) \<in> set argument) (ra_arguments a)
         \<or> ra_updated_at_ms a < ra_created_at_ms a
         \<or> ei_canonical_path (ra_identity a) \<noteq> ra_executable a
      then Inl InvalidApplicationRegistration
      else identity_validate (ra_identity a))"

section \<open>Facts\<close>

lemma validate_opaque_ok_iff:
  "validate_opaque s = Inr () \<longleftrightarrow> s \<noteq> [] \<and> length s \<le> 128 \<and> (\<forall>c \<in> set s. id_byte c)"
  by (auto simp: validate_opaque_def MAX_ID_LEN_def list_all_iff)

lemma segment_byte_id_byte: "segment_byte c \<Longrightarrow> id_byte c"
  by (auto simp: segment_byte_def id_byte_def is_ascii_alphanumeric_def)

lemma segment_byte_not_dot: "segment_byte c \<Longrightarrow> c \<noteq> CHR ''.''"
  by (auto simp: segment_byte_def is_ascii_lowercase_def is_ascii_digit_def byte_def)

lemma valid_segment_bytes: "valid_capability_segment s \<Longrightarrow> c \<in> set s \<Longrightarrow> segment_byte c"
  by (cases s) (auto simp: segment_byte_def list_all_iff)

lemma valid_segment_no_dot: "valid_capability_segment s \<Longrightarrow> CHR ''.'' \<notin> set s"
  using valid_segment_bytes segment_byte_not_dot by blast

text \<open>Joining segments with dots, the inverse of splitting.\<close>

fun join_dots :: "string list \<Rightarrow> string" where
  "join_dots [] = []"
| "join_dots [s] = s"
| "join_dots (s # ss) = s @ CHR ''.'' # join_dots ss"

lemma split_join_dots:
  "ss \<noteq> [] \<Longrightarrow> \<forall>s \<in> set ss. CHR ''.'' \<notin> set s \<Longrightarrow> split_on CHR ''.'' (join_dots ss) = ss"
  by (induction ss rule: join_dots.induct) (auto simp: split_on_append_sep split_on_no_sep)

lemma join_split_dots: "join_dots (split_on CHR ''.'' s) = s"
proof (induction s)
  case Nil
  then show ?case by simp
next
  case (Cons x xs)
  obtain a as where sp: "split_on CHR ''.'' xs = a # as"
    using split_on_not_Nil by (metis neq_Nil_conv)
  with Cons show ?case by (cases as) auto
qed

lemma validate_capability_segments:
  "validate_capability s = Inr () \<longleftrightarrow>
     validate_opaque s = Inr () \<and>
     2 \<le> length (split_on CHR ''.'' s) \<and> list_all valid_capability_segment (split_on CHR ''.'' s)"
proof -
  obtain a as where sp: "split_on CHR ''.'' s = a # as"
    using split_on_not_Nil by (metis neq_Nil_conv)
  show ?thesis
    by (cases as)
      (auto simp: validate_capability_def sp Let_def and_then_Inr_iff list_ex_iff list_all_iff)
qed

lemma CapabilityId_new_ok: "CapabilityId_new s = Inr t \<longleftrightarrow> t = s \<and> validate_capability s = Inr ()"
  by (auto simp: CapabilityId_new_def and_then_Inr_iff)

lemma descriptor_validate_effects:
  assumes "descriptor_validate d = Inr ()"
  shows "cd_risk d = ReadOnly \<Longrightarrow> \<not> cd_side_effect d"
    and "cd_reversible d \<Longrightarrow> cd_side_effect d"
    and "cd_risk d \<in> {LocalSideEffect, ReversibleLocalWrite, ExternalSideEffect, Destructive} \<Longrightarrow>
         cd_side_effect d"
    and "1 \<le> cd_timeout_ms d \<and> cd_timeout_ms d \<le> 300000"
  using assms by (auto simp: descriptor_validate_def and_then_Inr_iff split: if_splits)

section \<open>Properties\<close>

lemma capability_id_segments:
  "CapabilityId_new s = Inr t \<longleftrightarrow>
     t = s \<and> length s \<le> 128 \<and>
     (\<exists>segments. 2 \<le> length segments \<and> list_all valid_capability_segment segments
        \<and> s = join_dots segments)"
proof -
  have forward: "list_all id_byte s" if "list_all valid_capability_segment (split_on CHR ''.'' s)"
  proof -
    have "c = CHR ''.'' \<or> segment_byte c" if "c \<in> set s" for c
      using set_split_on [of s "CHR ''.''"] that \<open>list_all _ _\<close> valid_segment_bytes
      by (fastforce simp: list_all_iff)
    moreover have "id_byte CHR ''.''" by (simp add: id_byte_def)
    ultimately have "id_byte c" if "c \<in> set s" for c
      using that segment_byte_id_byte by metis
    then show ?thesis by (simp add: list_all_iff)
  qed
  have "validate_capability s = Inr () \<longleftrightarrow> length s \<le> 128 \<and> 2 \<le> length (split_on CHR ''.'' s)
      \<and> list_all valid_capability_segment (split_on CHR ''.'' s)"
    using forward by (auto simp: validate_capability_segments validate_opaque_ok_iff list_all_iff)
  moreover have "(2 \<le> length (split_on CHR ''.'' s)
        \<and> list_all valid_capability_segment (split_on CHR ''.'' s)) \<longleftrightarrow>
      (\<exists>segments. 2 \<le> length segments \<and> list_all valid_capability_segment segments
        \<and> s = join_dots segments)" (is "?L \<longleftrightarrow> ?R")
  proof
    show "?L \<Longrightarrow> ?R" using join_split_dots by metis
    assume ?R
    then obtain ss where ss: "2 \<le> length ss" "list_all valid_capability_segment ss" "s = join_dots ss"
      by blast
    then have "split_on CHR ''.'' s = ss"
      by (metis split_join_dots list.size(3) list_all_iff not_numeral_le_zero valid_segment_no_dot)
    with ss show ?L by simp
  qed
  ultimately show ?thesis by (auto simp: CapabilityId_new_ok)
qed

section \<open>The grammar of capability identifiers\<close>

text \<open>
  A segment is a lowercase letter, or a segment and one more lowercase letter, digit or underscore. An
  identifier is two segments joined by a dot, or an identifier, a dot and one more segment.
\<close>

inductive capability_segment :: "string \<Rightarrow> bool" where
  letter: "c \<in> set ''abcdefghijklmnopqrstuvwxyz'' \<Longrightarrow> capability_segment [c]"
| longer: "capability_segment s \<Longrightarrow> c \<in> set ''abcdefghijklmnopqrstuvwxyz0123456789_'' \<Longrightarrow> capability_segment (s @ [c])"

inductive capability_name :: "string \<Rightarrow> bool" where
  two: "capability_segment namespace \<Longrightarrow> capability_segment operation \<Longrightarrow>
    capability_name (namespace @ ''.'' @ operation)"
| deeper: "capability_name name \<Longrightarrow> capability_segment s \<Longrightarrow> capability_name (name @ ''.'' @ s)"

lemma lowercase_letters: "is_ascii_lowercase c \<longleftrightarrow> c \<in> set ''abcdefghijklmnopqrstuvwxyz''"
proof -
  have "map char_of [97..<123::nat] = ''abcdefghijklmnopqrstuvwxyz''" by code_simp
  from byte_range_set [OF this, of c] show ?thesis unfolding is_ascii_lowercase_def by linarith
qed

lemma digit_characters: "is_ascii_digit c \<longleftrightarrow> c \<in> set ''0123456789''"
proof -
  have "map char_of [48..<58::nat] = ''0123456789''" by code_simp
  from byte_range_set [OF this, of c] show ?thesis unfolding is_ascii_digit_def by linarith
qed

lemma segment_characters: "segment_byte c \<longleftrightarrow> c \<in> set ''abcdefghijklmnopqrstuvwxyz0123456789_''"
  by (auto simp: segment_byte_def lowercase_letters digit_characters)

lemma valid_segment_snoc: "s \<noteq> [] \<Longrightarrow> valid_capability_segment (s @ [c]) \<longleftrightarrow> valid_capability_segment s \<and> segment_byte c"
  by (cases s) auto

lemma segment_grammar: "valid_capability_segment s \<longleftrightarrow> capability_segment s"
proof
  show "capability_segment s" if "valid_capability_segment s"
    using that
  proof (induction s rule: rev_induct)
    case (snoc c s)
    show ?case
    proof (cases "s = []")
      case True
      with snoc.prems show ?thesis by (auto simp: lowercase_letters intro!: capability_segment.letter)
    next
      case False
      with snoc show ?thesis
        by (auto simp: valid_segment_snoc segment_characters intro!: capability_segment.longer)
    qed
  qed simp
  show "valid_capability_segment s" if "capability_segment s"
    using that
  proof (induction rule: capability_segment.induct)
    case (letter c)
    then show ?case by (simp add: lowercase_letters)
  next
    case (longer s c)
    then show ?case by (cases "s = []") (simp_all add: valid_segment_snoc segment_characters)
  qed
qed

lemma join_dots_snoc: "ss \<noteq> [] \<Longrightarrow> join_dots (ss @ [s]) = join_dots ss @ ''.'' @ s"
  by (induction ss rule: join_dots.induct) simp_all

lemma name_grammar:
  "capability_name s \<longleftrightarrow> (\<exists>segments. 2 \<le> length segments \<and> list_all capability_segment segments \<and> s = join_dots segments)"
proof
  show "\<exists>segments. 2 \<le> length segments \<and> list_all capability_segment segments \<and> s = join_dots segments"
    if "capability_name s"
    using that
  proof (induction rule: capability_name.induct)
    case (two namespace operation)
    then show ?case by (intro exI [of _ "[namespace, operation]"]) simp
  next
    case (deeper name s)
    then obtain ss where ss: "2 \<le> length ss" "list_all capability_segment ss" "name = join_dots ss" by blast
    then have "ss \<noteq> []" by auto
    with ss deeper show ?case by (intro exI [of _ "ss @ [s]"]) (simp add: join_dots_snoc)
  qed
  have "capability_name (join_dots ss)" if "2 \<le> length ss" "list_all capability_segment ss" for ss
    using that
  proof (induction ss rule: rev_induct)
    case (snoc s ss)
    show ?case
    proof (cases "2 \<le> length ss")
      case True
      then have "ss \<noteq> []" by auto
      with True snoc show ?thesis using capability_name.deeper [of "join_dots ss" s] by (simp add: join_dots_snoc)
    next
      case False
      with snoc.prems have "length ss = 1" by simp
      then obtain a where "ss = [a]" by (auto simp: length_Suc_conv)
      with snoc.prems show ?thesis using capability_name.two [of a s] by simp
    qed
  qed simp
  then show "capability_name s"
    if "\<exists>segments. 2 \<le> length segments \<and> list_all capability_segment segments \<and> s = join_dots segments"
    using that by blast
qed

text \<open>
  C38. A string is accepted as a capability identifier exactly if it is at most 128 bytes long and a name
  of the grammar: two or more segments joined by dots, each a letter from \<open>a\<close> to \<open>z\<close> followed by such
  letters, digits and underscores. The accepted value is the string itself.
\<close>
theorem capability_id_grammar:
  "CapabilityId_new s = Inr t \<longleftrightarrow> t = s \<and> length s \<le> 128 \<and> capability_name s"
  unfolding name_grammar
  using capability_id_segments by (simp add: segment_grammar [abs_def] list_all_iff)

text \<open>
  Two identifiers generated for the same prefix are equal only if they come from the same
  process, the same clock reading and the same value of the process-wide counter: identifiers of
  one process never collide.
\<close>
lemma generated_value_unique:
  "generated_value pre pid nanos sequence = generated_value pre pid' nanos' sequence' \<longleftrightarrow>
     pid = pid' \<and> nanos = nanos' \<and> sequence = sequence'"
proof -
  have sep: "a @ '':'' @ b = a' @ '':'' @ b' \<longleftrightarrow> a = a' \<and> b = b'"
    if "CHR '':'' \<notin> set a" "CHR '':'' \<notin> set a'" for a b a' b' :: string
  proof
    assume "a @ '':'' @ b = a' @ '':'' @ b'"
    then have "split_on CHR '':'' (a @ CHR '':'' # b) = split_on CHR '':'' (a' @ CHR '':'' # b')"
      by simp
    then have "a = a'" using that by (simp add: split_on_append_sep)
    with \<open>a @ '':'' @ b = a' @ '':'' @ b'\<close> show "a = a' \<and> b = b'" by simp
  qed simp
  have nocolon: "CHR '':'' \<notin> set (dec n)" for n
    using dec_digits [of "CHR '':''" n] by (auto simp: is_ascii_digit_def byte_def)
  show ?thesis by (simp add: generated_value_def sep nocolon del: append.simps)
qed

text \<open>
  A generated identifier satisfies the opaque-identifier validator: with a valid prefix of at
  most 32 bytes, a 32-bit process id, a 128-bit clock reading and a 64-bit counter, the generated
  value is accepted by the checked constructor, although \<open>generate\<close> bypasses it.
\<close>
lemma generated_value_valid:
  assumes "list_all id_byte pre" and "length pre \<le> 32"
    and "pid < 2 ^ 32" and "nanos < 2 ^ 128" and "sequence < 2 ^ 64"
  shows "OpaqueId_new (generated_value pre pid nanos sequence)
           = Inr (generated_value pre pid nanos sequence)"
proof -
  have digits: "id_byte c" if "c \<in> set (dec n)" for c n
    using dec_digits [OF that] by (simp add: id_byte_def is_ascii_alphanumeric_def)
  have "length (dec pid) \<le> 10" "length (dec nanos) \<le> 39" "length (dec sequence) \<le> 20"
    using assms(3-5) by (auto intro!: length_dec_le)
  with assms(2) have "length (generated_value pre pid nanos sequence) \<le> 128"
    by (simp add: generated_value_def)
  moreover have "\<forall>c \<in> set (generated_value pre pid nanos sequence). id_byte c"
    using assms(1) digits by (auto simp: generated_value_def list_all_iff id_byte_def [of "CHR '':''"])
  ultimately have "validate_opaque (generated_value pre pid nanos sequence) = Inr ()"
    by (simp add: validate_opaque_ok_iff) (simp add: generated_value_def)
  then show ?thesis by (simp add: OpaqueId_new_def)
qed

end
