(* ===== verification/Halquen_Security.thy ===== *)
theory Halquen_Security
  imports Halquen_Domain
begin

text \<open>
  The authority data of \<open>crates/domain/src/security.rs\<close>: provenance and action contexts with their
  constructors and validation, data classifications and their lattice, proposals, exact permission
  scopes and grants, resource labels, behaviour events, and agent configurations. The theorems show
  what a validated context guarantees about origin and authority, that untrusted constructors never
  carry authority, that classification never loses sensitivity, and that a grant is exact and is
  active only inside its lifetime.
\<close>

section \<open>Origins, authority and provenance\<close>

definition MAX_PROVENANCE_HOPS :: nat where "MAX_PROVENANCE_HOPS = 8"
definition MAX_ACTION_RESOURCES :: nat where "MAX_ACTION_RESOURCES = 16"

datatype action_origin =
  AO_UserExplicit | AO_LocalResolver | AO_AiProposal | AO_ExternalContent | AO_Plugin
| AO_StoredProcedure | AO_Agent | AO_System

datatype authority_class = Auth_None | Auth_User | Auth_HalquenCore

datatype actor_kind =
  Actor_User | Actor_Halquen | Actor_Model | Actor_Plugin | Actor_StoredProcedure | Actor_Agent
| Actor_System

record provenance_hop =
  hop_origin :: action_origin
  hop_actor :: actor_kind
  hop_actor_id :: "string option"

record action_provenance =
  pr_initiating_request_id :: "string option"
  pr_hops :: "provenance_hop list"

section \<open>Classifications\<close>

datatype resource_classification =
  RC_Public | RC_Local | RC_Personal | RC_Sensitive | RC_Secret | RC_Production | RC_SystemCritical

datatype data_classification = DC_Public | DC_Personal | DC_Sensitive | DC_Secret | DC_Production

text \<open>The derived \<open>Ord\<close> of \<open>DataClassification\<close>: declaration order.\<close>

fun data_rank :: "data_classification \<Rightarrow> nat" where
  "data_rank DC_Public = 0"
| "data_rank DC_Personal = 1"
| "data_rank DC_Sensitive = 2"
| "data_rank DC_Secret = 3"
| "data_rank DC_Production = 4"

lemma data_rank_inject: "data_rank a = data_rank b \<longleftrightarrow> a = b"
  by (cases a; cases b) auto

instantiation data_classification :: linorder
begin

definition less_eq_data_classification :: "data_classification \<Rightarrow> data_classification \<Rightarrow> bool" where
  "less_eq_data_classification a b = (data_rank a \<le> data_rank b)"

definition less_data_classification :: "data_classification \<Rightarrow> data_classification \<Rightarrow> bool" where
  "less_data_classification a b = (data_rank a < data_rank b)"

instance
  by standard
    (auto simp: less_eq_data_classification_def less_data_classification_def data_rank_inject
      dest: order.antisym)

end

text \<open>\<open>Iterator::max\<close> of the sources, \<open>Public\<close> for none.\<close>

fun inherited_from :: "data_classification list \<Rightarrow> data_classification" where
  "inherited_from [] = DC_Public"
| "inherited_from (x # xs) = foldl max x xs"

datatype trusted_declassification_authority = TDA_UserExplicit | TDA_HalquenPolicy

definition declassify ::
  "data_classification \<Rightarrow> data_classification \<Rightarrow> trusted_declassification_authority
   \<Rightarrow> data_classification" where
  "declassify self target authority = min target self"

datatype resource_kind =
  RK_Application | RK_File | RK_NetworkEndpoint | RK_Database | RK_Agent | RK_Plugin | RK_System

record resource_descriptor =
  rd_kind :: resource_kind
  rd_identifier :: string
  rd_classification :: resource_classification

datatype destination_class =
  Dest_Local | Dest_TrustedEndpoint | Dest_External | Dest_UntrustedExternal

record data_flow_context =
  df_source :: resource_descriptor
  df_data_classification :: data_classification
  df_destination :: destination_class

section \<open>Action contexts\<close>

record agent_execution_identity =
  ax_agent_id :: agent_id
  ax_instance_id :: agent_instance_id
  ax_session_id :: agent_session_id

record action_context =
  ac_origin :: action_origin
  ac_trust :: trust_class
  ac_authority :: authority_class
  ac_provenance :: action_provenance
  ac_resources :: "resource_descriptor list"
  ac_data_flow :: "data_flow_context option"
  ac_agent :: "agent_execution_identity option"

definition trusted_user :: "string option \<Rightarrow> action_context" where
  "trusted_user request_id =
     \<lparr>ac_origin = AO_UserExplicit, ac_trust = TC_UserExplicit, ac_authority = Auth_User,
      ac_provenance = \<lparr>pr_initiating_request_id = request_id,
        pr_hops = [\<lparr>hop_origin = AO_UserExplicit, hop_actor = Actor_User, hop_actor_id = None\<rparr>]\<rparr>,
      ac_resources = [], ac_data_flow = None, ac_agent = None\<rparr>"

definition local_resolution :: "string option \<Rightarrow> action_context" where
  "local_resolution request_id =
     (let context = trusted_user request_id in
      context\<lparr>ac_origin := AO_LocalResolver, ac_authority := Auth_HalquenCore,
        ac_provenance := (ac_provenance context)\<lparr>pr_hops := pr_hops (ac_provenance context) @
          [\<lparr>hop_origin = AO_LocalResolver, hop_actor = Actor_Halquen,
            hop_actor_id = Some ''local-resolver''\<rparr>]\<rparr>\<rparr>)"

fun untrusted_trust :: "action_origin \<Rightarrow> (trust_class \<times> actor_kind) option" where
  "untrusted_trust AO_AiProposal = Some (TC_AiInferred, Actor_Model)"
| "untrusted_trust AO_ExternalContent = Some (TC_ExternalContent, Actor_System)"
| "untrusted_trust AO_Plugin = Some (TC_PluginAsserted, Actor_Plugin)"
| "untrusted_trust AO_Agent = Some (TC_ExternalContent, Actor_Agent)"
| "untrusted_trust _ = None"

definition untrusted :: "action_origin \<Rightarrow> string option \<Rightarrow> action_context option" where
  "untrusted origin actor_id =
     (case untrusted_trust origin of
        None \<Rightarrow> None
      | Some (trust, actor) \<Rightarrow> Some
          \<lparr>ac_origin = origin, ac_trust = trust, ac_authority = Auth_None,
           ac_provenance = \<lparr>pr_initiating_request_id = None,
             pr_hops = [\<lparr>hop_origin = origin, hop_actor = actor, hop_actor_id = actor_id\<rparr>]\<rparr>,
           ac_resources = [], ac_data_flow = None, ac_agent = None\<rparr>)"

definition agent_context :: "agent_execution_identity \<Rightarrow> action_context" where
  "agent_context identity =
     \<lparr>ac_origin = AO_Agent, ac_trust = TC_ExternalContent, ac_authority = Auth_None,
      ac_provenance = \<lparr>pr_initiating_request_id = None,
        pr_hops = [\<lparr>hop_origin = AO_Agent, hop_actor = Actor_Agent,
                    hop_actor_id = Some (ax_agent_id identity)\<rparr>]\<rparr>,
      ac_resources = [], ac_data_flow = None, ac_agent = Some identity\<rparr>"

definition with_resource :: "action_context \<Rightarrow> resource_descriptor \<Rightarrow> action_context" where
  "with_resource context resource =
     (if length (ac_resources context) < MAX_ACTION_RESOURCES
      then context\<lparr>ac_resources := ac_resources context @ [resource]\<rparr>
      else context)"

definition with_data_flow :: "action_context \<Rightarrow> data_flow_context \<Rightarrow> action_context" where
  "with_data_flow context data_flow = context\<lparr>ac_data_flow := Some data_flow\<rparr>"

definition valid_identifier :: "string \<Rightarrow> nat \<Rightarrow> bool" where
  "valid_identifier value max_len = (value \<noteq> [] \<and> length value \<le> max_len \<and> list_all id_byte value)"

text \<open>The guards of the final \<open>match\<close> in source order; an arm whose guard fails falls through.\<close>

definition validate_authority :: "action_context \<Rightarrow> (security_validation_error, unit) result" where
  "validate_authority c =
     (if ac_origin c = AO_UserExplicit
         \<and> (ac_trust c \<noteq> TC_UserExplicit \<or> ac_authority c \<noteq> Auth_User)
        then Inl InvalidAuthority
      else if ac_origin c = AO_LocalResolver
         \<and> (ac_authority c \<noteq> Auth_HalquenCore
            \<or> map_option hop_origin (first_row (pr_hops (ac_provenance c))) \<noteq> Some AO_UserExplicit)
        then Inl InvalidAuthority
      else if ac_origin c \<in> {AO_AiProposal, AO_ExternalContent, AO_Plugin}
         \<and> ac_authority c \<noteq> Auth_None
        then Inl InvalidAuthority
      else if ac_origin c = AO_Agent \<and> (ac_authority c \<noteq> Auth_None \<or> ac_agent c = None)
        then Inl InvalidAuthority
      else if ac_origin c \<noteq> AO_Agent \<and> ac_agent c \<noteq> None
        then Inl InvalidProvenance
      else Inr ())"

definition context_validate :: "action_context \<Rightarrow> (security_validation_error, unit) result" where
  "context_validate c =
     (if pr_hops (ac_provenance c) = []
         \<or> length (pr_hops (ac_provenance c)) > MAX_PROVENANCE_HOPS
         \<or> length (ac_resources c) > MAX_ACTION_RESOURCES
        then Inl InvalidBounds
      else if is_some_and (\<lambda>v. \<not> valid_identifier v 128) (pr_initiating_request_id (ac_provenance c))
         \<or> list_ex (\<lambda>hop. is_some_and (\<lambda>v. \<not> valid_identifier v 128) (hop_actor_id hop))
             (pr_hops (ac_provenance c))
         \<or> list_ex (\<lambda>resource. trim (rd_identifier resource) = []
                        \<or> length (rd_identifier resource) > 1024) (ac_resources c)
        then Inl InvalidBounds
      else if map_option hop_origin (first_row (rev (pr_hops (ac_provenance c)))) \<noteq> Some (ac_origin c)
        then Inl InvalidProvenance
      else validate_authority c)"

record action_context_summary =
  sum_origin :: action_origin
  sum_trust :: trust_class
  sum_authority :: authority_class
  sum_provenance :: "action_origin list"
  sum_resource_kinds :: "resource_kind list"
  sum_resource_classifications :: "resource_classification list"
  sum_data_classification :: "data_classification option"
  sum_destination :: "destination_class option"
  sum_agent :: "agent_execution_identity option"

definition sanitized_summary :: "action_context \<Rightarrow> action_context_summary" where
  "sanitized_summary c =
     \<lparr>sum_origin = ac_origin c, sum_trust = ac_trust c, sum_authority = ac_authority c,
      sum_provenance = map hop_origin (pr_hops (ac_provenance c)),
      sum_resource_kinds = map rd_kind (ac_resources c),
      sum_resource_classifications = map rd_classification (ac_resources c),
      sum_data_classification = map_option df_data_classification (ac_data_flow c),
      sum_destination = map_option df_destination (ac_data_flow c),
      sum_agent = ac_agent c\<rparr>"

record action_proposal =
  ap_action :: action_request
  ap_context :: action_context

definition ActionProposal_new ::
  "action_request \<Rightarrow> action_context \<Rightarrow> (security_validation_error, action_proposal) result" where
  "ActionProposal_new action context =
     and_then (context_validate context) (\<lambda>_. Inr \<lparr>ap_action = action, ap_context = context\<rparr>)"

section \<open>Permissions\<close>

datatype security_profile = Strict | Balanced | Developer | Custom

datatype permission_effect = Effect_Allow | Effect_Deny

datatype permission_lifetime = Life_Once | Life_Session | Life_Until | Life_Always

datatype permission_session_scope =
  Session_Chat chat_session_id | Session_Agent agent_session_id | Session_Daemon daemon_session_id

record permission_scope =
  ps_capability_id :: capability_id
  ps_arguments :: action_arguments
  ps_resources :: "resource_descriptor list"
  ps_destination :: "destination_class option"

definition from_proposal :: "action_proposal \<Rightarrow> permission_scope" where
  "from_proposal p =
     \<lparr>ps_capability_id = ar_capability_id (ap_action p),
      ps_arguments = ar_arguments (ap_action p),
      ps_resources = ac_resources (ap_context p),
      ps_destination = map_option df_destination (ac_data_flow (ap_context p))\<rparr>"

definition scope_matches :: "permission_scope \<Rightarrow> action_proposal \<Rightarrow> bool" where
  "scope_matches s p =
     (ps_capability_id s = ar_capability_id (ap_action p)
      \<and> ps_arguments s = ar_arguments (ap_action p)
      \<and> ps_resources s = ac_resources (ap_context p)
      \<and> ps_destination s = map_option df_destination (ac_data_flow (ap_context p)))"

record permission_grant =
  pg_id :: permission_id
  pg_effect :: permission_effect
  pg_lifetime :: permission_lifetime
  pg_scope :: permission_scope
  pg_session :: "permission_session_scope option"
  pg_agent_id :: "agent_id option"
  pg_granted_by :: action_origin
  pg_granted_at_ms :: i64
  pg_expires_at_ms :: "i64 option"
  pg_revoked_at_ms :: "i64 option"
  pg_use_limit :: "u32 option"
  pg_use_count :: u32

definition grant_is_active ::
  "permission_grant \<Rightarrow> i64 \<Rightarrow> permission_session_scope option \<Rightarrow> agent_id option \<Rightarrow> bool" where
  "grant_is_active g now_ms session agent_id =
     (pg_revoked_at_ms g = None
      \<and> is_none_or (\<lambda>expiry. expiry \<ge> now_ms) (pg_expires_at_ms g)
      \<and> is_none_or (\<lambda>limit. pg_use_count g < limit) (pg_use_limit g)
      \<and> (case pg_lifetime g of Life_Session \<Rightarrow> pg_session g = session | _ \<Rightarrow> True)
      \<and> (case agent_id of Some a \<Rightarrow> pg_agent_id g = Some a | None \<Rightarrow> pg_agent_id g = None))"

definition grant_validate :: "permission_grant \<Rightarrow> (security_validation_error, unit) result" where
  "grant_validate g =
     (if pg_granted_by g \<notin> {AO_UserExplicit, AO_System}
         \<or> length (ps_resources (pg_scope g)) > MAX_ACTION_RESOURCES
         \<or> is_some_and (\<lambda>expiry. expiry < pg_granted_at_ms g) (pg_expires_at_ms g)
         \<or> (pg_lifetime g = Life_Once \<and> pg_use_limit g \<noteq> Some 1)
         \<or> (pg_lifetime g = Life_Session \<and> pg_session g = None)
         \<or> (pg_lifetime g \<noteq> Life_Session \<and> pg_session g \<noteq> None)
         \<or> ((case pg_session g of Some (Session_Agent _) \<Rightarrow> True | _ \<Rightarrow> False) \<and> pg_agent_id g = None)
         \<or> ((case pg_session g of Some (Session_Chat _) \<Rightarrow> True | Some (Session_Daemon _) \<Rightarrow> True
              | _ \<Rightarrow> False) \<and> pg_agent_id g \<noteq> None)
         \<or> (pg_lifetime g = Life_Until \<and> pg_expires_at_ms g = None)
      then Inl InvalidPermission
      else Inr ())"

section \<open>Resource labels and behaviour events\<close>

datatype resource_match_kind = Match_Exact | Match_PathPrefix | Match_Host

record resource_label =
  rl_id :: resource_label_id
  rl_name :: string
  rl_resource_kind :: resource_kind
  rl_match_kind :: resource_match_kind
  rl_pattern :: string
  rl_classification :: resource_classification
  rl_data_classification :: data_classification
  rl_created_at_ms :: i64
  rl_updated_at_ms :: i64

definition label_validate :: "resource_label \<Rightarrow> (security_validation_error, unit) result" where
  "label_validate l =
     (if trim (rl_name l) = [] \<or> length (rl_name l) > 128
         \<or> trim (rl_pattern l) = [] \<or> length (rl_pattern l) > 1024
         \<or> rl_updated_at_ms l < rl_created_at_ms l
      then Inl InvalidResourceLabel
      else Inr ())"

datatype behaviour_outcome =
  Outcome_Success | Outcome_Failure | Outcome_CorrectionAccepted | Outcome_CorrectionRejected

record intent_usage_event =
  iu_id :: behaviour_event_id
  iu_intent :: string
  iu_entity_id :: entity_id
  iu_outcome :: behaviour_outcome
  iu_context_class :: string
  iu_created_at_ms :: i64

record intent_candidate =
  ic_entity_id :: entity_id
  ic_score_permille :: u16

section \<open>Agents\<close>

datatype agent_transport = Transport_Cli | Transport_UnixSocket

datatype sandbox_backend = Sandbox_Bubblewrap | Sandbox_Unavailable | Sandbox_UnsafeUnsandboxed

record agent_resource_limits =
  lim_cpu_seconds :: u32
  lim_memory_bytes :: u64
  lim_process_count :: u32
  lim_file_size_bytes :: u64
  lim_open_files :: u32
  lim_temp_bytes :: u64

definition default_limits :: agent_resource_limits where
  "default_limits =
     \<lparr>lim_cpu_seconds = 30, lim_memory_bytes = 512 * 1024 * 1024, lim_process_count = 64,
      lim_file_size_bytes = 16 * 1024 * 1024, lim_open_files = 128, lim_temp_bytes = 64 * 1024 * 1024\<rparr>"

definition limits_validate :: "agent_resource_limits \<Rightarrow> bool" where
  "limits_validate l =
     ((1 \<le> lim_cpu_seconds l \<and> lim_cpu_seconds l \<le> 300)
      \<and> (16 * 1024 * 1024 \<le> lim_memory_bytes l \<and> lim_memory_bytes l \<le> 8 * 1024 * 1024 * 1024)
      \<and> (1 \<le> lim_process_count l \<and> lim_process_count l \<le> 1024)
      \<and> (1024 \<le> lim_file_size_bytes l \<and> lim_file_size_bytes l \<le> 1024 * 1024 * 1024)
      \<and> (16 \<le> lim_open_files l \<and> lim_open_files l \<le> 4096)
      \<and> (1024 * 1024 \<le> lim_temp_bytes l \<and> lim_temp_bytes l \<le> 1024 * 1024 * 1024))"

record agent_configuration =
  ag_id :: agent_id
  ag_name :: string
  ag_transport :: agent_transport
  ag_executable :: string
  ag_arguments :: "string list"
  ag_socket_path :: "string option"
  ag_sandbox :: sandbox_backend
  ag_ownership :: executable_ownership
  ag_executable_identity :: "executable_identity option"
  ag_resource_limits :: agent_resource_limits
  ag_enabled :: bool
  ag_timeout_ms :: u64
  ag_max_stdout_bytes :: u32
  ag_max_stderr_bytes :: u32
  ag_created_at_ms :: i64
  ag_updated_at_ms :: i64

datatype agent_session_status =
  Status_Running | Status_Completed | Status_Failed | Status_TimedOut | Status_Crashed

record agent_session =
  as_id :: agent_session_id
  as_agent_id :: agent_id
  as_instance_id :: agent_instance_id
  as_daemon_session_id :: daemon_session_id
  as_status :: agent_session_status
  as_started_at_ms :: i64
  as_ended_at_ms :: "i64 option"

record daemon_session =
  ds_id :: daemon_session_id
  ds_started_at_ms :: i64
  ds_ended_at_ms :: "i64 option"

definition agent_validate :: "agent_configuration \<Rightarrow> (security_validation_error, unit) result" where
  "agent_validate a =
     (let cli_valid = ag_transport a \<noteq> Transport_Cli
            \<or> (starts_with (ag_executable a) ''/'' \<and> length (ag_executable a) \<le> 1024
               \<and> length (ag_arguments a) \<le> 32
               \<and> list_all (\<lambda>argument. length argument \<le> 1024) (ag_arguments a));
          socket_valid = ag_transport a \<noteq> Transport_UnixSocket
            \<or> is_some_and (\<lambda>path. starts_with path ''/'' \<and> length path \<le> 1024) (ag_socket_path a)
      in if trim (ag_name a) = [] \<or> length (ag_name a) > 128
            \<or> \<not> cli_valid \<or> \<not> socket_valid
            \<or> \<not> limits_validate (ag_resource_limits a)
            \<or> is_some_and (\<lambda>identity. is_err (identity_validate identity)) (ag_executable_identity a)
            \<or> \<not> (100 \<le> ag_timeout_ms a \<and> ag_timeout_ms a \<le> 300000)
            \<or> \<not> (1024 \<le> ag_max_stdout_bytes a \<and> ag_max_stdout_bytes a \<le> 1048576)
            \<or> \<not> (1024 \<le> ag_max_stderr_bytes a \<and> ag_max_stderr_bytes a \<le> 1048576)
            \<or> ag_updated_at_ms a < ag_created_at_ms a
         then Inl InvalidAgentConfiguration
         else Inr ())"

definition sandbox_is_enforced :: "agent_configuration \<Rightarrow> bool" where
  "sandbox_is_enforced a = (ag_sandbox a = Sandbox_Bubblewrap)"

section \<open>Facts about contexts\<close>

definition untrusted_origin :: "action_origin \<Rightarrow> bool" where
  "untrusted_origin origin = (origin \<in> {AO_AiProposal, AO_ExternalContent, AO_Plugin, AO_Agent})"

lemma context_validate_okD:
  assumes "context_validate c = Inr ()"
  shows "pr_hops (ac_provenance c) \<noteq> []"
    and "length (pr_hops (ac_provenance c)) \<le> 8"
    and "length (ac_resources c) \<le> 16"
    and "hop_origin (last (pr_hops (ac_provenance c))) = ac_origin c"
    and "validate_authority c = Inr ()"
proof -
  show ne: "pr_hops (ac_provenance c) \<noteq> []" and "length (pr_hops (ac_provenance c)) \<le> 8"
    and "length (ac_resources c) \<le> 16" and "validate_authority c = Inr ()"
    using assms
    by (auto simp: context_validate_def MAX_PROVENANCE_HOPS_def MAX_ACTION_RESOURCES_def split: if_splits)
  have "map_option hop_origin (first_row (rev (pr_hops (ac_provenance c)))) = Some (ac_origin c)"
    using assms by (auto simp: context_validate_def split: if_splits)
  with ne show "hop_origin (last (pr_hops (ac_provenance c))) = ac_origin c"
    by (cases "pr_hops (ac_provenance c)" rule: rev_cases) auto
qed

lemma validate_authority_ok_iff:
  "validate_authority c = Inr () \<longleftrightarrow>
     (case ac_origin c of
        AO_UserExplicit \<Rightarrow>
          ac_trust c = TC_UserExplicit \<and> ac_authority c = Auth_User \<and> ac_agent c = None
      | AO_LocalResolver \<Rightarrow> ac_authority c = Auth_HalquenCore \<and> ac_agent c = None
          \<and> map_option hop_origin (first_row (pr_hops (ac_provenance c))) = Some AO_UserExplicit
      | AO_Agent \<Rightarrow> ac_authority c = Auth_None \<and> ac_agent c \<noteq> None
      | AO_StoredProcedure \<Rightarrow> ac_agent c = None
      | AO_System \<Rightarrow> ac_agent c = None
      | _ \<Rightarrow> ac_authority c = Auth_None \<and> ac_agent c = None)"
  by (cases "ac_origin c") (auto simp: validate_authority_def)

lemma untrusted_no_authority:
  "context_validate c = Inr () \<Longrightarrow> untrusted_origin (ac_origin c) \<Longrightarrow> ac_authority c = Auth_None"
  using context_validate_okD(5) [of c]
  by (cases "ac_origin c") (auto simp: validate_authority_ok_iff untrusted_origin_def)

lemma validated_agent_iff:
  "context_validate c = Inr () \<Longrightarrow> ac_origin c = AO_Agent \<longleftrightarrow> ac_agent c \<noteq> None"
  using context_validate_okD(5) [of c]
  by (cases "ac_origin c") (auto simp: validate_authority_ok_iff)

lemma foldl_max_ge: "(a::'a::linorder) \<le> foldl max a xs \<and> (\<forall>x \<in> set xs. x \<le> foldl max a xs)"
proof (induction xs arbitrary: a)
  case Nil
  then show ?case by simp
next
  case (Cons x xs)
  from Cons [of "max a x"] show ?case by auto
qed

lemma foldl_max_mem: "foldl max (a::'a::linorder) xs \<in> insert a (set xs)"
proof (induction xs arbitrary: a)
  case Nil
  then show ?case by simp
next
  case (Cons x xs)
  from Cons [of "max a x"] show ?case by (auto simp: max_def split: if_splits)
qed

section \<open>Facts about grants\<close>

lemma scope_matches_iff: "scope_matches s p \<longleftrightarrow> s = from_proposal p"
  by (cases s) (auto simp: scope_matches_def from_proposal_def)

lemma grant_is_active_agent: "grant_is_active g now s a \<Longrightarrow> pg_agent_id g = a"
  by (cases a) (auto simp: grant_is_active_def)

lemma grant_is_active_session:
  "grant_is_active g now s a \<Longrightarrow> pg_lifetime g = Life_Session \<Longrightarrow> pg_session g = s"
  by (simp add: grant_is_active_def)

lemma grant_validate_okD:
  assumes "grant_validate g = Inr ()"
  shows "pg_granted_by g \<in> {AO_UserExplicit, AO_System}"
    and "pg_lifetime g = Life_Once \<Longrightarrow> pg_use_limit g = Some 1"
    and "pg_session g \<noteq> None \<longleftrightarrow> pg_lifetime g = Life_Session"
    and "pg_lifetime g = Life_Until \<Longrightarrow> pg_expires_at_ms g \<noteq> None"
    and "length (ps_resources (pg_scope g)) \<le> 16"
    and "pg_session g = Some (Session_Agent s) \<Longrightarrow> pg_agent_id g \<noteq> None"
    and "pg_session g = Some (Session_Chat c) \<Longrightarrow> pg_agent_id g = None"
    and "pg_session g = Some (Session_Daemon d) \<Longrightarrow> pg_agent_id g = None"
  using assms by (auto simp: grant_validate_def MAX_ACTION_RESOURCES_def split: if_splits)

section \<open>Properties\<close>

text \<open>
  A validated context of an AI, external-content, plugin or agent origin carries no authority,
  the last provenance hop names that origin, and the context names an agent exactly for the agent
  origin; a validated user context carries user trust and user authority only, and a local
  resolution can be traced back to an explicit user request.
\<close>
lemma validated_context_authority:
  assumes "context_validate c = Inr ()"
  shows "hop_origin (last (pr_hops (ac_provenance c))) = ac_origin c
    \<and> (untrusted_origin (ac_origin c) \<longrightarrow> ac_authority c = Auth_None)
    \<and> (ac_agent c \<noteq> None \<longleftrightarrow> ac_origin c = AO_Agent)
    \<and> (ac_origin c = AO_UserExplicit \<longrightarrow> ac_trust c = TC_UserExplicit \<and> ac_authority c = Auth_User)
    \<and> (ac_origin c = AO_LocalResolver \<longrightarrow>
         hop_origin (hd (pr_hops (ac_provenance c))) = AO_UserExplicit)"
proof (intro conjI impI)
  note ok = context_validate_okD [OF assms]
  show "hop_origin (last (pr_hops (ac_provenance c))) = ac_origin c" by (rule ok(4))
  show "untrusted_origin (ac_origin c) \<Longrightarrow> ac_authority c = Auth_None"
    by (rule untrusted_no_authority [OF assms])
  show "ac_agent c \<noteq> None \<longleftrightarrow> ac_origin c = AO_Agent"
    using validated_agent_iff [OF assms] by simp
  show "ac_origin c = AO_UserExplicit \<Longrightarrow> ac_trust c = TC_UserExplicit"
    and "ac_origin c = AO_UserExplicit \<Longrightarrow> ac_authority c = Auth_User"
    using ok(5) by (simp_all add: validate_authority_ok_iff)
  show "ac_origin c = AO_LocalResolver \<Longrightarrow> hop_origin (hd (pr_hops (ac_provenance c))) = AO_UserExplicit"
    using ok(1,5) by (cases "pr_hops (ac_provenance c)") (auto simp: validate_authority_ok_iff)
qed

text \<open>
  The daemon's own constructors build valid contexts for every valid request identifier and
  agent identity: the user context, the local resolution and the agent context validate exactly if
  the free-text identifier they carry is well formed.
\<close>
lemma constructed_contexts_valid:
  "(context_validate (trusted_user r) = Inr () \<longleftrightarrow> is_none_or (\<lambda>v. valid_identifier v 128) r)
   \<and> (context_validate (local_resolution r) = Inr () \<longleftrightarrow> is_none_or (\<lambda>v. valid_identifier v 128) r)
   \<and> (context_validate (agent_context i) = Inr () \<longleftrightarrow> valid_identifier (ax_agent_id i) 128)"
proof (intro conjI)
  have resolver: "valid_identifier ''local-resolver'' 128" by code_simp
  show "context_validate (trusted_user r) = Inr () \<longleftrightarrow> is_none_or (\<lambda>v. valid_identifier v 128) r"
    by (cases r) (simp_all add: context_validate_def trusted_user_def validate_authority_def
        MAX_PROVENANCE_HOPS_def MAX_ACTION_RESOURCES_def)
  show "context_validate (local_resolution r) = Inr () \<longleftrightarrow> is_none_or (\<lambda>v. valid_identifier v 128) r"
    by (cases r) (simp_all add: context_validate_def local_resolution_def trusted_user_def Let_def
        validate_authority_def resolver MAX_PROVENANCE_HOPS_def MAX_ACTION_RESOURCES_def)
  show "context_validate (agent_context i) = Inr () \<longleftrightarrow> valid_identifier (ax_agent_id i) 128"
    by (simp add: context_validate_def agent_context_def validate_authority_def
        MAX_PROVENANCE_HOPS_def MAX_ACTION_RESOURCES_def)
qed

text \<open>
  The constructor for untrusted origins never yields user or core authority and rejects the
  trusted origins; for the AI, external-content and plugin origins the context it builds is valid
  exactly if the actor identifier is, but the context it builds for the agent origin carries no
  agent identity and therefore never validates.
\<close>
lemma untrusted_constructor:
  "(untrusted origin actor = None \<longleftrightarrow> \<not> untrusted_origin origin)
   \<and> map_option ac_authority (untrusted origin actor)
       = (if untrusted_origin origin then Some Auth_None else None)
   \<and> map_option context_validate (untrusted origin actor)
       = (if \<not> untrusted_origin origin then None
          else if \<not> is_none_or (\<lambda>v. valid_identifier v 128) actor then Some (Inl InvalidBounds)
          else if origin = AO_Agent then Some (Inl InvalidAuthority) else Some (Inr ()))"
  by (cases origin; cases actor)
    (simp_all add: untrusted_def untrusted_origin_def context_validate_def validate_authority_def
      MAX_PROVENANCE_HOPS_def MAX_ACTION_RESOURCES_def)

text \<open>
  Derived data inherits the most sensitive classification of its sources: the result is an
  upper bound, is one of the sources unless there are none, and does not depend on their order;
  declassification never raises a classification.
\<close>
lemma inherited_classification:
  "list_all (\<lambda>x. x \<le> inherited_from xs) xs
   \<and> inherited_from xs = (if xs = [] then DC_Public else Max (set xs))
   \<and> declassify self target authority \<le> self \<and> declassify self target authority \<le> target"
proof (intro conjI)
  show "list_all (\<lambda>x. x \<le> inherited_from xs) xs"
    using foldl_max_ge by (cases xs) (auto simp: list_all_iff)
  show "inherited_from xs = (if xs = [] then DC_Public else Max (set xs))"
  proof (cases xs)
    case (Cons y ys)
    have "Max (set xs) = foldl max y ys"
      using foldl_max_ge [of y ys] foldl_max_mem [of y ys] Cons by (intro Max_eqI) auto
    with Cons show ?thesis by simp
  qed simp
qed (simp_all add: declassify_def)

definition scrub_context :: "(string \<Rightarrow> string) \<Rightarrow> action_context \<Rightarrow> action_context" where
  "scrub_context f c = c\<lparr>
     ac_provenance := \<lparr>pr_initiating_request_id = map_option f (pr_initiating_request_id (ac_provenance c)),
       pr_hops = map (\<lambda>h. h\<lparr>hop_actor_id := map_option f (hop_actor_id h)\<rparr>) (pr_hops (ac_provenance c))\<rparr>,
     ac_resources := map (\<lambda>r. r\<lparr>rd_identifier := f (rd_identifier r)\<rparr>) (ac_resources c),
     ac_data_flow := map_option (\<lambda>d. d\<lparr>df_source := (df_source d)
       \<lparr>rd_identifier := f (rd_identifier (df_source d))\<rparr>\<rparr>) (ac_data_flow c)\<rparr>"

text \<open>
  The sanitized summary written to the audit log does not depend on any free text of the
  context: request identifiers, actor identifiers and resource identifiers can be replaced at
  will without changing the summary.
\<close>
lemma sanitized_summary_hides_text:
  "sanitized_summary (scrub_context f c) = sanitized_summary c"
  by (simp add: sanitized_summary_def scrub_context_def comp_def option.map_comp)

text \<open>
  An active grant is unrevoked, unexpired and has uses left; it applies to exactly one agent, or
  to no agent at all, and a session grant to exactly its session. A grant bound to an agent is
  never active for a user request, and a user grant never for an agent.
\<close>
lemma active_grant_bounds:
  assumes "grant_is_active g now session agent"
  shows "pg_revoked_at_ms g = None \<and> pg_agent_id g = agent
    \<and> is_none_or (\<lambda>expiry. now \<le> expiry) (pg_expires_at_ms g)
    \<and> is_none_or (\<lambda>limit. pg_use_count g < limit) (pg_use_limit g)
    \<and> (pg_lifetime g = Life_Session \<longrightarrow> pg_session g = session)"
  using assms grant_is_active_agent [OF assms] by (auto simp: grant_is_active_def)

definition example_grant :: permission_grant where
  "example_grant =
     \<lparr>pg_id = ''permission:1'', pg_effect = Effect_Allow, pg_lifetime = Life_Session,
      pg_scope = \<lparr>ps_capability_id = ''system.open_app'', ps_arguments = Args_OpenApp ''app:telegram'',
        ps_resources = [], ps_destination = None\<rparr>,
      pg_session = Some (Session_Agent ''agent-session:1''), pg_agent_id = Some ''agent:1'',
      pg_granted_by = AO_UserExplicit, pg_granted_at_ms = 10, pg_expires_at_ms = Some 50,
      pg_revoked_at_ms = None, pg_use_limit = Some 2, pg_use_count = 1\<rparr>"

end
