(* ===== verification/Halquen_Policy.thy ===== *)
theory Halquen_Policy
  imports Halquen_Security
begin

text \<open>
  The policy crate: decisions, authorizations and evaluations (\<open>crates/policy/src/decision.rs\<close>)
  and the engine (\<open>crates/policy/src/engine.rs\<close>). \<open>decide\<close> keeps the order of the source's early
  returns; the \<open>unreachable!\<close> arm of \<open>baseline\<close> is the value \<open>None\<close>, carried through every caller,
  and shown to be unreachable. The interface \<open>authorizer\<close> states what every client of the engine
  relies on: an authorization exists only for an allowed decision and is bound to the exact action.
\<close>

section \<open>Decisions and authorizations\<close>

datatype policy_outcome = Allow | Confirm | Deny

datatype confirmation_level = Level_Standard | Level_Sensitive | Level_Destructive

datatype policy_reason =
  ReadOnlyBaseline | LocalSideEffectBaseline | ReversibleLocalWriteBaseline
| ReversibleLocalWriteRequiresConfirmation | ExternalSideEffectRequiresConfirmation
| DestructiveRequiresConfirmation | PrivilegedDenied | UnknownRiskDenied
| CapabilityRequiresConfirmation | MissingScope scope_requirement | InvalidDescriptor
| InvalidActionContract | UserConfirmedOnce | Reason_InvalidProvenance
| ImmutableSecretExfiltrationDeny | ImmutableProductionDestructiveDeny
| ImmutableSystemCriticalDeny | UntrustedAuthorityMutationDenied
| SensitiveResourceRequiresConfirmation | ProductionResourceRequiresConfirmation
| StrictProfileRequiresConfirmation | PersistentExactAllow | PersistentExactDeny
| AgentSideEffectRequiresConfirmation

record policy_decision =
  pd_outcome :: policy_outcome
  pd_reason :: policy_reason
  pd_rule_id :: string
  pd_hard_deny :: bool
  pd_confirmation_level :: "confirmation_level option"
  pd_expires_at_ms :: "i64 option"

definition is_allowed :: "policy_decision \<Rightarrow> bool" where
  "is_allowed d = (pd_outcome d = Allow)"

record execution_authorization =
  ea_execution_id :: execution_id
  ea_descriptor :: capability_descriptor
  ea_action :: action_request
  ea_granted_scopes :: "scope_requirement list"

definition authorization_matches ::
  "execution_authorization \<Rightarrow> capability_descriptor \<Rightarrow> action_request \<Rightarrow> bool" where
  "authorization_matches a descriptor action = (ea_descriptor a = descriptor \<and> ea_action a = action)"

record policy_evaluation =
  pe_decision :: policy_decision
  pe_authorization :: "execution_authorization option"

definition evaluation_allowed :: "policy_decision \<Rightarrow> execution_authorization \<Rightarrow> policy_evaluation" where
  "evaluation_allowed d a = \<lparr>pe_decision = d, pe_authorization = Some a\<rparr>"

definition evaluation_blocked :: "policy_decision \<Rightarrow> policy_evaluation" where
  "evaluation_blocked d = \<lparr>pe_decision = d, pe_authorization = None\<rparr>"

section \<open>Policy contexts\<close>

record policy_context =
  pc_granted_scopes :: "scope_requirement list"
  pc_action_context :: "action_context option"
  pc_permission_grants :: "permission_grant list"
  pc_profile :: security_profile
  pc_now_ms :: i64
  pc_session :: "permission_session_scope option"
  pc_agent_id :: "agent_id option"

definition default_context :: policy_context where
  "default_context =
     \<lparr>pc_granted_scopes = [], pc_action_context = None, pc_permission_grants = [],
      pc_profile = Balanced, pc_now_ms = 0, pc_session = None, pc_agent_id = None\<rparr>"

text \<open>\<open>BTreeSet::insert\<close>: the set is kept as its ordered enumeration.\<close>

definition grant_scope :: "scope_requirement \<Rightarrow> policy_context \<Rightarrow> policy_context" where
  "grant_scope scope ctx = ctx\<lparr>pc_granted_scopes := insort_insert scope (pc_granted_scopes ctx)\<rparr>"

definition set_action_context :: "action_context \<Rightarrow> policy_context \<Rightarrow> policy_context" where
  "set_action_context c ctx =
     (case ac_agent c of
        Some identity \<Rightarrow> ctx\<lparr>pc_session := Some (Session_Agent (ax_session_id identity)),
                             pc_agent_id := Some (ax_agent_id identity),
                             pc_action_context := Some c\<rparr>
      | None \<Rightarrow> ctx\<lparr>pc_action_context := Some c\<rparr>)"

definition add_permission_grant :: "permission_grant \<Rightarrow> policy_context \<Rightarrow> policy_context" where
  "add_permission_grant g ctx = ctx\<lparr>pc_permission_grants := pc_permission_grants ctx @ [g]\<rparr>"

definition set_profile :: "security_profile \<Rightarrow> policy_context \<Rightarrow> policy_context" where
  "set_profile profile ctx = ctx\<lparr>pc_profile := profile\<rparr>"

definition set_now_ms :: "i64 \<Rightarrow> policy_context \<Rightarrow> policy_context" where
  "set_now_ms now ctx = ctx\<lparr>pc_now_ms := now\<rparr>"

definition set_session_id :: "chat_session_id option \<Rightarrow> policy_context \<Rightarrow> policy_context" where
  "set_session_id session_id ctx =
     (if pc_agent_id ctx = None then ctx\<lparr>pc_session := map_option Session_Chat session_id\<rparr> else ctx)"

definition missing_scope :: "policy_context \<Rightarrow> capability_descriptor \<Rightarrow> scope_requirement option" where
  "missing_scope ctx descriptor =
     find (\<lambda>scope. scope \<notin> set (pc_granted_scopes ctx)) (cd_scope_requirements descriptor)"

definition normalized_grants :: "policy_context \<Rightarrow> scope_requirement list" where
  "normalized_grants ctx = pc_granted_scopes ctx"

definition context_for_action :: "policy_context \<Rightarrow> action_context" where
  "context_for_action ctx =
     (case pc_action_context ctx of Some c \<Rightarrow> c | None \<Rightarrow> trusted_user None)"

definition matching_permission ::
  "policy_context \<Rightarrow> action_proposal \<Rightarrow> permission_effect \<Rightarrow> permission_grant option" where
  "matching_permission ctx p effect =
     find (\<lambda>g. pg_effect g = effect
              \<and> grant_is_active g (pc_now_ms ctx) (pc_session ctx) (pc_agent_id ctx)
              \<and> scope_matches (pg_scope g) p) (pc_permission_grants ctx)"

section \<open>The engine\<close>

record policy_engine =
  en_allow_reversible_local_writes :: bool

definition PolicyEngine_new :: policy_engine where
  "PolicyEngine_new = \<lparr>en_allow_reversible_local_writes = True\<rparr>"

definition with_reversible_local_writes :: "policy_engine \<Rightarrow> bool \<Rightarrow> policy_engine" where
  "with_reversible_local_writes e allow = e\<lparr>en_allow_reversible_local_writes := allow\<rparr>"

definition decision ::
  "policy_outcome \<Rightarrow> policy_reason \<Rightarrow> string \<Rightarrow> bool \<Rightarrow> confirmation_level option \<Rightarrow> i64 option
   \<Rightarrow> policy_decision" where
  "decision outcome reason rule_id hard_deny level expires =
     \<lparr>pd_outcome = outcome, pd_reason = reason, pd_rule_id = rule_id, pd_hard_deny = hard_deny,
      pd_confirmation_level = level, pd_expires_at_ms = expires\<rparr>"

definition allow :: "policy_reason \<Rightarrow> string \<Rightarrow> policy_decision" where
  "allow reason rule_id = decision Allow reason rule_id False None None"

definition confirmation :: "policy_reason \<Rightarrow> string \<Rightarrow> confirmation_level \<Rightarrow> policy_decision" where
  "confirmation reason rule_id level = decision Confirm reason rule_id False (Some level) None"

definition blocked :: "policy_reason \<Rightarrow> string \<Rightarrow> bool \<Rightarrow> policy_evaluation" where
  "blocked reason rule_id hard_deny =
     evaluation_blocked (decision Deny reason rule_id hard_deny None None)"

definition has_resource :: "action_proposal \<Rightarrow> resource_classification \<Rightarrow> bool" where
  "has_resource p class = list_ex (\<lambda>r. rd_classification r = class) (ac_resources (ap_context p))"

definition secret_to_external :: "action_proposal \<Rightarrow> bool" where
  "secret_to_external p =
     is_some_and (\<lambda>flow.
       (df_data_classification flow = DC_Secret \<or> rd_classification (df_source flow) = RC_Secret)
       \<and> df_destination flow \<in> {Dest_External, Dest_UntrustedExternal})
     (ac_data_flow (ap_context p))"

fun default_arguments :: "action_argument_kind \<Rightarrow> action_arguments" where
  "default_arguments ArgKind_None = Args_None"
| "default_arguments ArgKind_OpenApp = Args_OpenApp ''app:policy-evaluation''"

definition baseline ::
  "policy_engine \<Rightarrow> capability_descriptor \<Rightarrow> action_proposal \<Rightarrow> security_profile
   \<Rightarrow> policy_decision option" where
  "baseline e c p profile =
     (if has_resource p RC_Production then
        Some (confirmation ProductionResourceRequiresConfirmation
          ''resource.production-confirm'' Level_Sensitive)
      else if list_ex (\<lambda>r. rd_classification r \<in> {RC_Sensitive, RC_Secret}) (ac_resources (ap_context p))
      then
        Some (confirmation SensitiveResourceRequiresConfirmation
          ''resource.sensitive-confirm'' Level_Sensitive)
      else if ac_origin (ap_context p) = AO_Agent \<and> cd_side_effect c then
        Some (confirmation AgentSideEffectRequiresConfirmation
          ''agent.side-effect-confirm'' Level_Standard)
      else if profile = Strict \<and> cd_side_effect c then
        Some (confirmation StrictProfileRequiresConfirmation
          ''profile.strict-side-effect-confirm'' Level_Standard)
      else if cd_confirmation c = AlwaysConfirm then
        Some (confirmation CapabilityRequiresConfirmation
          ''capability.always-confirm'' Level_Standard)
      else
        (case cd_risk c of
           ReadOnly \<Rightarrow> Some (allow ReadOnlyBaseline ''baseline.read-only'')
         | LocalSideEffect \<Rightarrow> Some (allow LocalSideEffectBaseline ''baseline.local-side-effect'')
         | ReversibleLocalWrite \<Rightarrow>
             if en_allow_reversible_local_writes e
             then Some (allow ReversibleLocalWriteBaseline ''baseline.reversible-local-write'')
             else Some (confirmation ReversibleLocalWriteRequiresConfirmation
                    ''baseline.reversible-write-confirm'' Level_Standard)
         | ExternalSideEffect \<Rightarrow> Some (confirmation ExternalSideEffectRequiresConfirmation
             ''baseline.external-side-effect-confirm'' Level_Sensitive)
         | Destructive \<Rightarrow> Some (confirmation DestructiveRequiresConfirmation
             ''baseline.destructive-confirm'' Level_Destructive)
         | Privileged \<Rightarrow> None
         | UnknownRisk \<Rightarrow> None))"

definition decide ::
  "policy_engine \<Rightarrow> capability_descriptor \<Rightarrow> action_proposal \<Rightarrow> policy_context
   \<Rightarrow> policy_decision option" where
  "decide e c p ctx =
     (if is_err (descriptor_validate c) then
        Some (decision Deny InvalidDescriptor ''core.invalid-descriptor'' True None None)
      else if is_err (context_validate (ap_context p)) then
        Some (decision Deny Reason_InvalidProvenance ''core.invalid-provenance'' True None None)
      else (case missing_scope ctx c of
        Some scope \<Rightarrow> Some (decision Deny (MissingScope scope) ''core.missing-scope'' False None None)
      | None \<Rightarrow>
      if secret_to_external p then
        Some (decision Deny ImmutableSecretExfiltrationDeny
          ''immutable.secret-to-external'' True None None)
      else if cd_risk c = Destructive
          \<and> (has_resource p RC_Production
             \<or> is_some_and (\<lambda>flow. df_data_classification flow = DC_Production)
                 (ac_data_flow (ap_context p)))
      then
        Some (decision Deny ImmutableProductionDestructiveDeny
          ''immutable.production-destructive'' True None None)
      else if has_resource p RC_SystemCritical
          \<and> cd_risk c \<in> {Destructive, Privileged, ExternalSideEffect}
      then
        Some (decision Deny ImmutableSystemCriticalDeny
          ''immutable.system-critical'' True None None)
      else if ac_origin (ap_context p) \<in> {AO_AiProposal, AO_ExternalContent, AO_Plugin, AO_Agent}
          \<and> first_row (split_on CHR ''.'' (cd_id c))
              \<in> {Some ''security'', Some ''permission'', Some ''policy''}
      then
        Some (decision Deny UntrustedAuthorityMutationDenied
          ''immutable.untrusted-authority-mutation'' True None None)
      else (case matching_permission ctx p Effect_Deny of
        Some g \<Rightarrow>
          Some (decision Deny PersistentExactDeny ''grant.exact-deny'' False None (pg_expires_at_ms g))
      | None \<Rightarrow>
      if cd_risk c \<in> {Privileged, UnknownRisk} then
        (if cd_risk c = Privileged
         then Some (decision Deny PrivilegedDenied ''baseline.privileged-deny'' False None None)
         else Some (decision Deny UnknownRiskDenied ''baseline.unknown-risk-deny'' False None None))
      else (case baseline e c p (pc_profile ctx) of
        None \<Rightarrow> None
      | Some base \<Rightarrow>
          (case (if pd_outcome base = Confirm then matching_permission ctx p Effect_Allow else None) of
             Some g \<Rightarrow>
               Some (decision Allow PersistentExactAllow ''grant.exact-allow'' False None
                 (pg_expires_at_ms g))
           | None \<Rightarrow> Some base)))))"

definition evaluate_with_context ::
  "policy_engine \<Rightarrow> capability_descriptor \<Rightarrow> policy_context \<Rightarrow> policy_decision option" where
  "evaluate_with_context e c ctx =
     decide e c \<lparr>ap_action = \<lparr>ar_capability_id = cd_id c, ar_arguments = default_arguments (cd_arguments c)\<rparr>,
                 ap_context = context_for_action ctx\<rparr> ctx"

definition evaluate :: "policy_engine \<Rightarrow> capability_descriptor \<Rightarrow> policy_decision option" where
  "evaluate e c = evaluate_with_context e c default_context"

definition evaluate_proposal ::
  "policy_engine \<Rightarrow> capability_descriptor \<Rightarrow> action_proposal \<Rightarrow> policy_context
   \<Rightarrow> policy_decision option" where
  "evaluate_proposal e c p ctx = decide e c p ctx"

definition contract_mismatch :: "action_proposal \<Rightarrow> capability_descriptor \<Rightarrow> bool" where
  "contract_mismatch p c =
     (ar_capability_id (ap_action p) \<noteq> cd_id c
      \<or> arguments_kind (ar_arguments (ap_action p)) \<noteq> cd_arguments c)"

definition authorization_new ::
  "execution_id \<Rightarrow> capability_descriptor \<Rightarrow> action_request \<Rightarrow> scope_requirement list
   \<Rightarrow> execution_authorization" where
  "authorization_new x c action scopes =
     \<lparr>ea_execution_id = x, ea_descriptor = c, ea_action = action, ea_granted_scopes = scopes\<rparr>"

definition authorize_proposal ::
  "policy_engine \<Rightarrow> capability_descriptor \<Rightarrow> action_proposal \<Rightarrow> execution_id \<Rightarrow> policy_context
   \<Rightarrow> policy_evaluation option" where
  "authorize_proposal e c p x ctx =
     (if contract_mismatch p c
      then Some (blocked InvalidActionContract ''core.invalid-action-contract'' True)
      else (case decide e c p ctx of
        None \<Rightarrow> None
      | Some d \<Rightarrow>
          if is_allowed d
          then Some (evaluation_allowed d (authorization_new x c (ap_action p) (normalized_grants ctx)))
          else Some (evaluation_blocked d)))"

definition authorize_with_context ::
  "policy_engine \<Rightarrow> capability_descriptor \<Rightarrow> action_request \<Rightarrow> execution_id \<Rightarrow> policy_context
   \<Rightarrow> policy_evaluation option" where
  "authorize_with_context e c action x ctx =
     authorize_proposal e c \<lparr>ap_action = action, ap_context = context_for_action ctx\<rparr> x ctx"

definition authorize ::
  "policy_engine \<Rightarrow> capability_descriptor \<Rightarrow> action_request \<Rightarrow> execution_id
   \<Rightarrow> policy_evaluation option" where
  "authorize e c action x = authorize_with_context e c action x default_context"

definition authorize_confirmed_proposal_once ::
  "policy_engine \<Rightarrow> capability_descriptor \<Rightarrow> action_proposal \<Rightarrow> execution_id \<Rightarrow> policy_context
   \<Rightarrow> policy_evaluation option" where
  "authorize_confirmed_proposal_once e c p x ctx =
     (if contract_mismatch p c
      then Some (blocked InvalidActionContract ''core.invalid-action-contract'' True)
      else (case decide e c p ctx of
        None \<Rightarrow> None
      | Some initial \<Rightarrow>
          if pd_outcome initial = Deny then Some (evaluation_blocked initial)
          else
            (let d = (if pd_outcome initial = Confirm
                      then decision Allow UserConfirmedOnce ''user.confirmed-once'' False None None
                      else initial)
             in Some (evaluation_allowed d
                  (authorization_new x c (ap_action p) (normalized_grants ctx))))))"

definition authorize_confirmed_once ::
  "policy_engine \<Rightarrow> capability_descriptor \<Rightarrow> action_request \<Rightarrow> execution_id \<Rightarrow> policy_context
   \<Rightarrow> policy_evaluation option" where
  "authorize_confirmed_once e c action x ctx =
     authorize_confirmed_proposal_once e c
       \<lparr>ap_action = action, ap_context = context_for_action ctx\<rparr> x ctx"

section \<open>The precedence the engine implements\<close>

text \<open>
  The documented precedence, stated without order of evaluation: what denies, what asks for a
  confirmation, and which exact grants apply.
\<close>

definition authority_namespace :: "capability_descriptor \<Rightarrow> bool" where
  "authority_namespace c =
     (first_row (split_on CHR ''.'' (cd_id c)) \<in> {Some ''security'', Some ''permission'', Some ''policy''})"

definition immutable_violation :: "capability_descriptor \<Rightarrow> action_proposal \<Rightarrow> bool" where
  "immutable_violation c p =
     (secret_to_external p
      \<or> (cd_risk c = Destructive
         \<and> (has_resource p RC_Production
            \<or> is_some_and (\<lambda>flow. df_data_classification flow = DC_Production)
                (ac_data_flow (ap_context p))))
      \<or> (has_resource p RC_SystemCritical \<and> cd_risk c \<in> {Destructive, Privileged, ExternalSideEffect})
      \<or> (untrusted_origin (ac_origin (ap_context p)) \<and> authority_namespace c))"

definition exact_grant :: "policy_context \<Rightarrow> action_proposal \<Rightarrow> permission_effect \<Rightarrow> bool" where
  "exact_grant ctx p effect =
     (\<exists>g \<in> set (pc_permission_grants ctx). pg_effect g = effect
        \<and> grant_is_active g (pc_now_ms ctx) (pc_session ctx) (pc_agent_id ctx)
        \<and> pg_scope g = from_proposal p)"

definition denied :: "capability_descriptor \<Rightarrow> action_proposal \<Rightarrow> policy_context \<Rightarrow> bool" where
  "denied c p ctx =
     (is_err (descriptor_validate c) \<or> is_err (context_validate (ap_context p))
      \<or> \<not> set (cd_scope_requirements c) \<subseteq> set (pc_granted_scopes ctx)
      \<or> immutable_violation c p \<or> exact_grant ctx p Effect_Deny
      \<or> cd_risk c \<in> {Privileged, UnknownRisk})"

definition needs_confirmation ::
  "policy_engine \<Rightarrow> capability_descriptor \<Rightarrow> action_proposal \<Rightarrow> security_profile \<Rightarrow> bool" where
  "needs_confirmation e c p profile =
     (has_resource p RC_Production \<or> has_resource p RC_Sensitive \<or> has_resource p RC_Secret
      \<or> (cd_side_effect c \<and> (ac_origin (ap_context p) = AO_Agent \<or> profile = Strict))
      \<or> cd_confirmation c = AlwaysConfirm
      \<or> (cd_risk c = ReversibleLocalWrite \<and> \<not> en_allow_reversible_local_writes e)
      \<or> cd_risk c \<in> {ExternalSideEffect, Destructive})"

definition spec_outcome ::
  "policy_engine \<Rightarrow> capability_descriptor \<Rightarrow> action_proposal \<Rightarrow> policy_context \<Rightarrow> policy_outcome" where
  "spec_outcome e c p ctx =
     (if denied c p ctx then Deny
      else if needs_confirmation e c p (pc_profile ctx) \<and> \<not> exact_grant ctx p Effect_Allow then Confirm
      else Allow)"

lemmas decision_fields = decision_def allow_def confirmation_def

lemma matching_permission_None:
  "matching_permission ctx p effect = None \<longleftrightarrow> \<not> exact_grant ctx p effect"
  by (auto simp: matching_permission_def exact_grant_def find_None_iff scope_matches_iff)

lemma matching_permission_Some:
  assumes "matching_permission ctx p effect = Some g"
  shows "g \<in> set (pc_permission_grants ctx)" "pg_effect g = effect"
    and "grant_is_active g (pc_now_ms ctx) (pc_session ctx) (pc_agent_id ctx)"
    and "pg_scope g = from_proposal p"
  using assms by (auto simp: matching_permission_def find_Some_iff scope_matches_iff)

lemma missing_scope_None:
  "missing_scope ctx c = None \<longleftrightarrow> set (cd_scope_requirements c) \<subseteq> set (pc_granted_scopes ctx)"
  by (auto simp: missing_scope_def find_None_iff)

lemma sensitive_resource_iff:
  "list_ex (\<lambda>r. rd_classification r \<in> {RC_Sensitive, RC_Secret}) (ac_resources (ap_context p)) \<longleftrightarrow>
   has_resource p RC_Sensitive \<or> has_resource p RC_Secret"
  by (auto simp: has_resource_def list_ex_iff)

lemma baseline_outcome:
  assumes "cd_risk c \<notin> {Privileged, UnknownRisk}"
  shows "map_option pd_outcome (baseline e c p profile) =
     Some (if needs_confirmation e c p profile then Confirm else Allow)"
  using assms unfolding baseline_def sensitive_resource_iff needs_confirmation_def
  by (auto simp: decision_fields split: risk_class.splits)

lemma baseline_Some:
  assumes "cd_risk c \<notin> {Privileged, UnknownRisk}"
  obtains b where "baseline e c p profile = Some b"
    "pd_outcome b = (if needs_confirmation e c p profile then Confirm else Allow)"
  using baseline_outcome [OF assms, of e p profile] by auto

text \<open>
  \<open>decide\<close> in two stages: the validity, scope and immutable rules, and what follows when none of
  them denies.
\<close>

definition decide_tail ::
  "policy_engine \<Rightarrow> capability_descriptor \<Rightarrow> action_proposal \<Rightarrow> policy_context
   \<Rightarrow> policy_decision option" where
  "decide_tail e c p ctx =
     (case matching_permission ctx p Effect_Deny of
        Some g \<Rightarrow>
          Some (decision Deny PersistentExactDeny ''grant.exact-deny'' False None (pg_expires_at_ms g))
      | None \<Rightarrow>
      if cd_risk c \<in> {Privileged, UnknownRisk} then
        (if cd_risk c = Privileged
         then Some (decision Deny PrivilegedDenied ''baseline.privileged-deny'' False None None)
         else Some (decision Deny UnknownRiskDenied ''baseline.unknown-risk-deny'' False None None))
      else (case baseline e c p (pc_profile ctx) of
        None \<Rightarrow> None
      | Some base \<Rightarrow>
          (case (if pd_outcome base = Confirm then matching_permission ctx p Effect_Allow else None) of
             Some g \<Rightarrow>
               Some (decision Allow PersistentExactAllow ''grant.exact-allow'' False None
                 (pg_expires_at_ms g))
           | None \<Rightarrow> Some base)))"

definition gated :: "capability_descriptor \<Rightarrow> action_proposal \<Rightarrow> policy_context \<Rightarrow> bool" where
  "gated c p ctx =
     (is_err (descriptor_validate c) \<or> is_err (context_validate (ap_context p))
      \<or> \<not> set (cd_scope_requirements c) \<subseteq> set (pc_granted_scopes ctx) \<or> immutable_violation c p)"

lemma denied_gated:
  "denied c p ctx \<longleftrightarrow>
   gated c p ctx \<or> exact_grant ctx p Effect_Deny \<or> cd_risk c \<in> {Privileged, UnknownRisk}"
  by (auto simp: denied_def gated_def)

lemma deny_chain:
  assumes "A \<or> B \<or> S \<or> P \<or> C \<or> U"
    and "f a = x" "f b = x" "f s = x" "f p = x" "f c = x" "f u = x"
  shows "map_option f (if A then Some a else if B then Some b else if S then Some s
    else if P then Some p else if C then Some c else if U then Some u else r) = Some x"
  using assms by auto

lemma decide_gated:
  assumes "gated c p ctx"
  shows "map_option pd_outcome (decide e c p ctx) = Some Deny"
proof (cases "missing_scope ctx c")
  case None
  note unfolds = decide_def gated_def immutable_violation_def untrusted_origin_def
    authority_namespace_def missing_scope_None [symmetric]
  show ?thesis
    using assms None unfolding unfolds decide_tail_def [symmetric] None option.case
    by (intro deny_chain) (blast, simp_all add: decision_def)
next
  case (Some scope)
  then show ?thesis by (simp add: decide_def decision_def)
qed

lemma decide_ungated: "\<not> gated c p ctx \<Longrightarrow> decide e c p ctx = decide_tail e c p ctx"
  unfolding decide_def decide_tail_def [symmetric] gated_def immutable_violation_def
    untrusted_origin_def authority_namespace_def missing_scope_None [symmetric]
  by (simp only: de_Morgan_disj not_not if_False option.case simp_thms)

lemma decide_tail_outcome:
  "map_option pd_outcome (decide_tail e c p ctx) =
     Some (if exact_grant ctx p Effect_Deny \<or> cd_risk c \<in> {Privileged, UnknownRisk} then Deny
           else if needs_confirmation e c p (pc_profile ctx) \<and> \<not> exact_grant ctx p Effect_Allow
           then Confirm else Allow)"
proof (cases "exact_grant ctx p Effect_Deny \<or> cd_risk c \<in> {Privileged, UnknownRisk}")
  case True
  then show ?thesis
    using matching_permission_None [of ctx p Effect_Deny]
    by (auto simp: decide_tail_def decision_def split: option.split)
next
  case False
  then obtain b where b: "baseline e c p (pc_profile ctx) = Some b"
    "pd_outcome b = (if needs_confirmation e c p (pc_profile ctx) then Confirm else Allow)"
    using baseline_Some by metis
  show ?thesis
    using False b matching_permission_None [of ctx p Effect_Deny]
      matching_permission_None [of ctx p Effect_Allow]
    by (auto simp: decide_tail_def decision_def split: option.split)
qed

lemma decide_outcome: "map_option pd_outcome (decide e c p ctx) = Some (spec_outcome e c p ctx)"
  using decide_gated decide_ungated decide_tail_outcome
  by (cases "gated c p ctx") (simp_all add: spec_outcome_def denied_gated)

lemma decide_Some:
  obtains d where "decide e c p ctx = Some d" "pd_outcome d = spec_outcome e c p ctx"
  using decide_outcome [of e c p ctx] by auto

lemma spec_outcome_Deny: "spec_outcome e c p ctx = Deny \<longleftrightarrow> denied c p ctx"
  by (simp add: spec_outcome_def)

lemma spec_outcome_Allow:
  "spec_outcome e c p ctx = Allow \<longleftrightarrow>
   \<not> denied c p ctx \<and> (needs_confirmation e c p (pc_profile ctx) \<longrightarrow> exact_grant ctx p Effect_Allow)"
  by (simp add: spec_outcome_def)

section \<open>The interface of an authorizer\<close>

locale authorizer =
  fixes auth :: "policy_engine \<Rightarrow> capability_descriptor \<Rightarrow> action_proposal \<Rightarrow> execution_id
      \<Rightarrow> policy_context \<Rightarrow> policy_evaluation option"
  assumes total: "\<exists>ev. auth e c p x ctx = Some ev"
    and bound: "auth e c p x ctx = Some ev \<Longrightarrow> pe_authorization ev = Some a \<Longrightarrow>
      a = authorization_new x c (ap_action p) (normalized_grants ctx)"
    and allowed: "auth e c p x ctx = Some ev \<Longrightarrow>
      pe_authorization ev \<noteq> None \<longleftrightarrow> pd_outcome (pe_decision ev) = Allow"
    and sound: "auth e c p x ctx = Some ev \<Longrightarrow> pe_authorization ev = Some a \<Longrightarrow>
      \<not> contract_mismatch p c \<and> \<not> denied c p ctx"
begin

lemma denied_blocks: "auth e c p x ctx = Some ev \<Longrightarrow> denied c p ctx \<Longrightarrow> pe_authorization ev = None"
  using sound by (cases "pe_authorization ev") auto

lemma immutable_blocks:
  "auth e c p x ctx = Some ev \<Longrightarrow> immutable_violation c p \<Longrightarrow> pe_authorization ev = None"
  using denied_blocks by (simp add: denied_def)

lemma exact_deny_blocks:
  "auth e c p x ctx = Some ev \<Longrightarrow> exact_grant ctx p Effect_Deny \<Longrightarrow> pe_authorization ev = None"
  using denied_blocks by (simp add: denied_def)

lemma invalid_context_blocks:
  "auth e c p x ctx = Some ev \<Longrightarrow> is_err (context_validate (ap_context p)) \<Longrightarrow> pe_authorization ev = None"
  using denied_blocks by (simp add: denied_def)

lemma authorization_exact:
  "auth e c p x ctx = Some ev \<Longrightarrow> pe_authorization ev = Some a \<Longrightarrow>
   authorization_matches a c' action \<longleftrightarrow> c' = c \<and> action = ap_action p"
  by (drule (1) bound) (auto simp: authorization_matches_def authorization_new_def)

lemma authorization_contract:
  assumes "auth e c p x ctx = Some ev" and "pe_authorization ev = Some a"
  shows "descriptor_validate (ea_descriptor a) = Inr ()"
    and "ar_capability_id (ea_action a) = cd_id (ea_descriptor a)"
    and "arguments_kind (ar_arguments (ea_action a)) = cd_arguments (ea_descriptor a)"
  using bound [OF assms] sound [OF assms]
  by (auto simp: authorization_new_def denied_def contract_mismatch_def not_is_err_unit)

end

interpretation direct: authorizer authorize_proposal
proof
  fix e c p x ctx
  obtain d where d: "decide e c p ctx = Some d" "pd_outcome d = spec_outcome e c p ctx"
    by (rule decide_Some)
  show "\<exists>ev. authorize_proposal e c p x ctx = Some ev"
    by (simp add: authorize_proposal_def d)
  fix ev assume ev: "authorize_proposal e c p x ctx = Some ev"
  then show "(pe_authorization ev \<noteq> None) = (pd_outcome (pe_decision ev) = Allow)"
    by (auto simp: authorize_proposal_def d blocked_def evaluation_blocked_def evaluation_allowed_def
        decision_def is_allowed_def split: if_splits)
  fix a assume a: "pe_authorization ev = Some a"
  from ev a show "a = authorization_new x c (ap_action p) (normalized_grants ctx)"
    by (auto simp: authorize_proposal_def d blocked_def evaluation_blocked_def evaluation_allowed_def
        split: if_splits)
  from ev a show "\<not> contract_mismatch p c \<and> \<not> denied c p ctx"
    by (auto simp: authorize_proposal_def d blocked_def evaluation_blocked_def evaluation_allowed_def
        is_allowed_def spec_outcome_def split: if_splits)
qed

interpretation confirmed: authorizer authorize_confirmed_proposal_once
proof
  fix e c p x ctx
  obtain d where d: "decide e c p ctx = Some d" "pd_outcome d = spec_outcome e c p ctx"
    by (rule decide_Some)
  show "\<exists>ev. authorize_confirmed_proposal_once e c p x ctx = Some ev"
    by (simp add: authorize_confirmed_proposal_once_def d Let_def)
  fix ev assume ev: "authorize_confirmed_proposal_once e c p x ctx = Some ev"
  then show "(pe_authorization ev \<noteq> None) = (pd_outcome (pe_decision ev) = Allow)"
    by (cases "pd_outcome d")
      (auto simp: authorize_confirmed_proposal_once_def d blocked_def evaluation_blocked_def
        evaluation_allowed_def decision_def Let_def simp flip: d(2) split: if_splits)
  fix a assume a: "pe_authorization ev = Some a"
  from ev a show "a = authorization_new x c (ap_action p) (normalized_grants ctx)"
    by (auto simp: authorize_confirmed_proposal_once_def d blocked_def evaluation_blocked_def
        evaluation_allowed_def Let_def split: if_splits)
  from ev a show "\<not> contract_mismatch p c \<and> \<not> denied c p ctx"
    by (auto simp: authorize_confirmed_proposal_once_def d blocked_def evaluation_blocked_def
        evaluation_allowed_def Let_def spec_outcome_def split: if_splits)
qed

section \<open>Properties\<close>

lemma exact_grant_add_other:
  "pg_scope g \<noteq> from_proposal p \<Longrightarrow>
   matching_permission (add_permission_grant g ctx) p effect = matching_permission ctx p effect"
  by (auto simp: matching_permission_def add_permission_grant_def find_append scope_matches_iff
      split: option.splits)

lemma add_permission_grant_frame [simp]:
  "pc_granted_scopes (add_permission_grant g ctx) = pc_granted_scopes ctx"
  "pc_profile (add_permission_grant g ctx) = pc_profile ctx"
  by (simp_all add: add_permission_grant_def)

text \<open>A concrete capability and proposals for the witnesses.\<close>

definition example_capability :: "risk_class \<Rightarrow> capability_descriptor" where
  "example_capability risk =
     \<lparr>cd_id = ''test.operation'', cd_version = 1, cd_description = ''Test operation'', cd_risk = risk,
      cd_side_effect = (risk \<noteq> ReadOnly), cd_idempotent = True,
      cd_reversible = (risk = ReversibleLocalWrite), cd_scope_requirements = [],
      cd_confirmation = RiskBased, cd_timeout_ms = 1000, cd_arguments = ArgKind_None\<rparr>"

definition example_proposal :: "action_context \<Rightarrow> action_proposal" where
  "example_proposal context =
     \<lparr>ap_action = \<lparr>ar_capability_id = ''test.operation'', ar_arguments = Args_None\<rparr>,
      ap_context = context\<rparr>"

definition example_identity :: agent_execution_identity where
  "example_identity =
     \<lparr>ax_agent_id = ''agent:1'', ax_instance_id = ''instance:1'', ax_session_id = ''agent-session:1''\<rparr>"

definition example_secret_flow :: data_flow_context where
  "example_secret_flow =
     \<lparr>df_source = \<lparr>rd_kind = RK_File, rd_identifier = ''fixture:ssh-private-key'',
        rd_classification = RC_Secret\<rparr>,
      df_data_classification = DC_Secret, df_destination = Dest_UntrustedExternal\<rparr>"

definition example_agent_grant :: permission_grant where
  "example_agent_grant =
     \<lparr>pg_id = ''permission:1'', pg_effect = Effect_Allow, pg_lifetime = Life_Session,
      pg_scope = from_proposal (example_proposal (agent_context example_identity)),
      pg_session = Some (Session_Agent ''agent-session:1''), pg_agent_id = Some ''agent:1'',
      pg_granted_by = AO_UserExplicit, pg_granted_at_ms = 0, pg_expires_at_ms = None,
      pg_revoked_at_ms = None, pg_use_limit = None, pg_use_count = 0\<rparr>"

lemma example_capability_valid: "descriptor_validate (example_capability risk) = Inr ()"
proof -
  have "CapabilityId_new ''test.operation'' = Inr ''test.operation''" by code_simp
  moreover have "trim ''Test operation'' = ''Test operation''" by code_simp
  ultimately show ?thesis by (cases risk) (simp_all add: descriptor_validate_def example_capability_def)
qed

lemma example_agent_context_valid: "context_validate (agent_context example_identity) = Inr ()"
  by code_simp

text \<open>
  C3. The engine implements the documented precedence: for every descriptor, proposal and context
  it returns a decision (the \<open>unreachable!\<close> arm is never taken) whose outcome is Deny if any
  validity, scope, immutable, exact-deny or risk rule denies, else Confirm if some rule asks for a
  confirmation and no exact allow grant applies, else Allow.
\<close>
theorem decide_refines_precedence:
  "map_option pd_outcome (decide e c p ctx) = Some (spec_outcome e c p ctx)"
  by (rule decide_outcome)

text \<open>
  C4. The immutable rules cannot be overridden: if a proposal sends secret data to an external
  destination, is destructive on production, is dangerous on a system-critical resource, or is an
  untrusted mutation of security state, then no context, grant, profile, engine setting or user
  confirmation produces an authorization.
\<close>
theorem immutable_rules_absolute:
  assumes "immutable_violation c p"
  shows "map_option pe_authorization (authorize_proposal e c p x ctx) = Some None
    \<and> map_option pe_authorization (authorize_confirmed_proposal_once e c p x ctx) = Some None"
  using direct.total [of e c p x ctx] confirmed.total [of e c p x ctx]
    direct.immutable_blocks [OF _ assms] confirmed.immutable_blocks [OF _ assms]
  by auto

theorem immutable_rules_absolute_witness:
  "map_option pe_authorization
     (authorize_confirmed_proposal_once PolicyEngine_new (example_capability ExternalSideEffect)
        (example_proposal (with_data_flow (trusted_user None) example_secret_flow)) ''execution:1''
        default_context) = Some None"
proof -
  have "immutable_violation (example_capability ExternalSideEffect)
      (example_proposal (with_data_flow (trusted_user None) example_secret_flow))"
    by (simp add: immutable_violation_def secret_to_external_def example_proposal_def
        with_data_flow_def example_secret_flow_def)
  from immutable_rules_absolute [OF this] show ?thesis by blast
qed

text \<open>
  A user confirmation never overrides Deny: if the engine denies a proposal, the confirmed path
  yields no authorization and reports Deny.
\<close>
lemma confirmation_never_overrides_deny:
  assumes "decide e c p ctx = Some d" and "pd_outcome d = Deny"
    and "authorize_confirmed_proposal_once e c p x ctx = Some ev"
  shows "pe_authorization ev = None \<and> pd_outcome (pe_decision ev) = Deny"
  using assms
  by (auto simp: authorize_confirmed_proposal_once_def blocked_def evaluation_blocked_def decision_def
      split: if_splits)

text \<open>
  An authorization is issued only for an allowed decision, carries the execution identifier of
  its request and matches that exact descriptor and action only; the descriptor it carries is
  valid, the action respects the capability's contract, and no denying rule applied.
\<close>
lemma authorization_is_exact:
  assumes "authorize_proposal e c p x ctx = Some ev" and "pe_authorization ev = Some a"
  shows "pd_outcome (pe_decision ev) = Allow \<and> ea_execution_id a = x
    \<and> (authorization_matches a c' action \<longleftrightarrow> c' = c \<and> action = ap_action p)
    \<and> descriptor_validate (ea_descriptor a) = Inr () \<and> \<not> denied c p ctx
    \<and> ar_capability_id (ea_action a) = cd_id c
    \<and> arguments_kind (ar_arguments (ea_action a)) = cd_arguments c"
  using direct.allowed [OF assms(1)] direct.bound [OF assms] direct.sound [OF assms]
    direct.authorization_exact [OF assms] direct.authorization_contract [OF assms] assms(2)
  by (simp add: authorization_new_def)

text \<open>
  A side effect proposed by an agent is authorized only by an exact allow grant: there is a
  stored grant for exactly this action, its resources and destination, which is active now and is
  bound to the agent of the evaluation.
\<close>
lemma agent_side_effect_needs_grant:
  assumes "authorize_proposal e c p x ctx = Some ev" and "pe_authorization ev = Some a"
    and "ac_origin (ap_context p) = AO_Agent" and "cd_side_effect c"
  shows "\<exists>g \<in> set (pc_permission_grants ctx). pg_effect g = Effect_Allow
    \<and> pg_scope g = from_proposal p \<and> pg_agent_id g = pc_agent_id ctx
    \<and> grant_is_active g (pc_now_ms ctx) (pc_session ctx) (pc_agent_id ctx)"
proof -
  obtain d where d: "decide e c p ctx = Some d" "pd_outcome d = spec_outcome e c p ctx"
    by (rule decide_Some)
  have "pd_outcome d = Allow"
    using assms(1,2) d(1)
    by (auto simp: authorize_proposal_def blocked_def evaluation_blocked_def is_allowed_def split: if_splits)
  with d(2) have "spec_outcome e c p ctx = Allow" by simp
  then have "exact_grant ctx p Effect_Allow"
    using assms(3,4) by (simp add: spec_outcome_Allow needs_confirmation_def)
  then show ?thesis using grant_is_active_agent by (fastforce simp: exact_grant_def)
qed

definition example_agent_policy_context :: policy_context where
  "example_agent_policy_context =
     add_permission_grant example_agent_grant
       (set_action_context (agent_context example_identity) default_context)"

lemma example_agent_authorized:
  "spec_outcome PolicyEngine_new (example_capability LocalSideEffect)
     (example_proposal (agent_context example_identity)) example_agent_policy_context = Allow"
proof -
  have "exact_grant example_agent_policy_context (example_proposal (agent_context example_identity))
      Effect_Allow"
    by (simp add: exact_grant_def example_agent_policy_context_def add_permission_grant_def
        set_action_context_def default_context_def agent_context_def example_agent_grant_def
        grant_is_active_def example_identity_def)
  moreover have "\<not> denied (example_capability LocalSideEffect)
      (example_proposal (agent_context example_identity)) example_agent_policy_context"
    using example_capability_valid [of LocalSideEffect] example_agent_context_valid
    by (simp add: denied_def example_proposal_def example_capability_def immutable_violation_def
        secret_to_external_def has_resource_def agent_context_def authority_namespace_def
        exact_grant_def example_agent_policy_context_def add_permission_grant_def
        set_action_context_def default_context_def example_agent_grant_def)
  ultimately show ?thesis by (simp add: spec_outcome_Allow)
qed

lemma example_agent_evaluation:
  obtains ev where
    "authorize_proposal PolicyEngine_new (example_capability LocalSideEffect)
       (example_proposal (agent_context example_identity)) ''execution:1'' example_agent_policy_context
     = Some ev"
    "pe_authorization ev = Some (authorization_new ''execution:1'' (example_capability LocalSideEffect)
       (ap_action (example_proposal (agent_context example_identity)))
       (normalized_grants example_agent_policy_context))"
proof -
  let ?c = "example_capability LocalSideEffect" and ?p = "example_proposal (agent_context example_identity)"
  obtain d where d: "decide PolicyEngine_new ?c ?p example_agent_policy_context = Some d"
    "pd_outcome d = Allow"
    using decide_Some example_agent_authorized by metis
  have "\<not> contract_mismatch ?p ?c"
    by (simp add: contract_mismatch_def example_proposal_def example_capability_def)
  then have "authorize_proposal PolicyEngine_new ?c ?p ''execution:1'' example_agent_policy_context
      = Some (evaluation_allowed d (authorization_new ''execution:1'' ?c (ap_action ?p)
          (normalized_grants example_agent_policy_context)))"
    by (simp add: authorize_proposal_def d is_allowed_def)
  then show thesis by (rule that) (simp add: evaluation_allowed_def)
qed

text \<open>
  Grants are exact: a grant for any other action, resource list or destination changes nothing
  about the decision for a proposal.
\<close>
lemma foreign_grant_has_no_effect:
  assumes "pg_scope g \<noteq> from_proposal p"
  shows "decide e c p (add_permission_grant g ctx) = decide e c p ctx"
proof -
  have "missing_scope (add_permission_grant g ctx) c = missing_scope ctx c"
    by (simp add: missing_scope_def)
  then show ?thesis
    by (simp only: decide_def exact_grant_add_other [OF assms] add_permission_grant_frame)
qed

text \<open>
  An active exact deny grant is decisive: whatever other grants the context holds and in
  whatever order, and whatever the user confirms, no authorization is issued.
\<close>
lemma exact_deny_is_decisive:
  assumes "g \<in> set (pc_permission_grants ctx)" and "pg_effect g = Effect_Deny"
    and "pg_scope g = from_proposal p"
    and "grant_is_active g (pc_now_ms ctx) (pc_session ctx) (pc_agent_id ctx)"
  shows "map_option pe_authorization (authorize_proposal e c p x ctx) = Some None
    \<and> map_option pe_authorization (authorize_confirmed_proposal_once e c p x ctx) = Some None"
proof -
  have "exact_grant ctx p Effect_Deny" using assms by (auto simp: exact_grant_def)
  then show ?thesis
    using direct.total [of e c p x ctx] confirmed.total [of e c p x ctx]
      direct.exact_deny_blocks confirmed.exact_deny_blocks by fastforce
qed

end
