(* ===== verification/Halquen_Capabilities.thy ===== *)
theory Halquen_Capabilities
  imports Halquen_Policy "HOL-Library.Word"
begin

text \<open>
  The capabilities crate: the capability registry (\<open>registry.rs\<close>), the built-in descriptor
  (\<open>builtins.rs\<close>), the trusted application registry (\<open>applications.rs\<close>), executable identity
  inspection (\<open>executable.rs\<close>) and the executors (\<open>executor.rs\<close>). The operating system is an
  argument: a record of the file-system reads, the process environment and the spawn call the code
  makes; the SHA-256 digest of the third-party crate is an argument as well. The interface
  \<open>executor_contract\<close> is what the daemon relies on for every executor.
\<close>

unbundle bit_operations_syntax

section \<open>Capability registry\<close>

datatype registry_error =
  AlreadyRegistered capability_id | Registry_InvalidDescriptor capability_validation_error

type_synonym capability_registry = "(capability_id, capability_descriptor) btree_map"

definition CapabilityRegistry_new :: capability_registry where
  "CapabilityRegistry_new = []"

definition register ::
  "capability_descriptor \<Rightarrow> capability_registry \<Rightarrow> (registry_error, capability_registry) result" where
  "register capability registry =
     and_then (map_err Registry_InvalidDescriptor (descriptor_validate capability)) (\<lambda>_.
       let id = cd_id capability in
       if bt_get registry id \<noteq> None then Inl (AlreadyRegistered id)
       else Inr (bt_insert id capability registry))"

definition registry_get :: "capability_registry \<Rightarrow> capability_id \<Rightarrow> capability_descriptor option" where
  "registry_get registry capability_id = bt_get registry capability_id"

definition registry_len :: "capability_registry \<Rightarrow> nat" where
  "registry_len registry = length registry"

definition registry_list :: "capability_registry \<Rightarrow> capability_descriptor list" where
  "registry_list registry = bt_values registry"

definition open_app_descriptor :: capability_descriptor where
  "open_app_descriptor =
     \<lparr>cd_id = ''system.open_app'', cd_version = 1, cd_description = ''Open an installed application'',
      cd_risk = LocalSideEffect, cd_side_effect = True, cd_idempotent = False, cd_reversible = False,
      cd_scope_requirements = [], cd_confirmation = RiskBased, cd_timeout_ms = 5000,
      cd_arguments = ArgKind_OpenApp\<rparr>"

section \<open>Application registry\<close>

datatype application_registry_error = InvalidRegistration

type_synonym application_registry = "(entity_id, registered_application) btree_map"

definition ApplicationRegistry_new :: application_registry where
  "ApplicationRegistry_new = []"

definition application_upsert ::
  "registered_application \<Rightarrow> application_registry
   \<Rightarrow> (application_registry_error, application_registry) result" where
  "application_upsert application registry =
     and_then (map_err (\<lambda>_. InvalidRegistration) (application_validate application)) (\<lambda>_.
       Inr (bt_insert (ra_entity_id application) application registry))"

fun from_applications_into ::
  "registered_application list \<Rightarrow> application_registry
   \<Rightarrow> (application_registry_error, application_registry) result" where
  "from_applications_into [] registry = Inr registry"
| "from_applications_into (a # as) registry =
     and_then (application_upsert a registry) (from_applications_into as)"

definition from_applications ::
  "registered_application list \<Rightarrow> (application_registry_error, application_registry) result" where
  "from_applications applications = from_applications_into applications ApplicationRegistry_new"

definition application_remove :: "entity_id \<Rightarrow> application_registry \<Rightarrow> application_registry \<times> bool" where
  "application_remove entity_id registry =
     (bt_remove entity_id registry, bt_get registry entity_id \<noteq> None)"

definition application_get :: "application_registry \<Rightarrow> entity_id \<Rightarrow> registered_application option" where
  "application_get registry entity_id = bt_get registry entity_id"

section \<open>The operating system\<close>

record file_metadata =
  fm_is_symlink :: bool
  fm_is_file :: bool
  fm_is_dir :: bool
  fm_mode :: "32 word"
  fm_uid :: u32
  fm_dev :: u64
  fm_ino :: u64
  fm_size :: u64
  fm_mtime :: i64
  fm_mtime_nsec :: i64

record command_line =
  cmd_program :: string
  cmd_args :: "string list"
  cmd_env :: "(string \<times> string) list"

text \<open>
  What the code asks of the operating system: \<open>fs::metadata\<close>, \<open>fs::symlink_metadata\<close>,
  \<open>Path::canonicalize\<close>, the contents of a file, an environment variable, and whether spawning a
  command succeeds. \<open>None\<close> is an I/O error.
\<close>

record os =
  os_metadata :: "string \<Rightarrow> file_metadata option"
  os_symlink_metadata :: "string \<Rightarrow> file_metadata option"
  os_canonicalize :: "string \<Rightarrow> string option"
  os_read :: "string \<Rightarrow> string option"
  os_var :: "string \<Rightarrow> string option"
  os_spawn :: "command_line \<Rightarrow> bool"

subsection \<open>Paths\<close>

text \<open>
  \<open>Path::components\<close>: repeated separators and \<open>.\<close> components vanish, except a leading \<open>.\<close> of a
  relative path; paths are equal if their components are.
\<close>

datatype path_component = RootDir | CurDir | ParentDir | Normal string

fun segment_components :: "string list \<Rightarrow> path_component list" where
  "segment_components [] = []"
| "segment_components (s # ss) =
     (if s = [] \<or> s = ''.'' then segment_components ss
      else if s = ''..'' then ParentDir # segment_components ss
      else Normal s # segment_components ss)"

definition is_absolute :: "string \<Rightarrow> bool" where
  "is_absolute path = starts_with path ''/''"

definition components :: "string \<Rightarrow> path_component list" where
  "components path =
     (let segments = split_on CHR ''/'' path in
      if is_absolute path then RootDir # segment_components segments
      else if first_row segments = Some ''.'' then CurDir # segment_components segments
      else segment_components segments)"

fun component_str :: "path_component \<Rightarrow> string" where
  "component_str RootDir = ''/''"
| "component_str CurDir = ''.''"
| "component_str ParentDir = ''..''"
| "component_str (Normal s) = s"

text \<open>\<open>PathBuf::push\<close> of a relative component.\<close>

definition path_push :: "string \<Rightarrow> path_component \<Rightarrow> string" where
  "path_push path c =
     (if path \<noteq> [] \<and> last path = CHR ''/'' then path @ component_str c
      else path @ ''/'' @ component_str c)"

text \<open>The successive values of \<open>current\<close> in the symlink walk: every prefix below the root.\<close>

fun path_prefixes :: "string \<Rightarrow> path_component list \<Rightarrow> string list" where
  "path_prefixes current [] = []"
| "path_prefixes current (c # cs) = path_push current c # path_prefixes (path_push current c) cs"

text \<open>\<open>Path::ancestors().skip(1)\<close> of an absolute normalised path: its proper prefixes, root last.\<close>

definition proper_ancestors :: "string \<Rightarrow> string list" where
  "proper_ancestors path =
     (case components path of
        RootDir # cs \<Rightarrow> (if cs = [] then [] else rev (''/'' # butlast (path_prefixes ''/'' cs)))
      | _ \<Rightarrow> [])"

subsection \<open>Executable identity\<close>

datatype executable_identity_error =
  InvalidPath | SymlinkComponent | NotExecutable | InvalidOwner | InsecurePermissions | HashMismatch
| IdentityChanged | InspectionFailed

fun reject_symlinks :: "os \<Rightarrow> string list \<Rightarrow> (executable_identity_error, unit) result" where
  "reject_symlinks sys [] = Inr ()"
| "reject_symlinks sys (current # rest) =
     (case os_symlink_metadata sys current of
        None \<Rightarrow> Inl InspectionFailed
      | Some metadata \<Rightarrow>
          if fm_is_symlink metadata then Inl SymlinkComponent else reject_symlinks sys rest)"

definition reject_symlink_components ::
  "os \<Rightarrow> string \<Rightarrow> (executable_identity_error, unit) result" where
  "reject_symlink_components sys path =
     reject_symlinks sys (path_prefixes ''/'' (drop 1 (components path)))"

definition validate_owner ::
  "u32 \<Rightarrow> executable_ownership \<Rightarrow> u32 \<Rightarrow> u32 \<Rightarrow> (executable_identity_error, unit) result" where
  "validate_owner owner_uid ownership current_uid root_owner_uid =
     (let valid = (case ownership of
            RootOnly \<Rightarrow> owner_uid = root_owner_uid
          | RootOrCurrentUser \<Rightarrow> owner_uid = root_owner_uid \<or> owner_uid = current_uid)
      in if valid then Inr () else Inl InvalidOwner)"

fun validate_parents ::
  "os \<Rightarrow> executable_ownership \<Rightarrow> u32 \<Rightarrow> u32 \<Rightarrow> string list
   \<Rightarrow> (executable_identity_error, unit) result" where
  "validate_parents sys ownership current_uid root_owner_uid [] = Inr ()"
| "validate_parents sys ownership current_uid root_owner_uid (parent # rest) =
     (case os_symlink_metadata sys parent of
        None \<Rightarrow> Inl InspectionFailed
      | Some metadata \<Rightarrow>
          if fm_is_symlink metadata \<or> \<not> fm_is_dir metadata then Inl SymlinkComponent
          else and_then (validate_owner (fm_uid metadata) ownership current_uid root_owner_uid) (\<lambda>_.
            if fm_mode metadata AND 18 \<noteq> 0 then Inl InsecurePermissions
            else validate_parents sys ownership current_uid root_owner_uid rest))"

definition validate_parent_directories ::
  "os \<Rightarrow> string \<Rightarrow> executable_ownership \<Rightarrow> u32 \<Rightarrow> u32
   \<Rightarrow> (executable_identity_error, unit) result" where
  "validate_parent_directories sys executable ownership current_uid root_owner_uid =
     validate_parents sys ownership current_uid root_owner_uid (proper_ancestors executable)"

text \<open>
  \<open>str::lines\<close>, \<open>str::split_whitespace\<close> and \<open>str::parse::<u32>\<close>, which read the user id from the
  process status file.
\<close>

definition strip_cr :: "string \<Rightarrow> string" where
  "strip_cr line = (if line \<noteq> [] \<and> last line = char_of (13::nat) then butlast line else line)"

definition str_lines :: "string \<Rightarrow> string list" where
  "str_lines s =
     (let parts = split_on (char_of (10::nat)) s in
      map strip_cr (butlast parts) @ (if last parts = [] then [] else [last parts]))"

function split_whitespace_acc :: "string \<Rightarrow> string \<Rightarrow> string list" where
  "split_whitespace_acc acc s =
     (case find (\<lambda>w. w \<noteq> [] \<and> prefix w s) white_space of
        Some w \<Rightarrow> (if acc = [] then split_whitespace_acc [] (drop (length w) s)
                   else acc # split_whitespace_acc [] (drop (length w) s))
      | None \<Rightarrow> (case s of [] \<Rightarrow> (if acc = [] then [] else [acc])
                 | c # cs \<Rightarrow> split_whitespace_acc (acc @ [c]) cs))"
  by pat_completeness auto
termination
  by (relation "measure (\<lambda>(acc, s). length s)")
    (auto simp: find_Some_iff prefix_def simp flip: length_greater_0_conv)

declare split_whitespace_acc.simps [simp del]

definition split_whitespace :: "string \<Rightarrow> string list" where
  "split_whitespace s = split_whitespace_acc [] s"

definition parse_u32 :: "string \<Rightarrow> u32 option" where
  "parse_u32 s =
     (let digits = (case s of c # cs \<Rightarrow> if c = CHR ''+'' then cs else s | [] \<Rightarrow> []) in
      if digits \<noteq> [] \<and> list_all is_ascii_digit digits \<and> undec digits \<le> u32_max
      then Some (undec digits) else None)"

definition current_uid :: "os \<Rightarrow> (executable_identity_error, u32) result" where
  "current_uid sys =
     (case os_read sys ''/proc/self/status'' of
        None \<Rightarrow> Inl InspectionFailed
      | Some status \<Rightarrow>
          (case find (\<lambda>line. starts_with line ''Uid:'') (str_lines status) of
             None \<Rightarrow> Inl InspectionFailed
           | Some line \<Rightarrow>
               (case split_whitespace line of
                  _ # value # _ \<Rightarrow> ok_or InspectionFailed (parse_u32 value)
                | _ \<Rightarrow> Inl InspectionFailed)))"

text \<open>
  \<open>sha256\<close>: the digest of the whole file. The chunked reads feed the digest the file's bytes in
  order, so the hash function takes the contents.
\<close>

definition sha256 ::
  "os \<Rightarrow> (string \<Rightarrow> string) \<Rightarrow> string \<Rightarrow> (executable_identity_error, string) result" where
  "sha256 sys digest path =
     (case os_read sys path of None \<Rightarrow> Inl InspectionFailed | Some bytes \<Rightarrow> Inr (digest bytes))"

definition check_pin ::
  "os \<Rightarrow> (string \<Rightarrow> string) \<Rightarrow> string \<Rightarrow> string option
   \<Rightarrow> (executable_identity_error, string option) result" where
  "check_pin sys digest canonical sha256_pin =
     (case sha256_pin of
        None \<Rightarrow> Inr None
      | Some expected \<Rightarrow>
          if length expected \<noteq> 64 \<or> \<not> list_all lower_hex_byte expected then Inl HashMismatch
          else and_then (sha256 sys digest canonical) (\<lambda>actual.
            if actual \<noteq> expected then Inl HashMismatch else Inr (Some actual)))"

definition inspect_executable ::
  "os \<Rightarrow> (string \<Rightarrow> string) \<Rightarrow> string \<Rightarrow> executable_ownership \<Rightarrow> string option
   \<Rightarrow> (executable_identity_error, executable_identity) result" where
  "inspect_executable sys digest value ownership sha256_pin =
     (if \<not> is_absolute value
         \<or> list_ex (\<lambda>component. component = CurDir \<or> component = ParentDir) (components value)
      then Inl InvalidPath
      else and_then (reject_symlink_components sys value) (\<lambda>_.
        and_then (ok_or InspectionFailed (os_canonicalize sys value)) (\<lambda>canonical.
        if components canonical \<noteq> components value then Inl InvalidPath
        else and_then (ok_or InspectionFailed (os_metadata sys canonical)) (\<lambda>metadata.
        if \<not> fm_is_file metadata \<or> fm_mode metadata AND 73 = 0 then Inl NotExecutable
        else and_then (current_uid sys) (\<lambda>uid.
        and_then (ok_or InspectionFailed (map_option fm_uid (os_metadata sys ''/''))) (\<lambda>root_owner_uid.
        and_then (validate_owner (fm_uid metadata) ownership uid root_owner_uid) (\<lambda>_.
        if fm_mode metadata AND 18 \<noteq> 0 then Inl InsecurePermissions
        else and_then (validate_parent_directories sys canonical ownership uid root_owner_uid) (\<lambda>_.
        and_then (check_pin sys digest canonical sha256_pin) (\<lambda>sha256_hex.
        Inr \<lparr>ei_canonical_path = canonical, ei_device = fm_dev metadata, ei_inode = fm_ino metadata,
             ei_owner_uid = fm_uid metadata, ei_size = fm_size metadata,
             ei_modified_seconds = fm_mtime metadata,
             ei_modified_nanoseconds = fm_mtime_nsec metadata, ei_sha256_hex = sha256_hex\<rparr>)))))))))"

definition verify_executable ::
  "os \<Rightarrow> (string \<Rightarrow> string) \<Rightarrow> executable_identity \<Rightarrow> executable_ownership
   \<Rightarrow> (executable_identity_error, string) result" where
  "verify_executable sys digest expected ownership =
     and_then (map_err (\<lambda>_. IdentityChanged) (identity_validate expected)) (\<lambda>_.
     and_then (inspect_executable sys digest (ei_canonical_path expected) ownership
                 (ei_sha256_hex expected)) (\<lambda>actual.
     if actual \<noteq> expected then Inl IdentityChanged else Inr (ei_canonical_path actual)))"

section \<open>Executors\<close>

datatype execution_result_code = Simulated | Launched

datatype execution_error =
  InvalidAuthorization | UnknownApplication | ExecutableIdentityChanged | SpawnFailed
| RegistryUnavailable

definition validate_authorization :: "execution_authorization \<Rightarrow> (execution_error, unit) result" where
  "validate_authorization a =
     (if is_err (descriptor_validate (ea_descriptor a))
         \<or> ar_capability_id (ea_action a) \<noteq> cd_id (ea_descriptor a)
         \<or> arguments_kind (ar_arguments (ea_action a)) \<noteq> cd_arguments (ea_descriptor a)
      then Inl InvalidAuthorization
      else Inr ())"

text \<open>
  An execution returns its result and the command it asked the operating system to spawn, if any.
\<close>

definition dry_run_execute ::
  "execution_authorization \<Rightarrow> (execution_error, execution_result_code) result \<times> command_line option" where
  "dry_run_execute a = (and_then (validate_authorization a) (\<lambda>_. Inr Simulated), None)"

definition forwarded_variables :: "string list" where
  "forwarded_variables =
     [''DISPLAY'', ''WAYLAND_DISPLAY'', ''XAUTHORITY'', ''DBUS_SESSION_BUS_ADDRESS'',
      ''XDG_RUNTIME_DIR'', ''XDG_CONFIG_HOME'', ''XDG_DATA_HOME'', ''XDG_CACHE_HOME'', ''HOME'',
      ''LANG'', ''LC_ALL'']"

definition command_environment :: "os \<Rightarrow> (string \<times> string) list" where
  "command_environment sys =
     (''PATH'', ''/usr/local/bin:/usr/bin:/bin'') #
     List.map_filter (\<lambda>variable. map_option (Pair variable) (os_var sys variable)) forwarded_variables"

text \<open>The shared registry is absent when its lock is poisoned.\<close>

definition real_linux_execute ::
  "os \<Rightarrow> (string \<Rightarrow> string) \<Rightarrow> application_registry option \<Rightarrow> execution_authorization
   \<Rightarrow> (execution_error, execution_result_code) result \<times> command_line option" where
  "real_linux_execute sys digest applications a =
     (case validate_authorization a of
        Inl error \<Rightarrow> (Inl error, None)
      | Inr _ \<Rightarrow>
     (case ar_arguments (ea_action a) of
        Args_None \<Rightarrow> (Inl InvalidAuthorization, None)
      | Args_OpenApp app \<Rightarrow>
     (case applications of
        None \<Rightarrow> (Inl RegistryUnavailable, None)
      | Some registry \<Rightarrow>
     (case application_get registry app of
        None \<Rightarrow> (Inl UnknownApplication, None)
      | Some application \<Rightarrow>
          if \<not> ra_enabled application then (Inl UnknownApplication, None)
          else
     (case verify_executable sys digest (ra_identity application) (ra_ownership application) of
        Inl _ \<Rightarrow> (Inl ExecutableIdentityChanged, None)
      | Inr executable \<Rightarrow>
          (let command = \<lparr>cmd_program = executable, cmd_args = ra_arguments application,
                          cmd_env = command_environment sys\<rparr>
           in if os_spawn sys command then (Inr Launched, Some command)
              else (Inl SpawnFailed, None)))))))"

datatype runtime_executor = DryRun | RealLinux "application_registry option"

fun runtime_execute ::
  "os \<Rightarrow> (string \<Rightarrow> string) \<Rightarrow> runtime_executor \<Rightarrow> execution_authorization
   \<Rightarrow> (execution_error, execution_result_code) result \<times> command_line option" where
  "runtime_execute sys digest DryRun a = dry_run_execute a"
| "runtime_execute sys digest (RealLinux applications) a = real_linux_execute sys digest applications a"

section \<open>The interface of an executor\<close>

locale executor_contract =
  fixes exec :: "execution_authorization
      \<Rightarrow> (execution_error, execution_result_code) result \<times> command_line option"
  assumes ok_valid: "fst (exec a) = Inr code \<Longrightarrow> validate_authorization a = Inr ()"
    and spawn_launched: "snd (exec a) = Some cmd \<Longrightarrow> fst (exec a) = Inr Launched"
    and simulated_silent: "fst (exec a) = Inr Simulated \<Longrightarrow> snd (exec a) = None"
begin

lemma error_never_spawns: "fst (exec a) = Inl err \<Longrightarrow> snd (exec a) = None"
  using spawn_launched by (cases "snd (exec a)") auto

lemma invalid_never_spawns:
  assumes "validate_authorization a \<noteq> Inr ()"
  shows "snd (exec a) = None \<and> is_err (fst (exec a))"
proof -
  have "is_err (fst (exec a))" using assms ok_valid by (cases "fst (exec a)") auto
  then show ?thesis using error_never_spawns by (cases "fst (exec a)") auto
qed

end

interpretation dry: executor_contract dry_run_execute
  by unfold_locales (auto simp: dry_run_execute_def and_then_Inr_iff)

lemma real_linux_execute_cases:
  assumes "real_linux_execute sys digest applications a = (r, cmd)"
  obtains (error) err where "r = Inl err" "cmd = None"
  | (launched) registry app application executable where
      "validate_authorization a = Inr ()" "applications = Some registry"
      "ar_arguments (ea_action a) = Args_OpenApp app"
      "application_get registry app = Some application" "ra_enabled application"
      "verify_executable sys digest (ra_identity application) (ra_ownership application) = Inr executable"
      "r = Inr Launched"
      "cmd = Some \<lparr>cmd_program = executable, cmd_args = ra_arguments application,
                   cmd_env = command_environment sys\<rparr>"
  using assms
  by (auto simp: real_linux_execute_def Let_def split: sum.splits action_arguments.splits
      option.splits if_splits)

interpretation runtime: executor_contract "runtime_execute sys digest ex" for sys digest ex
proof (cases ex)
  case DryRun
  then show "executor_contract (runtime_execute sys digest ex)"
    by unfold_locales (auto simp: dry_run_execute_def and_then_Inr_iff)
next
  case (RealLinux applications)
  show "executor_contract (runtime_execute sys digest ex)"
  proof
    fix a
    obtain r cmd where rc: "runtime_execute sys digest ex a = (r, cmd)" by fastforce
    with RealLinux have "real_linux_execute sys digest applications a = (r, cmd)" by simp
    then have "(\<exists>err. r = Inl err \<and> cmd = None)
        \<or> (validate_authorization a = Inr () \<and> r = Inr Launched \<and> cmd \<noteq> None)"
      by (cases rule: real_linux_execute_cases) auto
    then show "\<And>code. fst (runtime_execute sys digest ex a) = Inr code \<Longrightarrow> validate_authorization a = Inr ()"
      and "\<And>c. snd (runtime_execute sys digest ex a) = Some c \<Longrightarrow>
             fst (runtime_execute sys digest ex a) = Inr Launched"
      and "fst (runtime_execute sys digest ex a) = Inr Simulated \<Longrightarrow>
             snd (runtime_execute sys digest ex a) = None"
      by (auto simp: rc)
  qed
qed

section \<open>Facts\<close>

definition trusted_owner :: "executable_ownership \<Rightarrow> u32 \<Rightarrow> u32 \<Rightarrow> u32 \<Rightarrow> bool" where
  "trusted_owner ownership uid root owner =
     (owner = root \<or> ownership = RootOrCurrentUser \<and> owner = uid)"

lemma validate_owner_ok_iff:
  "validate_owner owner ownership uid root = Inr () \<longleftrightarrow> trusted_owner ownership uid root owner"
  by (cases ownership) (auto simp: validate_owner_def trusted_owner_def)

definition secure_directory :: "os \<Rightarrow> executable_ownership \<Rightarrow> u32 \<Rightarrow> u32 \<Rightarrow> string \<Rightarrow> bool" where
  "secure_directory sys ownership uid root path =
     (case os_symlink_metadata sys path of
        None \<Rightarrow> False
      | Some m \<Rightarrow> \<not> fm_is_symlink m \<and> fm_is_dir m \<and> trusted_owner ownership uid root (fm_uid m)
          \<and> fm_mode m AND 18 = 0)"

lemma validate_parents_ok_iff:
  "validate_parents sys ownership uid root ps = Inr () \<longleftrightarrow>
   list_all (secure_directory sys ownership uid root) ps"
  by (induction ps)
    (auto simp: secure_directory_def and_then_Inr_iff validate_owner_ok_iff split: option.splits)

lemma reject_symlinks_ok_iff:
  "reject_symlinks sys ps = Inr () \<longleftrightarrow>
   list_all (\<lambda>p. map_option fm_is_symlink (os_symlink_metadata sys p) = Some False) ps"
  by (induction ps) (auto split: option.splits)

lemma inspect_executable_okD:
  assumes "inspect_executable sys digest value ownership pin = Inr identity"
  obtains m uid root where
    "is_absolute value" "ParentDir \<notin> set (components value)"
    "components (ei_canonical_path identity) = components value"
    "os_canonicalize sys value = Some (ei_canonical_path identity)"
    "os_metadata sys (ei_canonical_path identity) = Some m"
    "fm_is_file m" "fm_mode m AND 73 \<noteq> 0" "fm_mode m AND 18 = 0"
    "current_uid sys = Inr uid" "map_option fm_uid (os_metadata sys ''/'') = Some root"
    "trusted_owner ownership uid root (fm_uid m)"
    "reject_symlink_components sys value = Inr ()"
    "validate_parent_directories sys (ei_canonical_path identity) ownership uid root = Inr ()"
    "check_pin sys digest (ei_canonical_path identity) pin = Inr (ei_sha256_hex identity)"
    "ei_device identity = fm_dev m" "ei_inode identity = fm_ino m" "ei_owner_uid identity = fm_uid m"
    "ei_size identity = fm_size m" "ei_modified_seconds identity = fm_mtime m"
    "ei_modified_nanoseconds identity = fm_mtime_nsec m"
  using assms
  by (auto simp: inspect_executable_def and_then_Inr_iff validate_owner_ok_iff list_ex_iff
      split: if_splits)

lemma check_pin_okD:
  "check_pin sys digest path pin = Inr hex \<Longrightarrow>
   hex = pin \<and> (\<forall>expected. pin = Some expected \<longrightarrow> map_option digest (os_read sys path) = Some expected)"
  by (auto simp: check_pin_def sha256_def and_then_Inr_iff split: option.splits if_splits)

definition registry_invar :: "capability_registry \<Rightarrow> bool" where
  "registry_invar registry = (bt_invar registry \<and>
     (\<forall>i c. registry_get registry i = Some c \<longrightarrow> cd_id c = i \<and> descriptor_validate c = Inr ()))"

definition application_invar :: "application_registry \<Rightarrow> bool" where
  "application_invar registry = (bt_invar registry \<and>
     (\<forall>i a. application_get registry i = Some a \<longrightarrow>
        ra_entity_id a = i \<and> application_validate a = Inr ()))"

lemma register_ok_iff:
  "register c registry = Inr registry' \<longleftrightarrow>
     descriptor_validate c = Inr () \<and> registry_get registry (cd_id c) = None
     \<and> registry' = bt_insert (cd_id c) c registry"
  by (auto simp: register_def registry_get_def Let_def and_then_Inr_iff)

lemma application_upsert_ok_iff:
  "application_upsert a registry = Inr registry' \<longleftrightarrow>
     application_validate a = Inr () \<and> registry' = bt_insert (ra_entity_id a) a registry"
  by (auto simp: application_upsert_def and_then_Inr_iff)

lemma application_invar_upsert:
  "application_invar registry \<Longrightarrow> application_upsert a registry = Inr registry' \<Longrightarrow>
   application_invar registry'"
  by (auto simp: application_invar_def application_upsert_ok_iff application_get_def bt_invar_insert
      bt_get_insert split: if_splits)

lemma application_invar_remove:
  "application_invar registry \<Longrightarrow> application_invar (fst (application_remove i registry))"
  by (auto simp: application_invar_def application_remove_def application_get_def bt.invar_remove
      bt_get_remove split: if_splits)

lemma from_applications_into_invar:
  "application_invar registry \<Longrightarrow> from_applications_into as registry = Inr registry' \<Longrightarrow>
   application_invar registry'"
  by (induction as arbitrary: registry) (auto simp: and_then_Inr_iff dest: application_invar_upsert)

lemma from_applications_into_get:
  "from_applications_into as registry = Inr registry' \<Longrightarrow>
   application_get registry' i =
     (case find (\<lambda>a. ra_entity_id a = i) (rev as) of None \<Rightarrow> application_get registry i | Some a \<Rightarrow> Some a)"
  by (induction as arbitrary: registry)
    (auto simp: and_then_Inr_iff application_upsert_ok_iff application_get_def bt_get_insert find_append
      split: option.splits)

section \<open>Properties\<close>

lemma issued_validates:
  assumes "authorize_proposal e c p x ctx = Some ev \<or> authorize_confirmed_proposal_once e c p x ctx = Some ev"
    and "pe_authorization ev = Some a"
  shows "validate_authorization a = Inr ()"
proof -
  have "descriptor_validate (ea_descriptor a) = Inr ()
      \<and> ar_capability_id (ea_action a) = cd_id (ea_descriptor a)
      \<and> arguments_kind (ar_arguments (ea_action a)) = cd_arguments (ea_descriptor a)"
    using assms(1)
  proof
    assume "authorize_proposal e c p x ctx = Some ev"
    then show ?thesis using direct.authorization_contract [OF _ assms(2)] by simp
  next
    assume "authorize_confirmed_proposal_once e c p x ctx = Some ev"
    then show ?thesis using confirmed.authorization_contract [OF _ assms(2)] by simp
  qed
  then show ?thesis by (simp add: validate_authorization_def)
qed

lemma map_of_found: "map_of (List.map_filter (\<lambda>x. map_option (Pair x) (f x)) xs) x = (if x \<in> set xs then f x else None)"
  by (induction xs) (auto simp: List.map_filter_simps split: option.splits)

lemma command_environment_values:
  "map_of (command_environment sys) name =
     (if name = ''PATH'' then Some ''/usr/local/bin:/usr/bin:/bin''
      else if name \<in> {''DISPLAY'', ''WAYLAND_DISPLAY'', ''XAUTHORITY'', ''DBUS_SESSION_BUS_ADDRESS'',
        ''XDG_RUNTIME_DIR'', ''XDG_CONFIG_HOME'', ''XDG_DATA_HOME'', ''XDG_CACHE_HOME'', ''HOME'', ''LANG'', ''LC_ALL''}
      then os_var sys name else None)"
proof -
  have "set forwarded_variables = {''DISPLAY'', ''WAYLAND_DISPLAY'', ''XAUTHORITY'', ''DBUS_SESSION_BUS_ADDRESS'',
      ''XDG_RUNTIME_DIR'', ''XDG_CONFIG_HOME'', ''XDG_DATA_HOME'', ''XDG_CACHE_HOME'', ''HOME'', ''LANG'', ''LC_ALL''}"
    unfolding forwarded_variables_def list.set ..
  then show ?thesis by (simp add: command_environment_def map_of_found del: insert_iff)
qed

lemma verify_executable_ok_iff:
  "verify_executable sys digest expected ownership = Inr executable \<longleftrightarrow>
     identity_validate expected = Inr ()
     \<and> inspect_executable sys digest (ei_canonical_path expected) ownership (ei_sha256_hex expected)
         = Inr expected
     \<and> executable = ei_canonical_path expected"
  by (auto simp: verify_executable_def and_then_Inr_iff)

text \<open>A concrete machine, application and authorization for the witnesses.\<close>

definition example_file :: file_metadata where
  "example_file = \<lparr>fm_is_symlink = False, fm_is_file = True, fm_is_dir = False, fm_mode = 33261,
     fm_uid = 0, fm_dev = 1, fm_ino = 7, fm_size = 4096, fm_mtime = 100, fm_mtime_nsec = 5\<rparr>"

definition example_dir :: file_metadata where
  "example_dir = example_file\<lparr>fm_is_file := False, fm_is_dir := True, fm_mode := 16877\<rparr>"

definition example_metadata :: "string \<Rightarrow> file_metadata option" where
  "example_metadata path =
     (if path = ''/usr/bin/mail'' then Some example_file
      else if path = ''/'' \<or> path = ''/usr'' \<or> path = ''/usr/bin'' then Some example_dir else None)"

definition example_os :: os where
  "example_os = \<lparr>os_metadata = example_metadata, os_symlink_metadata = example_metadata,
     os_canonicalize = Some,
     os_read = (\<lambda>path. if path = ''/proc/self/status'' then Some ''Uid: 7 7'' else None),
     os_var = (\<lambda>name. if name = ''HOME'' then Some ''/home/user'' else None), os_spawn = (\<lambda>_. True)\<rparr>"

definition example_executable :: executable_identity where
  "example_executable = \<lparr>ei_canonical_path = ''/usr/bin/mail'', ei_device = 1, ei_inode = 7,
     ei_owner_uid = 0, ei_size = 4096, ei_modified_seconds = 100, ei_modified_nanoseconds = 5,
     ei_sha256_hex = None\<rparr>"

definition example_application :: registered_application where
  "example_application = \<lparr>ra_entity_id = ''app:mail'', ra_display_name = ''Mail'',
     ra_executable = ''/usr/bin/mail'', ra_arguments = [''--new''], ra_ownership = RootOnly,
     ra_identity = example_executable,
     ra_enabled = True, ra_created_at_ms = 1, ra_updated_at_ms = 1\<rparr>"

definition example_open_authorization :: execution_authorization where
  "example_open_authorization =
     authorization_new ''execution:1'' open_app_descriptor
       \<lparr>ar_capability_id = ''system.open_app'', ar_arguments = Args_OpenApp ''app:mail''\<rparr> []"

lemma example_inspection:
  "inspect_executable example_os (\<lambda>_. []) ''/usr/bin/mail'' RootOnly None = Inr example_executable"
proof -
  have path: "components ''/usr/bin/mail'' = [RootDir, Normal ''usr'', Normal ''bin'', Normal ''mail'']"
    "proper_ancestors ''/usr/bin/mail'' = [''/usr/bin'', ''/usr'', ''/'']"
    "path_prefixes ''/'' [Normal ''usr'', Normal ''bin'', Normal ''mail'']
       = [''/usr'', ''/usr/bin'', ''/usr/bin/mail'']"
    by code_simp+
  have status: "str_lines ''Uid: 7 7'' = [''Uid: 7 7'']"
    "split_whitespace ''Uid: 7 7'' = [''Uid:'', ''7'', ''7'']"
    by code_simp+
  have "parse_u32 ''7'' = Some 7"
    by (simp add: parse_u32_def is_ascii_digit_def byte_def u32_max_def)
  with status have uid: "current_uid example_os = Inr 7"
    by (simp add: current_uid_def example_os_def starts_with_def)
  have "is_absolute ''/usr/bin/mail''" by code_simp
  with path uid show ?thesis
    by (simp add: inspect_executable_def reject_symlink_components_def validate_parent_directories_def
        check_pin_def validate_owner_def example_os_def example_metadata_def example_file_def
        example_dir_def example_executable_def
        del: path_prefixes.simps)
qed

lemma example_application_valid: "application_validate example_application = Inr ()"
proof -
  have "trim ''Mail'' = ''Mail''" by code_simp
  then show ?thesis
    by (simp add: application_validate_def example_application_def example_executable_def
        identity_validate_def starts_with_def char_of_def)
qed

lemma example_registry: "from_applications [example_application] = Inr [(''app:mail'', example_application)]"
  by (simp add: from_applications_def application_upsert_def example_application_valid
      ApplicationRegistry_new_def) (simp add: example_application_def)

lemma open_app_descriptor_valid: "descriptor_validate open_app_descriptor = Inr ()"
proof -
  have "CapabilityId_new ''system.open_app'' = Inr ''system.open_app''" by code_simp
  moreover have "trim ''Open an installed application'' = ''Open an installed application''" by code_simp
  ultimately show ?thesis by (simp add: descriptor_validate_def open_app_descriptor_def)
qed

lemma application_invar_new: "application_invar ApplicationRegistry_new"
  by (simp add: application_invar_def ApplicationRegistry_new_def application_get_def bt.get_empty
      bt.invar_empty)

text \<open>
  The executors accept what the policy engine issues: every authorization of the direct or of the
  confirmed path is simulated by the dry-run executor without spawning anything, and the Linux
  executor refuses it as malformed only if its capability takes no application argument.
\<close>
lemma issued_authorization_executes:
  assumes "authorize_proposal e c p x ctx = Some ev \<or> authorize_confirmed_proposal_once e c p x ctx = Some ev"
    and "pe_authorization ev = Some a"
  shows "runtime_execute sys digest DryRun a = (Inr Simulated, None)
    \<and> (fst (runtime_execute sys digest (RealLinux applications) a) = Inl InvalidAuthorization
       \<longleftrightarrow> cd_arguments c \<noteq> ArgKind_OpenApp)"
proof -
  have valid: "validate_authorization a = Inr ()" by (rule issued_validates [OF assms])
  have "a = authorization_new x c (ap_action p) (normalized_grants ctx)"
    using assms direct.bound confirmed.bound by blast
  then have "arguments_kind (ar_arguments (ea_action a)) = cd_arguments c"
    using valid by (auto simp: validate_authorization_def authorization_new_def split: if_splits)
  then show ?thesis
    using valid
    by (cases "ar_arguments (ea_action a)")
      (auto simp: dry_run_execute_def real_linux_execute_def Let_def split: option.splits sum.splits)
qed

text \<open>
  C36. What is spawned comes from the user's registry alone: if an executor spawns a command, the
  authorization names an enabled registered application, the program and the arguments are those of
  its registration, a fresh inspection returned exactly the registered identity, and of the
  environment of the daemon the command sees only the eleven variables of the desktop session, with
  their values, beside a fixed \<open>PATH\<close>.
\<close>
theorem spawned_command_is_registered:
  assumes "application_invar registry"
    and "runtime_execute sys digest (RealLinux (Some registry)) a = (r, Some cmd)"
  shows "r = Inr Launched
    \<and> (\<exists>application. ar_arguments (ea_action a) = Args_OpenApp (ra_entity_id application)
        \<and> application_get registry (ra_entity_id application) = Some application
        \<and> application_validate application = Inr () \<and> ra_enabled application
        \<and> inspect_executable sys digest (cmd_program cmd) (ra_ownership application)
            (ei_sha256_hex (ra_identity application)) = Inr (ra_identity application)
        \<and> cmd_program cmd = ei_canonical_path (ra_identity application)
        \<and> cmd_args cmd = ra_arguments application)
    \<and> (\<forall>name. map_of (cmd_env cmd) name =
        (if name = ''PATH'' then Some ''/usr/local/bin:/usr/bin:/bin''
         else if name \<in> {''DISPLAY'', ''WAYLAND_DISPLAY'', ''XAUTHORITY'', ''DBUS_SESSION_BUS_ADDRESS'',
           ''XDG_RUNTIME_DIR'', ''XDG_CONFIG_HOME'', ''XDG_DATA_HOME'', ''XDG_CACHE_HOME'', ''HOME'', ''LANG'', ''LC_ALL''}
         then os_var sys name else None))"
proof -
  from assms(2) have "real_linux_execute sys digest (Some registry) a = (r, Some cmd)" by simp
  then show ?thesis
  proof (cases rule: real_linux_execute_cases)
    case (error err)
    then show ?thesis by simp
  next
    case (launched reg app application executable)
    moreover have "ra_entity_id application = app \<and> application_validate application = Inr ()"
      using assms(1) launched(2,4) by (simp add: application_invar_def)
    ultimately show ?thesis
      using command_environment_values [of sys] by (auto simp: verify_executable_ok_iff simp del: insert_iff)
  qed
qed

theorem spawned_command_is_registered_witness:
  "\<exists>cmd. runtime_execute example_os (\<lambda>_. [])
       (RealLinux (Some [(''app:mail'', example_application)])) example_open_authorization
     = (Inr Launched, Some cmd) \<and> cmd_program cmd = ''/usr/bin/mail''
     \<and> map_of (cmd_env cmd) ''PATH'' = Some ''/usr/local/bin:/usr/bin:/bin''"
proof -
  have inv: "application_invar [(''app:mail'', example_application)]"
    using from_applications_into_invar [OF application_invar_new]
      example_registry [unfolded from_applications_def] by blast
  have "runtime_execute example_os (\<lambda>_. [])
       (RealLinux (Some [(''app:mail'', example_application)])) example_open_authorization
     = (Inr Launched, Some \<lparr>cmd_program = ''/usr/bin/mail'', cmd_args = [''--new''],
          cmd_env = [(''PATH'', ''/usr/local/bin:/usr/bin:/bin''), (''HOME'', ''/home/user'')]\<rparr>)"
  proof -
    have env: "command_environment example_os
        = [(''PATH'', ''/usr/local/bin:/usr/bin:/bin''), (''HOME'', ''/home/user'')]"
      by code_simp
    have "verify_executable example_os (\<lambda>_. []) example_executable RootOnly = Inr ''/usr/bin/mail''"
      using example_inspection
      by (simp add: verify_executable_ok_iff identity_validate_def starts_with_def example_executable_def)
    then show ?thesis
      using env open_app_descriptor_valid
      by (simp add: real_linux_execute_def validate_authorization_def example_open_authorization_def
          authorization_new_def application_get_def bt_get_def example_application_def)
        (simp add: open_app_descriptor_def example_os_def)
  qed
  from this spawned_command_is_registered [OF inv this] show ?thesis by auto
qed

text \<open>
  An accepted executable is safe to name: the path is absolute without parent components and
  equals its canonical form, no prefix of it is a symbolic link, the file is regular and executable,
  neither it nor any directory above it is writable by group or others, all of them belong to a
  trusted owner, and a pinned digest is the digest of its contents.
\<close>
lemma inspected_executable_is_secure:
  assumes "inspect_executable sys digest value ownership pin = Inr identity"
  shows "\<exists>m uid root.
      is_absolute value \<and> ParentDir \<notin> set (components value)
    \<and> components (ei_canonical_path identity) = components value
    \<and> list_all (\<lambda>p. map_option fm_is_symlink (os_symlink_metadata sys p) = Some False)
        (path_prefixes ''/'' (drop 1 (components value)))
    \<and> os_metadata sys (ei_canonical_path identity) = Some m \<and> fm_is_file m \<and> fm_mode m AND 73 \<noteq> 0
    \<and> fm_mode m AND 18 = 0 \<and> current_uid sys = Inr uid \<and> trusted_owner ownership uid root (fm_uid m)
    \<and> list_all (secure_directory sys ownership uid root) (proper_ancestors (ei_canonical_path identity))
    \<and> ei_sha256_hex identity = pin
    \<and> is_none_or (\<lambda>hex. map_option digest (os_read sys (ei_canonical_path identity)) = Some hex) pin
    \<and> ei_inode identity = fm_ino m \<and> ei_device identity = fm_dev m \<and> ei_size identity = fm_size m"
  using assms
proof (rule inspect_executable_okD)
  fix m uid root
  assume facts: "reject_symlink_components sys value = Inr ()"
    "validate_parent_directories sys (ei_canonical_path identity) ownership uid root = Inr ()"
    "check_pin sys digest (ei_canonical_path identity) pin = Inr (ei_sha256_hex identity)"
  have pin: "ei_sha256_hex identity = pin \<and>
      is_none_or (\<lambda>hex. map_option digest (os_read sys (ei_canonical_path identity)) = Some hex) pin"
    using check_pin_okD [OF facts(3)] by (cases pin) auto
  assume "is_absolute value" "ParentDir \<notin> set (components value)"
    "components (ei_canonical_path identity) = components value"
    "os_metadata sys (ei_canonical_path identity) = Some m" "fm_is_file m" "fm_mode m AND 73 \<noteq> 0"
    "fm_mode m AND 18 = 0" "current_uid sys = Inr uid" "trusted_owner ownership uid root (fm_uid m)"
    "ei_inode identity = fm_ino m" "ei_device identity = fm_dev m" "ei_size identity = fm_size m"
  with facts(1,2) pin show ?thesis
    by (intro exI [of _ m] exI [of _ uid] exI [of _ root])
      (simp add: reject_symlink_components_def reject_symlinks_ok_iff validate_parent_directories_def
        validate_parents_ok_iff)
qed

text \<open>
  The capability registry never replaces a descriptor: on a well-formed registry a registration
  succeeds exactly for a valid descriptor with a fresh identifier; it then adds one entry, keeps
  every other lookup and the well-formedness, and the listing stays strictly ordered by identifier.
\<close>
lemma register_adds_one_capability:
  assumes "registry_invar registry"
  shows "(case register c registry of
      Inl (AlreadyRegistered i) \<Rightarrow> i = cd_id c \<and> registry_get registry i \<noteq> None
    | Inl (Registry_InvalidDescriptor err) \<Rightarrow> descriptor_validate c = Inl err
    | Inr registry' \<Rightarrow> registry_invar registry' \<and> registry_len registry' = Suc (registry_len registry)
        \<and> registry_get registry' = (registry_get registry)(cd_id c \<mapsto> c)
        \<and> registry_get registry (cd_id c) = None
        \<and> sorted_wrt (<) (map cd_id (registry_list registry')))"
proof (cases "register c registry")
  case (Inl err)
  then show ?thesis
    by (cases "descriptor_validate c")
      (auto simp: register_def registry_get_def Let_def split: if_splits)
next
  case (Inr registry')
  then have new: "descriptor_validate c = Inr ()" "registry_get registry (cd_id c) = None"
    "registry' = bt_insert (cd_id c) c registry"
    by (auto simp: register_ok_iff)
  have bt: "bt_invar registry" using assms by (simp add: registry_invar_def)
  have inv: "registry_invar registry'"
    using assms new(1) bt unfolding new(3)
    by (auto simp: registry_invar_def registry_get_def bt_invar_insert bt_get_insert)
  have "map cd_id (registry_list registry') = map fst registry'"
    using inv bt.entries_get [of registry']
    by (auto simp: registry_list_def bt_values_def registry_invar_def registry_get_def)
  then have "sorted_wrt (<) (map cd_id (registry_list registry'))"
    using inv by (simp add: registry_invar_def bt_invar_def)
  moreover have "registry_len registry' = Suc (registry_len registry)"
    using bt.length_entries_insert [OF bt] new by (simp add: registry_len_def registry_get_def)
  ultimately show ?thesis
    using Inr inv new(2) by (simp add: new(3) registry_get_def bt_get_insert fun_eq_iff)
qed

text \<open>
  A registry built from stored rows holds only valid applications, each under its own
  identifier, and for every identifier exactly the last row given for it.
\<close>
lemma from_applications_last_row:
  assumes "from_applications rows = Inr registry"
  shows "application_invar registry
    \<and> application_get registry i = find (\<lambda>a. ra_entity_id a = i) (rev rows)"
  using from_applications_into_invar [OF application_invar_new, of rows registry]
    from_applications_into_get [of rows ApplicationRegistry_new registry i] assms
  by (simp add: from_applications_def ApplicationRegistry_new_def application_get_def bt.get_empty
      split: option.splits)

end
