(* ===== verification/Halquen_Agent_Host.thy ===== *)
theory Halquen_Agent_Host
  imports Halquen_Capabilities
begin

text \<open>
  The agent host (\<open>ai/src/agent.rs\<close>): which command starts an agent, the framed exchange with the
  process, and the proposals read from its output. The process is an argument: how each wait on it
  ends, what it writes, and how it exits. The JSON encoding of the frames is a parameter. What happens
  to the child process is part of every result.
\<close>

section \<open>Data\<close>

definition AGENT_PROTOCOL_VERSION :: u16 where "AGENT_PROTOCOL_VERSION = 1"
definition MAX_AGENT_INPUT_BYTES :: nat where "MAX_AGENT_INPUT_BYTES = 64 * 1024"
definition MAX_AGENT_PROPOSALS :: nat where "MAX_AGENT_PROPOSALS = 16"
definition MAX_AGENT_MESSAGE_BYTES :: nat where "MAX_AGENT_MESSAGE_BYTES = 65536"
definition MAX_BROKER_RESULT_BYTES :: nat where "MAX_BROKER_RESULT_BYTES = 64 * 1024"

record agent_capability_view =
  acv_id :: capability_id
  acv_version :: u32
  acv_description :: string
  acv_risk :: risk_class
  acv_arguments :: action_argument_kind

datatype agent_broker_disposition =
  Broker_Executed | Broker_Simulated | Broker_ConfirmationRequired | Broker_Denied | Broker_Failed

record agent_broker_proposal_result =
  abr_index :: u16
  abr_capability_id :: capability_id
  abr_disposition :: agent_broker_disposition
  abr_execution_id :: "string option"
  abr_confirmation_id :: "string option"
  abr_message :: string

record agent_broker_request =
  brq_version :: u16
  brq_kind :: string
  brq_identity :: agent_execution_identity
  brq_input :: string
  brq_capabilities :: "agent_capability_view list"

record agent_broker_response =
  brs_version :: u16
  brs_kind :: string
  brs_results :: "agent_broker_proposal_result list"

record agent_invocation_result =
  air_message :: string
  air_proposals :: "action_proposal list"

record agent_wire_proposal =
  awp_action :: action_request
  awp_explanation :: string

record agent_wire_output =
  awo_version :: u16
  awo_kind :: string
  awo_message :: string
  awo_proposals :: "agent_wire_proposal list"

datatype agent_host_error =
  Host_InvalidConfiguration | Host_Disabled | Host_UnsupportedTransport | Host_SandboxUnavailable
| Host_ResourceLimitUnavailable | Host_UnsafeOptInRequired | Host_InvalidExecutable | Host_SpawnFailed
| Host_TimedOut | Host_OutputTooLarge | Host_MalformedOutput | Host_ProcessFailed | Host_Io

record agent_host =
  ah_allow_unsafe_unsandboxed :: bool

definition AgentHost_new :: agent_host where
  "AgentHost_new = \<lparr>ah_allow_unsafe_unsandboxed = False\<rparr>"

definition with_unsafe_unsandboxed_opt_in :: agent_host where
  "with_unsafe_unsandboxed_opt_in = \<lparr>ah_allow_unsafe_unsandboxed = True\<rparr>"

section \<open>The command\<close>

fun trusted_system_tool :: "os \<Rightarrow> (string \<Rightarrow> string) \<Rightarrow> string list \<Rightarrow> string option" where
  "trusted_system_tool sys digest [] = None"
| "trusted_system_tool sys digest (candidate # candidates) =
     (case and_then (inspect_executable sys digest candidate RootOnly None)
             (\<lambda>identity. verify_executable sys digest identity RootOnly) of
        Inr path \<Rightarrow> Some path
      | Inl _ \<Rightarrow> trusted_system_tool sys digest candidates)"

definition bubblewrap_flags :: "string list" where
  "bubblewrap_flags =
     [''--unshare-all'', ''--new-session'', ''--die-with-parent'', ''--clearenv'', ''--tmpfs'', ''/tmp'',
      ''--proc'', ''/proc'', ''--dev'', ''/dev'', ''--chdir'', ''/tmp'']"

definition bubblewrap_invocation ::
  "os \<Rightarrow> (string \<Rightarrow> string) \<Rightarrow> agent_configuration \<Rightarrow> string
   \<Rightarrow> (agent_host_error, string \<times> string list) result" where
  "bubblewrap_invocation sys digest configuration executable =
     and_then (ok_or Host_SandboxUnavailable (trusted_system_tool sys digest [''/usr/bin/bwrap''])) (\<lambda>bubblewrap.
       Inr (bubblewrap,
            bubblewrap_flags
            @ concat (map (\<lambda>path. if os_metadata sys path \<noteq> None then [''--ro-bind'', path, path] else [])
                [''/usr'', ''/bin'', ''/lib'', ''/lib64''])
            @ [''--'', executable] @ ag_arguments configuration))"

definition limit_flags :: "agent_resource_limits \<Rightarrow> string list" where
  "limit_flags limits =
     [''--cpu='' @ dec (lim_cpu_seconds limits), ''--as='' @ dec (lim_memory_bytes limits),
      ''--nproc='' @ dec (lim_process_count limits), ''--fsize='' @ dec (lim_file_size_bytes limits),
      ''--nofile='' @ dec (lim_open_files limits)]"

definition limited_command ::
  "os \<Rightarrow> (string \<Rightarrow> string) \<Rightarrow> agent_configuration \<Rightarrow> string \<Rightarrow> string list
   \<Rightarrow> (agent_host_error, command_line) result" where
  "limited_command sys digest configuration program arguments =
     and_then (ok_or Host_ResourceLimitUnavailable (trusted_system_tool sys digest [''/usr/bin/prlimit''])) (\<lambda>prlimit.
       Inr \<lparr>cmd_program = prlimit,
            cmd_args = limit_flags (ag_resource_limits configuration) @ [''--'', program] @ arguments,
            cmd_env = []\<rparr>)"

definition host_command ::
  "os \<Rightarrow> (string \<Rightarrow> string) \<Rightarrow> agent_host \<Rightarrow> agent_configuration \<Rightarrow> string
   \<Rightarrow> (agent_host_error, command_line) result" where
  "host_command sys digest host configuration executable =
     and_then
       (case ag_sandbox configuration of
          Sandbox_Bubblewrap \<Rightarrow> bubblewrap_invocation sys digest configuration executable
        | Sandbox_Unavailable \<Rightarrow> Inl Host_SandboxUnavailable
        | Sandbox_UnsafeUnsandboxed \<Rightarrow>
            if \<not> ah_allow_unsafe_unsandboxed host then Inl Host_UnsafeOptInRequired
            else Inr (executable, ag_arguments configuration))
       (\<lambda>(program, arguments). limited_command sys digest configuration program arguments)"

section \<open>Frames\<close>

record agent_json =
  aj_request :: "agent_broker_request \<Rightarrow> string"
  aj_response :: "agent_broker_response \<Rightarrow> string"
  aj_parse_output :: "string \<Rightarrow> agent_wire_output option"

definition encode_frame :: "string \<Rightarrow> nat \<Rightarrow> (agent_host_error, string) result" where
  "encode_frame json max_bytes =
     (if length json + 1 > max_bytes then Inl Host_InvalidConfiguration else Inr (json @ [CHR 0x0A]))"

fun proposals_of ::
  "agent_execution_identity \<Rightarrow> agent_wire_proposal list \<Rightarrow> (agent_host_error, action_proposal list) result" where
  "proposals_of identity [] = Inr []"
| "proposals_of identity (w # ws) =
     and_then (map_err (\<lambda>_. Host_MalformedOutput) (ActionProposal_new (awp_action w) (agent_context identity)))
       (\<lambda>p. and_then (proposals_of identity ws) (\<lambda>ps. Inr (p # ps)))"

definition parse_agent_output ::
  "agent_json \<Rightarrow> string \<Rightarrow> agent_execution_identity \<Rightarrow> (agent_host_error, agent_invocation_result) result" where
  "parse_agent_output W bytes identity =
     and_then (ok_or Host_MalformedOutput (aj_parse_output W bytes)) (\<lambda>output.
       if awo_version output \<noteq> AGENT_PROTOCOL_VERSION \<or> awo_kind output \<noteq> ''proposals''
          \<or> length (awo_message output) > MAX_AGENT_MESSAGE_BYTES
          \<or> length (awo_proposals output) > MAX_AGENT_PROPOSALS
          \<or> list_ex (\<lambda>proposal. length (awp_explanation proposal) > 2048) (awo_proposals output)
       then Inl Host_MalformedOutput
       else and_then (proposals_of identity (awo_proposals output)) (\<lambda>proposals.
         Inr \<lparr>air_message = awo_message output, air_proposals = proposals\<rparr>))"

section \<open>The process\<close>

text \<open>
  A wait on the process ends with a value, with an I/O error, or because its time has passed. The
  environment of a run says how each wait ends, in the order of the code, whether the deadline has
  passed at each of the three places that ask, and what the process writes. The pipes are there
  unless the operating system withholds them.
\<close>

datatype 'a io = Done 'a | IoError | Elapsed

record agent_process =
  px_spawned :: bool
  px_stdin :: bool
  px_stdout_pipe :: bool
  px_stderr_pipe :: bool
  px_write_request :: "unit io"
  px_in_time :: "nat \<Rightarrow> bool"
  px_read_line :: "unit io"
  px_stdout :: string
  px_write_results :: "unit io"
  px_shutdown :: "unit io"
  px_read_rest :: "unit io"
  px_exit_success :: "bool io"
  px_stderr :: string
  px_join_stderr :: "unit io"

datatype child = No_child | Child_running | Child_killed | Child_exited

record running_agent =
  run_identity :: agent_execution_identity
  run_stdout_limit :: nat
  run_stderr_limit :: nat
  run_unread :: string
  run_stdout_read :: nat

text \<open>\<open>read_until(b'\n')\<close>: the bytes up to and with the first line feed, and what is left.\<close>

fun read_until_newline :: "string \<Rightarrow> string \<times> string" where
  "read_until_newline [] = ([], [])"
| "read_until_newline (c # cs) =
     (if c = CHR 0x0A then ([c], cs)
      else case read_until_newline cs of (line, rest) \<Rightarrow> (c # line, rest))"

definition agent_start ::
  "os \<Rightarrow> (string \<Rightarrow> string) \<Rightarrow> agent_json \<Rightarrow> agent_process \<Rightarrow> agent_host \<Rightarrow> agent_configuration
   \<Rightarrow> agent_execution_identity \<Rightarrow> string \<Rightarrow> agent_capability_view list
   \<Rightarrow> (agent_host_error, running_agent) result \<times> command_line option \<times> child" where
  "agent_start sys digest W P host configuration identity input capabilities =
     (let prepared =
        and_then (map_err (\<lambda>_. Host_InvalidConfiguration) (agent_validate configuration)) (\<lambda>_.
        if \<not> ag_enabled configuration then Inl Host_Disabled
        else if ag_transport configuration \<noteq> Transport_Cli then Inl Host_UnsupportedTransport
        else if length input > MAX_AGENT_INPUT_BYTES \<or> length capabilities > 256
        then Inl Host_InvalidConfiguration
        else and_then (ok_or Host_InvalidExecutable (ag_executable_identity configuration)) (\<lambda>expected.
        and_then (map_err (\<lambda>_. Host_InvalidExecutable)
                    (verify_executable sys digest expected (ag_ownership configuration))) (\<lambda>executable.
        and_then (encode_frame (aj_request W
                    \<lparr>brq_version = AGENT_PROTOCOL_VERSION, brq_kind = ''broker_request'',
                     brq_identity = identity, brq_input = input, brq_capabilities = capabilities\<rparr>)
                    MAX_AGENT_INPUT_BYTES) (\<lambda>_.
        host_command sys digest host configuration executable))))
      in case prepared of
           Inl e \<Rightarrow> (Inl e, None, No_child)
         | Inr command \<Rightarrow>
             if \<not> px_spawned P then (Inl Host_SpawnFailed, Some command, No_child)
             else if \<not> px_stdin P \<or> \<not> px_stdout_pipe P \<or> \<not> px_stderr_pipe P
             then (Inl Host_Io, Some command, Child_killed)
             else (case px_write_request P of
                 IoError \<Rightarrow> (Inl Host_Io, Some command, Child_killed)
               | Elapsed \<Rightarrow> (Inl Host_TimedOut, Some command, Child_killed)
               | Done _ \<Rightarrow>
                   (Inr \<lparr>run_identity = identity, run_stdout_limit = ag_max_stdout_bytes configuration,
                         run_stderr_limit = ag_max_stderr_bytes configuration,
                         run_unread = take (ag_max_stdout_bytes configuration + 1) (px_stdout P),
                         run_stdout_read = 0\<rparr>, Some command, Child_running)))"

definition receive_proposals ::
  "agent_json \<Rightarrow> agent_process \<Rightarrow> running_agent
   \<Rightarrow> (agent_host_error, agent_invocation_result) result \<times> running_agent \<times> child" where
  "receive_proposals W P running =
     (if \<not> px_in_time P 0 then (Inl Host_TimedOut, running, Child_killed)
      else case px_read_line P of
        IoError \<Rightarrow> (Inl Host_Io, running, Child_killed)
      | Elapsed \<Rightarrow> (Inl Host_TimedOut, running, Child_killed)
      | Done _ \<Rightarrow>
          (case read_until_newline (run_unread running) of (line, rest) \<Rightarrow>
             let running' = running\<lparr>run_unread := rest,
                   run_stdout_read := run_stdout_read running + length line\<rparr> in
             if line = [] then (Inl Host_MalformedOutput, running', Child_killed)
             else if run_stdout_read running' > run_stdout_limit running
             then (Inl Host_OutputTooLarge, running', Child_killed)
             else case parse_agent_output W
                    (if last line = CHR 0x0A then butlast line else line) (run_identity running) of
                  Inl e \<Rightarrow> (Inl e, running', Child_killed)
                | Inr invocation \<Rightarrow> (Inr invocation, running', Child_running)))"

definition join_stderr :: "agent_process \<Rightarrow> running_agent \<Rightarrow> (agent_host_error, string) result" where
  "join_stderr P running =
     (if \<not> px_in_time P 2 then Inl Host_TimedOut
      else case px_join_stderr P of
        IoError \<Rightarrow> Inl Host_Io
      | Elapsed \<Rightarrow> Inl Host_TimedOut
      | Done _ \<Rightarrow>
          let bytes = take (run_stderr_limit running + 1) (px_stderr P) in
          if length bytes > run_stderr_limit running then Inl Host_OutputTooLarge else Inr bytes)"

text \<open>A step of the closing exchange: a failed wait ends it, a passed deadline is a timeout.\<close>

definition await :: "'a io \<Rightarrow> ('a \<Rightarrow> (agent_host_error, 'b) result) \<Rightarrow> (agent_host_error, 'b) result" where
  "await wait next =
     (case wait of Done a \<Rightarrow> next a | IoError \<Rightarrow> Inl Host_Io | Elapsed \<Rightarrow> Inl Host_TimedOut)"

definition agent_complete ::
  "agent_json \<Rightarrow> agent_process \<Rightarrow> running_agent \<Rightarrow> agent_broker_proposal_result list
   \<Rightarrow> (agent_host_error, nat) result \<times> child" where
  "agent_complete W P running results =
     (case encode_frame (aj_response W \<lparr>brs_version = AGENT_PROTOCOL_VERSION, brs_kind = ''broker_result'',
             brs_results = results\<rparr>) MAX_BROKER_RESULT_BYTES of
        Inl e \<Rightarrow> (Inl e, Child_killed)
      | Inr _ \<Rightarrow>
          if \<not> px_in_time P 1 then (Inl Host_TimedOut, Child_killed)
          else (case await (px_write_results P) (\<lambda>_. await (px_shutdown P) (\<lambda>_. await (px_read_rest P) (\<lambda>_.
                 if run_stdout_read running + length (run_unread running) > run_stdout_limit running
                 then Inl Host_OutputTooLarge
                 else await (px_exit_success P) (\<lambda>success.
                   if success then Inr () else Inl Host_ProcessFailed)))) of
                  Inl e \<Rightarrow> (Inl e, Child_killed)
                | Inr _ \<Rightarrow>
                    (and_then (join_stderr P running) (\<lambda>stderr. Inr (length stderr)), Child_exited)))"

section \<open>Facts\<close>

lemma trusted_system_tool_Some:
  "trusted_system_tool sys digest [path] = Some tool \<longleftrightarrow>
   (\<exists>identity. inspect_executable sys digest path RootOnly None = Inr identity
      \<and> verify_executable sys digest identity RootOnly = Inr tool)"
  by (auto simp: and_then_def split: sum.splits)

lemma start_child:
  "agent_start sys digest W P host configuration identity input capabilities = (r, cmd, ch) \<Longrightarrow>
   ch = Child_running \<longleftrightarrow> (\<exists>running. r = Inr running)"
  by (auto simp: agent_start_def Let_def split: sum.splits if_splits io.splits)

lemma receive_child:
  "receive_proposals W P running = (r, running', ch) \<Longrightarrow> ch = Child_running \<longleftrightarrow> (\<exists>invocation. r = Inr invocation)"
  by (auto simp: receive_proposals_def Let_def split: sum.splits if_splits io.splits prod.splits) (metis+)

lemma complete_child: "agent_complete W P running results = (r, ch) \<Longrightarrow> ch \<in> {Child_killed, Child_exited}"
  by (auto simp: agent_complete_def split: sum.splits if_splits)

lemma proposals_of_ok:
  "proposals_of identity ws = Inr ps \<Longrightarrow>
   length ps = length ws \<and> map ap_action ps = map awp_action ws
   \<and> list_all (\<lambda>p. ap_context p = agent_context identity \<and> context_validate (ap_context p) = Inr ()) ps"
  by (induction ws arbitrary: ps)
    (auto simp: and_then_Inr_iff ActionProposal_new_def)

lemma prepared_command:
  assumes "agent_start sys digest W P host configuration identity input capabilities = (r, Some command, ch)"
  obtains expected executable where "agent_validate configuration = Inr ()" "ag_enabled configuration"
    "ag_transport configuration = Transport_Cli" "ag_executable_identity configuration = Some expected"
    "verify_executable sys digest expected (ag_ownership configuration) = Inr executable"
    "host_command sys digest host configuration executable = Inr command"
  using assms
  by (auto simp: agent_start_def Let_def and_then_Inr_iff ok_or_def split: sum.splits if_splits io.splits option.splits)

lemma start_identity:
  "agent_start sys digest W P host configuration identity input capabilities = (Inr running, cmd, ch) \<Longrightarrow>
   run_identity running = identity"
  by (auto simp: agent_start_def Let_def split: sum.splits if_splits io.splits)

lemma receive_confined:
  assumes "receive_proposals W P running = (Inr invocation, running', ch)"
  shows "length (air_proposals invocation) \<le> 16 \<and> length (air_message invocation) \<le> 65536
    \<and> list_all (\<lambda>p. ap_context p = agent_context (run_identity running)
        \<and> context_validate (ap_context p) = Inr ()) (air_proposals invocation)
    \<and> run_stdout_read running' \<le> run_stdout_limit running"
proof -
  from assms obtain line where
    "parse_agent_output W line (run_identity running) = Inr invocation"
    "run_stdout_read running' \<le> run_stdout_limit running"
    by (auto simp: receive_proposals_def Let_def split: if_splits io.splits prod.splits sum.splits)
  then show ?thesis
    by (auto simp: parse_agent_output_def and_then_Inr_iff ok_or_def MAX_AGENT_PROPOSALS_def
        MAX_AGENT_MESSAGE_BYTES_def split: if_splits option.splits dest!: proposals_of_ok)
qed

section \<open>Properties\<close>

text \<open>
  C16. An agent is started only under confinement: every command the host asks for runs the verified
  executable of a valid, enabled configuration under the root-owned resource limiter with the
  configured limits and an empty environment, and, unless the host has opted into unsandboxed agents,
  under the root-owned sandbox that unshares every namespace and clears the environment.
\<close>
theorem agent_command_is_confined:
  assumes "agent_start sys digest W P host configuration identity input capabilities = (r, Some command, ch)"
  shows "agent_validate configuration = Inr () \<and> ag_enabled configuration
    \<and> (\<exists>expected executable limiter program rest.
        ag_executable_identity configuration = Some expected
        \<and> verify_executable sys digest expected (ag_ownership configuration) = Inr executable
        \<and> trusted_system_tool sys digest [''/usr/bin/prlimit''] = Some limiter
        \<and> command = \<lparr>cmd_program = limiter,
            cmd_args = limit_flags (ag_resource_limits configuration) @ [''--'', program] @ rest, cmd_env = []\<rparr>
        \<and> (if ag_sandbox configuration = Sandbox_Bubblewrap
           then trusted_system_tool sys digest [''/usr/bin/bwrap''] = Some program
             \<and> (\<exists>binds. rest = bubblewrap_flags @ binds @ [''--'', executable] @ ag_arguments configuration)
           else ah_allow_unsafe_unsandboxed host \<and> program = executable))"
proof (rule prepared_command [OF assms])
  fix expected executable
  assume *: "agent_validate configuration = Inr ()" "ag_enabled configuration"
    "ag_executable_identity configuration = Some expected"
    "verify_executable sys digest expected (ag_ownership configuration) = Inr executable"
    "host_command sys digest host configuration executable = Inr command"
  from *(5) obtain program rest where inv:
    "limited_command sys digest configuration program rest = Inr command"
    "if ag_sandbox configuration = Sandbox_Bubblewrap
     then bubblewrap_invocation sys digest configuration executable = Inr (program, rest)
     else ah_allow_unsafe_unsandboxed host \<and> program = executable"
    by (auto simp: host_command_def and_then_Inr_iff split: sandbox_backend.splits if_splits)
  from inv(1) obtain limiter where "trusted_system_tool sys digest [''/usr/bin/prlimit''] = Some limiter"
    "command = \<lparr>cmd_program = limiter,
       cmd_args = limit_flags (ag_resource_limits configuration) @ [''--'', program] @ rest, cmd_env = []\<rparr>"
    by (auto simp: limited_command_def and_then_Inr_iff ok_or_def simp del: trusted_system_tool.simps split: option.splits)
  moreover have "if ag_sandbox configuration = Sandbox_Bubblewrap
     then trusted_system_tool sys digest [''/usr/bin/bwrap''] = Some program
       \<and> (\<exists>binds. rest = bubblewrap_flags @ binds @ [''--'', executable] @ ag_arguments configuration)
     else ah_allow_unsafe_unsandboxed host \<and> program = executable"
    using inv(2)
    by (auto simp: bubblewrap_invocation_def and_then_Inr_iff ok_or_def simp del: trusted_system_tool.simps
        split: option.splits if_splits)
  ultimately show ?thesis using *(1-4) by blast
qed

text \<open>
  C17. An agent speaks only for itself: the proposals read from an agent's output are at most sixteen,
  each carries exactly the context of that agent's identity and is valid, and at most the configured
  number of bytes was read.
\<close>
theorem agent_output_is_confined:
  assumes "receive_proposals W P running = (Inr invocation, running', ch)"
  shows "length (air_proposals invocation) \<le> 16 \<and> length (air_message invocation) \<le> 65536
    \<and> list_all (\<lambda>p. ap_context p = agent_context (run_identity running)
        \<and> context_validate (ap_context p) = Inr ()) (air_proposals invocation)
    \<and> run_stdout_read running' \<le> run_stdout_limit running"
  by (rule receive_confined [OF assms])

definition example_host_metadata :: "string \<Rightarrow> file_metadata option" where
  "example_host_metadata path =
     (if path \<in> {''/'', ''/usr'', ''/usr/bin''} then Some example_dir
      else if path \<in> {''/usr/bin/mail'', ''/usr/bin/prlimit'', ''/usr/bin/bwrap''} then Some example_file
      else None)"

definition example_host_os :: os where
  "example_host_os = example_os\<lparr>os_metadata := example_host_metadata, os_symlink_metadata := example_host_metadata,
     os_canonicalize := (\<lambda>path. Some path)\<rparr>"

lemma example_host_inspection:
  assumes "components p = [RootDir, Normal ''usr'', Normal ''bin'', Normal n]"
    and "proper_ancestors p = [''/usr/bin'', ''/usr'', ''/'']"
    and "path_prefixes ''/'' [Normal ''usr'', Normal ''bin'', Normal n] = [''/usr'', ''/usr/bin'', p]"
    and "is_absolute p" and "p \<in> {''/usr/bin/mail'', ''/usr/bin/prlimit'', ''/usr/bin/bwrap''}"
  shows "inspect_executable example_host_os (\<lambda>_. []) p RootOnly None
    = Inr (example_executable\<lparr>ei_canonical_path := p\<rparr>)"
proof -
  have status: "str_lines ''Uid: 7 7'' = [''Uid: 7 7'']"
    "split_whitespace ''Uid: 7 7'' = [''Uid:'', ''7'', ''7'']"
    by code_simp+
  have "parse_u32 ''7'' = Some 7"
    by (simp add: parse_u32_def is_ascii_digit_def byte_def u32_max_def)
  with status have uid: "current_uid example_host_os = Inr 7"
    by (simp add: current_uid_def example_host_os_def example_os_def starts_with_def)
  have "example_host_metadata p = Some example_file" "example_host_metadata ''/usr'' = Some example_dir"
    "example_host_metadata ''/usr/bin'' = Some example_dir" "example_host_metadata ''/'' = Some example_dir"
    using assms(5) by (auto simp: example_host_metadata_def)
  with assms uid show ?thesis
    by (simp add: inspect_executable_def reject_symlink_components_def validate_parent_directories_def
        check_pin_def validate_owner_def example_host_os_def example_file_def
        example_dir_def example_executable_def
        del: path_prefixes.simps)
qed

lemma example_host_tool:
  assumes "inspect_executable example_host_os (\<lambda>_. []) p RootOnly None
    = Inr (example_executable\<lparr>ei_canonical_path := p\<rparr>)" and "starts_with p ''/''" and "length p \<le> 1024"
  shows "trusted_system_tool example_host_os (\<lambda>_. []) [p] = Some p"
  using assms
  by (simp add: verify_executable_def identity_validate_def example_executable_def)

lemma example_tools:
  "trusted_system_tool example_host_os (\<lambda>_. []) [''/usr/bin/prlimit''] = Some ''/usr/bin/prlimit''"
  "trusted_system_tool example_host_os (\<lambda>_. []) [''/usr/bin/bwrap''] = Some ''/usr/bin/bwrap''"
  "verify_executable example_host_os (\<lambda>_. []) example_executable RootOnly = Inr ''/usr/bin/mail''"
proof -
  have path: "components ''/usr/bin/prlimit'' = [RootDir, Normal ''usr'', Normal ''bin'', Normal ''prlimit'']"
    "proper_ancestors ''/usr/bin/prlimit'' = [''/usr/bin'', ''/usr'', ''/'']" "is_absolute ''/usr/bin/prlimit''"
    "path_prefixes ''/'' [Normal ''usr'', Normal ''bin'', Normal ''prlimit''] = [''/usr'', ''/usr/bin'', ''/usr/bin/prlimit'']"
    "components ''/usr/bin/bwrap'' = [RootDir, Normal ''usr'', Normal ''bin'', Normal ''bwrap'']"
    "proper_ancestors ''/usr/bin/bwrap'' = [''/usr/bin'', ''/usr'', ''/'']" "is_absolute ''/usr/bin/bwrap''"
    "path_prefixes ''/'' [Normal ''usr'', Normal ''bin'', Normal ''bwrap''] = [''/usr'', ''/usr/bin'', ''/usr/bin/bwrap'']"
    "components ''/usr/bin/mail'' = [RootDir, Normal ''usr'', Normal ''bin'', Normal ''mail'']"
    "proper_ancestors ''/usr/bin/mail'' = [''/usr/bin'', ''/usr'', ''/'']" "is_absolute ''/usr/bin/mail''"
    "path_prefixes ''/'' [Normal ''usr'', Normal ''bin'', Normal ''mail''] = [''/usr'', ''/usr/bin'', ''/usr/bin/mail'']"
    by code_simp+
  show "trusted_system_tool example_host_os (\<lambda>_. []) [''/usr/bin/prlimit''] = Some ''/usr/bin/prlimit''"
    by (rule example_host_tool [OF example_host_inspection [OF path(1,2,4,3)]]) (simp_all add: starts_with_def)
  show "trusted_system_tool example_host_os (\<lambda>_. []) [''/usr/bin/bwrap''] = Some ''/usr/bin/bwrap''"
    by (rule example_host_tool [OF example_host_inspection [OF path(5,6,8,7)]]) (simp_all add: starts_with_def)
  show "verify_executable example_host_os (\<lambda>_. []) example_executable RootOnly = Inr ''/usr/bin/mail''"
    using example_host_inspection [OF path(9,10,12,11)]
    by (simp add: verify_executable_ok_iff identity_validate_def starts_with_def example_executable_def)
qed

definition example_agent :: agent_configuration where
  "example_agent =
     \<lparr>ag_id = ''agent:1'', ag_name = ''Mailer'', ag_transport = Transport_Cli, ag_executable = ''/usr/bin/mail'',
      ag_arguments = [''--agent''], ag_socket_path = None, ag_sandbox = Sandbox_Bubblewrap, ag_ownership = RootOnly,
      ag_executable_identity = Some example_executable, ag_resource_limits = default_limits, ag_enabled = True,
      ag_timeout_ms = 1000, ag_max_stdout_bytes = 4096, ag_max_stderr_bytes = 4096, ag_created_at_ms = 0,
      ag_updated_at_ms = 0\<rparr>"

text \<open>A process that proposes one action in one line and exits, and an encoding that reads it.\<close>

definition example_output :: agent_wire_output where
  "example_output = \<lparr>awo_version = 1, awo_kind = ''proposals'', awo_message = ''ready'',
     awo_proposals = [\<lparr>awp_action = \<lparr>ar_capability_id = ''test.operation'', ar_arguments = Args_None\<rparr>,
       awp_explanation = ''test''\<rparr>]\<rparr>"

definition example_agent_json :: agent_json where
  "example_agent_json = \<lparr>aj_request = (\<lambda>_. ''request''), aj_response = (\<lambda>_. ''response''),
     aj_parse_output = (\<lambda>line. if line = ''go'' then Some example_output else None)\<rparr>"

definition example_process :: agent_process where
  "example_process = \<lparr>px_spawned = True, px_stdin = True, px_stdout_pipe = True, px_stderr_pipe = True,
     px_write_request = Done (), px_in_time = (\<lambda>_. True), px_read_line = Done (),
     px_stdout = ''go'' @ [CHR 0x0A], px_write_results = Done (), px_shutdown = Done (), px_read_rest = Done (),
     px_exit_success = Done True, px_stderr = [], px_join_stderr = Done ()\<rparr>"

lemma example_agent_valid: "agent_validate example_agent = Inr ()"
proof -
  have "trim ''Mailer'' = ''Mailer''" by code_simp
  then show ?thesis
    by (simp add: agent_validate_def example_agent_def starts_with_def limits_validate_def default_limits_def
        identity_validate_def example_executable_def Let_def)
qed

lemma example_start:
  assumes "length capabilities \<le> 256"
  obtains running command where
    "agent_start example_host_os (\<lambda>_. []) example_agent_json example_process AgentHost_new example_agent
       example_identity ''hello'' capabilities = (Inr running, Some command, Child_running)"
    "run_identity running = example_identity" "run_unread running = ''go'' @ [CHR 0x0A]"
    "run_stdout_limit running = 4096" "run_stdout_read running = 0" "run_stderr_limit running = 4096"
proof -
  obtain command where command:
    "host_command example_host_os (\<lambda>_. []) AgentHost_new example_agent ''/usr/bin/mail'' = Inr command"
    using example_tools
    by (simp add: host_command_def bubblewrap_invocation_def limited_command_def example_agent_def ok_or_def
        del: trusted_system_tool.simps)
  have agent: "ag_enabled example_agent" "ag_transport example_agent = Transport_Cli"
    "ag_executable_identity example_agent = Some example_executable" "ag_ownership example_agent = RootOnly"
    "ag_max_stdout_bytes example_agent = 4096" "ag_max_stderr_bytes example_agent = 4096"
    by (simp_all add: example_agent_def)
  show ?thesis
    by (rule that [of "\<lparr>run_identity = example_identity, run_stdout_limit = 4096, run_stderr_limit = 4096,
          run_unread = ''go'' @ [CHR 0x0A], run_stdout_read = 0\<rparr>" command])
      (use assms in \<open>simp_all add: agent_start_def Let_def MAX_AGENT_INPUT_BYTES_def ok_or_def encode_frame_def
        example_agent_json_def example_process_def command agent example_agent_valid example_tools(3)
        del: trusted_system_tool.simps\<close>)
qed

theorem agent_command_is_confined_witness:
  "\<exists>r command. agent_start example_host_os (\<lambda>_. []) example_agent_json example_process AgentHost_new example_agent
     example_identity ''hello'' [] = (r, Some command, Child_running) \<and> cmd_program command = ''/usr/bin/prlimit''
     \<and> cmd_env command = []"
proof (rule example_start [of "[]"])
  fix running command
  assume run: "agent_start example_host_os (\<lambda>_. []) example_agent_json example_process AgentHost_new example_agent
       example_identity ''hello'' [] = (Inr running, Some command, Child_running)"
  from agent_command_is_confined [OF run] show ?thesis
    using run example_tools(1) by (auto simp del: trusted_system_tool.simps)
qed simp

lemma example_receive:
  assumes "run_identity running = example_identity" "run_unread running = ''go'' @ [CHR 0x0A]"
    "run_stdout_limit running = 4096" "run_stdout_read running = 0"
  obtains running' where "receive_proposals example_agent_json example_process running
    = (Inr \<lparr>air_message = ''ready'', air_proposals = [example_proposal (agent_context example_identity)]\<rparr>, running',
       Child_running)"
  using assms example_agent_context_valid
  by (simp add: receive_proposals_def example_process_def parse_agent_output_def example_agent_json_def ok_or_def
      example_output_def AGENT_PROTOCOL_VERSION_def MAX_AGENT_MESSAGE_BYTES_def MAX_AGENT_PROPOSALS_def
      ActionProposal_new_def example_proposal_def Let_def)

theorem agent_output_is_confined_witness:
  "\<exists>running invocation running' ch. receive_proposals example_agent_json example_process running
      = (Inr invocation, running', ch) \<and> air_proposals invocation \<noteq> []
    \<and> list_all (\<lambda>p. ap_context p = agent_context example_identity) (air_proposals invocation)"
proof -
  let ?running = "\<lparr>run_identity = example_identity, run_stdout_limit = 4096, run_stderr_limit = 4096,
    run_unread = ''go'' @ [CHR 0x0A], run_stdout_read = 0\<rparr>"
  obtain running' where run: "receive_proposals example_agent_json example_process ?running
    = (Inr \<lparr>air_message = ''ready'', air_proposals = [example_proposal (agent_context example_identity)]\<rparr>, running',
       Child_running)"
    by (rule example_receive [of ?running]) simp_all
  from run agent_output_is_confined [OF run] show ?thesis by fastforce
qed

end
