(* ===== verification/Halquen_Audit.thy ===== *)
theory Halquen_Audit
  imports Halquen_Policy
begin

text \<open>
  The audit crate (\<open>receipt.rs\<close>): the typed receipts and lifecycle events of proposals,
  authorizations, executions and agent sessions, with the event kind and subject under which the
  storage crate files each of them (\<open>insert_event_for_audit\<close> in \<open>sqlite.rs\<close>).
\<close>

datatype execution_status = DryRunSucceeded | Succeeded | Failed | TimedOut | NotExecuted

datatype safe_result_code = Result_Simulated | Result_Launched

record execution_receipt =
  er_execution_id :: execution_id
  er_capability_id :: capability_id
  er_capability_version :: u32
  er_started_at_ms :: i64
  er_finished_at_ms :: i64
  er_policy_decision :: policy_decision
  er_status :: execution_status
  er_reversible :: bool
  er_result_code :: "safe_result_code option"
  er_error_code :: "string option"
  er_sanitized_error :: "string option"
  er_compensation_reference :: "string option"

datatype audit_event =
  Ev_ProposalCreated execution_id proposal_id capability_id action_context_summary
| Ev_ActionRequested execution_id capability_id u32
| Ev_PolicyEvaluated "execution_id option" capability_id policy_decision
| Ev_ConfirmationRequired execution_id capability_id
| Ev_ConfirmationReceived execution_id capability_id bool "agent_execution_identity option"
| Ev_AuthorizationCreated execution_id capability_id "agent_execution_identity option"
| Ev_ActionDenied execution_id capability_id
| Ev_ExecutionStarted execution_id capability_id
| Ev_ExecutionCompleted execution_id capability_id "safe_result_code option"
| Ev_ExecutionFailed execution_id capability_id string
| Ev_ExecutionTimedOut execution_id capability_id string
| Ev_AgentSessionStarted agent_session_id agent_execution_identity
| Ev_AgentSessionFinished agent_session_id agent_session_status
| Ev_MemoryRevision memory_id memory_revision_id

record audit_record =
  au_id :: audit_id
  au_created_at_ms :: i64
  au_event :: audit_event

fun event_kind :: "audit_event \<Rightarrow> string" where
  "event_kind (Ev_ProposalCreated _ _ _ _) = ''proposal_created''"
| "event_kind (Ev_ActionRequested _ _ _) = ''action_requested''"
| "event_kind (Ev_PolicyEvaluated _ _ _) = ''policy_evaluated''"
| "event_kind (Ev_ConfirmationRequired _ _) = ''confirmation_required''"
| "event_kind (Ev_ConfirmationReceived _ _ _ _) = ''confirmation_received''"
| "event_kind (Ev_AuthorizationCreated _ _ _) = ''authorization_created''"
| "event_kind (Ev_ActionDenied _ _) = ''action_denied''"
| "event_kind (Ev_ExecutionStarted _ _) = ''execution_started''"
| "event_kind (Ev_ExecutionCompleted _ _ _) = ''execution_completed''"
| "event_kind (Ev_ExecutionFailed _ _ _) = ''execution_failed''"
| "event_kind (Ev_ExecutionTimedOut _ _ _) = ''execution_timed_out''"
| "event_kind (Ev_AgentSessionStarted _ _) = ''agent_session_started''"
| "event_kind (Ev_AgentSessionFinished _ _) = ''agent_session_finished''"
| "event_kind (Ev_MemoryRevision _ _) = ''memory_revision''"

fun event_subject :: "audit_event \<Rightarrow> string" where
  "event_subject (Ev_ProposalCreated x _ _ _) = x"
| "event_subject (Ev_ActionRequested x _ _) = x"
| "event_subject (Ev_PolicyEvaluated x c _) = (case x of None \<Rightarrow> c | Some x \<Rightarrow> x)"
| "event_subject (Ev_ConfirmationRequired x _) = x"
| "event_subject (Ev_ConfirmationReceived x _ _ _) = x"
| "event_subject (Ev_AuthorizationCreated x _ _) = x"
| "event_subject (Ev_ActionDenied x _) = x"
| "event_subject (Ev_ExecutionStarted x _) = x"
| "event_subject (Ev_ExecutionCompleted x _ _) = x"
| "event_subject (Ev_ExecutionFailed x _ _) = x"
| "event_subject (Ev_ExecutionTimedOut x _ _) = x"
| "event_subject (Ev_AgentSessionStarted s _) = s"
| "event_subject (Ev_AgentSessionFinished s _) = s"
| "event_subject (Ev_MemoryRevision i _) = i"

fun encode_execution_status :: "execution_status \<Rightarrow> string" where
  "encode_execution_status DryRunSucceeded = ''dry_run_succeeded''"
| "encode_execution_status Succeeded = ''succeeded''"
| "encode_execution_status Failed = ''failed''"
| "encode_execution_status TimedOut = ''timed_out''"
| "encode_execution_status NotExecuted = ''not_executed''"

fun encode_result_code :: "safe_result_code \<Rightarrow> string" where
  "encode_result_code Result_Simulated = ''simulated''"
| "encode_result_code Result_Launched = ''launched''"

end
