(* ===== verification/Halquen_Storage.thy ===== *)
theory Halquen_Storage
  imports Halquen_Audit
begin

text \<open>
  The foundations of the SQLite storage crate: its errors (\<open>lib.rs\<close>), the text codecs of the
  persisted enums (\<open>security.rs\<close>, \<open>runtime.rs\<close>), the SQL string functions its statements use, and
  the tables of the authority layer as one record. Rows hold what the columns hold: text, integers
  and nulls. A row is decoded by the \<open>_from_row\<close> function of its table, which fails on text that no
  codec accepts. JSON texts are made and read by the third-party \<open>serde_json\<close>, an argument.
\<close>

section \<open>Errors\<close>

datatype db_error = QueryReturnedNoRows | FromSqlConversionFailure | ConstraintViolation | InvalidQuery

datatype storage_error =
  InvalidInteraction string | InvalidMemoryChange string | Database_error db_error

abbreviation conversion_error :: storage_error where
  "conversion_error \<equiv> Database_error FromSqlConversionFailure"

abbreviation constraint_error :: storage_error where
  "constraint_error \<equiv> Database_error ConstraintViolation"

text \<open>\<open>collect::<Result<Vec<_>, _>>()\<close>: all values, or the first error.\<close>

fun collect_rows :: "('r \<Rightarrow> ('e, 'a) result) \<Rightarrow> 'r list \<Rightarrow> ('e, 'a list) result" where
  "collect_rows f [] = Inr []"
| "collect_rows f (r # rs) = and_then (f r) (\<lambda>a. and_then (collect_rows f rs) (\<lambda>as. Inr (a # as)))"

lemma collect_rows_map: "(\<And>a. a \<in> set as \<Longrightarrow> f (g a) = Inr a) \<Longrightarrow> collect_rows f (map g as) = Inr as"
  by (induction as) auto

section \<open>Integers in SQLite\<close>

text \<open>SQLite integers are 64-bit signed; unsigned values that do not fit are refused.\<close>

definition to_sqlite_u64 :: "u64 \<Rightarrow> (storage_error, i64) result" where
  "to_sqlite_u64 value =
     (if int value \<le> i64_max then Inr (int value)
      else Inl (InvalidInteraction ''numeric value exceeds SQLite range''))"

definition from_sqlite_u64 :: "i64 \<Rightarrow> (storage_error, u64) result" where
  "from_sqlite_u64 value = (if 0 \<le> value then Inr (nat value) else Inl conversion_error)"

definition get_u32 :: "i64 \<Rightarrow> (storage_error, u32) result" where
  "get_u32 value = (if 0 \<le> value \<and> value \<le> int u32_max then Inr (nat value) else Inl conversion_error)"

lemma sqlite_u64_roundtrip: "to_sqlite_u64 n = Inr i \<Longrightarrow> from_sqlite_u64 i = Inr n"
  by (auto simp: to_sqlite_u64_def from_sqlite_u64_def split: if_splits)

lemma get_u32_int [simp]: "n \<le> u32_max \<Longrightarrow> get_u32 (int n) = Inr n"
  by (simp add: get_u32_def)

section \<open>SQL text functions\<close>

text \<open>
  SQLite counts characters of UTF-8 text up to the first NUL: a byte from \<open>0xC0\<close> takes the
  continuation bytes after it. \<open>substr\<close> counts from the end for a negative start. \<open>COLLATE NOCASE\<close>
  folds the ASCII letters.
\<close>

definition continuation_byte :: "char \<Rightarrow> bool" where
  "continuation_byte c = (128 \<le> byte c \<and> byte c < 192)"

function utf8_chars :: "string \<Rightarrow> string list" where
  "utf8_chars [] = []"
| "utf8_chars (c # cs) =
     (if 192 \<le> byte c
      then (c # takeWhile continuation_byte cs) # utf8_chars (dropWhile continuation_byte cs)
      else [c] # utf8_chars cs)"
  by pat_completeness auto
termination
  by (relation "measure length") (auto simp: length_dropWhile_le le_imp_less_Suc)

definition sql_chars :: "string \<Rightarrow> string list" where
  "sql_chars s = utf8_chars (takeWhile (\<lambda>c. byte c \<noteq> 0) s)"

definition sql_length :: "string \<Rightarrow> nat" where
  "sql_length s = length (sql_chars s)"

definition sql_substr :: "string \<Rightarrow> int \<Rightarrow> nat \<Rightarrow> string" where
  "sql_substr s start len =
     (let cs = sql_chars s; n = int (length cs) in
      if start > 0 then concat (take len (drop (nat (start - 1)) cs))
      else if start = 0 then concat (take (len - 1) cs)
      else if n + start \<ge> 0 then concat (take len (drop (nat (n + start)) cs))
      else concat (take (nat (int len + (n + start))) cs))"

definition nocase :: "string \<Rightarrow> string" where
  "nocase s = map (\<lambda>c. if is_ascii_uppercase c then char_of (byte c + 32) else c) s"

definition ascii_text :: "string \<Rightarrow> bool" where
  "ascii_text s = list_all (\<lambda>c. 0 < byte c \<and> byte c < 128) s"

lemma sql_chars_ascii: "ascii_text s \<Longrightarrow> sql_chars s = map (\<lambda>c. [c]) s"
proof -
  assume ascii: "ascii_text s"
  then have "takeWhile (\<lambda>c. byte c \<noteq> 0) s = s"
    by (auto simp: ascii_text_def list_all_iff takeWhile_eq_all_conv)
  moreover have "utf8_chars s = map (\<lambda>c. [c]) s"
    using ascii by (induction s) (auto simp: ascii_text_def)
  ultimately show ?thesis by (simp only: sql_chars_def)
qed

lemma concat_singletons [simp]: "concat (map (\<lambda>c. [c]) s) = s"
  by (induction s) auto

lemma sql_ascii [sql_simps]:
  assumes "ascii_text s"
  shows "sql_length s = length s"
    and "0 < k \<Longrightarrow> sql_substr s k n = take n (drop (nat (k - 1)) s)"
    and "k < 0 \<Longrightarrow> - k \<le> int (length s) \<Longrightarrow> sql_substr s k n = take n (drop (nat (int (length s) + k)) s)"
  using assms by (simp_all add: sql_length_def sql_substr_def sql_chars_ascii take_map drop_map Let_def)

section \<open>Enum codecs\<close>

fun encode_security_profile :: "security_profile \<Rightarrow> string" where
  "encode_security_profile Strict = ''strict''"
| "encode_security_profile Balanced = ''balanced''"
| "encode_security_profile Developer = ''developer''"
| "encode_security_profile Custom = ''custom''"

definition parse_security_profile :: "string \<Rightarrow> security_profile option" where
  "parse_security_profile value =
     (if value = ''strict'' then Some Strict
      else if value = ''balanced'' then Some Balanced
      else if value = ''developer'' then Some Developer
      else if value = ''custom'' then Some Custom
      else None)"

fun encode_permission_effect :: "permission_effect \<Rightarrow> string" where
  "encode_permission_effect Effect_Allow = ''allow''"
| "encode_permission_effect Effect_Deny = ''deny''"

definition parse_permission_effect :: "string \<Rightarrow> permission_effect option" where
  "parse_permission_effect value =
     (if value = ''allow'' then Some Effect_Allow
      else if value = ''deny'' then Some Effect_Deny
      else None)"

fun encode_permission_lifetime :: "permission_lifetime \<Rightarrow> string" where
  "encode_permission_lifetime Life_Once = ''once''"
| "encode_permission_lifetime Life_Session = ''session''"
| "encode_permission_lifetime Life_Until = ''until''"
| "encode_permission_lifetime Life_Always = ''always''"

definition parse_permission_lifetime :: "string \<Rightarrow> permission_lifetime option" where
  "parse_permission_lifetime value =
     (if value = ''once'' then Some Life_Once
      else if value = ''session'' then Some Life_Session
      else if value = ''until'' then Some Life_Until
      else if value = ''always'' then Some Life_Always
      else None)"

fun encode_action_origin :: "action_origin \<Rightarrow> string" where
  "encode_action_origin AO_UserExplicit = ''user_explicit''"
| "encode_action_origin AO_System = ''system''"
| "encode_action_origin AO_LocalResolver = ''local_resolver''"
| "encode_action_origin AO_AiProposal = ''ai_proposal''"
| "encode_action_origin AO_ExternalContent = ''external_content''"
| "encode_action_origin AO_Plugin = ''plugin''"
| "encode_action_origin AO_StoredProcedure = ''stored_procedure''"
| "encode_action_origin AO_Agent = ''agent''"

definition parse_action_origin :: "string \<Rightarrow> action_origin option" where
  "parse_action_origin value =
     (if value = ''user_explicit'' then Some AO_UserExplicit
      else if value = ''system'' then Some AO_System
      else if value = ''local_resolver'' then Some AO_LocalResolver
      else if value = ''ai_proposal'' then Some AO_AiProposal
      else if value = ''external_content'' then Some AO_ExternalContent
      else if value = ''plugin'' then Some AO_Plugin
      else if value = ''stored_procedure'' then Some AO_StoredProcedure
      else if value = ''agent'' then Some AO_Agent
      else None)"

fun encode_resource_kind :: "resource_kind \<Rightarrow> string" where
  "encode_resource_kind RK_Application = ''application''"
| "encode_resource_kind RK_File = ''file''"
| "encode_resource_kind RK_NetworkEndpoint = ''network_endpoint''"
| "encode_resource_kind RK_Database = ''database''"
| "encode_resource_kind RK_Agent = ''agent''"
| "encode_resource_kind RK_Plugin = ''plugin''"
| "encode_resource_kind RK_System = ''system''"

definition parse_resource_kind :: "string \<Rightarrow> resource_kind option" where
  "parse_resource_kind value =
     (if value = ''application'' then Some RK_Application
      else if value = ''file'' then Some RK_File
      else if value = ''network_endpoint'' then Some RK_NetworkEndpoint
      else if value = ''database'' then Some RK_Database
      else if value = ''agent'' then Some RK_Agent
      else if value = ''plugin'' then Some RK_Plugin
      else if value = ''system'' then Some RK_System
      else None)"

fun encode_resource_match_kind :: "resource_match_kind \<Rightarrow> string" where
  "encode_resource_match_kind Match_Exact = ''exact''"
| "encode_resource_match_kind Match_PathPrefix = ''path_prefix''"
| "encode_resource_match_kind Match_Host = ''host''"

definition parse_resource_match_kind :: "string \<Rightarrow> resource_match_kind option" where
  "parse_resource_match_kind value =
     (if value = ''exact'' then Some Match_Exact
      else if value = ''path_prefix'' then Some Match_PathPrefix
      else if value = ''host'' then Some Match_Host
      else None)"

fun encode_resource_classification :: "resource_classification \<Rightarrow> string" where
  "encode_resource_classification RC_Public = ''public''"
| "encode_resource_classification RC_Local = ''local''"
| "encode_resource_classification RC_Personal = ''personal''"
| "encode_resource_classification RC_Sensitive = ''sensitive''"
| "encode_resource_classification RC_Secret = ''secret''"
| "encode_resource_classification RC_Production = ''production''"
| "encode_resource_classification RC_SystemCritical = ''system_critical''"

definition parse_resource_classification :: "string \<Rightarrow> resource_classification option" where
  "parse_resource_classification value =
     (if value = ''public'' then Some RC_Public
      else if value = ''local'' then Some RC_Local
      else if value = ''personal'' then Some RC_Personal
      else if value = ''sensitive'' then Some RC_Sensitive
      else if value = ''secret'' then Some RC_Secret
      else if value = ''production'' then Some RC_Production
      else if value = ''system_critical'' then Some RC_SystemCritical
      else None)"

fun encode_data_classification :: "data_classification \<Rightarrow> string" where
  "encode_data_classification DC_Public = ''public''"
| "encode_data_classification DC_Personal = ''personal''"
| "encode_data_classification DC_Sensitive = ''sensitive''"
| "encode_data_classification DC_Secret = ''secret''"
| "encode_data_classification DC_Production = ''production''"

definition parse_data_classification :: "string \<Rightarrow> data_classification option" where
  "parse_data_classification value =
     (if value = ''public'' then Some DC_Public
      else if value = ''personal'' then Some DC_Personal
      else if value = ''sensitive'' then Some DC_Sensitive
      else if value = ''secret'' then Some DC_Secret
      else if value = ''production'' then Some DC_Production
      else None)"

fun encode_behaviour_outcome :: "behaviour_outcome \<Rightarrow> string" where
  "encode_behaviour_outcome Outcome_Success = ''success''"
| "encode_behaviour_outcome Outcome_Failure = ''failure''"
| "encode_behaviour_outcome Outcome_CorrectionAccepted = ''correction_accepted''"
| "encode_behaviour_outcome Outcome_CorrectionRejected = ''correction_rejected''"

definition parse_behaviour_outcome :: "string \<Rightarrow> behaviour_outcome option" where
  "parse_behaviour_outcome value =
     (if value = ''success'' then Some Outcome_Success
      else if value = ''failure'' then Some Outcome_Failure
      else if value = ''correction_accepted'' then Some Outcome_CorrectionAccepted
      else if value = ''correction_rejected'' then Some Outcome_CorrectionRejected
      else None)"

fun encode_agent_transport :: "agent_transport \<Rightarrow> string" where
  "encode_agent_transport Transport_Cli = ''cli''"
| "encode_agent_transport Transport_UnixSocket = ''unix_socket''"

definition parse_agent_transport :: "string \<Rightarrow> agent_transport option" where
  "parse_agent_transport value =
     (if value = ''cli'' then Some Transport_Cli
      else if value = ''unix_socket'' then Some Transport_UnixSocket
      else None)"

fun encode_sandbox_backend :: "sandbox_backend \<Rightarrow> string" where
  "encode_sandbox_backend Sandbox_Bubblewrap = ''bubblewrap''"
| "encode_sandbox_backend Sandbox_Unavailable = ''unavailable''"
| "encode_sandbox_backend Sandbox_UnsafeUnsandboxed = ''unsafe_unsandboxed''"

definition parse_sandbox_backend :: "string \<Rightarrow> sandbox_backend option" where
  "parse_sandbox_backend value =
     (if value = ''bubblewrap'' then Some Sandbox_Bubblewrap
      else if value = ''unavailable'' then Some Sandbox_Unavailable
      else if value = ''unsafe_unsandboxed'' then Some Sandbox_UnsafeUnsandboxed
      else None)"

fun encode_executable_ownership :: "executable_ownership \<Rightarrow> string" where
  "encode_executable_ownership RootOnly = ''root_only''"
| "encode_executable_ownership RootOrCurrentUser = ''root_or_current_user''"

definition parse_executable_ownership :: "string \<Rightarrow> executable_ownership option" where
  "parse_executable_ownership value =
     (if value = ''root_only'' then Some RootOnly
      else if value = ''root_or_current_user'' then Some RootOrCurrentUser
      else None)"

fun encode_agent_session_status :: "agent_session_status \<Rightarrow> string" where
  "encode_agent_session_status Status_Running = ''running''"
| "encode_agent_session_status Status_Completed = ''completed''"
| "encode_agent_session_status Status_Failed = ''failed''"
| "encode_agent_session_status Status_TimedOut = ''timed_out''"
| "encode_agent_session_status Status_Crashed = ''crashed''"

definition parse_agent_session_status :: "string \<Rightarrow> agent_session_status option" where
  "parse_agent_session_status value =
     (if value = ''running'' then Some Status_Running
      else if value = ''completed'' then Some Status_Completed
      else if value = ''failed'' then Some Status_Failed
      else if value = ''timed_out'' then Some Status_TimedOut
      else if value = ''crashed'' then Some Status_Crashed
      else None)"

subsection \<open>The codecs meet the interface\<close>

interpretation security_profile_codec: text_codec encode_security_profile parse_security_profile
proof
  show "parse_security_profile (encode_security_profile a) = Some a" for a
    by (cases a) (simp_all add: parse_security_profile_def)
qed (auto simp: parse_security_profile_def split: if_splits)

interpretation permission_effect_codec: text_codec encode_permission_effect parse_permission_effect
proof
  show "parse_permission_effect (encode_permission_effect a) = Some a" for a
    by (cases a) (simp_all add: parse_permission_effect_def)
qed (auto simp: parse_permission_effect_def split: if_splits)

interpretation permission_lifetime_codec: text_codec encode_permission_lifetime parse_permission_lifetime
proof
  show "parse_permission_lifetime (encode_permission_lifetime a) = Some a" for a
    by (cases a) (simp_all add: parse_permission_lifetime_def)
qed (auto simp: parse_permission_lifetime_def split: if_splits)

interpretation action_origin_codec: text_codec encode_action_origin parse_action_origin
proof
  show "parse_action_origin (encode_action_origin a) = Some a" for a
    by (cases a) (simp_all add: parse_action_origin_def)
qed (auto simp: parse_action_origin_def split: if_splits)

interpretation resource_kind_codec: text_codec encode_resource_kind parse_resource_kind
proof
  show "parse_resource_kind (encode_resource_kind a) = Some a" for a
    by (cases a) (simp_all add: parse_resource_kind_def)
qed (auto simp: parse_resource_kind_def split: if_splits)

interpretation resource_match_kind_codec: text_codec encode_resource_match_kind parse_resource_match_kind
proof
  show "parse_resource_match_kind (encode_resource_match_kind a) = Some a" for a
    by (cases a) (simp_all add: parse_resource_match_kind_def)
qed (auto simp: parse_resource_match_kind_def split: if_splits)

interpretation resource_classification_codec: text_codec encode_resource_classification parse_resource_classification
proof
  show "parse_resource_classification (encode_resource_classification a) = Some a" for a
    by (cases a) (simp_all add: parse_resource_classification_def)
qed (auto simp: parse_resource_classification_def split: if_splits)

interpretation data_classification_codec: text_codec encode_data_classification parse_data_classification
proof
  show "parse_data_classification (encode_data_classification a) = Some a" for a
    by (cases a) (simp_all add: parse_data_classification_def)
qed (auto simp: parse_data_classification_def split: if_splits)

interpretation behaviour_outcome_codec: text_codec encode_behaviour_outcome parse_behaviour_outcome
proof
  show "parse_behaviour_outcome (encode_behaviour_outcome a) = Some a" for a
    by (cases a) (simp_all add: parse_behaviour_outcome_def)
qed (auto simp: parse_behaviour_outcome_def split: if_splits)

interpretation agent_transport_codec: text_codec encode_agent_transport parse_agent_transport
proof
  show "parse_agent_transport (encode_agent_transport a) = Some a" for a
    by (cases a) (simp_all add: parse_agent_transport_def)
qed (auto simp: parse_agent_transport_def split: if_splits)

interpretation sandbox_backend_codec: text_codec encode_sandbox_backend parse_sandbox_backend
proof
  show "parse_sandbox_backend (encode_sandbox_backend a) = Some a" for a
    by (cases a) (simp_all add: parse_sandbox_backend_def)
qed (auto simp: parse_sandbox_backend_def split: if_splits)

interpretation executable_ownership_codec: text_codec encode_executable_ownership parse_executable_ownership
proof
  show "parse_executable_ownership (encode_executable_ownership a) = Some a" for a
    by (cases a) (simp_all add: parse_executable_ownership_def)
qed (auto simp: parse_executable_ownership_def split: if_splits)

interpretation agent_session_status_codec: text_codec encode_agent_session_status parse_agent_session_status
proof
  show "parse_agent_session_status (encode_agent_session_status a) = Some a" for a
    by (cases a) (simp_all add: parse_agent_session_status_def)
qed (auto simp: parse_agent_session_status_def split: if_splits)


section \<open>Tables\<close>

text \<open>
  The JSON texts of a permission scope, an argument list, a policy decision and an audit event. Writing is injective; reading back a
  written value gives the value, for a scope if its identifiers are valid (reading validates them).
\<close>

record serde_json =
  sj_scope :: "permission_scope \<Rightarrow> string"
  sj_parse_scope :: "string \<Rightarrow> permission_scope option"
  sj_strings :: "string list \<Rightarrow> string"
  sj_parse_strings :: "string \<Rightarrow> string list option"
  sj_decision :: "policy_decision \<Rightarrow> string"
  sj_event :: "audit_event \<Rightarrow> string"

definition scope_ids_valid :: "permission_scope \<Rightarrow> bool" where
  "scope_ids_valid s =
     (CapabilityId_new (ps_capability_id s) = Inr (ps_capability_id s)
      \<and> (case ps_arguments s of Args_None \<Rightarrow> True | Args_OpenApp app \<Rightarrow> OpaqueId_new app = Inr app))"

definition serde_faithful :: "serde_json \<Rightarrow> bool" where
  "serde_faithful J =
     (inj (sj_scope J) \<and> (\<forall>s. scope_ids_valid s \<longrightarrow> sj_parse_scope J (sj_scope J s) = Some s)
      \<and> (\<forall>a. sj_parse_strings J (sj_strings J a) = Some a))"

record permission_row =
  prw_id :: string
  prw_capability_id :: string
  prw_scope_json :: string
  prw_granted_at_ms :: i64
  prw_expires_at_ms :: "i64 option"
  prw_revoked_at_ms :: "i64 option"
  prw_effect :: string
  prw_lifetime :: string
  prw_session_kind :: "string option"
  prw_session_id :: "string option"
  prw_agent_id :: "string option"
  prw_granted_by :: string
  prw_use_limit :: "i64 option"
  prw_use_count :: i64

record label_row =
  lrw_id :: string
  lrw_name :: string
  lrw_resource_kind :: string
  lrw_match_kind :: string
  lrw_pattern :: string
  lrw_classification :: string
  lrw_data_classification :: string
  lrw_created_at_ms :: i64
  lrw_updated_at_ms :: i64

record usage_row =
  urw_id :: string
  urw_intent :: string
  urw_entity_id :: string
  urw_outcome :: string
  urw_context_class :: string
  urw_created_at_ms :: i64

record application_row =
  arw_entity_id :: string
  arw_display_name :: string
  arw_executable :: string
  arw_arguments_json :: string
  arw_ownership :: string
  arw_device :: i64
  arw_inode :: i64
  arw_owner_uid :: i64
  arw_size :: i64
  arw_mtime_seconds :: i64
  arw_mtime_nanoseconds :: i64
  arw_sha256_hex :: "string option"
  arw_enabled :: bool
  arw_created_at_ms :: i64
  arw_updated_at_ms :: i64

record agent_row =
  grw_id :: string
  grw_name :: string
  grw_transport :: string
  grw_executable :: string
  grw_arguments_json :: string
  grw_socket_path :: "string option"
  grw_sandbox :: string
  grw_ownership :: string
  grw_device :: "i64 option"
  grw_inode :: "i64 option"
  grw_owner_uid :: "i64 option"
  grw_size :: "i64 option"
  grw_mtime_seconds :: "i64 option"
  grw_mtime_nanoseconds :: "i64 option"
  grw_sha256_hex :: "string option"
  grw_cpu_seconds :: i64
  grw_memory_bytes :: i64
  grw_process_count :: i64
  grw_file_size_bytes :: i64
  grw_open_files :: i64
  grw_temp_bytes :: i64
  grw_enabled :: bool
  grw_timeout_ms :: i64
  grw_max_stdout_bytes :: i64
  grw_max_stderr_bytes :: i64
  grw_created_at_ms :: i64
  grw_updated_at_ms :: i64

record daemon_session_row =
  dsr_id :: string
  dsr_started_at_ms :: i64
  dsr_ended_at_ms :: "i64 option"

record agent_session_row =
  asr_id :: string
  asr_agent_id :: string
  asr_instance_id :: string
  asr_daemon_session_id :: string
  asr_status :: string
  asr_started_at_ms :: i64
  asr_ended_at_ms :: "i64 option"

record execution_row =
  xrw_id :: string
  xrw_capability_id :: string
  xrw_capability_version :: i64
  xrw_started_at_ms :: i64
  xrw_finished_at_ms :: i64
  xrw_policy_json :: string
  xrw_status :: string
  xrw_reversible :: bool
  xrw_result_code :: "string option"
  xrw_error_code :: "string option"
  xrw_sanitized_error :: "string option"
  xrw_compensation_reference :: "string option"

record audit_row =
  aur_id :: string
  aur_created_at_ms :: i64
  aur_event_json :: string

record event_row =
  evr_id :: string
  evr_event_kind :: string
  evr_subject_id :: string
  evr_created_at_ms :: i64

text \<open>\<open>security_configuration\<close> holds the rows with \<open>singleton_id = 1\<close>: the profile and its time.\<close>

record database =
  db_security :: "(string \<times> i64) list"
  db_permissions :: "permission_row list"
  db_labels :: "label_row list"
  db_usage :: "usage_row list"
  db_applications :: "application_row list"
  db_agents :: "agent_row list"
  db_daemon_sessions :: "daemon_session_row list"
  db_agent_sessions :: "agent_session_row list"
  db_executions :: "execution_row list"
  db_audit :: "audit_row list"
  db_events :: "event_row list"

text \<open>The tables as the migrations create them.\<close>

definition empty_database :: database where
  "empty_database =
     \<lparr>db_security = [(''balanced'', 0)], db_permissions = [], db_labels = [], db_usage = [],
      db_applications = [], db_agents = [], db_daemon_sessions = [], db_agent_sessions = [],
      db_executions = [], db_audit = [], db_events = []\<rparr>"

section \<open>The security profile\<close>

definition db_security_profile :: "database \<Rightarrow> (storage_error, security_profile) result" where
  "db_security_profile db =
     (case first_row (db_security db) of
        None \<Rightarrow> Inl (Database_error QueryReturnedNoRows)
      | Some row \<Rightarrow> ok_or conversion_error (parse_security_profile (fst row)))"

text \<open>
  An operation that changes the database returns its result and the database it leaves; an error
  inside a transaction rolls the transaction back.
\<close>

type_synonym 'a db_op = "database \<Rightarrow> (storage_error, 'a) result \<times> database"

definition update_security_profile :: "security_profile \<Rightarrow> i64 \<Rightarrow> unit db_op" where
  "update_security_profile profile now_ms db =
     (case update_rows (\<lambda>_. True) (\<lambda>_. (encode_security_profile profile, now_ms)) (db_security db) of
        (rows, updated) \<Rightarrow>
          (if updated \<noteq> 1
           then Inl (InvalidInteraction ''security configuration singleton is missing'')
           else Inr (), db\<lparr>db_security := rows\<rparr>))"

lemma update_security_profile_reads_back:
  "update_security_profile profile now db = (Inr (), db') \<Longrightarrow> db_security_profile db' = Inr profile"
  by (cases "db_security db")
    (auto simp: update_security_profile_def db_security_profile_def update_rows_def
      security_profile_codec.parse_encode split: if_splits)

section \<open>A concrete JSON stand-in\<close>

text \<open>
  A prefix code for lists of texts, and scopes as lists of texts: an instance of the JSON argument
  that satisfies what is assumed of \<open>serde_json\<close>, for the witnesses.
\<close>

definition plain_texts :: "string list \<Rightarrow> string" where
  "plain_texts ts = concat (map (\<lambda>t. concat (map (\<lambda>c. [CHR ''.'', c]) t) @ ''$'') ts)"

fun plain_parse :: "string \<Rightarrow> string \<Rightarrow> string list option" where
  "plain_parse acc [] = (if acc = [] then Some [] else None)"
| "plain_parse acc (x # xs) =
     (if x = CHR ''$'' then map_option ((#) acc) (plain_parse [] xs)
      else (case xs of [] \<Rightarrow> None | c # ys \<Rightarrow> plain_parse (acc @ [c]) ys))"

lemma plain_parse_text:
  "plain_parse acc (concat (map (\<lambda>c. [CHR ''.'', c]) t) @ CHR ''$'' # rest)
   = map_option ((#) (acc @ t)) (plain_parse [] rest)"
  by (induction t arbitrary: acc) simp_all

lemma plain_parse_texts: "plain_parse [] (plain_texts ts) = Some ts"
  by (induction ts) (simp_all add: plain_texts_def plain_parse_text)

fun plain_destination :: "destination_class option \<Rightarrow> string" where
  "plain_destination None = ''''"
| "plain_destination (Some Dest_Local) = ''local''"
| "plain_destination (Some Dest_TrustedEndpoint) = ''trusted''"
| "plain_destination (Some Dest_External) = ''external''"
| "plain_destination (Some Dest_UntrustedExternal) = ''untrusted''"

definition plain_parse_destination :: "string \<Rightarrow> destination_class option" where
  "plain_parse_destination t =
     (if t = ''local'' then Some Dest_Local else if t = ''trusted'' then Some Dest_TrustedEndpoint
      else if t = ''external'' then Some Dest_External
      else if t = ''untrusted'' then Some Dest_UntrustedExternal else None)"

definition plain_resource :: "resource_descriptor \<Rightarrow> string list" where
  "plain_resource r =
     [encode_resource_kind (rd_kind r), rd_identifier r, encode_resource_classification (rd_classification r)]"

fun plain_parse_resources :: "string list \<Rightarrow> resource_descriptor list option" where
  "plain_parse_resources [] = Some []"
| "plain_parse_resources (k # i # c # ts) =
     (case (parse_resource_kind k, parse_resource_classification c, plain_parse_resources ts) of
        (Some k, Some c, Some rs) \<Rightarrow>
          Some (\<lparr>rd_kind = k, rd_identifier = i, rd_classification = c\<rparr> # rs)
      | _ \<Rightarrow> None)"
| "plain_parse_resources _ = None"

definition plain_scope :: "permission_scope \<Rightarrow> string" where
  "plain_scope s =
     plain_texts (ps_capability_id s
       # (case ps_arguments s of Args_None \<Rightarrow> ''none'' | Args_OpenApp app \<Rightarrow> ''open'' @ app)
       # plain_destination (ps_destination s) # concat (map plain_resource (ps_resources s)))"

definition plain_parse_scope :: "string \<Rightarrow> permission_scope option" where
  "plain_parse_scope t =
     (case plain_parse [] t of
        Some (c # a # d # ts) \<Rightarrow>
          map_option (\<lambda>rs. \<lparr>ps_capability_id = c,
              ps_arguments = (if a = ''none'' then Args_None else Args_OpenApp (drop 4 a)),
              ps_resources = rs, ps_destination = plain_parse_destination d\<rparr>)
            (plain_parse_resources ts)
      | _ \<Rightarrow> None)"

definition plain_json :: serde_json where
  "plain_json = \<lparr>sj_scope = plain_scope, sj_parse_scope = plain_parse_scope,
     sj_strings = plain_texts, sj_parse_strings = plain_parse [],
     sj_decision = (\<lambda>_. ''{}''), sj_event = (\<lambda>_. ''{}'')\<rparr>"

lemma plain_resources_roundtrip: "plain_parse_resources (concat (map plain_resource rs)) = Some rs"
  by (induction rs)
    (simp_all add: plain_resource_def resource_kind_codec.parse_encode
      resource_classification_codec.parse_encode)

lemma plain_destination_roundtrip: "plain_parse_destination (plain_destination d) = d"
  by (cases d rule: plain_destination.cases) (simp_all add: plain_parse_destination_def)

lemma plain_scope_roundtrip: "plain_parse_scope (plain_scope s) = Some s"
  by (cases "ps_arguments s")
    (simp_all add: plain_parse_scope_def plain_scope_def plain_parse_texts plain_resources_roundtrip
      plain_destination_roundtrip)

lemma plain_json_faithful: "serde_faithful plain_json"
  by (auto simp: serde_faithful_def plain_json_def plain_parse_texts plain_scope_roundtrip
      intro!: injI dest: arg_cong [of _ _ plain_parse_scope])

end
