(* ===== verification/Halquen_Grants.thy ===== *)
theory Halquen_Grants
  imports Halquen_Policy Halquen_Storage
begin

text \<open>
  The permission grants of the storage crate (\<open>security.rs\<close>): their rows, the lookup of the decisive
  grant for a proposal, and the operations that insert, revoke, consume and claim grants. The facts
  relate the SQL statements to the grants of the domain: the single row the daemon fetches decides
  like the whole table does, and a claim spends exactly one use.
\<close>

section \<open>Rows\<close>

fun permission_session_kind :: "permission_session_scope \<Rightarrow> string" where
  "permission_session_kind (Session_Chat _) = ''chat''"
| "permission_session_kind (Session_Agent _) = ''agent''"
| "permission_session_kind (Session_Daemon _) = ''daemon''"

fun permission_session_id :: "permission_session_scope \<Rightarrow> string" where
  "permission_session_id (Session_Chat i) = i"
| "permission_session_id (Session_Agent i) = i"
| "permission_session_id (Session_Daemon i) = i"

definition parse_permission_session ::
  "string option \<Rightarrow> string option \<Rightarrow> (storage_error, permission_session_scope option) result" where
  "parse_permission_session kind i =
     (case (kind, i) of
        (None, None) \<Rightarrow> Inr None
      | (Some k, Some v) \<Rightarrow>
          if k = ''chat'' then and_then (map_err (\<lambda>_. conversion_error) (OpaqueId_new v)) (\<lambda>v. Inr (Some (Session_Chat v)))
          else if k = ''agent'' then and_then (map_err (\<lambda>_. conversion_error) (OpaqueId_new v)) (\<lambda>v. Inr (Some (Session_Agent v)))
          else if k = ''daemon'' then and_then (map_err (\<lambda>_. conversion_error) (OpaqueId_new v)) (\<lambda>v. Inr (Some (Session_Daemon v)))
          else Inl conversion_error
      | _ \<Rightarrow> Inl conversion_error)"

definition grant_to_row :: "serde_json \<Rightarrow> permission_grant \<Rightarrow> permission_row" where
  "grant_to_row J grant =
     \<lparr>prw_id = pg_id grant, prw_capability_id = ps_capability_id (pg_scope grant),
      prw_scope_json = sj_scope J (pg_scope grant), prw_granted_at_ms = pg_granted_at_ms grant,
      prw_expires_at_ms = pg_expires_at_ms grant, prw_revoked_at_ms = pg_revoked_at_ms grant,
      prw_effect = encode_permission_effect (pg_effect grant),
      prw_lifetime = encode_permission_lifetime (pg_lifetime grant),
      prw_session_kind = map_option permission_session_kind (pg_session grant),
      prw_session_id = map_option permission_session_id (pg_session grant),
      prw_agent_id = pg_agent_id grant, prw_granted_by = encode_action_origin (pg_granted_by grant),
      prw_use_limit = map_option int (pg_use_limit grant), prw_use_count = int (pg_use_count grant)\<rparr>"

definition permission_from_row :: "serde_json \<Rightarrow> permission_row \<Rightarrow> (storage_error, permission_grant) result" where
  "permission_from_row J row =
     and_then (ok_or conversion_error (sj_parse_scope J (prw_scope_json row))) (\<lambda>scope.
     and_then (map_err (\<lambda>_. conversion_error) (OpaqueId_new (prw_id row))) (\<lambda>i.
     and_then (ok_or conversion_error (parse_permission_effect (prw_effect row))) (\<lambda>effect.
     and_then (ok_or conversion_error (parse_permission_lifetime (prw_lifetime row))) (\<lambda>lifetime.
     and_then (parse_permission_session (prw_session_kind row) (prw_session_id row)) (\<lambda>session.
     and_then (case prw_agent_id row of None \<Rightarrow> Inr None
               | Some a \<Rightarrow> and_then (map_err (\<lambda>_. conversion_error) (OpaqueId_new a)) (\<lambda>a. Inr (Some a)))
       (\<lambda>agent_id.
     and_then (ok_or conversion_error (parse_action_origin (prw_granted_by row))) (\<lambda>granted_by.
     and_then (case prw_use_limit row of None \<Rightarrow> Inr None
               | Some n \<Rightarrow> and_then (get_u32 n) (\<lambda>n. Inr (Some n))) (\<lambda>use_limit.
     and_then (get_u32 (prw_use_count row)) (\<lambda>use_count.
     Inr \<lparr>pg_id = i, pg_effect = effect, pg_lifetime = lifetime, pg_scope = scope, pg_session = session,
          pg_agent_id = agent_id, pg_granted_by = granted_by, pg_granted_at_ms = prw_granted_at_ms row,
          pg_expires_at_ms = prw_expires_at_ms row, pg_revoked_at_ms = prw_revoked_at_ms row,
          pg_use_limit = use_limit, pg_use_count = use_count\<rparr>)))))))))"

text \<open>The \<open>CHECK\<close> constraints of \<open>permission_grants\<close>; \<open>serde_json\<close> writes valid JSON.\<close>

definition permission_check :: "permission_row \<Rightarrow> bool" where
  "permission_check row =
     (prw_effect row \<in> {''allow'', ''deny''}
      \<and> prw_lifetime row \<in> {''once'', ''session'', ''until'', ''always''}
      \<and> prw_granted_by row \<in> {''user_explicit'', ''system''}
      \<and> is_none_or (\<lambda>limit. limit > 0) (prw_use_limit row) \<and> prw_use_count row \<ge> 0
      \<and> is_none_or (\<lambda>kind. kind \<in> {''chat'', ''agent'', ''daemon''}) (prw_session_kind row))"

section \<open>Queries\<close>

definition list_permission_grants ::
  "serde_json \<Rightarrow> database \<Rightarrow> u16 \<Rightarrow> (storage_error, permission_grant list) result" where
  "list_permission_grants J db limit =
     collect_rows (permission_from_row J)
       (take (min limit 200) (sort_key (\<lambda>r. (- prw_granted_at_ms r, prw_id r)) (db_permissions db)))"

definition row_usable :: "i64 \<Rightarrow> permission_row \<Rightarrow> bool" where
  "row_usable now_ms row =
     (prw_revoked_at_ms row = None
      \<and> (prw_expires_at_ms row = None \<or> is_some_and (\<lambda>expiry. expiry \<ge> now_ms) (prw_expires_at_ms row))
      \<and> (prw_use_limit row = None \<or> is_some_and (\<lambda>limit. prw_use_count row < limit) (prw_use_limit row)))"

definition active_permission_grants ::
  "serde_json \<Rightarrow> database \<Rightarrow> i64 \<Rightarrow> u16 \<Rightarrow> (storage_error, permission_grant list) result" where
  "active_permission_grants J db now_ms limit =
     collect_rows (permission_from_row J)
       (take (min limit 200)
         (sort_key (\<lambda>r. (- prw_granted_at_ms r, prw_id r)) (filter (row_usable now_ms) (db_permissions db))))"

text \<open>The conditions on scope, session and agent that the lookup and the claim share.\<close>

definition row_addresses ::
  "serde_json \<Rightarrow> action_proposal \<Rightarrow> permission_session_scope option \<Rightarrow> agent_id option
   \<Rightarrow> permission_row \<Rightarrow> bool" where
  "row_addresses J proposal session agent_id row =
     (prw_capability_id row = ar_capability_id (ap_action proposal)
      \<and> prw_scope_json row = sj_scope J (from_proposal proposal)
      \<and> ((prw_lifetime row \<noteq> ''session'' \<and> prw_session_kind row = None \<and> prw_session_id row = None)
         \<or> (prw_lifetime row = ''session''
            \<and> prw_session_kind row = map_option permission_session_kind session
            \<and> prw_session_id row = map_option permission_session_id session))
      \<and> ((prw_agent_id row = None \<and> agent_id = None)
         \<or> (prw_agent_id row \<noteq> None \<and> prw_agent_id row = agent_id)))"

definition active_permission_grant_for_proposal ::
  "serde_json \<Rightarrow> database \<Rightarrow> action_proposal \<Rightarrow> permission_session_scope option \<Rightarrow> agent_id option \<Rightarrow> i64
   \<Rightarrow> (storage_error, permission_grant option) result" where
  "active_permission_grant_for_proposal J db proposal session agent_id now_ms =
     (case first_row (sort_key
             (\<lambda>r. (if prw_effect r = ''deny'' then 0 else 1 :: nat, - prw_granted_at_ms r, prw_id r))
             (filter (\<lambda>r. row_addresses J proposal session agent_id r \<and> row_usable now_ms r)
               (db_permissions db))) of
        None \<Rightarrow> Inr None
      | Some row \<Rightarrow> and_then (permission_from_row J row) (\<lambda>g. Inr (Some g)))"

section \<open>Changes\<close>

text \<open>\<open>ON CONFLICT(id) DO UPDATE\<close> overwrites every column but the time of the first grant.\<close>

definition merge_permission :: "permission_row \<Rightarrow> permission_row \<Rightarrow> permission_row" where
  "merge_permission old new = new\<lparr>prw_granted_at_ms := prw_granted_at_ms old\<rparr>"

definition upsert_permission_grant :: "serde_json \<Rightarrow> permission_grant \<Rightarrow> unit db_op" where
  "upsert_permission_grant J grant db =
     (if is_err (grant_validate grant) then (Inl (InvalidInteraction ''invalid permission grant''), db)
      else if length (sj_scope J (pg_scope grant)) > 32768
      then (Inl (InvalidInteraction ''permission scope exceeds 32768 bytes''), db)
      else
        let row = grant_to_row J grant in
        if \<not> permission_check row then (Inl constraint_error, db)
        else (Inr (), db\<lparr>db_permissions := upsert_row prw_id merge_permission row (db_permissions db)\<rparr>))"

definition revoke_permission :: "permission_id \<Rightarrow> i64 \<Rightarrow> bool db_op" where
  "revoke_permission i now_ms db =
     (case update_rows (\<lambda>r. prw_id r = i \<and> prw_revoked_at_ms r = None)
             (\<lambda>r. r\<lparr>prw_revoked_at_ms := Some now_ms\<rparr>) (db_permissions db) of
        (rows, updated) \<Rightarrow> (Inr (updated = 1), db\<lparr>db_permissions := rows\<rparr>))"

definition bump_use :: "permission_row \<Rightarrow> permission_row" where
  "bump_use r = r\<lparr>prw_use_count := prw_use_count r + 1\<rparr>"

definition consume_permission :: "permission_id \<Rightarrow> bool db_op" where
  "consume_permission i db =
     (case update_rows (\<lambda>r. prw_id r = i \<and> prw_revoked_at_ms r = None
               \<and> (prw_use_limit r = None \<or> is_some_and (\<lambda>limit. prw_use_count r < limit) (prw_use_limit r)))
             bump_use (db_permissions db) of
        (rows, updated) \<Rightarrow> (Inr (updated = 1), db\<lparr>db_permissions := rows\<rparr>))"

definition claim_candidate ::
  "serde_json \<Rightarrow> database \<Rightarrow> action_proposal \<Rightarrow> permission_session_scope option \<Rightarrow> agent_id option \<Rightarrow> i64
   \<Rightarrow> permission_row option" where
  "claim_candidate J db proposal session agent_id now_ms =
     first_row (sort_key (\<lambda>r. (- prw_granted_at_ms r, prw_id r))
       (filter (\<lambda>r. prw_effect r = ''allow'' \<and> row_addresses J proposal session agent_id r
                  \<and> row_usable now_ms r) (db_permissions db)))"

definition claim_permission_for_proposal ::
  "serde_json \<Rightarrow> action_proposal \<Rightarrow> permission_session_scope option \<Rightarrow> agent_id option \<Rightarrow> i64
   \<Rightarrow> permission_id option db_op" where
  "claim_permission_for_proposal J proposal session agent_id now_ms db =
     (case claim_candidate J db proposal session agent_id now_ms of
        None \<Rightarrow> (Inr None, db)
      | Some candidate \<Rightarrow>
          (case update_rows (\<lambda>r. prw_id r = prw_id candidate \<and> row_usable now_ms r) bump_use
                  (db_permissions db) of
             (rows, consumed) \<Rightarrow>
               if consumed \<noteq> 1
               then (Inl (InvalidInteraction ''permission changed while it was being claimed''), db)
               else (and_then (map_err (\<lambda>_. InvalidInteraction ''invalid permission id'')
                       (OpaqueId_new (prw_id candidate))) (\<lambda>i. Inr (Some i)),
                     db\<lparr>db_permissions := rows\<rparr>)))"

section \<open>Facts\<close>

interpretation grants: keyed_rows prw_id merge_permission
  by unfold_locales (simp add: merge_permission_def)

lemma row_usable_iff:
  "row_usable now row \<longleftrightarrow> prw_revoked_at_ms row = None
     \<and> is_none_or (\<lambda>e. e \<ge> now) (prw_expires_at_ms row)
     \<and> is_none_or (\<lambda>l. prw_use_count row < l) (prw_use_limit row)"
  by (auto simp: row_usable_def is_some_and_def is_none_or_def split: option.splits)

text \<open>What every stored grant satisfies, whatever sequence of operations stored it.\<close>

definition grant_wf :: "permission_grant \<Rightarrow> bool" where
  "grant_wf g =
     ((pg_lifetime g = Life_Session \<longleftrightarrow> pg_session g \<noteq> None)
      \<and> (pg_lifetime g = Life_Once \<longrightarrow> pg_use_limit g = Some 1)
      \<and> pg_granted_by g \<in> {AO_UserExplicit, AO_System})"

definition grant_ids_valid :: "permission_grant \<Rightarrow> bool" where
  "grant_ids_valid g =
     (OpaqueId_new (pg_id g) = Inr (pg_id g) \<and> scope_ids_valid (pg_scope g)
      \<and> is_none_or (\<lambda>s. OpaqueId_new (permission_session_id s) = Inr (permission_session_id s)) (pg_session g)
      \<and> is_none_or (\<lambda>a. OpaqueId_new a = Inr a) (pg_agent_id g)
      \<and> is_none_or (\<lambda>n. n \<le> u32_max) (pg_use_limit g) \<and> pg_use_count g \<le> u32_max)"

lemma grant_validate_wf: "grant_validate g = Inr () \<Longrightarrow> grant_wf g"
  by (auto simp: grant_validate_def grant_wf_def split: if_splits)

lemma session_key_inject:
  "map_option permission_session_kind s = map_option permission_session_kind t \<and>
   map_option permission_session_id s = map_option permission_session_id t \<longleftrightarrow> s = t"
proof (cases s; cases t)
  fix a b assume "s = Some a" "t = Some b"
  then show ?thesis by (cases a; cases b) auto
qed auto

lemma row_usable_to_row:
  "row_usable now (grant_to_row J g) \<longleftrightarrow> pg_revoked_at_ms g = None
     \<and> is_none_or (\<lambda>e. e \<ge> now) (pg_expires_at_ms g)
     \<and> is_none_or (\<lambda>l. pg_use_count g < l) (pg_use_limit g)"
  by (cases "pg_use_limit g") (auto simp: row_usable_iff grant_to_row_def)

lemma row_addresses_to_row:
  assumes "grant_wf g" and "inj (sj_scope J)"
  shows "row_addresses J p session agent (grant_to_row J g) \<longleftrightarrow>
    pg_scope g = from_proposal p \<and> (pg_lifetime g = Life_Session \<longrightarrow> pg_session g = session)
    \<and> pg_agent_id g = agent"
proof -
  have cap: "pg_scope g = from_proposal p \<Longrightarrow> ps_capability_id (pg_scope g) = ar_capability_id (ap_action p)"
    by (simp add: from_proposal_def)
  have json: "sj_scope J (pg_scope g) = sj_scope J (from_proposal p) \<longleftrightarrow> pg_scope g = from_proposal p"
    by (rule inj_eq [OF assms(2)])
  have life: "encode_permission_lifetime (pg_lifetime g) = ''session'' \<longleftrightarrow> pg_lifetime g = Life_Session"
    by (cases "pg_lifetime g") simp_all
  have agent: "(pg_agent_id g = None \<and> agent = None \<or> pg_agent_id g \<noteq> None \<and> pg_agent_id g = agent)
      \<longleftrightarrow> pg_agent_id g = agent"
    by auto
  have session: "(pg_lifetime g \<noteq> Life_Session \<and> pg_session g = None
        \<or> pg_lifetime g = Life_Session \<and> pg_session g = session)
      \<longleftrightarrow> (pg_lifetime g = Life_Session \<longrightarrow> pg_session g = session)"
    using assms(1) by (auto simp: grant_wf_def)
  show ?thesis
    unfolding row_addresses_def grant_to_row_def permission_row.select_convs json life agent
      session_key_inject option.map_disc_iff
    using cap session by blast
qed

lemma row_active_iff:
  assumes "grant_wf g" and "inj (sj_scope J)"
  shows "row_addresses J p session agent (grant_to_row J g) \<and> row_usable now (grant_to_row J g)
    \<longleftrightarrow> pg_scope g = from_proposal p \<and> grant_is_active g now session agent"
  using assms
  by (cases "pg_lifetime g"; cases agent)
    (auto simp: row_addresses_to_row row_usable_to_row grant_is_active_def)

lemma parse_session_roundtrip:
  "is_none_or (\<lambda>s. OpaqueId_new (permission_session_id s) = Inr (permission_session_id s)) s \<Longrightarrow>
   parse_permission_session (map_option permission_session_kind s) (map_option permission_session_id s) = Inr s"
proof (cases s)
  case (Some x)
  assume "is_none_or (\<lambda>s. OpaqueId_new (permission_session_id s) = Inr (permission_session_id s)) s"
  with Some show ?thesis by (cases x) (auto simp: parse_permission_session_def)
qed (simp add: parse_permission_session_def)

lemma grant_row_decodes:
  assumes "serde_faithful J" and "grant_ids_valid g"
  shows "permission_from_row J (grant_to_row J g) = Inr g"
proof -
  have "is_none_or (\<lambda>n. n \<le> u32_max) (pg_use_limit g)" "pg_use_count g \<le> u32_max"
    "is_none_or (\<lambda>a. OpaqueId_new a = Inr a) (pg_agent_id g)"
    using assms(2) by (simp_all add: grant_ids_valid_def)
  then show ?thesis
    using assms parse_session_roundtrip [of "pg_session g"]
    by (cases "pg_use_limit g"; cases "pg_agent_id g")
      (auto simp: permission_from_row_def grant_to_row_def grant_ids_valid_def serde_faithful_def
        permission_effect_codec.parse_encode permission_lifetime_codec.parse_encode
        action_origin_codec.parse_encode)
qed

section \<open>The stored grants\<close>

definition stores :: "serde_json \<Rightarrow> database \<Rightarrow> permission_grant list \<Rightarrow> bool" where
  "stores J db gs =
     (db_permissions db = map (grant_to_row J) gs \<and> list_all grant_wf gs \<and> distinct (map pg_id gs))"

definition addressed ::
  "action_proposal \<Rightarrow> permission_session_scope option \<Rightarrow> agent_id option \<Rightarrow> i64 \<Rightarrow> permission_grant \<Rightarrow> bool" where
  "addressed p session agent now g =
     (pg_scope g = from_proposal p \<and> grant_is_active g now session agent)"

lemma prw_id_to_row [simp]: "prw_id (grant_to_row J g) = pg_id g"
  by (simp add: grant_to_row_def)

lemma storesD:
  assumes "stores J db gs"
  shows "g \<in> set gs \<Longrightarrow> grant_wf g" and "distinct (map pg_id gs)"
    and "db_permissions db = map (grant_to_row J) gs"
  using assms by (auto simp: stores_def list_all_iff)

lemma stores_keyed: "stores J db gs \<Longrightarrow> grants.keyed (db_permissions db)"
  by (simp add: grants.keyed_def stores_def comp_def grant_to_row_def)

lemma stored_row:
  assumes "stores J db gs" and "inj (sj_scope J)"
    and "row \<in> set (filter (\<lambda>r. row_addresses J p session agent r \<and> row_usable now r) (db_permissions db))"
  obtains g where "g \<in> set gs" "row = grant_to_row J g" "addressed p session agent now g"
proof -
  from assms(1,3) obtain g where g: "g \<in> set gs" "row = grant_to_row J g"
    "row_addresses J p session agent row \<and> row_usable now row"
    by (auto simp: stores_def)
  then have "addressed p session agent now g"
    using row_active_iff [OF storesD(1) [OF assms(1) g(1)] assms(2)] by (simp add: addressed_def)
  with g that show thesis by blast
qed

lemma addressed_row:
  assumes "stores J db gs" and "inj (sj_scope J)" and "g \<in> set gs" and "addressed p session agent now g"
  shows "grant_to_row J g
    \<in> set (filter (\<lambda>r. row_addresses J p session agent r \<and> row_usable now r) (db_permissions db))"
  using row_active_iff [OF storesD(1) [OF assms(1,3)] assms(2), of p session agent now] assms
  by (auto simp: stores_def addressed_def)

lemma row_effect_iff:
  "prw_effect (grant_to_row J g) = ''deny'' \<longleftrightarrow> pg_effect g = Effect_Deny"
  "prw_effect (grant_to_row J g) = ''allow'' \<longleftrightarrow> pg_effect g = Effect_Allow"
  by (cases "pg_effect g"; simp add: grant_to_row_def)+

text \<open>The lookup finds an addressed grant if there is one, and a deny if there is one.\<close>

lemma lookup_decisive:
  assumes "serde_faithful J" and "stores J db gs" and "list_all grant_ids_valid gs"
  obtains (absent) "active_permission_grant_for_proposal J db p session agent now = Inr None"
      "\<And>g. g \<in> set gs \<Longrightarrow> \<not> addressed p session agent now g"
  | (found) g where "active_permission_grant_for_proposal J db p session agent now = Inr (Some g)"
      "g \<in> set gs" "addressed p session agent now g"
      "\<And>g'. g' \<in> set gs \<Longrightarrow> addressed p session agent now g' \<Longrightarrow> pg_effect g' = Effect_Deny \<Longrightarrow>
        pg_effect g = Effect_Deny"
proof -
  have inj: "inj (sj_scope J)" using assms(1) by (simp add: serde_faithful_def)
  let ?key = "\<lambda>r. (if prw_effect r = ''deny'' then 0 else 1 :: nat, - prw_granted_at_ms r, prw_id r)"
  let ?rows = "filter (\<lambda>r. row_addresses J p session agent r \<and> row_usable now r) (db_permissions db)"
  note def = active_permission_grant_for_proposal_def [of J db p session agent now]
  show thesis
  proof (cases "first_row (sort_key ?key ?rows)")
    case None
    then have "set (sort_key ?key ?rows) = {}" by simp
    then have "set ?rows = {}" by (simp only: set_sort)
    then have "\<not> addressed p session agent now g" if "g \<in> set gs" for g
      using addressed_row [OF assms(2) inj that, of p session agent now] by (metis empty_iff)
    with absent None show thesis by (simp add: def)
  next
    case (Some row)
    then have "row \<in> set (sort_key ?key ?rows)" by (rule first_row_in_set)
    then have "row \<in> set ?rows" by (simp only: set_sort)
    then obtain g where g: "g \<in> set gs" "row = grant_to_row J g" "addressed p session agent now g"
      by (rule stored_row [OF assms(2) inj])
    have "pg_effect g = Effect_Deny"
      if g': "g' \<in> set gs" "addressed p session agent now g'" "pg_effect g' = Effect_Deny" for g'
    proof -
      have "?key row \<le> ?key (grant_to_row J g')"
        using first_row_sorted_least [OF Some addressed_row [OF assms(2) inj g'(1,2)]] .
      then have "prw_effect row = ''deny''"
        using g'(3) by (auto simp: row_effect_iff less_eq_prod_def split: if_splits)
      then show ?thesis by (simp add: g(2) row_effect_iff)
    qed
    moreover have "permission_from_row J row = Inr g"
      using grant_row_decodes [OF assms(1)] assms(3) g(1,2) by (simp add: list_all_iff)
    ultimately show thesis using found g(1,3) Some by (simp add: def)
  qed
qed

lemma exact_grant_addressed:
  "exact_grant (ctx\<lparr>pc_permission_grants := gs\<rparr>) p effect \<longleftrightarrow>
     (\<exists>g \<in> set gs. pg_effect g = effect
        \<and> addressed p (pc_session ctx) (pc_agent_id ctx) (pc_now_ms ctx) g)"
  by (auto simp: exact_grant_def addressed_def)

lemma spec_outcome_grants_cong:
  assumes "exact_grant (ctx\<lparr>pc_permission_grants := gs\<rparr>) p Effect_Deny
      = exact_grant (ctx\<lparr>pc_permission_grants := hs\<rparr>) p Effect_Deny"
    and "\<not> exact_grant (ctx\<lparr>pc_permission_grants := gs\<rparr>) p Effect_Deny \<Longrightarrow>
      exact_grant (ctx\<lparr>pc_permission_grants := gs\<rparr>) p Effect_Allow
      = exact_grant (ctx\<lparr>pc_permission_grants := hs\<rparr>) p Effect_Allow"
  shows "spec_outcome e c p (ctx\<lparr>pc_permission_grants := gs\<rparr>)
    = spec_outcome e c p (ctx\<lparr>pc_permission_grants := hs\<rparr>)"
  using assms by (auto simp: spec_outcome_def denied_def)

section \<open>Claims\<close>

lemma bump_use_simps [simp]:
  "prw_id (bump_use r) = prw_id r" "prw_use_count (bump_use r) = prw_use_count r + 1"
  "prw_use_limit (bump_use r) = prw_use_limit r" "prw_effect (bump_use r) = prw_effect r"
  "prw_revoked_at_ms (bump_use r) = prw_revoked_at_ms r"
  by (simp_all add: bump_use_def)

lemma claim_cases:
  assumes "grants.keyed (db_permissions db)"
    and "claim_permission_for_proposal J p session agent now db = (r, db')"
  obtains (absent) "r = Inr None" "db' = db"
      "claim_candidate J db p session agent now = None"
  | (claimed) row where "claim_candidate J db p session agent now = Some row"
      "row \<in> set (db_permissions db)" "prw_effect row = ''allow''"
      "row_addresses J p session agent row" "row_usable now row"
      "r = Inr (Some (prw_id row)) \<or> is_err r"
      "db' = db\<lparr>db_permissions :=
         map (\<lambda>s. if prw_id s = prw_id row then bump_use s else s) (db_permissions db)\<rparr>"
      "OpaqueId_new (prw_id row) = Inr (prw_id row) \<Longrightarrow> r = Inr (Some (prw_id row))"
proof (cases "claim_candidate J db p session agent now")
  case None
  with assms(2) have "r = Inr None" "db' = db" by (simp_all add: claim_permission_for_proposal_def)
  with None absent show thesis by blast
next
  case (Some row)
  then have row: "row \<in> set (db_permissions db)" "prw_effect row = ''allow''"
    "row_addresses J p session agent row" "row_usable now row"
    unfolding claim_candidate_def by (auto dest: first_row_in_set)
  have same: "s = row" if "s \<in> set (db_permissions db)" "prw_id s = prw_id row" for s
    using that row(1) assms(1) by (auto simp: grants.keyed_def distinct_map dest: inj_onD)
  have rows: "map (\<lambda>s. if prw_id s = prw_id row \<and> row_usable now s then bump_use s else s) (db_permissions db)
      = map (\<lambda>s. if prw_id s = prw_id row then bump_use s else s) (db_permissions db)"
    using same row(4) by auto
  have "filter (\<lambda>s. prw_id s = prw_id row \<and> row_usable now s) (db_permissions db)
      = filter (\<lambda>s. s = row) (db_permissions db)"
    using same row(4) by (intro filter_cong) auto
  moreover have "distinct (db_permissions db)" using assms(1) by (simp add: grants.keyed_def distinct_map)
  ultimately have "length (filter (\<lambda>s. prw_id s = prw_id row \<and> row_usable now s) (db_permissions db)) = 1"
    using row(1) by (simp add: distinct_length_filter Int_absorb2 Collect_conv_if)
  then have "r = and_then (map_err (\<lambda>_. InvalidInteraction ''invalid permission id'')
        (OpaqueId_new (prw_id row))) (\<lambda>i. Inr (Some i))"
    "db' = db\<lparr>db_permissions := map (\<lambda>s. if prw_id s = prw_id row then bump_use s else s) (db_permissions db)\<rparr>"
    using assms(2) Some rows by (auto simp: claim_permission_for_proposal_def update_rows_def)
  moreover have "OpaqueId_new (prw_id row) = Inr (prw_id row) \<or> is_err (OpaqueId_new (prw_id row))"
    by (simp add: OpaqueId_new_def is_err_def and_then_def split: sum.splits)
  then have "and_then (map_err (\<lambda>_. InvalidInteraction ''invalid permission id'') (OpaqueId_new (prw_id row)))
        (\<lambda>i. Inr (Some i)) = Inr (Some (prw_id row))
      \<or> is_err (and_then (map_err (\<lambda>_. InvalidInteraction ''invalid permission id'')
          (OpaqueId_new (prw_id row))) (\<lambda>i. Inr (Some i)))"
    by (cases "OpaqueId_new (prw_id row)") auto
  ultimately show thesis using claimed [OF Some row] by simp
qed

text \<open>A request is the proposal, the session, the agent and the time of a claim.\<close>

type_synonym claim_request = "action_proposal \<times> permission_session_scope option \<times> agent_id option \<times> i64"

fun run_claims ::
  "serde_json \<Rightarrow> claim_request list \<Rightarrow> database \<Rightarrow> (storage_error, permission_id option) result list \<times> database" where
  "run_claims J [] db = ([], db)"
| "run_claims J ((p, session, agent, now) # rest) db =
     (case claim_permission_for_proposal J p session agent now db of
        (r, db') \<Rightarrow> (case run_claims J rest db' of (rs, db'') \<Rightarrow> (r # rs, db'')))"

text \<open>The uses a grant has left, if they are limited.\<close>

definition uses_left :: "database \<Rightarrow> permission_id \<Rightarrow> nat option" where
  "uses_left db i =
     (case row_of prw_id (db_permissions db) i of
        None \<Rightarrow> Some 0
      | Some row \<Rightarrow> map_option (\<lambda>limit. nat (limit - prw_use_count row)) (prw_use_limit row))"

lemma keyed_claim:
  assumes "grants.keyed (db_permissions db)"
    and "claim_permission_for_proposal J p session agent now db = (r, db')"
  shows "grants.keyed (db_permissions db')"
proof (cases rule: claim_cases [OF assms])
  case (2 row)
  have "map prw_id (map (\<lambda>s. if prw_id s = prw_id row then bump_use s else s) (db_permissions db))
      = map prw_id (db_permissions db)"
    by simp
  with 2(7) assms(1) show ?thesis by (simp add: grants.keyed_def del: map_map)
qed (use assms(1) in simp)

lemma claim_uses_left:
  assumes "grants.keyed (db_permissions db)"
    and "claim_permission_for_proposal J p session agent now db = (r, db')"
  shows "is_none_or (\<lambda>n. (if r = Inr (Some i) then 1 else 0) + the (uses_left db' i) \<le> n) (uses_left db i)
    \<and> (uses_left db i = None \<longleftrightarrow> uses_left db' i = None)"
proof (cases rule: claim_cases [OF assms])
  case 1
  then show ?thesis by (cases "uses_left db i") auto
next
  case (2 row)
  have row_i: "row_of prw_id (db_permissions db) (prw_id row) = Some row"
    by (rule grants.keyed_row_of [OF assms(1) 2(2)])
  have upd: "row_of prw_id (db_permissions db') i
      = map_option (\<lambda>s. if prw_id s = prw_id row then bump_use s else s) (row_of prw_id (db_permissions db) i)"
    using 2(7) by (simp add: grants.row_of_map)
  show ?thesis
  proof (cases "i = prw_id row")
    case True
    then show ?thesis
      using upd row_i 2(5) by (cases "prw_use_limit row") (auto simp: uses_left_def row_usable_iff)
  next
    case False
    then have "row_of prw_id (db_permissions db') i = row_of prw_id (db_permissions db) i"
      using upd grants.row_of_Some by (cases "row_of prw_id (db_permissions db) i") fastforce+
    then have "uses_left db' i = uses_left db i" by (simp add: uses_left_def)
    moreover have "r \<noteq> Inr (Some i)" using 2(6) False by (auto simp: is_err_def split: sum.splits)
    ultimately show ?thesis by (cases "uses_left db i") auto
  qed
qed

lemma claims_bounded:
  assumes "grants.keyed (db_permissions db)" and "run_claims J requests db = (results, db')"
    and "uses_left db i = Some n"
  shows "count_list results (Inr (Some i)) \<le> n"
  using assms
proof (induction requests arbitrary: db results n)
  case (Cons req requests)
  obtain p session agent now where req: "req = (p, session, agent, now)" by (cases req)
  obtain r db1 where first: "claim_permission_for_proposal J p session agent now db = (r, db1)" by fastforce
  obtain rs where rs: "run_claims J requests db1 = (rs, db')" "results = r # rs"
    using Cons.prems(2) by (auto simp: req first split: prod.splits)
  have left: "is_none_or (\<lambda>n. (if r = Inr (Some i) then 1 else 0) + the (uses_left db1 i) \<le> n) (uses_left db i)"
    "uses_left db i = None \<longleftrightarrow> uses_left db1 i = None"
    using claim_uses_left [OF Cons.prems(1) first, of i] by simp_all
  then obtain n1 where n1: "uses_left db1 i = Some n1" using Cons.prems(3) by auto
  have "count_list rs (Inr (Some i)) \<le> n1"
    by (rule Cons.IH [OF keyed_claim [OF Cons.prems(1) first] rs(1) n1])
  with left(1) n1 Cons.prems(3) show ?case by (simp add: rs(2) split: if_splits)
qed simp

section \<open>Changes keep the stored grants well formed\<close>

definition merge_grant :: "permission_grant \<Rightarrow> permission_grant \<Rightarrow> permission_grant" where
  "merge_grant old new = new\<lparr>pg_granted_at_ms := pg_granted_at_ms old\<rparr>"

definition revoke_grant :: "permission_id \<Rightarrow> i64 \<Rightarrow> permission_grant \<Rightarrow> permission_grant" where
  "revoke_grant i now g =
     (if pg_id g = i \<and> pg_revoked_at_ms g = None then g\<lparr>pg_revoked_at_ms := Some now\<rparr> else g)"

lemma upsert_row_map:
  assumes "\<And>x. key (f x) = key' x" and "\<And>x y. merge (f x) (f y) = f (merge' x y)"
  shows "upsert_row key merge (f new) (map f xs) = map f (upsert_row key' merge' new xs)"
  using assms by (auto simp: upsert_row_def list_ex_iff)

lemma row_of_map_rows:
  "row_of prw_id (map (grant_to_row J) gs) k = map_option (grant_to_row J) (row_of pg_id gs k)"
  unfolding row_of_def by (induction gs) simp_all

lemma stores_upsert:
  assumes "stores J db gs" and "upsert_permission_grant J g db = (Inr (), db')"
  shows "stores J db' (upsert_row pg_id merge_grant g gs)" and "grant_wf g"
proof -
  from assms(2) have ok: "grant_validate g = Inr ()"
    "db_permissions db' = upsert_row prw_id merge_permission (grant_to_row J g) (db_permissions db)"
    by (auto simp: upsert_permission_grant_def Let_def not_is_err_unit split: if_splits)
  show wf: "grant_wf g" by (rule grant_validate_wf [OF ok(1)])
  have "upsert_row prw_id merge_permission (grant_to_row J g) (map (grant_to_row J) gs)
      = map (grant_to_row J) (upsert_row pg_id merge_grant g gs)"
    by (rule upsert_row_map) (simp_all add: grant_to_row_def merge_permission_def merge_grant_def)
  moreover have "distinct (map prw_id (upsert_row prw_id merge_permission (grant_to_row J g) (db_permissions db)))"
    using grants.keyed_upsert [OF stores_keyed [OF assms(1)]] by (simp add: grants.keyed_def)
  moreover have "list_all grant_wf (upsert_row pg_id merge_grant g gs)"
    using assms(1) wf
    by (auto simp: stores_def upsert_row_def list_all_iff merge_grant_def grant_wf_def)
  ultimately show "stores J db' (upsert_row pg_id merge_grant g gs)"
    using assms(1) ok(2) by (simp add: stores_def comp_def)
qed

lemma stores_map:
  assumes "stores J db gs" and "db_permissions db' = map f (db_permissions db)"
    and "\<And>g. f (grant_to_row J g) = grant_to_row J (h g)" and "\<And>g. pg_id (h g) = pg_id g"
    and "\<And>g. grant_wf g \<Longrightarrow> grant_wf (h g)"
  shows "stores J db' (map h gs)"
  using assms by (simp add: stores_def list_all_iff comp_def)

lemma stores_revoke:
  assumes "stores J db gs" and "revoke_permission i now db = (r, db')"
  shows "stores J db' (map (revoke_grant i now) gs)"
proof (rule stores_map [OF assms(1)])
  show "db_permissions db' = map (\<lambda>r. if prw_id r = i \<and> prw_revoked_at_ms r = None
      then r\<lparr>prw_revoked_at_ms := Some now\<rparr> else r) (db_permissions db)"
    using assms(2) by (auto simp: revoke_permission_def update_rows_def)
qed (auto simp: grant_to_row_def revoke_grant_def grant_wf_def)

lemma lookup_same_outcome:
  assumes "serde_faithful J" and "stores J db gs" and "list_all grant_ids_valid gs"
    and "active_permission_grant_for_proposal J db p (pc_session ctx) (pc_agent_id ctx) (pc_now_ms ctx)
      = Inr found"
  shows "spec_outcome e c p (ctx\<lparr>pc_permission_grants := (case found of None \<Rightarrow> [] | Some g \<Rightarrow> [g])\<rparr>)
    = spec_outcome e c p (ctx\<lparr>pc_permission_grants := gs\<rparr>)"
proof (cases rule: lookup_decisive [OF assms(1-3), of p "pc_session ctx" "pc_agent_id ctx" "pc_now_ms ctx"])
  case 1
  with assms(4) have "found = None" by simp
  with 1(2) show ?thesis by (intro spec_outcome_grants_cong) (auto simp: exact_grant_addressed)
next
  case (2 g)
  with assms(4) have "found = Some g" by simp
  then have one: "exact_grant (ctx\<lparr>pc_permission_grants := (case found of None \<Rightarrow> [] | Some g \<Rightarrow> [g])\<rparr>) p effect \<longleftrightarrow> pg_effect g = effect" for effect
    using 2(3) by (simp add: exact_grant_addressed)
  have deny: "exact_grant (ctx\<lparr>pc_permission_grants := gs\<rparr>) p Effect_Deny \<longleftrightarrow> pg_effect g = Effect_Deny"
    unfolding exact_grant_addressed using 2(2-4) by blast
  have allow: "pg_effect g \<noteq> Effect_Deny \<Longrightarrow> exact_grant (ctx\<lparr>pc_permission_grants := gs\<rparr>) p Effect_Allow"
    unfolding exact_grant_addressed using 2(2,3) permission_effect.exhaust by blast
  show ?thesis
    by (rule spec_outcome_grants_cong; cases "pg_effect g") (simp_all add: one deny allow)
qed

lemma claim_effect:
  assumes "serde_faithful J" and "stores J db gs"
    and "claim_permission_for_proposal J p session agent now db = (Inr (Some i), db')"
  shows "(\<exists>g \<in> set gs. pg_id g = i \<and> pg_effect g = Effect_Allow \<and> pg_scope g = from_proposal p
      \<and> grant_is_active g now session agent)
    \<and> stores J db' (map (\<lambda>g. if pg_id g = i then g\<lparr>pg_use_count := pg_use_count g + 1\<rparr> else g) gs)"
proof (cases rule: claim_cases [OF stores_keyed [OF assms(2)] assms(3)])
  case (2 row)
  have inj: "inj (sj_scope J)" using assms(1) by (simp add: serde_faithful_def)
  have i: "prw_id row = i" using 2(6) by (simp add: is_err_def)
  have "row \<in> set (filter (\<lambda>r. row_addresses J p session agent r \<and> row_usable now r) (db_permissions db))"
    using 2 by simp
  then obtain g where g: "g \<in> set gs" "row = grant_to_row J g" "addressed p session agent now g"
    by (rule stored_row [OF assms(2) inj])
  moreover have "stores J db' (map (\<lambda>g. if pg_id g = i then g\<lparr>pg_use_count := pg_use_count g + 1\<rparr> else g) gs)"
  proof (rule stores_map [OF assms(2)])
    show "db_permissions db' = map (\<lambda>s. if prw_id s = i then bump_use s else s) (db_permissions db)"
      using 2(7) i by simp
  qed (auto simp: grant_to_row_def bump_use_def grant_wf_def)
  ultimately show ?thesis using 2(3) i by (auto simp: row_effect_iff addressed_def)
qed simp

lemma claim_succeeds:
  assumes "serde_faithful J" and "stores J db gs" and "list_all grant_ids_valid gs"
    and "g \<in> set gs" and "addressed p session agent now g" and "pg_effect g = Effect_Allow"
  shows "\<exists>i db'. claim_permission_for_proposal J p session agent now db = (Inr (Some i), db')"
proof -
  have inj: "inj (sj_scope J)" using assms(1) by (simp add: serde_faithful_def)
  obtain r db' where run: "claim_permission_for_proposal J p session agent now db = (r, db')" by fastforce
  show ?thesis
  proof (cases rule: claim_cases [OF stores_keyed [OF assms(2)] run])
    case 1
    have "grant_to_row J g \<in> set (sort_key (\<lambda>r. (- prw_granted_at_ms r, prw_id r))
        (filter (\<lambda>r. prw_effect r = ''allow'' \<and> row_addresses J p session agent r
        \<and> row_usable now r) (db_permissions db)))"
      unfolding set_sort using addressed_row [OF assms(2) inj assms(4,5)] assms(6) by (simp add: row_effect_iff)
    then have False using 1(3) by (simp add: claim_candidate_def del: set_sort)
    then show ?thesis ..
  next
    case (2 row)
    then obtain h where "h \<in> set gs" "row = grant_to_row J h" using assms(2) by (auto simp: stores_def)
    then have "OpaqueId_new (prw_id row) = Inr (prw_id row)"
      using assms(3) by (simp add: list_all_iff grant_ids_valid_def)
    with 2(8) run show ?thesis by auto
  qed
qed

section \<open>Properties\<close>

text \<open>
  The one grant the daemon fetches decides like the whole table: for stored grants, the policy
  engine reaches the same outcome with the single row of the lookup as with every stored grant, for
  the session, agent and time the lookup was made with.
\<close>
lemma stored_lookup_refines_engine:
  assumes "serde_faithful J" and "stores J db gs" and "list_all grant_ids_valid gs"
    and "active_permission_grant_for_proposal J db p (pc_session ctx) (pc_agent_id ctx) (pc_now_ms ctx)
      = Inr found"
  shows "map_option pd_outcome (decide e c p
      (ctx\<lparr>pc_permission_grants := (case found of None \<Rightarrow> [] | Some g \<Rightarrow> [g])\<rparr>))
    = map_option pd_outcome (decide e c p (ctx\<lparr>pc_permission_grants := gs\<rparr>))"
  using lookup_same_outcome [OF assms] by (simp add: decide_outcome)

lemma example_agent_grant_ids: "grant_ids_valid example_agent_grant"
proof -
  have "OpaqueId_new ''permission:1'' = Inr ''permission:1''" "OpaqueId_new ''agent:1'' = Inr ''agent:1''"
    "OpaqueId_new ''agent-session:1'' = Inr ''agent-session:1''"
    "CapabilityId_new ''test.operation'' = Inr ''test.operation''"
    by code_simp+
  then show ?thesis
    by (simp add: grant_ids_valid_def example_agent_grant_def scope_ids_valid_def from_proposal_def
        example_proposal_def)
qed

definition example_db :: database where
  "example_db = empty_database\<lparr>db_permissions := [grant_to_row plain_json example_agent_grant]\<rparr>"

lemma example_db_stores: "stores plain_json example_db [example_agent_grant]"
  by (simp add: stores_def grant_wf_def example_agent_grant_def example_db_def)

lemma example_db_tables [simp]:
  "db_agent_sessions example_db = []" "db_daemon_sessions example_db = []" "db_usage example_db = []"
  "db_applications example_db = []" "db_permissions example_db = [grant_to_row plain_json example_agent_grant]"
  by (simp_all add: example_db_def empty_database_def)

lemma example_addressed:
  "addressed (example_proposal (agent_context example_identity)) (Some (Session_Agent ''agent-session:1''))
     (Some ''agent:1'') 0 example_agent_grant"
  by (simp add: addressed_def example_agent_grant_def grant_is_active_def)

text \<open>
  C10. A grant with a use limit is never claimed more often than the limit leaves: in any sequence of
  claims, from any database whose grants have distinct identifiers, the claims that report a limited
  grant are at most its remaining uses, so a once-only grant authorizes at most one execution.
\<close>
theorem limited_grant_claims_bounded:
  assumes "stores J db gs" and "g \<in> set gs" and "pg_use_limit g = Some limit"
    and "run_claims J requests db = (results, db')"
  shows "count_list results (Inr (Some (pg_id g))) \<le> limit - pg_use_count g"
proof -
  have keyed: "grants.keyed (db_permissions db)" by (rule stores_keyed [OF assms(1)])
  have "grant_to_row J g \<in> set (db_permissions db)" using assms(1,2) by (simp add: stores_def)
  from grants.keyed_row_of [OF keyed this]
  have "uses_left db (pg_id g) = Some (limit - pg_use_count g)"
    using assms(3) by (simp add: uses_left_def) (simp add: grant_to_row_def)
  then show ?thesis by (rule claims_bounded [OF keyed assms(4)])
qed

definition example_once_grant :: permission_grant where
  "example_once_grant = example_agent_grant\<lparr>pg_lifetime := Life_Once, pg_session := None, pg_use_limit := Some 1\<rparr>"

theorem limited_grant_claims_bounded_witness:
  "count_list (fst (run_claims plain_json
      (replicate 3 (example_proposal (agent_context example_identity), None, Some ''agent:1'', 0))
      (example_db\<lparr>db_permissions := [grant_to_row plain_json example_once_grant]\<rparr>)))
    (Inr (Some (pg_id example_once_grant))) \<le> 1"
proof -
  let ?db = "example_db\<lparr>db_permissions := [grant_to_row plain_json example_once_grant]\<rparr>"
  let ?reqs = "replicate 3 (example_proposal (agent_context example_identity), None, Some ''agent:1'', 0)"
  have "stores plain_json ?db [example_once_grant]"
    by (simp add: stores_def grant_wf_def example_once_grant_def example_agent_grant_def)
  from limited_grant_claims_bounded [OF this, of example_once_grant 1 ?reqs "fst (run_claims plain_json ?reqs ?db)"
      "snd (run_claims plain_json ?reqs ?db)"]
  show ?thesis by (simp add: example_once_grant_def example_agent_grant_def)
qed

text \<open>
  Revocation is final for every reader: after a grant is revoked it stays stored as revoked, and
  no lookup and no claim, for any proposal, session, agent or time, returns it.
\<close>
lemma revoked_grant_never_applies:
  assumes "serde_faithful J" and "stores J db gs" and "list_all grant_ids_valid gs"
    and "revoke_permission i now db = (r, db')"
  shows "stores J db' (map (revoke_grant i now) gs)
    \<and> map_option pg_id (case active_permission_grant_for_proposal J db' p session agent now' of
        Inr found \<Rightarrow> found | Inl _ \<Rightarrow> None) \<noteq> Some i
    \<and> fst (claim_permission_for_proposal J p session agent now' db') \<noteq> Inr (Some i)"
proof -
  have st: "stores J db' (map (revoke_grant i now) gs)" by (rule stores_revoke [OF assms(2,4)])
  have ids: "list_all grant_ids_valid (map (revoke_grant i now) gs)"
    using assms(3) by (auto simp: list_all_iff revoke_grant_def grant_ids_valid_def)
  have dead: "\<not> grant_is_active g now' session agent"
    if "g \<in> set (map (revoke_grant i now) gs)" "pg_id g = i" for g
  proof -
    from that(1) obtain h where "g = revoke_grant i now h" by auto
    then have "pg_revoked_at_ms g \<noteq> None"
      using that(2) by (cases "pg_revoked_at_ms h"; cases "pg_id h = i") (simp_all add: revoke_grant_def)
    then show ?thesis by (simp add: grant_is_active_def)
  qed
  have "map_option pg_id (case active_permission_grant_for_proposal J db' p session agent now' of
        Inr found \<Rightarrow> found | Inl _ \<Rightarrow> None) \<noteq> Some i"
    using dead by (cases rule: lookup_decisive [OF assms(1) st ids, of p session agent now'])
      (auto simp: addressed_def)
  moreover have "fst (claim_permission_for_proposal J p session agent now' db') \<noteq> Inr (Some i)"
  proof
    assume "fst (claim_permission_for_proposal J p session agent now' db') = Inr (Some i)"
    then obtain db'' where "claim_permission_for_proposal J p session agent now' db' = (Inr (Some i), db'')"
      by (metis prod.collapse)
    then obtain row where row: "row \<in> set (filter (\<lambda>r. row_addresses J p session agent r \<and> row_usable now' r)
        (db_permissions db'))" "prw_id row = i"
      using stores_keyed [OF st] by (auto elim!: claim_cases simp: is_err_def)
    have "inj (sj_scope J)" using assms(1) by (simp add: serde_faithful_def)
    from stored_row [OF st this row(1)] row(2) show False using dead by (metis addressed_def prw_id_to_row)
  qed
  ultimately show ?thesis using st by blast
qed

text \<open>
  What is stored reads back: a grant the upsert accepts is decoded from its row unchanged, except
  that an existing grant with the same identifier keeps its original time; the identifiers stay
  distinct and every other grant stays as it was.
\<close>
lemma upserted_grant_reads_back:
  assumes "serde_faithful J" and "stores J db gs" and "grant_ids_valid g"
    and "upsert_permission_grant J g db = (Inr (), db')"
  shows "stores J db' (upsert_row pg_id merge_grant g gs)
    \<and> map_option (permission_from_row J) (row_of prw_id (db_permissions db') (pg_id g))
      = Some (Inr (case row_of pg_id gs (pg_id g) of None \<Rightarrow> g
          | Some old \<Rightarrow> g\<lparr>pg_granted_at_ms := pg_granted_at_ms old\<rparr>))
    \<and> (if i = pg_id g then True
       else row_of prw_id (db_permissions db') i = row_of prw_id (db_permissions db) i)"
proof -
  have st: "stores J db' (upsert_row pg_id merge_grant g gs)" by (rule stores_upsert(1) [OF assms(2,4)])
  have rows: "db_permissions db' = upsert_row prw_id merge_permission (grant_to_row J g) (db_permissions db)"
    using assms(4) by (auto simp: upsert_permission_grant_def Let_def split: if_splits)
  have old: "row_of prw_id (db_permissions db) k = map_option (grant_to_row J) (row_of pg_id gs k)" for k
    using storesD(3) [OF assms(2)] by (simp add: row_of_map_rows)
  have "permission_from_row J (grant_to_row J (g\<lparr>pg_granted_at_ms := t\<rparr>)) = Inr (g\<lparr>pg_granted_at_ms := t\<rparr>)"
    "permission_from_row J (grant_to_row J g) = Inr g" for t
    using grant_row_decodes [OF assms(1)] assms(3) by (simp_all add: grant_ids_valid_def)
  moreover have "merge_permission (grant_to_row J h) (grant_to_row J g)
      = grant_to_row J (g\<lparr>pg_granted_at_ms := pg_granted_at_ms h\<rparr>)" for h
    by (simp add: grant_to_row_def merge_permission_def)
  ultimately have "map_option (permission_from_row J) (row_of prw_id (db_permissions db') (pg_id g))
      = Some (Inr (case row_of pg_id gs (pg_id g) of None \<Rightarrow> g
          | Some old \<Rightarrow> g\<lparr>pg_granted_at_ms := pg_granted_at_ms old\<rparr>))"
    using grants.row_of_upsert_same [of "grant_to_row J g" "db_permissions db"] old [of "pg_id g"]
    by (simp add: rows split: option.splits)
  moreover have "i \<noteq> pg_id g \<Longrightarrow> row_of prw_id (db_permissions db') i = row_of prw_id (db_permissions db) i"
    using grants.row_of_upsert_other [of i "grant_to_row J g"] by (simp add: rows)
  ultimately show ?thesis using st by simp
qed

end
