(* ===== verification/Halquen_Memory.thy ===== *)
theory Halquen_Memory
  imports Halquen_Security
begin

text \<open>
  The memory crate: bounded working memory (\<open>lib.rs\<close>), the evidence-backed ledger of immutable
  revisions (\<open>semantic.rs\<close>), promotion of procedures (\<open>procedural.rs\<close>) and resolution of intents
  from recent behaviour (\<open>behaviour.rs\<close>). Generated identifiers are arguments of the operations
  that generate them; the floating-point primitives of the scorer are arguments of it.
\<close>

section \<open>Working memory\<close>

datatype working_value = EntityReference entity_id | TextLabel string

record working_memory =
  wm_capacity :: nat
  wm_values :: "(string \<times> working_value) list"

definition WorkingMemory_new :: "nat \<Rightarrow> working_memory" where
  "WorkingMemory_new capacity = \<lparr>wm_capacity = max capacity 1, wm_values = []\<rparr>"

text \<open>\<open>VecDeque::remove\<close> at the first position of the key.\<close>

fun remove_first :: "string \<Rightarrow> (string \<times> 'v) list \<Rightarrow> (string \<times> 'v) list" where
  "remove_first key [] = []"
| "remove_first key ((stored, v) # values) =
     (if stored = key then values else (stored, v) # remove_first key values)"

definition working_set :: "string \<Rightarrow> working_value \<Rightarrow> working_memory \<Rightarrow> working_memory" where
  "working_set key value m =
     (let values = remove_first key (wm_values m);
          values = (if length values = wm_capacity m then drop 1 values else values)
      in m\<lparr>wm_values := values @ [(key, value)]\<rparr>)"

definition working_get :: "working_memory \<Rightarrow> string \<Rightarrow> working_value option" where
  "working_get m key = map_option snd (find (\<lambda>(stored, _). stored = key) (wm_values m))"

definition working_len :: "working_memory \<Rightarrow> nat" where
  "working_len m = length (wm_values m)"

section \<open>The memory ledger\<close>

datatype memory_kind = Semantic | Procedural

datatype memory_value =
  Fact entity_id string string
| Relation entity_id string entity_id
| Preference string string
| Procedure string "string list"

fun value_kind :: "memory_value \<Rightarrow> memory_kind" where
  "value_kind (Fact _ _ _) = Semantic"
| "value_kind (Relation _ _ _) = Semantic"
| "value_kind (Preference _ _) = Semantic"
| "value_kind (Procedure _ _) = Procedural"

record memory_item =
  mi_id :: memory_id
  mi_kind :: memory_kind
  mi_current_revision_id :: memory_revision_id
  mi_created_at_ms :: i64
  mi_updated_at_ms :: i64

record memory_revision =
  mr_id :: memory_revision_id
  mr_memory_id :: memory_id
  mr_previous_revision_id :: "memory_revision_id option"
  mr_value :: memory_value
  mr_evidence_ids :: "evidence_id list"
  mr_created_at_ms :: i64
  mr_valid_from_ms :: "i64 option"
  mr_valid_until_ms :: "i64 option"

datatype memory_error =
  MissingEvidence | ItemNotFound | RevisionNotFound | RevisionMismatch | KindMismatch

record memory_ledger =
  ml_items :: "(memory_id, memory_item) btree_map"
  ml_revisions :: "(memory_revision_id, memory_revision) btree_map"

definition MemoryLedger_new :: memory_ledger where
  "MemoryLedger_new = \<lparr>ml_items = [], ml_revisions = []\<rparr>"

definition require_evidence :: "evidence_id list \<Rightarrow> (memory_error, unit) result" where
  "require_evidence evidence_ids = (if evidence_ids = [] then Inl MissingEvidence else Inr ())"

definition require_kind :: "memory_kind \<Rightarrow> memory_value \<Rightarrow> (memory_error, unit) result" where
  "require_kind kind value = (if kind = value_kind value then Inr () else Inl KindMismatch)"

definition ledger_create ::
  "memory_kind \<Rightarrow> memory_value \<Rightarrow> evidence_id list \<Rightarrow> i64 \<Rightarrow> memory_id \<Rightarrow> memory_revision_id
   \<Rightarrow> memory_ledger \<Rightarrow> (memory_error, memory_id \<times> memory_ledger) result" where
  "ledger_create kind value evidence_ids now_ms memory_id revision_id l =
     and_then (require_evidence evidence_ids) (\<lambda>_.
     and_then (require_kind kind value) (\<lambda>_.
       Inr (memory_id,
         l\<lparr>ml_revisions := bt_insert revision_id
              \<lparr>mr_id = revision_id, mr_memory_id = memory_id, mr_previous_revision_id = None,
               mr_value = value, mr_evidence_ids = evidence_ids, mr_created_at_ms = now_ms,
               mr_valid_from_ms = Some now_ms, mr_valid_until_ms = None\<rparr> (ml_revisions l),
           ml_items := bt_insert memory_id
              \<lparr>mi_id = memory_id, mi_kind = kind, mi_current_revision_id = revision_id,
               mi_created_at_ms = now_ms, mi_updated_at_ms = now_ms\<rparr> (ml_items l)\<rparr>)))"

definition ledger_revise ::
  "memory_id \<Rightarrow> memory_value \<Rightarrow> evidence_id list \<Rightarrow> i64 \<Rightarrow> memory_revision_id
   \<Rightarrow> memory_ledger \<Rightarrow> (memory_error, memory_revision_id \<times> memory_ledger) result" where
  "ledger_revise memory_id value evidence_ids now_ms revision_id l =
     and_then (require_evidence evidence_ids) (\<lambda>_.
     and_then (ok_or ItemNotFound (bt_get (ml_items l) memory_id)) (\<lambda>item.
     and_then (require_kind (mi_kind item) value) (\<lambda>_.
       Inr (revision_id,
         l\<lparr>ml_revisions := bt_insert revision_id
              \<lparr>mr_id = revision_id, mr_memory_id = memory_id,
               mr_previous_revision_id = Some (mi_current_revision_id item), mr_value = value,
               mr_evidence_ids = evidence_ids, mr_created_at_ms = now_ms,
               mr_valid_from_ms = Some now_ms, mr_valid_until_ms = None\<rparr> (ml_revisions l),
           ml_items := bt_insert memory_id
              (item\<lparr>mi_current_revision_id := revision_id, mi_updated_at_ms := now_ms\<rparr>)
              (ml_items l)\<rparr>))))"

definition ledger_restore ::
  "memory_id \<Rightarrow> memory_revision_id \<Rightarrow> evidence_id list \<Rightarrow> i64 \<Rightarrow> memory_revision_id
   \<Rightarrow> memory_ledger \<Rightarrow> (memory_error, memory_revision_id \<times> memory_ledger) result" where
  "ledger_restore memory_id source_revision_id evidence_ids now_ms revision_id l =
     and_then (ok_or RevisionNotFound (bt_get (ml_revisions l) source_revision_id)) (\<lambda>source.
       if mr_memory_id source \<noteq> memory_id then Inl RevisionMismatch
       else ledger_revise memory_id (mr_value source) evidence_ids now_ms revision_id l)"

definition ledger_item :: "memory_ledger \<Rightarrow> memory_id \<Rightarrow> memory_item option" where
  "ledger_item l i = bt_get (ml_items l) i"

definition ledger_revision :: "memory_ledger \<Rightarrow> memory_revision_id \<Rightarrow> memory_revision option" where
  "ledger_revision l r = bt_get (ml_revisions l) r"

definition revisions_for :: "memory_ledger \<Rightarrow> memory_id \<Rightarrow> memory_revision list" where
  "revisions_for l memory_id = filter (\<lambda>r. mr_memory_id r = memory_id) (bt_values (ml_revisions l))"

section \<open>Procedural promotion\<close>

record evidence =
  ev_id :: evidence_id
  ev_trust :: trust_class
  ev_source_reference :: "string option"
  ev_created_at_ms :: i64

record procedural_candidate =
  pcd_name :: string
  pcd_capabilities :: "capability_id list"
  pcd_steps :: "action_request list"
  pcd_evidence_ids :: "evidence_id list"

datatype promotion_decision =
  EligibleForPolicyReview | InsufficientIndependentAuthority | InvalidCandidate

text \<open>The loop that fills \<open>supplied\<close>; \<open>None\<close> is its early return on a duplicate.\<close>

fun supply_evidence ::
  "evidence list \<Rightarrow> (evidence_id, evidence) btree_map \<Rightarrow> (evidence_id, evidence) btree_map option" where
  "supply_evidence [] supplied = Some supplied"
| "supply_evidence (item # rest) supplied =
     (if bt_get supplied (ev_id item) \<noteq> None then None
      else supply_evidence rest (bt_insert (ev_id item) item supplied))"

text \<open>
  \<open>referenced\<close> is a set, so its size is the number of distinct identifiers. Indexing \<open>supplied\<close>
  with an absent identifier panics; the preceding check excludes it, and the model's \<open>is_some_and\<close>
  is only reached with present ones.
\<close>

definition promotion_evaluate :: "procedural_candidate \<Rightarrow> evidence list \<Rightarrow> promotion_decision" where
  "promotion_evaluate candidate evidence =
     (if trim (pcd_name candidate) = [] \<or> pcd_capabilities candidate = [] \<or> pcd_steps candidate = []
         \<or> pcd_evidence_ids candidate = []
         \<or> list_ex (\<lambda>step. ar_capability_id step \<notin> set (pcd_capabilities candidate)) (pcd_steps candidate)
      then InvalidCandidate
      else case supply_evidence evidence [] of
        None \<Rightarrow> InvalidCandidate
      | Some supplied \<Rightarrow>
          let referenced = remdups (pcd_evidence_ids candidate) in
          if length referenced \<noteq> length (pcd_evidence_ids candidate)
             \<or> length supplied \<noteq> length referenced
             \<or> list_ex (\<lambda>i. bt_get supplied i = None) referenced
          then InvalidCandidate
          else if list_ex (\<lambda>i. is_some_and
                 (\<lambda>item. independently_authorizes_procedural_memory (ev_trust item)) (bt_get supplied i))
               (pcd_evidence_ids candidate)
          then EligibleForPolicyReview
          else InsufficientIndependentAuthority)"

section \<open>Behaviour scoring\<close>

definition DEFAULT_HALF_LIFE_MS :: i64 where "DEFAULT_HALF_LIFE_MS = 7 * 24 * 60 * 60 * 1000"
definition DEFAULT_RETENTION_MS :: i64 where "DEFAULT_RETENTION_MS = 90 * 24 * 60 * 60 * 1000"
definition DEFAULT_MAX_EVENTS :: nat where "DEFAULT_MAX_EVENTS = 512"

datatype intent_resolution =
  Resolved intent_candidate | Ambiguous "intent_candidate list" | Unknown

record behaviour_scorer =
  bs_half_life_ms :: i64
  bs_resolve_threshold_permille :: u16
  bs_minimum_gap_permille :: u16

definition BehaviourScorer_new :: "i64 \<Rightarrow> behaviour_scorer" where
  "BehaviourScorer_new half_life_ms =
     \<lparr>bs_half_life_ms = max half_life_ms 1, bs_resolve_threshold_permille = 650,
      bs_minimum_gap_permille = 120\<rparr>"

text \<open>
  The \<open>f64\<close> primitives the scorer uses: the decimal literal \<open>n / 100\<close>, conversion from \<open>i64\<close>,
  arithmetic, \<open>powf\<close>, \<open>exp\<close>, \<open>max\<close>, equality, and \<open>round\<close>, \<open>clamp\<close> and the saturating cast
  \<open>as u16\<close>.
\<close>

record 'f f64_ops =
  f_lit :: "int \<Rightarrow> 'f"
  f_of_i64 :: "i64 \<Rightarrow> 'f"
  f_add :: "'f \<Rightarrow> 'f \<Rightarrow> 'f"
  f_sub :: "'f \<Rightarrow> 'f \<Rightarrow> 'f"
  f_mul :: "'f \<Rightarrow> 'f \<Rightarrow> 'f"
  f_div :: "'f \<Rightarrow> 'f \<Rightarrow> 'f"
  f_neg :: "'f \<Rightarrow> 'f"
  f_powf :: "'f \<Rightarrow> 'f \<Rightarrow> 'f"
  f_exp :: "'f \<Rightarrow> 'f"
  f_max :: "'f \<Rightarrow> 'f \<Rightarrow> 'f"
  f_eq :: "'f \<Rightarrow> 'f \<Rightarrow> bool"
  f_round :: "'f \<Rightarrow> 'f"
  f_clamp :: "'f \<Rightarrow> 'f \<Rightarrow> 'f \<Rightarrow> 'f"
  f_as_u16 :: "'f \<Rightarrow> u16"

fun signal :: "behaviour_outcome \<Rightarrow> int" where
  "signal Outcome_Success = 125"
| "signal Outcome_Failure = - 75"
| "signal Outcome_CorrectionAccepted = 300"
| "signal Outcome_CorrectionRejected = - 400"

definition event_age :: "i64 \<Rightarrow> intent_usage_event \<Rightarrow> i64" where
  "event_age now_ms event = max (saturating_sub_i64 now_ms (iu_created_at_ms event)) 0"

text \<open>One iteration of the accumulation loop; \<open>continue\<close> leaves the scores alone.\<close>

definition score_event ::
  "'f f64_ops \<Rightarrow> behaviour_scorer \<Rightarrow> i64 \<Rightarrow> intent_usage_event \<Rightarrow> (entity_id, 'f) btree_map
   \<Rightarrow> (entity_id, 'f) btree_map" where
  "score_event F scorer now_ms event scores =
     (let age_ms = event_age now_ms event in
      if age_ms > DEFAULT_RETENTION_MS then scores
      else
        let decay = f_powf F (f_lit F 200)
              (f_div F (f_neg F (f_of_i64 F age_ms)) (f_of_i64 F (bs_half_life_ms scorer)));
            current = (case bt_get scores (iu_entity_id event) of None \<Rightarrow> f_lit F 0 | Some v \<Rightarrow> v)
        in bt_insert (iu_entity_id event)
             (f_add F current (f_mul F decay (f_lit F (signal (iu_outcome event))))) scores)"

definition candidate_of :: "'f f64_ops \<Rightarrow> entity_id \<times> 'f \<Rightarrow> intent_candidate option" where
  "candidate_of F entry =
     (let positive = f_max F (snd entry) (f_lit F 0) in
      if f_eq F positive (f_lit F 0) then None
      else
        let confidence = f_mul F (f_sub F (f_lit F 100)
              (f_exp F (f_div F (f_neg F positive) (f_lit F 300)))) (f_lit F 100000)
        in Some \<lparr>ic_entity_id = fst entry,
             ic_score_permille = f_as_u16 F (f_clamp F (f_round F confidence) (f_lit F 0) (f_lit F 100000))\<rparr>)"

text \<open>Descending score, then ascending identifier, as one key.\<close>

definition candidate_key :: "intent_candidate \<Rightarrow> int \<times> entity_id" where
  "candidate_key c = (- int (ic_score_permille c), ic_entity_id c)"

definition score ::
  "'f f64_ops \<Rightarrow> behaviour_scorer \<Rightarrow> intent_usage_event list \<Rightarrow> i64 \<Rightarrow> intent_candidate list" where
  "score F scorer events now_ms =
     (let scores = fold (score_event F scorer now_ms) (take DEFAULT_MAX_EVENTS events) []
      in sort_key candidate_key (List.map_filter (candidate_of F) scores))"

definition resolve ::
  "'f f64_ops \<Rightarrow> behaviour_scorer \<Rightarrow> intent_usage_event list \<Rightarrow> i64 \<Rightarrow> intent_resolution" where
  "resolve F scorer events now_ms =
     (let candidates = score F scorer events now_ms in
      case candidates of
        [] \<Rightarrow> Unknown
      | first # rest \<Rightarrow>
          let runner_up = (case rest of [] \<Rightarrow> 0 | c # _ \<Rightarrow> ic_score_permille c) in
          if ic_score_permille first \<ge> bs_resolve_threshold_permille scorer
             \<and> ic_score_permille first - runner_up \<ge> bs_minimum_gap_permille scorer
          then Resolved first
          else Ambiguous (take 5 candidates))"

section \<open>Working memory holds the most recent keys\<close>

text \<open>
  The abstract view of a sequence of assignments: the latest value of every key, in the order of
  the latest assignments. The memory is its last \<open>capacity\<close> entries.
\<close>

definition latest_set :: "string \<Rightarrow> 'v \<Rightarrow> (string \<times> 'v) list \<Rightarrow> (string \<times> 'v) list" where
  "latest_set k v l = filter (\<lambda>e. fst e \<noteq> k) l @ [(k, v)]"

definition latest :: "(string \<times> 'v) list \<Rightarrow> (string \<times> 'v) list" where
  "latest ops = fold (\<lambda>(k, v). latest_set k v) ops []"

definition last_entries :: "nat \<Rightarrow> 'a list \<Rightarrow> 'a list" where
  "last_entries n l = drop (length l - n) l"

lemma remove_first_filter:
  "distinct (map fst l) \<Longrightarrow> remove_first k l = filter (\<lambda>e. fst e \<noteq> k) l"
proof (induction k l rule: remove_first.induct)
  case (2 key stored v l)
  then show ?case by (auto simp: filter_id_conv) (metis (mono_tags, lifting) filter_True fst_conv image_eqI)
qed simp

lemma distinct_latest_set: "distinct (map fst l) \<Longrightarrow> distinct (map fst (latest_set k v l))"
  by (auto simp: latest_set_def distinct_map_filter)

lemma drop_diff_append: "drop (length xs - n) (xs @ ys) = drop (length xs - n) xs @ ys"
  by simp

lemma length_filter_key:
  "distinct (map fst l) \<Longrightarrow> k \<in> fst ` set l \<Longrightarrow> Suc (length (filter (\<lambda>e. fst e \<noteq> k) l)) = length l"
proof (induction l)
  case (Cons a l)
  show ?case
  proof (cases "fst a = k")
    case True
    then have "filter (\<lambda>e. fst e \<noteq> k) l = l" using Cons.prems(1) by (intro filter_True ballI) (metis distinct.simps(2) image_eqI list.simps(9) set_map)
    with True show ?thesis by simp
  next
    case False
    with Cons show ?thesis by auto
  qed
qed simp

lemma working_set_last_entries:
  assumes "distinct (map fst l)" and "0 < wm_capacity m"
    and "wm_values m = last_entries (wm_capacity m) l"
  shows "wm_values (working_set k v m) = last_entries (wm_capacity m) (latest_set k v l)"
proof -
  let ?c = "wm_capacity m" and ?P = "\<lambda>e. fst e \<noteq> k"
  define a b where "a = take (length l - ?c) l" and "b = drop (length l - ?c) l"
  have l: "l = a @ b" by (simp add: a_def b_def)
  have lenb: "length b = min ?c (length l)" by (simp add: b_def)
  have dist: "distinct (map fst b)" using assms(1) by (simp add: l)
  have vals: "remove_first k (wm_values m) = filter ?P b"
    using remove_first_filter [OF dist] assms(3) by (simp add: last_entries_def b_def)
  show ?thesis
  proof (cases "k \<in> fst ` set b")
    case True
    then have "k \<notin> fst ` set a" using assms(1) by (auto simp: l)
    then have fa: "filter ?P a = a" by (force simp: filter_id_conv)
    have len: "Suc (length (filter ?P b)) = length b" by (rule length_filter_key [OF dist True])
    then have "length (filter ?P b) \<noteq> ?c" using lenb by auto
    moreover have "length a + length b - ?c = length a"
      using lenb by (auto simp: a_def l [symmetric] b_def)
    ultimately show ?thesis
      using len vals by (simp add: working_set_def Let_def latest_set_def last_entries_def l fa)
  next
    case False
    then have fb: "filter ?P b = b" by (force simp: filter_id_conv)
    show ?thesis
    proof (cases "length l < ?c")
      case True
      then have "a = []" "length b \<noteq> ?c" by (simp_all add: a_def b_def)
      with True vals fb show ?thesis
        by (simp add: working_set_def Let_def latest_set_def last_entries_def l)
    next
      case False
      then have "length b = ?c" using lenb by simp
      with vals fb assms(2) show ?thesis
        by (simp add: working_set_def Let_def latest_set_def last_entries_def l Suc_diff_le)
    qed
  qed
qed

lemma working_set_capacity [simp]: "wm_capacity (working_set k v m) = wm_capacity m"
  by (simp add: working_set_def Let_def)

lemma working_fold_last_entries:
  assumes "distinct (map fst l)" and "0 < wm_capacity m"
    and "wm_values m = last_entries (wm_capacity m) l"
  shows "wm_values (fold (\<lambda>(k, v). working_set k v) ops m)
    = last_entries (wm_capacity m) (fold (\<lambda>(k, v). latest_set k v) ops l)"
  using assms
proof (induction ops arbitrary: m l)
  case (Cons op ops)
  obtain k v where op: "op = (k, v)" by fastforce
  from Cons.IH [of "latest_set k v l" "working_set k v m"] Cons.prems show ?case
    by (simp add: op working_set_last_entries distinct_latest_set)
qed simp

lemma distinct_latest: "distinct (map fst (latest ops))"
proof -
  have "distinct (map fst l) \<Longrightarrow> distinct (map fst (fold (\<lambda>(k, v). latest_set k v) ops l))"
    for l :: "(string \<times> 'a) list"
    by (induction ops arbitrary: l) (auto simp: distinct_latest_set split: prod.splits)
  then show ?thesis by (simp add: latest_def)
qed

section \<open>The ledger's history\<close>

text \<open>
  The ledgers the operations can build: a generated identifier is one that was never used
  (identifiers come from a process-wide counter and the clock).
\<close>

inductive ledger_reachable :: "memory_ledger \<Rightarrow> bool" where
  new: "ledger_reachable MemoryLedger_new"
| create: "ledger_reachable l \<Longrightarrow> ledger_item l i = None \<Longrightarrow> ledger_revision l r = None \<Longrightarrow>
    ledger_create kind value es now i r l = Inr (i', l') \<Longrightarrow> ledger_reachable l'"
| revise: "ledger_reachable l \<Longrightarrow> ledger_revision l r = None \<Longrightarrow>
    ledger_revise i value es now r l = Inr (r', l') \<Longrightarrow> ledger_reachable l'"
| restore: "ledger_reachable l \<Longrightarrow> ledger_revision l r = None \<Longrightarrow>
    ledger_restore i src es now r l = Inr (r', l') \<Longrightarrow> ledger_reachable l'"

text \<open>A linear history: each revision names the one before it, the first one names none.\<close>

fun linked :: "memory_revision list \<Rightarrow> bool" where
  "linked [] = False"
| "linked [r] = (mr_previous_revision_id r = None)"
| "linked (r # r' # rs) = (mr_previous_revision_id r = Some (mr_id r') \<and> linked (r' # rs))"

definition item_revisions :: "memory_ledger \<Rightarrow> memory_id \<Rightarrow> memory_revision set" where
  "item_revisions l i = {r. ledger_revision l (mr_id r) = Some r \<and> mr_memory_id r = i}"

definition history :: "memory_ledger \<Rightarrow> memory_item \<Rightarrow> memory_revision list \<Rightarrow> bool" where
  "history l item h =
     (linked h \<and> mr_id (hd h) = mi_current_revision_id item \<and> distinct (map mr_id h)
      \<and> set h = item_revisions l (mi_id item)
      \<and> list_all (\<lambda>r. mr_evidence_ids r \<noteq> [] \<and> value_kind (mr_value r) = mi_kind item) h)"

definition ledger_invar :: "memory_ledger \<Rightarrow> bool" where
  "ledger_invar l =
     (bt_invar (ml_items l) \<and> bt_invar (ml_revisions l)
      \<and> (\<forall>r rv. ledger_revision l r = Some rv \<longrightarrow> mr_id rv = r \<and> ledger_item l (mr_memory_id rv) \<noteq> None)
      \<and> (\<forall>i item. ledger_item l i = Some item \<longrightarrow> mi_id item = i \<and> (\<exists>h. history l item h)))"

lemma ledger_create_ok:
  assumes "ledger_create kind value es now i r l = Inr (i', l')"
  obtains rv item where "i' = i" "es \<noteq> []" "value_kind value = kind"
    "rv = \<lparr>mr_id = r, mr_memory_id = i, mr_previous_revision_id = None, mr_value = value,
       mr_evidence_ids = es, mr_created_at_ms = now, mr_valid_from_ms = Some now, mr_valid_until_ms = None\<rparr>"
    "item = \<lparr>mi_id = i, mi_kind = kind, mi_current_revision_id = r, mi_created_at_ms = now,
       mi_updated_at_ms = now\<rparr>"
    "l' = l\<lparr>ml_revisions := bt_insert r rv (ml_revisions l), ml_items := bt_insert i item (ml_items l)\<rparr>"
  using assms
  by (auto simp: ledger_create_def require_evidence_def require_kind_def and_then_Inr_iff split: if_splits)

lemma ledger_revise_ok:
  assumes "ledger_revise i value es now r l = Inr (r', l')"
  obtains rv item where "r' = r" "es \<noteq> []" "ledger_item l i = Some item" "value_kind value = mi_kind item"
    "rv = \<lparr>mr_id = r, mr_memory_id = i,
       mr_previous_revision_id = Some (mi_current_revision_id item), mr_value = value,
       mr_evidence_ids = es, mr_created_at_ms = now, mr_valid_from_ms = Some now, mr_valid_until_ms = None\<rparr>"
    "l' = l\<lparr>ml_revisions := bt_insert r rv (ml_revisions l),
       ml_items := bt_insert i (item\<lparr>mi_current_revision_id := r, mi_updated_at_ms := now\<rparr>) (ml_items l)\<rparr>"
  using assms
  by (auto simp: ledger_revise_def require_evidence_def require_kind_def and_then_Inr_iff ledger_item_def
      split: if_splits)

lemma ledger_restore_ok:
  assumes "ledger_restore i src es now r l = Inr (r', l')"
  obtains source where "ledger_revision l src = Some source" "mr_memory_id source = i"
    "ledger_revise i (mr_value source) es now r l = Inr (r', l')"
  using assms by (auto simp: ledger_restore_def and_then_Inr_iff ledger_revision_def split: if_splits)

lemma ledger_invarD:
  assumes "ledger_invar l"
  shows "ledger_revision l r = Some rv \<Longrightarrow> mr_id rv = r"
    and "ledger_revision l r = Some rv \<Longrightarrow> ledger_item l (mr_memory_id rv) \<noteq> None"
    and "ledger_item l i = Some item \<Longrightarrow> mi_id item = i"
    and "ledger_item l i = Some item \<Longrightarrow> \<exists>h. history l item h"
  using assms unfolding ledger_invar_def by blast+

text \<open>Adding a revision under a fresh identifier.\<close>

lemma ledger_lookup_insert:
  assumes "l' = l\<lparr>ml_revisions := bt_insert r rv (ml_revisions l),
      ml_items := bt_insert i item (ml_items l)\<rparr>"
  shows "ledger_revision l' = (ledger_revision l)(r \<mapsto> rv)" "ledger_item l' = (ledger_item l)(i \<mapsto> item)"
  by (auto simp: assms ledger_revision_def ledger_item_def bt_get_insert fun_eq_iff)

lemma item_revisions_insert:
  assumes "ledger_revision l' = (ledger_revision l)(r \<mapsto> rv)" and "mr_id rv = r"
    and "ledger_revision l r = None"
  shows "item_revisions l' j
    = (if j = mr_memory_id rv then insert rv (item_revisions l j) else item_revisions l j)"
  using assms by (auto simp: item_revisions_def split: if_splits)

lemma ledger_invar_insert:
  assumes inv: "ledger_invar l"
    and l': "l' = l\<lparr>ml_revisions := bt_insert r rv (ml_revisions l),
      ml_items := bt_insert i item (ml_items l)\<rparr>"
    and fresh: "ledger_revision l r = None"
    and rv: "mr_id rv = r" "mr_memory_id rv = i" and item: "mi_id item = i"
    and hist: "\<exists>h. history l' item h"
  shows "ledger_invar l'"
proof -
  note look = ledger_lookup_insert [OF l']
  note revs = item_revisions_insert [OF look(1) rv(1) fresh]
  have "\<exists>h. history l' it h" if "ledger_item l' j = Some it" for j it
  proof (cases "j = i")
    case True
    then show ?thesis using that hist look(2) by simp
  next
    case False
    then have "ledger_item l j = Some it" using that look(2) by simp
    then obtain h where "history l it h" "mi_id it = j" using ledger_invarD [OF inv] by blast
    with False rv(2) show ?thesis by (auto simp: history_def revs)
  qed
  moreover have "bt_invar (ml_items l')" "bt_invar (ml_revisions l')"
    using inv by (simp_all add: l' ledger_invar_def bt_invar_insert)
  ultimately show ?thesis
    using ledger_invarD [OF inv] rv item unfolding ledger_invar_def look
    by (auto simp: look split: if_splits)
qed

lemma ledger_invar_create:
  assumes inv: "ledger_invar l" and fresh: "ledger_item l i = None" "ledger_revision l r = None"
    and ok: "ledger_create kind value es now i r l = Inr (i', l')"
  shows "ledger_invar l'"
  using ok
proof (rule ledger_create_ok)
  fix rv item
  assume ne: "es \<noteq> []" "value_kind value = kind"
    and rv: "rv = \<lparr>mr_id = r, mr_memory_id = i, mr_previous_revision_id = None, mr_value = value,
       mr_evidence_ids = es, mr_created_at_ms = now, mr_valid_from_ms = Some now, mr_valid_until_ms = None\<rparr>"
    and item: "item = \<lparr>mi_id = i, mi_kind = kind, mi_current_revision_id = r, mi_created_at_ms = now,
       mi_updated_at_ms = now\<rparr>"
    and l': "l' = l\<lparr>ml_revisions := bt_insert r rv (ml_revisions l),
       ml_items := bt_insert i item (ml_items l)\<rparr>"
  have "item_revisions l i = {}"
    using ledger_invarD(2) [OF inv] fresh(1) by (fastforce simp: item_revisions_def)
  then have "item_revisions l' i = {rv}"
    by (simp add: item_revisions_insert [OF ledger_lookup_insert(1) [OF l'] _ fresh(2)] rv)
  then have "history l' item [rv]" by (simp add: history_def rv item ne)
  then show ?thesis
    by (intro ledger_invar_insert [OF inv l' fresh(2)]) (auto simp: rv item)
qed

lemma ledger_invar_revise:
  assumes inv: "ledger_invar l" and fresh: "ledger_revision l r = None"
    and ok: "ledger_revise i value es now r l = Inr (r', l')"
  shows "ledger_invar l'"
  using ok
proof (rule ledger_revise_ok)
  fix rv item
  assume ne: "es \<noteq> []" and old: "ledger_item l i = Some item" and kind: "value_kind value = mi_kind item"
    and rv: "rv = \<lparr>mr_id = r, mr_memory_id = i,
       mr_previous_revision_id = Some (mi_current_revision_id item), mr_value = value,
       mr_evidence_ids = es, mr_created_at_ms = now, mr_valid_from_ms = Some now, mr_valid_until_ms = None\<rparr>"
    and l': "l' = l\<lparr>ml_revisions := bt_insert r rv (ml_revisions l),
       ml_items := bt_insert i (item\<lparr>mi_current_revision_id := r, mi_updated_at_ms := now\<rparr>) (ml_items l)\<rparr>"
  obtain h where h: "history l item h" and i: "mi_id item = i" using ledger_invarD [OF inv] old by blast
  have "r \<notin> mr_id ` set h" using h fresh by (auto simp: history_def item_revisions_def)
  moreover have "linked (rv # h)" using h by (cases h) (auto simp: history_def rv)
  ultimately have "history l' (item\<lparr>mi_current_revision_id := r, mi_updated_at_ms := now\<rparr>) (rv # h)"
    using h ne kind i item_revisions_insert [OF ledger_lookup_insert(1) [OF l'] _ fresh, of i]
    by (simp add: history_def rv)
  then show ?thesis
    using i by (intro ledger_invar_insert [OF inv l' fresh]) (auto simp: rv)
qed

lemma ledger_invar_reachable: "ledger_reachable l \<Longrightarrow> ledger_invar l"
proof (induction rule: ledger_reachable.induct)
  case new
  then show ?case
    by (simp add: ledger_invar_def MemoryLedger_new_def ledger_revision_def ledger_item_def bt.get_empty
        bt.invar_empty)
next
  case (create l i r kind val es now i' l')
  then show ?case using ledger_invar_create by blast
next
  case (revise l r i val es now r' l')
  then show ?case using ledger_invar_revise by blast
next
  case (restore l r i src es now r' l')
  then show ?case using ledger_invar_revise by (metis ledger_restore_ok)
qed


section \<open>Promotion and scoring\<close>

lemma supply_evidence_Some:
  assumes "bt_invar m" and "supply_evidence items m = Some m'"
  shows "bt_invar m' \<and> distinct (map ev_id items) \<and> (\<forall>e \<in> set items. bt_get m (ev_id e) = None)
    \<and> bt_get m' = (\<lambda>i. case bt_get m i of Some e \<Rightarrow> Some e | None \<Rightarrow> find (\<lambda>e. ev_id e = i) items)"
  using assms
proof (induction items arbitrary: m)
  case Nil
  then show ?case by (auto simp: fun_eq_iff split: option.splits)
next
  case (Cons a items)
  then have new: "bt_get m (ev_id a) = None"
    and rest: "supply_evidence items (bt_insert (ev_id a) a m) = Some m'"
    by (auto split: if_splits)
  from Cons.IH [OF bt_invar_insert [OF Cons.prems(1)] rest] new show ?case
    by (auto simp: bt_get_insert fun_eq_iff image_iff split: option.splits if_splits)
qed

lemma supply_evidence_total:
  "distinct (map ev_id items) \<Longrightarrow> (\<forall>e \<in> set items. bt_get m (ev_id e) = None) \<Longrightarrow>
   \<exists>m'. supply_evidence items m = Some m'"
proof (induction items arbitrary: m)
  case (Cons a items)
  then have "bt_get m (ev_id a) = None" by simp
  moreover have "\<exists>m'. supply_evidence items (bt_insert (ev_id a) a m) = Some m'"
    using Cons by (intro Cons.IH) (auto simp: bt_get_insert image_iff)
  ultimately show ?case by simp
qed simp

lemma find_by_id:
  "distinct (map ev_id items) \<Longrightarrow> find (\<lambda>e. ev_id e = i) items = Some e \<longleftrightarrow> e \<in> set items \<and> ev_id e = i"
proof (induction items)
  case (Cons a items)
  then show ?case by (auto simp: image_iff)
qed simp

lemma score_event_invar: "bt_invar scores \<Longrightarrow> bt_invar (score_event F scorer now event scores)"
  by (simp add: score_event_def Let_def bt_invar_insert)

lemma score_event_expired:
  "event_age now event > DEFAULT_RETENTION_MS \<Longrightarrow> score_event F scorer now event scores = scores"
  by (simp add: score_event_def)

lemma fold_score_expired:
  "fold (score_event F scorer now) events scores
   = fold (score_event F scorer now) (filter (\<lambda>e. event_age now e \<le> DEFAULT_RETENTION_MS) events) scores"
  by (induction events arbitrary: scores) (auto simp: score_event_expired)

lemma fold_score_invar:
  "bt_invar scores \<Longrightarrow> bt_invar (fold (score_event F scorer now) events scores)"
  by (induction events arbitrary: scores) (auto simp: score_event_invar)

lemma candidate_entity: "candidate_of F entry = Some c \<Longrightarrow> ic_entity_id c = fst entry"
  by (auto simp: candidate_of_def Let_def split: if_splits)

lemma map_filter_Cons:
  "List.map_filter f (x # xs) = (case f x of None \<Rightarrow> List.map_filter f xs | Some y \<Rightarrow> y # List.map_filter f xs)"
  by (simp add: List.map_filter_def split: option.splits)

lemma distinct_candidates:
  "distinct (map fst scores) \<Longrightarrow>
   distinct (map ic_entity_id (List.map_filter (candidate_of F) scores))
   \<and> ic_entity_id ` set (List.map_filter (candidate_of F) scores) \<subseteq> fst ` set scores"
proof (induction scores)
  case Nil
  then show ?case by (simp add: List.map_filter_def)
next
  case (Cons a scores)
  then show ?case by (auto simp: map_filter_Cons candidate_entity split: option.splits)
qed

lemma score_distinct: "distinct (map ic_entity_id (score F scorer events now))"
proof -
  have "distinct (map ic_entity_id (List.map_filter (candidate_of F)
      (fold (score_event F scorer now) (take DEFAULT_MAX_EVENTS events) [])))"
    using distinct_candidates bt.distinct_keys [OF fold_score_invar] bt.invar_empty by blast
  then show ?thesis by (simp add: score_def Let_def distinct_map inj_on_def)
qed

lemma score_sorted: "sorted (map candidate_key (score F scorer events now))"
  by (simp add: score_def Let_def)

section \<open>Properties\<close>

text \<open>
  Working memory is exactly the most recent keys: after any sequence of assignments it holds,
  oldest first, the latest values of the last \<open>capacity\<close> distinct keys assigned (at least one),
  and a lookup returns the value held for the key.
\<close>
lemma working_memory_refines_latest:
  "let m = fold (\<lambda>(k, v). working_set k v) ops (WorkingMemory_new capacity);
       recent = last_entries (max capacity 1) (latest ops)
   in wm_values m = recent \<and> working_len m = min (max capacity 1) (length (latest ops))
      \<and> working_get m = map_of recent"
proof -
  let ?m = "fold (\<lambda>(k, v). working_set k v) ops (WorkingMemory_new capacity)"
  have "wm_values ?m = last_entries (wm_capacity (WorkingMemory_new capacity)) (latest ops)"
    unfolding latest_def
    by (rule working_fold_last_entries) (simp_all add: WorkingMemory_new_def last_entries_def)
  then have vals: "wm_values ?m = last_entries (max capacity 1) (latest ops)"
    by (simp add: WorkingMemory_new_def)
  have look: "map_option snd (find (\<lambda>(s, _). s = k) l) = map_of l k" for k and l :: "(string \<times> working_value) list"
    by (induction l) auto
  show ?thesis
    using vals by (auto simp: Let_def working_len_def working_get_def look last_entries_def fun_eq_iff)
qed

text \<open>
  Every memory has one linear history: in every ledger the operations build, the revisions of an
  item form a single chain from its current revision back to a first one that has no predecessor;
  no revision is lost or shared, each carries evidence, and each has the kind of its item.
\<close>
lemma ledger_history_linear:
  assumes "ledger_reachable l" and "ledger_item l i = Some item"
  shows "mi_id item = i
    \<and> (\<exists>h. linked h \<and> mr_id (hd h) = mi_current_revision_id item \<and> distinct (map mr_id h)
        \<and> set h = set (revisions_for l i)
        \<and> list_all (\<lambda>r. mr_evidence_ids r \<noteq> [] \<and> value_kind (mr_value r) = mi_kind item) h)"
proof -
  have inv: "ledger_invar l" by (rule ledger_invar_reachable [OF assms(1)])
  have i: "mi_id item = i" by (rule ledger_invarD(3) [OF inv assms(2)])
  have "bt_invar (ml_revisions l)" using inv by (simp add: ledger_invar_def)
  then have "rv \<in> set (bt_values (ml_revisions l)) \<longleftrightarrow> (\<exists>r. ledger_revision l r = Some rv)" for rv
    using bt.entries_get [of "ml_revisions l"] by (force simp: ledger_revision_def bt_values_def)
  then have "rv \<in> set (bt_values (ml_revisions l)) \<longleftrightarrow> ledger_revision l (mr_id rv) = Some rv" for rv
    using ledger_invarD(1) [OF inv] by metis
  then have "set (revisions_for l i) = item_revisions l i"
    by (auto simp: revisions_for_def item_revisions_def)
  then show ?thesis using ledger_invarD(4) [OF inv assms(2)] i by (auto simp: history_def)
qed

definition example_ledger :: memory_ledger where
  "example_ledger =
     (case ledger_create Semantic (Preference ''theme'' ''light'') [''evidence:1''] 10 ''memory:1'' ''rev:1''
        MemoryLedger_new of Inr (_, l) \<Rightarrow> l | Inl _ \<Rightarrow> MemoryLedger_new)"

lemma example_ledger_created:
  "ledger_create Semantic (Preference ''theme'' ''light'') [''evidence:1''] 10 ''memory:1'' ''rev:1''
     MemoryLedger_new = Inr (''memory:1'', example_ledger)"
  by (simp add: example_ledger_def ledger_create_def require_evidence_def require_kind_def)

lemma example_ledger_reachable: "ledger_reachable example_ledger"
  by (rule ledger_reachable.create [OF ledger_reachable.new _ _ example_ledger_created])
    (simp_all add: ledger_item_def ledger_revision_def MemoryLedger_new_def bt.get_empty)

lemma example_ledger_lookup:
  "ledger_item example_ledger ''memory:1'' = Some \<lparr>mi_id = ''memory:1'', mi_kind = Semantic,
     mi_current_revision_id = ''rev:1'', mi_created_at_ms = 10, mi_updated_at_ms = 10\<rparr>"
  "ledger_revision example_ledger ''rev:1'' = Some \<lparr>mr_id = ''rev:1'', mr_memory_id = ''memory:1'',
     mr_previous_revision_id = None, mr_value = Preference ''theme'' ''light'',
     mr_evidence_ids = [''evidence:1''], mr_created_at_ms = 10, mr_valid_from_ms = Some 10,
     mr_valid_until_ms = None\<rparr>"
  "ledger_revision example_ledger ''rev:2'' = None"
  by (simp_all add: example_ledger_def ledger_create_def require_evidence_def require_kind_def
      MemoryLedger_new_def ledger_item_def ledger_revision_def bt_get_def)

text \<open>
  Restoring never rewrites history: a successful restore records a new current revision that
  copies the value of the chosen revision of the same memory, points to the revision that was
  current before and carries the new evidence, while every earlier revision stays as it was.
\<close>
lemma restore_appends_revision:
  assumes "ledger_reachable l" and "ledger_revision l r = None"
    and "ledger_restore i src es now r l = Inr (r', l')"
  shows "r' = r \<and> es \<noteq> []
    \<and> (\<exists>source item rv. ledger_revision l src = Some source \<and> mr_memory_id source = i
        \<and> ledger_item l i = Some item \<and> ledger_revision l' = (ledger_revision l)(r \<mapsto> rv)
        \<and> mr_value rv = mr_value source \<and> mr_memory_id rv = i \<and> mr_evidence_ids rv = es
        \<and> mr_previous_revision_id rv = Some (mi_current_revision_id item)
        \<and> ledger_item l' = (ledger_item l)
            (i \<mapsto> item\<lparr>mi_current_revision_id := r, mi_updated_at_ms := now\<rparr>))
    \<and> ledger_revision l \<subseteq>\<^sub>m ledger_revision l'"
  using assms(3)
proof (rule ledger_restore_ok)
  fix source
  assume src: "ledger_revision l src = Some source" "mr_memory_id source = i"
    and ok: "ledger_revise i (mr_value source) es now r l = Inr (r', l')"
  from ok show ?thesis
  proof (rule ledger_revise_ok)
    fix rv item
    assume rv: "rv = \<lparr>mr_id = r, mr_memory_id = i,
        mr_previous_revision_id = Some (mi_current_revision_id item), mr_value = mr_value source,
        mr_evidence_ids = es, mr_created_at_ms = now, mr_valid_from_ms = Some now, mr_valid_until_ms = None\<rparr>"
      and l': "l' = l\<lparr>ml_revisions := bt_insert r rv (ml_revisions l),
        ml_items := bt_insert i (item\<lparr>mi_current_revision_id := r, mi_updated_at_ms := now\<rparr>) (ml_items l)\<rparr>"
      and "r' = r" "es \<noteq> []" "ledger_item l i = Some item"
    with src assms(2) ledger_lookup_insert [OF l'] show ?thesis by (auto simp: map_le_def)
  qed
qed

lemma supplied_exactly:
  assumes Some: "supply_evidence items [] = Some m"
  shows "distinct (map ev_id items)"
    and "length (remdups ids) = length ids \<and> length m = length (remdups ids)
        \<and> \<not> list_ex (\<lambda>i. bt_get m i = None) (remdups ids)
        \<longleftrightarrow> distinct ids \<and> ev_id ` set items = set ids" (is ?ids)
    and "ev_id ` set items = set ids \<Longrightarrow>
      list_ex (\<lambda>i. is_some_and
          (\<lambda>item. independently_authorizes_procedural_memory (ev_trust item)) (bt_get m i)) ids
        \<longleftrightarrow> list_ex (\<lambda>e. ev_trust e = TC_UserExplicit \<or> ev_trust e = TC_UserConfirmedResult) items"
proof -
  note m = supply_evidence_Some [OF bt.invar_empty Some]
  have dist: "distinct (map ev_id items)" and inv: "bt_invar m"
    and get: "bt_get m = (\<lambda>i. find (\<lambda>e. ev_id e = i) items)"
    using m by (auto simp: bt.get_empty)
  have dom: "dom (bt_get m) = ev_id ` set items"
    using find_by_id [OF dist] by (auto simp: get dom_def)
  have len: "length m = card (ev_id ` set items)"
    using bt.length_entries [OF inv] by (simp add: dom)
  have none: "bt_get m i = None \<longleftrightarrow> i \<notin> ev_id ` set items" for i
    using dom by (auto simp: domIff)
  show "distinct (map ev_id items)" by (rule dist)
  show ?ids
  proof -
    have "set ids \<subseteq> ev_id ` set items \<Longrightarrow> card (ev_id ` set items) = card (set ids) \<Longrightarrow>
        ev_id ` set items = set ids"
      by (metis List.finite_set card_subset_eq finite_imageI)
    then show ?thesis
      by (auto simp: len none list_ex_iff length_remdups_card_conv simp flip: card_distinct distinct_card
          intro: card_distinct)
  qed
  assume that: "ev_id ` set items = set ids"
  show "list_ex (\<lambda>i. is_some_and
          (\<lambda>item. independently_authorizes_procedural_memory (ev_trust item)) (bt_get m i)) ids
        \<longleftrightarrow> list_ex (\<lambda>e. ev_trust e = TC_UserExplicit \<or> ev_trust e = TC_UserConfirmedResult) items"
  proof -
    have "is_some_and P (bt_get m i) \<longleftrightarrow> (\<exists>e \<in> set items. ev_id e = i \<and> P e)" for i P
      by (auto simp: is_some_and_iff get find_by_id [OF dist])
    moreover have "independently_authorizes_procedural_memory t
        \<longleftrightarrow> t = TC_UserExplicit \<or> t = TC_UserConfirmedResult" for t
      by (cases t) (simp_all add: independently_authorizes_procedural_memory_def)
    ultimately show ?thesis
      using that by (simp add: list_ex_iff) blast
  qed
qed

text \<open>
  A procedure becomes eligible only on independent user authority: the candidate is named, every
  step uses a listed capability, the evidence supplied is exactly the evidence it references, without
  duplicates, and at least one referenced item was stated or confirmed by the user.
\<close>
lemma promotion_requires_user_evidence:
  "promotion_evaluate candidate items = EligibleForPolicyReview \<longleftrightarrow>
     trim (pcd_name candidate) \<noteq> [] \<and> pcd_capabilities candidate \<noteq> [] \<and> pcd_steps candidate \<noteq> []
     \<and> list_all (\<lambda>s. ar_capability_id s \<in> set (pcd_capabilities candidate)) (pcd_steps candidate)
     \<and> distinct (pcd_evidence_ids candidate) \<and> distinct (map ev_id items)
     \<and> ev_id ` set items = set (pcd_evidence_ids candidate)
     \<and> list_ex (\<lambda>e. ev_trust e = TC_UserExplicit \<or> ev_trust e = TC_UserConfirmedResult) items"
proof -
  show ?thesis
  proof (cases "supply_evidence items []")
    case None
    then have "\<not> distinct (map ev_id items)"
      using supply_evidence_total [of items "[]"] by (auto simp: bt.get_empty)
    then show ?thesis using None by (auto simp: promotion_evaluate_def)
  next
    case (Some m)
    note ids = supplied_exactly(2) [OF Some, of "pcd_evidence_ids candidate"]
      and auth = supplied_exactly(3) [OF Some, of "pcd_evidence_ids candidate"]
    show ?thesis
      using Some ids auth supplied_exactly(1) [OF Some]
      by (auto simp: promotion_evaluate_def Let_def list_ex_iff list_all_iff)
  qed
qed

text \<open>
  An intent is resolved only when it stands out: whatever the floating-point primitives do, the
  candidates are distinct entities in order of descending score, only the first 512 events that are
  not expired count, a resolved candidate has at least 650 permille and leads every other candidate
  by at least 120, and an ambiguous result offers at most five candidates.
\<close>
lemma resolve_needs_clear_winner:
  "distinct (map ic_entity_id (score F (BehaviourScorer_new h) events now))
   \<and> sorted (map candidate_key (score F (BehaviourScorer_new h) events now))
   \<and> resolve F (BehaviourScorer_new h) events now
     = resolve F (BehaviourScorer_new h)
         (filter (\<lambda>e. event_age now e \<le> DEFAULT_RETENTION_MS) (take DEFAULT_MAX_EVENTS events)) now
   \<and> (case resolve F (BehaviourScorer_new h) events now of
        Resolved c \<Rightarrow> c \<in> set (score F (BehaviourScorer_new h) events now) \<and> 650 \<le> ic_score_permille c
          \<and> list_all (\<lambda>c'. c' = c \<or> ic_score_permille c' + 120 \<le> ic_score_permille c)
              (score F (BehaviourScorer_new h) events now)
      | Ambiguous cs \<Rightarrow> cs \<noteq> [] \<and> length cs \<le> 5
          \<and> prefix cs (score F (BehaviourScorer_new h) events now)
      | Unknown \<Rightarrow> score F (BehaviourScorer_new h) events now = [])"
proof -
  let ?s = "BehaviourScorer_new h"
  let ?live = "filter (\<lambda>e. event_age now e \<le> DEFAULT_RETENTION_MS) (take DEFAULT_MAX_EVENTS events)"
  have "length ?live \<le> DEFAULT_MAX_EVENTS"
    by (rule order_trans [OF length_filter_le]) simp
  then have live: "score F ?s events now = score F ?s ?live now"
    by (simp add: score_def Let_def fold_score_expired [of F ?s now "take DEFAULT_MAX_EVENTS events"])
  have lead: "ic_score_permille c' \<le> ic_score_permille c"
    if "sorted (map candidate_key (c # cs))" "c' \<in> set (c # cs)" for c c' cs
    using that by (auto simp: candidate_key_def less_eq_prod_def)
  have "case resolve F ?s events now of
        Resolved c \<Rightarrow> c \<in> set (score F ?s events now) \<and> 650 \<le> ic_score_permille c
          \<and> list_all (\<lambda>c'. c' = c \<or> ic_score_permille c' + 120 \<le> ic_score_permille c) (score F ?s events now)
      | Ambiguous cs \<Rightarrow> cs \<noteq> [] \<and> length cs \<le> 5 \<and> prefix cs (score F ?s events now)
      | Unknown \<Rightarrow> score F ?s events now = []"
  proof (cases "score F ?s events now")
    case Nil
    then show ?thesis by (simp add: resolve_def)
  next
    case (Cons c cs)
    have sorted: "sorted (map candidate_key (c # cs))" using score_sorted [of F ?s events now] Cons by simp
    have runner: "ic_score_permille c' \<le> (case cs of [] \<Rightarrow> 0 | d # _ \<Rightarrow> ic_score_permille d)"
      if "c' \<in> set cs" for c'
      using that sorted lead by (cases cs) force+
    then show ?thesis
      using Cons
      by (fastforce simp: resolve_def Let_def BehaviourScorer_new_def list_all_iff take_is_prefix)
  qed
  then show ?thesis
    using score_distinct [of F ?s events now] score_sorted [of F ?s events now] live
    by (simp add: resolve_def)
qed

end
