(* ===== verification/Halquen_Records.thy ===== *)
theory Halquen_Records
  imports Halquen_Grants Halquen_Memory
begin

text \<open>
  The other tables of the authority layer (\<open>security.rs\<close> and \<open>runtime.rs\<close> of the storage crate):
  resource labels and the lookup of the label that classifies a resource, intent usage events with
  their retention, registered applications and agent configurations. Every operation checks the
  \<open>CHECK\<close> and \<open>UNIQUE\<close> constraints of its table as SQLite does.
\<close>

definition length_between :: "nat \<Rightarrow> nat \<Rightarrow> string \<Rightarrow> bool" where
  "length_between lo hi s = (lo \<le> sql_length s \<and> sql_length s \<le> hi)"

section \<open>Resource labels\<close>

definition label_to_row :: "resource_label \<Rightarrow> label_row" where
  "label_to_row label =
     \<lparr>lrw_id = rl_id label, lrw_name = rl_name label,
      lrw_resource_kind = encode_resource_kind (rl_resource_kind label),
      lrw_match_kind = encode_resource_match_kind (rl_match_kind label), lrw_pattern = rl_pattern label,
      lrw_classification = encode_resource_classification (rl_classification label),
      lrw_data_classification = encode_data_classification (rl_data_classification label),
      lrw_created_at_ms = rl_created_at_ms label, lrw_updated_at_ms = rl_updated_at_ms label\<rparr>"

definition resource_label_from_row :: "label_row \<Rightarrow> (storage_error, resource_label) result" where
  "resource_label_from_row row =
     and_then (map_err (\<lambda>_. conversion_error) (OpaqueId_new (lrw_id row))) (\<lambda>i.
     and_then (ok_or conversion_error (parse_resource_kind (lrw_resource_kind row))) (\<lambda>kind.
     and_then (ok_or conversion_error (parse_resource_match_kind (lrw_match_kind row))) (\<lambda>match_kind.
     and_then (ok_or conversion_error (parse_resource_classification (lrw_classification row))) (\<lambda>class.
     and_then (ok_or conversion_error (parse_data_classification (lrw_data_classification row))) (\<lambda>data.
     Inr \<lparr>rl_id = i, rl_name = lrw_name row, rl_resource_kind = kind, rl_match_kind = match_kind,
          rl_pattern = lrw_pattern row, rl_classification = class, rl_data_classification = data,
          rl_created_at_ms = lrw_created_at_ms row, rl_updated_at_ms = lrw_updated_at_ms row\<rparr>)))))"

definition label_check :: "label_row \<Rightarrow> bool" where
  "label_check row =
     (length_between 1 128 (lrw_name row) \<and> length_between 1 1024 (lrw_pattern row)
      \<and> lrw_created_at_ms row \<le> lrw_updated_at_ms row)"

definition label_unique_key :: "label_row \<Rightarrow> string \<times> string \<times> string" where
  "label_unique_key row = (lrw_resource_kind row, lrw_match_kind row, lrw_pattern row)"

definition merge_label :: "label_row \<Rightarrow> label_row \<Rightarrow> label_row" where
  "merge_label old new = new\<lparr>lrw_created_at_ms := lrw_created_at_ms old\<rparr>"

definition list_resource_labels :: "database \<Rightarrow> u16 \<Rightarrow> (storage_error, resource_label list) result" where
  "list_resource_labels db limit =
     collect_rows resource_label_from_row
       (take (min limit 200) (sort_key (\<lambda>r. (nocase (lrw_name r), lrw_id r)) (db_labels db)))"

definition upsert_resource_label :: "resource_label \<Rightarrow> unit db_op" where
  "upsert_resource_label label db =
     (if is_err (label_validate label) then (Inl (InvalidInteraction ''invalid resource label''), db)
      else
        let rows = upsert_row lrw_id merge_label (label_to_row label) (db_labels db) in
        if is_none_or label_check (row_of lrw_id rows (rl_id label)) \<and> distinct (map label_unique_key rows)
        then (Inr (), db\<lparr>db_labels := rows\<rparr>)
        else (Inl constraint_error, db))"

definition label_matches :: "string \<Rightarrow> string \<Rightarrow> label_row \<Rightarrow> bool" where
  "label_matches kind identifier row =
     (let pattern = lrw_pattern row in
      lrw_resource_kind row = kind
      \<and> ((lrw_match_kind row = ''exact'' \<and> pattern = identifier)
         \<or> (lrw_match_kind row = ''path_prefix''
            \<and> (pattern = identifier
               \<or> (sql_substr identifier 1 (sql_length pattern) = pattern
                  \<and> (sql_substr pattern (- 1) 1 = ''/''
                     \<or> sql_substr identifier (int (sql_length pattern) + 1) 1 = ''/''))))
         \<or> (lrw_match_kind row = ''host''
            \<and> (pattern = identifier
               \<or> (sql_length identifier > sql_length pattern
                  \<and> sql_substr identifier (- int (sql_length pattern)) (sql_length identifier) = pattern
                  \<and> sql_substr identifier (int (sql_length identifier) - int (sql_length pattern)) 1 = ''.'')))))"

definition label_priority :: "label_row \<Rightarrow> nat \<times> int \<times> string" where
  "label_priority row =
     (if lrw_match_kind row = ''exact'' then 0 else 1, - int (sql_length (lrw_pattern row)), lrw_id row)"

definition resource_label_for ::
  "database \<Rightarrow> resource_kind \<Rightarrow> string \<Rightarrow> (storage_error, resource_label option) result" where
  "resource_label_for db kind identifier =
     (case first_row (sort_key label_priority
             (filter (label_matches (encode_resource_kind kind) identifier) (db_labels db))) of
        None \<Rightarrow> Inr None
      | Some row \<Rightarrow> and_then (resource_label_from_row row) (\<lambda>label. Inr (Some label)))"

definition remove_resource_label :: "resource_label_id \<Rightarrow> bool db_op" where
  "remove_resource_label i db =
     (case delete_rows (\<lambda>r. lrw_id r = i) (db_labels db) of
        (rows, deleted) \<Rightarrow> (Inr (deleted = 1), db\<lparr>db_labels := rows\<rparr>))"

section \<open>Intent usage\<close>

definition usage_to_row :: "intent_usage_event \<Rightarrow> usage_row" where
  "usage_to_row event =
     \<lparr>urw_id = iu_id event, urw_intent = iu_intent event, urw_entity_id = iu_entity_id event,
      urw_outcome = encode_behaviour_outcome (iu_outcome event),
      urw_context_class = iu_context_class event, urw_created_at_ms = iu_created_at_ms event\<rparr>"

definition intent_usage_from_row :: "usage_row \<Rightarrow> (storage_error, intent_usage_event) result" where
  "intent_usage_from_row row =
     and_then (map_err (\<lambda>_. conversion_error) (OpaqueId_new (urw_id row))) (\<lambda>i.
     and_then (map_err (\<lambda>_. conversion_error) (OpaqueId_new (urw_entity_id row))) (\<lambda>entity.
     and_then (ok_or conversion_error (parse_behaviour_outcome (urw_outcome row))) (\<lambda>outcome.
     Inr \<lparr>iu_id = i, iu_intent = urw_intent row, iu_entity_id = entity, iu_outcome = outcome,
          iu_context_class = urw_context_class row, iu_created_at_ms = urw_created_at_ms row\<rparr>)))"

definition usage_check :: "usage_row \<Rightarrow> bool" where
  "usage_check row =
     (length_between 1 128 (urw_intent row) \<and> length_between 1 128 (urw_entity_id row)
      \<and> length_between 1 128 (urw_context_class row))"

text \<open>\<open>ORDER BY created_at_ms DESC, id DESC\<close>: the reverse of the ascending order.\<close>

definition usage_recent :: "usage_row list \<Rightarrow> usage_row list" where
  "usage_recent rows = rev (sort_key (\<lambda>r. (urw_created_at_ms r, urw_id r)) rows)"

definition usage_of :: "string \<Rightarrow> string \<Rightarrow> usage_row \<Rightarrow> bool" where
  "usage_of intent context_class r = (urw_intent r = intent \<and> urw_context_class r = context_class)"

definition prune_usage :: "string \<Rightarrow> string \<Rightarrow> i64 \<Rightarrow> usage_row list \<Rightarrow> usage_row list" where
  "prune_usage intent context_class cutoff rows =
     (let fresh = fst (delete_rows (\<lambda>r. urw_created_at_ms r < cutoff) rows);
          excess = drop DEFAULT_MAX_EVENTS (usage_recent (filter (usage_of intent context_class) fresh))
      in fst (delete_rows (\<lambda>r. urw_id r \<in> urw_id ` set excess) fresh))"

definition record_intent_usage :: "intent_usage_event \<Rightarrow> unit db_op" where
  "record_intent_usage event db =
     (if trim (iu_intent event) = [] \<or> length (iu_intent event) > 128
         \<or> trim (iu_context_class event) = [] \<or> length (iu_context_class event) > 128
      then (Inl (InvalidInteraction ''intent usage event is outside accepted bounds''), db)
      else
        let row = usage_to_row event in
        if list_ex (\<lambda>r. urw_id r = urw_id row) (db_usage db) \<or> \<not> usage_check row
        then (Inl constraint_error, db)
        else
          let cutoff = saturating_sub_i64 (iu_created_at_ms event) DEFAULT_RETENTION_MS in
          (Inr (), db\<lparr>db_usage :=
             prune_usage (iu_intent event) (iu_context_class event) cutoff (db_usage db @ [row])\<rparr>))"

definition recent_intent_usage ::
  "database \<Rightarrow> string \<Rightarrow> string \<Rightarrow> i64 \<Rightarrow> u16 \<Rightarrow> (storage_error, intent_usage_event list) result" where
  "recent_intent_usage db intent context_class since_ms limit =
     collect_rows intent_usage_from_row
       (take (min limit 512)
         (usage_recent (filter (\<lambda>r. usage_of intent context_class r \<and> urw_created_at_ms r \<ge> since_ms)
            (db_usage db))))"

section \<open>Registered applications\<close>

definition application_to_row :: "serde_json \<Rightarrow> registered_application \<Rightarrow> (storage_error, application_row) result" where
  "application_to_row J a =
     (let identity = ra_identity a in
      and_then (to_sqlite_u64 (ei_device identity)) (\<lambda>device.
      and_then (to_sqlite_u64 (ei_inode identity)) (\<lambda>inode.
      and_then (to_sqlite_u64 (ei_size identity)) (\<lambda>size.
      Inr \<lparr>arw_entity_id = ra_entity_id a, arw_display_name = ra_display_name a,
           arw_executable = ra_executable a, arw_arguments_json = sj_strings J (ra_arguments a),
           arw_ownership = encode_executable_ownership (ra_ownership a), arw_device = device,
           arw_inode = inode, arw_owner_uid = int (ei_owner_uid identity), arw_size = size,
           arw_mtime_seconds = ei_modified_seconds identity,
           arw_mtime_nanoseconds = ei_modified_nanoseconds identity,
           arw_sha256_hex = ei_sha256_hex identity, arw_enabled = ra_enabled a,
           arw_created_at_ms = ra_created_at_ms a, arw_updated_at_ms = ra_updated_at_ms a\<rparr>))))"

definition application_from_row :: "serde_json \<Rightarrow> application_row \<Rightarrow> (storage_error, registered_application) result" where
  "application_from_row J row =
     and_then (map_err (\<lambda>_. conversion_error) (OpaqueId_new (arw_entity_id row))) (\<lambda>entity.
     and_then (ok_or conversion_error (sj_parse_strings J (arw_arguments_json row))) (\<lambda>arguments.
     and_then (ok_or conversion_error (parse_executable_ownership (arw_ownership row))) (\<lambda>ownership.
     and_then (from_sqlite_u64 (arw_device row)) (\<lambda>device.
     and_then (from_sqlite_u64 (arw_inode row)) (\<lambda>inode.
     and_then (get_u32 (arw_owner_uid row)) (\<lambda>owner_uid.
     and_then (from_sqlite_u64 (arw_size row)) (\<lambda>size.
     Inr \<lparr>ra_entity_id = entity, ra_display_name = arw_display_name row, ra_executable = arw_executable row,
          ra_arguments = arguments, ra_ownership = ownership,
          ra_identity = \<lparr>ei_canonical_path = arw_executable row, ei_device = device, ei_inode = inode,
            ei_owner_uid = owner_uid, ei_size = size, ei_modified_seconds = arw_mtime_seconds row,
            ei_modified_nanoseconds = arw_mtime_nanoseconds row, ei_sha256_hex = arw_sha256_hex row\<rparr>,
          ra_enabled = arw_enabled row, ra_created_at_ms = arw_created_at_ms row,
          ra_updated_at_ms = arw_updated_at_ms row\<rparr>)))))))"

definition application_check :: "application_row \<Rightarrow> bool" where
  "application_check row =
     (prefix ''app:'' (nocase (arw_entity_id row)) \<and> sql_length (arw_entity_id row) \<le> 128
      \<and> length_between 1 128 (arw_display_name row) \<and> length_between 1 1024 (arw_executable row)
      \<and> sql_length (arw_arguments_json row) \<le> 32768
      \<and> 0 \<le> arw_mtime_nanoseconds row \<and> arw_mtime_nanoseconds row \<le> 999999999
      \<and> is_none_or (\<lambda>hex. sql_length hex = 64) (arw_sha256_hex row)
      \<and> arw_created_at_ms row \<le> arw_updated_at_ms row)"

definition merge_application :: "application_row \<Rightarrow> application_row \<Rightarrow> application_row" where
  "merge_application old new = new\<lparr>arw_created_at_ms := arw_created_at_ms old\<rparr>"

definition list_registered_applications ::
  "serde_json \<Rightarrow> database \<Rightarrow> u16 \<Rightarrow> (storage_error, registered_application list) result" where
  "list_registered_applications J db limit =
     collect_rows (application_from_row J)
       (take (min limit 200)
         (sort_key (\<lambda>r. (nocase (arw_display_name r), arw_entity_id r)) (db_applications db)))"

definition upsert_registered_application :: "serde_json \<Rightarrow> registered_application \<Rightarrow> unit db_op" where
  "upsert_registered_application J application db =
     (if is_err (application_validate application)
      then (Inl (InvalidInteraction ''invalid application registration''), db)
      else case application_to_row J application of
        Inl e \<Rightarrow> (Inl e, db)
      | Inr row \<Rightarrow>
          let rows = upsert_row arw_entity_id merge_application row (db_applications db) in
          if is_none_or application_check (row_of arw_entity_id rows (ra_entity_id application))
             \<and> distinct (map arw_executable rows)
          then (Inr (), db\<lparr>db_applications := rows\<rparr>)
          else (Inl constraint_error, db))"

definition remove_registered_application :: "entity_id \<Rightarrow> bool db_op" where
  "remove_registered_application entity_id db =
     (case delete_rows (\<lambda>r. arw_entity_id r = entity_id) (db_applications db) of
        (rows, deleted) \<Rightarrow> (Inr (deleted = 1), db\<lparr>db_applications := rows\<rparr>))"

section \<open>Agent configurations\<close>

definition agent_to_row :: "serde_json \<Rightarrow> agent_configuration \<Rightarrow> (storage_error, agent_row) result" where
  "agent_to_row J agent =
     (let limits = ag_resource_limits agent; identity = ag_executable_identity agent;
          column = (\<lambda>f. case identity of None \<Rightarrow> Inr None
                     | Some i \<Rightarrow> and_then (to_sqlite_u64 (f i)) (\<lambda>v. Inr (Some v))) in
      if int (ag_timeout_ms agent) > i64_max
      then Inl (InvalidInteraction ''agent timeout exceeds SQLite range'')
      else
      and_then (column ei_device) (\<lambda>device.
      and_then (column ei_inode) (\<lambda>inode.
      and_then (column ei_size) (\<lambda>size.
      and_then (to_sqlite_u64 (lim_memory_bytes limits)) (\<lambda>memory.
      and_then (to_sqlite_u64 (lim_file_size_bytes limits)) (\<lambda>file_size.
      and_then (to_sqlite_u64 (lim_temp_bytes limits)) (\<lambda>temp.
      Inr \<lparr>grw_id = ag_id agent, grw_name = ag_name agent,
           grw_transport = encode_agent_transport (ag_transport agent),
           grw_executable = ag_executable agent, grw_arguments_json = sj_strings J (ag_arguments agent),
           grw_socket_path = ag_socket_path agent, grw_sandbox = encode_sandbox_backend (ag_sandbox agent),
           grw_ownership = encode_executable_ownership (ag_ownership agent),
           grw_device = device, grw_inode = inode,
           grw_owner_uid = map_option (\<lambda>i. int (ei_owner_uid i)) identity, grw_size = size,
           grw_mtime_seconds = map_option ei_modified_seconds identity,
           grw_mtime_nanoseconds = map_option ei_modified_nanoseconds identity,
           grw_sha256_hex = Option.bind identity ei_sha256_hex,
           grw_cpu_seconds = int (lim_cpu_seconds limits), grw_memory_bytes = memory,
           grw_process_count = int (lim_process_count limits), grw_file_size_bytes = file_size,
           grw_open_files = int (lim_open_files limits), grw_temp_bytes = temp,
           grw_enabled = ag_enabled agent, grw_timeout_ms = int (ag_timeout_ms agent),
           grw_max_stdout_bytes = int (ag_max_stdout_bytes agent),
           grw_max_stderr_bytes = int (ag_max_stderr_bytes agent),
           grw_created_at_ms = ag_created_at_ms agent, grw_updated_at_ms = ag_updated_at_ms agent\<rparr>)))))))"

text \<open>A column that is read as a non-optional value fails on null.\<close>

definition not_null :: "'a option \<Rightarrow> (storage_error, 'a) result" where
  "not_null column = ok_or conversion_error column"

definition agent_identity_from_row :: "agent_row \<Rightarrow> (storage_error, executable_identity option) result" where
  "agent_identity_from_row row =
     (case grw_device row of
        None \<Rightarrow> Inr None
      | Some device \<Rightarrow>
          and_then (from_sqlite_u64 device) (\<lambda>device.
          and_then (and_then (not_null (grw_inode row)) from_sqlite_u64) (\<lambda>inode.
          and_then (and_then (not_null (grw_owner_uid row)) get_u32) (\<lambda>owner_uid.
          and_then (and_then (not_null (grw_size row)) from_sqlite_u64) (\<lambda>size.
          and_then (not_null (grw_mtime_seconds row)) (\<lambda>seconds.
          and_then (not_null (grw_mtime_nanoseconds row)) (\<lambda>nanoseconds.
          Inr (Some \<lparr>ei_canonical_path = grw_executable row, ei_device = device, ei_inode = inode,
            ei_owner_uid = owner_uid, ei_size = size, ei_modified_seconds = seconds,
            ei_modified_nanoseconds = nanoseconds, ei_sha256_hex = grw_sha256_hex row\<rparr>))))))))"

definition agent_limits_from_row :: "agent_row \<Rightarrow> (storage_error, agent_resource_limits) result" where
  "agent_limits_from_row row =
     and_then (get_u32 (grw_cpu_seconds row)) (\<lambda>cpu.
     and_then (from_sqlite_u64 (grw_memory_bytes row)) (\<lambda>memory.
     and_then (get_u32 (grw_process_count row)) (\<lambda>processes.
     and_then (from_sqlite_u64 (grw_file_size_bytes row)) (\<lambda>file_size.
     and_then (get_u32 (grw_open_files row)) (\<lambda>open_files.
     and_then (from_sqlite_u64 (grw_temp_bytes row)) (\<lambda>temp.
     Inr \<lparr>lim_cpu_seconds = cpu, lim_memory_bytes = memory, lim_process_count = processes,
          lim_file_size_bytes = file_size, lim_open_files = open_files, lim_temp_bytes = temp\<rparr>))))))"

definition agent_from_row :: "serde_json \<Rightarrow> agent_row \<Rightarrow> (storage_error, agent_configuration) result" where
  "agent_from_row J row =
     and_then (agent_identity_from_row row) (\<lambda>identity.
     and_then (from_sqlite_u64 (grw_timeout_ms row)) (\<lambda>timeout_ms.
     and_then (map_err (\<lambda>_. conversion_error) (OpaqueId_new (grw_id row))) (\<lambda>i.
     and_then (ok_or conversion_error (parse_agent_transport (grw_transport row))) (\<lambda>transport.
     and_then (ok_or conversion_error (sj_parse_strings J (grw_arguments_json row))) (\<lambda>arguments.
     and_then (ok_or conversion_error (parse_sandbox_backend (grw_sandbox row))) (\<lambda>sandbox.
     and_then (ok_or conversion_error (parse_executable_ownership (grw_ownership row))) (\<lambda>ownership.
     and_then (agent_limits_from_row row) (\<lambda>limits.
     and_then (get_u32 (grw_max_stdout_bytes row)) (\<lambda>max_stdout.
     and_then (get_u32 (grw_max_stderr_bytes row)) (\<lambda>max_stderr.
     Inr \<lparr>ag_id = i, ag_name = grw_name row, ag_transport = transport, ag_executable = grw_executable row,
          ag_arguments = arguments, ag_socket_path = grw_socket_path row, ag_sandbox = sandbox,
          ag_ownership = ownership, ag_executable_identity = identity, ag_resource_limits = limits,
          ag_enabled = grw_enabled row, ag_timeout_ms = timeout_ms, ag_max_stdout_bytes = max_stdout,
          ag_max_stderr_bytes = max_stderr, ag_created_at_ms = grw_created_at_ms row,
          ag_updated_at_ms = grw_updated_at_ms row\<rparr>))))))))))"

definition agent_check :: "agent_row \<Rightarrow> bool" where
  "agent_check row =
     (length_between 1 128 (grw_name row) \<and> sql_length (grw_executable row) \<le> 1024
      \<and> sql_length (grw_arguments_json row) \<le> 32768
      \<and> is_none_or (\<lambda>p. sql_length p \<le> 1024) (grw_socket_path row)
      \<and> is_none_or (\<lambda>hex. sql_length hex = 64) (grw_sha256_hex row)
      \<and> 100 \<le> grw_timeout_ms row \<and> grw_timeout_ms row \<le> 300000
      \<and> 1024 \<le> grw_max_stdout_bytes row \<and> grw_max_stdout_bytes row \<le> 1048576
      \<and> 1024 \<le> grw_max_stderr_bytes row \<and> grw_max_stderr_bytes row \<le> 1048576
      \<and> 1 \<le> grw_cpu_seconds row \<and> grw_cpu_seconds row \<le> 300
      \<and> 16777216 \<le> grw_memory_bytes row \<and> grw_memory_bytes row \<le> 8589934592
      \<and> 1 \<le> grw_process_count row \<and> grw_process_count row \<le> 1024
      \<and> 1024 \<le> grw_file_size_bytes row \<and> grw_file_size_bytes row \<le> 1073741824
      \<and> 16 \<le> grw_open_files row \<and> grw_open_files row \<le> 4096
      \<and> 1048576 \<le> grw_temp_bytes row \<and> grw_temp_bytes row \<le> 1073741824
      \<and> grw_created_at_ms row \<le> grw_updated_at_ms row)"

definition merge_agent :: "agent_row \<Rightarrow> agent_row \<Rightarrow> agent_row" where
  "merge_agent old new = new\<lparr>grw_created_at_ms := grw_created_at_ms old\<rparr>"

definition list_agents :: "serde_json \<Rightarrow> database \<Rightarrow> u16 \<Rightarrow> (storage_error, agent_configuration list) result" where
  "list_agents J db limit =
     collect_rows (agent_from_row J)
       (take (min limit 100) (sort_key (\<lambda>r. (nocase (grw_name r), grw_id r)) (db_agents db)))"

definition upsert_agent :: "serde_json \<Rightarrow> agent_configuration \<Rightarrow> unit db_op" where
  "upsert_agent J agent db =
     (if is_err (agent_validate agent) then (Inl (InvalidInteraction ''invalid agent configuration''), db)
      else case agent_to_row J agent of
        Inl e \<Rightarrow> (Inl e, db)
      | Inr row \<Rightarrow>
          let rows = upsert_row grw_id merge_agent row (db_agents db) in
          if is_none_or agent_check (row_of grw_id rows (ag_id agent)) then (Inr (), db\<lparr>db_agents := rows\<rparr>)
          else (Inl constraint_error, db))"

definition remove_agent :: "agent_id \<Rightarrow> bool db_op" where
  "remove_agent i db =
     (case delete_rows (\<lambda>r. grw_id r = i) (db_agents db) of
        (rows, deleted) \<Rightarrow> (Inr (deleted = 1), db\<lparr>db_agents := rows\<rparr>))"

section \<open>Tables with a primary key\<close>

interpretation labels: keyed_rows lrw_id merge_label
  by unfold_locales (simp add: merge_label_def)

interpretation applications: keyed_rows arw_entity_id merge_application
  by unfold_locales (simp add: merge_application_def)

interpretation agents: keyed_rows grw_id merge_agent
  by unfold_locales (simp add: merge_agent_def)

section \<open>Label matching\<close>

text \<open>What a label says it covers: one identifier, a directory tree, or a domain with its subdomains.\<close>

fun covers :: "resource_match_kind \<Rightarrow> string \<Rightarrow> string \<Rightarrow> bool" where
  "covers Match_Exact pattern identifier = (identifier = pattern)"
| "covers Match_PathPrefix pattern identifier =
     (identifier = pattern
      \<or> (pattern \<noteq> [] \<and> last pattern = CHR ''/'' \<and> prefix pattern identifier)
      \<or> prefix (pattern @ ''/'') identifier)"
| "covers Match_Host pattern identifier =
     (identifier = pattern \<or> suffix (CHR ''.'' # pattern) identifier)"

lemma take_1_drop: "take (Suc 0) (drop n xs) = [c] \<longleftrightarrow> n < length xs \<and> xs ! n = c"
  by (cases "n < length xs") (auto simp: take_Suc_conv_app_nth hd_drop_conv_nth take_Suc)

lemma path_prefix_iff:
  assumes "ascii_text pattern" and "ascii_text identifier" and "pattern \<noteq> []"
  shows "sql_substr identifier 1 (sql_length pattern) = pattern
      \<and> (sql_substr pattern (- 1) 1 = ''/'' \<or> sql_substr identifier (int (sql_length pattern) + 1) 1 = ''/'')
    \<longleftrightarrow> (last pattern = CHR ''/'' \<and> prefix pattern identifier) \<or> prefix (pattern @ ''/'') identifier"
proof -
  have pre: "take (length pattern) identifier = pattern \<longleftrightarrow> prefix pattern identifier"
    by (metis prefix_def append_eq_conv_conj append_take_drop_id)
  have last_char: "sql_substr pattern (- 1) 1 = [last pattern]"
    using assms(1,3) by (cases pattern rule: rev_cases) (simp_all add: sql_simps)
  have next_char: "prefix pattern identifier \<Longrightarrow>
      take (Suc 0) (drop (length pattern) identifier) = ''/'' \<longleftrightarrow> prefix (pattern @ ''/'') identifier"
    by (auto simp: prefix_def) (metis append_take_drop_id append_Cons append_Nil)
  have "prefix (pattern @ ''/'') identifier \<Longrightarrow> prefix pattern identifier" by (rule append_prefixD)
  then show ?thesis
    using pre last_char next_char assms(1,2) by (auto simp: sql_simps nat_add_distrib)
qed

lemma host_suffix_iff:
  assumes "ascii_text pattern" and "ascii_text identifier" and "pattern \<noteq> []"
  shows "sql_length identifier > sql_length pattern
      \<and> sql_substr identifier (- int (sql_length pattern)) (sql_length identifier) = pattern
      \<and> sql_substr identifier (int (sql_length identifier) - int (sql_length pattern)) 1 = ''.''
    \<longleftrightarrow> suffix (CHR ''.'' # pattern) identifier"
proof -
  let ?n = "length identifier" and ?m = "length pattern"
  have pos: "0 < ?m" using assms(3) by simp
  have "suffix (CHR ''.'' # pattern) identifier \<longleftrightarrow>
      ?m < ?n \<and> drop (?n - ?m) identifier = pattern \<and> take 1 (drop (?n - Suc ?m) identifier) = ''.''"
  proof
    assume "suffix (CHR ''.'' # pattern) identifier"
    then show "?m < ?n \<and> drop (?n - ?m) identifier = pattern \<and> take 1 (drop (?n - Suc ?m) identifier) = ''.''"
      by (auto simp: suffix_def)
  next
    assume r: "?m < ?n \<and> drop (?n - ?m) identifier = pattern \<and> take 1 (drop (?n - Suc ?m) identifier) = ''.''"
    have "drop (?n - Suc ?m) identifier = take 1 (drop (?n - Suc ?m) identifier) @ drop 1 (drop (?n - Suc ?m) identifier)"
      by (rule append_take_drop_id [symmetric])
    also have "drop 1 (drop (?n - Suc ?m) identifier) = pattern"
      using r by (simp add: Suc_diff_Suc)
    finally have "drop (?n - Suc ?m) identifier = CHR ''.'' # pattern" using r by simp
    then show "suffix (CHR ''.'' # pattern) identifier" by (metis suffix_drop)
  qed
  moreover have "?m < ?n \<Longrightarrow> sql_substr identifier (- int ?m) ?n = drop (?n - ?m) identifier"
    using assms(2) pos by (simp add: sql_ascii(3) flip: of_nat_diff)
  moreover have "?m < ?n \<Longrightarrow> sql_substr identifier (int ?n - int ?m) 1 = take 1 (drop (?n - Suc ?m) identifier)"
    using assms(2) by (subst sql_ascii(2)) (auto simp: nat_diff_distrib')
  ultimately show ?thesis using assms(1,2) by (auto simp: sql_ascii(1))
qed

lemma label_matches_iff:
  assumes "ascii_text (rl_pattern l)" and "ascii_text identifier" and "rl_pattern l \<noteq> []"
  shows "label_matches (encode_resource_kind kind) identifier (label_to_row l) \<longleftrightarrow>
    rl_resource_kind l = kind \<and> covers (rl_match_kind l) (rl_pattern l) identifier"
  using path_prefix_iff [OF assms] host_suffix_iff [OF assms] assms(3)
  by (cases "rl_match_kind l")
    (auto simp: label_matches_def label_to_row_def resource_kind_codec.encode_inject)

lemma label_row_decodes:
  "OpaqueId_new (rl_id l) = Inr (rl_id l) \<Longrightarrow> resource_label_from_row (label_to_row l) = Inr l"
  by (simp add: resource_label_from_row_def label_to_row_def resource_kind_codec.parse_encode
      resource_match_kind_codec.parse_encode resource_classification_codec.parse_encode
      data_classification_codec.parse_encode)

section \<open>Retention\<close>

lemma prune_usage_subset: "set (prune_usage i c cutoff rows) \<subseteq> set rows"
  by (auto simp: prune_usage_def delete_rows_def Let_def)

lemma distinct_usage_recent: "distinct (map urw_id rows) \<Longrightarrow> distinct (map urw_id (usage_recent rows))"
  by (simp add: usage_recent_def distinct_map rev_map [symmetric])

lemma prune_usage_bound:
  assumes "distinct (map urw_id rows)"
  shows "length (filter (usage_of i c) (prune_usage i c cutoff rows)) \<le> DEFAULT_MAX_EVENTS"
proof -
  let ?fresh = "filter (\<lambda>r. \<not> urw_created_at_ms r < cutoff) rows"
  let ?group = "usage_recent (filter (usage_of i c) ?fresh)"
  have dist: "distinct (map urw_id ?fresh)" using assms by (simp add: distinct_map_filter)
  then have dg: "distinct (map urw_id ?group)"
    using assms by (intro distinct_usage_recent) (simp add: distinct_map_filter)
  have set_g: "set ?group = set (filter (usage_of i c) ?fresh)" by (simp add: usage_recent_def)
  have "set (filter (usage_of i c) (prune_usage i c cutoff rows)) \<subseteq> set (take DEFAULT_MAX_EVENTS ?group)"
  proof
    fix r assume "r \<in> set (filter (usage_of i c) (prune_usage i c cutoff rows))"
    then have r: "r \<in> set ?group" "urw_id r \<notin> urw_id ` set (drop DEFAULT_MAX_EVENTS ?group)"
      using set_g by (auto simp: prune_usage_def delete_rows_def Let_def)
    then show "r \<in> set (take DEFAULT_MAX_EVENTS ?group)"
      by (metis Un_iff append_take_drop_id imageI set_append)
  qed
  moreover have "distinct (filter (usage_of i c) (prune_usage i c cutoff rows))"
    using assms by (simp add: prune_usage_def delete_rows_def Let_def distinct_map)
  ultimately have "length (filter (usage_of i c) (prune_usage i c cutoff rows))
      \<le> length (take DEFAULT_MAX_EVENTS ?group)"
    by (metis (no_types, lifting) List.finite_set card_length card_mono distinct_card order_trans)
  then show ?thesis by simp
qed

lemma prune_usage_keeps_others:
  "r \<in> set rows \<Longrightarrow> \<not> usage_of i c r \<Longrightarrow> cutoff \<le> urw_created_at_ms r \<Longrightarrow> distinct (map urw_id rows) \<Longrightarrow>
   r \<in> set (prune_usage i c cutoff rows)"
  by (auto simp: prune_usage_def delete_rows_def Let_def usage_recent_def distinct_map
      dest!: in_set_dropD inj_onD)

section \<open>Applications and agents read back\<close>

lemma application_row_decodes:
  assumes "serde_faithful J" and "OpaqueId_new (ra_entity_id a) = Inr (ra_entity_id a)"
    and "application_validate a = Inr ()" and "ei_owner_uid (ra_identity a) \<le> u32_max"
    and "application_to_row J a = Inr row"
  shows "application_from_row J row = Inr a"
proof -
  have path: "ei_canonical_path (ra_identity a) = ra_executable a"
    using assms(3) by (auto simp: application_validate_def split: if_splits)
  show ?thesis
    using assms(1,2,4,5) path
    by (auto simp: application_to_row_def application_from_row_def Let_def and_then_Inr_iff serde_faithful_def
        executable_ownership_codec.parse_encode sqlite_u64_roundtrip)
qed

lemma agent_identity_decodes:
  assumes "agent_to_row J a = Inr row"
    and "is_none_or (\<lambda>i. ei_canonical_path i = ag_executable a \<and> ei_owner_uid i \<le> u32_max) (ag_executable_identity a)"
  shows "agent_identity_from_row row = Inr (ag_executable_identity a)"
  using assms
  by (cases "ag_executable_identity a")
    (auto simp: agent_to_row_def agent_identity_from_row_def Let_def and_then_Inr_iff not_null_def
      sqlite_u64_roundtrip split: if_splits)

lemma agent_limits_decode:
  assumes "agent_to_row J a = Inr row" and "limits_validate (ag_resource_limits a)"
  shows "agent_limits_from_row row = Inr (ag_resource_limits a)"
proof -
  have "lim_cpu_seconds (ag_resource_limits a) \<le> u32_max" "lim_process_count (ag_resource_limits a) \<le> u32_max"
    "lim_open_files (ag_resource_limits a) \<le> u32_max"
    using assms(2) by (auto simp: limits_validate_def u32_max_def)
  then show ?thesis
    using assms(1)
    by (auto simp: agent_to_row_def agent_limits_from_row_def Let_def and_then_Inr_iff
        sqlite_u64_roundtrip split: if_splits)
qed

lemma agent_row_decodes:
  assumes "serde_faithful J" and "OpaqueId_new (ag_id a) = Inr (ag_id a)" and "agent_validate a = Inr ()"
    and "is_none_or (\<lambda>i. ei_canonical_path i = ag_executable a \<and> ei_owner_uid i \<le> u32_max) (ag_executable_identity a)"
    and "agent_to_row J a = Inr row"
  shows "agent_from_row J row = Inr a"
proof -
  have lim: "limits_validate (ag_resource_limits a)" "ag_max_stdout_bytes a \<le> u32_max"
    "ag_max_stderr_bytes a \<le> u32_max"
    using assms(3) by (auto simp: agent_validate_def Let_def u32_max_def split: if_splits)
  have cols: "grw_id row = ag_id a" "grw_name row = ag_name a" "grw_executable row = ag_executable a"
    "grw_transport row = encode_agent_transport (ag_transport a)"
    "grw_arguments_json row = sj_strings J (ag_arguments a)" "grw_socket_path row = ag_socket_path a"
    "grw_sandbox row = encode_sandbox_backend (ag_sandbox a)"
    "grw_ownership row = encode_executable_ownership (ag_ownership a)" "grw_enabled row = ag_enabled a"
    "grw_timeout_ms row = int (ag_timeout_ms a)" "grw_max_stdout_bytes row = int (ag_max_stdout_bytes a)"
    "grw_max_stderr_bytes row = int (ag_max_stderr_bytes a)"
    "grw_created_at_ms row = ag_created_at_ms a" "grw_updated_at_ms row = ag_updated_at_ms a"
    using assms(5) by (auto simp: agent_to_row_def Let_def and_then_Inr_iff split: if_splits)
  show ?thesis
    using assms(1,2) lim(2,3)
    by (simp add: agent_from_row_def cols agent_identity_decodes [OF assms(5,4)]
        agent_limits_decode [OF assms(5) lim(1)] from_sqlite_u64_def serde_faithful_def
        agent_transport_codec.parse_encode sandbox_backend_codec.parse_encode
        executable_ownership_codec.parse_encode)
qed

section \<open>Properties\<close>

text \<open>
  The label that classifies a resource is the most specific one: for printable ASCII labels, the
  lookup returns nothing exactly if no label of the kind covers the identifier; otherwise it returns
  a covering label, an exact one if there is any, else one with the longest pattern.
\<close>
lemma label_lookup_most_specific:
  assumes "db_labels db = map label_to_row labels" and "ascii_text identifier"
    and "list_all (\<lambda>l. ascii_text (rl_pattern l) \<and> rl_pattern l \<noteq> [] \<and> OpaqueId_new (rl_id l) = Inr (rl_id l)) labels"
  shows "\<exists>found. resource_label_for db kind identifier = Inr found
    \<and> (case found of
         None \<Rightarrow> list_all (\<lambda>l. \<not> (rl_resource_kind l = kind
                   \<and> covers (rl_match_kind l) (rl_pattern l) identifier)) labels
       | Some l \<Rightarrow> l \<in> set labels \<and> rl_resource_kind l = kind
           \<and> covers (rl_match_kind l) (rl_pattern l) identifier
           \<and> list_all (\<lambda>m. if rl_resource_kind m = kind \<and> covers (rl_match_kind m) (rl_pattern m) identifier
                            then rl_match_kind l = Match_Exact
                              \<or> (rl_match_kind m \<noteq> Match_Exact \<and> length (rl_pattern m) \<le> length (rl_pattern l))
                            else True) labels)"
proof -
  let ?rows = "filter (label_matches (encode_resource_kind kind) identifier) (db_labels db)"
  have match: "label_matches (encode_resource_kind kind) identifier (label_to_row l) \<longleftrightarrow>
      rl_resource_kind l = kind \<and> covers (rl_match_kind l) (rl_pattern l) identifier" if "l \<in> set labels" for l
    using label_matches_iff assms(2,3) that by (simp add: list_all_iff)
  show ?thesis
  proof (cases "first_row (sort_key label_priority ?rows)")
    case None
    then have "\<forall>l \<in> set labels. \<not> label_matches (encode_resource_kind kind) identifier (label_to_row l)"
      by (simp only: first_row_filter_None assms(1)) simp
    with None match show ?thesis by (simp add: resource_label_for_def list_all_iff)
  next
    case (Some row)
    obtain l where l: "l \<in> set labels" "row = label_to_row l"
      "label_matches (encode_resource_kind kind) identifier row"
      using first_row_sorted_filter [OF Some] assms(1) by auto
    have "rl_match_kind l = Match_Exact
        \<or> (rl_match_kind m \<noteq> Match_Exact \<and> length (rl_pattern m) \<le> length (rl_pattern l))"
      if m: "m \<in> set labels" "rl_resource_kind m = kind" "covers (rl_match_kind m) (rl_pattern m) identifier" for m
    proof -
      have "label_to_row m \<in> set ?rows" using m match [OF m(1)] assms(1) by simp
      from first_row_sorted_least [OF Some this]
      have "label_priority (label_to_row l) \<le> label_priority (label_to_row m)" by (simp add: l(2))
      moreover have "sql_length (rl_pattern l) = length (rl_pattern l)" "sql_length (rl_pattern m) = length (rl_pattern m)"
        using assms(3) l(1) m(1) by (simp_all add: list_all_iff sql_ascii(1))
      ultimately show ?thesis
        by (cases "rl_match_kind l"; cases "rl_match_kind m")
          (auto simp: label_priority_def label_to_row_def less_eq_prod_def)
    qed
    moreover have "resource_label_from_row row = Inr l"
      using label_row_decodes assms(3) l(1,2) by (simp add: list_all_iff)
    ultimately show ?thesis
      using Some l match [OF l(1)] by (simp add: resource_label_for_def list_all_iff)
  qed
qed

definition example_label :: "string \<Rightarrow> resource_match_kind \<Rightarrow> string \<Rightarrow> resource_label" where
  "example_label i match_kind pattern =
     \<lparr>rl_id = i, rl_name = ''label'', rl_resource_kind = RK_File, rl_match_kind = match_kind,
      rl_pattern = pattern, rl_classification = RC_Secret, rl_data_classification = DC_Secret,
      rl_created_at_ms = 0, rl_updated_at_ms = 0\<rparr>"

text \<open>
  Behaviour history is bounded: after an event is recorded, at most 512 events of its intent and
  context remain, no event older than the retention window before the new one remains, nothing is
  invented, and the fresh events of every other intent and context are kept.
\<close>
lemma usage_history_bounded:
  assumes "distinct (map urw_id (db_usage db))" and "record_intent_usage event db = (Inr (), db')"
  shows "distinct (map urw_id (db_usage db'))
    \<and> length (filter (usage_of (iu_intent event) (iu_context_class event)) (db_usage db')) \<le> 512
    \<and> list_all (\<lambda>r. urw_created_at_ms r \<ge> saturating_sub_i64 (iu_created_at_ms event) DEFAULT_RETENTION_MS)
        (db_usage db')
    \<and> set (db_usage db') \<subseteq> insert (usage_to_row event) (set (db_usage db))
    \<and> list_all (\<lambda>r. if \<not> usage_of (iu_intent event) (iu_context_class event) r
           \<and> saturating_sub_i64 (iu_created_at_ms event) DEFAULT_RETENTION_MS \<le> urw_created_at_ms r
         then r \<in> set (db_usage db') else True) (db_usage db)"
proof -
  let ?i = "iu_intent event" and ?c = "iu_context_class event"
  let ?cutoff = "saturating_sub_i64 (iu_created_at_ms event) DEFAULT_RETENTION_MS"
  let ?rows = "db_usage db @ [usage_to_row event]"
  have usage: "db_usage db' = prune_usage ?i ?c ?cutoff ?rows" and "iu_id event \<notin> urw_id ` set (db_usage db)"
    using assms(2) by (auto simp: record_intent_usage_def Let_def list_ex_iff usage_to_row_def split: if_splits)
  then have dist: "distinct (map urw_id ?rows)" using assms(1) by (simp add: usage_to_row_def)
  have "length (filter (usage_of ?i ?c) (db_usage db')) \<le> 512"
    using prune_usage_bound [OF dist] usage by (simp add: DEFAULT_MAX_EVENTS_def)
  moreover have "distinct (map urw_id (db_usage db'))"
    using dist unfolding usage prune_usage_def delete_rows_def Let_def fst_conv
    by (intro distinct_map_filter)
  moreover have "list_all (\<lambda>r. urw_created_at_ms r \<ge> ?cutoff) (db_usage db')"
    by (auto simp: usage prune_usage_def delete_rows_def Let_def list_all_iff)
  moreover have "set (db_usage db') \<subseteq> insert (usage_to_row event) (set (db_usage db))"
    using prune_usage_subset [of ?i ?c ?cutoff ?rows] by (simp add: usage)
  moreover have "r \<in> set (db_usage db')"
    if "r \<in> set (db_usage db)" "\<not> usage_of ?i ?c r" "?cutoff \<le> urw_created_at_ms r" for r
    using prune_usage_keeps_others [OF _ that(2,3) dist] that(1) by (simp add: usage)
  ultimately show ?thesis by (simp add: list_all_iff)
qed

lemma application_upsert_rows:
  assumes "serde_faithful J" and "OpaqueId_new (ra_entity_id a) = Inr (ra_entity_id a)"
    and "ei_owner_uid (ra_identity a) \<le> u32_max"
    and "upsert_registered_application J a db = (Inr (), db')"
  shows "map_option (application_from_row J) (row_of arw_entity_id (db_applications db') (ra_entity_id a))
      = Some (Inr (a\<lparr>ra_created_at_ms := (case row_of arw_entity_id (db_applications db) (ra_entity_id a) of
          None \<Rightarrow> ra_created_at_ms a | Some old \<Rightarrow> arw_created_at_ms old)\<rparr>))
    \<and> (if i = ra_entity_id a then True
       else row_of arw_entity_id (db_applications db') i = row_of arw_entity_id (db_applications db) i)"
proof -
  obtain row where row: "application_to_row J a = Inr row" "application_validate a = Inr ()"
    "db_applications db' = upsert_row arw_entity_id merge_application row (db_applications db)"
    using assms(4)
    by (auto simp: upsert_registered_application_def Let_def not_is_err_unit split: if_splits sum.splits)
  have key: "arw_entity_id row = ra_entity_id a"
    using row(1) by (auto simp: application_to_row_def Let_def and_then_Inr_iff)
  have dec: "application_from_row J row = Inr a"
    by (rule application_row_decodes [OF assms(1,2) row(2) assms(3) row(1)])
  have created: "application_from_row J (row\<lparr>arw_created_at_ms := t\<rparr>) = Inr (a\<lparr>ra_created_at_ms := t\<rparr>)" for t
    using dec by (auto simp: application_from_row_def and_then_Inr_iff)
  have "application_from_row J (case row_of arw_entity_id (db_applications db) (ra_entity_id a) of
        None \<Rightarrow> row | Some old \<Rightarrow> merge_application old row)
      = Inr (a\<lparr>ra_created_at_ms := (case row_of arw_entity_id (db_applications db) (ra_entity_id a) of
          None \<Rightarrow> ra_created_at_ms a | Some old \<Rightarrow> arw_created_at_ms old)\<rparr>)"
    using dec created by (simp add: merge_application_def split: option.splits)
  then show ?thesis
    using applications.row_of_upsert_same [of row "db_applications db"]
      applications.row_of_upsert_other [of i row "db_applications db"]
    by (simp add: row(3) key)
qed

text \<open>
  A stored application is the registered one: a registration that the database accepts decodes
  from its row to exactly the registered application, identity pin included, except that an existing
  entry keeps its creation time; every other entry is untouched.
\<close>
lemma upserted_application_reads_back:
  assumes "serde_faithful J" and "OpaqueId_new (ra_entity_id a) = Inr (ra_entity_id a)"
    and "ei_owner_uid (ra_identity a) \<le> u32_max"
    and "upsert_registered_application J a db = (Inr (), db')"
  shows "map_option (application_from_row J) (row_of arw_entity_id (db_applications db') (ra_entity_id a))
      = Some (Inr (a\<lparr>ra_created_at_ms := (case row_of arw_entity_id (db_applications db) (ra_entity_id a) of
          None \<Rightarrow> ra_created_at_ms a | Some old \<Rightarrow> arw_created_at_ms old)\<rparr>))
    \<and> (if i = ra_entity_id a then True
       else row_of arw_entity_id (db_applications db') i = row_of arw_entity_id (db_applications db) i)"
  by (rule application_upsert_rows [OF assms])

definition example_registration :: registered_application where
  "example_registration = \<lparr>ra_entity_id = ''app:mail'', ra_display_name = ''Mail'',
     ra_executable = ''/usr/bin/mail'', ra_arguments = [''--new''], ra_ownership = RootOnly,
     ra_identity = \<lparr>ei_canonical_path = ''/usr/bin/mail'', ei_device = 1, ei_inode = 7, ei_owner_uid = 0,
       ei_size = 4096, ei_modified_seconds = 100, ei_modified_nanoseconds = 5, ei_sha256_hex = None\<rparr>,
     ra_enabled = True, ra_created_at_ms = 1, ra_updated_at_ms = 1\<rparr>"

end
