(* ===== verification/Halquen_Sessions.thy ===== *)
theory Halquen_Sessions
  imports Halquen_Grants
begin

text \<open>
  Daemon and agent sessions (\<open>runtime.rs\<close> of the storage crate): starting and ending a daemon,
  starting and finishing an agent run, and the permission grants that live as long as a session.
  The facts follow the tables through every sequence of these operations.
\<close>

section \<open>Operations\<close>

definition end_time :: "i64 \<Rightarrow> i64 \<Rightarrow> i64 option" where
  "end_time started now_ms = Some (max started now_ms)"

definition session_grant_row :: "(string \<Rightarrow> bool) \<Rightarrow> (string \<Rightarrow> bool) \<Rightarrow> permission_row \<Rightarrow> bool" where
  "session_grant_row kind session r =
     (prw_revoked_at_ms r = None \<and> prw_lifetime r = ''session''
      \<and> is_some_and kind (prw_session_kind r) \<and> is_some_and session (prw_session_id r))"

definition revoke_rows :: "(permission_row \<Rightarrow> bool) \<Rightarrow> i64 \<Rightarrow> permission_row list \<Rightarrow> permission_row list" where
  "revoke_rows p now_ms rows = fst (update_rows p (\<lambda>r. r\<lparr>prw_revoked_at_ms := Some now_ms\<rparr>) rows)"

definition begin_daemon_session :: "daemon_session \<Rightarrow> unit db_op" where
  "begin_daemon_session session db =
     (if ds_ended_at_ms session \<noteq> None
      then (Inl (InvalidInteraction ''new daemon session is already ended''), db)
      else
        let now_ms = ds_started_at_ms session;
            agent_sessions = fst (update_rows (\<lambda>r. asr_status r = ''running'' \<and> asr_ended_at_ms r = None)
              (\<lambda>r. r\<lparr>asr_status := ''crashed'', asr_ended_at_ms := end_time (asr_started_at_ms r) now_ms\<rparr>)
              (db_agent_sessions db));
            daemon_sessions = fst (update_rows (\<lambda>r. dsr_ended_at_ms r = None)
              (\<lambda>r. r\<lparr>dsr_ended_at_ms := end_time (dsr_started_at_ms r) now_ms\<rparr>) (db_daemon_sessions db));
            permissions = revoke_rows
              (\<lambda>r. prw_revoked_at_ms r = None \<and> prw_lifetime r = ''session''
                 \<and> is_some_and (\<lambda>kind. kind = ''agent'' \<or> kind = ''daemon'') (prw_session_kind r))
              now_ms (db_permissions db)
        in if list_ex (\<lambda>r. dsr_id r = ds_id session) daemon_sessions then (Inl constraint_error, db)
           else (Inr (), db\<lparr>db_agent_sessions := agent_sessions, db_permissions := permissions,
                  db_daemon_sessions := daemon_sessions @
                    [\<lparr>dsr_id = ds_id session, dsr_started_at_ms = now_ms, dsr_ended_at_ms = None\<rparr>]\<rparr>))"

definition finish_daemon_session :: "daemon_session_id \<Rightarrow> i64 \<Rightarrow> bool db_op" where
  "finish_daemon_session i ended_at_ms db =
     (case update_rows (\<lambda>r. dsr_id r = i \<and> dsr_ended_at_ms r = None)
             (\<lambda>r. r\<lparr>dsr_ended_at_ms := end_time (dsr_started_at_ms r) ended_at_ms\<rparr>)
             (db_daemon_sessions db) of
        (daemon_sessions, updated) \<Rightarrow>
          (Inr (updated = 1),
           db\<lparr>db_daemon_sessions := daemon_sessions,
              db_permissions := revoke_rows (session_grant_row (\<lambda>kind. kind = ''daemon'') (\<lambda>s. s = i))
                ended_at_ms (db_permissions db)\<rparr>))"

text \<open>
  The insertion needs a fresh identifier, a fresh instance and an existing daemon session (the
  foreign key).
\<close>

definition begin_agent_session :: "agent_session \<Rightarrow> unit db_op" where
  "begin_agent_session session db =
     (if as_status session \<noteq> Status_Running \<or> as_ended_at_ms session \<noteq> None
      then (Inl (InvalidInteraction ''new agent session must be running''), db)
      else if list_ex (\<lambda>r. asr_id r = as_id session \<or> asr_instance_id r = as_instance_id session)
                (db_agent_sessions db)
           \<or> \<not> list_ex (\<lambda>r. dsr_id r = as_daemon_session_id session) (db_daemon_sessions db)
      then (Inl constraint_error, db)
      else (Inr (), db\<lparr>db_agent_sessions := db_agent_sessions db @
             [\<lparr>asr_id = as_id session, asr_agent_id = as_agent_id session,
               asr_instance_id = as_instance_id session,
               asr_daemon_session_id = as_daemon_session_id session, asr_status = ''running'',
               asr_started_at_ms = as_started_at_ms session, asr_ended_at_ms = None\<rparr>]\<rparr>))"

definition finish_agent_session :: "agent_session_id \<Rightarrow> agent_session_status \<Rightarrow> i64 \<Rightarrow> bool db_op" where
  "finish_agent_session i status ended_at_ms db =
     (if status = Status_Running
      then (Inl (InvalidInteraction ''finished agent session cannot remain running''), db)
      else
        case update_rows (\<lambda>r. asr_id r = i \<and> asr_status r = ''running'' \<and> asr_ended_at_ms r = None)
               (\<lambda>r. r\<lparr>asr_status := encode_agent_session_status status,
                      asr_ended_at_ms := end_time (asr_started_at_ms r) ended_at_ms\<rparr>)
               (db_agent_sessions db) of
          (agent_sessions, updated) \<Rightarrow>
            (Inr (updated = 1),
             db\<lparr>db_agent_sessions := agent_sessions,
                db_permissions := revoke_rows (session_grant_row (\<lambda>kind. kind = ''agent'') (\<lambda>s. s = i))
                  ended_at_ms (db_permissions db)\<rparr>))"

definition agent_session_from_row :: "agent_session_row \<Rightarrow> (storage_error, agent_session) result" where
  "agent_session_from_row row =
     and_then (map_err (\<lambda>_. conversion_error) (OpaqueId_new (asr_id row))) (\<lambda>i.
     and_then (map_err (\<lambda>_. conversion_error) (OpaqueId_new (asr_agent_id row))) (\<lambda>agent.
     and_then (map_err (\<lambda>_. conversion_error) (OpaqueId_new (asr_instance_id row))) (\<lambda>instance_id.
     and_then (map_err (\<lambda>_. conversion_error) (OpaqueId_new (asr_daemon_session_id row))) (\<lambda>daemon.
     and_then (ok_or conversion_error (parse_agent_session_status (asr_status row))) (\<lambda>status.
     Inr \<lparr>as_id = i, as_agent_id = agent, as_instance_id = instance_id, as_daemon_session_id = daemon,
          as_status = status, as_started_at_ms = asr_started_at_ms row,
          as_ended_at_ms = asr_ended_at_ms row\<rparr>)))))"

definition list_agent_sessions :: "database \<Rightarrow> u16 \<Rightarrow> (storage_error, agent_session list) result" where
  "list_agent_sessions db limit =
     collect_rows agent_session_from_row
       (take (min limit 200)
         (rev (sort_key (\<lambda>r. (asr_started_at_ms r, asr_id r)) (db_agent_sessions db))))"

section \<open>The life of sessions\<close>

text \<open>
  A step is one of the operations the daemon performs; the session tables of every database reached
  from empty ones satisfy the invariant.
\<close>

inductive session_step :: "database \<Rightarrow> database \<Rightarrow> bool" where
  begin_daemon: "begin_daemon_session d db = (r, db') \<Longrightarrow> session_step db db'"
| finish_daemon: "finish_daemon_session i now db = (r, db') \<Longrightarrow> session_step db db'"
| begin_agent: "begin_agent_session s db = (r, db') \<Longrightarrow> session_step db db'"
| finish_agent: "finish_agent_session i status now db = (r, db') \<Longrightarrow> session_step db db'"

inductive_cases session_stepE: "session_step db db'"

definition sessions_invar :: "database \<Rightarrow> bool" where
  "sessions_invar db =
     (distinct (map asr_id (db_agent_sessions db)) \<and> distinct (map asr_instance_id (db_agent_sessions db))
      \<and> distinct (map dsr_id (db_daemon_sessions db))
      \<and> length (filter (\<lambda>r. dsr_ended_at_ms r = None) (db_daemon_sessions db)) \<le> 1
      \<and> (\<forall>r \<in> set (db_agent_sessions db).
           (asr_status r = ''running'' \<longleftrightarrow> asr_ended_at_ms r = None)
           \<and> parse_agent_session_status (asr_status r) \<noteq> None
           \<and> is_none_or (\<lambda>e. asr_started_at_ms r \<le> e) (asr_ended_at_ms r)
           \<and> asr_daemon_session_id r \<in> dsr_id ` set (db_daemon_sessions db))
      \<and> (\<forall>r \<in> set (db_daemon_sessions db). is_none_or (\<lambda>e. dsr_started_at_ms r \<le> e) (dsr_ended_at_ms r)))"

lemma length_filter_mono:
  "(\<And>r. p r \<Longrightarrow> q r) \<Longrightarrow> length (filter p rs) \<le> length (filter q rs)"
  by (induction rs) auto

lemma update_rows_fst: "fst (update_rows p f rs) = map (\<lambda>r. if p r then f r else r) rs"
  by (simp add: update_rows_def)

lemma update_rows_clears:
  "(\<And>r. \<not> p (f r)) \<Longrightarrow> list_all (\<lambda>r. \<not> p r) (fst (update_rows p f rs))"
  by (induction rs) (auto simp: update_rows_fst)

lemma map_update_key:
  "(\<And>r. p r \<Longrightarrow> k (f r) = k r) \<Longrightarrow> map k (fst (update_rows p f rs)) = map k rs"
  by (simp add: update_rows_fst)

lemma open_daemons_update:
  assumes "\<And>r. dsr_ended_at_ms (f r) \<noteq> None"
  shows "filter (\<lambda>r. dsr_ended_at_ms r = None) (fst (update_rows p f rs))
    = filter (\<lambda>r. dsr_ended_at_ms r = None \<and> \<not> p r) rs"
  using assms by (induction rs) (auto simp: update_rows_fst)

lemma image_update_key:
  "(\<And>r. p r \<Longrightarrow> k (f r) = k r) \<Longrightarrow> k ` set (fst (update_rows p f rs)) = k ` set rs"
  by (metis map_update_key set_map)

text \<open>What the invariant says of one row of each table.\<close>

definition agent_row_ok :: "string set \<Rightarrow> agent_session_row \<Rightarrow> bool" where
  "agent_row_ok daemons r =
     ((asr_status r = ''running'' \<longleftrightarrow> asr_ended_at_ms r = None)
      \<and> parse_agent_session_status (asr_status r) \<noteq> None
      \<and> is_none_or (\<lambda>e. asr_started_at_ms r \<le> e) (asr_ended_at_ms r) \<and> asr_daemon_session_id r \<in> daemons)"

definition daemon_row_ok :: "daemon_session_row \<Rightarrow> bool" where
  "daemon_row_ok r = is_none_or (\<lambda>e. dsr_started_at_ms r \<le> e) (dsr_ended_at_ms r)"

lemma sessions_invar_alt:
  "sessions_invar db \<longleftrightarrow>
     distinct (map asr_id (db_agent_sessions db)) \<and> distinct (map asr_instance_id (db_agent_sessions db))
     \<and> distinct (map dsr_id (db_daemon_sessions db))
     \<and> length (filter (\<lambda>r. dsr_ended_at_ms r = None) (db_daemon_sessions db)) \<le> 1
     \<and> (\<forall>r \<in> set (db_agent_sessions db). agent_row_ok (dsr_id ` set (db_daemon_sessions db)) r)
     \<and> (\<forall>r \<in> set (db_daemon_sessions db). daemon_row_ok r)"
  by (simp add: sessions_invar_def agent_row_ok_def daemon_row_ok_def)

lemma agent_row_ok_mono: "agent_row_ok D r \<Longrightarrow> D \<subseteq> E \<Longrightarrow> agent_row_ok E r"
  by (auto simp: agent_row_ok_def)

lemma update_rows_all:
  "(\<forall>r \<in> set rs. P r) \<Longrightarrow> (\<And>r. p r \<Longrightarrow> P r \<Longrightarrow> P (f r)) \<Longrightarrow> \<forall>r \<in> set (fst (update_rows p f rs)). P r"
  by (auto simp: update_rows_fst)

lemma agent_row_ok_end:
  assumes "agent_row_ok D r" and "status \<noteq> ''running''" and "parse_agent_session_status status \<noteq> None"
  shows "agent_row_ok D (r\<lparr>asr_status := status, asr_ended_at_ms := end_time (asr_started_at_ms r) now\<rparr>)"
  using assms by (simp add: agent_row_ok_def end_time_def)

lemma daemon_row_ok_end: "daemon_row_ok (r\<lparr>dsr_ended_at_ms := end_time (dsr_started_at_ms r) now\<rparr>)"
  by (simp add: daemon_row_ok_def end_time_def)

lemma encode_status_not_running:
  "status \<noteq> Status_Running \<Longrightarrow> encode_agent_session_status status \<noteq> ''running''"
  by (cases status) simp_all

lemma sessions_invar_begin_daemon:
  assumes inv: "sessions_invar db" and run: "begin_daemon_session d db = (r, db')"
  shows "sessions_invar db'"
proof (cases "db' = db")
  case False
  let ?now = "ds_started_at_ms d"
  let ?A = "fst (update_rows (\<lambda>r. asr_status r = ''running'' \<and> asr_ended_at_ms r = None)
      (\<lambda>r. r\<lparr>asr_status := ''crashed'', asr_ended_at_ms := end_time (asr_started_at_ms r) ?now\<rparr>)
      (db_agent_sessions db))"
  let ?D = "fst (update_rows (\<lambda>r. dsr_ended_at_ms r = None)
      (\<lambda>r. r\<lparr>dsr_ended_at_ms := end_time (dsr_started_at_ms r) ?now\<rparr>) (db_daemon_sessions db))"
  let ?new = "\<lparr>dsr_id = ds_id d, dsr_started_at_ms = ?now, dsr_ended_at_ms = None\<rparr>"
  have tables: "db_agent_sessions db' = ?A" "db_daemon_sessions db' = ?D @ [?new]" "ds_id d \<notin> dsr_id ` set ?D"
    using run False by (auto simp: begin_daemon_session_def Let_def list_ex_iff split: if_splits)
  have keys: "map asr_id ?A = map asr_id (db_agent_sessions db)"
    "map asr_instance_id ?A = map asr_instance_id (db_agent_sessions db)"
    "map dsr_id ?D = map dsr_id (db_daemon_sessions db)"
    by (rule map_update_key; simp)+
  have open_d: "filter (\<lambda>r. dsr_ended_at_ms r = None) ?D = []"
    by (subst open_daemons_update) (auto simp: end_time_def filter_empty_conv)
  have ids: "dsr_id ` set ?D = dsr_id ` set (db_daemon_sessions db)" by (metis keys(3) set_map)
  have "\<forall>r \<in> set ?A. agent_row_ok (dsr_id ` set (db_daemon_sessions db)) r"
    by (rule update_rows_all)
      (use inv in \<open>auto simp: sessions_invar_alt parse_agent_session_status_def intro: agent_row_ok_end\<close>)
  then have "\<forall>r \<in> set ?A. agent_row_ok (dsr_id ` set (?D @ [?new])) r"
    using ids by (auto intro: agent_row_ok_mono)
  moreover have "\<forall>r \<in> set ?D. daemon_row_ok r"
    by (rule update_rows_all) (use inv in \<open>auto simp: sessions_invar_alt daemon_row_ok_end\<close>)
  ultimately show ?thesis
    using inv keys open_d tables(3) ids unfolding sessions_invar_alt tables(1,2)
    by (simp add: daemon_row_ok_def)
qed (use inv in simp)

lemma sessions_invar_finish_daemon:
  assumes inv: "sessions_invar db" and run: "finish_daemon_session i now db = (r, db')"
  shows "sessions_invar db'"
proof -
  let ?D = "fst (update_rows (\<lambda>r. dsr_id r = i \<and> dsr_ended_at_ms r = None)
      (\<lambda>r. r\<lparr>dsr_ended_at_ms := end_time (dsr_started_at_ms r) now\<rparr>) (db_daemon_sessions db))"
  have tables: "db_agent_sessions db' = db_agent_sessions db" "db_daemon_sessions db' = ?D"
    using run by (auto simp: finish_daemon_session_def split: prod.splits)
  have keys: "map dsr_id ?D = map dsr_id (db_daemon_sessions db)" by (rule map_update_key) simp
  then have ids: "dsr_id ` set ?D = dsr_id ` set (db_daemon_sessions db)" by (metis set_map)
  have "length (filter (\<lambda>r. dsr_ended_at_ms r = None) ?D)
      \<le> length (filter (\<lambda>r. dsr_ended_at_ms r = None) (db_daemon_sessions db))"
    using length_filter_mono [of "\<lambda>r. dsr_ended_at_ms r = None \<and> \<not> (dsr_id r = i \<and> dsr_ended_at_ms r = None)"
      "\<lambda>r. dsr_ended_at_ms r = None" "db_daemon_sessions db"]
    by (subst open_daemons_update) (auto simp: end_time_def)
  moreover have "\<forall>r \<in> set ?D. daemon_row_ok r"
    by (rule update_rows_all) (use inv in \<open>auto simp: sessions_invar_alt daemon_row_ok_end\<close>)
  ultimately show ?thesis
    using inv keys ids unfolding sessions_invar_alt tables by simp
qed

lemma sessions_invar_begin_agent:
  assumes inv: "sessions_invar db" and run: "begin_agent_session s db = (r, db')"
  shows "sessions_invar db'"
proof (cases "db' = db")
  case False
  then have "db_agent_sessions db' = db_agent_sessions db @
      [\<lparr>asr_id = as_id s, asr_agent_id = as_agent_id s, asr_instance_id = as_instance_id s,
        asr_daemon_session_id = as_daemon_session_id s, asr_status = ''running'',
        asr_started_at_ms = as_started_at_ms s, asr_ended_at_ms = None\<rparr>]"
    "db_daemon_sessions db' = db_daemon_sessions db"
    "as_id s \<notin> asr_id ` set (db_agent_sessions db)"
    "as_instance_id s \<notin> asr_instance_id ` set (db_agent_sessions db)"
    "as_daemon_session_id s \<in> dsr_id ` set (db_daemon_sessions db)"
    using run by (auto simp: begin_agent_session_def list_ex_iff image_iff Bex_def split: if_splits)
  moreover have "agent_row_ok D \<lparr>asr_id = as_id s, asr_agent_id = as_agent_id s,
      asr_instance_id = as_instance_id s, asr_daemon_session_id = as_daemon_session_id s,
      asr_status = ''running'', asr_started_at_ms = as_started_at_ms s, asr_ended_at_ms = None\<rparr>"
    if "as_daemon_session_id s \<in> D" for D
    using that by (simp add: agent_row_ok_def parse_agent_session_status_def)
  ultimately show ?thesis using inv by (simp add: sessions_invar_alt)
qed (use inv in simp)

lemma sessions_invar_finish_agent:
  assumes inv: "sessions_invar db" and run: "finish_agent_session i status now db = (r, db')"
  shows "sessions_invar db'"
proof (cases "status = Status_Running")
  case True
  then show ?thesis using assms by (simp add: finish_agent_session_def)
next
  case False
  let ?A = "fst (update_rows (\<lambda>r. asr_id r = i \<and> asr_status r = ''running'' \<and> asr_ended_at_ms r = None)
      (\<lambda>r. r\<lparr>asr_status := encode_agent_session_status status,
             asr_ended_at_ms := end_time (asr_started_at_ms r) now\<rparr>) (db_agent_sessions db))"
  have tables: "db_agent_sessions db' = ?A" "db_daemon_sessions db' = db_daemon_sessions db"
    using run False by (auto simp: finish_agent_session_def split: prod.splits)
  have keys: "map asr_id ?A = map asr_id (db_agent_sessions db)"
    "map asr_instance_id ?A = map asr_instance_id (db_agent_sessions db)"
    by (rule map_update_key; simp)+
  have "\<forall>r \<in> set ?A. agent_row_ok (dsr_id ` set (db_daemon_sessions db)) r"
    by (rule update_rows_all)
      (use inv encode_status_not_running [OF False] in
        \<open>auto simp: sessions_invar_alt agent_session_status_codec.parse_encode intro: agent_row_ok_end\<close>)
  then show ?thesis using inv keys unfolding sessions_invar_alt tables by simp
qed

lemma sessions_invar_step: "session_step db db' \<Longrightarrow> sessions_invar db \<Longrightarrow> sessions_invar db'"
  by (elim session_stepE)
    (auto dest: sessions_invar_begin_daemon sessions_invar_finish_daemon sessions_invar_begin_agent
      sessions_invar_finish_agent)

text \<open>Revoking rows is revoking grants.\<close>

definition revoke_grants :: "(permission_grant \<Rightarrow> bool) \<Rightarrow> i64 \<Rightarrow> permission_grant \<Rightarrow> permission_grant" where
  "revoke_grants p now g =
     (if pg_revoked_at_ms g = None \<and> p g then g\<lparr>pg_revoked_at_ms := Some now\<rparr> else g)"

lemma lifetime_text: "encode_permission_lifetime l = ''session'' \<longleftrightarrow> l = Life_Session"
  by (cases l) simp_all

lemma session_grant_row_to_row:
  "session_grant_row (\<lambda>kind. kind = permission_session_kind s) (\<lambda>t. t = permission_session_id s) (grant_to_row J g)
   \<longleftrightarrow> pg_revoked_at_ms g = None \<and> pg_lifetime g = Life_Session \<and> pg_session g = Some s"
  using session_key_inject [of "pg_session g" "Some s"]
  by (auto simp: session_grant_row_def grant_to_row_def lifetime_text is_some_and_iff)

lemma stores_revoke_rows:
  assumes "stores J db gs" and "db_permissions db' = revoke_rows p now (db_permissions db)"
    and "\<And>g. p (grant_to_row J g) \<longleftrightarrow> pg_revoked_at_ms g = None \<and> q g"
  shows "stores J db' (map (revoke_grants q now) gs)"
proof (rule stores_map [OF assms(1)])
  show "db_permissions db' = map (\<lambda>r. if p r then r\<lparr>prw_revoked_at_ms := Some now\<rparr> else r) (db_permissions db)"
    by (simp add: assms(2) revoke_rows_def update_rows_fst)
  show "(if p (grant_to_row J g) then (grant_to_row J g)\<lparr>prw_revoked_at_ms := Some now\<rparr> else grant_to_row J g)
      = grant_to_row J (revoke_grants q now g)" for g
    unfolding assms(3) revoke_grants_def by (simp add: grant_to_row_def)
qed (auto simp: revoke_grants_def grant_wf_def)

section \<open>Properties\<close>

text \<open>
  C37. The session tables stay consistent: whatever sequence of daemon starts, daemon ends, agent
  starts and agent finishes is performed on empty session tables, identifiers and instances stay
  unique, at most one daemon session is open, an agent session is running exactly while it has no
  end time, no end precedes its start, and every agent session belongs to a recorded daemon session.
\<close>
theorem sessions_stay_consistent:
  assumes "db_agent_sessions db = []" and "db_daemon_sessions db = []" and "session_step\<^sup>*\<^sup>* db db'"
  shows "sessions_invar db'"
  using assms(3)
proof (induction rule: rtranclp_induct)
  case base
  show ?case using assms(1,2) by (simp add: sessions_invar_def)
next
  case (step y z)
  then show ?case using sessions_invar_step by blast
qed

definition example_daemon :: daemon_session where
  "example_daemon = \<lparr>ds_id = ''daemon:1'', ds_started_at_ms = 100, ds_ended_at_ms = None\<rparr>"

theorem sessions_stay_consistent_witness:
  "sessions_invar (snd (begin_daemon_session example_daemon example_db))"
proof (rule sessions_stay_consistent)
  show "session_step\<^sup>*\<^sup>* example_db (snd (begin_daemon_session example_daemon example_db))"
    by (intro r_into_rtranclp begin_daemon) (rule prod.collapse [symmetric])
qed simp_all

text \<open>
  A daemon start leaves nothing of the previous one alive: the only open daemon session is the new
  one, no agent session is running, and every grant tied to an agent or a daemon session is revoked
  and inactive for every request, while every other grant stays as it was.
\<close>
lemma daemon_start_ends_previous_sessions:
  assumes "stores J db gs" and "begin_daemon_session d db = (Inr (), db')"
  shows "map dsr_id (filter (\<lambda>r. dsr_ended_at_ms r = None) (db_daemon_sessions db')) = [ds_id d]
    \<and> list_all (\<lambda>r. \<not> (asr_status r = ''running'' \<and> asr_ended_at_ms r = None)) (db_agent_sessions db')
    \<and> (\<exists>gs'. stores J db' gs' \<and> length gs' = length gs
        \<and> list_all (\<lambda>(g, g').
            case pg_session g of
              Some (Session_Chat _) \<Rightarrow> g' = g
            | None \<Rightarrow> g' = g
            | _ \<Rightarrow> pg_revoked_at_ms g' \<noteq> None \<and> \<not> grant_is_active g' now session agent) (zip gs gs'))"
proof -
  let ?now = "ds_started_at_ms d"
  let ?D = "fst (update_rows (\<lambda>r. dsr_ended_at_ms r = None)
      (\<lambda>r. r\<lparr>dsr_ended_at_ms := end_time (dsr_started_at_ms r) ?now\<rparr>) (db_daemon_sessions db))"
  let ?q = "\<lambda>g. pg_lifetime g = Life_Session \<and> (\<exists>s. pg_session g = Some s \<and> (\<forall>i. s \<noteq> Session_Chat i))"
  have tables: "db_daemon_sessions db' = ?D @ [\<lparr>dsr_id = ds_id d, dsr_started_at_ms = ?now, dsr_ended_at_ms = None\<rparr>]"
    "db_agent_sessions db' = fst (update_rows (\<lambda>r. asr_status r = ''running'' \<and> asr_ended_at_ms r = None)
      (\<lambda>r. r\<lparr>asr_status := ''crashed'', asr_ended_at_ms := end_time (asr_started_at_ms r) ?now\<rparr>)
      (db_agent_sessions db))"
    "db_permissions db' = revoke_rows (\<lambda>r. prw_revoked_at_ms r = None \<and> prw_lifetime r = ''session''
      \<and> is_some_and (\<lambda>kind. kind = ''agent'' \<or> kind = ''daemon'') (prw_session_kind r)) ?now (db_permissions db)"
    using assms(2) by (auto simp: begin_daemon_session_def Let_def split: if_splits)
  have "filter (\<lambda>r. dsr_ended_at_ms r = None) ?D = []"
    by (subst open_daemons_update) (auto simp: end_time_def filter_empty_conv)
  moreover have "list_all (\<lambda>r. \<not> (asr_status r = ''running'' \<and> asr_ended_at_ms r = None)) (db_agent_sessions db')"
    by (auto simp: tables(2) update_rows_fst list_all_iff)
  moreover have "stores J db' (map (revoke_grants ?q ?now) gs)"
  proof (rule stores_revoke_rows [OF assms(1) tables(3)])
    fix g :: permission_grant
    have "is_some_and (\<lambda>kind. kind = ''agent'' \<or> kind = ''daemon'')
        (map_option permission_session_kind (pg_session g))
        \<longleftrightarrow> (\<exists>s. pg_session g = Some s \<and> (\<forall>i. s \<noteq> Session_Chat i))"
    proof (cases "pg_session g")
      case (Some s)
      then show ?thesis by (cases s) simp_all
    qed simp
    then show "(prw_revoked_at_ms (grant_to_row J g) = None \<and> prw_lifetime (grant_to_row J g) = ''session''
        \<and> is_some_and (\<lambda>kind. kind = ''agent'' \<or> kind = ''daemon'') (prw_session_kind (grant_to_row J g)))
        \<longleftrightarrow> pg_revoked_at_ms g = None \<and> ?q g"
      by (simp add: grant_to_row_def lifetime_text)
  qed
  moreover have "case pg_session g of Some (Session_Chat _) \<Rightarrow> revoke_grants ?q ?now g = g
      | None \<Rightarrow> revoke_grants ?q ?now g = g
      | _ \<Rightarrow> pg_revoked_at_ms (revoke_grants ?q ?now g) \<noteq> None
          \<and> \<not> grant_is_active (revoke_grants ?q ?now g) now session agent"
    if "g \<in> set gs" for g
    using storesD(1) [OF assms(1) that]
    by (auto simp: revoke_grants_def grant_is_active_def grant_wf_def
        split: option.splits permission_session_scope.splits)
  ultimately show ?thesis
    by (intro conjI exI [of _ "map (revoke_grants ?q ?now) gs"])
      (auto simp: tables(1) list_all_iff zip_map2 set_zip zip_same_conv_map)
qed

text \<open>
  Finishing an agent session ends its authority: afterwards the session is not running, exactly
  the grants of that session are revoked, and none of them is active for any request; finishing with
  the status Running is refused and changes nothing.
\<close>
lemma finished_agent_session_loses_grants:
  assumes "stores J db gs" and "finish_agent_session i status now db = (r, db')"
  shows "if status = Status_Running then is_err r \<and> db' = db
    else \<not> is_err r
      \<and> list_all (\<lambda>s. \<not> (asr_id s = i \<and> asr_status s = ''running'' \<and> asr_ended_at_ms s = None))
          (db_agent_sessions db')
      \<and> stores J db' (map (revoke_grants (\<lambda>g. pg_session g = Some (Session_Agent i)) now) gs)
      \<and> list_all (\<lambda>g. \<not> grant_is_active g t (Some (Session_Agent i)) agent \<or> pg_session g = None)
          (map (revoke_grants (\<lambda>g. pg_session g = Some (Session_Agent i)) now) gs)"
proof (cases "status = Status_Running")
  case True
  then show ?thesis using assms(2) by (auto simp: finish_agent_session_def)
next
  case False
  let ?q = "\<lambda>g. pg_session g = Some (Session_Agent i)"
  have tables: "db_permissions db' = revoke_rows (session_grant_row (\<lambda>kind. kind = ''agent'') (\<lambda>s. s = i))
      now (db_permissions db)"
    "db_agent_sessions db' = fst (update_rows
      (\<lambda>r. asr_id r = i \<and> asr_status r = ''running'' \<and> asr_ended_at_ms r = None)
      (\<lambda>r. r\<lparr>asr_status := encode_agent_session_status status,
             asr_ended_at_ms := end_time (asr_started_at_ms r) now\<rparr>) (db_agent_sessions db))" "\<not> is_err r"
    using assms(2) False by (auto simp: finish_agent_session_def split: prod.splits)
  have "stores J db' (map (revoke_grants (\<lambda>g. pg_lifetime g = Life_Session \<and> ?q g) now) gs)"
    by (rule stores_revoke_rows [OF assms(1) tables(1)])
      (use session_grant_row_to_row [of "Session_Agent i" J] in simp)
  moreover have "map (revoke_grants (\<lambda>g. pg_lifetime g = Life_Session \<and> ?q g) now) gs
      = map (revoke_grants ?q now) gs"
    using storesD(1) [OF assms(1)] by (auto simp: revoke_grants_def grant_wf_def)
  moreover have "\<not> grant_is_active (revoke_grants ?q now g) t (Some (Session_Agent i)) agent \<or> pg_session g = None"
    if "g \<in> set gs" for g
    using storesD(1) [OF assms(1) that]
    by (cases "pg_lifetime g") (auto simp: grant_is_active_def revoke_grants_def grant_wf_def)
  moreover have "pg_session (revoke_grants ?q now g) = pg_session g" for g :: permission_grant
    by (simp add: revoke_grants_def)
  moreover have "list_all (\<lambda>s. \<not> (asr_id s = i \<and> asr_status s = ''running'' \<and> asr_ended_at_ms s = None))
      (db_agent_sessions db')"
    unfolding tables(2) by (rule update_rows_clears) (simp add: end_time_def)
  ultimately show ?thesis
    using False tables(3) by (simp add: list_all_iff)
qed

end
