(* ===== verification/Halquen_Journal.thy ===== *)
theory Halquen_Journal
  imports Halquen_Storage
begin

text \<open>
  The durable journal of the storage crate (\<open>sqlite.rs\<close>): execution receipts, audit records and the
  event index. A receipt and its audit records are inserted in one transaction, so either all of
  them are stored or none.
\<close>

definition receipt_to_row :: "serde_json \<Rightarrow> execution_receipt \<Rightarrow> execution_row" where
  "receipt_to_row J r =
     \<lparr>xrw_id = er_execution_id r, xrw_capability_id = er_capability_id r,
      xrw_capability_version = int (er_capability_version r), xrw_started_at_ms = er_started_at_ms r,
      xrw_finished_at_ms = er_finished_at_ms r, xrw_policy_json = sj_decision J (er_policy_decision r),
      xrw_status = encode_execution_status (er_status r), xrw_reversible = er_reversible r,
      xrw_result_code = map_option encode_result_code (er_result_code r),
      xrw_error_code = er_error_code r, xrw_sanitized_error = er_sanitized_error r,
      xrw_compensation_reference = er_compensation_reference r\<rparr>"

definition audit_to_row :: "serde_json \<Rightarrow> audit_record \<Rightarrow> audit_row" where
  "audit_to_row J a =
     \<lparr>aur_id = au_id a, aur_created_at_ms = au_created_at_ms a, aur_event_json = sj_event J (au_event a)\<rparr>"

definition event_to_row :: "audit_record \<Rightarrow> event_row" where
  "event_to_row a =
     \<lparr>evr_id = au_id a, evr_event_kind = event_kind (au_event a),
      evr_subject_id = event_subject (au_event a), evr_created_at_ms = au_created_at_ms a\<rparr>"

definition insert_execution ::
  "serde_json \<Rightarrow> execution_receipt \<Rightarrow> database \<Rightarrow> (storage_error, database) result" where
  "insert_execution J receipt db =
     (let row = receipt_to_row J receipt in
      if list_ex (\<lambda>r. xrw_id r = xrw_id row) (db_executions db)
         \<or> xrw_capability_version row \<le> 0 \<or> xrw_finished_at_ms row < xrw_started_at_ms row
      then Inl constraint_error
      else Inr (db\<lparr>db_executions := db_executions db @ [row]\<rparr>))"

definition insert_audit :: "serde_json \<Rightarrow> audit_record \<Rightarrow> database \<Rightarrow> (storage_error, database) result" where
  "insert_audit J r db =
     (if list_ex (\<lambda>row. aur_id row = au_id r) (db_audit db) then Inl constraint_error
      else Inr (db\<lparr>db_audit := db_audit db @ [audit_to_row J r]\<rparr>))"

definition insert_event_for_audit :: "audit_record \<Rightarrow> database \<Rightarrow> (storage_error, database) result" where
  "insert_event_for_audit r db =
     (if list_ex (\<lambda>row. evr_id row = au_id r) (db_events db) then Inl constraint_error
      else Inr (db\<lparr>db_events := db_events db @ [event_to_row r]\<rparr>))"

fun insert_audits :: "serde_json \<Rightarrow> audit_record list \<Rightarrow> database \<Rightarrow> (storage_error, database) result" where
  "insert_audits J [] db = Inr db"
| "insert_audits J (r # rs) db =
     and_then (insert_audit J r db) (\<lambda>db.
     and_then (insert_event_for_audit r db) (insert_audits J rs))"

text \<open>A transaction commits its result or leaves the database as it was.\<close>

definition commit :: "database \<Rightarrow> (storage_error, database) result \<Rightarrow> (storage_error, unit) result \<times> database" where
  "commit db r = (case r of Inl e \<Rightarrow> (Inl e, db) | Inr db' \<Rightarrow> (Inr (), db'))"

definition append_audit :: "serde_json \<Rightarrow> audit_record \<Rightarrow> unit db_op" where
  "append_audit J r db =
     commit db (and_then (insert_audit J r db) (\<lambda>db. insert_event_for_audit r db))"

definition record_execution :: "serde_json \<Rightarrow> execution_receipt \<Rightarrow> audit_record list \<Rightarrow> unit db_op" where
  "record_execution J receipt audit_records db =
     commit db (and_then (insert_execution J receipt db) (insert_audits J audit_records))"

definition audit_stats :: "database \<Rightarrow> nat \<times> nat" where
  "audit_stats db = (length (db_audit db), length (db_executions db))"

definition audit_event_kinds :: "database \<Rightarrow> string \<Rightarrow> string list" where
  "audit_event_kinds db subject_id =
     map evr_event_kind (filter (\<lambda>r. evr_subject_id r = subject_id) (db_events db))"

section \<open>Facts\<close>

lemma insert_audits_ok:
  assumes "insert_audits J rs db = Inr db'"
  shows "db' = db\<lparr>db_audit := db_audit db @ map (audit_to_row J) rs,
    db_events := db_events db @ map event_to_row rs\<rparr>"
  using assms
proof (induction rs arbitrary: db)
  case Nil
  then show ?case by simp
next
  case (Cons r rs)
  then obtain db1 db2 where "insert_audit J r db = Inr db1" "insert_event_for_audit r db1 = Inr db2"
    "insert_audits J rs db2 = Inr db'"
    by (auto simp: and_then_Inr_iff)
  with Cons.IH [of db2] show ?case
    by (auto simp: insert_audit_def insert_event_for_audit_def split: if_splits)
qed

lemma insert_audits_fresh:
  assumes "distinct (map au_id rs)"
    and "\<forall>r \<in> set rs. au_id r \<notin> aur_id ` set (db_audit db) \<and> au_id r \<notin> evr_id ` set (db_events db)"
  shows "\<exists>db'. insert_audits J rs db = Inr db'"
  using assms
proof (induction rs arbitrary: db)
  case (Cons r rs)
  let ?db = "db\<lparr>db_audit := db_audit db @ [audit_to_row J r], db_events := db_events db @ [event_to_row r]\<rparr>"
  have "\<exists>db'. insert_audits J rs ?db = Inr db'"
    using Cons.prems by (intro Cons.IH) (simp, simp add: audit_to_row_def event_to_row_def, metis image_eqI)
  moreover have "insert_audit J r db = Inr (db\<lparr>db_audit := db_audit db @ [audit_to_row J r]\<rparr>)"
    "insert_event_for_audit r (db\<lparr>db_audit := db_audit db @ [audit_to_row J r]\<rparr>) = Inr ?db"
    using Cons.prems by (simp_all add: insert_audit_def insert_event_for_audit_def list_ex_iff) (metis image_eqI)+
  ultimately show ?case by simp
qed simp

lemma record_execution_ok:
  assumes "record_execution J receipt rs db = (Inr (), db')"
  shows "db' = db\<lparr>db_executions := db_executions db @ [receipt_to_row J receipt],
    db_audit := db_audit db @ map (audit_to_row J) rs, db_events := db_events db @ map event_to_row rs\<rparr>"
  using assms
  by (auto simp: record_execution_def commit_def insert_execution_def Let_def
      split: sum.splits if_splits dest!: insert_audits_ok)

lemma record_execution_error: "record_execution J receipt rs db = (Inl e, db') \<Longrightarrow> db' = db"
  by (auto simp: record_execution_def commit_def split: sum.splits)

lemma record_execution_fresh:
  assumes "er_execution_id receipt \<notin> xrw_id ` set (db_executions db)"
    and "0 < er_capability_version receipt" and "er_started_at_ms receipt \<le> er_finished_at_ms receipt"
    and "distinct (map au_id rs)"
    and "\<forall>r \<in> set rs. au_id r \<notin> aur_id ` set (db_audit db) \<and> au_id r \<notin> evr_id ` set (db_events db)"
  shows "\<exists>db'. record_execution J receipt rs db = (Inr (), db')"
proof -
  have "\<exists>db'. insert_audits J rs (db\<lparr>db_executions := db_executions db @ [receipt_to_row J receipt]\<rparr>) = Inr db'"
    using assms(4,5) by (intro insert_audits_fresh) simp_all
  then show ?thesis
    using assms(1-3)
    by (auto simp: record_execution_def commit_def insert_execution_def Let_def receipt_to_row_def list_ex_iff image_iff)
qed

lemma append_audit_ok:
  "append_audit J r db = (Inr (), db') \<Longrightarrow>
   db' = db\<lparr>db_audit := db_audit db @ [audit_to_row J r], db_events := db_events db @ [event_to_row r]\<rparr>"
  by (auto simp: append_audit_def commit_def insert_audit_def insert_event_for_audit_def and_then_def
      split: sum.splits if_splits)

lemma append_audit_error: "append_audit J r db = (Inl e, db') \<Longrightarrow> db' = db"
  by (auto simp: append_audit_def commit_def split: sum.splits)

end
