(* ===== verification/Halquen_Service.thy ===== *)
theory Halquen_Service
  imports Halquen_Capabilities Halquen_Records Halquen_Sessions Halquen_Journal
begin

text \<open>
  The daemon's action pipeline (\<open>service.rs\<close>, and \<open>confirm_action\<close> of
  \<open>interaction_service.rs\<close>): a request becomes a classified proposal, the policy engine decides on
  it with the one decisive stored grant, an exact allow grant is claimed, the executor runs under
  its deadline, and a receipt with its audit records is written. The executor, the clock and the
  generated identifiers are arguments: an executor returns \<open>None\<close> for its result when the
  deadline passed first, and the command it had spawned, if any. The panic of the policy engine
  is a value of the error type.
\<close>

section \<open>Requests, responses and state\<close>

datatype protocol_error_code =
  UnknownVersion | MalformedRequest | FrameTooLarge | InvalidAction | NotFound | Unsupported
| Internal | Validation | PrivacyDenied | ProviderUnavailable | SecretStoreUnavailable
| ConfirmationExpired | SandboxUnavailable

record protocol_error_body =
  peb_code :: protocol_error_code
  peb_message :: string

datatype service_error = Refused protocol_error_body | Panicked

datatype confirmation_persistence = Persist_Once | Persist_Session | Persist_Until | Persist_Always

record confirmation_result =
  cr_execution_id :: "execution_id option"
  cr_accepted :: bool
  cr_message :: string

record pending_confirmation =
  pn_request_execution_id :: execution_id
  pn_proposal :: action_proposal
  pn_title :: string
  pn_expires_at_ms :: i64
  pn_session_id :: "chat_session_id option"

text \<open>The shared application registry is absent once its lock is poisoned.\<close>

record service =
  sv_registry :: capability_registry
  sv_policy :: policy_engine
  sv_database :: database
  sv_applications :: "application_registry option"
  sv_daemon_session_id :: daemon_session_id
  sv_pending :: "(string, pending_confirmation) btree_map"

type_synonym executor =
  "application_registry option \<Rightarrow> execution_authorization
   \<Rightarrow> (execution_error, execution_result_code) result option \<times> command_line option"

text \<open>The clock readings and the identifiers one request draws, in the order of the code.\<close>

record draws =
  sp_now :: "nat \<Rightarrow> i64"
  sp_execution_id :: execution_id
  sp_proposal_id :: proposal_id
  sp_audit_id :: "nat \<Rightarrow> audit_id"
  sp_permission_id :: permission_id
  sp_event_id :: behaviour_event_id

definition internal_error :: service_error where
  "internal_error = Refused \<lparr>peb_code = Internal, peb_message = ''internal core operation failed''\<rparr>"

definition validation :: "string \<Rightarrow> service_error" where
  "validation message = Refused \<lparr>peb_code = Validation, peb_message = message\<rparr>"

definition invalid_action_context :: service_error where
  "invalid_action_context =
     Refused \<lparr>peb_code = InvalidAction, peb_message = ''action provenance or resource context is invalid''\<rparr>"

definition confirmation_expired :: service_error where
  "confirmation_expired =
     Refused \<lparr>peb_code = ConfirmationExpired, peb_message = ''confirmation was already used, cancelled or expired''\<rparr>"

fun execution_error_code :: "execution_error \<Rightarrow> string" where
  "execution_error_code InvalidAuthorization = ''executor_contract_rejected''"
| "execution_error_code UnknownApplication = ''application_not_registered''"
| "execution_error_code ExecutableIdentityChanged = ''executable_identity_changed''"
| "execution_error_code SpawnFailed = ''application_spawn_failed''"
| "execution_error_code RegistryUnavailable = ''application_registry_unavailable''"

section \<open>From an action to a proposal and its policy context\<close>

definition descriptor_for :: "service \<Rightarrow> action_request \<Rightarrow> (service_error, capability_descriptor) result" where
  "descriptor_for sv action =
     (case registry_get (sv_registry sv) (ar_capability_id action) of
        None \<Rightarrow> Inl (Refused \<lparr>peb_code = NotFound, peb_message = ''capability is not registered''\<rparr>)
      | Some descriptor \<Rightarrow>
          if arguments_kind (ar_arguments action) \<noteq> cd_arguments descriptor
          then Inl (Refused \<lparr>peb_code = InvalidAction,
                 peb_message = ''action arguments do not match the capability contract''\<rparr>)
          else Inr descriptor)"

definition application_classification ::
  "database \<Rightarrow> string \<Rightarrow> (storage_error, resource_classification) result" where
  "application_classification db identifier =
     and_then (resource_label_for db RK_Application identifier) (\<lambda>label.
       Inr (case label of None \<Rightarrow> RC_Local | Some l \<Rightarrow> rl_classification l))"

definition trusted_user_proposal :: "service \<Rightarrow> action_request \<Rightarrow> (service_error, action_proposal) result" where
  "trusted_user_proposal sv action =
     and_then
       (case ar_arguments action of
          Args_None \<Rightarrow> Inr (trusted_user None)
        | Args_OpenApp app \<Rightarrow>
            and_then (map_err (\<lambda>_. internal_error) (application_classification (sv_database sv) app))
              (\<lambda>classification.
               Inr (with_resource (trusted_user None)
                 \<lparr>rd_kind = RK_Application, rd_identifier = app, rd_classification = classification\<rparr>)))
       (\<lambda>context. map_err (\<lambda>_. invalid_action_context) (ActionProposal_new action context))"

text \<open>The session and the agent a proposal's grants must belong to.\<close>

definition permission_session ::
  "action_proposal \<Rightarrow> chat_session_id option \<Rightarrow> permission_session_scope option" where
  "permission_session proposal session_id =
     (case ac_agent (ap_context proposal) of
        Some identity \<Rightarrow> Some (Session_Agent (ax_session_id identity))
      | None \<Rightarrow> map_option Session_Chat session_id)"

definition permission_agent :: "action_proposal \<Rightarrow> agent_id option" where
  "permission_agent proposal = map_option ax_agent_id (ac_agent (ap_context proposal))"

definition service_policy_context ::
  "serde_json \<Rightarrow> service \<Rightarrow> action_proposal \<Rightarrow> chat_session_id option \<Rightarrow> i64
   \<Rightarrow> (service_error, policy_context) result" where
  "service_policy_context J sv proposal session_id timestamp =
     and_then (map_err (\<lambda>_. internal_error) (db_security_profile (sv_database sv))) (\<lambda>profile.
       let context = set_session_id session_id (set_now_ms timestamp (set_profile profile
             (set_action_context (ap_context proposal) default_context)))
       in and_then (map_err (\<lambda>_. internal_error)
              (active_permission_grant_for_proposal J (sv_database sv) proposal
                 (permission_session proposal session_id) (permission_agent proposal) timestamp))
            (\<lambda>found. Inr (case found of None \<Rightarrow> context | Some grant \<Rightarrow> add_permission_grant grant context)))"

section \<open>The outcome of an execution\<close>

text \<open>Status, result code, error code, sanitized error and the closing audit event.\<close>

type_synonym outcome =
  "execution_status \<times> safe_result_code option \<times> string option \<times> string option \<times> audit_event"

definition execution_outcome ::
  "execution_id \<Rightarrow> capability_id \<Rightarrow> string \<Rightarrow> string
   \<Rightarrow> (execution_error, execution_result_code) result option \<Rightarrow> outcome" where
  "execution_outcome x c rejected overdue execution =
     (case execution of
        Some (Inr Simulated) \<Rightarrow> (DryRunSucceeded, Some Result_Simulated, None, None,
          Ev_ExecutionCompleted x c (Some Result_Simulated))
      | Some (Inr Launched) \<Rightarrow> (Succeeded, Some Result_Launched, None, None,
          Ev_ExecutionCompleted x c (Some Result_Launched))
      | Some (Inl error) \<Rightarrow> (Failed, None, Some (execution_error_code error), Some rejected,
          Ev_ExecutionFailed x c (execution_error_code error))
      | None \<Rightarrow> (TimedOut, None, Some ''capability_timeout'', Some overdue,
          Ev_ExecutionTimedOut x c ''capability_timeout''))"

definition receipt_of ::
  "execution_id \<Rightarrow> capability_descriptor \<Rightarrow> i64 \<Rightarrow> i64 \<Rightarrow> policy_decision \<Rightarrow> outcome \<Rightarrow> execution_receipt" where
  "receipt_of x descriptor started_at_ms finished verdict out =
     (case out of (status, result, error_code, sanitized, _) \<Rightarrow>
        \<lparr>er_execution_id = x, er_capability_id = cd_id descriptor,
         er_capability_version = cd_version descriptor, er_started_at_ms = started_at_ms,
         er_finished_at_ms = max finished started_at_ms, er_policy_decision = verdict,
         er_status = status, er_reversible = cd_reversible descriptor, er_result_code = result,
         er_error_code = error_code, er_sanitized_error = sanitized, er_compensation_reference = None\<rparr>)"

definition outcome_event :: "outcome \<Rightarrow> audit_event" where
  "outcome_event out = snd (snd (snd (snd out)))"

fun audit_list :: "(nat \<Rightarrow> audit_id) \<Rightarrow> nat \<Rightarrow> (i64 \<times> audit_event) list \<Rightarrow> audit_record list" where
  "audit_list ids k [] = []"
| "audit_list ids k ((t, e) # es) =
     \<lparr>au_id = ids k, au_created_at_ms = t, au_event = e\<rparr> # audit_list ids (Suc k) es"

section \<open>Processing a proposal\<close>

definition opening_events ::
  "draws \<Rightarrow> capability_descriptor \<Rightarrow> action_proposal \<Rightarrow> policy_decision \<Rightarrow> (i64 \<times> audit_event) list" where
  "opening_events T descriptor proposal verdict =
     (let x = sp_execution_id T; c = cd_id descriptor; t = sp_now T 0 in
      [(t, Ev_ProposalCreated x (sp_proposal_id T) c (sanitized_summary (ap_context proposal))),
       (t, Ev_ActionRequested x c (cd_version descriptor)),
       (t, Ev_PolicyEvaluated (Some x) c verdict)])"

definition dry_executor :: executor where
  "dry_executor applications a = (Some (fst (dry_run_execute a)), snd (dry_run_execute a))"

type_synonym 'a handled = "(service_error, 'a) result \<times> service \<times> command_line option"

text \<open>Writing the receipt: on failure the request is refused, but a spawned command stays spawned.\<close>

definition finish_processing ::
  "serde_json \<Rightarrow> execution_receipt \<Rightarrow> audit_record list \<Rightarrow> service \<Rightarrow> command_line option
   \<Rightarrow> (policy_decision \<times> execution_receipt) handled" where
  "finish_processing J receipt records sv cmd =
     (case record_execution J receipt records (sv_database sv) of
        (Inl _, db) \<Rightarrow> (Inl internal_error, sv\<lparr>sv_database := db\<rparr>, cmd)
      | (Inr _, db) \<Rightarrow> (Inr (er_policy_decision receipt, receipt), sv\<lparr>sv_database := db\<rparr>, cmd))"

definition run_authorized ::
  "serde_json \<Rightarrow> draws \<Rightarrow> executor \<Rightarrow> capability_descriptor \<Rightarrow> action_proposal \<Rightarrow> policy_decision
   \<Rightarrow> execution_authorization \<Rightarrow> service \<Rightarrow> (policy_decision \<times> execution_receipt) handled" where
  "run_authorized J T E descriptor proposal verdict authorization sv =
     (let x = sp_execution_id T; c = cd_id descriptor; t = sp_now T 0 in
      case E (sv_applications sv) authorization of (execution, cmd) \<Rightarrow>
        let out = execution_outcome x c ''executor rejected the authorized request''
              ''capability execution exceeded its trusted deadline'' execution;
            records = audit_list (sp_audit_id T) 0
              (opening_events T descriptor proposal verdict
               @ [(t, Ev_AuthorizationCreated x c (ac_agent (ap_context proposal))),
                  (t, Ev_ExecutionStarted x c), (sp_now T 2, outcome_event out)])
        in finish_processing J (receipt_of x descriptor t (sp_now T 3) verdict out) records sv cmd)"

definition not_executed ::
  "serde_json \<Rightarrow> draws \<Rightarrow> capability_descriptor \<Rightarrow> action_proposal \<Rightarrow> policy_decision \<Rightarrow> service
   \<Rightarrow> (policy_decision \<times> execution_receipt) handled" where
  "not_executed J T descriptor proposal verdict sv =
     (let x = sp_execution_id T; c = cd_id descriptor;
          event = (case pd_outcome verdict of Confirm \<Rightarrow> Ev_ConfirmationRequired x c | _ \<Rightarrow> Ev_ActionDenied x c);
          records = audit_list (sp_audit_id T) 0
            (opening_events T descriptor proposal verdict @ [(sp_now T 2, event)])
      in finish_processing J
           (receipt_of x descriptor (sp_now T 0) (sp_now T 3) verdict (NotExecuted, None, None, None, event))
           records sv None)"

definition process_proposal ::
  "serde_json \<Rightarrow> draws \<Rightarrow> executor \<Rightarrow> action_proposal \<Rightarrow> chat_session_id option \<Rightarrow> bool \<Rightarrow> service
   \<Rightarrow> (policy_decision \<times> execution_receipt) handled" where
  "process_proposal J T E proposal session_id simulate sv =
     (case descriptor_for sv (ap_action proposal) of
        Inl e \<Rightarrow> (Inl e, sv, None)
      | Inr descriptor \<Rightarrow>
     (case service_policy_context J sv proposal session_id (sp_now T 1) of
        Inl e \<Rightarrow> (Inl e, sv, None)
      | Inr context \<Rightarrow>
     (case authorize_proposal (sv_policy sv) descriptor proposal (sp_execution_id T) context of
        None \<Rightarrow> (Inl Panicked, sv, None)
      | Some evaluation \<Rightarrow>
          let verdict = pe_decision evaluation; run = (if simulate then dry_executor else E) in
     (case pe_authorization evaluation of
        None \<Rightarrow> not_executed J T descriptor proposal verdict sv
      | Some authorization \<Rightarrow>
          if pd_reason verdict = PersistentExactAllow
          then (case claim_permission_for_proposal J proposal (permission_session proposal session_id)
                       (permission_agent proposal) (sp_now T 0) (sv_database sv) of
                  (Inl _, db) \<Rightarrow> (Inl internal_error, sv\<lparr>sv_database := db\<rparr>, None)
                | (Inr None, db) \<Rightarrow>
                    (Inl (Refused \<lparr>peb_code = PrivacyDenied,
                       peb_message = ''the exact permission is no longer active''\<rparr>),
                     sv\<lparr>sv_database := db\<rparr>, None)
                | (Inr (Some _), db) \<Rightarrow>
                    run_authorized J T run descriptor proposal verdict authorization (sv\<lparr>sv_database := db\<rparr>))
          else run_authorized J T run descriptor proposal verdict authorization sv))))"

definition dry_run_action ::
  "serde_json \<Rightarrow> draws \<Rightarrow> executor \<Rightarrow> action_request \<Rightarrow> service
   \<Rightarrow> (policy_decision \<times> execution_receipt) handled" where
  "dry_run_action J T E action sv =
     (case trusted_user_proposal sv action of
        Inl e \<Rightarrow> (Inl e, sv, None)
      | Inr proposal \<Rightarrow> process_proposal J T E proposal None True sv)"

definition execute_action ::
  "serde_json \<Rightarrow> draws \<Rightarrow> executor \<Rightarrow> action_request \<Rightarrow> service
   \<Rightarrow> (policy_decision \<times> execution_receipt) handled" where
  "execute_action J T E action sv =
     (case trusted_user_proposal sv action of
        Inl e \<Rightarrow> (Inl e, sv, None)
      | Inr proposal \<Rightarrow> process_proposal J T E proposal None False sv)"

definition evaluate_action ::
  "serde_json \<Rightarrow> draws \<Rightarrow> action_request \<Rightarrow> service \<Rightarrow> policy_decision handled" where
  "evaluate_action J T action sv =
     (case descriptor_for sv action of
        Inl e \<Rightarrow> (Inl e, sv, None)
      | Inr descriptor \<Rightarrow>
     (case trusted_user_proposal sv action of
        Inl e \<Rightarrow> (Inl e, sv, None)
      | Inr proposal \<Rightarrow>
     (case service_policy_context J sv proposal None (sp_now T 0) of
        Inl e \<Rightarrow> (Inl e, sv, None)
      | Inr context \<Rightarrow>
     (case evaluate_proposal (sv_policy sv) descriptor proposal context of
        None \<Rightarrow> (Inl Panicked, sv, None)
      | Some verdict \<Rightarrow>
     (case append_audit J \<lparr>au_id = sp_audit_id T 0, au_created_at_ms = sp_now T 1,
             au_event = Ev_PolicyEvaluated None (cd_id descriptor) verdict\<rparr> (sv_database sv) of
        (Inl _, db) \<Rightarrow> (Inl internal_error, sv\<lparr>sv_database := db\<rparr>, None)
      | (Inr _, db) \<Rightarrow> (Inr verdict, sv\<lparr>sv_database := db\<rparr>, None))))))"

section \<open>Confirming a pending action\<close>

text \<open>The grant a persistent confirmation creates.\<close>

definition confirmation_grant ::
  "draws \<Rightarrow> pending_confirmation \<Rightarrow> confirmation_persistence \<Rightarrow> i64 option \<Rightarrow> i64
   \<Rightarrow> (service_error, permission_grant) result" where
  "confirmation_grant T pending persistence expires_at_ms started_at_ms =
     (let proposal = pn_proposal pending in
      and_then
        (case persistence of
           Persist_Once \<Rightarrow> Inl (validation ''once confirmation does not create a grant'')
         | Persist_Session \<Rightarrow>
             (case ac_agent (ap_context proposal) of
                Some identity \<Rightarrow> Inr (Life_Session, Some (Session_Agent (ax_session_id identity)), None)
              | None \<Rightarrow>
                  (case pn_session_id pending of
                     None \<Rightarrow> Inl (validation ''session confirmation has no session'')
                   | Some s \<Rightarrow> Inr (Life_Session, Some (Session_Chat s), None)))
         | Persist_Until \<Rightarrow>
             (case expires_at_ms of
                Some expiry \<Rightarrow>
                  if expiry > started_at_ms then Inr (Life_Until, None, Some expiry)
                  else Inl (validation ''confirmation expiration must be in the future'')
              | None \<Rightarrow> Inl (validation ''confirmation expiration must be in the future''))
         | Persist_Always \<Rightarrow> Inr (Life_Always, None, None))
        (\<lambda>(lifetime, session, expiry).
           Inr \<lparr>pg_id = sp_permission_id T, pg_effect = Effect_Allow, pg_lifetime = lifetime,
                pg_scope = from_proposal proposal, pg_session = session,
                pg_agent_id = permission_agent proposal, pg_granted_by = AO_UserExplicit,
                pg_granted_at_ms = started_at_ms, pg_expires_at_ms = expiry, pg_revoked_at_ms = None,
                pg_use_limit = None, pg_use_count = 0\<rparr>))"

definition persist_confirmation ::
  "serde_json \<Rightarrow> draws \<Rightarrow> pending_confirmation \<Rightarrow> confirmation_persistence \<Rightarrow> i64 option \<Rightarrow> i64
   \<Rightarrow> service \<Rightarrow> (service_error, unit) result \<times> service" where
  "persist_confirmation J T pending persistence expires_at_ms started_at_ms sv =
     (if persistence = Persist_Once then (Inr (), sv)
      else case confirmation_grant T pending persistence expires_at_ms started_at_ms of
        Inl e \<Rightarrow> (Inl e, sv)
      | Inr grant \<Rightarrow>
          (case upsert_permission_grant J grant (sv_database sv) of
             (r, db) \<Rightarrow> (map_err (\<lambda>_. internal_error) r, sv\<lparr>sv_database := db\<rparr>)))"

definition confirmed_events ::
  "draws \<Rightarrow> capability_descriptor \<Rightarrow> action_proposal \<Rightarrow> policy_decision \<Rightarrow> i64 \<Rightarrow> (i64 \<times> audit_event) list" where
  "confirmed_events T descriptor proposal verdict t =
     (let x = sp_execution_id T; c = cd_id descriptor; agent = ac_agent (ap_context proposal) in
      [(t, Ev_ProposalCreated x (sp_proposal_id T) c (sanitized_summary (ap_context proposal))),
       (t, Ev_ActionRequested x c (cd_version descriptor)),
       (t, Ev_PolicyEvaluated (Some x) c verdict), (t, Ev_ConfirmationReceived x c True agent),
       (t, Ev_AuthorizationCreated x c agent), (t, Ev_ExecutionStarted x c)])"

definition record_usage ::
  "draws \<Rightarrow> action_proposal \<Rightarrow> execution_status \<Rightarrow> service \<Rightarrow> (service_error, unit) result \<times> service" where
  "record_usage T proposal status sv =
     (case (status = DryRunSucceeded \<or> status = Succeeded, ar_arguments (ap_action proposal)) of
        (True, Args_OpenApp app) \<Rightarrow>
          (case record_intent_usage
                  \<lparr>iu_id = sp_event_id T, iu_intent = ''open_application'', iu_entity_id = app,
                   iu_outcome = Outcome_Success, iu_context_class = ''application'',
                   iu_created_at_ms = sp_now T 4\<rparr> (sv_database sv) of
             (r, db) \<Rightarrow> (map_err (\<lambda>_. internal_error) r, sv\<lparr>sv_database := db\<rparr>))
      | _ \<Rightarrow> (Inr (), sv))"

definition confirmation_message :: "string \<Rightarrow> execution_status \<Rightarrow> string" where
  "confirmation_message title status =
     (if status = DryRunSucceeded
      then title @ '': confirmed dry-run completed; no real side effect was performed''
      else title @ '': confirmed execution completed'')"

definition run_confirmed ::
  "serde_json \<Rightarrow> draws \<Rightarrow> executor \<Rightarrow> pending_confirmation \<Rightarrow> capability_descriptor \<Rightarrow> policy_decision
   \<Rightarrow> execution_authorization \<Rightarrow> i64 \<Rightarrow> service \<Rightarrow> confirmation_result handled" where
  "run_confirmed J T E pending descriptor verdict authorization started_at_ms sv =
     (let x = sp_execution_id T; c = cd_id descriptor; proposal = pn_proposal pending in
      case E (sv_applications sv) authorization of (execution, cmd) \<Rightarrow>
        let out = execution_outcome x c ''executor rejected the confirmed request''
              ''confirmed capability exceeded its deadline'' execution in
        (case record_usage T proposal (fst out) sv of
           (Inl e, sv) \<Rightarrow> (Inl e, sv, cmd)
         | (Inr _, sv) \<Rightarrow>
             (case record_execution J (receipt_of x descriptor started_at_ms (sp_now T 5) verdict out)
                     (audit_list (sp_audit_id T) 0
                        (confirmed_events T descriptor proposal verdict started_at_ms
                         @ [(sp_now T 3, outcome_event out)])) (sv_database sv) of
                (Inl _, db) \<Rightarrow> (Inl internal_error, sv\<lparr>sv_database := db\<rparr>, cmd)
              | (Inr _, db) \<Rightarrow>
                  (Inr \<lparr>cr_execution_id = Some x, cr_accepted = True,
                        cr_message = confirmation_message (pn_title pending) (fst out)\<rparr>,
                   sv\<lparr>sv_database := db\<rparr>, cmd))))"

text \<open>The part of \<open>confirm_action\<close> after the acceptance: it decides again, for the state of now.\<close>

definition accept_pending ::
  "serde_json \<Rightarrow> draws \<Rightarrow> executor \<Rightarrow> pending_confirmation \<Rightarrow> confirmation_persistence \<Rightarrow> i64 option
   \<Rightarrow> service \<Rightarrow> confirmation_result handled" where
  "accept_pending J T E pending persistence expires_at_ms sv =
     (let proposal = pn_proposal pending in
     (case descriptor_for sv (ap_action proposal) of
        Inl e \<Rightarrow> (Inl e, sv, None)
      | Inr descriptor \<Rightarrow>
     (case service_policy_context J sv proposal (pn_session_id pending) (sp_now T 2) of
        Inl e \<Rightarrow> (Inl e, sv, None)
      | Inr context \<Rightarrow>
     (case authorize_confirmed_proposal_once (sv_policy sv) descriptor proposal (sp_execution_id T) context of
        None \<Rightarrow> (Inl Panicked, sv, None)
      | Some evaluation \<Rightarrow>
     (case pe_authorization evaluation of
        None \<Rightarrow> (Inl (Refused \<lparr>peb_code = PrivacyDenied,
                   peb_message = ''policy denied the confirmed action''\<rparr>), sv, None)
      | Some authorization \<Rightarrow>
     (case persist_confirmation J T pending persistence expires_at_ms (sp_now T 1) sv of
        (Inl e, sv) \<Rightarrow> (Inl e, sv, None)
      | (Inr _, sv) \<Rightarrow>
          run_confirmed J T E pending descriptor (pe_decision evaluation) authorization (sp_now T 1) sv))))))"

definition confirm_action ::
  "serde_json \<Rightarrow> draws \<Rightarrow> executor \<Rightarrow> string \<Rightarrow> bool \<Rightarrow> confirmation_persistence \<Rightarrow> i64 option \<Rightarrow> service
   \<Rightarrow> confirmation_result handled" where
  "confirm_action J T E confirmation_id accept persistence expires_at_ms sv0 =
     (case bt_get (sv_pending sv0) confirmation_id of
        None \<Rightarrow> (Inl confirmation_expired, sv0, None)
      | Some pending \<Rightarrow>
          let sv = sv0\<lparr>sv_pending := bt_remove confirmation_id (sv_pending sv0)\<rparr>;
              proposal = pn_proposal pending in
          if pn_expires_at_ms pending < sp_now T 0 then (Inl confirmation_expired, sv, None)
          else if \<not> accept then
            (case append_audit J \<lparr>au_id = sp_audit_id T 0, au_created_at_ms = sp_now T 1,
                    au_event = Ev_ConfirmationReceived (pn_request_execution_id pending)
                      (ar_capability_id (ap_action proposal)) False (ac_agent (ap_context proposal))\<rparr>
                    (sv_database sv) of
               (Inl _, db) \<Rightarrow> (Inl internal_error, sv\<lparr>sv_database := db\<rparr>, None)
             | (Inr _, db) \<Rightarrow>
                 (Inr \<lparr>cr_execution_id = None, cr_accepted = False, cr_message = ''Action cancelled''\<rparr>,
                  sv\<lparr>sv_database := db\<rparr>, None))
          else accept_pending J T E pending persistence expires_at_ms sv)"

section \<open>Facts about the pipeline\<close>

lemma decide_allow_reason:
  assumes "decide e c p ctx = Some d" and "pd_outcome d = Allow" and "needs_confirmation e c p (pc_profile ctx)"
  shows "pd_reason d = PersistentExactAllow"
proof -
  have "\<not> denied c p ctx"
    using decide_outcome [of e c p ctx] assms by (auto simp: spec_outcome_def)
  then have open_gate: "\<not> gated c p ctx" and tail: "decide_tail e c p ctx = Some d"
    using decide_ungated [of c p ctx e] assms(1) by (auto simp: denied_gated)
  obtain b where b: "baseline e c p (pc_profile ctx) = Some b" "pd_outcome b = Confirm"
    using baseline_outcome [of c e p "pc_profile ctx"] assms(3) \<open>\<not> denied c p ctx\<close> by (auto simp: denied_gated)
  show ?thesis
    using tail b assms(2) by (auto simp: decide_tail_def decision_def split: option.splits if_splits)
qed

lemma descriptor_for_ok:
  "descriptor_for sv action = Inr c \<Longrightarrow>
   registry_get (sv_registry sv) (ar_capability_id action) = Some c
   \<and> arguments_kind (ar_arguments action) = cd_arguments c"
  by (auto simp: descriptor_for_def split: option.splits if_splits)

lemma service_context_ok:
  assumes "service_policy_context J sv p session t = Inr ctx"
  obtains profile found where "db_security_profile (sv_database sv) = Inr profile"
    "active_permission_grant_for_proposal J (sv_database sv) p (permission_session p session)
       (permission_agent p) t = Inr found"
    "ctx = default_context\<lparr>pc_action_context := Some (ap_context p), pc_profile := profile, pc_now_ms := t,
       pc_session := permission_session p session, pc_agent_id := permission_agent p,
       pc_permission_grants := (case found of None \<Rightarrow> [] | Some g \<Rightarrow> [g])\<rparr>"
  using assms
  by (auto simp: service_policy_context_def and_then_Inr_iff Let_def set_action_context_def set_profile_def
      set_now_ms_def set_session_id_def permission_session_def permission_agent_def add_permission_grant_def
      default_context_def split: option.splits)

lemma claim_frame:
  assumes "claim_permission_for_proposal J p session agent now db = (r, db')"
  obtains rows where "db' = db\<lparr>db_permissions := rows\<rparr>"
  using assms that [of "db_permissions db"] that
  by (auto simp: claim_permission_for_proposal_def split: option.splits if_splits prod.splits)

text \<open>Every way a proposal can end.\<close>

lemma process_cases:
  assumes "process_proposal J T E p session simulate sv = (r, sv', cmd)"
  obtains (refused) e rows where "r = Inl e" "e \<noteq> Panicked" "cmd = None"
      "sv' = sv\<lparr>sv_database := (sv_database sv)\<lparr>db_permissions := rows\<rparr>\<rparr>"
  | (blocked) c ctx ev where "descriptor_for sv (ap_action p) = Inr c"
      "service_policy_context J sv p session (sp_now T 1) = Inr ctx"
      "authorize_proposal (sv_policy sv) c p (sp_execution_id T) ctx = Some ev" "pe_authorization ev = None"
      "not_executed J T c p (pe_decision ev) sv = (r, sv', cmd)"
  | (ran) c ctx ev a db where "descriptor_for sv (ap_action p) = Inr c"
      "service_policy_context J sv p session (sp_now T 1) = Inr ctx"
      "authorize_proposal (sv_policy sv) c p (sp_execution_id T) ctx = Some ev" "pe_authorization ev = Some a"
      "if pd_reason (pe_decision ev) = PersistentExactAllow
       then \<exists>i. claim_permission_for_proposal J p (permission_session p session) (permission_agent p)
              (sp_now T 0) (sv_database sv) = (Inr (Some i), db)
       else db = sv_database sv"
      "run_authorized J T (if simulate then dry_executor else E) c p (pe_decision ev) a
         (sv\<lparr>sv_database := db\<rparr>) = (r, sv', cmd)"
proof (cases "descriptor_for sv (ap_action p)")
  case (Inl e)
  then have "e \<noteq> Panicked" by (auto simp: descriptor_for_def split: option.splits if_splits)
  with Inl assms refused [of e "db_permissions (sv_database sv)"] show thesis by (auto simp: process_proposal_def)
next
  case c: (Inr c)
  show thesis
  proof (cases "service_policy_context J sv p session (sp_now T 1)")
    case (Inl e)
    then have "e \<noteq> Panicked"
      by (auto simp: service_policy_context_def internal_error_def and_then_def map_err_def Let_def
          split: sum.splits)
    with Inl c assms refused [of e "db_permissions (sv_database sv)"] show thesis
      by (auto simp: process_proposal_def)
  next
    case ctx: (Inr ctx)
    obtain ev where ev: "authorize_proposal (sv_policy sv) c p (sp_execution_id T) ctx = Some ev"
      using direct.total by blast
    show thesis
    proof (cases "pe_authorization ev")
      case None
      with c ctx ev assms blocked show thesis by (auto simp: process_proposal_def Let_def)
    next
      case (Some a)
      show thesis
      proof (cases "pd_reason (pe_decision ev) = PersistentExactAllow")
        case False
        with Some c ctx ev assms ran [of c ctx ev a "sv_database sv"] show thesis
          by (simp add: process_proposal_def Let_def)
      next
        case True
        obtain claim db where claim: "claim_permission_for_proposal J p (permission_session p session)
            (permission_agent p) (sp_now T 0) (sv_database sv) = (claim, db)" by fastforce
        then obtain rows where rows: "db = (sv_database sv)\<lparr>db_permissions := rows\<rparr>"
          by (rule claim_frame)
        show thesis
        proof (cases claim)
          case (Inl e)
          with True Some c ctx ev assms refused [of internal_error rows] claim rows show thesis
            by (auto simp: process_proposal_def Let_def internal_error_def)
        next
          case (Inr i)
          show thesis
          proof (cases i)
            case None
            with Inr True Some c ctx ev assms refused [where rows = rows] claim rows show thesis
              by (auto simp: process_proposal_def Let_def)
          next
            case (Some j)
            with Inr True \<open>pe_authorization ev = Some a\<close> c ctx ev assms ran [of c ctx ev a db] claim show thesis
              by (simp add: process_proposal_def Let_def)
          qed
        qed
      qed
    qed
  qed
qed

lemma finish_cases:
  assumes "finish_processing J receipt records sv cmd0 = (r, sv', cmd)"
  obtains (failed) "r = Inl internal_error" "sv' = sv" "cmd = cmd0"
  | (written) "r = Inr (er_policy_decision receipt, receipt)" "cmd = cmd0"
      "sv' = sv\<lparr>sv_database := (sv_database sv)\<lparr>
         db_executions := db_executions (sv_database sv) @ [receipt_to_row J receipt],
         db_audit := db_audit (sv_database sv) @ map (audit_to_row J) records,
         db_events := db_events (sv_database sv) @ map event_to_row records\<rparr>\<rparr>"
proof (cases "record_execution J receipt records (sv_database sv)")
  case (Pair w db)
  show thesis
  proof (cases w)
    case (Inl e)
    then have "db = sv_database sv" using Pair record_execution_error by blast
    with Inl Pair assms failed show thesis by (auto simp: finish_processing_def)
  next
    case (Inr u)
    with Pair record_execution_ok [of J receipt records "sv_database sv" db] assms written show thesis
      by (auto simp: finish_processing_def)
  qed
qed

lemma run_authorized_shape:
  assumes "run_authorized J T E c p d a sv = (r, sv', cmd)"
  obtains execution receipt records where "E (sv_applications sv) a = (execution, cmd)"
    "finish_processing J receipt records sv cmd = (r, sv', cmd)"
    "er_status receipt = fst (execution_outcome (sp_execution_id T) (cd_id c)
       ''executor rejected the authorized request''
       ''capability execution exceeded its trusted deadline'' execution)"
    "er_policy_decision receipt = d" "er_execution_id receipt = sp_execution_id T"
    "map (event_kind \<circ> au_event) records = [''proposal_created'', ''action_requested'', ''policy_evaluated'',
       ''authorization_created'', ''execution_started'',
       (case execution of None \<Rightarrow> ''execution_timed_out'' | Some (Inl _) \<Rightarrow> ''execution_failed''
        | Some (Inr _) \<Rightarrow> ''execution_completed'')]"
    "list_all (\<lambda>x. event_subject (au_event x) = sp_execution_id T) records"
proof -
  obtain execution cmd0 where run: "E (sv_applications sv) a = (execution, cmd0)" by fastforce
  let ?out = "execution_outcome (sp_execution_id T) (cd_id c) ''executor rejected the authorized request''
       ''capability execution exceeded its trusted deadline'' execution"
  let ?records = "audit_list (sp_audit_id T) 0 (opening_events T c p d
      @ [(sp_now T 0, Ev_AuthorizationCreated (sp_execution_id T) (cd_id c) (ac_agent (ap_context p))),
         (sp_now T 0, Ev_ExecutionStarted (sp_execution_id T) (cd_id c)), (sp_now T 2, outcome_event ?out)])"
  let ?receipt = "receipt_of (sp_execution_id T) c (sp_now T 0) (sp_now T 3) d ?out"
  have fin: "finish_processing J ?receipt ?records sv cmd0 = (r, sv', cmd)"
    using assms run by (simp add: run_authorized_def Let_def)
  then have "cmd = cmd0" by (rule finish_cases) simp_all
  moreover have "event_kind (outcome_event ?out) = (case execution of None \<Rightarrow> ''execution_timed_out''
      | Some (Inl _) \<Rightarrow> ''execution_failed'' | Some (Inr _) \<Rightarrow> ''execution_completed'')"
    "event_subject (outcome_event ?out) = sp_execution_id T"
    by (auto simp: execution_outcome_def outcome_event_def
        split: option.splits sum.splits execution_result_code.splits)
  ultimately show thesis
    using that [of execution ?receipt ?records] run fin
    by (simp add: opening_events_def Let_def receipt_of_def split: prod.splits)
qed

end
