(* ===== verification/Halquen_Pipeline.thy ===== *)
theory Halquen_Pipeline
  imports Halquen_Service
begin

text \<open>
  What the action pipeline guarantees. Its decision is the one of the policy engine over the whole
  grant table, although only one grant is fetched; nothing is spawned without an authorization for
  exactly that action; a grant that replaces a confirmation is used up; answered requests are journalled
  and refused ones are not; with fresh identifiers every well-formed request is answered; and a
  confirmation acts once, within what the policy does not deny. The last part evaluates the pipeline
  on a concrete daemon.
\<close>

section \<open>The policy context of a request\<close>

text \<open>The policy context of a request, with every stored grant instead of the fetched one.\<close>

definition stored_context ::
  "security_profile \<Rightarrow> action_proposal \<Rightarrow> chat_session_id option \<Rightarrow> i64 \<Rightarrow> permission_grant list
   \<Rightarrow> policy_context" where
  "stored_context profile p session t gs =
     default_context\<lparr>pc_action_context := Some (ap_context p), pc_profile := profile, pc_now_ms := t,
       pc_session := permission_session p session, pc_agent_id := permission_agent p,
       pc_permission_grants := gs\<rparr>"

lemma stored_context_simps [simp]:
  "pc_profile (stored_context profile p session t gs) = profile"
  "pc_permission_grants (stored_context profile p session t gs) = gs"
  "pc_now_ms (stored_context profile p session t gs) = t"
  "pc_session (stored_context profile p session t gs) = permission_session p session"
  "pc_agent_id (stored_context profile p session t gs) = permission_agent p"
  by (simp_all add: stored_context_def)

lemma service_context_outcome:
  assumes "serde_faithful J" and "stores J (sv_database sv) gs" and "list_all grant_ids_valid gs"
    and "service_policy_context J sv p session t = Inr ctx"
  obtains profile where "db_security_profile (sv_database sv) = Inr profile" "pc_profile ctx = profile"
    "\<And>e c. spec_outcome e c p ctx = spec_outcome e c p (stored_context profile p session t gs)"
proof (rule service_context_ok [OF assms(4)])
  fix profile found
  let ?base = "stored_context profile p session t []"
  assume profile: "db_security_profile (sv_database sv) = Inr profile"
    and found: "active_permission_grant_for_proposal J (sv_database sv) p (permission_session p session)
       (permission_agent p) t = Inr found"
    and "ctx = default_context\<lparr>pc_action_context := Some (ap_context p), pc_profile := profile,
       pc_now_ms := t, pc_session := permission_session p session, pc_agent_id := permission_agent p,
       pc_permission_grants := (case found of None \<Rightarrow> [] | Some g \<Rightarrow> [g])\<rparr>"
  then have ctx: "ctx = ?base\<lparr>pc_permission_grants := (case found of None \<Rightarrow> [] | Some g \<Rightarrow> [g])\<rparr>"
    by (simp add: stored_context_def)
  have "spec_outcome e c p ctx = spec_outcome e c p (stored_context profile p session t gs)" for e c
    using lookup_same_outcome [OF assms(1-3), of p ?base found e c] found
    by (simp add: ctx) (simp add: stored_context_def)
  then show thesis using that [OF profile] ctx by simp
qed

text \<open>An authorization is issued exactly when the outcome with every stored grant allows.\<close>

lemma authorized_outcome:
  assumes "authorize_proposal e c p x ctx = Some ev" and "\<not> contract_mismatch p c"
  shows "decide e c p ctx = Some (pe_decision ev)" "pd_outcome (pe_decision ev) = spec_outcome e c p ctx"
    "pe_authorization ev = (if spec_outcome e c p ctx = Allow
       then Some (authorization_new x c (ap_action p) (normalized_grants ctx)) else None)"
proof -
  obtain d where d: "decide e c p ctx = Some d" "pd_outcome d = spec_outcome e c p ctx" by (rule decide_Some)
  show "decide e c p ctx = Some (pe_decision ev)" "pd_outcome (pe_decision ev) = spec_outcome e c p ctx"
    "pe_authorization ev = (if spec_outcome e c p ctx = Allow
       then Some (authorization_new x c (ap_action p) (normalized_grants ctx)) else None)"
    using assms d
    by (auto simp: authorize_proposal_def evaluation_allowed_def evaluation_blocked_def is_allowed_def
        split: if_splits)
qed

lemma process_no_panic: "fst (process_proposal J T E p session simulate sv) \<noteq> Inl Panicked"
proof -
  obtain r sv' cmd where run: "process_proposal J T E p session simulate sv = (r, sv', cmd)"
    by (metis prod_cases3)
  then show ?thesis
  proof (cases rule: process_cases)
    case (blocked c ctx ev)
    from blocked(5) have "\<exists>receipt records. finish_processing J receipt records sv None = (r, sv', cmd)"
      by (auto simp: not_executed_def Let_def)
    then show ?thesis using run by (auto elim!: finish_cases simp: internal_error_def)
  next
    case (ran c ctx ev a db)
    then show ?thesis using run
      by (elim run_authorized_shape finish_cases) (simp_all add: internal_error_def)
  qed (use run in auto)
qed

lemma dry_executor_silent: "snd (dry_executor applications a) = None"
  by (simp add: dry_executor_def dry_run_execute_def)

lemma dry_executor_valid:
  "validate_authorization a = Inr () \<Longrightarrow> dry_executor applications a = (Some (Inr Simulated), None)"
  by (simp add: dry_executor_def dry_run_execute_def)

text \<open>Neither writing the receipt nor the executor touches the stored grants or the pending map.\<close>

lemma finish_frame:
  "finish_processing J receipt records sv cmd0 = (r, sv', cmd) \<Longrightarrow>
   db_permissions (sv_database sv') = db_permissions (sv_database sv)"
  by (erule finish_cases) simp_all

lemma stores_cong: "stores J db gs \<Longrightarrow> db_permissions db' = db_permissions db \<Longrightarrow> stores J db' gs"
  by (simp add: stores_def)

lemma not_executed_shape:
  assumes "not_executed J T c p d sv = (r, sv', cmd)"
  obtains receipt records where "finish_processing J receipt records sv None = (r, sv', cmd)"
    "er_status receipt = NotExecuted" "er_policy_decision receipt = d" "er_execution_id receipt = sp_execution_id T"
    "map (event_kind \<circ> au_event) records = [''proposal_created'', ''action_requested'', ''policy_evaluated'',
       (if pd_outcome d = Confirm then ''confirmation_required'' else ''action_denied'')]"
    "list_all (\<lambda>x. event_subject (au_event x) = sp_execution_id T) records"
proof -
  let ?x = "sp_execution_id T" and ?c = "cd_id c"
  let ?event = "case pd_outcome d of Confirm \<Rightarrow> Ev_ConfirmationRequired ?x ?c | _ \<Rightarrow> Ev_ActionDenied ?x ?c"
  let ?records = "audit_list (sp_audit_id T) 0 (opening_events T c p d @ [(sp_now T 2, ?event)])"
  let ?receipt = "receipt_of ?x c (sp_now T 0) (sp_now T 3) d (NotExecuted, None, None, None, ?event)"
  have "finish_processing J ?receipt ?records sv None = (r, sv', cmd)"
    using assms by (simp add: not_executed_def Let_def)
  moreover have "event_kind ?event = (if pd_outcome d = Confirm then ''confirmation_required'' else ''action_denied'')"
    "event_subject ?event = ?x"
    by (auto split: policy_outcome.splits)
  ultimately show thesis
    using that [of ?receipt ?records] by (simp add: receipt_of_def opening_events_def Let_def)
qed

lemma execution_outcome_status: "fst (execution_outcome x c m1 m2 execution) \<noteq> NotExecuted"
  by (auto simp: execution_outcome_def split: option.splits sum.splits execution_result_code.splits)

section \<open>Properties\<close>

lemma no_mismatch:
  "registry_invar (sv_registry sv) \<Longrightarrow> descriptor_for sv (ap_action p) = Inr c \<Longrightarrow> \<not> contract_mismatch p c"
  by (drule descriptor_for_ok) (auto simp: contract_mismatch_def registry_invar_def)

lemma run_authorized_ok:
  assumes "run_authorized J T E c p d a sv = (Inr (d', receipt), sv', cmd)"
  shows "d' = d" "er_status receipt \<noteq> NotExecuted" "db_permissions (sv_database sv') = db_permissions (sv_database sv)"
    and "snd (E (sv_applications sv) a) = cmd"
  using assms by (auto elim!: run_authorized_shape finish_cases simp: execution_outcome_status execution_outcome_status [symmetric])

lemma run_authorized_spawn:
  "run_authorized J T E c p d a sv = (r, sv', cmd) \<Longrightarrow> snd (E (sv_applications sv) a) = cmd"
  by (auto elim: run_authorized_shape)

lemma not_executed_spawn: "not_executed J T c p d sv = (r, sv', cmd) \<Longrightarrow> cmd = None"
  by (auto elim!: not_executed_shape finish_cases)

lemma not_executed_ok:
  assumes "not_executed J T c p d sv = (Inr (d', receipt), sv', cmd)"
  shows "d' = d" "er_status receipt = NotExecuted" "cmd = None"
  using assms by (auto elim!: not_executed_shape finish_cases)

lemma trusted_user_no_panic: "trusted_user_proposal sv action \<noteq> Inl Panicked"
  by (auto simp: trusted_user_proposal_def and_then_def map_err_def internal_error_def invalid_action_context_def
      split: sum.splits action_arguments.splits)

lemma descriptor_no_panic: "descriptor_for sv action \<noteq> Inl Panicked"
  by (auto simp: descriptor_for_def split: option.splits)

lemma context_no_panic: "service_policy_context J sv p session t \<noteq> Inl Panicked"
  by (auto simp: service_policy_context_def internal_error_def and_then_def map_err_def Let_def split: sum.splits)

lemma execute_no_panic: "fst (execute_action J T E action sv) \<noteq> Inl Panicked"
  using trusted_user_no_panic [of sv action] process_no_panic
  by (auto simp: execute_action_def split: sum.splits)

lemma dry_run_no_panic: "fst (dry_run_action J T E action sv) \<noteq> Inl Panicked"
  using trusted_user_no_panic [of sv action] process_no_panic
  by (auto simp: dry_run_action_def split: sum.splits)

lemma evaluate_no_panic: "fst (evaluate_action J T action sv) \<noteq> Inl Panicked"
proof -
  have engine: "evaluate_proposal e c p ctx = None \<longleftrightarrow> False" for e c p ctx
    using decide_Some [of e c p ctx] by (auto simp: evaluate_proposal_def)
  show ?thesis
    using trusted_user_no_panic [of sv action] descriptor_no_panic [of sv action] context_no_panic [of J sv]
    by (auto simp: evaluate_action_def internal_error_def engine split: sum.splits option.splits prod.splits)
qed

lemma record_intent_usage_frame:
  "record_intent_usage u db = (r, db') \<Longrightarrow> \<exists>rows. db' = db\<lparr>db_usage := rows\<rparr>"
  by (auto simp: record_intent_usage_def Let_def split: if_splits intro: exI [of _ "db_usage db"])

lemma record_usage_frame:
  assumes "record_usage T p status sv = (r, sv')"
  shows "r \<noteq> Inl Panicked \<and> (\<exists>rows. sv' = sv\<lparr>sv_database := (sv_database sv)\<lparr>db_usage := rows\<rparr>\<rparr>)"
  using assms
  by (auto simp: record_usage_def internal_error_def map_err_def
      split: bool.splits action_arguments.splits prod.splits sum.splits dest!: record_intent_usage_frame
      intro: exI [of _ "db_usage (sv_database sv)"])

text \<open>Every way an accepted confirmation can end, and what running it changes.\<close>

lemma run_confirmed_shape:
  assumes "run_confirmed J T E pending c d a t sv = (r, sv', cmd)"
  shows "snd (E (sv_applications sv) a) = cmd" "r \<noteq> Inl Panicked" "sv_pending sv' = sv_pending sv"
    and "db_permissions (sv_database sv') = db_permissions (sv_database sv)"
proof -
  obtain execution where E: "E (sv_applications sv) a = (execution, snd (E (sv_applications sv) a))"
    by (metis prod.collapse)
  let ?out = "execution_outcome (sp_execution_id T) (cd_id c) ''executor rejected the confirmed request''
      ''confirmed capability exceeded its deadline'' execution"
  obtain q sv1 where usage: "record_usage T (pn_proposal pending) (fst ?out) sv = (q, sv1)" by fastforce
  note frame = record_usage_frame [OF usage]
  have "snd (E (sv_applications sv) a) = cmd \<and> r \<noteq> Inl Panicked \<and> sv_pending sv' = sv_pending sv1
      \<and> db_permissions (sv_database sv') = db_permissions (sv_database sv1)"
    using assms E usage frame
    by (auto simp: run_confirmed_def Let_def internal_error_def split: sum.splits prod.splits
        dest!: record_execution_ok record_execution_error)
  with frame show "snd (E (sv_applications sv) a) = cmd" "r \<noteq> Inl Panicked" "sv_pending sv' = sv_pending sv"
    "db_permissions (sv_database sv') = db_permissions (sv_database sv)"
    by auto
qed

lemma persist_confirmation_frame:
  assumes "persist_confirmation J T pending persistence expiry t sv = (r, sv')"
  shows "r \<noteq> Inl Panicked \<and> (\<exists>db. sv' = sv\<lparr>sv_database := db\<rparr>)"
proof -
  have "confirmation_grant T pending persistence expiry t \<noteq> Inl Panicked"
    by (auto simp: confirmation_grant_def Let_def and_then_def validation_def
        split: sum.splits confirmation_persistence.splits option.splits if_splits)
  then show ?thesis
    using assms
    by (auto simp: persist_confirmation_def internal_error_def map_err_def
        split: sum.splits prod.splits if_splits intro: exI [of _ "sv_database sv"])
qed

lemma accept_cases:
  assumes "accept_pending J T E pending persistence expiry sv = (r, sv', cmd)"
  obtains (stopped) e where "r = Inl e" "e \<noteq> Panicked" "cmd = None" "sv_pending sv' = sv_pending sv"
  | (ran) c ctx ev a sv1 where "descriptor_for sv (ap_action (pn_proposal pending)) = Inr c"
      "service_policy_context J sv (pn_proposal pending) (pn_session_id pending) (sp_now T 2) = Inr ctx"
      "authorize_confirmed_proposal_once (sv_policy sv) c (pn_proposal pending) (sp_execution_id T) ctx = Some ev"
      "pe_authorization ev = Some a"
      "persist_confirmation J T pending persistence expiry (sp_now T 1) sv = (Inr (), sv1)"
      "run_confirmed J T E pending c (pe_decision ev) a (sp_now T 1) sv1 = (r, sv', cmd)"
proof -
  let ?p = "pn_proposal pending"
  note def = assms [unfolded accept_pending_def Let_def]
  show thesis
  proof (cases "descriptor_for sv (ap_action ?p)")
    case (Inl e)
    with def stopped descriptor_no_panic [of sv "ap_action ?p"] show thesis by auto
  next
    case c: (Inr c)
    show thesis
    proof (cases "service_policy_context J sv ?p (pn_session_id pending) (sp_now T 2)")
      case (Inl e)
      with c def stopped context_no_panic [of J sv ?p] show thesis by auto
    next
      case ctx: (Inr ctx)
      obtain ev where ev: "authorize_confirmed_proposal_once (sv_policy sv) c ?p (sp_execution_id T) ctx = Some ev"
        using confirmed.total by blast
      obtain q sv1 where q: "persist_confirmation J T pending persistence expiry (sp_now T 1) sv = (q, sv1)"
        by fastforce
      note frame = persist_confirmation_frame [OF q]
      note step = c ctx ev q def
      show thesis
      proof (cases "pe_authorization ev")
        case None
        with step stopped show thesis by auto
      next
        case (Some a)
        with step stopped ran frame show thesis by (cases q) auto
      qed
    qed
  qed
qed

lemma confirm_cases:
  assumes "confirm_action J T E i accept persistence expiry sv = (r, sv', cmd)"
  obtains (unknown) "bt_get (sv_pending sv) i = None" "r = Inl confirmation_expired" "sv' = sv" "cmd = None"
  | (declined) pending where "bt_get (sv_pending sv) i = Some pending" "cmd = None" "r \<noteq> Inl Panicked"
      "sv_pending sv' = bt_remove i (sv_pending sv)"
      "pn_expires_at_ms pending < sp_now T 0 \<or> \<not> accept" "\<And>x. r = Inr x \<Longrightarrow> \<not> cr_accepted x"
  | (accepted) pending where "bt_get (sv_pending sv) i = Some pending" "accept"
      "pn_expires_at_ms pending \<ge> sp_now T 0"
      "accept_pending J T E pending persistence expiry (sv\<lparr>sv_pending := bt_remove i (sv_pending sv)\<rparr>)
        = (r, sv', cmd)"
proof (cases "bt_get (sv_pending sv) i")
  case None
  then have "r = Inl confirmation_expired" "sv' = sv" "cmd = None"
    using assms by (auto simp add: confirm_action_def)
  with None show thesis by (rule unknown)
next
  case (Some pending)
  note def = assms [unfolded confirm_action_def Some option.case Let_def]
  show thesis
  proof (cases "pn_expires_at_ms pending < sp_now T 0 \<or> \<not> accept")
    case True
    then have "cmd = None \<and> r \<noteq> Inl Panicked \<and> sv_pending sv' = bt_remove i (sv_pending sv)
        \<and> (\<forall>x. r = Inr x \<longrightarrow> \<not> cr_accepted x)" using def
      by (auto simp: confirmation_expired_def internal_error_def split: if_splits sum.splits prod.splits)
    with declined [OF Some _ _ _ True] show thesis by blast
  next
    case False
    with def accepted [OF Some] show thesis by simp
  qed
qed

lemma confirm_no_panic: "fst (confirm_action J T E i accept persistence expiry sv) \<noteq> Inl Panicked"
proof -
  obtain r sv' cmd where run: "confirm_action J T E i accept persistence expiry sv = (r, sv', cmd)"
    by (metis prod_cases3)
  then have "r \<noteq> Inl Panicked"
    by (cases rule: confirm_cases)
      (auto simp: confirmation_expired_def elim!: accept_cases dest: run_confirmed_shape(2))
  with run show ?thesis by simp
qed

lemma confirm_pending:
  assumes "confirm_action J T E i accept persistence expiry sv = (r, sv', cmd)"
  shows "bt_get (sv_pending sv') = (bt_get (sv_pending sv))(i := None)"
  using assms
proof (cases rule: confirm_cases)
  case unknown
  then show ?thesis by (auto simp: fun_eq_iff)
next
  case (accepted pending)
  then have "sv_pending sv' = bt_remove i (sv_pending sv)"
    by (elim accept_cases) (auto dest!: run_confirmed_shape(3) persist_confirmation_frame)
  then show ?thesis by (simp add: bt_get_remove)
qed (simp add: bt_get_remove)

text \<open>The drawn identifiers are new to the tables they are written to.\<close>

definition fresh_draws :: "draws \<Rightarrow> database \<Rightarrow> bool" where
  "fresh_draws T db =
     (sp_execution_id T \<notin> xrw_id ` set (db_executions db) \<and> inj (sp_audit_id T)
      \<and> range (sp_audit_id T) \<inter> (aur_id ` set (db_audit db) \<union> evr_id ` set (db_events db)) = {})"

lemma audit_list_ids: "map au_id (audit_list ids k es) = map ids [k..<k + length es]"
  by (induction ids k es rule: audit_list.induct) (simp_all add: upt_conv_Cons del: upt_Suc)

lemma record_fresh:
  assumes "fresh_draws T db" and "0 < cd_version c"
  shows "\<exists>db'. record_execution J (receipt_of (sp_execution_id T) c t f d out)
    (audit_list (sp_audit_id T) 0 es) db = (Inr (), db')"
proof (rule record_execution_fresh)
  let ?receipt = "receipt_of (sp_execution_id T) c t f d out" and ?rs = "audit_list (sp_audit_id T) 0 es"
  have ids: "map au_id ?rs = map (sp_audit_id T) [0..<length es]" by (simp add: audit_list_ids)
  then have "set (map au_id ?rs) \<subseteq> range (sp_audit_id T)" by auto
  then have "au_id x \<in> range (sp_audit_id T)" if "x \<in> set ?rs" for x using that by auto
  then show "\<forall>x \<in> set ?rs. au_id x \<notin> aur_id ` set (db_audit db) \<and> au_id x \<notin> evr_id ` set (db_events db)"
    using assms(1) unfolding fresh_draws_def by blast
  show "distinct (map au_id ?rs)"
    unfolding ids using assms(1) by (auto simp: fresh_draws_def distinct_map intro: inj_on_subset)
  show "er_execution_id ?receipt \<notin> xrw_id ` set (db_executions db)" "0 < er_capability_version ?receipt"
    "er_started_at_ms ?receipt \<le> er_finished_at_ms ?receipt"
    using assms by (simp_all add: receipt_of_def fresh_draws_def split: prod.split)
qed

lemma finish_answers:
  assumes "fresh_draws T (sv_database sv)" and "0 < cd_version c"
  shows "\<exists>sv'. finish_processing J (receipt_of (sp_execution_id T) c t f d out)
    (audit_list (sp_audit_id T) 0 es) sv cmd
    = (Inr (d, receipt_of (sp_execution_id T) c t f d out), sv', cmd)"
proof -
  have "er_policy_decision (receipt_of (sp_execution_id T) c t f d out) = d"
    by (simp add: receipt_of_def split: prod.split)
  then show ?thesis using record_fresh [OF assms, of J t f d out es] by (auto simp: finish_processing_def)
qed

lemma run_authorized_answers:
  assumes "fresh_draws T (sv_database sv)" and "0 < cd_version c"
  shows "\<exists>receipt sv' cmd. run_authorized J T E c p d a sv = (Inr (d, receipt), sv', cmd)"
proof -
  obtain execution cmd where run: "E (sv_applications sv) a = (execution, cmd)" by fastforce
  show ?thesis using finish_answers [OF assms] unfolding run_authorized_def Let_def run prod.case by blast
qed

lemma not_executed_answers:
  assumes "fresh_draws T (sv_database sv)" and "0 < cd_version c"
  shows "\<exists>receipt sv' cmd. not_executed J T c p d sv = (Inr (d, receipt), sv', cmd)"
  using finish_answers [OF assms] unfolding not_executed_def Let_def by blast

lemma exact_allow_reason:
  assumes "decide e c p ctx = Some d" and "pd_outcome d = Allow" and "pd_reason d = PersistentExactAllow"
  shows "exact_grant ctx p Effect_Allow"
proof -
  have "\<not> denied c p ctx" using decide_outcome [of e c p ctx] assms(1,2) by (auto simp: spec_outcome_def)
  then have "decide_tail e c p ctx = Some d" using decide_ungated [of c p ctx e] assms(1) by (auto simp: denied_gated)
  moreover have "pd_reason b \<noteq> PersistentExactAllow" if "baseline e c p (pc_profile ctx) = Some b" for b
    using that unfolding baseline_def by (auto simp: decision_fields split: risk_class.splits if_splits)
  ultimately have "matching_permission ctx p Effect_Allow \<noteq> None"
    using assms(2,3) by (auto simp: decide_tail_def decision_def split: option.splits if_splits)
  then show ?thesis by (simp add: matching_permission_None)
qed

lemma addressed_earlier: "addressed p session agent t g \<Longrightarrow> s \<le> t \<Longrightarrow> addressed p session agent s g"
  by (auto simp: addressed_def grant_is_active_def is_none_or_def split: option.splits)

lemma lookup_context:
  assumes "serde_faithful J" and "stores J (sv_database sv) gs" and "list_all grant_ids_valid gs"
    and "db_security_profile (sv_database sv) = Inr profile"
  obtains ctx where "service_policy_context J sv p session t = Inr ctx"
    "exact_grant ctx p Effect_Allow \<longrightarrow> (\<exists>g \<in> set gs. pg_effect g = Effect_Allow
       \<and> addressed p (permission_session p session) (permission_agent p) t g)"
proof -
  obtain found where found: "active_permission_grant_for_proposal J (sv_database sv) p
      (permission_session p session) (permission_agent p) t = Inr found" "set_option found \<subseteq> set gs"
    by (cases rule: lookup_decisive [OF assms(1-3), of p "permission_session p session" "permission_agent p" t]) auto
  then obtain ctx where ctx: "service_policy_context J sv p session t = Inr ctx"
    using assms(4) by (simp add: service_policy_context_def Let_def)
  show thesis
  proof (rule that [OF ctx], rule impI)
    assume "exact_grant ctx p Effect_Allow"
    with ctx found show "\<exists>g \<in> set gs. pg_effect g = Effect_Allow
       \<and> addressed p (permission_session p session) (permission_agent p) t g"
      by (elim service_context_ok) (auto simp: exact_grant_def addressed_def split: option.splits)
  qed
qed

lemma process_answers:
  assumes "serde_faithful J" and "stores J (sv_database sv) gs" and "list_all grant_ids_valid gs"
    and "registry_invar (sv_registry sv)" and "descriptor_for sv (ap_action p) = Inr c"
    and "db_security_profile (sv_database sv) = Inr profile"
    and "fresh_draws T (sv_database sv)" and "sp_now T 0 \<le> sp_now T 1"
  shows "\<exists>d receipt sv' cmd. process_proposal J T E p session simulate sv = (Inr (d, receipt), sv', cmd)"
proof -
  have "descriptor_validate c = Inr ()"
    using assms(4) descriptor_for_ok [OF assms(5)] by (auto simp: registry_invar_def)
  then have version: "0 < cd_version c"
    by (auto simp: descriptor_validate_def and_then_Inr_iff split: if_splits)
  obtain ctx where ctx: "service_policy_context J sv p session (sp_now T 1) = Inr ctx"
    "exact_grant ctx p Effect_Allow \<longrightarrow> (\<exists>g \<in> set gs. pg_effect g = Effect_Allow
       \<and> addressed p (permission_session p session) (permission_agent p) (sp_now T 1) g)"
    by (rule lookup_context [OF assms(1-3,6), of p session "sp_now T 1"])
  obtain ev where ev: "authorize_proposal (sv_policy sv) c p (sp_execution_id T) ctx = Some ev"
    using direct.total by blast
  note outcome = authorized_outcome [OF ev no_mismatch [OF assms(4,5)]]
  note step = process_proposal_def Let_def assms(5) ctx(1) [unfolded One_nat_def] ev
  consider (blocked) "pe_authorization ev = None"
    | (plain) a where "pe_authorization ev = Some a" "pd_reason (pe_decision ev) \<noteq> PersistentExactAllow"
    | (claim) a where "pe_authorization ev = Some a" "pd_reason (pe_decision ev) = PersistentExactAllow"
    by (cases "pe_authorization ev") auto
  then show ?thesis
  proof cases
    case blocked
    then have "process_proposal J T E p session simulate sv = not_executed J T c p (pe_decision ev) sv"
      by (simp add: step)
    then show ?thesis using not_executed_answers [OF assms(7) version] by metis
  next
    case (plain a)
    then have "process_proposal J T E p session simulate sv
        = run_authorized J T (if simulate then dry_executor else E) c p (pe_decision ev) a sv"
      by (simp add: step)
    then show ?thesis using run_authorized_answers [OF assms(7) version] by metis
  next
    case (claim a)
    have "pd_outcome (pe_decision ev) = Allow" using outcome claim(1) by (auto split: if_splits)
    then have "exact_grant ctx p Effect_Allow" using exact_allow_reason outcome(1) claim(2) by blast
    then obtain i db where c: "claim_permission_for_proposal J p (permission_session p session)
        (permission_agent p) (sp_now T 0) (sv_database sv) = (Inr (Some i), db)"
      using ctx(2) claim_succeeds [OF assms(1-3)] addressed_earlier [OF _ assms(8)] by metis
    then have "fresh_draws T (sv_database (sv\<lparr>sv_database := db\<rparr>))"
      using assms(7) by (auto elim!: claim_frame simp: fresh_draws_def)
    moreover have "process_proposal J T E p session simulate sv = run_authorized J T
        (if simulate then dry_executor else E) c p (pe_decision ev) a (sv\<lparr>sv_database := db\<rparr>)"
      using claim c by (simp add: step)
    ultimately show ?thesis using run_authorized_answers [OF _ version] by metis
  qed
qed

lemma process_refines:
  assumes "serde_faithful J" and "stores J (sv_database sv) gs" and "list_all grant_ids_valid gs"
    and "registry_invar (sv_registry sv)"
    and "process_proposal J T E p session simulate sv = (Inr (d, receipt), sv', cmd)"
  shows "\<exists>c profile. registry_get (sv_registry sv) (ar_capability_id (ap_action p)) = Some c
    \<and> db_security_profile (sv_database sv) = Inr profile
    \<and> pd_outcome d = spec_outcome (sv_policy sv) c p (stored_context profile p session (sp_now T 1) gs)
    \<and> (er_status receipt = NotExecuted \<longleftrightarrow> pd_outcome d \<noteq> Allow)
    \<and> (cmd \<noteq> None \<longrightarrow> pd_outcome d = Allow \<and> \<not> simulate)"
  using assms(5)
proof (cases rule: process_cases)
  case (blocked c ctx ev)
  obtain profile where "db_security_profile (sv_database sv) = Inr profile"
    "spec_outcome (sv_policy sv) c p ctx
      = spec_outcome (sv_policy sv) c p (stored_context profile p session (sp_now T 1) gs)"
    by (rule service_context_outcome [OF assms(1-3) blocked(2)]) blast
  then show ?thesis
    using authorized_outcome [OF blocked(3) no_mismatch [OF assms(4) blocked(1)]] blocked(4)
      not_executed_ok [OF blocked(5)] descriptor_for_ok [OF blocked(1)] by (auto split: if_splits)
next
  case (ran c ctx ev a db)
  obtain profile where "db_security_profile (sv_database sv) = Inr profile"
    "spec_outcome (sv_policy sv) c p ctx
      = spec_outcome (sv_policy sv) c p (stored_context profile p session (sp_now T 1) gs)"
    by (rule service_context_outcome [OF assms(1-3) ran(2)]) blast
  then show ?thesis
    using authorized_outcome [OF ran(3) no_mismatch [OF assms(4) ran(1)]] ran(4)
      run_authorized_ok [OF ran(6)] descriptor_for_ok [OF ran(1)] dry_executor_silent
    by (auto split: if_splits)
qed simp

lemma process_spawn:
  assumes "serde_faithful J" and "stores J (sv_database sv) gs" and "list_all grant_ids_valid gs"
    and "process_proposal J T E p session simulate sv = (r, sv', Some cmd)"
  shows "\<not> simulate \<and> (\<exists>c profile a.
      registry_get (sv_registry sv) (ar_capability_id (ap_action p)) = Some c
      \<and> db_security_profile (sv_database sv) = Inr profile
      \<and> spec_outcome (sv_policy sv) c p (stored_context profile p session (sp_now T 1) gs) = Allow
      \<and> snd (E (sv_applications sv) a) = Some cmd \<and> validate_authorization a = Inr ()
      \<and> ea_descriptor a = c \<and> ea_action a = ap_action p)"
  using assms(4)
proof (cases rule: process_cases)
  case (blocked c ctx ev)
  then show ?thesis using not_executed_spawn by blast
next
  case (ran c ctx ev a db)
  have a: "\<not> contract_mismatch p c" "ea_descriptor a = c" "ea_action a = ap_action p"
    using direct.sound [OF ran(3,4)] direct.bound [OF ran(3,4)] by (simp_all add: authorization_new_def)
  have valid: "validate_authorization a = Inr ()" by (rule issued_validates [OF disjI1 [OF ran(3)] ran(4)])
  have "spec_outcome (sv_policy sv) c p ctx = Allow"
    using authorized_outcome(3) [OF ran(3) a(1)] ran(4) by (metis option.distinct(1))
  then obtain profile where profile: "db_security_profile (sv_database sv) = Inr profile"
    "spec_outcome (sv_policy sv) c p (stored_context profile p session (sp_now T 1) gs) = Allow"
    by (metis service_context_outcome [OF assms(1-3) ran(2)])
  have spawn: "snd ((if simulate then dry_executor else E) (sv_applications sv) a) = Some cmd"
    using run_authorized_spawn [OF ran(6)] by simp
  then have "\<not> simulate" by (cases simulate) (simp_all add: dry_executor_silent)
  with spawn show ?thesis
    using a(2,3) valid profile descriptor_for_ok [OF ran(1)] by auto
qed simp

text \<open>
  C1. The pipeline implements the policy over the whole grant table: when a request is answered, the
  reported decision is the outcome of the documented precedence with every stored grant, for the
  registered capability, the stored profile, the session and the agent of the proposal; the receipt
  says not-executed exactly when that outcome is not Allow; and a command was spawned only if it was
  Allow and the request was not a dry run.
\<close>
theorem pipeline_refines_policy:
  assumes "serde_faithful J" and "stores J (sv_database sv) gs" and "list_all grant_ids_valid gs"
    and "registry_invar (sv_registry sv)"
    and "process_proposal J T E p session simulate sv = (Inr (d, receipt), sv', cmd)"
  shows "\<exists>c profile. registry_get (sv_registry sv) (ar_capability_id (ap_action p)) = Some c
    \<and> db_security_profile (sv_database sv) = Inr profile
    \<and> pd_outcome d = spec_outcome (sv_policy sv) c p (stored_context profile p session (sp_now T 1) gs)
    \<and> (er_status receipt = NotExecuted \<longleftrightarrow> pd_outcome d \<noteq> Allow)
    \<and> (cmd \<noteq> None \<longrightarrow> pd_outcome d = Allow \<and> \<not> simulate)"
  by (rule process_refines [OF assms])

text \<open>
  C2. Nothing is launched without authority: if processing a proposal spawned a command, then,
  even when the request was refused afterwards, it was not a dry run, the outcome with every stored
  grant was Allow, and the command is the one the executor chose for an authorization that names
  exactly this action and its registered capability.
\<close>
theorem spawned_command_was_allowed:
  assumes "serde_faithful J" and "stores J (sv_database sv) gs" and "list_all grant_ids_valid gs"
    and "process_proposal J T E p session simulate sv = (r, sv', Some cmd)"
  shows "\<not> simulate \<and> (\<exists>c profile a.
      registry_get (sv_registry sv) (ar_capability_id (ap_action p)) = Some c
      \<and> db_security_profile (sv_database sv) = Inr profile
      \<and> spec_outcome (sv_policy sv) c p (stored_context profile p session (sp_now T 1) gs) = Allow
      \<and> snd (E (sv_applications sv) a) = Some cmd \<and> validate_authorization a = Inr ()
      \<and> ea_descriptor a = c \<and> ea_action a = ap_action p)"
  by (rule process_spawn [OF assms])

text \<open>
  C11. Where a confirmation is due, only an exact grant replaces it, and it is used up: if a proposal
  that needs a confirmation was run, dry or not, then a stored allow grant names exactly this proposal,
  was active for its session and agent when it was claimed, and afterwards its use count has grown by
  one while every other grant is as before.
\<close>
theorem confirmation_bypass_spends_grant:
  assumes "serde_faithful J" and "stores J (sv_database sv) gs"
    and "process_proposal J T E p session simulate sv = (Inr (d, receipt), sv', cmd)"
    and "er_status receipt \<noteq> NotExecuted"
    and "registry_get (sv_registry sv) (ar_capability_id (ap_action p)) = Some c"
    and "db_security_profile (sv_database sv) = Inr profile"
    and "needs_confirmation (sv_policy sv) c p profile"
  shows "\<exists>g \<in> set gs. pg_effect g = Effect_Allow \<and> pg_scope g = from_proposal p
    \<and> grant_is_active g (sp_now T 0) (permission_session p session) (permission_agent p)
    \<and> stores J (sv_database sv') (map (\<lambda>h. if pg_id h = pg_id g
        then h\<lparr>pg_use_count := pg_use_count h + 1\<rparr> else h) gs)"
  using assms(3)
proof (cases rule: process_cases)
  case (blocked c' ctx ev)
  then show ?thesis using not_executed_ok(2) assms(4) by blast
next
  case (ran c' ctx ev a db)
  have "c' = c" using descriptor_for_ok [OF ran(1)] assms(5) by simp
  have "pc_profile ctx = profile" using ran(2) assms(6) by (auto elim!: service_context_ok)
  have "\<not> contract_mismatch p c'" using direct.sound ran(3,4) by blast
  note outcome = authorized_outcome [OF ran(3) this]
  have "pd_outcome (pe_decision ev) = Allow" using outcome(2,3) ran(4) by (auto split: if_splits)
  then have "pd_reason (pe_decision ev) = PersistentExactAllow"
    using decide_allow_reason [OF outcome(1)] assms(7) \<open>c' = c\<close> \<open>pc_profile ctx = profile\<close> by simp
  with ran(5) obtain i where "claim_permission_for_proposal J p (permission_session p session)
      (permission_agent p) (sp_now T 0) (sv_database sv) = (Inr (Some i), db)" by auto
  note claim = claim_effect [OF assms(1,2) this]
  moreover have "db_permissions (sv_database sv') = db_permissions db"
    using run_authorized_ok(3) [OF ran(6)] by simp
  ultimately show ?thesis using stores_cong by blast
qed simp

text \<open>
  C32. Every answered request is journalled: exactly one execution row is appended, for the receipt
  returned and the decision reported, together with one audit row and one event row per step, whose
  kinds are the steps of the pipeline in order and whose subject is the execution.
\<close>
theorem answered_request_is_journalled:
  assumes "process_proposal J T E p session simulate sv = (Inr (d, receipt), sv', cmd)"
  shows "er_policy_decision receipt = d \<and> er_execution_id receipt = sp_execution_id T
    \<and> db_executions (sv_database sv') = db_executions (sv_database sv) @ [receipt_to_row J receipt]
    \<and> (\<exists>records. db_audit (sv_database sv') = db_audit (sv_database sv) @ map (audit_to_row J) records
        \<and> db_events (sv_database sv') = db_events (sv_database sv) @ map event_to_row records
        \<and> list_all (\<lambda>x. event_subject (au_event x) = sp_execution_id T) records
        \<and> map (event_kind \<circ> au_event) records
          = [''proposal_created'', ''action_requested'', ''policy_evaluated'']
            @ (case er_status receipt of
                 NotExecuted \<Rightarrow> [if pd_outcome d = Confirm then ''confirmation_required'' else ''action_denied'']
               | TimedOut \<Rightarrow> [''authorization_created'', ''execution_started'', ''execution_timed_out'']
               | Failed \<Rightarrow> [''authorization_created'', ''execution_started'', ''execution_failed'']
               | _ \<Rightarrow> [''authorization_created'', ''execution_started'', ''execution_completed'']))"
  using assms
proof (cases rule: process_cases)
  case (blocked c ctx ev)
  from blocked(5) show ?thesis
    by (elim not_executed_shape finish_cases; intro conjI exI; (assumption | simp)?)
next
  case (ran c ctx ev a db)
  have same: "db_executions db = db_executions (sv_database sv)" "db_audit db = db_audit (sv_database sv)"
    "db_events db = db_events (sv_database sv)"
    using ran(5) by (auto simp: claim_permission_for_proposal_def split: option.splits if_splits prod.splits)
  from ran(6) show ?thesis
    by (elim run_authorized_shape finish_cases; intro conjI exI;
       (assumption | simp add: same execution_outcome_def split: option.splits sum.splits execution_result_code.splits)?)
qed simp

lemma run_authorized_permissions:
  "run_authorized J T E c p d a sv = (r, sv', cmd) \<Longrightarrow>
   db_permissions (sv_database sv') = db_permissions (sv_database sv)"
  by (auto elim!: run_authorized_shape dest: finish_frame)

lemma not_executed_permissions:
  "not_executed J T c p d sv = (r, sv', cmd) \<Longrightarrow> db_permissions (sv_database sv') = db_permissions (sv_database sv)"
  by (auto elim!: not_executed_shape dest: finish_frame)

text \<open>The grants change only by the one claim of a proposal.\<close>

lemma process_permissions:
  assumes "process_proposal J T E p session simulate sv = (r, sv', cmd)"
  shows "db_permissions (sv_database sv') = db_permissions (sv_database sv)
    \<or> (\<exists>claim db. claim_permission_for_proposal J p (permission_session p session) (permission_agent p)
           (sp_now T 0) (sv_database sv) = (claim, db) \<and> db_permissions (sv_database sv') = db_permissions db)"
  using assms
  by (auto simp: process_proposal_def Let_def split: sum.splits option.splits if_splits prod.splits
      dest!: run_authorized_permissions not_executed_permissions)

text \<open>A claim counts one use of one usable allow grant for this proposal, or changes nothing.\<close>

lemma claim_counts_one_use:
  assumes "claim_permission_for_proposal J p session agent now db = (claim, db')"
  shows "db' = db \<or> (\<exists>row \<in> set (db_permissions db). prw_effect row = ''allow'' \<and> row_addresses J p session agent row
    \<and> row_usable now row \<and> length (filter (\<lambda>s. prw_id s = prw_id row \<and> row_usable now s) (db_permissions db)) = 1
    \<and> db' = db\<lparr>db_permissions := map (\<lambda>s. if prw_id s = prw_id row \<and> row_usable now s then bump_use s else s)
        (db_permissions db)\<rparr>)"
proof (cases "claim_candidate J db p session agent now")
  case None
  with assms show ?thesis by (simp add: claim_permission_for_proposal_def)
next
  case (Some row)
  then have "row \<in> set (db_permissions db)" "prw_effect row = ''allow''"
    "row_addresses J p session agent row" "row_usable now row"
    unfolding claim_candidate_def by (auto dest: first_row_in_set)
  with assms Some show ?thesis
    by (auto simp: claim_permission_for_proposal_def update_rows_def split: if_splits)
qed

text \<open>A command stays spawned although its request is refused only when its journal could not be written.\<close>

lemma run_authorized_refused:
  assumes "run_authorized J T E c p d a sv = (Inl e, sv', cmd)"
  obtains receipt records w where "sv' = sv" "e = internal_error" "er_execution_id receipt = sp_execution_id T"
    "list_all (\<lambda>x. event_subject (au_event x) = sp_execution_id T) records"
    "record_execution J receipt records (sv_database sv) = (Inl w, sv_database sv)"
  using assms
proof (rule run_authorized_shape)
  fix execution receipt records
  assume fin: "finish_processing J receipt records sv cmd = (Inl e, sv', cmd)"
    and x: "er_execution_id receipt = sp_execution_id T"
      "list_all (\<lambda>x. event_subject (au_event x) = sp_execution_id T) records"
  show thesis
  proof (cases "record_execution J receipt records (sv_database sv)")
    case (Pair r db)
    show thesis
    proof (cases r)
      case (Inl w)
      then have "db = sv_database sv" using Pair record_execution_error by blast
      with Inl Pair fin x show thesis by (intro that [of receipt records w]) (simp_all add: finish_processing_def)
    qed (use Pair fin in \<open>simp add: finish_processing_def\<close>)
  qed
qed

lemma record_duplicate:
  "au_id a = au_id b \<Longrightarrow> record_execution J receipt (a # b # rs) db = (Inl constraint_error, db)"
  by (simp add: record_execution_def commit_def insert_execution_def insert_audit_def insert_event_for_audit_def
      audit_to_row_def Let_def)

lemma run_authorized_duplicate:
  assumes "sp_audit_id T 0 = sp_audit_id T 1"
  shows "run_authorized J T E c p d a sv = (Inl internal_error, sv, snd (E (sv_applications sv) a))"
  using assms
  by (simp add: run_authorized_def finish_processing_def opening_events_def record_duplicate Let_def split_beta)

lemma refused_keeps_tables:
  assumes "process_proposal J T E p session simulate sv = (Inl e, sv', cmd)"
  shows "sv' = sv\<lparr>sv_database := (sv_database sv)\<lparr>db_permissions := db_permissions (sv_database sv')\<rparr>\<rparr>"
proof -
  have "\<exists>rows. sv' = sv\<lparr>sv_database := (sv_database sv)\<lparr>db_permissions := rows\<rparr>\<rparr>"
    using assms
  proof (cases rule: process_cases)
    case (refused e' rows)
    then show ?thesis by auto
  next
    case (blocked c ctx ev)
    from blocked(5) show ?thesis
      by (auto elim!: not_executed_shape finish_cases intro!: exI [of _ "db_permissions (sv_database sv)"])
  next
    case (ran c ctx ev a db)
    have "\<exists>rows. db = (sv_database sv)\<lparr>db_permissions := rows\<rparr>"
      using ran(5) by (auto split: if_splits elim!: claim_frame intro: exI [of _ "db_permissions (sv_database sv)"])
    with ran(6) show ?thesis by (auto elim: run_authorized_refused)
  qed
  then show ?thesis by auto
qed

lemma refused_grants:
  assumes "process_proposal J T E p session simulate sv = (Inl e, sv', cmd)"
  shows "sv' = sv \<or> (\<exists>row \<in> set (db_permissions (sv_database sv)). prw_effect row = ''allow''
    \<and> row_addresses J p (permission_session p session) (permission_agent p) row \<and> row_usable (sp_now T 0) row
    \<and> length (filter (\<lambda>s. prw_id s = prw_id row \<and> row_usable (sp_now T 0) s) (db_permissions (sv_database sv))) = 1
    \<and> sv' = sv\<lparr>sv_database := (sv_database sv)\<lparr>db_permissions :=
        map (\<lambda>s. if prw_id s = prw_id row \<and> row_usable (sp_now T 0) s then bump_use s else s)
          (db_permissions (sv_database sv))\<rparr>\<rparr>)"
  (is "_ \<or> ?claimed")
proof -
  note tables = refused_keeps_tables [OF assms]
  have same: "sv' = sv" if "db_permissions (sv_database sv') = db_permissions (sv_database sv)"
    using tables that by simp
  from process_permissions [OF assms] show ?thesis
  proof (elim disjE exE conjE)
    fix claim db
    assume "claim_permission_for_proposal J p (permission_session p session) (permission_agent p) (sp_now T 0)
        (sv_database sv) = (claim, db)"
      and rows: "db_permissions (sv_database sv') = db_permissions db"
    from claim_counts_one_use [OF this(1)] show ?thesis
    proof
      assume "db = sv_database sv"
      with rows same show ?thesis by simp
    next
      assume "\<exists>row \<in> set (db_permissions (sv_database sv)). prw_effect row = ''allow''
        \<and> row_addresses J p (permission_session p session) (permission_agent p) row \<and> row_usable (sp_now T 0) row
        \<and> length (filter (\<lambda>s. prw_id s = prw_id row \<and> row_usable (sp_now T 0) s) (db_permissions (sv_database sv))) = 1
        \<and> db = (sv_database sv)\<lparr>db_permissions :=
            map (\<lambda>s. if prw_id s = prw_id row \<and> row_usable (sp_now T 0) s then bump_use s else s)
              (db_permissions (sv_database sv))\<rparr>"
      then have ?claimed using tables rows by (elim bexE conjE, intro bexI conjI) (assumption | simp)+
      then show ?thesis ..
    qed
  qed (simp add: same)
qed


text \<open>
  A dry run has no side effect: whatever the executor, it spawns nothing, and its receipt says
  that the dry run succeeded if the decision was Allow and that nothing was executed otherwise.
\<close>
lemma dry_run_never_spawns:
  "case dry_run_action J T E action sv of (r, sv', cmd) \<Rightarrow> cmd = None
     \<and> (case r of Inl _ \<Rightarrow> True
        | Inr (d, receipt) \<Rightarrow>
            er_status receipt = (if pd_outcome d = Allow then DryRunSucceeded else NotExecuted))"
proof -
  have "cmd = None \<and> (case r of Inl _ \<Rightarrow> True | Inr (d, receipt) \<Rightarrow>
      er_status receipt = (if pd_outcome d = Allow then DryRunSucceeded else NotExecuted))"
    if "process_proposal J T E p None True sv = (r, sv', cmd)" for p r sv' cmd
    using that
  proof (cases rule: process_cases)
    case (blocked c ctx ev)
    have "pd_outcome (pe_decision ev) \<noteq> Allow" using direct.allowed [OF blocked(3)] blocked(4) by simp
    with blocked(5) show ?thesis by (auto elim!: not_executed_shape finish_cases)
  next
    case (ran c ctx ev a db)
    have "pd_outcome (pe_decision ev) = Allow" using direct.allowed [OF ran(3)] ran(4) by simp
    moreover have "validate_authorization a = Inr ()" by (rule issued_validates [OF disjI1 [OF ran(3)] ran(4)])
    ultimately show ?thesis using ran(6)
      by (auto simp: dry_executor_valid execution_outcome_def elim!: run_authorized_shape finish_cases)
  qed simp
  then show ?thesis by (auto simp: dry_run_action_def split: sum.splits prod.splits)
qed

text \<open>
  C9. A confirmation can be used once: whatever the answer and the outcome of a confirmation, its
  entry is gone afterwards and all others remain, so that a second answer to it is refused, changes
  nothing and spawns nothing.
\<close>
theorem confirmation_is_single_use:
  "case confirm_action J T E i accept persistence expiry sv of (r, sv', cmd) \<Rightarrow>
     bt_get (sv_pending sv') = (bt_get (sv_pending sv))(i := None)
     \<and> confirm_action J2 T2 E2 i accept2 persistence2 expiry2 sv' = (Inl confirmation_expired, sv', None)"
proof -
  obtain r sv' cmd where run: "confirm_action J T E i accept persistence expiry sv = (r, sv', cmd)"
    by (metis prod_cases3)
  note gone = confirm_pending [OF run]
  then have "confirm_action J2 T2 E2 i accept2 persistence2 expiry2 sv' = (Inl confirmation_expired, sv', None)"
    by (simp add: confirm_action_def)
  with run gone show ?thesis by simp
qed

text \<open>
  C8. A confirmation cannot do more than was asked: a command spawned by a confirmation belongs to an
  entry that was pending, not expired and accepted, the authorization names exactly the pending action,
  and no rule denies the proposal at that time, with every stored grant taken into account.
\<close>
theorem confirmed_spawn_needs_consent:
  assumes "serde_faithful J" and "stores J (sv_database sv) gs" and "list_all grant_ids_valid gs"
    and "confirm_action J T E i accept persistence expiry sv = (r, sv', Some cmd)"
  shows "accept \<and> (\<exists>pending c profile a. bt_get (sv_pending sv) i = Some pending
      \<and> sp_now T 0 \<le> pn_expires_at_ms pending
      \<and> registry_get (sv_registry sv) (ar_capability_id (ap_action (pn_proposal pending))) = Some c
      \<and> db_security_profile (sv_database sv) = Inr profile
      \<and> \<not> denied c (pn_proposal pending)
          (stored_context profile (pn_proposal pending) (pn_session_id pending) (sp_now T 2) gs)
      \<and> snd (E (sv_applications sv) a) = Some cmd
      \<and> ea_descriptor a = c \<and> ea_action a = ap_action (pn_proposal pending))"
  using assms(4)
proof (cases rule: confirm_cases)
  case (accepted pending)
  let ?sv = "sv\<lparr>sv_pending := bt_remove i (sv_pending sv)\<rparr>"
  from accepted(4) show ?thesis
  proof (cases rule: accept_cases)
    case (ran c ctx ev a sv1)
    have a: "ea_descriptor a = c" "ea_action a = ap_action (pn_proposal pending)" "\<not> denied c (pn_proposal pending) ctx"
      using confirmed.bound [OF ran(3,4)] confirmed.sound [OF ran(3,4)] by (simp_all add: authorization_new_def)
    have st: "stores J (sv_database ?sv) gs" using assms(2) by simp
    obtain profile where profile: "db_security_profile (sv_database sv) = Inr profile"
      "\<And>e c. spec_outcome e c (pn_proposal pending) ctx = spec_outcome e c (pn_proposal pending)
        (stored_context profile (pn_proposal pending) (pn_session_id pending) (sp_now T 2) gs)"
      by (rule service_context_outcome [OF assms(1) st assms(3) ran(2)]) simp
    have "\<not> denied c (pn_proposal pending)
        (stored_context profile (pn_proposal pending) (pn_session_id pending) (sp_now T 2) gs)"
      using a(3) profile(2) spec_outcome_Deny by metis
    moreover have "snd (E (sv_applications sv) a) = Some cmd"
      using run_confirmed_shape(1) [OF ran(6)] persist_confirmation_frame [OF ran(5)] by auto
    ultimately show ?thesis
      using a accepted(1-3) profile(1) descriptor_for_ok [OF ran(1)] by auto
  qed simp
qed simp_all

text \<open>
  A remembered confirmation applies to exactly what was confirmed: after an answer \<open>always\<close> that
  ran, the grants are the earlier ones with one new allow grant for the pending proposal and its agent,
  and the same proposal in any session at any later time is allowed unless some rule denies it.
\<close>
lemma remembered_confirmation_applies:
  assumes "stores J (sv_database sv) gs"
    and "confirm_action J T E i accept Persist_Always expiry sv = (Inr result, sv', cmd)"
    and "cr_accepted result" and "bt_get (sv_pending sv) i = Some pending"
    and "sp_permission_id T \<notin> pg_id ` set gs"
  shows "\<exists>g. stores J (sv_database sv') (gs @ [g]) \<and> pg_effect g = Effect_Allow
    \<and> pg_scope g = from_proposal (pn_proposal pending) \<and> pg_agent_id g = permission_agent (pn_proposal pending)
    \<and> (\<forall>e c profile session t. \<not> denied c (pn_proposal pending)
           (stored_context profile (pn_proposal pending) session t (gs @ [g])) \<longrightarrow>
         spec_outcome e c (pn_proposal pending)
           (stored_context profile (pn_proposal pending) session t (gs @ [g])) = Allow)"
proof -
  let ?sv = "sv\<lparr>sv_pending := bt_remove i (sv_pending sv)\<rparr>" and ?p = "pn_proposal pending"
  have "accept_pending J T E pending Persist_Always expiry ?sv = (Inr result, sv', cmd)"
    using assms(2) by (cases rule: confirm_cases) (use assms(3,4) in auto)
  then show ?thesis
  proof (cases rule: accept_cases)
    case (ran c ctx ev a sv1)
    let ?g = "\<lparr>pg_id = sp_permission_id T, pg_effect = Effect_Allow, pg_lifetime = Life_Always,
      pg_scope = from_proposal ?p, pg_session = None, pg_agent_id = permission_agent ?p,
      pg_granted_by = AO_UserExplicit, pg_granted_at_ms = sp_now T 1, pg_expires_at_ms = None,
      pg_revoked_at_ms = None, pg_use_limit = None, pg_use_count = 0\<rparr>"
    have st: "stores J (sv_database ?sv) gs" using assms(1) by simp
    have "upsert_permission_grant J ?g (sv_database ?sv) = (Inr (), sv_database sv1)"
      using ran(5) by (auto simp: persist_confirmation_def confirmation_grant_def map_err_def Let_def
          split: sum.splits prod.splits)
    then have "stores J (sv_database sv1) (upsert_row pg_id merge_grant ?g gs)" by (rule stores_upsert(1) [OF st])
    moreover have "upsert_row pg_id merge_grant ?g gs = gs @ [?g]"
      using assms(5) by (auto simp: upsert_row_def list_ex_iff image_iff)
    ultimately have "stores J (sv_database sv') (gs @ [?g])"
      using stores_cong run_confirmed_shape(4) [OF ran(6)] by metis
    moreover have "exact_grant (stored_context profile ?p session t (gs @ [?g])) ?p Effect_Allow" for profile session t
      by (simp add: exact_grant_def grant_is_active_def split: option.split)
    ultimately show ?thesis by (intro exI [of _ ?g]) (simp add: spec_outcome_Allow)
  qed simp
qed

section \<open>A concrete daemon\<close>

text \<open>The real executor, when it returns before its deadline.\<close>

definition linux_executor :: "os \<Rightarrow> (string \<Rightarrow> string) \<Rightarrow> executor" where
  "linux_executor sys digest applications a =
     (case runtime_execute sys digest (RealLinux applications) a of (r, cmd) \<Rightarrow> (Some r, cmd))"

definition example_open_proposal :: action_proposal where
  "example_open_proposal =
     \<lparr>ap_action = \<lparr>ar_capability_id = ''system.open_app'', ar_arguments = Args_OpenApp ''app:mail''\<rparr>,
      ap_context = trusted_user None\<rparr>"

definition example_service :: service where
  "example_service =
     \<lparr>sv_registry = [(''system.open_app'', open_app_descriptor),
                     (''test.operation'', example_capability LocalSideEffect)],
      sv_policy = PolicyEngine_new, sv_database = example_db,
      sv_applications = Some [(''app:mail'', example_application)],
      sv_daemon_session_id = ''daemon:1'',
      sv_pending = [(''confirmation:1'', \<lparr>pn_request_execution_id = ''execution:0'',
         pn_proposal = example_open_proposal, pn_title = ''Mail'', pn_expires_at_ms = 10,
         pn_session_id = None\<rparr>)]\<rparr>"

definition example_draws :: draws where
  "example_draws =
     \<lparr>sp_now = (\<lambda>_. 0), sp_execution_id = ''execution:1'', sp_proposal_id = ''proposal:1'',
      sp_audit_id = (\<lambda>k. ''audit:'' @ replicate k CHR ''1''), sp_permission_id = ''permission:2'',
      sp_event_id = ''behaviour:1''\<rparr>"

lemma example_db_profile: "db_security_profile example_db = Inr Balanced"
proof -
  have "parse_security_profile ''balanced'' = Some Balanced" by code_simp
  then show ?thesis by (simp add: db_security_profile_def example_db_def empty_database_def)
qed

lemma example_open_context:
  "service_policy_context plain_json (example_service\<lparr>sv_pending := m\<rparr>) example_open_proposal None 0
     = Inr (stored_context Balanced example_open_proposal None 0 [])"
proof -
  have ids: "list_all grant_ids_valid [example_agent_grant]" by (simp add: example_agent_grant_ids)
  have "from_proposal (example_proposal (agent_context example_identity)) \<noteq> from_proposal example_open_proposal"
    by (simp add: from_proposal_def example_open_proposal_def example_proposal_def)
  then have "\<not> addressed example_open_proposal s a 0 example_agent_grant" for s a
    by (simp add: addressed_def example_agent_grant_def)
  then have "active_permission_grant_for_proposal plain_json example_db example_open_proposal
      (permission_session example_open_proposal None) (permission_agent example_open_proposal) 0 = Inr None"
    by (cases rule: lookup_decisive [OF plain_json_faithful example_db_stores ids]) auto
  then show ?thesis
    by (simp add: service_policy_context_def example_service_def example_db_profile Let_def
        stored_context_def set_action_context_def set_profile_def set_now_ms_def set_session_id_def
        permission_session_def permission_agent_def example_open_proposal_def trusted_user_def default_context_def)
qed

lemma example_open_decision:
  "\<exists>d. decide PolicyEngine_new open_app_descriptor example_open_proposal
     (stored_context Balanced example_open_proposal None 0 []) = Some d \<and> pd_outcome d = Allow
     \<and> pd_reason d \<noteq> PersistentExactAllow"
proof -
  have "context_validate (trusted_user None) = Inr ()" by code_simp
  then have "\<not> gated open_app_descriptor example_open_proposal (stored_context Balanced example_open_proposal None 0 [])"
    using open_app_descriptor_valid
    by (simp add: gated_def example_open_proposal_def immutable_violation_def secret_to_external_def has_resource_def
        untrusted_origin_def authority_namespace_def trusted_user_def stored_context_def)
     (simp add: open_app_descriptor_def default_context_def)
  note open_gate = decide_ungated [OF this]
  show ?thesis unfolding open_gate
    by (simp add: decide_tail_def matching_permission_def open_app_descriptor_def baseline_def
        has_resource_def example_open_proposal_def trusted_user_def decision_fields)
qed

lemma example_open_authorized:
  obtains ev a where "authorize_proposal PolicyEngine_new open_app_descriptor example_open_proposal ''execution:1''
      (stored_context Balanced example_open_proposal None 0 []) = Some ev"
    "pe_authorization ev = Some a" "pd_reason (pe_decision ev) \<noteq> PersistentExactAllow"
    "authorize_confirmed_proposal_once PolicyEngine_new open_app_descriptor example_open_proposal ''execution:1''
      (stored_context Balanced example_open_proposal None 0 []) = Some ev"
    "snd (linux_executor example_os (\<lambda>_. []) (Some [(''app:mail'', example_application)]) a) \<noteq> None"
    "fst (linux_executor example_os (\<lambda>_. []) (Some [(''app:mail'', example_application)]) a) = Some (Inr Launched)"
proof -
  let ?ctx = "stored_context Balanced example_open_proposal None 0 []"
  let ?a = "authorization_new ''execution:1'' open_app_descriptor (ap_action example_open_proposal) (normalized_grants ?ctx)"
  obtain d where d: "decide PolicyEngine_new open_app_descriptor example_open_proposal ?ctx = Some d"
    "pd_outcome d = Allow" "pd_reason d \<noteq> PersistentExactAllow"
    using example_open_decision by blast
  have contract: "\<not> contract_mismatch example_open_proposal open_app_descriptor"
    by (simp add: contract_mismatch_def example_open_proposal_def open_app_descriptor_def)
  have "verify_executable example_os (\<lambda>_. []) example_executable RootOnly = Inr ''/usr/bin/mail''"
    using example_inspection
    by (simp add: verify_executable_ok_iff identity_validate_def starts_with_def example_executable_def)
  then have "runtime_execute example_os (\<lambda>_. []) (RealLinux (Some [(''app:mail'', example_application)])) ?a
      = (Inr Launched, Some \<lparr>cmd_program = ''/usr/bin/mail'', cmd_args = [''--new''], cmd_env = command_environment example_os\<rparr>)"
    using open_app_descriptor_valid
    by (simp add: real_linux_execute_def validate_authorization_def example_open_proposal_def
        authorization_new_def application_get_def bt_get_def example_application_def)
      (simp add: open_app_descriptor_def example_os_def)
  then show thesis
    using that [of "evaluation_allowed d ?a" ?a] d contract
    by (simp add: authorize_proposal_def authorize_confirmed_proposal_once_def evaluation_allowed_def is_allowed_def
        linux_executor_def)
qed

lemma example_service_simps [simp]:
  "sv_registry example_service = [(''system.open_app'', open_app_descriptor),
     (''test.operation'', example_capability LocalSideEffect)]"
  "sv_policy example_service = PolicyEngine_new" "sv_database example_service = example_db"
  "sv_applications example_service = Some [(''app:mail'', example_application)]"
  by (simp_all add: example_service_def)

lemma example_draws_simps [simp]:
  "sp_now example_draws k = 0" "sp_execution_id example_draws = ''execution:1''"
  "sp_permission_id example_draws = ''permission:2''"
  by (simp_all add: example_draws_def)

lemma example_descriptor:
  "descriptor_for (example_service\<lparr>sv_pending := m\<rparr>) (ap_action example_open_proposal) = Inr open_app_descriptor"
  by (simp add: descriptor_for_def registry_get_def bt_get_def example_open_proposal_def open_app_descriptor_def)

lemma example_pending:
  "bt_get (sv_pending example_service) i = (if i = ''confirmation:1'' then
     Some \<lparr>pn_request_execution_id = ''execution:0'', pn_proposal = example_open_proposal, pn_title = ''Mail'',
       pn_expires_at_ms = 10, pn_session_id = None\<rparr> else None)"
  by (simp add: example_service_def bt_get_def)

text \<open>
  C12. The pipeline is live: if the capability is registered with the arguments the request has, the
  profile is readable, the grants are stored by the daemon, the drawn identifiers are new and the clock
  does not run backwards, then every proposal, whatever the executor does, is answered with a decision
  and a receipt; in particular an exact grant that was found can be claimed.
\<close>
theorem pipeline_answers:
  assumes "serde_faithful J" and "stores J (sv_database sv) gs" and "list_all grant_ids_valid gs"
    and "registry_invar (sv_registry sv)" and "descriptor_for sv (ap_action p) = Inr c"
    and "db_security_profile (sv_database sv) = Inr profile"
    and "fresh_draws T (sv_database sv)" and "sp_now T 0 \<le> sp_now T 1"
  shows "\<exists>d receipt sv' cmd. process_proposal J T E p session simulate sv = (Inr (d, receipt), sv', cmd)"
  by (rule process_answers [OF assms])

lemma example_fresh: "fresh_draws example_draws example_db"
  by (auto simp: fresh_draws_def example_draws_def example_db_def empty_database_def inj_def)

lemma example_ids: "list_all grant_ids_valid [example_agent_grant]"
  by (simp add: example_agent_grant_ids)

lemma example_registry_invar: "registry_invar (sv_registry example_service)"
  using open_app_descriptor_valid example_capability_valid
  by (auto simp: registry_invar_def registry_get_def bt_get_def bt_invar_def split: if_splits)
    (simp_all add: open_app_descriptor_def example_capability_def)

lemma example_agent_descriptor:
  "descriptor_for example_service (ap_action (example_proposal (agent_context example_identity)))
    = Inr (example_capability LocalSideEffect)"
  by (simp add: descriptor_for_def registry_get_def bt_get_def example_proposal_def example_capability_def)

lemma example_stores: "stores plain_json (sv_database example_service) [example_agent_grant]"
  using example_db_stores by simp

lemma example_profile: "db_security_profile (sv_database example_service) = Inr Balanced"
  using example_db_profile by simp

abbreviation example_agent_proposal :: action_proposal where
  "example_agent_proposal \<equiv> example_proposal (agent_context example_identity)"

lemma example_agent_run:
  obtains d receipt sv' cmd where "process_proposal plain_json example_draws dry_executor example_agent_proposal None
    simulate example_service = (Inr (d, receipt), sv', cmd)"
  using process_answers [OF plain_json_faithful example_stores example_ids example_registry_invar
      example_agent_descriptor example_profile, of example_draws dry_executor None simulate] example_fresh
  by auto

lemma example_open_run:
  obtains d receipt sv' cmd where "process_proposal plain_json example_draws (linux_executor example_os (\<lambda>_. []))
    example_open_proposal None False example_service = (Inr (d, receipt), sv', Some cmd)"
proof -
  let ?E = "linux_executor example_os (\<lambda>_. [])"
  have pending: "example_service = example_service\<lparr>sv_pending := sv_pending example_service\<rparr>" by simp
  note ctx = example_open_context [of "sv_pending example_service", folded pending]
  note desc = example_descriptor [of "sv_pending example_service", folded pending]
  obtain d receipt sv' cmd where run: "process_proposal plain_json example_draws ?E
    example_open_proposal None False example_service = (Inr (d, receipt), sv', cmd)"
    using process_answers [OF plain_json_faithful example_stores example_ids example_registry_invar
        desc example_profile, of example_draws ?E None False] example_fresh
    by auto
  moreover have "cmd \<noteq> None"
  proof (rule example_open_authorized)
    fix ev a
    assume ev: "authorize_proposal PolicyEngine_new open_app_descriptor example_open_proposal ''execution:1''
        (stored_context Balanced example_open_proposal None 0 []) = Some ev"
      "pe_authorization ev = Some a" "pd_reason (pe_decision ev) \<noteq> PersistentExactAllow"
      and cmd: "snd (?E (Some [(''app:mail'', example_application)]) a) \<noteq> None"
    have "run_authorized plain_json example_draws ?E open_app_descriptor example_open_proposal (pe_decision ev) a
        example_service = (Inr (d, receipt), sv', cmd)"
      using run ctx desc ev by (simp add: process_proposal_def)
    then show ?thesis using cmd run_authorized_spawn by fastforce
  qed
  ultimately show thesis using that by blast
qed

theorem pipeline_answers_witness:
  "\<exists>d receipt sv' cmd. process_proposal plain_json example_draws dry_executor example_agent_proposal None False
     example_service = (Inr (d, receipt), sv', cmd)"
  by (rule pipeline_answers [OF plain_json_faithful example_stores example_ids example_registry_invar
        example_agent_descriptor example_profile]) (simp_all add: example_fresh)

theorem pipeline_refines_policy_witness:
  "\<exists>d receipt sv' cmd. process_proposal plain_json example_draws dry_executor example_agent_proposal None False
      example_service = (Inr (d, receipt), sv', cmd)
    \<and> pd_outcome d = spec_outcome PolicyEngine_new (example_capability LocalSideEffect) example_agent_proposal
        (stored_context Balanced example_agent_proposal None 0 [example_agent_grant])"
proof -
  obtain d receipt sv' cmd where run: "process_proposal plain_json example_draws dry_executor
      example_agent_proposal None False example_service = (Inr (d, receipt), sv', cmd)"
    by (rule example_agent_run)
  from run pipeline_refines_policy [OF plain_json_faithful example_stores example_ids example_registry_invar run]
  show ?thesis
    using descriptor_for_ok [OF example_agent_descriptor] example_profile by auto
qed

theorem spawned_command_was_allowed_witness:
  "\<exists>r sv' cmd. process_proposal plain_json example_draws (linux_executor example_os (\<lambda>_. [])) example_open_proposal
      None False example_service = (r, sv', Some cmd)
    \<and> (\<exists>c. spec_outcome PolicyEngine_new c example_open_proposal
        (stored_context Balanced example_open_proposal None 0 [example_agent_grant]) = Allow)"
proof -
  obtain d receipt sv' cmd where run: "process_proposal plain_json example_draws (linux_executor example_os (\<lambda>_. []))
    example_open_proposal None False example_service = (Inr (d, receipt), sv', Some cmd)"
    by (rule example_open_run)
  from run spawned_command_was_allowed [OF plain_json_faithful example_stores example_ids run]
  show ?thesis using example_profile by auto
qed

theorem answered_request_is_journalled_witness:
  "\<exists>d receipt sv' cmd. process_proposal plain_json example_draws dry_executor example_agent_proposal None False
      example_service = (Inr (d, receipt), sv', cmd)
    \<and> db_executions (sv_database sv') = [receipt_to_row plain_json receipt]"
proof -
  obtain d receipt sv' cmd where run: "process_proposal plain_json example_draws dry_executor
      example_agent_proposal None False example_service = (Inr (d, receipt), sv', cmd)"
    by (rule example_agent_run)
  from run answered_request_is_journalled [OF run] show ?thesis by (auto simp: example_db_def empty_database_def)
qed

text \<open>An identifier that is drawn twice: the command is spawned and the tables refuse its journal.\<close>

definition repeated_draws :: draws where
  "repeated_draws = example_draws\<lparr>sp_audit_id := (\<lambda>_. ''audit:1'')\<rparr>"


lemma example_agent_allowed:
  "spec_outcome PolicyEngine_new (example_capability LocalSideEffect) example_agent_proposal
     (stored_context Balanced example_agent_proposal None 0 [example_agent_grant]) = Allow"
proof -
  have "exact_grant (stored_context Balanced example_agent_proposal None 0 [example_agent_grant])
      example_agent_proposal Effect_Allow"
    by (simp add: exact_grant_def stored_context_def permission_session_def permission_agent_def
        example_proposal_def agent_context_def example_agent_grant_def grant_is_active_def example_identity_def)
  moreover have "\<not> denied (example_capability LocalSideEffect) example_agent_proposal
      (stored_context Balanced example_agent_proposal None 0 [example_agent_grant])"
    using example_capability_valid [of LocalSideEffect] example_agent_context_valid
    by (simp add: denied_def example_proposal_def example_capability_def immutable_violation_def
        secret_to_external_def has_resource_def agent_context_def authority_namespace_def
        exact_grant_def stored_context_def default_context_def example_agent_grant_def)
  ultimately show ?thesis by (simp add: spec_outcome_Allow)
qed

theorem confirmation_bypass_spends_grant_witness:
  "\<exists>d receipt sv' cmd. process_proposal plain_json example_draws dry_executor example_agent_proposal None True
      example_service = (Inr (d, receipt), sv', cmd)
    \<and> stores plain_json (sv_database sv') [example_agent_grant\<lparr>pg_use_count := 1\<rparr>]"
proof -
  let ?c = "example_capability LocalSideEffect"
  obtain d receipt sv' cmd where run: "process_proposal plain_json example_draws dry_executor
      example_agent_proposal None True example_service = (Inr (d, receipt), sv', cmd)"
    by (rule example_agent_run)
  have reg: "registry_get (sv_registry example_service) (ar_capability_id (ap_action example_agent_proposal)) = Some ?c"
    using descriptor_for_ok [OF example_agent_descriptor] by simp
  have needs: "needs_confirmation (sv_policy example_service) ?c example_agent_proposal Balanced"
    by (simp add: needs_confirmation_def example_proposal_def example_capability_def agent_context_def)
  have "er_status receipt \<noteq> NotExecuted"
    using process_refines [OF plain_json_faithful example_stores example_ids example_registry_invar run]
      reg example_profile example_agent_allowed by auto
  from run confirmation_bypass_spends_grant [OF plain_json_faithful example_stores run this reg example_profile needs]
  show ?thesis by (auto simp: example_agent_grant_def)
qed

lemma example_persist:
  assumes "pn_proposal pending = example_open_proposal"
  obtains rows where "persist_confirmation plain_json example_draws pending Persist_Always None 0
      (example_service\<lparr>sv_pending := m\<rparr>)
    = (Inr (), example_service\<lparr>sv_pending := m, sv_database := example_db\<lparr>db_permissions := rows\<rparr>\<rparr>)"
proof -
  have "length (plain_scope (from_proposal example_open_proposal)) \<le> 32768" by code_simp
  moreover have "length (ac_resources (ap_context example_open_proposal)) = 0"
    by (simp add: example_open_proposal_def trusted_user_def)
  ultimately show thesis
    using that assms
    by (simp add: persist_confirmation_def confirmation_grant_def Let_def upsert_permission_grant_def
        grant_validate_def permission_check_def grant_to_row_def plain_json_def permission_agent_def
        example_open_proposal_def trusted_user_def from_proposal_def MAX_ACTION_RESOURCES_def)
qed

lemma example_usage:
  assumes "db_usage (sv_database sv) = []"
  obtains rows where "record_usage example_draws example_open_proposal Succeeded sv
    = (Inr (), sv\<lparr>sv_database := (sv_database sv)\<lparr>db_usage := rows\<rparr>\<rparr>)"
proof -
  define u where "u = \<lparr>iu_id = sp_event_id example_draws, iu_intent = ''open_application'',
    iu_entity_id = ''app:mail'', iu_outcome = Outcome_Success, iu_context_class = ''application'',
    iu_created_at_ms = (0::int)\<rparr>"
  have trims: "trim ''open_application'' = ''open_application''" "trim ''application'' = ''application''"
    by code_simp+
  have check: "usage_check (usage_to_row u)" unfolding u_def by code_simp
  have "\<exists>rows. record_intent_usage u (sv_database sv) = (Inr (), (sv_database sv)\<lparr>db_usage := rows\<rparr>)"
    using assms check trims by (auto simp: record_intent_usage_def Let_def u_def)
  then show thesis
    using that by (auto simp: record_usage_def example_open_proposal_def u_def)
qed

lemma example_confirm_run:
  obtains result sv' cmd where "confirm_action plain_json example_draws (linux_executor example_os (\<lambda>_. []))
    ''confirmation:1'' True Persist_Always None example_service = (Inr result, sv', Some cmd)" "cr_accepted result"
proof (rule example_open_authorized)
  let ?E = "linux_executor example_os (\<lambda>_. [])" and ?T = example_draws
  let ?pending = "\<lparr>pn_request_execution_id = ''execution:0'', pn_proposal = example_open_proposal,
     pn_title = ''Mail'', pn_expires_at_ms = 10, pn_session_id = None\<rparr>"
  fix ev a
  assume ev: "authorize_confirmed_proposal_once PolicyEngine_new open_app_descriptor example_open_proposal
      ''execution:1'' (stored_context Balanced example_open_proposal None 0 []) = Some ev" "pe_authorization ev = Some a"
    and run: "snd (?E (Some [(''app:mail'', example_application)]) a) \<noteq> None"
      "fst (?E (Some [(''app:mail'', example_application)]) a) = Some (Inr Launched)"
  then obtain cmd where E: "?E (Some [(''app:mail'', example_application)]) a = (Some (Inr Launched), Some cmd)"
    by (metis option.exhaust prod.collapse)
  define sv where "sv = example_service\<lparr>sv_pending := bt_remove ''confirmation:1'' (sv_pending example_service)\<rparr>"
  obtain rows where persist: "persist_confirmation plain_json ?T ?pending Persist_Always None 0 sv
      = (Inr (), sv\<lparr>sv_database := example_db\<lparr>db_permissions := rows\<rparr>\<rparr>)"
    unfolding sv_def by (rule example_persist [of ?pending]) simp_all
  obtain rows2 where usage: "record_usage ?T example_open_proposal Succeeded
        (sv\<lparr>sv_database := example_db\<lparr>db_permissions := rows\<rparr>\<rparr>)
      = (Inr (), sv\<lparr>sv_database := example_db\<lparr>db_permissions := rows, db_usage := rows2\<rparr>\<rparr>)"
    by (rule example_usage [of "sv\<lparr>sv_database := example_db\<lparr>db_permissions := rows\<rparr>\<rparr>"]) simp_all
  have fresh: "fresh_draws ?T (example_db\<lparr>db_permissions := rows, db_usage := rows2\<rparr>)"
    using example_fresh by (simp add: fresh_draws_def)
  have "\<exists>result sv'. run_confirmed plain_json ?T ?E ?pending open_app_descriptor (pe_decision ev) a 0
      (sv\<lparr>sv_database := example_db\<lparr>db_permissions := rows\<rparr>\<rparr>) = (Inr result, sv', Some cmd) \<and> cr_accepted result"
  proof -
    let ?out = "execution_outcome ''execution:1'' (cd_id open_app_descriptor) ''executor rejected the confirmed request''
        ''confirmed capability exceeded its deadline'' (Some (Inr Launched))"
    have "0 < cd_version open_app_descriptor" by (simp add: open_app_descriptor_def)
    from record_fresh [OF fresh this, of plain_json 0 0 "pe_decision ev" ?out
        "confirmed_events ?T open_app_descriptor example_open_proposal (pe_decision ev) 0 @ [(0, outcome_event ?out)]"]
    obtain db' where "record_execution plain_json
        (receipt_of ''execution:1'' open_app_descriptor 0 0 (pe_decision ev) ?out)
        (audit_list (sp_audit_id ?T) 0 (confirmed_events ?T open_app_descriptor example_open_proposal (pe_decision ev) 0
          @ [(0, outcome_event ?out)])) (example_db\<lparr>db_permissions := rows, db_usage := rows2\<rparr>) = (Inr (), db')"
      by auto
    moreover have "fst ?out = Succeeded" by (simp add: execution_outcome_def)
    moreover have "sv_applications sv = Some [(''app:mail'', example_application)]" by (simp add: sv_def)
    ultimately show ?thesis using E usage by (simp add: run_confirmed_def Let_def)
  qed
  moreover have "confirm_action plain_json ?T ?E ''confirmation:1'' True Persist_Always None example_service
      = run_confirmed plain_json ?T ?E ?pending open_app_descriptor (pe_decision ev) a 0
          (sv\<lparr>sv_database := example_db\<lparr>db_permissions := rows\<rparr>\<rparr>)"
    using ev persist example_descriptor example_open_context
    by (simp add: confirm_action_def example_pending accept_pending_def sv_def)
  ultimately show thesis using that by auto
qed

theorem confirmed_spawn_needs_consent_witness:
  "\<exists>r sv' cmd. confirm_action plain_json example_draws (linux_executor example_os (\<lambda>_. []))
      ''confirmation:1'' True Persist_Always None example_service = (r, sv', Some cmd)
    \<and> (\<exists>c. \<not> denied c example_open_proposal
        (stored_context Balanced example_open_proposal None 0 [example_agent_grant]))"
proof -
  obtain result sv' cmd where run: "confirm_action plain_json example_draws (linux_executor example_os (\<lambda>_. []))
    ''confirmation:1'' True Persist_Always None example_service = (Inr result, sv', Some cmd)"
    by (rule example_confirm_run)
  from run confirmed_spawn_needs_consent [OF plain_json_faithful example_stores example_ids run] show ?thesis
    using example_profile by (auto simp: example_pending)
qed

end
