(* ===== verification/Halquen_Authority.thy ===== *)
theory Halquen_Authority
  imports Halquen_Pipeline
begin

text \<open>
  Administration of authority (\<open>security_service.rs\<close>): the handlers by which a user edits the
  security profile, permission grants, resource labels, agents and registered applications. Each
  handler is a function of the service state and, where the code reads them, the clock, a generated
  identifier, the operating system and the digest function; it returns its response or the error
  body, and the state it leaves.
\<close>

section \<open>Requests\<close>

record permission_grant_upsert =
  pgu_id :: "permission_id option"
  pgu_effect :: permission_effect
  pgu_lifetime :: permission_lifetime
  pgu_capability_id :: capability_id
  pgu_arguments :: action_arguments
  pgu_resources :: "resource_descriptor list"
  pgu_destination :: "destination_class option"
  pgu_session :: "permission_session_scope option"
  pgu_agent_id :: "agent_id option"
  pgu_expires_at_ms :: "i64 option"

record resource_label_upsert =
  rlu_id :: "resource_label_id option"
  rlu_name :: string
  rlu_resource_kind :: resource_kind
  rlu_match_kind :: resource_match_kind
  rlu_pattern :: string
  rlu_classification :: resource_classification
  rlu_data_classification :: data_classification

record agent_configuration_upsert =
  acu_id :: "agent_id option"
  acu_name :: string
  acu_transport :: agent_transport
  acu_executable :: string
  acu_arguments :: "string list"
  acu_socket_path :: "string option"
  acu_sandbox :: sandbox_backend
  acu_ownership :: executable_ownership
  acu_sha256_hex :: "string option"
  acu_resource_limits :: agent_resource_limits
  acu_enabled :: bool
  acu_timeout_ms :: u64
  acu_max_stdout_bytes :: u32
  acu_max_stderr_bytes :: u32

record application_registration_upsert =
  aru_entity_id :: entity_id
  aru_display_name :: string
  aru_executable :: string
  aru_arguments :: "string list"
  aru_ownership :: executable_ownership
  aru_sha256_hex :: "string option"
  aru_enabled :: bool

record security_overview =
  so_profile :: security_profile
  so_immutable_rule_ids :: "string list"
  so_active_permissions :: u32
  so_resource_labels :: u32
  so_configured_agents :: u32
  so_active_agent_sessions :: u32
  so_registered_applications :: u32

definition into_configuration ::
  "agent_configuration_upsert \<Rightarrow> i64 \<Rightarrow> agent_id \<Rightarrow> executable_identity option \<Rightarrow> agent_configuration" where
  "into_configuration input now_ms generated identity =
     \<lparr>ag_id = (case acu_id input of None \<Rightarrow> generated | Some i \<Rightarrow> i), ag_name = acu_name input,
      ag_transport = acu_transport input, ag_executable = acu_executable input,
      ag_arguments = acu_arguments input, ag_socket_path = acu_socket_path input,
      ag_sandbox = acu_sandbox input, ag_ownership = acu_ownership input,
      ag_executable_identity = identity, ag_resource_limits = acu_resource_limits input,
      ag_enabled = acu_enabled input, ag_timeout_ms = acu_timeout_ms input,
      ag_max_stdout_bytes = acu_max_stdout_bytes input, ag_max_stderr_bytes = acu_max_stderr_bytes input,
      ag_created_at_ms = now_ms, ag_updated_at_ms = now_ms\<rparr>"

section \<open>Handlers\<close>

type_synonym 'a administered = "(service_error, 'a) result \<times> service"

text \<open>A database operation inside a handler: its error is reported as an internal one.\<close>

definition on_database :: "'a db_op \<Rightarrow> service \<Rightarrow> 'a administered" where
  "on_database operation sv =
     (case operation (sv_database sv) of
        (r, db) \<Rightarrow> (map_err (\<lambda>_. internal_error) r, sv\<lparr>sv_database := db\<rparr>))"

definition IMMUTABLE_RULE_IDS :: "string list" where
  "IMMUTABLE_RULE_IDS =
     [''immutable.secret-to-external'', ''immutable.production-destructive'',
      ''immutable.system-critical'', ''immutable.untrusted-authority-mutation'']"

definition service_security_overview ::
  "serde_json \<Rightarrow> i64 \<Rightarrow> service \<Rightarrow> (service_error, security_overview) result" where
  "service_security_overview J now sv =
     (let db = sv_database sv in
      map_err (\<lambda>_. internal_error)
        (and_then (active_permission_grants J db now 200) (\<lambda>permissions.
         and_then (list_resource_labels db 200) (\<lambda>labels.
         and_then (list_agents J db 100) (\<lambda>agents.
         and_then (list_agent_sessions db 200) (\<lambda>sessions.
         and_then (list_registered_applications J db 200) (\<lambda>applications.
         and_then (db_security_profile db) (\<lambda>profile.
           Inr \<lparr>so_profile = profile, so_immutable_rule_ids = IMMUTABLE_RULE_IDS,
                so_active_permissions = min (length permissions) u32_max,
                so_resource_labels = min (length labels) u32_max,
                so_configured_agents = min (length agents) u32_max,
                so_active_agent_sessions =
                  min (length (filter (\<lambda>s. as_status s = Status_Running) sessions)) u32_max,
                so_registered_applications = min (length applications) u32_max\<rparr>))))))))"

definition service_update_security_profile :: "i64 \<Rightarrow> security_profile \<Rightarrow> service \<Rightarrow> security_profile administered" where
  "service_update_security_profile now profile sv =
     (case on_database (update_security_profile profile now) sv of
        (r, sv) \<Rightarrow> (and_then r (\<lambda>_. Inr profile), sv))"

definition page_limit ::
  "string \<Rightarrow> u16 \<Rightarrow> (u16 \<Rightarrow> (storage_error, 'a) result) \<Rightarrow> u16 \<Rightarrow> (service_error, 'a) result" where
  "page_limit message most read limit =
     (if limit = 0 \<or> limit > most then Inl (validation message)
      else map_err (\<lambda>_. internal_error) (read limit))"

definition service_list_permission_grants ::
  "serde_json \<Rightarrow> u16 \<Rightarrow> service \<Rightarrow> (service_error, permission_grant list) result" where
  "service_list_permission_grants J limit sv =
     page_limit ''permission limit must be between 1 and 200'' 200 (list_permission_grants J (sv_database sv)) limit"

text \<open>Which session, expiry and use limit a new grant gets, by its lifetime.\<close>

definition agent_session_active ::
  "database \<Rightarrow> agent_session_id \<Rightarrow> agent_id \<Rightarrow> (service_error, bool) result" where
  "agent_session_active db session_id agent_id =
     and_then (map_err (\<lambda>_. internal_error) (list_agent_sessions db 200)) (\<lambda>sessions.
       Inr (list_ex (\<lambda>s. as_id s = session_id \<and> as_agent_id s = agent_id \<and> as_status s = Status_Running)
         sessions))"

definition session_admissible ::
  "service \<Rightarrow> permission_grant_upsert \<Rightarrow> permission_session_scope \<Rightarrow> (service_error, unit) result" where
  "session_admissible sv input session =
     (case session of
        Session_Agent session_id \<Rightarrow>
          and_then (ok_or (validation ''agent-session permission requires an agent'') (pgu_agent_id input))
            (\<lambda>agent_id. and_then (agent_session_active (sv_database sv) session_id agent_id)
               (\<lambda>valid. if valid then Inr ()
                         else Inl (validation ''agent session is not active for this agent'')))
      | Session_Daemon i \<Rightarrow>
          if i \<noteq> sv_daemon_session_id sv then Inl (validation ''daemon session is not current'') else Inr ()
      | Session_Chat _ \<Rightarrow> Inr ())"

definition grant_binding ::
  "service \<Rightarrow> permission_grant_upsert
   \<Rightarrow> (service_error, permission_session_scope option \<times> i64 option \<times> u32 option) result" where
  "grant_binding sv input =
     (case pgu_lifetime input of
        Life_Once \<Rightarrow> Inr (None, None, Some 1)
      | Life_Session \<Rightarrow>
          and_then (ok_or (validation ''session permission requires a session'') (pgu_session input))
            (\<lambda>session. and_then (session_admissible sv input session)
               (\<lambda>_. Inr (Some session, None, None)))
      | Life_Until \<Rightarrow>
          and_then (ok_or (validation ''until permission requires an expiration'') (pgu_expires_at_ms input))
            (\<lambda>expiry. Inr (None, Some expiry, None))
      | Life_Always \<Rightarrow> Inr (None, None, None))"

definition agent_configured :: "serde_json \<Rightarrow> database \<Rightarrow> agent_id option \<Rightarrow> (service_error, unit) result" where
  "agent_configured J db agent =
     (case agent of
        None \<Rightarrow> Inr ()
      | Some agent_id \<Rightarrow>
          and_then (map_err (\<lambda>_. internal_error) (list_agents J db 100)) (\<lambda>agents.
            if list_ex (\<lambda>a. ag_id a = agent_id) agents then Inr ()
            else Inl (validation ''permission agent is not configured'')))"

definition checked_grant ::
  "serde_json \<Rightarrow> i64 \<Rightarrow> permission_id \<Rightarrow> permission_grant_upsert \<Rightarrow> service
   \<Rightarrow> (service_error, permission_grant) result" where
  "checked_grant J now generated input sv =
     and_then (ok_or (validation ''permission capability is not registered'')
                (registry_get (sv_registry sv) (pgu_capability_id input))) (\<lambda>descriptor.
       if arguments_kind (pgu_arguments input) \<noteq> cd_arguments descriptor \<or> length (pgu_resources input) > 16
       then Inl (validation ''permission scope does not match the capability'')
       else and_then (agent_configured J (sv_database sv) (pgu_agent_id input)) (\<lambda>_.
         if is_some_and (\<lambda>expiry. expiry \<le> now) (pgu_expires_at_ms input)
         then Inl (validation ''permission expiration must be in the future'')
         else and_then (grant_binding sv input) (\<lambda>(session, expires_at_ms, use_limit).
           Inr \<lparr>pg_id = (case pgu_id input of None \<Rightarrow> generated | Some i \<Rightarrow> i),
                pg_effect = pgu_effect input, pg_lifetime = pgu_lifetime input,
                pg_scope = \<lparr>ps_capability_id = pgu_capability_id input, ps_arguments = pgu_arguments input,
                  ps_resources = pgu_resources input, ps_destination = pgu_destination input\<rparr>,
                pg_session = session, pg_agent_id = pgu_agent_id input, pg_granted_by = AO_UserExplicit,
                pg_granted_at_ms = now, pg_expires_at_ms = expires_at_ms, pg_revoked_at_ms = None,
                pg_use_limit = use_limit, pg_use_count = 0\<rparr>)))"

definition service_upsert_permission_grant ::
  "serde_json \<Rightarrow> i64 \<Rightarrow> permission_id \<Rightarrow> permission_grant_upsert \<Rightarrow> service \<Rightarrow> permission_grant administered" where
  "service_upsert_permission_grant J now generated input sv =
     (case checked_grant J now generated input sv of
        Inl e \<Rightarrow> (Inl e, sv)
      | Inr grant \<Rightarrow>
          (case on_database (upsert_permission_grant J grant) sv of
             (r, sv) \<Rightarrow> (and_then r (\<lambda>_. Inr grant), sv)))"

definition service_revoke_permission_grant :: "i64 \<Rightarrow> permission_id \<Rightarrow> service \<Rightarrow> bool administered" where
  "service_revoke_permission_grant now i sv = on_database (revoke_permission i now) sv"

definition service_list_resource_labels :: "u16 \<Rightarrow> service \<Rightarrow> (service_error, resource_label list) result" where
  "service_list_resource_labels limit sv =
     page_limit ''resource-label limit must be between 1 and 200'' 200 (list_resource_labels (sv_database sv)) limit"

definition service_upsert_resource_label ::
  "i64 \<Rightarrow> resource_label_id \<Rightarrow> resource_label_upsert \<Rightarrow> service \<Rightarrow> resource_label administered" where
  "service_upsert_resource_label now generated input sv =
     (let label = \<lparr>rl_id = (case rlu_id input of None \<Rightarrow> generated | Some i \<Rightarrow> i), rl_name = rlu_name input,
            rl_resource_kind = rlu_resource_kind input, rl_match_kind = rlu_match_kind input,
            rl_pattern = rlu_pattern input, rl_classification = rlu_classification input,
            rl_data_classification = rlu_data_classification input,
            rl_created_at_ms = now, rl_updated_at_ms = now\<rparr>
      in case upsert_resource_label label (sv_database sv) of
           (r, db) \<Rightarrow>
             (and_then (map_err (\<lambda>_. validation ''resource label is invalid or conflicts with an exact label'') r)
                (\<lambda>_. Inr label), sv\<lparr>sv_database := db\<rparr>))"

definition service_remove_resource_label :: "resource_label_id \<Rightarrow> service \<Rightarrow> bool administered" where
  "service_remove_resource_label i sv = on_database (remove_resource_label i) sv"

definition service_list_agents ::
  "serde_json \<Rightarrow> u16 \<Rightarrow> service \<Rightarrow> (service_error, agent_configuration list) result" where
  "service_list_agents J limit sv =
     page_limit ''agent limit must be between 1 and 100'' 100 (list_agents J (sv_database sv)) limit"

definition service_upsert_agent ::
  "serde_json \<Rightarrow> os \<Rightarrow> (string \<Rightarrow> string) \<Rightarrow> i64 \<Rightarrow> agent_id \<Rightarrow> agent_configuration_upsert \<Rightarrow> service
   \<Rightarrow> agent_configuration administered" where
  "service_upsert_agent J sys digest now generated input sv =
     (case (if acu_transport input = Transport_Cli
            then map_err (\<lambda>_. validation ''agent executable identity is not trusted'')
                   (and_then (inspect_executable sys digest (acu_executable input) (acu_ownership input)
                      (acu_sha256_hex input)) (\<lambda>identity. Inr (Some identity)))
            else Inr None) of
        Inl e \<Rightarrow> (Inl e, sv)
      | Inr identity \<Rightarrow>
          let agent = into_configuration input now generated identity in
          case upsert_agent J agent (sv_database sv) of
            (r, db) \<Rightarrow>
              (and_then (map_err (\<lambda>_. validation ''agent configuration is invalid'') r) (\<lambda>_. Inr agent),
               sv\<lparr>sv_database := db\<rparr>))"

definition service_remove_agent :: "agent_id \<Rightarrow> service \<Rightarrow> bool administered" where
  "service_remove_agent i sv = on_database (remove_agent i) sv"

definition service_list_agent_sessions :: "u16 \<Rightarrow> service \<Rightarrow> (service_error, agent_session list) result" where
  "service_list_agent_sessions limit sv =
     page_limit ''agent-session limit must be between 1 and 200'' 200 (list_agent_sessions (sv_database sv)) limit"

definition service_list_registered_applications ::
  "serde_json \<Rightarrow> u16 \<Rightarrow> service \<Rightarrow> (service_error, registered_application list) result" where
  "service_list_registered_applications J limit sv =
     page_limit ''application limit must be between 1 and 200'' 200
       (list_registered_applications J (sv_database sv)) limit"

text \<open>
  Registering an application writes the database and then the shared registry, both under the
  registry's lock; a poisoned lock refuses the request before anything is written.
\<close>

definition application_of_upsert ::
  "i64 \<Rightarrow> executable_identity \<Rightarrow> application_registration_upsert \<Rightarrow> registered_application" where
  "application_of_upsert now identity input =
     \<lparr>ra_entity_id = aru_entity_id input, ra_display_name = aru_display_name input,
      ra_executable = ei_canonical_path identity, ra_arguments = aru_arguments input,
      ra_ownership = aru_ownership input, ra_identity = identity, ra_enabled = aru_enabled input,
      ra_created_at_ms = now, ra_updated_at_ms = now\<rparr>"

definition service_upsert_registered_application ::
  "serde_json \<Rightarrow> os \<Rightarrow> (string \<Rightarrow> string) \<Rightarrow> i64 \<Rightarrow> application_registration_upsert \<Rightarrow> service
   \<Rightarrow> registered_application administered" where
  "service_upsert_registered_application J sys digest now input sv =
     (case inspect_executable sys digest (aru_executable input) (aru_ownership input) (aru_sha256_hex input) of
        Inl _ \<Rightarrow> (Inl (validation ''application executable identity is not trusted''), sv)
      | Inr identity \<Rightarrow>
          let application = application_of_upsert now identity input in
          if is_err (application_validate application)
          then (Inl (validation ''application registration is invalid''), sv)
          else (case sv_applications sv of
             None \<Rightarrow> (Inl internal_error, sv)
           | Some registry \<Rightarrow>
               (case upsert_registered_application J application (sv_database sv) of
                  (Inl _, db) \<Rightarrow> (Inl internal_error, sv\<lparr>sv_database := db\<rparr>)
                | (Inr _, db) \<Rightarrow>
                    (case application_upsert application registry of
                       Inl _ \<Rightarrow> (Inl internal_error, sv\<lparr>sv_database := db\<rparr>)
                     | Inr registry' \<Rightarrow>
                         (Inr application, sv\<lparr>sv_database := db, sv_applications := Some registry'\<rparr>)))))"

definition service_remove_registered_application :: "entity_id \<Rightarrow> service \<Rightarrow> bool administered" where
  "service_remove_registered_application entity_id sv =
     (case sv_applications sv of
        None \<Rightarrow> (Inl internal_error, sv)
      | Some registry \<Rightarrow>
          (case remove_registered_application entity_id (sv_database sv) of
             (Inl _, db) \<Rightarrow> (Inl internal_error, sv\<lparr>sv_database := db\<rparr>)
           | (Inr removed, db) \<Rightarrow>
               (Inr removed, sv\<lparr>sv_database := db,
                  sv_applications := Some (if removed then fst (application_remove entity_id registry)
                                           else registry)\<rparr>)))"

section \<open>Facts\<close>

lemma on_database_Inr:
  "on_database operation sv = (Inr x, sv') \<longleftrightarrow>
   (\<exists>db. operation (sv_database sv) = (Inr x, db) \<and> sv' = sv\<lparr>sv_database := db\<rparr>)"
  by (auto simp: on_database_def map_err_def split: prod.splits sum.splits)

text \<open>The shared registry agrees with a stored row up to the time of creation.\<close>

definition row_agrees :: "serde_json \<Rightarrow> registered_application \<Rightarrow> application_row \<Rightarrow> bool" where
  "row_agrees J a row =
     (\<exists>b. application_from_row J row = Inr b \<and> b\<lparr>ra_created_at_ms := ra_created_at_ms a\<rparr> = a)"

definition synced :: "serde_json \<Rightarrow> service \<Rightarrow> bool" where
  "synced J sv =
     (\<exists>registry. sv_applications sv = Some registry \<and> application_invar registry
        \<and> applications.keyed (db_applications (sv_database sv))
        \<and> (\<forall>i. rel_option (row_agrees J) (application_get registry i)
               (row_of arw_entity_id (db_applications (sv_database sv)) i)))"

lemma upsert_application_error:
  "upsert_registered_application J a db = (Inl e, db') \<Longrightarrow> db' = db"
  by (auto simp: upsert_registered_application_def Let_def split: if_splits sum.splits)

lemma upsert_application_keyed:
  assumes "upsert_registered_application J a db = (Inr (), db')" and "applications.keyed (db_applications db)"
  shows "applications.keyed (db_applications db')" "application_validate a = Inr ()"
  using assms applications.keyed_upsert
  by (auto simp: upsert_registered_application_def Let_def not_is_err_unit split: if_splits sum.splits)

lemma synced_upsert:
  assumes "serde_faithful J" and "synced J sv"
    and "OpaqueId_new (ra_entity_id a) = Inr (ra_entity_id a)" and "ei_owner_uid (ra_identity a) \<le> u32_max"
    and "upsert_registered_application J a (sv_database sv) = (Inr (), db')"
    and "sv_applications sv = Some registry" and "application_upsert a registry = Inr registry'"
  shows "synced J (sv\<lparr>sv_database := db', sv_applications := Some registry'\<rparr>)"
proof -
  from assms(2,6) have inv: "application_invar registry" "applications.keyed (db_applications (sv_database sv))"
    and agree: "\<And>i. rel_option (row_agrees J) (application_get registry i)
       (row_of arw_entity_id (db_applications (sv_database sv)) i)"
    by (auto simp: synced_def)
  have get: "application_get registry' i = (if i = ra_entity_id a then Some a else application_get registry i)" for i
    using assms(7) by (simp add: application_upsert_ok_iff application_get_def bt_get_insert)
  have "rel_option (row_agrees J) (application_get registry' i) (row_of arw_entity_id (db_applications db') i)" for i
  proof (cases "i = ra_entity_id a")
    case True
    then show ?thesis
      using application_upsert_rows [OF assms(1,3,4,5), of "ra_entity_id a"]
      by (auto simp: get row_agrees_def)
  next
    case False
    then show ?thesis
      using application_upsert_rows [OF assms(1,3,4,5), of i] agree [of i] by (simp add: get)
  qed
  then show ?thesis
    using application_invar_upsert [OF inv(1) assms(7)] upsert_application_keyed [OF assms(5) inv(2)]
    by (simp add: synced_def)
qed

lemma row_of_delete:
  "row_of key (fst (delete_rows (\<lambda>r. key r = k) rs)) i = (if i = k then None else row_of key rs i)"
  by (induction rs) (auto simp: row_of_def delete_rows_def)

lemma delete_count:
  assumes "applications.keyed rs"
  shows "snd (delete_rows (\<lambda>r. arw_entity_id r = k) rs) = (if row_of arw_entity_id rs k = None then 0 else 1)"
proof (cases "row_of arw_entity_id rs k")
  case None
  then show ?thesis by (auto simp: row_of_def find_None_iff delete_rows_def)
next
  case (Some r)
  then have "filter (\<lambda>r. arw_entity_id r = k) rs \<noteq> []"
    using applications.row_of_Some [OF Some] by (auto simp: filter_empty_conv)
  moreover have "length (filter (\<lambda>r. arw_entity_id r = k) rs) \<le> 1"
    using applications.update_by_key_count [OF assms, of k "\<lambda>_. True" id] by (simp add: update_rows_def)
  ultimately show ?thesis using Some by (simp add: delete_rows_def) (metis One_nat_def le_SucE le_zero_eq length_0_conv)
qed

lemma synced_remove:
  assumes "synced J sv"
  shows "synced J (snd (service_remove_registered_application k sv))"
proof -
  obtain registry where reg: "sv_applications sv = Some registry" "application_invar registry"
    "applications.keyed (db_applications (sv_database sv))"
    and agree: "\<And>i. rel_option (row_agrees J) (application_get registry i)
       (row_of arw_entity_id (db_applications (sv_database sv)) i)"
    using assms by (auto simp: synced_def)
  let ?rows = "db_applications (sv_database sv)"
  obtain rows n where del: "delete_rows (\<lambda>r. arw_entity_id r = k) ?rows = (rows, n)" by fastforce
  have n: "n = (if row_of arw_entity_id ?rows k = None then 0 else 1)" using delete_count [OF reg(3)] del by (metis snd_conv)
  have rows: "row_of arw_entity_id rows i = (if i = k then None else row_of arw_entity_id ?rows i)" for i
    using row_of_delete [of arw_entity_id k ?rows i] del by simp
  let ?reg = "if n = 1 then fst (application_remove k registry) else registry"
  have "application_get ?reg i = (if i = k then None else application_get registry i)" for i
    using agree [of k] n by (auto simp: application_remove_def application_get_def bt_get_remove split: if_splits)
  then have "rel_option (row_agrees J) (application_get ?reg i) (row_of arw_entity_id rows i)" for i
    using agree by (simp add: rows)
  moreover have "applications.keyed rows" using applications.keyed_delete [OF reg(3)] del by (metis fst_conv)
  moreover have "application_invar ?reg" using reg(2) application_invar_remove by simp
  moreover have "snd (service_remove_registered_application k sv)
      = sv\<lparr>sv_database := (sv_database sv)\<lparr>db_applications := rows\<rparr>, sv_applications := Some ?reg\<rparr>"
    using reg(1) del by (simp add: service_remove_registered_application_def remove_registered_application_def)
  ultimately show ?thesis by (simp add: synced_def)
qed

lemma ok_or_Inr: "ok_or e x = Inr y \<longleftrightarrow> x = Some y"
  by (cases x) (simp_all add: ok_or_def)

lemma checked_grant_bound:
  assumes "checked_grant J now generated input sv = Inr g"
  shows "\<exists>c. registry_get (sv_registry sv) (ps_capability_id (pg_scope g)) = Some c
      \<and> arguments_kind (ps_arguments (pg_scope g)) = cd_arguments c"
    and "pg_granted_by g = AO_UserExplicit" "pg_revoked_at_ms g = None" "pg_use_count g = 0" "pg_granted_at_ms g = now"
    and "pg_lifetime g = Life_Once \<Longrightarrow> pg_use_limit g = Some 1"
    and "pg_agent_id g = Some agent \<Longrightarrow> \<exists>agents. list_agents J (sv_database sv) 100 = Inr agents \<and> agent \<in> ag_id ` set agents"
    and "pg_expires_at_ms g = Some expiry \<Longrightarrow> now < expiry"
    and "pg_session g = Some (Session_Agent s) \<Longrightarrow> \<exists>sessions x. list_agent_sessions (sv_database sv) 200 = Inr sessions
      \<and> x \<in> set sessions \<and> as_id x = s \<and> Some (as_agent_id x) = pg_agent_id g \<and> as_status x = Status_Running"
proof -
  from assms obtain c session expires use_limit where step:
    "registry_get (sv_registry sv) (pgu_capability_id input) = Some c"
    "arguments_kind (pgu_arguments input) = cd_arguments c"
    "agent_configured J (sv_database sv) (pgu_agent_id input) = Inr ()"
    "\<not> is_some_and (\<lambda>expiry. expiry \<le> now) (pgu_expires_at_ms input)"
    "grant_binding sv input = Inr (session, expires, use_limit)"
    "g = \<lparr>pg_id = (case pgu_id input of None \<Rightarrow> generated | Some i \<Rightarrow> i),
          pg_effect = pgu_effect input, pg_lifetime = pgu_lifetime input,
          pg_scope = \<lparr>ps_capability_id = pgu_capability_id input, ps_arguments = pgu_arguments input,
            ps_resources = pgu_resources input, ps_destination = pgu_destination input\<rparr>,
          pg_session = session, pg_agent_id = pgu_agent_id input, pg_granted_by = AO_UserExplicit,
          pg_granted_at_ms = now, pg_expires_at_ms = expires, pg_revoked_at_ms = None,
          pg_use_limit = use_limit, pg_use_count = 0\<rparr>"
    by (auto simp: checked_grant_def and_then_Inr_iff ok_or_Inr split: if_splits)
  show "\<exists>c. registry_get (sv_registry sv) (ps_capability_id (pg_scope g)) = Some c
      \<and> arguments_kind (ps_arguments (pg_scope g)) = cd_arguments c"
    "pg_granted_by g = AO_UserExplicit" "pg_revoked_at_ms g = None" "pg_use_count g = 0" "pg_granted_at_ms g = now"
    using step by simp_all
  show "pg_use_limit g = Some 1" if "pg_lifetime g = Life_Once"
    using that step(5,6) by (auto simp: grant_binding_def)
  show "now < expiry" if "pg_expires_at_ms g = Some expiry"
    using that step(4,5,6)
    by (auto simp: grant_binding_def and_then_Inr_iff ok_or_Inr is_some_and_def split: permission_lifetime.splits)
  show "\<exists>agents. list_agents J (sv_database sv) 100 = Inr agents \<and> agent \<in> ag_id ` set agents"
    if "pg_agent_id g = Some agent"
    using that step(3,6)
    by (auto simp: agent_configured_def and_then_Inr_iff map_err_Inr_iff list_ex_iff split: if_splits)
  show "\<exists>sessions x. list_agent_sessions (sv_database sv) 200 = Inr sessions
      \<and> x \<in> set sessions \<and> as_id x = s \<and> Some (as_agent_id x) = pg_agent_id g \<and> as_status x = Status_Running"
    if "pg_session g = Some (Session_Agent s)"
    using that step(5,6)
    by (auto simp: grant_binding_def session_admissible_def agent_session_active_def and_then_Inr_iff ok_or_Inr
        map_err_Inr_iff list_ex_iff split: permission_lifetime.splits if_splits)
qed

section \<open>Properties\<close>

text \<open>
  The shared application registry mirrors the database: registering or removing an application,
  whether it succeeds or fails, leaves the in-memory registry well formed and in agreement with the
  stored rows, so what the executor can launch is what the user has stored.
\<close>
lemma registry_mirrors_database:
  assumes "serde_faithful J" and "synced J sv"
    and "OpaqueId_new (aru_entity_id input) = Inr (aru_entity_id input)"
    and "\<And>identity. inspect_executable sys digest (aru_executable input) (aru_ownership input)
      (aru_sha256_hex input) = Inr identity \<Longrightarrow> ei_owner_uid identity \<le> u32_max"
  shows "synced J (snd (service_upsert_registered_application J sys digest now input sv))
    \<and> synced J (snd (service_remove_registered_application i sv))"
proof
  show "synced J (snd (service_remove_registered_application i sv))" by (rule synced_remove [OF assms(2)])
  obtain registry where reg: "sv_applications sv = Some registry" using assms(2) by (auto simp: synced_def)
  show "synced J (snd (service_upsert_registered_application J sys digest now input sv))"
  proof (cases "inspect_executable sys digest (aru_executable input) (aru_ownership input) (aru_sha256_hex input)")
    case (Inl e)
    then show ?thesis using assms(2) by (simp add: service_upsert_registered_application_def)
  next
    case (Inr identity)
    let ?a = "application_of_upsert now identity input"
    obtain r db where up: "upsert_registered_application J ?a (sv_database sv) = (r, db)" by fastforce
    have ids: "OpaqueId_new (ra_entity_id ?a) = Inr (ra_entity_id ?a)" "ei_owner_uid (ra_identity ?a) \<le> u32_max"
      using assms(3,4) Inr by (simp_all add: application_of_upsert_def)
    show ?thesis
    proof (cases "is_err (application_validate ?a) \<or> is_err r")
      case True
      then show ?thesis
        using assms(2) Inr reg up
        by (auto simp: service_upsert_registered_application_def Let_def is_err_def split: sum.splits
            dest!: upsert_application_error)
    next
      case False
      then have valid: "application_validate ?a = Inr ()" and ok: "r = Inr ()" by (simp_all add: not_is_err_unit)
      then have ins: "application_upsert ?a registry = Inr (bt_insert (ra_entity_id ?a) ?a registry)"
        by (simp add: application_upsert_ok_iff)
      have "synced J (sv\<lparr>sv_database := db, sv_applications := Some (bt_insert (ra_entity_id ?a) ?a registry)\<rparr>)"
        using synced_upsert [OF assms(1,2) ids _ reg ins] up ok by simp
      then show ?thesis
        using Inr reg up ok ins valid by (simp add: service_upsert_registered_application_def Let_def)
    qed
  qed
qed

lemma example_synced: "synced plain_json (example_service\<lparr>sv_applications := Some []\<rparr>)"
  by (simp add: synced_def application_invar_def bt_invar_def application_get_def bt_get_def row_of_def
      applications.keyed_def)

text \<open>
  A grant the user creates is bound: it names a registered capability with fitting arguments, is
  granted by the user, unused, unrevoked and not yet expired, can be used once if it is a once grant,
  belongs to a configured agent if it names one, and to a running session of that agent if it is for
  an agent session; and it is stored, in place of the grant with its identifier or as a new one.
\<close>
lemma administered_grant_is_bound:
  assumes "stores J (sv_database sv) gs"
    and "service_upsert_permission_grant J now generated input sv = (Inr g, sv')"
  shows "stores J (sv_database sv') (upsert_row pg_id merge_grant g gs)
    \<and> (\<exists>c. registry_get (sv_registry sv) (ps_capability_id (pg_scope g)) = Some c
        \<and> arguments_kind (ps_arguments (pg_scope g)) = cd_arguments c)
    \<and> pg_granted_by g = AO_UserExplicit \<and> pg_revoked_at_ms g = None \<and> pg_use_count g = 0
    \<and> (pg_lifetime g = Life_Once \<longrightarrow> pg_use_limit g = Some 1)
    \<and> is_none_or (\<lambda>expiry. now < expiry) (pg_expires_at_ms g)
    \<and> (\<forall>agent. pg_agent_id g = Some agent \<longrightarrow>
        (\<exists>agents. list_agents J (sv_database sv) 100 = Inr agents \<and> agent \<in> ag_id ` set agents))
    \<and> (\<forall>s. pg_session g = Some (Session_Agent s) \<longrightarrow>
        (\<exists>sessions x. list_agent_sessions (sv_database sv) 200 = Inr sessions \<and> x \<in> set sessions
          \<and> as_id x = s \<and> Some (as_agent_id x) = pg_agent_id g \<and> as_status x = Status_Running))"
proof -
  obtain db' where check: "checked_grant J now generated input sv = Inr g"
    and up: "upsert_permission_grant J g (sv_database sv) = (Inr (), db')" "sv' = sv\<lparr>sv_database := db'\<rparr>"
    using assms(2)
    by (auto simp: service_upsert_permission_grant_def on_database_def map_err_def and_then_def
        split: sum.splits prod.splits)
  have "stores J (sv_database sv') (upsert_row pg_id merge_grant g gs)"
    using stores_upsert(1) [OF assms(1) up(1)] up(2) by simp
  then show ?thesis
    using checked_grant_bound [OF check] by (auto simp: is_none_or_def split: option.splits)
qed

definition example_grant_request :: permission_grant_upsert where
  "example_grant_request =
     \<lparr>pgu_id = None, pgu_effect = Effect_Allow, pgu_lifetime = Life_Once, pgu_capability_id = ''test.operation'',
      pgu_arguments = Args_None, pgu_resources = [], pgu_destination = None, pgu_session = None,
      pgu_agent_id = None, pgu_expires_at_ms = None\<rparr>"

text \<open>A grant for a daemon session that meets the checks is stored as a new row.\<close>

lemma daemon_grant_accepted:
  assumes "pgu_lifetime input = Life_Session" and "pgu_session input = Some (Session_Daemon (sv_daemon_session_id sv))"
    and "registry_get (sv_registry sv) (pgu_capability_id input) = Some c"
    and "arguments_kind (pgu_arguments input) = cd_arguments c" and "length (pgu_resources input) \<le> 16"
    and "pgu_agent_id input = None" and "is_none_or (\<lambda>expiry. now < expiry) (pgu_expires_at_ms input)"
    and "length (sj_scope J \<lparr>ps_capability_id = pgu_capability_id input, ps_arguments = pgu_arguments input,
        ps_resources = pgu_resources input, ps_destination = pgu_destination input\<rparr>) \<le> 32768"
    and "(case pgu_id input of None \<Rightarrow> generated | Some i \<Rightarrow> i) \<notin> prw_id ` set (db_permissions (sv_database sv))"
  obtains g where "service_upsert_permission_grant J now generated input sv
      = (Inr g, sv\<lparr>sv_database := (sv_database sv)\<lparr>db_permissions := db_permissions (sv_database sv) @ [grant_to_row J g]\<rparr>\<rparr>)"
    "pg_effect g = pgu_effect input" "pg_lifetime g = Life_Session"
    "pg_session g = Some (Session_Daemon (sv_daemon_session_id sv))"
    "pg_scope g = \<lparr>ps_capability_id = pgu_capability_id input, ps_arguments = pgu_arguments input,
        ps_resources = pgu_resources input, ps_destination = pgu_destination input\<rparr>"
    "pg_id g = (case pgu_id input of None \<Rightarrow> generated | Some i \<Rightarrow> i)"
proof -
  let ?g = "\<lparr>pg_id = (case pgu_id input of None \<Rightarrow> generated | Some i \<Rightarrow> i), pg_effect = pgu_effect input,
      pg_lifetime = Life_Session,
      pg_scope = \<lparr>ps_capability_id = pgu_capability_id input, ps_arguments = pgu_arguments input,
        ps_resources = pgu_resources input, ps_destination = pgu_destination input\<rparr>,
      pg_session = Some (Session_Daemon (sv_daemon_session_id sv)), pg_agent_id = None,
      pg_granted_by = AO_UserExplicit, pg_granted_at_ms = now, pg_expires_at_ms = None, pg_revoked_at_ms = None,
      pg_use_limit = None, pg_use_count = 0\<rparr>"
  have "\<not> is_some_and (\<lambda>expiry. expiry \<le> now) (pgu_expires_at_ms input)"
    using assms(7) by (auto simp: is_none_or_def is_some_and_def split: option.splits)
  then have check: "checked_grant J now generated input sv = Inr ?g"
    using assms(1-6)
    by (simp add: checked_grant_def ok_or_def agent_configured_def grant_binding_def session_admissible_def)
  have "grant_validate ?g = Inr ()"
    using assms(5) by (simp add: grant_validate_def MAX_ACTION_RESOURCES_def is_some_and_def)
  moreover have "permission_check (grant_to_row J ?g)"
    by (cases "pgu_effect input") (simp_all add: permission_check_def grant_to_row_def is_none_or_def)
  moreover have "upsert_row prw_id merge_permission (grant_to_row J ?g) (db_permissions (sv_database sv))
      = db_permissions (sv_database sv) @ [grant_to_row J ?g]"
    using assms(9) by (simp add: upsert_row_def list_ex_iff grant_to_row_def) (metis image_eqI)
  ultimately have "upsert_permission_grant J ?g (sv_database sv)
      = (Inr (), (sv_database sv)\<lparr>db_permissions := db_permissions (sv_database sv) @ [grant_to_row J ?g]\<rparr>)"
    using assms(8) by (simp add: upsert_permission_grant_def Let_def)
  with check show thesis
    by (intro that [of ?g]) (simp_all add: service_upsert_permission_grant_def on_database_def)
qed

lemma daemon_row_unaddressed:
  assumes "pg_lifetime g = Life_Session" and "pg_session g = Some (Session_Daemon i)"
  shows "\<not> row_addresses J p (permission_session p session) agent (grant_to_row J g)"
  using assms
  by (cases session) (auto simp: row_addresses_def grant_to_row_def permission_session_def split: option.splits)

text \<open>
  C31. A grant for a daemon session is inert. Whatever the effect, the daemon accepts a session grant for
  its own daemon session that names a registered capability with fitting arguments, no agent, no past
  expiry and a scope of admissible size, and it stores the grant as a new row; but afterwards every
  proposal, in every session and at every time, has the same policy context as before, and every claim
  finds the same grant as before. So the grant neither allows nor denies anything.
\<close>
theorem daemon_session_grant_is_inert:
  assumes "pgu_lifetime input = Life_Session" and "pgu_session input = Some (Session_Daemon (sv_daemon_session_id sv))"
    and "registry_get (sv_registry sv) (pgu_capability_id input) = Some c"
    and "arguments_kind (pgu_arguments input) = cd_arguments c" and "length (pgu_resources input) \<le> 16"
    and "pgu_agent_id input = None" and "is_none_or (\<lambda>expiry. now < expiry) (pgu_expires_at_ms input)"
    and "length (sj_scope J \<lparr>ps_capability_id = pgu_capability_id input, ps_arguments = pgu_arguments input,
        ps_resources = pgu_resources input, ps_destination = pgu_destination input\<rparr>) \<le> 32768"
    and "(case pgu_id input of None \<Rightarrow> generated | Some i \<Rightarrow> i) \<notin> prw_id ` set (db_permissions (sv_database sv))"
  shows "\<exists>g sv'. service_upsert_permission_grant J now generated input sv = (Inr g, sv')
    \<and> pg_effect g = pgu_effect input \<and> pg_session g = Some (Session_Daemon (sv_daemon_session_id sv))
    \<and> sv' = sv\<lparr>sv_database := (sv_database sv)\<lparr>db_permissions :=
        db_permissions (sv_database sv) @ [grant_to_row J g]\<rparr>\<rparr>
    \<and> (\<forall>p session t. service_policy_context J sv' p session t = service_policy_context J sv p session t
        \<and> fst (claim_permission_for_proposal J p (permission_session p session) (permission_agent p) t (sv_database sv'))
          = fst (claim_permission_for_proposal J p (permission_session p session) (permission_agent p) t (sv_database sv)))"
proof (rule daemon_grant_accepted [OF assms])
  fix g
  let ?sv = "sv\<lparr>sv_database := (sv_database sv)\<lparr>db_permissions := db_permissions (sv_database sv) @ [grant_to_row J g]\<rparr>\<rparr>"
  assume g: "service_upsert_permission_grant J now generated input sv = (Inr g, ?sv)" "pg_effect g = pgu_effect input"
    "pg_lifetime g = Life_Session" "pg_session g = Some (Session_Daemon (sv_daemon_session_id sv))"
    "pg_id g = (case pgu_id input of None \<Rightarrow> generated | Some i \<Rightarrow> i)"
  note unaddressed = daemon_row_unaddressed [OF g(3,4)]
  have "service_policy_context J ?sv p session t = service_policy_context J sv p session t" for p session t
    using unaddressed [of J p session]
    by (simp add: service_policy_context_def active_permission_grant_for_proposal_def db_security_profile_def Let_def)
  moreover have "fst (claim_permission_for_proposal J p (permission_session p session) (permission_agent p) t (sv_database ?sv))
      = fst (claim_permission_for_proposal J p (permission_session p session) (permission_agent p) t (sv_database sv))"
    for p session t
  proof -
    let ?claim = "claim_candidate J (sv_database sv) p (permission_session p session) (permission_agent p) t"
    have same: "claim_candidate J (sv_database ?sv) p (permission_session p session) (permission_agent p) t = ?claim"
      using unaddressed [of J p session] by (simp add: claim_candidate_def)
    show ?thesis
    proof (cases ?claim)
      case None
      with same show ?thesis by (simp add: claim_permission_for_proposal_def)
    next
      case (Some row)
      then have "row \<in> set (db_permissions (sv_database sv))"
        unfolding claim_candidate_def by (auto dest: first_row_in_set)
      then have "prw_id (grant_to_row J g) \<noteq> prw_id row"
        using assms(9) g(5) by (auto simp: grant_to_row_def)
      with Some same show ?thesis
        by (simp add: claim_permission_for_proposal_def update_rows_def)
    qed
  qed
  ultimately show ?thesis using g(1,2,4) by blast
qed

definition daemon_grant_request :: permission_grant_upsert where
  "daemon_grant_request =
     \<lparr>pgu_id = None, pgu_effect = Effect_Deny, pgu_lifetime = Life_Session, pgu_capability_id = ''test.operation'',
      pgu_arguments = Args_None, pgu_resources = [], pgu_destination = None,
      pgu_session = Some (Session_Daemon ''daemon:1''), pgu_agent_id = None, pgu_expires_at_ms = None\<rparr>"

theorem daemon_session_grant_is_inert_witness:
  "\<exists>g sv'. service_upsert_permission_grant plain_json 0 ''permission:9'' daemon_grant_request example_service = (Inr g, sv')
    \<and> pg_effect g = Effect_Deny
    \<and> service_policy_context plain_json sv' example_agent_proposal None 0
      = service_policy_context plain_json example_service example_agent_proposal None 0"
proof -
  have "registry_get (sv_registry example_service) (pgu_capability_id daemon_grant_request)
      = Some (example_capability LocalSideEffect)"
    by (simp add: registry_get_def bt_get_def daemon_grant_request_def)
  moreover have "arguments_kind (pgu_arguments daemon_grant_request) = cd_arguments (example_capability LocalSideEffect)"
    by (simp add: daemon_grant_request_def example_capability_def)
  moreover have "length (sj_scope plain_json \<lparr>ps_capability_id = pgu_capability_id daemon_grant_request,
      ps_arguments = pgu_arguments daemon_grant_request, ps_resources = pgu_resources daemon_grant_request,
      ps_destination = pgu_destination daemon_grant_request\<rparr>) \<le> 32768"
  proof -
    have "length (plain_scope \<lparr>ps_capability_id = ''test.operation'', ps_arguments = Args_None, ps_resources = [],
      ps_destination = None\<rparr>) \<le> 32768" by code_simp
    then show ?thesis by (simp add: daemon_grant_request_def plain_json_def)
  qed
  moreover have "(case pgu_id daemon_grant_request of None \<Rightarrow> ''permission:9'' | Some i \<Rightarrow> i)
      \<notin> prw_id ` set (db_permissions (sv_database example_service))"
    by (simp add: daemon_grant_request_def example_db_def grant_to_row_def example_agent_grant_def)
  ultimately show ?thesis
    using daemon_session_grant_is_inert [of daemon_grant_request example_service "example_capability LocalSideEffect" 0
        plain_json "''permission:9''"]
    by (auto simp: daemon_grant_request_def example_service_def is_none_or_def)
qed

end
