(* ===== verification/Halquen_Broker.thy ===== *)
theory Halquen_Broker
  imports Halquen_Agent_Host Halquen_Authority
begin

text \<open>
  Agent runs (\<open>agent_service.rs\<close>): the daemon opens an agent session, starts the agent under the
  host, passes every proposal of the agent through the action pipeline, answers with the dispositions
  and closes the session. The clock readings and identifiers of a run are arguments, one set of
  pipeline draws per proposal; so are the executors and the process. A run returns its response or
  error, the state it leaves, the commands the executors spawned, and what became of the agent process.
\<close>

section \<open>Requests and results\<close>

record agent_run_request =
  arq_agent_id :: agent_id
  arq_input :: string

datatype agent_proposal_disposition =
  Disp_Executed | Disp_Simulated | Disp_ConfirmationRequired | Disp_Denied | Disp_Failed

text \<open>The field \<open>confirmation\<close> of a result is \<open>None\<close> wherever the daemon builds one.\<close>

record agent_proposal_result =
  apr_index :: u16
  apr_capability_id :: capability_id
  apr_disposition :: agent_proposal_disposition
  apr_execution_id :: "execution_id option"
  apr_message :: string

record agent_run_result =
  arr_session :: agent_session
  arr_message :: string
  arr_proposals :: "agent_proposal_result list"
  arr_stderr_bytes :: u32

record run_draws =
  rn_started_at_ms :: i64
  rn_finished_at_ms :: i64
  rn_instance_id :: agent_instance_id
  rn_session_id :: agent_session_id
  rn_started_audit_id :: audit_id
  rn_finished_audit_id :: audit_id
  rn_proposal_draws :: "nat \<Rightarrow> draws"

fun agent_error_status :: "agent_host_error \<Rightarrow> agent_session_status" where
  "agent_error_status Host_TimedOut = Status_TimedOut"
| "agent_error_status Host_ProcessFailed = Status_Crashed"
| "agent_error_status Host_Io = Status_Crashed"
| "agent_error_status _ = Status_Failed"

definition agent_error_code :: "agent_host_error \<Rightarrow> protocol_error_code" where
  "agent_error_code error =
     (case error of
        Host_SandboxUnavailable \<Rightarrow> SandboxUnavailable
      | Host_ResourceLimitUnavailable \<Rightarrow> SandboxUnavailable
      | Host_InvalidConfiguration \<Rightarrow> Validation
      | Host_Disabled \<Rightarrow> Validation
      | Host_UnsupportedTransport \<Rightarrow> Validation
      | Host_UnsafeOptInRequired \<Rightarrow> Validation
      | Host_InvalidExecutable \<Rightarrow> Validation
      | _ \<Rightarrow> Internal)"

definition agent_error :: "agent_host_error \<Rightarrow> service_error" where
  "agent_error error =
     Refused \<lparr>peb_code = agent_error_code error, peb_message = ''agent broker operation failed safely''\<rparr>"

section \<open>One proposal\<close>

text \<open>An application an agent wants to open becomes a classified resource of its context.\<close>

definition classified_proposal :: "service \<Rightarrow> action_proposal \<Rightarrow> (service_error, action_proposal) result" where
  "classified_proposal sv proposal =
     (case ar_arguments (ap_action proposal) of
        Args_OpenApp app \<Rightarrow>
          and_then (map_err (\<lambda>_. internal_error) (application_classification (sv_database sv) app))
            (\<lambda>classification.
             let context = ap_context proposal;
                 context' = context\<lparr>ac_resources := ac_resources context @
                   [\<lparr>rd_kind = RK_Application, rd_identifier = app, rd_classification = classification\<rparr>]\<rparr>
             in if is_err (context_validate context') then Inl (validation ''agent proposal context is invalid'')
                else Inr (proposal\<lparr>ap_context := context'\<rparr>))
      | Args_None \<Rightarrow> Inr proposal)"

fun broker_disposition :: "agent_proposal_disposition \<Rightarrow> agent_broker_disposition" where
  "broker_disposition Disp_Executed = Broker_Executed"
| "broker_disposition Disp_Simulated = Broker_Simulated"
| "broker_disposition Disp_Failed = Broker_Failed"
| "broker_disposition Disp_ConfirmationRequired = Broker_ConfirmationRequired"
| "broker_disposition Disp_Denied = Broker_Denied"

text \<open>What the user and the agent are told about a proposal.\<close>

definition proposal_disposition ::
  "(service_error, policy_decision \<times> execution_receipt) result
   \<Rightarrow> agent_proposal_disposition \<times> execution_id option \<times> string" where
  "proposal_disposition response =
     (case response of
        Inr (verdict, receipt) \<Rightarrow>
          (case pd_outcome verdict of
             Allow \<Rightarrow>
               (if er_status receipt = DryRunSucceeded then Disp_Simulated
                else if er_status receipt = Succeeded then Disp_Executed else Disp_Failed,
                Some (er_execution_id receipt), ''daemon broker completed the authorized proposal'')
           | Confirm \<Rightarrow>
               (Disp_ConfirmationRequired, Some (er_execution_id receipt),
                ''proposal requires an exact user grant; this one-shot agent session cannot self-confirm'')
           | _ \<Rightarrow> (Disp_Denied, Some (er_execution_id receipt), ''daemon policy denied the proposal''))
      | Inl _ \<Rightarrow> (Disp_Failed, None, ''daemon broker rejected an invalid proposal''))"

definition proposal_results ::
  "nat \<Rightarrow> capability_id \<Rightarrow> (service_error, policy_decision \<times> execution_receipt) result
   \<Rightarrow> agent_proposal_result \<times> agent_broker_proposal_result" where
  "proposal_results index capability_id response =
     (case proposal_disposition response of (disposition, execution_id, message) \<Rightarrow>
        (\<lparr>apr_index = index, apr_capability_id = capability_id, apr_disposition = disposition,
          apr_execution_id = execution_id, apr_message = message\<rparr>,
         \<lparr>abr_index = index, abr_capability_id = capability_id,
          abr_disposition = broker_disposition disposition, abr_execution_id = execution_id,
          abr_confirmation_id = None, abr_message = message\<rparr>))"

definition option_list :: "'a option \<Rightarrow> 'a list" where
  "option_list x = (case x of None \<Rightarrow> [] | Some a \<Rightarrow> [a])"

text \<open>
  The loop over the proposals. An error ends it; a panic of the policy engine would end it, too.
\<close>

fun broker_proposals ::
  "serde_json \<Rightarrow> (nat \<Rightarrow> draws) \<Rightarrow> (nat \<Rightarrow> executor) \<Rightarrow> nat \<Rightarrow> action_proposal list \<Rightarrow> service
   \<Rightarrow> (service_error, (agent_proposal_result \<times> agent_broker_proposal_result) list) result
      \<times> service \<times> command_line list" where
  "broker_proposals J T E index [] sv = (Inr [], sv, [])"
| "broker_proposals J T E index (proposal # proposals) sv =
     (if index > 65535 then (Inl (validation ''agent returned too many proposals''), sv, [])
      else case classified_proposal sv proposal of
        Inl e \<Rightarrow> (Inl e, sv, [])
      | Inr classified \<Rightarrow>
          (case process_proposal J (T index) (E index) classified None False sv of
             (response, sv', cmd) \<Rightarrow>
               if response = Inl Panicked then (Inl Panicked, sv', option_list cmd)
               else (case broker_proposals J T E (Suc index) proposals sv' of
                  (rest, sv'', cmds) \<Rightarrow>
                    (and_then rest (\<lambda>results. Inr
                       (proposal_results index (ar_capability_id (ap_action proposal)) response # results)),
                     sv'', option_list cmd @ cmds))))"

section \<open>The run\<close>

definition service_finish_agent_session ::
  "serde_json \<Rightarrow> run_draws \<Rightarrow> agent_session \<Rightarrow> agent_session_status \<Rightarrow> service \<Rightarrow> agent_session administered" where
  "service_finish_agent_session J R session status sv =
     (let ended_at_ms = max (rn_finished_at_ms R) (as_started_at_ms session) in
      case on_database (finish_agent_session (as_id session) status ended_at_ms) sv of
        (Inl e, sv) \<Rightarrow> (Inl e, sv)
      | (Inr _, sv) \<Rightarrow>
          (case on_database (append_audit J \<lparr>au_id = rn_finished_audit_id R, au_created_at_ms = ended_at_ms,
                   au_event = Ev_AgentSessionFinished (as_id session) status\<rparr>) sv of
             (r, sv) \<Rightarrow> (and_then r (\<lambda>_. Inr (session\<lparr>as_status := status, as_ended_at_ms := Some ended_at_ms\<rparr>)), sv)))"

text \<open>Closing the session after an error: the error of closing wins over the first one.\<close>

definition abort_session ::
  "serde_json \<Rightarrow> run_draws \<Rightarrow> agent_session \<Rightarrow> agent_session_status \<Rightarrow> service_error \<Rightarrow> service
   \<Rightarrow> (service_error, 'a) result \<times> service" where
  "abort_session J R session status error sv =
     (case service_finish_agent_session J R session status sv of
        (Inl e, sv) \<Rightarrow> (Inl e, sv)
      | (Inr _, sv) \<Rightarrow> (Inl error, sv))"

type_synonym 'a agent_run = "(service_error, 'a) result \<times> service \<times> command_line list \<times> child"

definition aborted ::
  "serde_json \<Rightarrow> run_draws \<Rightarrow> agent_session \<Rightarrow> agent_session_status \<Rightarrow> service_error \<Rightarrow> command_line list \<Rightarrow> child
   \<Rightarrow> service \<Rightarrow> 'a agent_run" where
  "aborted J R session status error cmds ch sv =
     (case abort_session J R session status error sv of (r, sv) \<Rightarrow> (r, sv, cmds, ch))"

definition agent_capabilities :: "service \<Rightarrow> agent_capability_view list" where
  "agent_capabilities sv =
     map (\<lambda>d. \<lparr>acv_id = cd_id d, acv_version = cd_version d, acv_description = cd_description d,
                 acv_risk = cd_risk d, acv_arguments = cd_arguments d\<rparr>) (registry_list (sv_registry sv))"

definition configured_agent ::
  "serde_json \<Rightarrow> service \<Rightarrow> agent_run_request \<Rightarrow> (service_error, agent_configuration) result" where
  "configured_agent J sv request =
     (if trim (arq_input request) = [] \<or> length (arq_input request) > 64 * 1024
      then Inl (validation ''agent input must be between 1 and 65536 bytes'')
      else and_then (map_err (\<lambda>_. internal_error) (list_agents J (sv_database sv) 100)) (\<lambda>agents.
        ok_or (Refused \<lparr>peb_code = NotFound, peb_message = ''agent is not configured''\<rparr>)
          (find (\<lambda>agent. ag_id agent = arq_agent_id request) agents)))"

definition run_identity_of :: "run_draws \<Rightarrow> agent_configuration \<Rightarrow> agent_execution_identity" where
  "run_identity_of R configuration =
     \<lparr>ax_agent_id = ag_id configuration, ax_instance_id = rn_instance_id R, ax_session_id = rn_session_id R\<rparr>"

definition run_session_of :: "run_draws \<Rightarrow> agent_configuration \<Rightarrow> service \<Rightarrow> agent_session" where
  "run_session_of R configuration sv =
     \<lparr>as_id = rn_session_id R, as_agent_id = ag_id configuration, as_instance_id = rn_instance_id R,
      as_daemon_session_id = sv_daemon_session_id sv, as_status = Status_Running,
      as_started_at_ms = rn_started_at_ms R, as_ended_at_ms = None\<rparr>"

text \<open>Answering the agent and closing the session.\<close>

definition finish_run ::
  "serde_json \<Rightarrow> agent_json \<Rightarrow> agent_process \<Rightarrow> run_draws \<Rightarrow> agent_session \<Rightarrow> running_agent
   \<Rightarrow> agent_invocation_result \<Rightarrow> (agent_proposal_result \<times> agent_broker_proposal_result) list
   \<Rightarrow> command_line list \<Rightarrow> service \<Rightarrow> agent_run_result agent_run" where
  "finish_run J W P R session running invocation results cmds sv =
     (case agent_complete W P running (map snd results) of
        (Inl e, ch) \<Rightarrow> aborted J R session (agent_error_status e) (agent_error e) cmds ch sv
      | (Inr stderr_bytes, ch) \<Rightarrow>
     (case service_finish_agent_session J R session Status_Completed sv of
        (Inl e, sv) \<Rightarrow> (Inl e, sv, cmds, ch)
      | (Inr session, sv) \<Rightarrow>
          (Inr \<lparr>arr_session = session, arr_message = air_message invocation,
                arr_proposals = map fst results, arr_stderr_bytes = min stderr_bytes u32_max\<rparr>,
           sv, cmds, ch)))"

text \<open>The run from the moment the session is open.\<close>

definition run_session ::
  "serde_json \<Rightarrow> os \<Rightarrow> (string \<Rightarrow> string) \<Rightarrow> agent_json \<Rightarrow> agent_process \<Rightarrow> agent_host \<Rightarrow> run_draws
   \<Rightarrow> (nat \<Rightarrow> executor) \<Rightarrow> agent_configuration \<Rightarrow> string \<Rightarrow> agent_session \<Rightarrow> service
   \<Rightarrow> agent_run_result agent_run" where
  "run_session J sys digest W P host R E configuration input session sv =
     (case agent_start sys digest W P host configuration (run_identity_of R configuration) input
             (agent_capabilities sv) of
        (Inl e, _, ch) \<Rightarrow> aborted J R session (agent_error_status e) (agent_error e) [] ch sv
      | (Inr running, _, _) \<Rightarrow>
     (case receive_proposals W P running of
        (Inl e, _, ch) \<Rightarrow> aborted J R session (agent_error_status e) (agent_error e) [] ch sv
      | (Inr invocation, running, _) \<Rightarrow>
     (case broker_proposals J (rn_proposal_draws R) E 0 (air_proposals invocation) sv of
        (Inl e, sv, cmds) \<Rightarrow>
          if e = Panicked then (Inl Panicked, sv, cmds, Child_killed)
          else aborted J R session Status_Failed e cmds Child_killed sv
      | (Inr results, sv, cmds) \<Rightarrow>
          finish_run J W P R session running invocation results cmds sv)))"

definition run_agent ::
  "serde_json \<Rightarrow> os \<Rightarrow> (string \<Rightarrow> string) \<Rightarrow> agent_json \<Rightarrow> agent_process \<Rightarrow> agent_host \<Rightarrow> run_draws
   \<Rightarrow> (nat \<Rightarrow> executor) \<Rightarrow> agent_run_request \<Rightarrow> service \<Rightarrow> agent_run_result agent_run" where
  "run_agent J sys digest W P host R E request sv =
     (case configured_agent J sv request of
        Inl e \<Rightarrow> (Inl e, sv, [], No_child)
      | Inr configuration \<Rightarrow>
          let session = run_session_of R configuration sv in
     (case on_database (begin_agent_session session) sv of
        (Inl e, sv) \<Rightarrow> (Inl e, sv, [], No_child)
      | (Inr _, sv) \<Rightarrow>
     (case on_database (append_audit J \<lparr>au_id = rn_started_audit_id R, au_created_at_ms = rn_started_at_ms R,
              au_event = Ev_AgentSessionStarted (as_id session) (run_identity_of R configuration)\<rparr>) sv of
        (Inl e, sv) \<Rightarrow>
          (Inl e, snd (service_finish_agent_session J R session Status_Failed sv), [], No_child)
      | (Inr _, sv) \<Rightarrow>
          run_session J sys digest W P host R E configuration (arq_input request) session sv)))"

section \<open>What an agent run leaves alone\<close>

text \<open>A proposal changes the grants and appends to the journal, nothing else.\<close>

definition with_journal ::
  "permission_row list \<Rightarrow> execution_row list \<Rightarrow> audit_row list \<Rightarrow> event_row list \<Rightarrow> service \<Rightarrow> service" where
  "with_journal rows xs as es sv = sv\<lparr>sv_database := (sv_database sv)\<lparr>db_permissions := rows,
     db_executions := db_executions (sv_database sv) @ xs, db_audit := db_audit (sv_database sv) @ as,
     db_events := db_events (sv_database sv) @ es\<rparr>\<rparr>"

definition journal_frame :: "service \<Rightarrow> service \<Rightarrow> bool" where
  "journal_frame sv sv' \<longleftrightarrow> (\<exists>rows xs as es. sv' = with_journal rows xs as es sv)"

lemma journal_frameI: "sv' = with_journal rows xs as es sv \<Longrightarrow> journal_frame sv sv'"
  unfolding journal_frame_def by blast

lemma journal_frame_permissions: "journal_frame sv (sv\<lparr>sv_database := (sv_database sv)\<lparr>db_permissions := rows\<rparr>\<rparr>)"
  by (rule journal_frameI [of _ rows "[]" "[]" "[]"]) (simp add: with_journal_def)

lemma journal_frame_refl [simp]: "journal_frame sv sv"
  by (rule journal_frameI [of _ "db_permissions (sv_database sv)" "[]" "[]" "[]"]) (simp add: with_journal_def)

lemma journal_frame_trans: "journal_frame a b \<Longrightarrow> journal_frame b c \<Longrightarrow> journal_frame a c"
  unfolding journal_frame_def by (elim exE) (simp add: with_journal_def, blast)

lemma journal_frame_fields:
  assumes "journal_frame sv sv'"
  shows "sv_registry sv' = sv_registry sv" "sv_policy sv' = sv_policy sv" "sv_applications sv' = sv_applications sv"
    "sv_pending sv' = sv_pending sv" "sv_daemon_session_id sv' = sv_daemon_session_id sv"
    "db_agent_sessions (sv_database sv') = db_agent_sessions (sv_database sv)"
  using assms by (auto simp: journal_frame_def with_journal_def)

lemma finish_processing_frame: "finish_processing J receipt records sv cmd0 = (r, sv', cmd) \<Longrightarrow> journal_frame sv sv'"
proof (erule finish_cases)
  assume "sv' = sv\<lparr>sv_database := (sv_database sv)\<lparr>
     db_executions := db_executions (sv_database sv) @ [receipt_to_row J receipt],
     db_audit := db_audit (sv_database sv) @ map (audit_to_row J) records,
     db_events := db_events (sv_database sv) @ map event_to_row records\<rparr>\<rparr>"
  then show "journal_frame sv sv'"
    by (intro journal_frameI [of _ "db_permissions (sv_database sv)" "[receipt_to_row J receipt]"
          "map (audit_to_row J) records" "map event_to_row records"]) (simp add: with_journal_def)
qed simp

lemma process_frame:
  assumes "process_proposal J T E p session simulate sv = (r, sv', cmd)"
  shows "journal_frame sv sv'"
  using assms
proof (cases rule: process_cases)
  case (refused e rows)
  then show ?thesis by (simp add: journal_frame_permissions)
next
  case (blocked c ctx ev)
  then show ?thesis by (auto elim: not_executed_shape dest: finish_processing_frame)
next
  case (ran c ctx ev a db)
  obtain rows where db: "db = (sv_database sv)\<lparr>db_permissions := rows\<rparr>"
    using ran(5) by (auto elim!: claim_frame split: if_splits intro: that [of "db_permissions (sv_database sv)"])
  from ran(6) have "journal_frame (sv\<lparr>sv_database := db\<rparr>) sv'"
    by (auto elim!: run_authorized_shape dest: finish_processing_frame)
  moreover have "journal_frame sv (sv\<lparr>sv_database := db\<rparr>)" unfolding db by (rule journal_frame_permissions)
  ultimately show ?thesis by (rule journal_frame_trans [rotated])
qed

text \<open>A grant after at most so many uses.\<close>

definition spent :: "nat \<Rightarrow> permission_grant \<Rightarrow> permission_grant \<Rightarrow> bool" where
  "spent n g g' \<longleftrightarrow> pg_use_count g \<le> pg_use_count g' \<and> pg_use_count g' \<le> pg_use_count g + n
     \<and> g' = g\<lparr>pg_use_count := pg_use_count g'\<rparr>"

lemma spent_refl [simp]: "spent n g g"
  by (simp add: spent_def)

lemma spent_trans:
  assumes "spent m g h" and "spent n h k"
  shows "spent (m + n) g k"
proof -
  have "k = h\<lparr>pg_use_count := pg_use_count k\<rparr>" "h = g\<lparr>pg_use_count := pg_use_count h\<rparr>"
    using assms by (simp_all add: spent_def)
  then have "k = g\<lparr>pg_use_count := pg_use_count k\<rparr>" by (metis permission_grant.unfold_congs(12) permission_grant.update_convs(12) permission_grant.surjective)
  with assms show ?thesis by (simp add: spent_def)
qed

lemma spent_fields:
  assumes "spent n g g'"
  shows "pg_effect g' = pg_effect g" "pg_scope g' = pg_scope g" "pg_agent_id g' = pg_agent_id g"
    "pg_id g' = pg_id g" "pg_revoked_at_ms g' = pg_revoked_at_ms g" "pg_expires_at_ms g' = pg_expires_at_ms g"
    "pg_use_limit g' = pg_use_limit g" "pg_lifetime g' = pg_lifetime g" "pg_session g' = pg_session g"
    "pg_use_count g \<le> pg_use_count g'" "pg_use_count g' \<le> pg_use_count g + n"
proof -
  have g': "g' = g\<lparr>pg_use_count := pg_use_count g'\<rparr>" using assms by (simp add: spent_def)
  show "pg_effect g' = pg_effect g" "pg_scope g' = pg_scope g" "pg_agent_id g' = pg_agent_id g"
    "pg_id g' = pg_id g" "pg_revoked_at_ms g' = pg_revoked_at_ms g" "pg_expires_at_ms g' = pg_expires_at_ms g"
    "pg_use_limit g' = pg_use_limit g" "pg_lifetime g' = pg_lifetime g" "pg_session g' = pg_session g"
    by (subst g'; simp)+
qed (use assms in \<open>simp_all add: spent_def\<close>)

lemma spent_addressed:
  assumes "spent n g g'" and "addressed p session agent t g'"
  shows "addressed p session agent t g"
proof -
  note f = spent_fields [OF assms(1)]
  from assms(2) show ?thesis
    unfolding addressed_def grant_is_active_def f using f(10) by (cases "pg_use_limit g") simp_all
qed

lemma spent_ids:
  assumes "spent n g g'" and "grant_ids_valid g" and "pg_use_count g + n \<le> u32_max"
  shows "grant_ids_valid g'"
proof -
  note f = spent_fields [OF assms(1)]
  from assms(2,3) f(11) show ?thesis unfolding grant_ids_valid_def f by linarith
qed

lemma list_all2_set2: "list_all2 P xs ys \<Longrightarrow> y \<in> set ys \<Longrightarrow> \<exists>x \<in> set xs. P x y"
  by (induction rule: list_all2_induct) auto

lemma spent_list_refl [simp]: "list_all2 (spent n) gs gs"
  by (rule list_all2_refl) simp

lemma spent_list_trans: "list_all2 (spent m) gs hs \<Longrightarrow> list_all2 (spent n) hs ks \<Longrightarrow> list_all2 (spent (m + n)) gs ks"
  by (rule list_all2_trans [of "spent m" "spent n"]) (auto intro: spent_trans)

lemma claim_stores:
  assumes "stores J db gs" and "claim_permission_for_proposal J p session agent now db = (r, db')"
  shows "\<exists>gs'. stores J db' gs' \<and> list_all2 (spent 1) gs gs'"
proof (cases rule: claim_cases [OF stores_keyed [OF assms(1)] assms(2)])
  case 1
  then show ?thesis using assms(1) by auto
next
  case (2 row)
  let ?f = "\<lambda>g. if pg_id g = prw_id row then g\<lparr>pg_use_count := pg_use_count g + 1\<rparr> else g"
  have "stores J db' (map ?f gs)"
  proof (rule stores_map [OF assms(1)])
    show "db_permissions db' = map (\<lambda>s. if prw_id s = prw_id row then bump_use s else s) (db_permissions db)"
      using 2(7) by simp
  qed (auto simp: grant_to_row_def bump_use_def grant_wf_def)
  moreover have "list_all2 (spent 1) gs (map ?f gs)"
    by (auto simp: list_all2_map2 spent_def intro!: list_all2_refl)
  ultimately show ?thesis by blast
qed

lemma process_stores:
  assumes "stores J (sv_database sv) gs" and "process_proposal J T E p session simulate sv = (r, sv', cmd)"
  shows "\<exists>gs'. stores J (sv_database sv') gs' \<and> list_all2 (spent 1) gs gs'"
  using process_permissions [OF assms(2)] claim_stores [OF assms(1)] assms(1)
  by (meson spent_list_refl stores_cong)

section \<open>The proposals of a run\<close>

lemma classified_ok:
  assumes "classified_proposal sv p = Inr p'"
  shows "ap_action p' = ap_action p" "ac_agent (ap_context p') = ac_agent (ap_context p)"
    "ac_origin (ap_context p') = ac_origin (ap_context p)"
  using assms
  by (auto simp: classified_proposal_def and_then_Inr_iff Let_def split: action_arguments.splits if_splits)

lemma classified_no_panic: "classified_proposal sv p \<noteq> Inl Panicked"
  by (auto simp: classified_proposal_def and_then_def map_err_def internal_error_def validation_def Let_def
      split: action_arguments.splits sum.splits)

text \<open>One proposal of the loop: it ends the loop, or it is processed and the loop goes on.\<close>

lemma broker_step:
  assumes "broker_proposals J T E index (p # ps) sv = (r, sv', cmds)"
  obtains (stopped) e where "r = Inl e" "e \<noteq> Panicked" "sv' = sv" "cmds = []"
  | (processed) p' response sv1 cmd rest cmds' where "classified_proposal sv p = Inr p'"
      "process_proposal J (T index) (E index) p' None False sv = (response, sv1, cmd)"
      "broker_proposals J T E (Suc index) ps sv1 = (rest, sv', cmds')"
      "r = and_then rest (\<lambda>results. Inr (proposal_results index (ar_capability_id (ap_action p)) response # results))"
      "cmds = option_list cmd @ cmds'"
proof (cases "classified_proposal sv p")
  case (Inl e)
  with assms stopped classified_no_panic [of sv p] show thesis by (auto simp: validation_def split: if_splits)
next
  case (Inr p')
  obtain response sv1 cmd where run: "process_proposal J (T index) (E index) p' None False sv = (response, sv1, cmd)"
    by (metis prod_cases3)
  then have "response \<noteq> Inl Panicked" using process_no_panic by (metis fst_conv)
  with Inr run assms stopped processed show thesis by (auto simp: validation_def split: if_splits prod.splits)
qed

lemma broker_frame:
  "broker_proposals J T E index ps sv = (r, sv', cmds) \<Longrightarrow>
   journal_frame sv sv' \<and> length cmds \<le> length ps \<and> r \<noteq> Inl Panicked"
proof (induction ps arbitrary: index sv r cmds)
  case (Cons p ps)
  from Cons.prems show ?case
  proof (cases rule: broker_step)
    case (processed p' response sv1 cmd rest cmds')
    from Cons.IH [OF processed(3)] process_frame [OF processed(2)] processed(4,5) show ?thesis
      by (auto simp: option_list_def and_then_def intro: journal_frame_trans split: option.splits sum.splits)
  qed simp
qed simp

lemma broker_stores:
  "stores J (sv_database sv) gs \<Longrightarrow> broker_proposals J T E index ps sv = (r, sv', cmds) \<Longrightarrow>
   \<exists>gs'. stores J (sv_database sv') gs' \<and> list_all2 (spent (length ps)) gs gs'"
proof (induction ps arbitrary: index sv r cmds gs)
  case (Cons p ps)
  from Cons.prems(2) show ?case
  proof (cases rule: broker_step)
    case (processed p' response sv1 cmd rest cmds')
    obtain hs where hs: "stores J (sv_database sv1) hs" "list_all2 (spent 1) gs hs"
      using process_stores [OF Cons.prems(1) processed(2)] by blast
    from Cons.IH [OF hs(1) processed(3)] obtain ks where
      "stores J (sv_database sv') ks" "list_all2 (spent (length ps)) hs ks" by blast
    with spent_list_trans [OF hs(2), of "length ps" ks] show ?thesis by auto
  qed (use Cons.prems in auto)
qed auto

text \<open>What stands behind a command: an authorization for an action of the agent and, if it has a side
  effect, an exact allow grant.\<close>

definition backed ::
  "(nat \<Rightarrow> executor) \<Rightarrow> agent_execution_identity \<Rightarrow> permission_grant list \<Rightarrow> service \<Rightarrow> command_line \<Rightarrow> bool" where
  "backed E identity gs sv cmd \<longleftrightarrow>
     (\<exists>index p c a t. registry_get (sv_registry sv) (ar_capability_id (ap_action p)) = Some c
        \<and> ac_agent (ap_context p) = Some identity
        \<and> snd (E index (sv_applications sv) a) = Some cmd \<and> ea_descriptor a = c \<and> ea_action a = ap_action p
        \<and> (cd_side_effect c \<longrightarrow> (\<exists>g \<in> set gs. pg_effect g = Effect_Allow
            \<and> addressed p (Some (Session_Agent (ax_session_id identity))) (Some (ax_agent_id identity)) t g)))"

lemma backed_earlier:
  assumes "backed E identity hs sv1 cmd" and "list_all2 (spent n) gs hs" and "journal_frame sv sv1"
  shows "backed E identity gs sv cmd"
proof -
  have "\<exists>g \<in> set gs. pg_effect g = Effect_Allow \<and> addressed p session agent t g"
    if h: "h \<in> set hs" "pg_effect h = Effect_Allow" "addressed p session agent t h" for h p session agent t
  proof -
    obtain g where "g \<in> set gs" "spent n g h"
      using list_all2_set2 [OF assms(2) h(1)] by blast
    with spent_addressed [OF this(2) h(3)] spent_fields(1) [OF this(2)] h(2) show ?thesis by (metis)
  qed
  note earlier = this
  obtain index p c a t where b: "registry_get (sv_registry sv1) (ar_capability_id (ap_action p)) = Some c"
    "ac_agent (ap_context p) = Some identity" "snd (E index (sv_applications sv1) a) = Some cmd"
    "ea_descriptor a = c" "ea_action a = ap_action p"
    "cd_side_effect c \<longrightarrow> (\<exists>g \<in> set hs. pg_effect g = Effect_Allow
       \<and> addressed p (Some (Session_Agent (ax_session_id identity))) (Some (ax_agent_id identity)) t g)"
    using assms(1) unfolding backed_def by blast
  then have "cd_side_effect c \<longrightarrow> (\<exists>g \<in> set gs. pg_effect g = Effect_Allow
       \<and> addressed p (Some (Session_Agent (ax_session_id identity))) (Some (ax_agent_id identity)) t g)"
    using earlier by blast
  with b(1-5) show ?thesis unfolding backed_def journal_frame_fields [OF assms(3)] by blast
qed

lemma process_backed:
  assumes "serde_faithful J" and "stores J (sv_database sv) gs" and "list_all grant_ids_valid gs"
    and "process_proposal J T (E index) p None False sv = (r, sv', Some cmd)"
    and "ac_agent (ap_context p) = Some identity" and "ac_origin (ap_context p) = AO_Agent"
  shows "backed E identity gs sv cmd"
proof -
  obtain c profile a where spawn: "registry_get (sv_registry sv) (ar_capability_id (ap_action p)) = Some c"
      "spec_outcome (sv_policy sv) c p (stored_context profile p None (sp_now T 1) gs) = Allow"
      "snd (E index (sv_applications sv) a) = Some cmd" "ea_descriptor a = c" "ea_action a = ap_action p"
    using process_spawn [OF assms(1-4)] by blast
  have "exact_grant (stored_context profile p None (sp_now T 1) gs) p Effect_Allow" if "cd_side_effect c"
    using spawn(2) that assms(6) by (simp add: spec_outcome_Allow needs_confirmation_def)
  then have "cd_side_effect c \<longrightarrow> (\<exists>g \<in> set gs. pg_effect g = Effect_Allow
      \<and> addressed p (Some (Session_Agent (ax_session_id identity))) (Some (ax_agent_id identity)) (sp_now T 1) g)"
    by (auto simp: exact_grant_def addressed_def permission_session_def permission_agent_def assms(5))
  with spawn(1,3-5) assms(5) show ?thesis unfolding backed_def by blast
qed

lemma broker_backed:
  "serde_faithful J \<Longrightarrow> stores J (sv_database sv) gs \<Longrightarrow>
   list_all (\<lambda>g. grant_ids_valid g \<and> pg_use_count g + length ps \<le> u32_max) gs \<Longrightarrow>
   list_all (\<lambda>p. ap_context p = agent_context identity) ps \<Longrightarrow>
   broker_proposals J T E index ps sv = (r, sv', cmds) \<Longrightarrow> list_all (backed E identity gs sv) cmds"
proof (induction ps arbitrary: index sv r cmds gs)
  case (Cons p ps)
  from Cons.prems(5) show ?case
  proof (cases rule: broker_step)
    case (processed p' response sv1 cmd rest cmds')
    obtain hs where hs: "stores J (sv_database sv1) hs" "list_all2 (spent 1) gs hs"
      using process_stores [OF Cons.prems(2) processed(2)] by blast
    have "grant_ids_valid h \<and> pg_use_count h + length ps \<le> u32_max" if h: "h \<in> set hs" for h
    proof -
      obtain g where g: "g \<in> set gs" "spent 1 g h" using list_all2_set2 [OF hs(2) h] by blast
      then have "grant_ids_valid g" "pg_use_count g + Suc (length ps) \<le> u32_max"
        using Cons.prems(3) by (auto simp: list_all_iff)
      with spent_ids [OF g(2)] spent_fields(11) [OF g(2)] show ?thesis by auto
    qed
    then have "list_all (backed E identity hs sv1) cmds'"
      using Cons.prems(1,4) by (intro Cons.IH [OF _ hs(1) _ _ processed(3)]) (auto simp: list_all_iff)
    then have rest: "list_all (backed E identity gs sv) cmds'"
      using backed_earlier [OF _ hs(2) process_frame [OF processed(2)]] by (auto simp: list_all_iff)
    have "backed E identity gs sv x" if "cmd = Some x" for x
    proof (rule process_backed [OF Cons.prems(1,2)])
      show "process_proposal J (T index) (E index) p' None False sv = (response, sv1, Some x)"
        using processed(2) that by simp
    qed (use Cons.prems(3,4) classified_ok [OF processed(1)] in
        \<open>auto simp: list_all_iff agent_context_def\<close>)
    with rest processed(5) show ?thesis by (auto simp: option_list_def split: option.splits)
  qed simp
qed simp

section \<open>The run as a whole\<close>

lemma on_database_run:
  "on_database operation sv = (r, sv') \<Longrightarrow>
   \<exists>q db. operation (sv_database sv) = (q, db) \<and> sv' = sv\<lparr>sv_database := db\<rparr> \<and> r = map_err (\<lambda>_. internal_error) q"
  by (auto simp: on_database_def split: prod.splits)

lemma aborted_cases:
  assumes "aborted J R session status e cmds0 ch0 sv = (r, sv', cmds, ch)"
  shows "cmds = cmds0" "ch = ch0" "is_err r" "snd (service_finish_agent_session J R session status sv) = sv'"
  using assms by (auto simp: aborted_def abort_session_def split: sum.splits prod.splits)

lemma agent_error_status_ended: "agent_error_status e \<noteq> Status_Running"
  by (cases e) simp_all

text \<open>The result of a run that was answered.\<close>

definition completed_run ::
  "run_draws \<Rightarrow> agent_session \<Rightarrow> agent_session_status \<Rightarrow> child \<Rightarrow> (service_error, agent_run_result) result \<Rightarrow> bool" where
  "completed_run R session status ch r \<longleftrightarrow>
     (\<forall>result. r = Inr result \<longrightarrow> status = Status_Completed \<and> ch = Child_exited
        \<and> arr_session result = session\<lparr>as_status := Status_Completed,
            as_ended_at_ms := Some (max (rn_finished_at_ms R) (as_started_at_ms session))\<rparr>)"

lemma completed_err: "is_err r \<Longrightarrow> completed_run R session status ch r"
  by (auto simp: completed_run_def is_err_def)

lemma complete_exited: "agent_complete W P running results = (Inr n, ch) \<Longrightarrow> ch = Child_exited"
  by (auto simp: agent_complete_def split: sum.splits if_splits)

lemma finish_session_result:
  "service_finish_agent_session J R session status sv = (Inr session', sv') \<Longrightarrow>
   session' = session\<lparr>as_status := status,
     as_ended_at_ms := Some (max (rn_finished_at_ms R) (as_started_at_ms session))\<rparr>"
  by (auto simp: service_finish_agent_session_def Let_def and_then_Inr_iff split: prod.splits sum.splits)

lemma finish_run_shape:
  assumes "finish_run J W P R session running invocation results cmds0 sv = (r, sv', cmds, ch)"
  shows "cmds0 = cmds \<and> (\<exists>status. status \<noteq> Status_Running
    \<and> snd (service_finish_agent_session J R session status sv) = sv' \<and> ch \<noteq> Child_running
    \<and> completed_run R session status ch r)"
proof -
  obtain q ch0 where complete: "agent_complete W P running (map snd results) = (q, ch0)" by fastforce
  have live: "ch0 \<noteq> Child_running" using complete_child [OF complete] by auto
  show ?thesis
  proof (cases q)
    case (Inl e)
    then have "aborted J R session (agent_error_status e) (agent_error e) cmds0 ch0 sv = (r, sv', cmds, ch)"
      using assms complete by (simp add: finish_run_def)
    note ab = aborted_cases [OF this]
    show ?thesis
      by (rule conjI, simp add: ab(1), rule exI [of _ "agent_error_status e"])
        (use ab live in \<open>auto simp: agent_error_status_ended intro: completed_err\<close>)
  next
    case (Inr n)
    then have "ch0 = Child_exited" using complete complete_exited by blast
    obtain q2 sv2 where closed: "service_finish_agent_session J R session Status_Completed sv = (q2, sv2)" by fastforce
    then have "cmds0 = cmds" "sv2 = sv'" "ch = Child_exited" "completed_run R session Status_Completed ch r"
      using assms complete Inr \<open>ch0 = Child_exited\<close>
      by (auto simp: finish_run_def completed_run_def dest: finish_session_result split: sum.splits)
    with closed show ?thesis by (auto intro!: exI [of _ Status_Completed])
  qed
qed

lemma run_session_cases:
  assumes "run_session J sys digest W P host R E configuration input session sv = (r, sv', cmds, ch)"
  obtains ps q sv2 status where
    "broker_proposals J (rn_proposal_draws R) E 0 ps sv = (q, sv2, cmds)"
    "list_all (\<lambda>p. ap_context p = agent_context (run_identity_of R configuration)) ps" "length ps \<le> 16"
    "status \<noteq> Status_Running" "snd (service_finish_agent_session J R session status sv2) = sv'"
    "ch \<noteq> Child_running" "completed_run R session status ch r"
proof -
  let ?id = "run_identity_of R configuration"
  obtain st cmd0 ch0 where start: "agent_start sys digest W P host configuration ?id input (agent_capabilities sv)
      = (st, cmd0, ch0)" by (metis prod_cases3)
  note def = assms [unfolded run_session_def start]
  show thesis
  proof (cases st)
    case (Inl e)
    then have "aborted J R session (agent_error_status e) (agent_error e) [] ch0 sv = (r, sv', cmds, ch)"
      using def by simp
    note ab = aborted_cases [OF this]
    show thesis
      by (rule that [of "[]" "Inr []" sv "agent_error_status e"])
        (use ab start_child [OF start] Inl in \<open>auto simp: agent_error_status_ended intro: completed_err\<close>)
  next
    case (Inr running)
    obtain q running' ch1 where receive: "receive_proposals W P running = (q, running', ch1)" by (metis prod_cases3)
    show thesis
    proof (cases q)
      case (Inl e)
      then have "aborted J R session (agent_error_status e) (agent_error e) [] ch1 sv = (r, sv', cmds, ch)"
        using def Inr receive by simp
      note ab = aborted_cases [OF this]
      show thesis
        by (rule that [of "[]" "Inr []" sv "agent_error_status e"])
          (use ab receive_child [OF receive] Inl in \<open>auto simp: agent_error_status_ended intro: completed_err\<close>)
    next
      case invocation: (Inr invocation)
      have ps: "list_all (\<lambda>p. ap_context p = agent_context ?id) (air_proposals invocation)"
        "length (air_proposals invocation) \<le> 16"
        using receive_confined [OF receive [unfolded invocation]] start_identity [OF start [unfolded Inr]]
        by (auto simp: list_all_iff)
      obtain results sv2 cmds0 where broker: "broker_proposals J (rn_proposal_draws R) E 0 (air_proposals invocation) sv
          = (results, sv2, cmds0)" by (metis prod_cases3)
      show thesis
      proof (cases results)
        case (Inl e)
        have "e \<noteq> Panicked" using broker_frame [OF broker] Inl by simp
        then have "aborted J R session Status_Failed e cmds0 Child_killed sv2 = (r, sv', cmds, ch)"
          using def Inr receive invocation broker Inl by simp
        note ab = aborted_cases [OF this]
        show thesis
          by (rule that [OF broker [folded ab(1)] ps, of Status_Failed]) (use ab in \<open>auto intro: completed_err\<close>)
      next
        case rs: (Inr rs)
        have "finish_run J W P R session running' invocation rs cmds0 sv2 = (r, sv', cmds, ch)"
          using def Inr receive invocation broker rs by simp
        from finish_run_shape [OF this] obtain status where "cmds0 = cmds" "status \<noteq> Status_Running"
          "snd (service_finish_agent_session J R session status sv2) = sv'" "ch \<noteq> Child_running"
          "completed_run R session status ch r" by blast
        then show thesis using that broker ps by blast
      qed
    qed
  qed
qed

text \<open>The state in which the proposals of a run are brokered: the session is open and the journal may have grown.\<close>

definition session_row :: "agent_session \<Rightarrow> agent_session_row" where
  "session_row session =
     \<lparr>asr_id = as_id session, asr_agent_id = as_agent_id session, asr_instance_id = as_instance_id session,
      asr_daemon_session_id = as_daemon_session_id session, asr_status = ''running'',
      asr_started_at_ms = as_started_at_ms session, asr_ended_at_ms = None\<rparr>"

definition session_opened :: "agent_session \<Rightarrow> service \<Rightarrow> service \<Rightarrow> bool" where
  "session_opened session sv sv' \<longleftrightarrow>
     as_id session \<notin> asr_id ` set (db_agent_sessions (sv_database sv))
     \<and> journal_frame (sv\<lparr>sv_database := (sv_database sv)\<lparr>db_agent_sessions :=
           db_agent_sessions (sv_database sv) @ [session_row session]\<rparr>\<rparr>) sv'
     \<and> db_permissions (sv_database sv') = db_permissions (sv_database sv)"

lemma begin_agent_session_ok:
  assumes "begin_agent_session session db = (Inr (), db')"
  shows "db' = db\<lparr>db_agent_sessions := db_agent_sessions db @ [session_row session]\<rparr>"
    "as_id session \<notin> asr_id ` set (db_agent_sessions db)"
  using assms by (auto simp: begin_agent_session_def session_row_def list_ex_iff split: if_splits)

lemma begin_agent_session_error: "begin_agent_session session db = (Inl e, db') \<Longrightarrow> db' = db"
  by (auto simp: begin_agent_session_def split: if_splits)

lemma append_audit_journal:
  assumes "append_audit J x db = (q, db')"
  shows "journal_frame (sv\<lparr>sv_database := db\<rparr>) (sv\<lparr>sv_database := db'\<rparr>)" "db_permissions db' = db_permissions db"
proof -
  have "db' = db \<or> db' = db\<lparr>db_audit := db_audit db @ [audit_to_row J x], db_events := db_events db @ [event_to_row x]\<rparr>"
    using assms append_audit_error [of J x db _ db'] append_audit_ok [of J x db db'] by (cases q) auto
  then show "journal_frame (sv\<lparr>sv_database := db\<rparr>) (sv\<lparr>sv_database := db'\<rparr>)" "db_permissions db' = db_permissions db"
    by (auto simp: with_journal_def intro: journal_frameI [of _ "db_permissions db" "[]" "[audit_to_row J x]" "[event_to_row x]"])
qed

lemma run_agent_cases:
  assumes "run_agent J sys digest W P host R E request sv = (r, sv', cmds, ch)"
  obtains (refused) e where "r = Inl e" "sv' = sv" "cmds = []" "ch = No_child"
  | (closed) configuration sv1 ps q sv2 status where "configured_agent J sv request = Inr configuration"
      "session_opened (run_session_of R configuration sv) sv sv1"
      "broker_proposals J (rn_proposal_draws R) E 0 ps sv1 = (q, sv2, cmds)"
      "list_all (\<lambda>p. ap_context p = agent_context (run_identity_of R configuration)) ps" "length ps \<le> 16"
      "status \<noteq> Status_Running"
      "snd (service_finish_agent_session J R (run_session_of R configuration sv) status sv2) = sv'"
      "ch \<noteq> Child_running" "completed_run R (run_session_of R configuration sv) status ch r"
proof (cases "configured_agent J sv request")
  case (Inl e)
  with assms refused show thesis by (auto simp: run_agent_def)
next
  case c: (Inr configuration)
  let ?session = "run_session_of R configuration sv"
  obtain b db1 where opened: "begin_agent_session ?session (sv_database sv) = (b, db1)" by fastforce
  note def = assms [unfolded run_agent_def c on_database_def opened, simplified, unfolded Let_def]
  show thesis
  proof (cases b)
    case (Inl e)
    then have "db1 = sv_database sv" using opened begin_agent_session_error by blast
    with Inl def opened refused show thesis by auto
  next
    case (Inr u)
    note ok = begin_agent_session_ok [OF opened [unfolded Inr, simplified]]
    let ?x = "\<lparr>au_id = rn_started_audit_id R, au_created_at_ms = rn_started_at_ms R,
        au_event = Ev_AgentSessionStarted (as_id ?session) (run_identity_of R configuration)\<rparr>"
    obtain a db2 where audit: "append_audit J ?x db1 = (a, db2)" by fastforce
    note journal = append_audit_journal(1) [OF audit, of sv] append_audit_journal(2) [OF audit]
    let ?sv1 = "sv\<lparr>sv_database := db2\<rparr>"
    have start: "session_opened ?session sv ?sv1"
      using journal ok by (simp add: session_opened_def)
    show thesis
    proof (cases a)
      case (Inl e)
      with def opened Inr audit show thesis
        by (intro closed [OF c start, of "[]" "Inr []" ?sv1 Status_Failed])
          (auto intro: completed_err)
    next
      case (Inr v)
      then have "run_session J sys digest W P host R E configuration (arq_input request) ?session ?sv1
          = (r, sv', cmds, ch)"
        using def opened \<open>b = Inr u\<close> audit by simp
      then show thesis by (rule run_session_cases) (rule closed [OF c start])
    qed
  qed
qed

lemma finish_closes:
  assumes "status \<noteq> Status_Running" and "snd (service_finish_agent_session J R session status sv) = sv'"
  obtains b db where "finish_agent_session (as_id session) status
      (max (rn_finished_at_ms R) (as_started_at_ms session)) (sv_database sv) = (Inr b, db)"
    "journal_frame (sv\<lparr>sv_database := db\<rparr>) sv'" "db_permissions (sv_database sv') = db_permissions db"
proof -
  let ?t = "max (rn_finished_at_ms R) (as_started_at_ms session)"
  obtain b db where fin: "finish_agent_session (as_id session) status ?t (sv_database sv) = (Inr b, db)"
    using assms(1) by (simp add: finish_agent_session_def split_beta)
  obtain q db' where audit: "append_audit J \<lparr>au_id = rn_finished_audit_id R, au_created_at_ms = ?t,
      au_event = Ev_AgentSessionFinished (as_id session) status\<rparr> db = (q, db')" by fastforce
  have "sv' = sv\<lparr>sv_database := db'\<rparr>"
    using assms(2) fin audit by (simp add: service_finish_agent_session_def on_database_def Let_def)
  with append_audit_journal(1) [OF audit, of sv] append_audit_journal(2) [OF audit] fin show thesis
    by (intro that) simp_all
qed

text \<open>Every stored grant is at most as strong after a run as before.\<close>

definition narrowed :: "permission_grant \<Rightarrow> permission_grant \<Rightarrow> bool" where
  "narrowed g g' \<longleftrightarrow> pg_use_count g \<le> pg_use_count g'
     \<and> g' = g\<lparr>pg_use_count := pg_use_count g', pg_revoked_at_ms := pg_revoked_at_ms g'\<rparr>
     \<and> pg_revoked_at_ms g' \<in> {pg_revoked_at_ms g} \<union> range Some"

lemma spent_revoked_narrowed:
  assumes "spent n g h"
  shows "narrowed g (revoke_grants q t h)"
proof -
  obtain k where "h = g\<lparr>pg_use_count := k\<rparr>" "pg_use_count g \<le> k" using assms by (metis spent_def)
  then show ?thesis by (simp add: narrowed_def revoke_grants_def)
qed

lemma finish_grants:
  assumes "stores J db gs" and "finish_agent_session i status t db = (Inr b, db')"
  shows "stores J db' (map (revoke_grants (\<lambda>g. pg_lifetime g = Life_Session \<and> pg_session g = Some (Session_Agent i)) t) gs)"
proof (rule stores_revoke_rows [OF assms(1)])
  show "db_permissions db' = revoke_rows (session_grant_row (\<lambda>kind. kind = ''agent'') (\<lambda>s. s = i)) t (db_permissions db)"
    using assms(2) by (auto simp: finish_agent_session_def split: prod.splits if_splits)
qed (use session_grant_row_to_row [of "Session_Agent i" J] in simp)

lemma finish_rows:
  assumes "finish_agent_session (as_id session) status t db = (Inr b, db')"
    and "db_agent_sessions db = rows @ [session_row session]" and "as_id session \<notin> asr_id ` set rows"
  shows "db_agent_sessions db' = rows @ [(session_row session)\<lparr>asr_status := encode_agent_session_status status,
     asr_ended_at_ms := Some (max t (as_started_at_ms session))\<rparr>]"
proof -
  have "map (\<lambda>r. if asr_id r = as_id session \<and> asr_status r = ''running'' \<and> asr_ended_at_ms r = None then f r else r) rows
      = rows" for f :: "agent_session_row \<Rightarrow> agent_session_row"
    using assms(3) by (intro map_idI) (auto simp: image_iff)
  then show ?thesis
    using assms(1,2)
    by (auto simp: finish_agent_session_def update_rows_def session_row_def end_time_def max.commute
        split: prod.splits if_splits)
qed

text \<open>The state after a run, up to the grants and the sessions: the journal has only grown.\<close>

definition only_records_changed :: "service \<Rightarrow> service \<Rightarrow> bool" where
  "only_records_changed sv sv' \<longleftrightarrow> (\<exists>rows xs as es. sv' = with_journal rows xs as es
     (sv\<lparr>sv_database := (sv_database sv)\<lparr>db_agent_sessions := db_agent_sessions (sv_database sv')\<rparr>\<rparr>))"

lemma only_records_refl [simp]: "only_records_changed sv sv"
  unfolding only_records_changed_def
  by (intro exI [of _ "db_permissions (sv_database sv)"] exI [of _ "[]"]) (simp add: with_journal_def)

lemma closed_only_records:
  assumes "session_opened session sv sv1" and "journal_frame sv1 sv2"
    and "finish_agent_session i status t (sv_database sv2) = (Inr b, db)"
    and "journal_frame (sv2\<lparr>sv_database := db\<rparr>) sv'"
  shows "only_records_changed sv sv'"
proof -
  obtain ss rows where db: "db = (sv_database sv2)\<lparr>db_agent_sessions := ss, db_permissions := rows\<rparr>"
    using assms(3) by (auto simp: finish_agent_session_def split: prod.splits if_splits)
  have "journal_frame (sv\<lparr>sv_database := (sv_database sv)\<lparr>db_agent_sessions :=
      db_agent_sessions (sv_database sv) @ [session_row session]\<rparr>\<rparr>) sv2"
    using assms(1,2) by (auto simp: session_opened_def intro: journal_frame_trans)
  then obtain ps xs as es where sv2: "sv2 = with_journal ps xs as es (sv\<lparr>sv_database := (sv_database sv)\<lparr>db_agent_sessions :=
      db_agent_sessions (sv_database sv) @ [session_row session]\<rparr>\<rparr>)" by (auto simp: journal_frame_def)
  obtain ps' xs' as' es' where "sv' = with_journal ps' xs' as' es' (sv2\<lparr>sv_database := db\<rparr>)"
    using assms(4) by (auto simp: journal_frame_def)
  then show ?thesis
    unfolding only_records_changed_def
    by (intro exI [of _ ps'] exI [of _ "xs @ xs'"] exI [of _ "as @ as'"] exI [of _ "es @ es'"])
      (simp add: db sv2 with_journal_def)
qed

lemma narrowed_active:
  assumes "narrowed g g'" and "grant_is_active g' t session agent"
  shows "grant_is_active g t session agent"
proof -
  obtain n v where g': "g' = g\<lparr>pg_use_count := n, pg_revoked_at_ms := v\<rparr>" "pg_use_count g \<le> n"
    "v = pg_revoked_at_ms g \<or> v \<noteq> None"
    using assms(1) by (auto simp: narrowed_def)
  then have same: "pg_expires_at_ms g' = pg_expires_at_ms g" "pg_lifetime g' = pg_lifetime g"
    "pg_session g' = pg_session g" "pg_agent_id g' = pg_agent_id g" "pg_use_limit g' = pg_use_limit g"
    "pg_revoked_at_ms g' = v" "pg_use_count g' = n" by simp_all
  from assms(2) g'(2,3) show ?thesis
    unfolding grant_is_active_def same by (cases "pg_use_limit g") auto
qed

section \<open>Properties\<close>

text \<open>
  C15. An agent process never outlives its run: when the daemon has handled the request, in whatever
  way, the process was not started, was killed, or has exited; it has exited if the run is answered;
  and one run spawns at most sixteen commands.
\<close>
theorem agent_process_never_survives:
  "case run_agent J sys digest W P host R E request sv of
     (r, sv', cmds, ch) \<Rightarrow> ch \<noteq> Child_running \<and> (is_err r \<or> ch = Child_exited) \<and> length cmds \<le> 16"
proof -
  obtain r sv' cmds ch where run: "run_agent J sys digest W P host R E request sv = (r, sv', cmds, ch)"
    by (metis prod_cases4)
  then have "ch \<noteq> Child_running \<and> (is_err r \<or> ch = Child_exited) \<and> length cmds \<le> 16"
  proof (cases rule: run_agent_cases)
    case (closed configuration sv1 ps q sv2 status)
    have "is_err r \<or> ch = Child_exited" using closed(9) by (cases r) (simp_all add: completed_run_def)
    with closed(8,5) broker_frame [OF closed(3)] show ?thesis by simp
  qed simp
  with run show ?thesis by simp
qed

text \<open>
  An agent session is always closed: a run that is refused before it starts leaves the sessions as
  they were; every other run appends exactly one session, of this agent, instance and daemon session,
  that has ended with a final status, which is Completed if the run is answered; and the answer
  reports this session.
\<close>
lemma agent_session_is_closed:
  assumes "run_agent J sys digest W P host R E request sv = (r, sv', cmds, ch)"
  shows "(is_err r \<and> sv' = sv)
    \<or> (\<exists>configuration status. configured_agent J sv request = Inr configuration \<and> status \<noteq> Status_Running
        \<and> db_agent_sessions (sv_database sv') = db_agent_sessions (sv_database sv) @
            [\<lparr>asr_id = rn_session_id R, asr_agent_id = ag_id configuration, asr_instance_id = rn_instance_id R,
              asr_daemon_session_id = sv_daemon_session_id sv, asr_status = encode_agent_session_status status,
              asr_started_at_ms = rn_started_at_ms R,
              asr_ended_at_ms = Some (max (rn_finished_at_ms R) (rn_started_at_ms R))\<rparr>]
        \<and> (\<forall>result. r = Inr result \<longrightarrow> status = Status_Completed
            \<and> as_id (arr_session result) = rn_session_id R \<and> as_status (arr_session result) = Status_Completed))"
  using assms
proof (cases rule: run_agent_cases)
  case (closed configuration sv1 ps q sv2 status)
  let ?session = "run_session_of R configuration sv"
  obtain b db where fin: "finish_agent_session (as_id ?session) status
      (max (rn_finished_at_ms R) (as_started_at_ms ?session)) (sv_database sv2) = (Inr b, db)"
    "journal_frame (sv2\<lparr>sv_database := db\<rparr>) sv'"
    by (rule finish_closes [OF closed(6,7)])
  have "db_agent_sessions (sv_database sv2) = db_agent_sessions (sv_database sv) @ [session_row ?session]"
    "as_id ?session \<notin> asr_id ` set (db_agent_sessions (sv_database sv))"
    using closed(2) broker_frame [OF closed(3)]
    by (auto simp: session_opened_def dest!: journal_frame_fields(6))
  from finish_rows [OF fin(1) this] journal_frame_fields(6) [OF fin(2)]
  have rows: "db_agent_sessions (sv_database sv') = db_agent_sessions (sv_database sv) @
      [\<lparr>asr_id = rn_session_id R, asr_agent_id = ag_id configuration, asr_instance_id = rn_instance_id R,
        asr_daemon_session_id = sv_daemon_session_id sv, asr_status = encode_agent_session_status status,
        asr_started_at_ms = rn_started_at_ms R,
        asr_ended_at_ms = Some (max (rn_finished_at_ms R) (rn_started_at_ms R))\<rparr>]"
    by (simp add: run_session_of_def session_row_def)
  have "status = Status_Completed \<and> as_id (arr_session result) = rn_session_id R
      \<and> as_status (arr_session result) = Status_Completed" if "r = Inr result" for result
  proof -
    have "status = Status_Completed" "arr_session result = ?session\<lparr>as_status := Status_Completed,
        as_ended_at_ms := Some (max (rn_finished_at_ms R) (as_started_at_ms ?session))\<rparr>"
      using closed(9) that unfolding completed_run_def by blast+
    then show ?thesis by (simp add: run_session_of_def)
  qed
  then have "\<forall>result. r = Inr result \<longrightarrow> status = Status_Completed
      \<and> as_id (arr_session result) = rn_session_id R \<and> as_status (arr_session result) = Status_Completed" by blast
  with closed(1,6) rows show ?thesis
    by (intro disjI2 exI [of _ configuration] exI [of _ status] conjI)
qed simp

lemma run_agent_narrows:
  assumes "stores J (sv_database sv) gs" and "run_agent J sys digest W P host R E request sv = (r, sv', cmds, ch)"
  shows "only_records_changed sv sv'
    \<and> (\<exists>gs'. stores J (sv_database sv') gs' \<and> list_all2 narrowed gs gs'
        \<and> list_all2 (\<lambda>g g'. \<forall>t session agent. grant_is_active g' t session agent \<longrightarrow>
            grant_is_active g t session agent) gs gs'
        \<and> (sv' = sv \<or> list_all (\<lambda>g'. \<not> grant_is_active g' t (Some (Session_Agent (rn_session_id R))) agent
            \<or> pg_session g' = None) gs'))"
  using assms(2)
proof (cases rule: run_agent_cases)
  case (refused e)
  have "list_all2 narrowed gs gs"
    by (rule list_all2_refl) (simp add: narrowed_def)
  moreover have "list_all2 (\<lambda>g g'. \<forall>t session agent. grant_is_active g' t session agent \<longrightarrow>
      grant_is_active g t session agent) gs gs" by (rule list_all2_refl) simp
  ultimately show ?thesis
    using refused(2) assms(1) by auto
next
  case (closed configuration sv1 ps q sv2 status)
  let ?session = "run_session_of R configuration sv"
  obtain b db where fin: "finish_agent_session (as_id ?session) status
      (max (rn_finished_at_ms R) (as_started_at_ms ?session)) (sv_database sv2) = (Inr b, db)"
    "journal_frame (sv2\<lparr>sv_database := db\<rparr>) sv'" "db_permissions (sv_database sv') = db_permissions db"
    by (rule finish_closes [OF closed(6,7)])
  have "stores J (sv_database sv1) gs" using stores_cong [OF assms(1)] closed(2) by (simp add: session_opened_def)
  then obtain hs where hs: "stores J (sv_database sv2) hs" "list_all2 (spent (length ps)) gs hs"
    using broker_stores [OF _ closed(3)] by blast
  let ?f = "revoke_grants (\<lambda>g. pg_lifetime g = Life_Session \<and> pg_session g = Some (Session_Agent (as_id ?session)))
    (max (rn_finished_at_ms R) (as_started_at_ms ?session))"
  have "stores J (sv_database sv') (map ?f hs)"
    using stores_cong [OF finish_grants [OF hs(1) fin(1)]] fin(3) by blast
  moreover have narrow: "list_all2 narrowed gs (map ?f hs)"
    using hs(2) by (auto simp: list_all2_map2 intro: list_all2_mono spent_revoked_narrowed)
  moreover have "list_all2 (\<lambda>g g'. \<forall>t session agent. grant_is_active g' t session agent \<longrightarrow>
      grant_is_active g t session agent) gs (map ?f hs)"
    using narrow by (rule list_all2_mono) (blast intro: narrowed_active)
  moreover have "list_all (\<lambda>g'. \<not> grant_is_active g' t (Some (Session_Agent (rn_session_id R))) agent
      \<or> pg_session g' = None) (map ?f hs)"
  proof -
    have "\<not> grant_is_active (?f g) t (Some (Session_Agent (rn_session_id R))) agent \<or> pg_session (?f g) = None"
      if "g \<in> set hs" for g
      using storesD(1) [OF hs(1) that] by (cases "pg_lifetime g")
        (auto simp: run_session_of_def revoke_grants_def grant_is_active_def grant_wf_def)
    then show ?thesis by (simp add: list_all_iff)
  qed
  moreover have "only_records_changed sv sv'"
    using closed_only_records [OF closed(2) _ fin(1,2)] broker_frame [OF closed(3)] by blast
  ultimately show ?thesis by blast
qed

text \<open>What a run leaves behind: nothing, or its own closed session and a longer journal.\<close>

lemma run_agent_records:
  assumes "run_agent J sys digest W P host R E request sv = (r, sv', cmds, ch)" and "only_records_changed sv sv'"
  obtains (none) "is_err r" "sv' = sv"
  | (session) configuration status rows xs as es where "configured_agent J sv request = Inr configuration"
      "status \<noteq> Status_Running"
      "sv' = sv\<lparr>sv_database := (sv_database sv)\<lparr>db_permissions := rows,
         db_executions := db_executions (sv_database sv) @ xs, db_audit := db_audit (sv_database sv) @ as,
         db_events := db_events (sv_database sv) @ es,
         db_agent_sessions := db_agent_sessions (sv_database sv) @
           [\<lparr>asr_id = rn_session_id R, asr_agent_id = ag_id configuration, asr_instance_id = rn_instance_id R,
             asr_daemon_session_id = sv_daemon_session_id sv, asr_status = encode_agent_session_status status,
             asr_started_at_ms = rn_started_at_ms R,
             asr_ended_at_ms = Some (max (rn_finished_at_ms R) (rn_started_at_ms R))\<rparr>]\<rparr>\<rparr>"
proof -
  obtain ps xs as es where records: "sv' = with_journal ps xs as es
      (sv\<lparr>sv_database := (sv_database sv)\<lparr>db_agent_sessions := db_agent_sessions (sv_database sv')\<rparr>\<rparr>)"
    using assms(2) unfolding only_records_changed_def by blast
  from agent_session_is_closed [OF assms(1)] show thesis
  proof
    assume "is_err r \<and> sv' = sv"
    then show ?thesis using none by blast
  next
    assume "\<exists>configuration status. configured_agent J sv request = Inr configuration \<and> status \<noteq> Status_Running
        \<and> db_agent_sessions (sv_database sv') = db_agent_sessions (sv_database sv) @
            [\<lparr>asr_id = rn_session_id R, asr_agent_id = ag_id configuration, asr_instance_id = rn_instance_id R,
              asr_daemon_session_id = sv_daemon_session_id sv, asr_status = encode_agent_session_status status,
              asr_started_at_ms = rn_started_at_ms R,
              asr_ended_at_ms = Some (max (rn_finished_at_ms R) (rn_started_at_ms R))\<rparr>]
        \<and> (\<forall>result. r = Inr result \<longrightarrow> status = Status_Completed
            \<and> as_id (arr_session result) = rn_session_id R \<and> as_status (arr_session result) = Status_Completed)"
    then obtain configuration status where run: "configured_agent J sv request = Inr configuration"
      "status \<noteq> Status_Running"
      and rows: "db_agent_sessions (sv_database sv') = db_agent_sessions (sv_database sv) @
            [\<lparr>asr_id = rn_session_id R, asr_agent_id = ag_id configuration, asr_instance_id = rn_instance_id R,
              asr_daemon_session_id = sv_daemon_session_id sv, asr_status = encode_agent_session_status status,
              asr_started_at_ms = rn_started_at_ms R,
              asr_ended_at_ms = Some (max (rn_finished_at_ms R) (rn_started_at_ms R))\<rparr>]"
      by blast
    show ?thesis
      by (rule session [OF run, where rows = ps and xs = xs and as = as and es = es]) (use records [unfolded rows] in \<open>simp add: with_journal_def\<close>)
  qed
qed

text \<open>
  C14. A run never widens authority. A refused run leaves the daemon as it was. Every other run changes
  nothing of it but this: rows are appended to the three tables of the journal; one agent session is
  appended, of this agent, instance and daemon session, that has ended with a final status, while every
  earlier session stays as it was; and the stored grants, of which each is afterwards the same up to a
  grown use count and a revocation, so it is active for no request it was not active for before, and
  none that is bound to the session of the run is active any more.
\<close>
theorem agent_run_never_widens_authority:
  assumes "stores J (sv_database sv) gs" and "run_agent J sys digest W P host R E request sv = (r, sv', cmds, ch)"
  shows "(is_err r \<and> sv' = sv
      \<or> (\<exists>configuration status rows xs as es. configured_agent J sv request = Inr configuration
          \<and> status \<noteq> Status_Running
          \<and> sv' = sv\<lparr>sv_database := (sv_database sv)\<lparr>db_permissions := rows,
             db_executions := db_executions (sv_database sv) @ xs, db_audit := db_audit (sv_database sv) @ as,
             db_events := db_events (sv_database sv) @ es,
             db_agent_sessions := db_agent_sessions (sv_database sv) @
               [\<lparr>asr_id = rn_session_id R, asr_agent_id = ag_id configuration, asr_instance_id = rn_instance_id R,
                 asr_daemon_session_id = sv_daemon_session_id sv, asr_status = encode_agent_session_status status,
                 asr_started_at_ms = rn_started_at_ms R,
                 asr_ended_at_ms = Some (max (rn_finished_at_ms R) (rn_started_at_ms R))\<rparr>]\<rparr>\<rparr>))
    \<and> (\<exists>gs'. stores J (sv_database sv') gs' \<and> list_all2 narrowed gs gs'
        \<and> list_all2 (\<lambda>g g'. \<forall>t session agent. grant_is_active g' t session agent \<longrightarrow>
            grant_is_active g t session agent) gs gs'
        \<and> (sv' = sv \<or> list_all (\<lambda>g'. \<not> grant_is_active g' t (Some (Session_Agent (rn_session_id R))) agent
            \<or> pg_session g' = None) gs'))"
proof (intro conjI)
  have "only_records_changed sv sv'" using run_agent_narrows [OF assms] by blast
  from run_agent_records [OF assms(2) this]
  show "is_err r \<and> sv' = sv
      \<or> (\<exists>configuration status rows xs as es. configured_agent J sv request = Inr configuration
          \<and> status \<noteq> Status_Running
          \<and> sv' = sv\<lparr>sv_database := (sv_database sv)\<lparr>db_permissions := rows,
             db_executions := db_executions (sv_database sv) @ xs, db_audit := db_audit (sv_database sv) @ as,
             db_events := db_events (sv_database sv) @ es,
             db_agent_sessions := db_agent_sessions (sv_database sv) @
               [\<lparr>asr_id = rn_session_id R, asr_agent_id = ag_id configuration, asr_instance_id = rn_instance_id R,
                 asr_daemon_session_id = sv_daemon_session_id sv, asr_status = encode_agent_session_status status,
                 asr_started_at_ms = rn_started_at_ms R,
                 asr_ended_at_ms = Some (max (rn_finished_at_ms R) (rn_started_at_ms R))\<rparr>]\<rparr>\<rparr>)"
    by (cases, blast, blast)
qed (use run_agent_narrows [OF assms] in blast)

text \<open>
  C13. An agent acts only on the user's word: behind every command of a run stands an authorization for
  a registered capability and an action of exactly this agent, instance and session; and if the
  capability has a side effect, a grant that was stored before the run allows exactly this proposal to
  this agent and was active for it.
\<close>
theorem agent_run_needs_user_grants:
  assumes "serde_faithful J" and "stores J (sv_database sv) gs"
    and "list_all (\<lambda>g. grant_ids_valid g \<and> pg_use_count g + 16 \<le> u32_max) gs"
    and "run_agent J sys digest W P host R E request sv = (r, sv', cmds, ch)" and "cmd \<in> set cmds"
  shows "\<exists>index p c a t. registry_get (sv_registry sv) (ar_capability_id (ap_action p)) = Some c
    \<and> ac_agent (ap_context p) = Some \<lparr>ax_agent_id = arq_agent_id request, ax_instance_id = rn_instance_id R,
        ax_session_id = rn_session_id R\<rparr>
    \<and> snd (E index (sv_applications sv) a) = Some cmd \<and> ea_descriptor a = c \<and> ea_action a = ap_action p
    \<and> (cd_side_effect c \<longrightarrow> (\<exists>g \<in> set gs. pg_effect g = Effect_Allow \<and> pg_scope g = from_proposal p
        \<and> pg_agent_id g = Some (arq_agent_id request)
        \<and> grant_is_active g t (Some (Session_Agent (rn_session_id R))) (Some (arq_agent_id request))))"
  using assms(4)
proof (cases rule: run_agent_cases)
  case (closed configuration sv1 ps q sv2 status)
  let ?id = "run_identity_of R configuration"
  have agent: "ag_id configuration = arq_agent_id request"
    using closed(1) by (auto simp: configured_agent_def and_then_Inr_iff ok_or_def find_Some_iff
        split: if_splits option.splits)
  have "stores J (sv_database sv1) gs" using stores_cong [OF assms(2)] closed(2) by (simp add: session_opened_def)
  moreover have "list_all (\<lambda>g. grant_ids_valid g \<and> pg_use_count g + length ps \<le> u32_max) gs"
    using assms(3) closed(5) by (auto simp: list_all_iff)
  ultimately have "backed E ?id gs sv1 cmd"
    using broker_backed [OF assms(1) _ _ closed(4,3)] assms(5) by (auto simp: list_all_iff)
  moreover have "sv_registry sv1 = sv_registry sv" "sv_applications sv1 = sv_applications sv"
    using closed(2) by (auto simp: session_opened_def dest: journal_frame_fields(1) journal_frame_fields(3))
  ultimately have "backed E ?id gs sv cmd" by (simp add: backed_def)
  then obtain index p c a t where b: "registry_get (sv_registry sv) (ar_capability_id (ap_action p)) = Some c"
    "ac_agent (ap_context p) = Some ?id" "snd (E index (sv_applications sv) a) = Some cmd"
    "ea_descriptor a = c" "ea_action a = ap_action p"
    "cd_side_effect c \<longrightarrow> (\<exists>g \<in> set gs. pg_effect g = Effect_Allow
       \<and> addressed p (Some (Session_Agent (ax_session_id ?id))) (Some (ax_agent_id ?id)) t g)"
    unfolding backed_def by blast
  moreover from b(6) have "cd_side_effect c \<longrightarrow> (\<exists>g \<in> set gs. pg_effect g = Effect_Allow
      \<and> pg_scope g = from_proposal p \<and> pg_agent_id g = Some (arq_agent_id request)
      \<and> grant_is_active g t (Some (Session_Agent (rn_session_id R))) (Some (arq_agent_id request)))"
    by (auto simp: addressed_def run_identity_of_def agent grant_is_active_def)
  moreover have "?id = \<lparr>ax_agent_id = arq_agent_id request, ax_instance_id = rn_instance_id R,
      ax_session_id = rn_session_id R\<rparr>" by (simp add: run_identity_of_def agent)
  ultimately show ?thesis by metis
qed (use assms(5) in simp)

section \<open>A run\<close>

text \<open>A daemon with one agent, and an executor that launches one command whatever it is asked.\<close>

definition example_command :: command_line where
  "example_command = \<lparr>cmd_program = ''/usr/bin/mail'', cmd_args = [], cmd_env = []\<rparr>"

definition launcher :: "nat \<Rightarrow> executor" where
  "launcher index applications a = (Some (Inr Launched), Some example_command)"

definition example_run_draws :: run_draws where
  "example_run_draws = \<lparr>rn_started_at_ms = 0, rn_finished_at_ms = 0, rn_instance_id = ax_instance_id example_identity,
     rn_session_id = ax_session_id example_identity, rn_started_audit_id = ''start:1'',
     rn_finished_audit_id = ''finish:1'', rn_proposal_draws = (\<lambda>_. example_draws)\<rparr>"

definition example_agent_row :: agent_row where
  "example_agent_row = (case agent_to_row plain_json example_agent of Inr row \<Rightarrow> row)"

definition example_agent_db :: database where
  "example_agent_db = example_db\<lparr>db_agents := [example_agent_row],
     db_daemon_sessions := [\<lparr>dsr_id = ''daemon:1'', dsr_started_at_ms = 0, dsr_ended_at_ms = None\<rparr>]\<rparr>"

definition example_agent_service :: service where
  "example_agent_service = example_service\<lparr>sv_database := example_agent_db\<rparr>"

definition example_request :: agent_run_request where
  "example_request = \<lparr>arq_agent_id = ''agent:1'', arq_input = ''hello''\<rparr>"

lemma example_run_simps [simp]:
  "sv_database example_agent_service = example_agent_db" "rn_started_audit_id example_run_draws = ''start:1''"
  "rn_started_at_ms example_run_draws = 0" "rn_proposal_draws example_run_draws = (\<lambda>_. example_draws)"
  "arq_input example_request = ''hello''"
  by (simp_all add: example_agent_service_def example_run_draws_def example_request_def)

lemma example_agent_stored: "agent_from_row plain_json example_agent_row = Inr example_agent"
proof -
  have "\<exists>row. agent_to_row plain_json example_agent = Inr row"
    by (simp add: agent_to_row_def example_agent_def Let_def default_limits_def i64_max_def example_executable_def
        to_sqlite_u64_def)
  then have "agent_to_row plain_json example_agent = Inr example_agent_row" by (auto simp: example_agent_row_def)
  moreover have "OpaqueId_new ''agent:1'' = Inr ''agent:1''" by code_simp
  then have "OpaqueId_new (ag_id example_agent) = Inr (ag_id example_agent)" by (simp add: example_agent_def)
  moreover have "is_none_or (\<lambda>i. ei_canonical_path i = ag_executable example_agent \<and> ei_owner_uid i \<le> u32_max)
      (ag_executable_identity example_agent)" by (simp add: example_agent_def example_executable_def)
  ultimately show ?thesis using agent_row_decodes [OF plain_json_faithful _ example_agent_valid] by blast
qed

lemma example_configured: "configured_agent plain_json example_agent_service example_request = Inr example_agent"
proof -
  have "trim ''hello'' \<noteq> []" by code_simp
  moreover have "ag_id example_agent = ''agent:1''" by (simp add: example_agent_def)
  ultimately show ?thesis
    using example_agent_stored
    by (simp add: configured_agent_def example_request_def example_agent_service_def example_agent_db_def
        list_agents_def ok_or_def)
qed

text \<open>The one proposal of the run is executed, since the stored grant allows it.\<close>

lemma process_launches:
  assumes "process_proposal J T E p session False sv = (Inr (d, receipt), sv', cmd)"
    and "er_status receipt \<noteq> NotExecuted" and "\<And>applications a. snd (E applications a) = Some x"
  shows "cmd = Some x"
  using assms(1)
proof (cases rule: process_cases)
  case (blocked c ctx ev)
  then show ?thesis using not_executed_ok(2) assms(2) by blast
next
  case (ran c ctx ev a db)
  then show ?thesis using run_authorized_spawn [OF ran(6)] assms(3) by simp
qed simp

lemma example_brokered:
  assumes "sv_registry sv = sv_registry example_service" "sv_policy sv = PolicyEngine_new"
    and "db_permissions (sv_database sv) = db_permissions example_db"
    and "db_security_profile (sv_database sv) = Inr Balanced" and "fresh_draws example_draws (sv_database sv)"
  obtains rs sv' where "broker_proposals plain_json (\<lambda>_. example_draws) launcher 0 [example_agent_proposal] sv
    = (Inr rs, sv', [example_command])"
proof -
  have stores: "stores plain_json (sv_database sv) [example_agent_grant]"
    using stores_cong [OF example_db_stores] assms(3) by blast
  have reg: "registry_invar (sv_registry sv)" using example_registry_invar assms(1) by simp
  have desc: "descriptor_for sv (ap_action example_agent_proposal) = Inr (example_capability LocalSideEffect)"
    using example_agent_descriptor assms(1) by (simp add: descriptor_for_def)
  obtain d receipt sv' cmd where run: "process_proposal plain_json example_draws (launcher 0) example_agent_proposal None
      False sv = (Inr (d, receipt), sv', cmd)"
    using process_answers [OF plain_json_faithful stores example_ids reg desc assms(4), of example_draws "launcher 0" None False]
      assms(5) by auto
  have "er_status receipt \<noteq> NotExecuted"
    using process_refines [OF plain_json_faithful stores example_ids reg run] assms(2,4)
      descriptor_for_ok [OF desc] example_agent_allowed by auto
  then have "cmd = Some example_command"
    by (rule process_launches [OF run]) (simp add: launcher_def)
  moreover have "classified_proposal sv example_agent_proposal = Inr example_agent_proposal"
    by (simp add: classified_proposal_def example_proposal_def)
  ultimately show thesis using that run by (simp add: option_list_def)
qed

lemma example_session_opens:
  obtains sv1 where
    "run_agent plain_json example_host_os (\<lambda>_. []) example_agent_json example_process AgentHost_new
       example_run_draws launcher example_request example_agent_service
     = run_session plain_json example_host_os (\<lambda>_. []) example_agent_json example_process AgentHost_new
         example_run_draws launcher example_agent ''hello''
         (run_session_of example_run_draws example_agent example_agent_service) sv1"
    "sv_registry sv1 = sv_registry example_service" "sv_policy sv1 = PolicyEngine_new"
    "db_permissions (sv_database sv1) = db_permissions example_db"
    "db_security_profile (sv_database sv1) = Inr Balanced" "fresh_draws example_draws (sv_database sv1)"
proof -
  let ?session = "run_session_of example_run_draws example_agent example_agent_service"
  let ?x = "\<lparr>au_id = ''start:1'', au_created_at_ms = 0, au_event = Ev_AgentSessionStarted (as_id ?session)
      (run_identity_of example_run_draws example_agent)\<rparr>"
  let ?db1 = "example_agent_db\<lparr>db_agent_sessions := [session_row ?session]\<rparr>"
  let ?db2 = "?db1\<lparr>db_audit := [audit_to_row plain_json ?x], db_events := [event_to_row ?x]\<rparr>"
  have "as_daemon_session_id ?session = ''daemon:1''"
    by (simp add: run_session_of_def example_agent_service_def example_service_def)
  then have opened: "begin_agent_session ?session example_agent_db = (Inr (), ?db1)"
    by (simp add: begin_agent_session_def example_agent_db_def session_row_def example_db_def empty_database_def)
      (simp add: run_session_of_def)
  have audit: "append_audit plain_json ?x ?db1 = (Inr (), ?db2)"
    by (simp add: append_audit_def commit_def insert_audit_def insert_event_for_audit_def example_agent_db_def
        example_db_def empty_database_def)
  have run: "run_agent plain_json example_host_os (\<lambda>_. []) example_agent_json example_process AgentHost_new
       example_run_draws launcher example_request example_agent_service
     = run_session plain_json example_host_os (\<lambda>_. []) example_agent_json example_process AgentHost_new
         example_run_draws launcher example_agent ''hello'' ?session (example_agent_service\<lparr>sv_database := ?db2\<rparr>)"
    using opened audit
    by (simp add: run_agent_def example_configured on_database_def Let_def)
  have fresh: "fresh_draws example_draws ?db2"
    by (auto simp: fresh_draws_def example_draws_def example_agent_db_def example_db_def empty_database_def inj_def
        audit_to_row_def event_to_row_def)
  have profile: "db_security_profile ?db2 = Inr Balanced"
    using example_db_profile by (simp add: db_security_profile_def example_agent_db_def)
  show thesis
    by (rule that [OF run]) (use fresh profile in \<open>simp_all add: example_agent_service_def example_agent_db_def\<close>)
qed

lemma example_agent_session_run:
  obtains r sv' ch where "run_agent plain_json example_host_os (\<lambda>_. []) example_agent_json example_process AgentHost_new
    example_run_draws launcher example_request example_agent_service = (r, sv', [example_command], ch)"
proof (rule example_session_opens)
  let ?session = "run_session_of example_run_draws example_agent example_agent_service"
  fix sv1
  assume sv1: "sv_registry sv1 = sv_registry example_service" "sv_policy sv1 = PolicyEngine_new"
    "db_permissions (sv_database sv1) = db_permissions example_db"
    "db_security_profile (sv_database sv1) = Inr Balanced" "fresh_draws example_draws (sv_database sv1)"
    and run: "run_agent plain_json example_host_os (\<lambda>_. []) example_agent_json example_process AgentHost_new
       example_run_draws launcher example_request example_agent_service
     = run_session plain_json example_host_os (\<lambda>_. []) example_agent_json example_process AgentHost_new
         example_run_draws launcher example_agent ''hello'' ?session sv1"
  have id: "run_identity_of example_run_draws example_agent = example_identity"
    by (simp add: run_identity_of_def example_run_draws_def example_agent_def example_identity_def)
  have "length (agent_capabilities sv1) \<le> 256"
    by (simp add: agent_capabilities_def sv1(1) registry_list_def bt_values_def)
  then obtain running command where start: "agent_start example_host_os (\<lambda>_. []) example_agent_json example_process
      AgentHost_new example_agent example_identity ''hello'' (agent_capabilities sv1)
      = (Inr running, Some command, Child_running)"
    "run_identity running = example_identity" "run_unread running = ''go'' @ [CHR 0x0A]"
    "run_stdout_limit running = 4096" "run_stdout_read running = 0"
    by (rule example_start)
  obtain running' where receive: "receive_proposals example_agent_json example_process running
      = (Inr \<lparr>air_message = ''ready'', air_proposals = [example_agent_proposal]\<rparr>, running', Child_running)"
    by (rule example_receive [OF start(2-5)])
  obtain rs sv2 where broker: "broker_proposals plain_json (\<lambda>_. example_draws) launcher 0 [example_agent_proposal] sv1
      = (Inr rs, sv2, [example_command])"
    by (rule example_brokered [OF sv1])
  obtain r sv' cmds ch where fin: "finish_run plain_json example_agent_json example_process example_run_draws ?session
      running' \<lparr>air_message = ''ready'', air_proposals = [example_agent_proposal]\<rparr> rs [example_command] sv2
      = (r, sv', cmds, ch)" by (metis prod_cases4)
  then have "cmds = [example_command]" using finish_run_shape by blast
  with run start(1) receive broker fin show thesis
    by (intro that) (simp add: run_session_def id)
qed

lemma example_agent_stores: "stores plain_json (sv_database example_agent_service) [example_agent_grant]"
  by (rule stores_cong [OF example_db_stores]) (simp add: example_agent_db_def)

theorem agent_run_never_widens_authority_witness:
  "\<exists>r sv' ch g'. run_agent plain_json example_host_os (\<lambda>_. []) example_agent_json example_process AgentHost_new
      example_run_draws launcher example_request example_agent_service = (r, sv', [example_command], ch)
    \<and> stores plain_json (sv_database sv') [g'] \<and> narrowed example_agent_grant g'"
proof -
  obtain r sv' ch where run: "run_agent plain_json example_host_os (\<lambda>_. []) example_agent_json example_process
    AgentHost_new example_run_draws launcher example_request example_agent_service = (r, sv', [example_command], ch)"
    by (rule example_agent_session_run)
  from run agent_run_never_widens_authority [OF example_agent_stores run] show ?thesis
    by (fastforce simp: list_all2_Cons1)
qed

theorem agent_run_needs_user_grants_witness:
  "\<exists>r sv' ch p c. run_agent plain_json example_host_os (\<lambda>_. []) example_agent_json example_process AgentHost_new
      example_run_draws launcher example_request example_agent_service = (r, sv', [example_command], ch)
    \<and> registry_get (sv_registry example_agent_service) (ar_capability_id (ap_action p)) = Some c
    \<and> ac_agent (ap_context p) = Some example_identity
    \<and> (\<not> cd_side_effect c \<or> pg_scope example_agent_grant = from_proposal p)"
proof -
  obtain r sv' ch where run: "run_agent plain_json example_host_os (\<lambda>_. []) example_agent_json example_process
    AgentHost_new example_run_draws launcher example_request example_agent_service = (r, sv', [example_command], ch)"
    by (rule example_agent_session_run)
  have ids: "list_all (\<lambda>g. grant_ids_valid g \<and> pg_use_count g + 16 \<le> u32_max) [example_agent_grant]"
    by (simp add: example_agent_grant_ids) (simp add: example_agent_grant_def u32_max_def)
  have "\<lparr>ax_agent_id = arq_agent_id example_request, ax_instance_id = rn_instance_id example_run_draws,
      ax_session_id = rn_session_id example_run_draws\<rparr> = example_identity"
    by (simp add: example_request_def example_run_draws_def example_identity_def)
  with agent_run_needs_user_grants [OF plain_json_faithful example_agent_stores ids run, of example_command]
  obtain p c where "registry_get (sv_registry example_agent_service) (ar_capability_id (ap_action p)) = Some c"
    "ac_agent (ap_context p) = Some example_identity" "\<not> cd_side_effect c \<or> pg_scope example_agent_grant = from_proposal p"
    by auto
  with run show ?thesis by metis
qed

end
