(* ===== verification/Halquen_Protocol.thy ===== *)
theory Halquen_Protocol
  imports Halquen_Service
begin

text \<open>
  The wire protocol (\<open>crates/protocol/src/lib.rs\<close>, \<open>client.rs\<close>, and the connection handler
  of \<open>apps/daemon/src/ipc.rs\<close>): envelopes, the line-framed codec with its size limit, reading a
  frame from a stream that arrives in pieces, the answer of the daemon and the check of the client.
  The JSON encoding is a parameter; a request is of any type, and the handler of requests is an
  argument.
\<close>

section \<open>Envelopes and codec\<close>

definition PROTOCOL_VERSION :: u16 where "PROTOCOL_VERSION = 5"
definition MAX_FRAME_SIZE :: nat where "MAX_FRAME_SIZE = 64 * 1024"

record 'a envelope =
  env_version :: u16
  env_request_id :: string
  env_body :: 'a

datatype codec_error =
  Codec_FrameTooLarge | Codec_EmptyFrame | Codec_MultipleMessages | Codec_UnknownVersion u16
| Codec_InvalidRequestId | Codec_Malformed

text \<open>How values of one type are written as JSON and read back.\<close>

record 'a json_codec =
  jc_write :: "'a \<Rightarrow> string"
  jc_read :: "string \<Rightarrow> 'a option"

text \<open>
  What the code relies on: the writer emits at least one byte and no line break (control characters
  are escaped in JSON text), and the reader accepts what the writer wrote.
\<close>

definition json_faithful :: "'a json_codec \<Rightarrow> bool" where
  "json_faithful C \<longleftrightarrow>
     (\<forall>x. jc_read C (jc_write C x) = Some x \<and> jc_write C x \<noteq> []
        \<and> CHR 0x0A \<notin> set (jc_write C x) \<and> CHR 0x0D \<notin> set (jc_write C x))"

text \<open>The identifier a client draws: its process and a counter.\<close>

definition request_id :: "u32 \<Rightarrow> u64 \<Rightarrow> string" where
  "request_id pid sequence = ''request:'' @ dec pid @ '':'' @ dec sequence"

definition request_id_byte :: "char \<Rightarrow> bool" where
  "request_id_byte c \<longleftrightarrow> is_ascii_alphanumeric c \<or> c \<in> {CHR '':'', CHR ''.'', CHR ''_'', CHR ''-''}"

definition validate_envelope :: "u16 \<Rightarrow> string \<Rightarrow> (codec_error, unit) result" where
  "validate_envelope version i =
     (if version \<noteq> PROTOCOL_VERSION then Inl (Codec_UnknownVersion version)
      else if i = [] \<or> length i > 128 \<or> \<not> list_all request_id_byte i then Inl Codec_InvalidRequestId
      else Inr ())"

definition wire_encode :: "'a json_codec \<Rightarrow> 'a \<Rightarrow> (codec_error, string) result" where
  "wire_encode C v =
     (let bytes = jc_write C v in
      if length bytes + 1 > MAX_FRAME_SIZE then Inl Codec_FrameTooLarge else Inr (bytes @ [CHR 0x0A]))"

definition strip_newline :: "string \<Rightarrow> string" where
  "strip_newline frame = (if frame \<noteq> [] \<and> last frame = CHR 0x0A then butlast frame else frame)"

definition frame_payload :: "string \<Rightarrow> (codec_error, string) result" where
  "frame_payload frame =
     (if length frame > MAX_FRAME_SIZE then Inl Codec_FrameTooLarge
      else let payload = strip_newline frame in
        if payload = [] then Inl Codec_EmptyFrame
        else if CHR 0x0A \<in> set payload \<or> CHR 0x0D \<in> set payload then Inl Codec_MultipleMessages
        else Inr payload)"

definition encode_envelope :: "'a envelope json_codec \<Rightarrow> 'a envelope \<Rightarrow> (codec_error, string) result" where
  "encode_envelope C envelope =
     and_then (validate_envelope (env_version envelope) (env_request_id envelope)) (\<lambda>_. wire_encode C envelope)"

definition decode_envelope :: "'a envelope json_codec \<Rightarrow> string \<Rightarrow> (codec_error, 'a envelope) result" where
  "decode_envelope C frame =
     and_then (frame_payload frame) (\<lambda>payload.
     and_then (ok_or Codec_Malformed (jc_read C payload)) (\<lambda>envelope.
     and_then (validate_envelope (env_version envelope) (env_request_id envelope)) (\<lambda>_. Inr envelope)))"

section \<open>Reading a frame\<close>

datatype frame_error = Frame_Io | Frame_Incomplete | Frame_TooLarge | Frame_TrailingBytes

text \<open>
  A stream is what its successive reads return: an I/O error or some bytes; a read of no bytes, and
  the end of the list, is the end of the stream.
\<close>

fun read_frame :: "string \<Rightarrow> string option list \<Rightarrow> (frame_error, string) result" where
  "read_frame frame [] = Inl Frame_Incomplete"
| "read_frame frame (None # reads) = Inl Frame_Io"
| "read_frame frame (Some chunk # reads) =
     (if chunk = [] then Inl Frame_Incomplete
      else if CHR 0x0A \<in> set chunk then
        (let used = length (takeWhile (\<lambda>b. b \<noteq> CHR 0x0A) chunk) + 1 in
         if length frame + used > MAX_FRAME_SIZE then Inl Frame_TooLarge
         else if used \<noteq> length chunk then Inl Frame_TrailingBytes
         else Inr (frame @ take used chunk))
      else if length frame + length chunk > MAX_FRAME_SIZE then Inl Frame_TooLarge
      else read_frame (frame @ chunk) reads)"

section \<open>Cancellation of running chats\<close>

text \<open>
  A chat request owns a watch channel while it runs. The registry maps the identifier of the request
  to the sender; the receiver lives until the handler has answered. The connections run concurrently,
  so the sections of \<open>dispatch_request\<close> under the lock of the registry are separate steps.
\<close>

datatype chat_phase = Chat_Running | Chat_Answered

record chat_task =
  ct_channel :: nat
  ct_request_id :: string
  ct_phase :: chat_phase

record ipc =
  ip_senders :: "(string, nat) btree_map"
  ip_signalled :: "nat list"
  ip_tasks :: "chat_task list"
  ip_next :: nat

definition ipc_start :: ipc where
  "ipc_start = \<lparr>ip_senders = [], ip_signalled = [], ip_tasks = [], ip_next = 0\<rparr>"

definition receiver_alive :: "ipc \<Rightarrow> nat \<Rightarrow> bool" where
  "receiver_alive ip ch = list_ex (\<lambda>t. ct_channel t = ch \<and> ct_phase t = Chat_Running) (ip_tasks ip)"

definition ipc_cancel :: "string \<Rightarrow> ipc \<Rightarrow> bool \<times> ipc" where
  "ipc_cancel i ip =
     (case bt_get (ip_senders ip) i of
        None \<Rightarrow> (False, ip)
      | Some ch \<Rightarrow>
          (receiver_alive ip ch,
           ip\<lparr>ip_senders := bt_remove i (ip_senders ip),
              ip_signalled := (if receiver_alive ip ch then ch # ip_signalled ip else ip_signalled ip)\<rparr>))"

definition ipc_register :: "string \<Rightarrow> ipc \<Rightarrow> nat option \<times> ipc" where
  "ipc_register i ip =
     (case bt_get (ip_senders ip) i of
        Some _ \<Rightarrow> (None, ip)
      | None \<Rightarrow>
          (Some (ip_next ip),
           ip\<lparr>ip_senders := bt_insert i (ip_next ip) (ip_senders ip), ip_next := ip_next ip + 1,
              ip_tasks := ip_tasks ip @ [\<lparr>ct_channel = ip_next ip, ct_request_id = i, ct_phase = Chat_Running\<rparr>]\<rparr>))"

definition ipc_answered :: "nat \<Rightarrow> ipc \<Rightarrow> ipc" where
  "ipc_answered ch ip =
     ip\<lparr>ip_tasks := map (\<lambda>t. if ct_channel t = ch then t\<lparr>ct_phase := Chat_Answered\<rparr> else t) (ip_tasks ip)\<rparr>"

definition ipc_finish :: "nat \<Rightarrow> string \<Rightarrow> ipc \<Rightarrow> ipc" where
  "ipc_finish ch i ip =
     ip\<lparr>ip_senders := bt_remove i (ip_senders ip), ip_tasks := filter (\<lambda>t. ct_channel t \<noteq> ch) (ip_tasks ip)\<rparr>"

section \<open>The daemon's answer and the client's check\<close>

text \<open>The answers of the protocol that are not the handler's own.\<close>

datatype 'r protocol_response =
  Response 'r | ChatCancellation bool | Error_Response protocol_error_body

definition duplicate_request_response :: "string \<Rightarrow> 'r protocol_response envelope" where
  "duplicate_request_response i =
     \<lparr>env_version = PROTOCOL_VERSION, env_request_id = i,
      env_body = Error_Response \<lparr>peb_code = MalformedRequest, peb_message = ''request identifier is already active''\<rparr>\<rparr>"

definition codec_error_response :: "codec_error \<Rightarrow> 'r protocol_response envelope" where
  "codec_error_response error =
     \<lparr>env_version = PROTOCOL_VERSION, env_request_id = ''request:invalid'',
      env_body = Error_Response
        (case error of
           Codec_FrameTooLarge \<Rightarrow> \<lparr>peb_code = FrameTooLarge, peb_message = ''request frame is too large''\<rparr>
         | Codec_UnknownVersion _ \<Rightarrow>
             \<lparr>peb_code = UnknownVersion, peb_message = ''unsupported protocol version''\<rparr>
         | _ \<Rightarrow> \<lparr>peb_code = MalformedRequest, peb_message = ''malformed request''\<rparr>)\<rparr>"

text \<open>
  The handler of the service receives the body, the identifier and, for a chat, its channel. It
  answers under the identifier of the request and may change the state of the daemon. How a request
  is recognised as a cancellation or a chat is an argument. A handler that panics gives no answer; the
  connection then ends without one, and a chat leaves its sender behind, as it is removed only after
  the answer.
\<close>

record ('q, 'r, 's) handler =
  hd_cancels :: "'q \<Rightarrow> string option"
  hd_is_chat :: "'q \<Rightarrow> bool"
  hd_handle :: "'q \<Rightarrow> string \<Rightarrow> nat option \<Rightarrow> 's \<Rightarrow> 'r protocol_response option \<times> 's"

definition answer_envelope :: "string \<Rightarrow> 'r protocol_response \<Rightarrow> 'r protocol_response envelope" where
  "answer_envelope i response =
     \<lparr>env_version = PROTOCOL_VERSION, env_request_id = i, env_body = response\<rparr>"

text \<open>One request from its arrival to its answer, when no other connection intervenes.\<close>

definition dispatch_request ::
  "('q, 'r, 's) handler \<Rightarrow> 'q envelope \<Rightarrow> 's \<times> ipc \<Rightarrow> 'r protocol_response envelope option \<times> 's \<times> ipc" where
  "dispatch_request H envelope st =
     (let (s, ip) = st; i = env_request_id envelope; request = env_body envelope in
      case hd_cancels H request of
        Some target \<Rightarrow>
          (let (requested, ip') = ipc_cancel target ip in (Some (answer_envelope i (ChatCancellation requested)), s, ip'))
      | None \<Rightarrow>
          if hd_is_chat H request then
            (case ipc_register i ip of
               (None, ip') \<Rightarrow> (Some (duplicate_request_response i), s, ip')
             | (Some ch, ip') \<Rightarrow>
                 (case hd_handle H request i (Some ch) s of
                    (Some response, s') \<Rightarrow>
                      (Some (answer_envelope i response), s', ipc_finish ch i (ipc_answered ch ip'))
                  | (None, s') \<Rightarrow> (None, s', ipc_answered ch ip')))
          else
            (let (response, s') = hd_handle H request i None s in
             (map_option (answer_envelope i) response, s', ip)))"

datatype daemon_error = Daemon_Frame frame_error | Daemon_Codec codec_error | Task_Panicked

text \<open>The bytes a connection is answered with; the write itself is left out.\<close>

definition handle_connection ::
  "'q envelope json_codec \<Rightarrow> 'r protocol_response envelope json_codec \<Rightarrow> ('q, 'r, 's) handler
   \<Rightarrow> string option list \<Rightarrow> 's \<times> ipc \<Rightarrow> (daemon_error, string) result \<times> 's \<times> ipc" where
  "handle_connection CQ CR H reads st =
     (case read_frame [] reads of
        Inl e \<Rightarrow> (Inl (Daemon_Frame e), st)
      | Inr frame \<Rightarrow>
          (case (case decode_envelope CQ frame of
                   Inr request \<Rightarrow> dispatch_request H request st
                 | Inl e \<Rightarrow> (Some (codec_error_response e), st)) of
             (Some response, st') \<Rightarrow> (map_err Daemon_Codec (encode_envelope CR response), st')
           | (None, st') \<Rightarrow> (Inl Task_Panicked, st')))"

datatype client_error = Client_Frame frame_error | Client_Codec codec_error | Client_RequestIdMismatch

definition client_frame ::
  "'q envelope json_codec \<Rightarrow> string \<Rightarrow> 'q \<Rightarrow> (client_error, string) result" where
  "client_frame CQ i request =
     map_err Client_Codec
       (encode_envelope CQ \<lparr>env_version = PROTOCOL_VERSION, env_request_id = i, env_body = request\<rparr>)"

definition client_receive ::
  "'r protocol_response envelope json_codec \<Rightarrow> string \<Rightarrow> string option list
   \<Rightarrow> (client_error, 'r protocol_response) result" where
  "client_receive CR i reads =
     and_then (map_err Client_Frame (read_frame [] reads)) (\<lambda>frame.
     and_then (map_err Client_Codec (decode_envelope CR frame)) (\<lambda>response.
       if env_request_id response \<noteq> i \<and> env_request_id response \<noteq> ''request:invalid''
       then Inl Client_RequestIdMismatch
       else Inr (env_body response)))"

section \<open>Facts\<close>

lemma frame_payload_wire:
  assumes "json_faithful C" and "wire_encode C x = Inr frame"
  shows "frame_payload frame = Inr (jc_write C x)" "length frame \<le> MAX_FRAME_SIZE"
    "frame = jc_write C x @ [CHR 0x0A]" "CHR 0x0A \<notin> set (jc_write C x)"
  using assms by (auto simp: wire_encode_def json_faithful_def frame_payload_def strip_newline_def Let_def
      split: if_splits)

lemma decode_encode:
  assumes "json_faithful C" and "encode_envelope C e = Inr frame"
  shows "decode_envelope C frame = Inr e"
proof -
  from assms(2) have ok: "validate_envelope (env_version e) (env_request_id e) = Inr ()"
    and wire: "wire_encode C e = Inr frame"
    by (auto simp: encode_envelope_def and_then_Inr_iff)
  have "jc_read C (jc_write C e) = Some e" using assms(1) by (simp add: json_faithful_def)
  with ok frame_payload_wire(1) [OF assms(1) wire] show ?thesis by (simp add: decode_envelope_def)
qed

lemma takeWhile_line: "c \<notin> set xs \<Longrightarrow> takeWhile (\<lambda>b. b \<noteq> c) (xs @ [c]) = xs"
  by (induction xs) auto

text \<open>A frame is read whole however the stream delivers it.\<close>

lemma read_frame_pieces:
  assumes "frame @ concat chunks = payload @ [CHR 0x0A]" and "CHR 0x0A \<notin> set payload"
    and "length payload + 1 \<le> MAX_FRAME_SIZE" and "list_all (\<lambda>c. c \<noteq> []) chunks"
    and "CHR 0x0A \<notin> set frame"
  shows "read_frame frame (map Some chunks @ rest) = Inr (payload @ [CHR 0x0A])"
  using assms(1,4,5)
proof (induction chunks arbitrary: frame)
  case Nil
  then have "CHR 0x0A \<in> set frame" by simp
  with Nil show ?case by simp
next
  case (Cons chunk chunks)
  show ?case
  proof (cases "concat chunks = []")
    case True
    then have whole: "frame @ chunk = payload @ [CHR 0x0A]"
      using Cons.prems(1) by (metis append_Nil2 concat.simps(2))
    moreover have "chunk \<noteq> []" using Cons.prems(2) by simp
    ultimately obtain line where line: "chunk = line @ [CHR 0x0A]" "frame @ line = payload"
      by (metis append_assoc append_butlast_last_id append_same_eq butlast_snoc last_appendR last_snoc)
    then have "CHR 0x0A \<notin> set line" using assms(2) by auto
    then show ?thesis
      using line assms(3) by (auto simp: takeWhile_line)
  next
    case False
    then have "payload = (frame @ chunk) @ butlast (concat chunks)"
      using arg_cong [OF Cons.prems(1), of butlast] by (simp del: concat_eq_Nil_conv add: butlast_append)
    then have "CHR 0x0A \<notin> set chunk" using assms(2) by auto
    moreover have "length frame + length chunk \<le> MAX_FRAME_SIZE"
      using arg_cong [OF Cons.prems(1), of length] assms(3) by simp
    ultimately show ?thesis
      using Cons.IH [of "frame @ chunk"] Cons.prems by simp
  qed
qed

lemma read_frame_line:
  "read_frame frame reads = Inr line \<Longrightarrow> CHR 0x0A \<notin> set frame \<Longrightarrow>
   length line \<le> MAX_FRAME_SIZE \<and> line \<noteq> [] \<and> last line = CHR 0x0A \<and> CHR 0x0A \<notin> set (butlast line)"
proof (induction frame reads rule: read_frame.induct)
  case (3 frame chunk reads)
  show ?case
  proof (cases "CHR 0x0A \<in> set chunk")
    case True
    then obtain head tail where chunk: "chunk = head @ CHR 0x0A # tail" and free: "CHR 0x0A \<notin> set head"
      by (auto dest: split_list_first)
    have "takeWhile (\<lambda>b. b \<noteq> CHR 0x0A) chunk = head"
      using free unfolding chunk by (induction head) auto
    then have "tail = []" "line = frame @ head @ [CHR 0x0A]" "length frame + (length head + 1) \<le> MAX_FRAME_SIZE"
      using 3(2) chunk by (auto simp: Let_def split: if_splits)
    then show ?thesis using 3(3) free by (simp add: butlast_append)
  next
    case False
    then show ?thesis using 3 by (auto split: if_splits)
  qed
qed simp_all

section \<open>Interleaved connections\<close>

text \<open>
  The steps of all connections over the registry. With \<open>distinct_ids\<close> a client does not start a chat
  under an identifier whose earlier chat has not been cleaned up, as the counter of \<open>request_id\<close>
  ensures.
\<close>

inductive ipc_step :: "bool \<Rightarrow> ipc \<Rightarrow> ipc \<Rightarrow> bool" for distinct_ids :: bool where
  cancel: "ipc_step distinct_ids ip (snd (ipc_cancel i ip))"
| register: "(distinct_ids \<Longrightarrow> i \<notin> ct_request_id ` set (ip_tasks ip)) \<Longrightarrow> ipc_step distinct_ids ip (snd (ipc_register i ip))"
| answered: "t \<in> set (ip_tasks ip) \<Longrightarrow> ipc_step distinct_ids ip (ipc_answered (ct_channel t) ip)"
| finish: "t \<in> set (ip_tasks ip) \<Longrightarrow> ct_phase t = Chat_Answered \<Longrightarrow>
    ipc_step distinct_ids ip (ipc_finish (ct_channel t) (ct_request_id t) ip)"

inductive ipc_reachable :: "bool \<Rightarrow> ipc \<Rightarrow> bool" for distinct_ids :: bool where
  start: "ipc_reachable distinct_ids ipc_start"
| step: "ipc_reachable distinct_ids ip \<Longrightarrow> ipc_step distinct_ids ip ip' \<Longrightarrow> ipc_reachable distinct_ids ip'"

inductive_cases ipc_stepE: "ipc_step distinct_ids ip ip'"

definition task_keys :: "ipc \<Rightarrow> (nat \<times> string) set" where
  "task_keys ip = (\<lambda>t. (ct_channel t, ct_request_id t)) ` set (ip_tasks ip)"

text \<open>Every task that was not signalled has its sender registered, and senders belong to tasks.\<close>

definition ipc_invar :: "ipc \<Rightarrow> bool" where
  "ipc_invar ip \<longleftrightarrow>
     bt_invar (ip_senders ip)
     \<and> distinct (map ct_channel (ip_tasks ip)) \<and> distinct (map ct_request_id (ip_tasks ip))
     \<and> (\<forall>t \<in> set (ip_tasks ip). ct_channel t < ip_next ip
          \<and> (bt_get (ip_senders ip) (ct_request_id t) = Some (ct_channel t)
             \<or> bt_get (ip_senders ip) (ct_request_id t) = None
               \<and> (ct_phase t = Chat_Running \<longrightarrow> ct_channel t \<in> set (ip_signalled ip))))
     \<and> (\<forall>i ch. bt_get (ip_senders ip) i = Some ch \<longrightarrow> (ch, i) \<in> task_keys ip)"

lemma task_unique:
  "ipc_invar ip \<Longrightarrow> t \<in> set (ip_tasks ip) \<Longrightarrow> u \<in> set (ip_tasks ip) \<Longrightarrow>
   (ct_channel t = ct_channel u \<or> ct_request_id t = ct_request_id u) \<Longrightarrow> t = u"
  unfolding ipc_invar_def by (metis distinct_map inj_on_def)

lemma sender_task:
  assumes "ipc_invar ip" and "bt_get (ip_senders ip) i = Some ch"
  obtains t where "t \<in> set (ip_tasks ip)" "ct_channel t = ch" "ct_request_id t = i"
proof -
  from assms have "(ch, i) \<in> task_keys ip" by (simp add: ipc_invar_def)
  with that show thesis by (auto simp: task_keys_def)
qed

lemma ipc_invar_bt: "ipc_invar ip \<Longrightarrow> bt_invar (ip_senders ip)"
  by (simp add: ipc_invar_def)

lemma ipc_invar_register:
  assumes "ipc_invar ip" and "i \<notin> ct_request_id ` set (ip_tasks ip)"
  shows "ipc_invar (snd (ipc_register i ip))"
proof -
  have "bt_get (ip_senders ip) i = None"
    using assms by (cases "bt_get (ip_senders ip) i") (auto elim: sender_task)
  then show ?thesis
    using assms by (auto simp: ipc_register_def ipc_invar_def bt_get_insert bt_invar_insert task_keys_def)
qed

lemma ipc_invar_cancel: "ipc_invar ip \<Longrightarrow> ipc_invar (snd (ipc_cancel i ip))"
proof (cases "bt_get (ip_senders ip) i")
  case (Some ch)
  assume inv: "ipc_invar ip"
  then obtain t where t: "t \<in> set (ip_tasks ip)" "ct_channel t = ch" "ct_request_id t = i"
    using sender_task [OF inv Some] by blast
  let ?ip = "snd (ipc_cancel i ip)"
  have tasks: "ip_tasks ?ip = ip_tasks ip" "ip_next ?ip = ip_next ip" "task_keys ?ip = task_keys ip"
    and senders: "ip_senders ?ip = bt_remove i (ip_senders ip)"
    and signalled: "ip_signalled ?ip = (if receiver_alive ip ch then ch # ip_signalled ip else ip_signalled ip)"
    by (simp_all add: ipc_cancel_def Some task_keys_def)
  have "bt_get (ip_senders ?ip) (ct_request_id u) = Some (ct_channel u)
      \<or> bt_get (ip_senders ?ip) (ct_request_id u) = None
        \<and> (ct_phase u = Chat_Running \<longrightarrow> ct_channel u \<in> set (ip_signalled ?ip))"
    if u: "u \<in> set (ip_tasks ip)" for u
  proof (cases "ct_request_id u = i")
    case True
    then have "u = t" using task_unique [OF inv u t(1)] t(3) by simp
    then show ?thesis using True u t
      by (auto simp: senders bt_get_remove signalled receiver_alive_def list_ex_iff)
  next
    case False
    then show ?thesis using inv u by (auto simp: ipc_invar_def senders bt_get_remove signalled)
  qed
  then show ?thesis
    using inv unfolding ipc_invar_def tasks by (simp add: senders bt_get_remove bt.invar_remove)
qed (simp add: ipc_cancel_def)

lemma ipc_invar_answered: "ipc_invar ip \<Longrightarrow> ipc_invar (ipc_answered ch ip)"
proof -
  let ?f = "\<lambda>t. if ct_channel t = ch then t\<lparr>ct_phase := Chat_Answered\<rparr> else t"
  have maps: "map ct_channel (map ?f ts) = map ct_channel ts" "map ct_request_id (map ?f ts) = map ct_request_id ts" for ts
    by simp_all
  have "task_keys (ipc_answered ch ip) = task_keys ip"
    unfolding task_keys_def ipc_answered_def set_map [symmetric] by (simp add: comp_def if_distrib del: set_map cong: if_cong)
  then show "ipc_invar ip \<Longrightarrow> ?thesis"
    unfolding ipc_invar_def by (auto simp: ipc_answered_def maps simp del: map_map)
qed

lemma ipc_invar_finish:
  assumes inv: "ipc_invar ip" and t: "t \<in> set (ip_tasks ip)"
  shows "ipc_invar (ipc_finish (ct_channel t) (ct_request_id t) ip)"
proof -
  let ?rest = "filter (\<lambda>u. ct_channel u \<noteq> ct_channel t) (ip_tasks ip)"
  have other: "ct_request_id u \<noteq> ct_request_id t" if "u \<in> set ?rest" for u
    using task_unique [OF inv _ t, of u] that by auto
  have senders: "(ch, i) \<in> (\<lambda>u. (ct_channel u, ct_request_id u)) ` set ?rest"
    if "bt_get (ip_senders ip) i = Some ch" "i \<noteq> ct_request_id t" for i ch
  proof (rule sender_task [OF inv that(1)])
    fix u assume u: "u \<in> set (ip_tasks ip)" "ct_channel u = ch" "ct_request_id u = i"
    then have "ct_channel u \<noteq> ct_channel t" using task_unique [OF inv u(1) t] that(2) by auto
    with u show ?thesis by force
  qed
  have tasks: "\<forall>u \<in> set ?rest. ct_channel u < ip_next ip
      \<and> (bt_get (ip_senders ip) (ct_request_id u) = Some (ct_channel u)
         \<or> bt_get (ip_senders ip) (ct_request_id u) = None
           \<and> (ct_phase u = Chat_Running \<longrightarrow> ct_channel u \<in> set (ip_signalled ip)))"
    using inv by (simp add: ipc_invar_def)
  have "distinct (map ct_channel ?rest)" "distinct (map ct_request_id ?rest)"
    using inv by (simp_all add: ipc_invar_def distinct_map_filter)
  then show ?thesis
    using other senders tasks inv
    by (simp add: ipc_finish_def ipc_invar_def bt_get_remove bt.invar_remove task_keys_def)
qed

lemma ipc_invar_reachable: "ipc_reachable True ip \<Longrightarrow> ipc_invar ip"
proof (induction rule: ipc_reachable.induct)
  case start
  then show ?case by (simp add: ipc_start_def ipc_invar_def bt_invar_def bt_get_def)
next
  case (step ip ip')
  from step(2,3) show ?case
    by (elim ipc_stepE) (simp_all add: ipc_invar_register ipc_invar_cancel ipc_invar_answered ipc_invar_finish)
qed

section \<open>A concrete encoding\<close>

text \<open>
  Bytes as decimal numbers, each followed by a comma: text without line breaks. Envelopes are lists
  of texts. It instantiates the JSON parameter in the witness.
\<close>

definition number_text :: "string \<Rightarrow> string" where
  "number_text s = concat (map (\<lambda>c. dec (of_char c) @ '','') s)"

definition text_of_numbers :: "string \<Rightarrow> string" where
  "text_of_numbers t = map (\<lambda>w. char_of (undec w)) (butlast (split_on (CHR '','') t))"

lemma number_text_roundtrip: "text_of_numbers (number_text s) = s"
proof (induction s)
  case (Cons c s)
  have "CHR '','' \<notin> set (dec (of_char c))" using dec_digits by (fastforce simp: is_ascii_digit_def byte_def)
  with Cons show ?case by (simp add: number_text_def text_of_numbers_def split_on_append_sep undec_dec del: undec.simps)
qed (simp add: number_text_def text_of_numbers_def)

lemma number_text_bytes: "x \<in> set (number_text s) \<Longrightarrow> is_ascii_digit x \<or> x = CHR '',''"
  by (auto simp: number_text_def dest: dec_digits split: if_splits)

lemma number_text_Nil: "number_text s = [] \<longleftrightarrow> s = []"
  by (auto simp: number_text_def)

definition error_codes :: "protocol_error_code list" where
  "error_codes = [UnknownVersion, MalformedRequest, FrameTooLarge, InvalidAction, NotFound, Unsupported,
     Internal, Validation, PrivacyDenied, ProviderUnavailable, SecretStoreUnavailable, ConfirmationExpired,
     SandboxUnavailable]"

fun response_texts :: "unit protocol_response \<Rightarrow> string list" where
  "response_texts (Response _) = [''response'']"
| "response_texts (ChatCancellation requested) = [''cancellation'', (if requested then ''true'' else ''false'')]"
| "response_texts (Error_Response body) =
     [''error'', dec (length (takeWhile (\<lambda>c. c \<noteq> peb_code body) error_codes)), peb_message body]"

fun texts_response :: "string list \<Rightarrow> unit protocol_response option" where
  "texts_response [kind] = Some (Response ())"
| "texts_response [kind, requested] = Some (ChatCancellation (requested = ''true''))"
| "texts_response [kind, code, message] =
     Some (Error_Response \<lparr>peb_code = error_codes ! undec code, peb_message = message\<rparr>)"
| "texts_response _ = None"

lemma error_codes_index: "error_codes ! length (takeWhile (\<lambda>c. c \<noteq> x) error_codes) = x"
  by (cases x) (simp_all add: error_codes_def)

lemma texts_response_roundtrip: "texts_response (response_texts r) = Some r"
  by (cases r) (simp_all add: undec_dec error_codes_index del: undec.simps)

definition number_codec :: "('a \<Rightarrow> string list) \<Rightarrow> (string list \<Rightarrow> 'a option) \<Rightarrow> 'a envelope json_codec" where
  "number_codec write read =
     \<lparr>jc_write = (\<lambda>e. number_text (plain_texts (dec (env_version e) # env_request_id e # write (env_body e)))),
      jc_read = (\<lambda>t. case plain_parse [] (text_of_numbers t) of
         Some (version # i # body) \<Rightarrow>
           map_option (\<lambda>b. \<lparr>env_version = undec version, env_request_id = i, env_body = b\<rparr>) (read body)
       | _ \<Rightarrow> None)\<rparr>"

lemma number_codec_faithful:
  assumes "\<And>x. read (write x) = Some x"
  shows "json_faithful (number_codec write read)"
proof -
  have digits: "x \<in> set (number_text s) \<Longrightarrow> x \<noteq> CHR 0x0A \<and> x \<noteq> CHR 0x0D" for x s
    using number_text_bytes [of x s] by (auto simp: is_ascii_digit_def byte_def)
  have "plain_texts (t # ts) \<noteq> []" for t ts by (simp add: plain_texts_def)
  then show ?thesis
    using digits by (auto simp: json_faithful_def number_codec_def number_text_roundtrip plain_parse_texts assms
        undec_dec number_text_Nil simp del: undec.simps)
qed

lemma length_number_text: "length (number_text s) \<le> 4 * length s"
proof (induction s)
  case (Cons c s)
  have "length (dec (of_char c)) \<le> 3"
    using less_trans [OF nat_of_char_less_256, of 1000 c] by (intro length_dec_le) simp_all
  with Cons show ?case by (simp add: number_text_def)
qed (simp add: number_text_def)

lemma number_codec_encodes:
  assumes "validate_envelope (env_version e) (env_request_id e) = Inr ()"
    and "4 * length (plain_texts (dec (env_version e) # env_request_id e # write (env_body e))) < MAX_FRAME_SIZE"
  shows "encode_envelope (number_codec write read) e = Inr (jc_write (number_codec write read) e @ [CHR 0x0A])"
  using assms length_number_text [of "plain_texts (dec (env_version e) # env_request_id e # write (env_body e))"]
  by (simp add: encode_envelope_def wire_encode_def Let_def number_codec_def)

section \<open>Properties\<close>

lemma read_encoded:
  assumes "json_faithful C" and "encode_envelope C e = Inr frame" and "concat chunks = frame"
    and "list_all (\<lambda>c. c \<noteq> []) chunks"
  shows "read_frame [] (map Some chunks @ rest) = Inr frame"
proof -
  from assms(2) have wire: "wire_encode C e = Inr frame" by (auto simp: encode_envelope_def and_then_Inr_iff)
  note parts = frame_payload_wire [OF assms(1) wire]
  show ?thesis
    using read_frame_pieces [of "[]" chunks "jc_write C e" rest] parts assms(3,4) by simp
qed

lemma dispatch_id:
  assumes "validate_envelope (env_version e) (env_request_id e) = Inr ()"
    and "dispatch_request H e st = (Some response, st')"
  shows "env_request_id response = env_request_id e" "env_version response = PROTOCOL_VERSION"
  using assms(2)
  by (auto simp: dispatch_request_def Let_def answer_envelope_def duplicate_request_response_def
      split: option.splits prod.splits if_splits)

text \<open>
  C26. A request that a client encodes reaches the daemon as it was sent and the answer reaches the
  client as the daemon made it, however both streams are cut into pieces: the daemon dispatches
  exactly the client's envelope; if its handler does not panic it answers under the same identifier,
  and if the answer fits into a frame the client returns exactly its body.
\<close>

theorem exchange_roundtrip:
  assumes "json_faithful CQ" and "json_faithful CR" and "client_frame CQ i request = Inr frame"
    and "concat sent = frame" and "list_all (\<lambda>c. c \<noteq> []) sent"
    and dispatch: "dispatch_request H \<lparr>env_version = PROTOCOL_VERSION, env_request_id = i, env_body = request\<rparr> st
      = (Some response, st')"
  shows "env_request_id response = i
     \<and> handle_connection CQ CR H (map Some sent @ rest) st = (map_err Daemon_Codec (encode_envelope CR response), st')
     \<and> (\<forall>answered. encode_envelope CR response = Inr (concat answered) \<and> list_all (\<lambda>c. c \<noteq> []) answered
          \<longrightarrow> client_receive CR i (map Some answered @ rest') = Inr (env_body response))"
proof -
  let ?e = "\<lparr>env_version = PROTOCOL_VERSION, env_request_id = i, env_body = request\<rparr>"
  from assms(3) have encoded: "encode_envelope CQ ?e = Inr frame" by (simp add: client_frame_def)
  then have valid: "validate_envelope (env_version ?e) (env_request_id ?e) = Inr ()"
    by (simp add: encode_envelope_def and_then_Inr_iff)
  note same = dispatch_id [OF valid dispatch, simplified]
  have "handle_connection CQ CR H (map Some sent @ rest) st = (map_err Daemon_Codec (encode_envelope CR response), st')"
    using read_encoded [OF assms(1) encoded assms(4,5)] decode_encode [OF assms(1) encoded] dispatch
    by (simp add: handle_connection_def)
  moreover have "client_receive CR i (map Some answered @ rest') = Inr (env_body response)"
    if "encode_envelope CR response = Inr (concat answered)" "list_all (\<lambda>c. c \<noteq> []) answered" for answered
    using read_encoded [OF assms(2) that(1) refl that(2)] decode_encode [OF assms(2) that(1)] same(1)
    by (simp add: client_receive_def)
  ultimately show ?thesis using same(1) by blast
qed

definition unit_codec :: "unit envelope json_codec" where
  "unit_codec = number_codec (\<lambda>_. []) (\<lambda>_. Some ())"

definition unit_response_codec :: "unit protocol_response envelope json_codec" where
  "unit_response_codec = number_codec response_texts texts_response"

theorem exchange_roundtrip_witness:
  "\<exists>response st'. handle_connection unit_codec unit_response_codec
      \<lparr>hd_cancels = (\<lambda>_. None), hd_is_chat = (\<lambda>_. True), hd_handle = (\<lambda>_ _ _ s. (Some (Response ()), Suc s))\<rparr>
      (map Some [jc_write unit_codec \<lparr>env_version = 5, env_request_id = ''r'', env_body = ()\<rparr>, [CHR 0x0A]])
      (0::nat, ipc_start) = (Inr response, st') \<and> client_receive unit_response_codec ''r'' [Some response] = Inr (Response ())
      \<and> fst st' = 1"
proof -
  let ?H = "\<lparr>hd_cancels = (\<lambda>_. None), hd_is_chat = (\<lambda>_. True), hd_handle = (\<lambda>_ _ _ s. (Some (Response ()), Suc s))\<rparr>"
  let ?e = "\<lparr>env_version = 5, env_request_id = ''r'', env_body = ()\<rparr>"
  let ?bytes = "jc_write unit_codec ?e"
  let ?r = "answer_envelope ''r'' (Response ()) :: unit protocol_response envelope"
  have faithful: "json_faithful unit_codec" "json_faithful unit_response_codec"
    by (simp_all add: unit_codec_def unit_response_codec_def number_codec_faithful texts_response_roundtrip)
  have sizes: "dec 5 = ''5''" "MAX_FRAME_SIZE = 65536" "length (plain_texts ts) = sum_list (map (\<lambda>t. 2 * length t + 1) ts)" for ts
    by (code_simp, simp add: MAX_FRAME_SIZE_def, induction ts)
      (simp_all add: plain_texts_def length_concat comp_def sum_list_triv)
  have valid: "validate_envelope 5 ''r'' = Inr ()"
    by (simp add: validate_envelope_def PROTOCOL_VERSION_def request_id_byte_def is_ascii_alphanumeric_def
        is_ascii_lowercase_def byte_def)
  have frame: "client_frame unit_codec ''r'' () = Inr (?bytes @ [CHR 0x0A])" "?bytes \<noteq> []"
    using number_codec_encodes [of ?e "\<lambda>_. []"] valid
    by (simp_all add: client_frame_def unit_codec_def sizes PROTOCOL_VERSION_def)
      (simp add: number_codec_def number_text_Nil plain_texts_def)
  have answer: "encode_envelope unit_response_codec ?r = Inr (jc_write unit_response_codec ?r @ [CHR 0x0A])"
    using number_codec_encodes [of ?r response_texts texts_response] valid
    by (simp add: unit_response_codec_def sizes answer_envelope_def PROTOCOL_VERSION_def)
  have dispatch: "dispatch_request ?H ?e (0::nat, ipc_start) = (Some ?r, 1, ipc_start\<lparr>ip_next := 1\<rparr>)"
    by (simp add: dispatch_request_def answer_envelope_def ipc_register_def ipc_start_def bt_get_def ipc_finish_def ipc_answered_def
        bt_remove_def)
  show ?thesis
    using exchange_roundtrip [OF faithful frame(1), of "[?bytes, [CHR 0x0A]]" ?H "(0::nat, ipc_start)" ?r
        "(1, ipc_start\<lparr>ip_next := 1\<rparr>)" "[]" "[]"] frame(2) dispatch answer
    by (auto simp: PROTOCOL_VERSION_def answer_envelope_def dest!: spec [of _ "[jc_write unit_response_codec ?r @ [CHR 0x0A]]"])
qed

text \<open>
  C30. Without reuse of an identifier in flight, a cancellation reaches its chat: in every state the
  concurrent connections can reach, cancelling a running chat that was not cancelled before succeeds
  and signals the channel of this chat and no other.
\<close>

theorem cancellation_reaches_chat:
  assumes "ipc_reachable True ip" and "t \<in> set (ip_tasks ip)" and "ct_phase t = Chat_Running"
    and "ct_channel t \<notin> set (ip_signalled ip)"
  shows "\<exists>ip'. ipc_cancel (ct_request_id t) ip = (True, ip') \<and> ip_signalled ip' = ct_channel t # ip_signalled ip
    \<and> ip_tasks ip' = ip_tasks ip"
proof -
  from ipc_invar_reachable [OF assms(1)] assms(2-4)
  have "bt_get (ip_senders ip) (ct_request_id t) = Some (ct_channel t)" by (auto simp: ipc_invar_def)
  moreover have "receiver_alive ip (ct_channel t)"
    using assms(2,3) by (auto simp: receiver_alive_def list_ex_iff)
  ultimately show ?thesis by (simp add: ipc_cancel_def)
qed

theorem cancellation_reaches_chat_witness:
  "\<exists>ip'. ipc_cancel ''a'' (snd (ipc_register ''a'' ipc_start)) = (True, ip') \<and> ip_signalled ip' = [0]"
proof -
  let ?ip = "snd (ipc_register ''a'' ipc_start)" and ?t = "\<lparr>ct_channel = 0, ct_request_id = ''a'', ct_phase = Chat_Running\<rparr>"
  have "ipc_reachable True ?ip"
    by (rule ipc_reachable.step [OF ipc_reachable.start], rule ipc_step.register) (simp add: ipc_start_def)
  moreover have "ip_tasks ?ip = [?t]" "ip_signalled ?ip = []"
    by (simp_all add: ipc_register_def ipc_start_def bt_get_def)
  ultimately show ?thesis using cancellation_reaches_chat [of ?ip ?t] by auto
qed

text \<open>
  With reuse the guarantee fails: a chat is started, cancelled and, before it is cleaned up, its
  identifier is used again; the clean-up of the first chat then removes the sender of the second, which
  runs on and can no longer be cancelled.
\<close>

lemma reused_identifier_loses_sender:
  fixes ip
  defines "ip \<equiv> ipc_finish 0 ''a'' (ipc_answered 0 (snd (ipc_register ''a'' (snd (ipc_cancel ''a''
    (snd (ipc_register ''a'' ipc_start)))))))"
  shows "ipc_reachable False ip" "ip_tasks ip = [\<lparr>ct_channel = 1, ct_request_id = ''a'', ct_phase = Chat_Running\<rparr>]"
    "1 \<notin> set (ip_signalled ip)" "ipc_cancel ''a'' ip = (False, ip)"
proof -
  let ?i1 = "snd (ipc_register ''a'' ipc_start)"
  let ?i2 = "snd (ipc_cancel ''a'' ?i1)"
  let ?i3 = "snd (ipc_register ''a'' ?i2)"
  let ?i4 = "ipc_answered 0 ?i3"
  let ?t = "\<lparr>ct_channel = 0, ct_request_id = ''a'', ct_phase = Chat_Running\<rparr>"
  note defs = ipc_register_def ipc_start_def bt_get_def ipc_cancel_def bt_remove_def receiver_alive_def
    ipc_answered_def ipc_finish_def
  have "ipc_reachable False ?i3"
    by (blast intro: ipc_reachable.intros ipc_step.register ipc_step.cancel)
  moreover have "ipc_step False ?i3 ?i4"
    using ipc_step.answered [of ?t ?i3 False] by (simp add: defs)
  moreover have "ipc_step False ?i4 ip"
    using ipc_step.finish [of "?t\<lparr>ct_phase := Chat_Answered\<rparr>" ?i4 False] by (simp add: ip_def defs)
  ultimately show "ipc_reachable False ip" by (meson ipc_reachable.step)
  show "ip_tasks ip = [\<lparr>ct_channel = 1, ct_request_id = ''a'', ct_phase = Chat_Running\<rparr>]"
    "1 \<notin> set (ip_signalled ip)" "ipc_cancel ''a'' ip = (False, ip)"
    by (simp_all add: ip_def defs)
qed

text \<open>A chat whose handler panics never gives its identifier back: the sender stays registered, and every
  later chat under the identifier is refused as a duplicate.\<close>

lemma panicking_chat_keeps_sender:
  assumes "dispatch_request H e (s, ip) = (None, s', ip')" and "hd_is_chat H (env_body e)"
  shows "bt_get (ip_senders ip') (env_request_id e) \<noteq> None"
    and "hd_cancels H (env_body e) = None \<Longrightarrow>
      dispatch_request H e (s', ip') = (Some (duplicate_request_response (env_request_id e)), s', ip')"
proof -
  show kept: "bt_get (ip_senders ip') (env_request_id e) \<noteq> None"
    using assms by (auto simp: dispatch_request_def Let_def ipc_register_def ipc_answered_def bt_get_insert
        split: option.splits prod.splits if_splits)
  then show "hd_cancels H (env_body e) = None \<Longrightarrow>
      dispatch_request H e (s', ip') = (Some (duplicate_request_response (env_request_id e)), s', ip')"
    using assms(2) by (auto simp: dispatch_request_def ipc_register_def)
qed

text \<open>The identifiers clients draw are accepted, for every process and every value of the counter.\<close>

lemma request_id_valid:
  assumes "pid < 2 ^ 32" and "sequence < 2 ^ 64"
  shows "validate_envelope PROTOCOL_VERSION (request_id pid sequence) = Inr ()"
proof -
  have "length (dec pid) \<le> 10" "length (dec sequence) \<le> 20"
    using assms by (auto intro!: length_dec_le)
  moreover have "list_all request_id_byte (dec n)" for n
    by (auto simp: list_all_iff request_id_byte_def is_ascii_alphanumeric_def dest: dec_digits)
  ultimately show ?thesis
    by (simp add: validate_envelope_def request_id_def request_id_byte_def is_ascii_alphanumeric_def
        is_ascii_lowercase_def byte_def)
qed

text \<open>A frame that does not decode changes nothing and is answered with an error body.\<close>

lemma undecodable_frame_answered:
  assumes "read_frame [] reads = Inr frame" and "decode_envelope CQ frame = Inl e"
  shows "handle_connection CQ CR H reads st = (map_err Daemon_Codec (encode_envelope CR (codec_error_response e)), st)"
    "\<exists>body. env_body (codec_error_response e :: 'r protocol_response envelope) = Error_Response body"
  using assms by (simp_all add: handle_connection_def codec_error_response_def)

text \<open>A stream that does not deliver one terminated frame within the limit is not dispatched at all.\<close>

lemma unreadable_stream_ignored:
  "read_frame [] reads = Inl e \<Longrightarrow> handle_connection CQ CR H reads st = (Inl (Daemon_Frame e), st)"
  by (simp add: handle_connection_def)

end
