(* ===== verification/Halquen_Interaction.thy ===== *)
theory Halquen_Interaction
  imports Halquen_Storage Halquen_Memory
begin

text \<open>
  The vocabulary of the interaction layer (\<open>crates/domain/src/interaction.rs\<close>): application settings
  with their defaults and bounds, providers, models, chats, cached responses, activity and usage, and
  the text codecs under which \<open>crates/storage/src/interaction.rs\<close> persists the enumerations.
\<close>

section \<open>Application settings\<close>

datatype appearance_mode =
  Appearance_System | Appearance_Light | Appearance_Dark

datatype routing_preset =
  RP_Balanced | RP_MinimizeAiUsage | RP_MinimizeCost | RP_PreferLocal | RP_PreferQuality
| RP_Custom

datatype log_level =
  Log_Error | Log_Warn | Log_Info | Log_Debug

record application_settings =
  as_appearance :: appearance_mode
  as_language :: string
  as_allow_cloud_ai :: bool
  as_allow_local_ai :: bool
  as_allow_personal_context :: bool
  as_routing_preset :: routing_preset
  as_max_model_calls_per_request :: nat
  as_max_context_tokens :: u32
  as_max_output_tokens :: u32
  as_prefer_cached_local :: bool
  as_allow_expensive_fallback :: bool
  as_personal_instructions :: string
  as_learning_enabled :: bool
  as_ask_before_procedural_rules :: bool
  as_auto_save_explicit_preferences :: bool
  as_conversation_retention_days :: u16
  as_episodic_retention_days :: u16
  as_log_level :: log_level
  as_diagnostic_logging :: bool
  as_log_retention_days :: u16
  as_log_max_total_mb :: u16

definition default_settings :: application_settings where
  "default_settings =
     \<lparr>as_appearance = Appearance_System, as_language = ''system'', as_allow_cloud_ai = False,
      as_allow_local_ai = True, as_allow_personal_context = False, as_routing_preset = RP_Balanced,
      as_max_model_calls_per_request = 1, as_max_context_tokens = 8192, as_max_output_tokens = 2048,
      as_prefer_cached_local = True, as_allow_expensive_fallback = False, as_personal_instructions = [],
      as_learning_enabled = True, as_ask_before_procedural_rules = True,
      as_auto_save_explicit_preferences = True, as_conversation_retention_days = 90,
      as_episodic_retention_days = 30, as_log_level = Log_Info, as_diagnostic_logging = True,
      as_log_retention_days = 7, as_log_max_total_mb = 32\<rparr>"

datatype settings_validation_error =
  InvalidLanguage | PersonalInstructionsTooLong | InvalidModelCallBudget | InvalidContextBudget
| InvalidOutputBudget | InvalidRetention | InvalidLogLimit

fun settings_error_text :: "settings_validation_error \<Rightarrow> string" where
  "settings_error_text InvalidLanguage = ''language must contain between 1 and 32 characters''"
| "settings_error_text PersonalInstructionsTooLong = ''personal instructions exceed 8000 bytes''"
| "settings_error_text InvalidModelCallBudget = ''model call budget must be between 0 and 3''"
| "settings_error_text InvalidContextBudget = ''context token budget must be between 256 and 131072''"
| "settings_error_text InvalidOutputBudget = ''output token budget must be between 64 and 16384''"
| "settings_error_text InvalidRetention = ''retention must be between 1 and 3650 days''"
| "settings_error_text InvalidLogLimit = ''log storage limit must be between 1 and 1024 MiB''"

definition within :: "nat \<Rightarrow> nat \<Rightarrow> nat \<Rightarrow> bool" where
  "within lo hi n \<longleftrightarrow> lo \<le> n \<and> n \<le> hi"

definition settings_validate :: "application_settings \<Rightarrow> (settings_validation_error, unit) result" where
  "settings_validate s =
     (if trim (as_language s) = [] \<or> length (as_language s) > 32 then Inl InvalidLanguage
      else if length (as_personal_instructions s) > 8000 then Inl PersonalInstructionsTooLong
      else if as_max_model_calls_per_request s > 3 then Inl InvalidModelCallBudget
      else if \<not> within 256 131072 (as_max_context_tokens s) then Inl InvalidContextBudget
      else if \<not> within 64 16384 (as_max_output_tokens s) then Inl InvalidOutputBudget
      else if \<not> within 1 3650 (as_conversation_retention_days s)
        \<or> \<not> within 1 3650 (as_episodic_retention_days s)
        \<or> \<not> within 1 365 (as_log_retention_days s) then Inl InvalidRetention
      else if \<not> within 1 1024 (as_log_max_total_mb s) then Inl InvalidLogLimit
      else Inr ())"

section \<open>Providers and models\<close>

type_synonym provider_id = string
type_synonym model_id = string
type_synonym chat_message_id = string
type_synonym cache_entry_id = string
type_synonym activity_id = string
type_synonym i16 = int

datatype provider_kind =
  PK_OpenAiCompatible | PK_OpenAi | PK_Ollama | PK_LmStudio | PK_Anthropic | PK_Gemini

datatype privacy_class =
  Privacy_Local | Privacy_Cloud

datatype provider_status =
  Provider_Configured | Provider_Connected | Provider_Unavailable
| Provider_AuthenticationFailed | Provider_RateLimited | Provider_EndpointUnreachable
| Provider_Unsupported

record provider =
  pv_id :: provider_id
  pv_kind :: provider_kind
  pv_name :: string
  pv_base_url :: string
  pv_enabled :: bool
  pv_privacy :: privacy_class
  pv_configured :: bool
  pv_credential_id :: "string option"
  pv_status :: provider_status
  pv_created_at_ms :: i64
  pv_updated_at_ms :: i64

datatype ai_task_type =
  Task_Conversation | Task_MemoryInterpretation | Task_Consolidation

record ai_model =
  am_id :: model_id
  am_provider_id :: provider_id
  am_display_name :: string
  am_provider_model_id :: string
  am_enabled :: bool
  am_context_limit :: "u32 option"
  am_privacy :: privacy_class
  am_priority :: i16
  am_task_eligibility :: "ai_task_type list"
  am_is_default :: bool

datatype model_selection = Automatic | Select_Model model_id

section \<open>Chats, cached responses, activity and usage\<close>

datatype chat_role =
  Role_User | Role_Assistant | Role_System

datatype chat_origin =
  Chat_User | Chat_Local | Chat_Cache | Chat_Ai | Chat_System

datatype chat_route =
  Route_LocalCapability | Route_LocalMemory | Route_ResponseCache | Route_Ai
| Route_Clarification | Route_Unavailable

record chat_session =
  cs_id :: chat_session_id
  cs_title :: string
  cs_created_at_ms :: i64
  cs_updated_at_ms :: i64

record chat_message =
  cm_id :: chat_message_id
  cm_session_id :: chat_session_id
  cm_role :: chat_role
  cm_content :: string
  cm_origin :: chat_origin
  cm_route :: "chat_route option"
  cm_provider_id :: "provider_id option"
  cm_model_id :: "model_id option"
  cm_input_tokens :: "u32 option"
  cm_output_tokens :: "u32 option"
  cm_latency_ms :: "u64 option"
  cm_reusable_candidate_id :: "cache_entry_id option"
  cm_created_at_ms :: i64

record cached_response =
  ca_id :: cache_entry_id
  ca_normalized_request :: string
  ca_response :: string
  ca_context_key :: string
  ca_confidence_permille :: u16
  ca_priority_permille :: u16
  ca_trust :: trust_class
  ca_valid_until_ms :: "i64 option"
  ca_reusable :: bool
  ca_created_at_ms :: i64
  ca_last_used_at_ms :: "i64 option"
  ca_usage_count :: u64
  ca_success_count :: u64
  ca_correction_count :: u64
  ca_original_provider_id :: "provider_id option"
  ca_original_model_id :: "model_id option"
  ca_estimated_tokens_avoided :: u64

datatype activity_kind =
  AK_RequestReceived | AK_LocalRouteHit | AK_LocalRouteMiss | AK_CacheHit | AK_CacheMiss
| AK_AiSelected | AK_AiCompleted | AK_AiFailed | AK_MemoryCommitted | AK_PolicyEvaluated
| AK_ExecutionCompleted | AK_ConfirmationRequired | AK_Error

record activity_event =
  ae_id :: activity_id
  ae_session_id :: "chat_session_id option"
  ae_correlation_id :: string
  ae_kind :: activity_kind
  ae_summary :: string
  ae_detail :: "string option"
  ae_created_at_ms :: i64

datatype context_category =
  CC_CurrentRequest | CC_PersonalPreference | CC_RelevantMemory | CC_RecentConversation | CC_ExternalUntrusted

datatype response_feedback = FB_Useful | FB_Wrong | FB_DoNotRemember | FB_AlwaysUse | FB_Prefer

datatype diagnostic_severity = DS_Error | DS_Warn | DS_Info | DS_Debug

record diagnostic_entry =
  de_timestamp_ms :: i64
  de_severity :: diagnostic_severity
  de_component :: string
  de_code :: string
  de_message :: string
  de_correlation_id :: "string option"

record usage_stats =
  us_model_requests :: u64
  us_input_tokens :: u64
  us_output_tokens :: u64
  us_cached_tokens :: u64
  us_ai_fallbacks :: u64
  us_local_resolutions :: u64
  us_response_cache_hits :: u64
  us_clarifications :: u64
  us_failed_provider_calls :: u64
  us_estimated_tokens_avoided :: u64

definition no_usage :: usage_stats where
  "no_usage = \<lparr>us_model_requests = 0, us_input_tokens = 0, us_output_tokens = 0, us_cached_tokens = 0,
     us_ai_fallbacks = 0, us_local_resolutions = 0, us_response_cache_hits = 0, us_clarifications = 0,
     us_failed_provider_calls = 0, us_estimated_tokens_avoided = 0\<rparr>"

section \<open>Text codecs of the enumerations\<close>

fun encode_appearance :: "appearance_mode \<Rightarrow> string" where
  "encode_appearance Appearance_System = ''system''"
| "encode_appearance Appearance_Light = ''light''"
| "encode_appearance Appearance_Dark = ''dark''"

definition parse_appearance :: "string \<Rightarrow> appearance_mode option" where
  "parse_appearance value =
     (if value = ''system'' then Some Appearance_System
      else if value = ''light'' then Some Appearance_Light
      else if value = ''dark'' then Some Appearance_Dark
      else None)"

fun encode_routing_preset :: "routing_preset \<Rightarrow> string" where
  "encode_routing_preset RP_Balanced = ''balanced''"
| "encode_routing_preset RP_MinimizeAiUsage = ''minimize_ai_usage''"
| "encode_routing_preset RP_MinimizeCost = ''minimize_cost''"
| "encode_routing_preset RP_PreferLocal = ''prefer_local''"
| "encode_routing_preset RP_PreferQuality = ''prefer_quality''"
| "encode_routing_preset RP_Custom = ''custom''"

definition parse_routing_preset :: "string \<Rightarrow> routing_preset option" where
  "parse_routing_preset value =
     (if value = ''balanced'' then Some RP_Balanced
      else if value = ''minimize_ai_usage'' then Some RP_MinimizeAiUsage
      else if value = ''minimize_cost'' then Some RP_MinimizeCost
      else if value = ''prefer_local'' then Some RP_PreferLocal
      else if value = ''prefer_quality'' then Some RP_PreferQuality
      else if value = ''custom'' then Some RP_Custom
      else None)"

fun encode_log_level :: "log_level \<Rightarrow> string" where
  "encode_log_level Log_Error = ''error''"
| "encode_log_level Log_Warn = ''warn''"
| "encode_log_level Log_Info = ''info''"
| "encode_log_level Log_Debug = ''debug''"

definition parse_log_level :: "string \<Rightarrow> log_level option" where
  "parse_log_level value =
     (if value = ''error'' then Some Log_Error
      else if value = ''warn'' then Some Log_Warn
      else if value = ''info'' then Some Log_Info
      else if value = ''debug'' then Some Log_Debug
      else None)"

fun encode_provider_kind :: "provider_kind \<Rightarrow> string" where
  "encode_provider_kind PK_OpenAiCompatible = ''open_ai_compatible''"
| "encode_provider_kind PK_OpenAi = ''open_ai''"
| "encode_provider_kind PK_Ollama = ''ollama''"
| "encode_provider_kind PK_LmStudio = ''lm_studio''"
| "encode_provider_kind PK_Anthropic = ''anthropic''"
| "encode_provider_kind PK_Gemini = ''gemini''"

definition parse_provider_kind :: "string \<Rightarrow> provider_kind option" where
  "parse_provider_kind value =
     (if value = ''open_ai_compatible'' then Some PK_OpenAiCompatible
      else if value = ''open_ai'' then Some PK_OpenAi
      else if value = ''ollama'' then Some PK_Ollama
      else if value = ''lm_studio'' then Some PK_LmStudio
      else if value = ''anthropic'' then Some PK_Anthropic
      else if value = ''gemini'' then Some PK_Gemini
      else None)"

fun encode_privacy_class :: "privacy_class \<Rightarrow> string" where
  "encode_privacy_class Privacy_Local = ''local''"
| "encode_privacy_class Privacy_Cloud = ''cloud''"

definition parse_privacy_class :: "string \<Rightarrow> privacy_class option" where
  "parse_privacy_class value =
     (if value = ''local'' then Some Privacy_Local
      else if value = ''cloud'' then Some Privacy_Cloud
      else None)"

fun encode_provider_status :: "provider_status \<Rightarrow> string" where
  "encode_provider_status Provider_Configured = ''configured''"
| "encode_provider_status Provider_Connected = ''connected''"
| "encode_provider_status Provider_Unavailable = ''unavailable''"
| "encode_provider_status Provider_AuthenticationFailed = ''authentication_failed''"
| "encode_provider_status Provider_RateLimited = ''rate_limited''"
| "encode_provider_status Provider_EndpointUnreachable = ''endpoint_unreachable''"
| "encode_provider_status Provider_Unsupported = ''unsupported''"

definition parse_provider_status :: "string \<Rightarrow> provider_status option" where
  "parse_provider_status value =
     (if value = ''configured'' then Some Provider_Configured
      else if value = ''connected'' then Some Provider_Connected
      else if value = ''unavailable'' then Some Provider_Unavailable
      else if value = ''authentication_failed'' then Some Provider_AuthenticationFailed
      else if value = ''rate_limited'' then Some Provider_RateLimited
      else if value = ''endpoint_unreachable'' then Some Provider_EndpointUnreachable
      else if value = ''unsupported'' then Some Provider_Unsupported
      else None)"

fun encode_ai_task :: "ai_task_type \<Rightarrow> string" where
  "encode_ai_task Task_Conversation = ''conversation''"
| "encode_ai_task Task_MemoryInterpretation = ''memory_interpretation''"
| "encode_ai_task Task_Consolidation = ''consolidation''"

definition parse_ai_task :: "string \<Rightarrow> ai_task_type option" where
  "parse_ai_task value =
     (if value = ''conversation'' then Some Task_Conversation
      else if value = ''memory_interpretation'' then Some Task_MemoryInterpretation
      else if value = ''consolidation'' then Some Task_Consolidation
      else None)"

fun encode_chat_role :: "chat_role \<Rightarrow> string" where
  "encode_chat_role Role_User = ''user''"
| "encode_chat_role Role_Assistant = ''assistant''"
| "encode_chat_role Role_System = ''system''"

definition parse_chat_role :: "string \<Rightarrow> chat_role option" where
  "parse_chat_role value =
     (if value = ''user'' then Some Role_User
      else if value = ''assistant'' then Some Role_Assistant
      else if value = ''system'' then Some Role_System
      else None)"

fun encode_chat_origin :: "chat_origin \<Rightarrow> string" where
  "encode_chat_origin Chat_User = ''user''"
| "encode_chat_origin Chat_Local = ''local''"
| "encode_chat_origin Chat_Cache = ''cache''"
| "encode_chat_origin Chat_Ai = ''ai''"
| "encode_chat_origin Chat_System = ''system''"

definition parse_chat_origin :: "string \<Rightarrow> chat_origin option" where
  "parse_chat_origin value =
     (if value = ''user'' then Some Chat_User
      else if value = ''local'' then Some Chat_Local
      else if value = ''cache'' then Some Chat_Cache
      else if value = ''ai'' then Some Chat_Ai
      else if value = ''system'' then Some Chat_System
      else None)"

fun encode_chat_route :: "chat_route \<Rightarrow> string" where
  "encode_chat_route Route_LocalCapability = ''local_capability''"
| "encode_chat_route Route_LocalMemory = ''local_memory''"
| "encode_chat_route Route_ResponseCache = ''response_cache''"
| "encode_chat_route Route_Ai = ''ai''"
| "encode_chat_route Route_Clarification = ''clarification''"
| "encode_chat_route Route_Unavailable = ''unavailable''"

definition parse_chat_route :: "string \<Rightarrow> chat_route option" where
  "parse_chat_route value =
     (if value = ''local_capability'' then Some Route_LocalCapability
      else if value = ''local_memory'' then Some Route_LocalMemory
      else if value = ''response_cache'' then Some Route_ResponseCache
      else if value = ''ai'' then Some Route_Ai
      else if value = ''clarification'' then Some Route_Clarification
      else if value = ''unavailable'' then Some Route_Unavailable
      else None)"

fun encode_activity_kind :: "activity_kind \<Rightarrow> string" where
  "encode_activity_kind AK_RequestReceived = ''request_received''"
| "encode_activity_kind AK_LocalRouteHit = ''local_route_hit''"
| "encode_activity_kind AK_LocalRouteMiss = ''local_route_miss''"
| "encode_activity_kind AK_CacheHit = ''cache_hit''"
| "encode_activity_kind AK_CacheMiss = ''cache_miss''"
| "encode_activity_kind AK_AiSelected = ''ai_selected''"
| "encode_activity_kind AK_AiCompleted = ''ai_completed''"
| "encode_activity_kind AK_AiFailed = ''ai_failed''"
| "encode_activity_kind AK_MemoryCommitted = ''memory_committed''"
| "encode_activity_kind AK_PolicyEvaluated = ''policy_evaluated''"
| "encode_activity_kind AK_ExecutionCompleted = ''execution_completed''"
| "encode_activity_kind AK_ConfirmationRequired = ''confirmation_required''"
| "encode_activity_kind AK_Error = ''error''"

definition parse_activity_kind :: "string \<Rightarrow> activity_kind option" where
  "parse_activity_kind value =
     (if value = ''request_received'' then Some AK_RequestReceived
      else if value = ''local_route_hit'' then Some AK_LocalRouteHit
      else if value = ''local_route_miss'' then Some AK_LocalRouteMiss
      else if value = ''cache_hit'' then Some AK_CacheHit
      else if value = ''cache_miss'' then Some AK_CacheMiss
      else if value = ''ai_selected'' then Some AK_AiSelected
      else if value = ''ai_completed'' then Some AK_AiCompleted
      else if value = ''ai_failed'' then Some AK_AiFailed
      else if value = ''memory_committed'' then Some AK_MemoryCommitted
      else if value = ''policy_evaluated'' then Some AK_PolicyEvaluated
      else if value = ''execution_completed'' then Some AK_ExecutionCompleted
      else if value = ''confirmation_required'' then Some AK_ConfirmationRequired
      else if value = ''error'' then Some AK_Error
      else None)"

fun encode_memory_kind :: "memory_kind \<Rightarrow> string" where
  "encode_memory_kind Semantic = ''semantic''"
| "encode_memory_kind Procedural = ''procedural''"

definition parse_memory_kind :: "string \<Rightarrow> memory_kind option" where
  "parse_memory_kind value =
     (if value = ''semantic'' then Some Semantic
      else if value = ''procedural'' then Some Procedural
      else None)"

fun encode_trust_class :: "trust_class \<Rightarrow> string" where
  "encode_trust_class TC_UserExplicit = ''user_explicit''"
| "encode_trust_class TC_LocalVerified = ''local_verified''"
| "encode_trust_class TC_UserConfirmedResult = ''user_confirmed_result''"
| "encode_trust_class TC_UserBehaviour = ''user_behaviour''"
| "encode_trust_class TC_AiInferred = ''ai_inferred''"
| "encode_trust_class TC_PluginAsserted = ''plugin_asserted''"
| "encode_trust_class TC_ExternalContent = ''external_content''"

definition parse_trust_class :: "string \<Rightarrow> trust_class option" where
  "parse_trust_class value =
     (if value = ''user_explicit'' then Some TC_UserExplicit
      else if value = ''local_verified'' then Some TC_LocalVerified
      else if value = ''user_confirmed_result'' then Some TC_UserConfirmedResult
      else if value = ''user_behaviour'' then Some TC_UserBehaviour
      else if value = ''ai_inferred'' then Some TC_AiInferred
      else if value = ''plugin_asserted'' then Some TC_PluginAsserted
      else if value = ''external_content'' then Some TC_ExternalContent
      else None)"

subsection \<open>The codecs meet the interface\<close>

interpretation appearance_codec: text_codec encode_appearance parse_appearance
proof
  show "parse_appearance (encode_appearance a) = Some a" for a
    by (cases a) (simp_all add: parse_appearance_def)
qed (auto simp: parse_appearance_def split: if_splits)

interpretation routing_preset_codec: text_codec encode_routing_preset parse_routing_preset
proof
  show "parse_routing_preset (encode_routing_preset a) = Some a" for a
    by (cases a) (simp_all add: parse_routing_preset_def)
qed (auto simp: parse_routing_preset_def split: if_splits)

interpretation log_level_codec: text_codec encode_log_level parse_log_level
proof
  show "parse_log_level (encode_log_level a) = Some a" for a
    by (cases a) (simp_all add: parse_log_level_def)
qed (auto simp: parse_log_level_def split: if_splits)

interpretation provider_kind_codec: text_codec encode_provider_kind parse_provider_kind
proof
  show "parse_provider_kind (encode_provider_kind a) = Some a" for a
    by (cases a) (simp_all add: parse_provider_kind_def)
qed (auto simp: parse_provider_kind_def split: if_splits)

interpretation privacy_class_codec: text_codec encode_privacy_class parse_privacy_class
proof
  show "parse_privacy_class (encode_privacy_class a) = Some a" for a
    by (cases a) (simp_all add: parse_privacy_class_def)
qed (auto simp: parse_privacy_class_def split: if_splits)

interpretation provider_status_codec: text_codec encode_provider_status parse_provider_status
proof
  show "parse_provider_status (encode_provider_status a) = Some a" for a
    by (cases a) (simp_all add: parse_provider_status_def)
qed (auto simp: parse_provider_status_def split: if_splits)

interpretation ai_task_codec: text_codec encode_ai_task parse_ai_task
proof
  show "parse_ai_task (encode_ai_task a) = Some a" for a
    by (cases a) (simp_all add: parse_ai_task_def)
qed (auto simp: parse_ai_task_def split: if_splits)

interpretation chat_role_codec: text_codec encode_chat_role parse_chat_role
proof
  show "parse_chat_role (encode_chat_role a) = Some a" for a
    by (cases a) (simp_all add: parse_chat_role_def)
qed (auto simp: parse_chat_role_def split: if_splits)

interpretation chat_origin_codec: text_codec encode_chat_origin parse_chat_origin
proof
  show "parse_chat_origin (encode_chat_origin a) = Some a" for a
    by (cases a) (simp_all add: parse_chat_origin_def)
qed (auto simp: parse_chat_origin_def split: if_splits)

interpretation chat_route_codec: text_codec encode_chat_route parse_chat_route
proof
  show "parse_chat_route (encode_chat_route a) = Some a" for a
    by (cases a) (simp_all add: parse_chat_route_def)
qed (auto simp: parse_chat_route_def split: if_splits)

interpretation activity_kind_codec: text_codec encode_activity_kind parse_activity_kind
proof
  show "parse_activity_kind (encode_activity_kind a) = Some a" for a
    by (cases a) (simp_all add: parse_activity_kind_def)
qed (auto simp: parse_activity_kind_def split: if_splits)

interpretation memory_kind_codec: text_codec encode_memory_kind parse_memory_kind
proof
  show "parse_memory_kind (encode_memory_kind a) = Some a" for a
    by (cases a) (simp_all add: parse_memory_kind_def)
qed (auto simp: parse_memory_kind_def split: if_splits)

interpretation trust_class_codec: text_codec encode_trust_class parse_trust_class
proof
  show "parse_trust_class (encode_trust_class a) = Some a" for a
    by (cases a) (simp_all add: parse_trust_class_def)
qed (auto simp: parse_trust_class_def split: if_splits)

section \<open>Facts\<close>

lemma default_settings_valid: "settings_validate default_settings = Inr ()"
proof -
  have "trim ''system'' \<noteq> []" by code_simp
  then show ?thesis by (simp add: settings_validate_def default_settings_def within_def)
qed

text \<open>What a validated settings record guarantees to its readers.\<close>

lemma validated_settings_bounds:
  assumes "settings_validate s = Inr ()"
  shows "as_max_model_calls_per_request s \<le> 3" "256 \<le> as_max_context_tokens s" "as_max_context_tokens s \<le> 131072"
    "64 \<le> as_max_output_tokens s" "as_max_output_tokens s \<le> 16384" "length (as_personal_instructions s) \<le> 8000"
  using assms by (auto simp: settings_validate_def within_def split: if_splits)

end
