(* ===== verification/Halquen_Memory_Store.thy ===== *)
theory Halquen_Memory_Store
  imports Halquen_Interaction Halquen_Journal
begin

text \<open>
  Persistent memory: the memory and evidence tables, \<open>persist_memory_revision\<close> with its checks and
  its transaction (\<open>crates/storage/src/sqlite.rs\<close>), and the queries on memory of
  \<open>crates/storage/src/interaction.rs\<close>. The tables refine the revision ledger of \<open>semantic.rs\<close>.
\<close>

section \<open>Tables\<close>

text \<open>
  The JSON text of a memory value, and what \<open>json_extract\<close> finds under \<open>$.key\<close> in the text of a
  preference (nothing in other texts).
\<close>

record memory_json =
  mj_value :: "memory_value \<Rightarrow> string"
  mj_parse :: "string \<Rightarrow> memory_value option"
  mj_preference_key :: "string \<Rightarrow> string option"

definition memory_json_faithful :: "memory_json \<Rightarrow> bool" where
  "memory_json_faithful MJ \<longleftrightarrow>
     (\<forall>v. mj_parse MJ (mj_value MJ v) = Some v
        \<and> mj_preference_key MJ (mj_value MJ v) = (case v of Preference key _ \<Rightarrow> Some key | _ \<Rightarrow> None))"

record memory_item_row =
  mir_id :: string
  mir_memory_kind :: string
  mir_current_revision_id :: "string option"
  mir_created_at_ms :: i64
  mir_updated_at_ms :: i64
  mir_priority_permille :: i64
  mir_confidence_permille :: i64
  mir_pinned :: bool
  mir_disabled :: bool
  mir_last_used_at_ms :: "i64 option"

record memory_revision_row =
  mrr_id :: string
  mrr_memory_id :: string
  mrr_previous_revision_id :: "string option"
  mrr_value_json :: string
  mrr_created_at_ms :: i64
  mrr_valid_from_ms :: "i64 option"
  mrr_valid_until_ms :: "i64 option"

record evidence_row =
  evd_id :: string
  evd_trust_class :: string
  evd_source_reference :: "string option"
  evd_created_at_ms :: i64

record memory_tables =
  mt_items :: "memory_item_row list"
  mt_revisions :: "memory_revision_row list"
  mt_evidence :: "evidence_row list"
  mt_links :: "(string \<times> string) list"

definition empty_memory :: memory_tables where
  "empty_memory = \<lparr>mt_items = [], mt_revisions = [], mt_evidence = [], mt_links = []\<rparr>"

section \<open>Persisting a revision\<close>

abbreviation invalid_change :: "string \<Rightarrow> (storage_error, 'a) result" where
  "invalid_change message \<equiv> Inl (InvalidMemoryChange message)"

definition check_revision :: "memory_item \<Rightarrow> memory_revision \<Rightarrow> evidence list \<Rightarrow> (storage_error, unit) result" where
  "check_revision item revision evidence =
     (if mi_id item \<noteq> mr_memory_id revision then invalid_change ''revision belongs to a different memory item''
      else if mi_current_revision_id item \<noteq> mr_id revision
      then invalid_change ''memory item does not designate the submitted revision as its new head''
      else if mi_kind item \<noteq> value_kind (mr_value revision)
      then invalid_change ''memory value does not match the declared memory kind''
      else if mi_updated_at_ms item \<noteq> mr_created_at_ms revision \<or> mi_updated_at_ms item < mi_created_at_ms item
      then invalid_change ''memory timestamps are inconsistent''
      else if mr_evidence_ids revision = [] \<or> \<not> distinct (mr_evidence_ids revision)
      then invalid_change ''revision evidence references must be non-empty and unique''
      else if \<not> distinct (map ev_id evidence) then invalid_change ''supplied evidence identifiers must be unique''
      else if list_ex (\<lambda>e. ev_id e \<notin> set (mr_evidence_ids revision)) evidence
      then invalid_change ''supplied evidence contains an identifier not referenced by the revision''
      else Inr ())"

definition new_item_row :: "memory_item \<Rightarrow> memory_item_row" where
  "new_item_row item =
     \<lparr>mir_id = mi_id item, mir_memory_kind = encode_memory_kind (mi_kind item), mir_current_revision_id = None,
      mir_created_at_ms = mi_created_at_ms item, mir_updated_at_ms = mi_updated_at_ms item,
      mir_priority_permille = 500, mir_confidence_permille = 1000, mir_pinned = False, mir_disabled = False,
      mir_last_used_at_ms = None\<rparr>"

text \<open>The head the new revision must follow; a new item is inserted without a head.\<close>

definition expected_head ::
  "memory_item \<Rightarrow> memory_revision \<Rightarrow> memory_tables \<Rightarrow> (storage_error, string option \<times> memory_tables) result" where
  "expected_head item revision m =
     (case row_of mir_id (mt_items m) (mi_id item) of
        None \<Rightarrow>
          if mr_previous_revision_id revision \<noteq> None
          then invalid_change ''the first memory revision cannot name a predecessor''
          else Inr (None, m\<lparr>mt_items := mt_items m @ [new_item_row item]\<rparr>)
      | Some row \<Rightarrow>
          if mir_memory_kind row \<noteq> encode_memory_kind (value_kind (mr_value revision))
             \<or> mi_kind item \<noteq> value_kind (mr_value revision)
          then invalid_change ''stored memory kind is authoritative and cannot be changed''
          else if mi_created_at_ms item \<noteq> mir_created_at_ms row
          then invalid_change ''stored memory creation timestamp is authoritative''
          else (case mir_current_revision_id row of
              None \<Rightarrow> invalid_change ''existing memory item has no current revision''
            | Some head \<Rightarrow>
                if mr_previous_revision_id revision \<noteq> Some head
                then invalid_change ''revision predecessor is not the current stored head''
                else (case row_of mrr_id (mt_revisions m) head of
                    None \<Rightarrow> Inl (Database_error QueryReturnedNoRows)
                  | Some owner \<Rightarrow>
                      if mrr_memory_id owner \<noteq> mi_id item
                      then invalid_change ''revision predecessor belongs to a different memory item''
                      else Inr (Some head, m))))"

definition evidence_to_row :: "evidence \<Rightarrow> evidence_row" where
  "evidence_to_row e =
     \<lparr>evd_id = ev_id e, evd_trust_class = encode_trust_class (ev_trust e),
      evd_source_reference = ev_source_reference e, evd_created_at_ms = ev_created_at_ms e\<rparr>"

definition insert_or_verify_evidence :: "evidence \<Rightarrow> memory_tables \<Rightarrow> (storage_error, memory_tables) result" where
  "insert_or_verify_evidence e m =
     (case row_of evd_id (mt_evidence m) (ev_id e) of
        None \<Rightarrow> Inr (m\<lparr>mt_evidence := mt_evidence m @ [evidence_to_row e]\<rparr>)
      | Some row \<Rightarrow>
          if (evd_trust_class row, evd_source_reference row, evd_created_at_ms row)
             \<noteq> (encode_trust_class (ev_trust e), ev_source_reference e, ev_created_at_ms e)
          then invalid_change ''evidence identifier conflicts with existing evidence''
          else Inr m)"

definition stored_trust :: "string \<Rightarrow> (storage_error, trust_class) result" where
  "stored_trust value =
     ok_or (InvalidMemoryChange ''stored evidence has an unknown trust class'') (parse_trust_class value)"

fun resolve_evidence ::
  "evidence list \<Rightarrow> evidence_id list \<Rightarrow> memory_tables \<Rightarrow> (storage_error, trust_class list \<times> memory_tables) result" where
  "resolve_evidence supplied [] m = Inr ([], m)"
| "resolve_evidence supplied (i # is) m =
     and_then
       (case find (\<lambda>e. ev_id e = i) supplied of
          Some e \<Rightarrow> and_then (insert_or_verify_evidence e m) (\<lambda>m. Inr (ev_trust e, m))
        | None \<Rightarrow>
            and_then (ok_or (InvalidMemoryChange ''revision references missing evidence'')
                (row_of evd_id (mt_evidence m) i)) (\<lambda>row.
            and_then (stored_trust (evd_trust_class row)) (\<lambda>trust. Inr (trust, m))))
       (\<lambda>(trust, m). and_then (resolve_evidence supplied is m) (\<lambda>(trusts, m). Inr (trust # trusts, m)))"

definition revision_to_row :: "memory_json \<Rightarrow> memory_revision \<Rightarrow> memory_revision_row" where
  "revision_to_row MJ r =
     \<lparr>mrr_id = mr_id r, mrr_memory_id = mr_memory_id r, mrr_previous_revision_id = mr_previous_revision_id r,
      mrr_value_json = mj_value MJ (mr_value r), mrr_created_at_ms = mr_created_at_ms r,
      mrr_valid_from_ms = mr_valid_from_ms r, mrr_valid_until_ms = mr_valid_until_ms r\<rparr>"

definition validity_check :: "memory_revision_row \<Rightarrow> bool" where
  "validity_check row =
     (case (mrr_valid_until_ms row, mrr_valid_from_ms row) of
        (Some until, Some from) \<Rightarrow> from \<le> until | _ \<Rightarrow> True)"

definition insert_revision ::
  "memory_json \<Rightarrow> memory_revision \<Rightarrow> memory_tables \<Rightarrow> (storage_error, memory_tables) result" where
  "insert_revision MJ r m =
     (if list_ex (\<lambda>row. mrr_id row = mr_id r) (mt_revisions m) \<or> \<not> validity_check (revision_to_row MJ r)
         \<or> list_ex (\<lambda>i. (mr_id r, i) \<in> set (mt_links m)) (mr_evidence_ids r)
      then Inl constraint_error
      else Inr (m\<lparr>mt_revisions := mt_revisions m @ [revision_to_row MJ r],
                  mt_links := mt_links m @ map (Pair (mr_id r)) (mr_evidence_ids r)\<rparr>))"

definition advance_head ::
  "memory_item \<Rightarrow> memory_revision \<Rightarrow> string option \<Rightarrow> memory_tables \<Rightarrow> (storage_error, memory_tables) result" where
  "advance_head item revision head m =
     (case update_rows (\<lambda>row. mir_id row = mi_id item \<and> mir_current_revision_id row = head)
             (\<lambda>row. row\<lparr>mir_current_revision_id := Some (mr_id revision), mir_updated_at_ms := mi_updated_at_ms item\<rparr>)
             (mt_items m) of
        (rows, updated) \<Rightarrow>
          if updated \<noteq> 1 then invalid_change ''memory head changed while persisting the revision''
          else Inr (m\<lparr>mt_items := rows\<rparr>))"

definition memory_audit :: "audit_id \<Rightarrow> memory_item \<Rightarrow> memory_revision \<Rightarrow> audit_record" where
  "memory_audit audit_id item revision =
     \<lparr>au_id = audit_id, au_created_at_ms = mr_created_at_ms revision,
      au_event = Ev_MemoryRevision (mi_id item) (mr_id revision)\<rparr>"

definition change_memory ::
  "memory_json \<Rightarrow> memory_item \<Rightarrow> memory_revision \<Rightarrow> evidence list \<Rightarrow> memory_tables
   \<Rightarrow> (storage_error, memory_tables) result" where
  "change_memory MJ item revision evidence m =
     and_then (check_revision item revision evidence) (\<lambda>_.
     and_then (expected_head item revision m) (\<lambda>(head, m).
     and_then (resolve_evidence evidence (mr_evidence_ids revision) m) (\<lambda>(trusts, m).
       if value_kind (mr_value revision) = Procedural
          \<and> \<not> list_ex independently_authorizes_procedural_memory trusts
       then invalid_change ''procedural memory requires referenced independent user authority''
       else and_then (insert_revision MJ revision m) (advance_head item revision head))))"

definition persist_memory_revision ::
  "memory_json \<Rightarrow> serde_json \<Rightarrow> audit_id \<Rightarrow> memory_item \<Rightarrow> memory_revision \<Rightarrow> evidence list
   \<Rightarrow> database \<times> memory_tables \<Rightarrow> (storage_error, unit) result \<times> database \<times> memory_tables" where
  "persist_memory_revision MJ J audit_id item revision evidence st =
     (let (db, m) = st; audit = memory_audit audit_id item revision in
      case and_then (change_memory MJ item revision evidence m) (\<lambda>m'.
           and_then (insert_audit J audit db) (\<lambda>db.
           and_then (insert_event_for_audit audit db) (\<lambda>db'. Inr (db', m')))) of
        Inl e \<Rightarrow> (Inl e, st)
      | Inr st' \<Rightarrow> (Inr (), st'))"

section \<open>Queries\<close>

definition opaque :: "string \<Rightarrow> (storage_error, string) result" where
  "opaque value = map_err (\<lambda>_. Database_error InvalidQuery) (OpaqueId_new value)"

definition opaque_option :: "string option \<Rightarrow> (storage_error, string option) result" where
  "opaque_option value = (case value of None \<Rightarrow> Inr None | Some v \<Rightarrow> and_then (opaque v) (\<lambda>v. Inr (Some v)))"

abbreviation invalid_query :: storage_error where
  "invalid_query \<equiv> Database_error InvalidQuery"

text \<open>\<open>ORDER BY e.created_at_ms, e.id\<close> over the evidence linked to a revision.\<close>

definition linked_evidence :: "memory_tables \<Rightarrow> memory_revision_id \<Rightarrow> evidence_row list" where
  "linked_evidence m r =
     sort_key (\<lambda>e. (evd_created_at_ms e, evd_id e))
       (filter (\<lambda>e. (r, evd_id e) \<in> set (mt_links m)) (mt_evidence m))"

definition revision_evidence ::
  "memory_tables \<Rightarrow> memory_revision_id \<Rightarrow> (storage_error, evidence_id list \<times> trust_class list) result" where
  "revision_evidence m r =
     and_then (collect_rows (\<lambda>e. and_then (opaque (evd_id e)) (\<lambda>i.
         and_then (ok_or invalid_query (parse_trust_class (evd_trust_class e))) (\<lambda>t. Inr (i, t))))
         (linked_evidence m r))
       (\<lambda>rows. Inr (map fst rows, map snd rows))"

definition memory_item_from_row :: "memory_item_row \<Rightarrow> (storage_error, memory_item) result" where
  "memory_item_from_row row =
     and_then (opaque (mir_id row)) (\<lambda>i.
     and_then (ok_or invalid_query (parse_memory_kind (mir_memory_kind row))) (\<lambda>kind.
     and_then (ok_or conversion_error (mir_current_revision_id row)) (\<lambda>current.
     and_then (opaque current) (\<lambda>current.
       Inr \<lparr>mi_id = i, mi_kind = kind, mi_current_revision_id = current,
            mi_created_at_ms = mir_created_at_ms row, mi_updated_at_ms = mir_updated_at_ms row\<rparr>))))"

text \<open>A revision of a row, with the identifiers the caller knows and its evidence looked up.\<close>

definition memory_revision_from_row ::
  "memory_json \<Rightarrow> memory_tables \<Rightarrow> memory_revision_id \<Rightarrow> memory_id \<Rightarrow> memory_revision_row
   \<Rightarrow> (storage_error, memory_revision) result" where
  "memory_revision_from_row MJ m r i row =
     and_then (opaque_option (mrr_previous_revision_id row)) (\<lambda>previous.
     and_then (ok_or invalid_query (mj_parse MJ (mrr_value_json row))) (\<lambda>v.
     and_then (revision_evidence m r) (\<lambda>(evidence, _).
       Inr \<lparr>mr_id = r, mr_memory_id = i, mr_previous_revision_id = previous, mr_value = v,
            mr_evidence_ids = evidence, mr_created_at_ms = mrr_created_at_ms row,
            mr_valid_from_ms = mrr_valid_from_ms row, mr_valid_until_ms = mrr_valid_until_ms row\<rparr>)))"

text \<open>The inner join of an item with its current revision.\<close>

definition current_revision :: "memory_tables \<Rightarrow> memory_item_row \<Rightarrow> memory_revision_row option" where
  "current_revision m row =
     (case mir_current_revision_id row of None \<Rightarrow> None | Some r \<Rightarrow> row_of mrr_id (mt_revisions m) r)"

definition head_from_rows ::
  "memory_json \<Rightarrow> memory_tables \<Rightarrow> memory_item_row \<times> memory_revision_row
   \<Rightarrow> (storage_error, memory_item \<times> memory_revision) result" where
  "head_from_rows MJ m rows =
     and_then (memory_item_from_row (fst rows)) (\<lambda>item.
     and_then (memory_revision_from_row MJ m (mi_current_revision_id item) (mi_id item) (snd rows)) (\<lambda>revision.
       Inr (item, revision)))"

definition joined_rows :: "memory_tables \<Rightarrow> (memory_item_row \<times> memory_revision_row) list" where
  "joined_rows m = List.map_filter (\<lambda>row. map_option (Pair row) (current_revision m row)) (mt_items m)"

definition optional_head ::
  "memory_json \<Rightarrow> memory_tables \<Rightarrow> (memory_item_row \<times> memory_revision_row) option
   \<Rightarrow> (storage_error, (memory_item \<times> memory_revision) option) result" where
  "optional_head MJ m rows =
     (case rows of None \<Rightarrow> Inr None | Some r \<Rightarrow> and_then (head_from_rows MJ m r) (\<lambda>head. Inr (Some head)))"

definition memory_head ::
  "memory_json \<Rightarrow> memory_tables \<Rightarrow> memory_id \<Rightarrow> (storage_error, (memory_item \<times> memory_revision) option) result" where
  "memory_head MJ m i = optional_head MJ m (find (\<lambda>(row, _). mir_id row = i) (joined_rows m))"

definition preference_by_key ::
  "memory_json \<Rightarrow> memory_tables \<Rightarrow> string \<Rightarrow> (storage_error, (memory_item \<times> memory_revision) option) result" where
  "preference_by_key MJ m key =
     optional_head MJ m (find (\<lambda>(row, revision). \<not> mir_disabled row
       \<and> mj_preference_key MJ (mrr_value_json revision) = Some key) (joined_rows m))"

definition stored_memory_revision ::
  "memory_json \<Rightarrow> memory_tables \<Rightarrow> memory_id \<Rightarrow> memory_revision_id \<Rightarrow> (storage_error, memory_revision option) result" where
  "stored_memory_revision MJ m i r =
     (case find (\<lambda>row. mrr_id row = r \<and> mrr_memory_id row = i) (mt_revisions m) of
        None \<Rightarrow> Inr None
      | Some row \<Rightarrow> and_then (memory_revision_from_row MJ m r i row) (\<lambda>revision. Inr (Some revision)))"

record memory_revision_view =
  mv_revision :: memory_revision
  mv_trust_classes :: "trust_class list"

definition memory_history ::
  "memory_json \<Rightarrow> memory_tables \<Rightarrow> memory_id \<Rightarrow> (storage_error, memory_revision_view list) result" where
  "memory_history MJ m i =
     collect_rows (\<lambda>row.
       and_then (opaque (mrr_id row)) (\<lambda>r.
       and_then (memory_revision_from_row MJ m r i row) (\<lambda>revision.
       and_then (revision_evidence m r) (\<lambda>(_, trusts).
         Inr \<lparr>mv_revision = revision, mv_trust_classes = trusts\<rparr>))))
       (sort_key (\<lambda>row. - mrr_created_at_ms row) (rev (filter (\<lambda>row. mrr_memory_id row = i) (mt_revisions m))))"

definition coalesce :: "'a option \<Rightarrow> 'a \<Rightarrow> 'a" where
  "coalesce x y = (case x of None \<Rightarrow> y | Some v \<Rightarrow> v)"

definition set_memory_state ::
  "memory_id \<Rightarrow> bool option \<Rightarrow> bool option \<Rightarrow> u16 option \<Rightarrow> memory_tables
   \<Rightarrow> (storage_error, bool) result \<times> memory_tables" where
  "set_memory_state i pinned disabled priority m =
     (if is_some_and (\<lambda>v. v > 1000) priority then (Inl (InvalidInteraction ''memory priority exceeds 1000''), m)
      else case update_rows (\<lambda>row. mir_id row = i)
             (\<lambda>row. row\<lparr>mir_pinned := coalesce pinned (mir_pinned row), mir_disabled := coalesce disabled (mir_disabled row),
                mir_priority_permille := coalesce (map_option int priority) (mir_priority_permille row)\<rparr>) (mt_items m) of
        (rows, n) \<Rightarrow> (Inr (n = 1), m\<lparr>mt_items := rows\<rparr>))"

text \<open>
  \<open>LIKE \<dots> ESCAPE '\'\<close>: the characters of pattern and text, compared without the case of ASCII
  letters. An escape character at the end of a pattern matches nothing.
\<close>

abbreviation backslash :: string where "backslash \<equiv> [CHR 0x5C]"

function sql_like :: "string list \<Rightarrow> string list \<Rightarrow> bool" where
  "sql_like [] s = (s = [])"
| "sql_like (p # ps) s =
     (if p = backslash then
        (case (ps, s) of (q # qs, c # cs) \<Rightarrow> nocase q = nocase c \<and> sql_like qs cs | _ \<Rightarrow> False)
      else if p = ''%'' then
        sql_like ps s \<or> (case s of [] \<Rightarrow> False | c # cs \<Rightarrow> sql_like (p # ps) cs)
      else (case s of [] \<Rightarrow> False | c # cs \<Rightarrow> (p = ''_'' \<or> nocase p = nocase c) \<and> sql_like ps cs))"
  by pat_completeness auto
termination by (relation "measure (\<lambda>(p, s). length p + length s)") auto

definition search_pattern :: "string \<Rightarrow> string" where
  "search_pattern text = ''%'' @ concat (map (\<lambda>c. if c = CHR ''%'' then backslash @ ''%'' else [c]) text) @ ''%''"

definition text_matches :: "string option \<Rightarrow> string \<Rightarrow> bool" where
  "text_matches search text =
     (case search of None \<Rightarrow> True | Some value \<Rightarrow> sql_like (sql_chars (search_pattern value)) (sql_chars text))"

definition get_u16 :: "i64 \<Rightarrow> (storage_error, u16) result" where
  "get_u16 value = (if 0 \<le> value \<and> value \<le> 65535 then Inr (nat value) else Inl conversion_error)"

record memory_view =
  mw_item :: memory_item
  mw_current :: memory_revision
  mw_evidence_count :: u64
  mw_trust_classes :: "trust_class list"
  mw_priority_permille :: u16
  mw_confidence_permille :: u16
  mw_pinned :: bool
  mw_disabled :: bool
  mw_last_used_at_ms :: "i64 option"

definition memory_view_from_rows ::
  "memory_json \<Rightarrow> memory_tables \<Rightarrow> memory_item_row \<times> memory_revision_row \<Rightarrow> (storage_error, memory_view) result" where
  "memory_view_from_rows MJ m rows =
     and_then (head_from_rows MJ m rows) (\<lambda>(item, revision).
     and_then (get_u16 (mir_priority_permille (fst rows))) (\<lambda>priority.
     and_then (get_u16 (mir_confidence_permille (fst rows))) (\<lambda>confidence.
     and_then (revision_evidence m (mr_id revision)) (\<lambda>(_, trusts).
       Inr \<lparr>mw_item = item, mw_current = revision,
            mw_evidence_count = length (filter (\<lambda>l. fst l = mrr_id (snd rows)) (mt_links m)),
            mw_trust_classes = trusts, mw_priority_permille = priority, mw_confidence_permille = confidence,
            mw_pinned = mir_pinned (fst rows), mw_disabled = mir_disabled (fst rows),
            mw_last_used_at_ms = mir_last_used_at_ms (fst rows)\<rparr>))))"

definition list_memory ::
  "memory_json \<Rightarrow> memory_tables \<Rightarrow> memory_kind option \<Rightarrow> string option \<Rightarrow> u16
   \<Rightarrow> (storage_error, memory_view list) result" where
  "list_memory MJ m kind search limit =
     collect_rows (memory_view_from_rows MJ m)
       (take (max 1 (min 500 limit))
         (sort_key (\<lambda>(row, _). (\<not> mir_pinned row, - mir_priority_permille row, - mir_updated_at_ms row))
           (filter (\<lambda>(row, revision). is_none_or (\<lambda>k. mir_memory_kind row = encode_memory_kind k) kind
              \<and> (search = None \<or> text_matches search (mrr_value_json revision) \<or> text_matches search (mir_id row)))
             (joined_rows m))))"

definition memory_stats :: "memory_tables \<Rightarrow> nat \<times> nat \<times> nat" where
  "memory_stats m = (length (mt_items m), length (mt_revisions m), length (mt_evidence m))"

section \<open>The tables refine the ledger\<close>

definition item_matches :: "memory_item_row \<Rightarrow> memory_item \<Rightarrow> bool" where
  "item_matches row item \<longleftrightarrow>
     mir_id row = mi_id item \<and> mir_memory_kind row = encode_memory_kind (mi_kind item)
     \<and> mir_current_revision_id row = Some (mi_current_revision_id item)
     \<and> mir_created_at_ms row = mi_created_at_ms item \<and> mir_updated_at_ms row = mi_updated_at_ms item"

definition links_of :: "memory_tables \<Rightarrow> memory_revision_id \<Rightarrow> evidence_id list" where
  "links_of m r = map snd (filter (\<lambda>l. fst l = r) (mt_links m))"

definition revision_matches :: "memory_json \<Rightarrow> memory_tables \<Rightarrow> memory_revision_row \<Rightarrow> memory_revision \<Rightarrow> bool" where
  "revision_matches MJ m row r \<longleftrightarrow> row = revision_to_row MJ r \<and> links_of m (mr_id r) = mr_evidence_ids r"

text \<open>A store represents a ledger: the same items with the same heads and the same revisions.\<close>

definition represents :: "memory_json \<Rightarrow> memory_tables \<Rightarrow> memory_ledger \<Rightarrow> bool" where
  "represents MJ m l \<longleftrightarrow>
     (\<forall>i. rel_option item_matches (row_of mir_id (mt_items m) i) (ledger_item l i))
     \<and> (\<forall>r. rel_option (revision_matches MJ m) (row_of mrr_id (mt_revisions m) r) (ledger_revision l r))
     \<and> distinct (map mir_id (mt_items m))
     \<and> fst ` set (mt_links m) \<subseteq> mrr_id ` set (mt_revisions m)"

definition ledger_extend :: "memory_item \<Rightarrow> memory_revision \<Rightarrow> memory_ledger \<Rightarrow> memory_ledger" where
  "ledger_extend item r l =
     l\<lparr>ml_revisions := bt_insert (mr_id r) r (ml_revisions l), ml_items := bt_insert (mi_id item) item (ml_items l)\<rparr>"

definition follows :: "memory_item \<Rightarrow> memory_revision \<Rightarrow> memory_ledger \<Rightarrow> bool" where
  "follows item r l \<longleftrightarrow>
     mr_memory_id r = mi_id item \<and> mi_current_revision_id item = mr_id r \<and> mi_kind item = value_kind (mr_value r)
     \<and> mr_evidence_ids r \<noteq> [] \<and> ledger_revision l (mr_id r) = None
     \<and> (case ledger_item l (mi_id item) of
          None \<Rightarrow> mr_previous_revision_id r = None
        | Some old \<Rightarrow> mr_previous_revision_id r = Some (mi_current_revision_id old) \<and> mi_kind old = mi_kind item
            \<and> mi_created_at_ms old = mi_created_at_ms item)"

lemma ledger_invar_extend:
  assumes inv: "ledger_invar l" and step: "follows item r l"
  shows "ledger_invar (ledger_extend item r l)"
proof -
  let ?l = "ledger_extend item r l"
  have l': "?l = l\<lparr>ml_revisions := bt_insert (mr_id r) r (ml_revisions l), ml_items := bt_insert (mi_id item) item (ml_items l)\<rparr>"
    by (simp add: ledger_extend_def)
  from step have fresh: "ledger_revision l (mr_id r) = None" by (simp add: follows_def)
  note revs = item_revisions_insert [OF ledger_lookup_insert(1) [OF l'] refl fresh]
  have "\<exists>h. history ?l item h"
  proof (cases "ledger_item l (mi_id item)")
    case None
    then have "item_revisions l (mi_id item) = {}"
      using ledger_invarD(2) [OF inv] by (fastforce simp: item_revisions_def)
    then have "history ?l item [r]" using step None by (simp add: history_def revs follows_def)
    then show ?thesis ..
  next
    case (Some old)
    then obtain h where h: "history l old h" and i: "mi_id old = mi_id item" using ledger_invarD [OF inv] by blast
    have "mr_id r \<notin> mr_id ` set h" using h fresh by (auto simp: history_def item_revisions_def)
    moreover have "linked (r # h)" using h step Some by (cases h) (auto simp: history_def follows_def)
    ultimately have "history ?l item (r # h)" using h step Some i by (simp add: history_def revs follows_def)
    then show ?thesis ..
  qed
  then show ?thesis using step by (intro ledger_invar_insert [OF inv l' fresh]) (auto simp: follows_def)
qed

lemma resolve_frame:
  "resolve_evidence supplied is m = Inr (trusts, m') \<Longrightarrow>
   mt_items m' = mt_items m \<and> mt_revisions m' = mt_revisions m \<and> mt_links m' = mt_links m"
proof (induction "is" arbitrary: m trusts)
  case (Cons i "is")
  then show ?case
    by (auto simp: and_then_Inr_iff insert_or_verify_evidence_def split: option.splits if_splits) (metis+)?
qed simp

lemma row_of_snoc: "row_of key (xs @ [x]) k = (case row_of key xs k of None \<Rightarrow> if key x = k then Some x else None | Some y \<Rightarrow> Some y)"
  unfolding row_of_def by (induction xs) auto

lemma row_of_None: "row_of key xs k = None \<longleftrightarrow> k \<notin> key ` set xs"
  by (auto simp: row_of_def find_None_iff)

lemma row_of_update:
  assumes "\<And>x. key (f x) = key x"
  shows "row_of key (map (\<lambda>x. if key x = k \<and> P x then f x else x) xs) j
    = (case row_of key xs j of None \<Rightarrow> None | Some x \<Rightarrow> Some (if j = k \<and> P x then f x else x))"
  unfolding row_of_def by (induction xs) (auto simp: assms)

lemma row_of_key: "row_of key xs k = Some x \<Longrightarrow> key x = k"
  by (auto simp: row_of_def find_Some_iff)

lemma row_of_in_set: "row_of key xs k = Some x \<Longrightarrow> x \<in> set xs"
  by (auto simp: row_of_def find_Some_iff)

lemma change_memory_ok:
  assumes "change_memory MJ item r evidence m = Inr m'"
  obtains head m1 trusts m2 m3 where "check_revision item r evidence = Inr ()"
    "expected_head item r m = Inr (head, m1)" "resolve_evidence evidence (mr_evidence_ids r) m1 = Inr (trusts, m2)"
    "value_kind (mr_value r) = Procedural \<longrightarrow> list_ex independently_authorizes_procedural_memory trusts"
    "insert_revision MJ r m2 = Inr m3" "advance_head item r head m3 = Inr m'"
  using assms by (auto simp: change_memory_def and_then_Inr_iff split: if_splits)

lemma check_revision_ok:
  assumes "check_revision item r evidence = Inr ()"
  shows "mr_memory_id r = mi_id item" "mi_current_revision_id item = mr_id r" "mi_kind item = value_kind (mr_value r)"
    "mr_evidence_ids r \<noteq> []" "distinct (mr_evidence_ids r)"
  using assms by (auto simp: check_revision_def split: if_splits)

text \<open>The items after the head was checked and advanced.\<close>

lemma head_items:
  assumes head: "expected_head item r m = Inr (head, m1)" and advance: "advance_head item r head m3 = Inr m'"
    and same: "mt_items m3 = mt_items m1" and kinds: "mi_kind item = value_kind (mr_value r)"
  shows "row_of mir_id (mt_items m') j = (if j = mi_id item
      then map_option (\<lambda>row. row\<lparr>mir_current_revision_id := Some (mr_id r), mir_updated_at_ms := mi_updated_at_ms item\<rparr>)
        (case row_of mir_id (mt_items m) j of None \<Rightarrow> Some (new_item_row item) | Some row \<Rightarrow> Some row)
      else row_of mir_id (mt_items m) j)"
    and "distinct (map mir_id (mt_items m)) \<Longrightarrow> distinct (map mir_id (mt_items m'))"
    and "case row_of mir_id (mt_items m) (mi_id item) of None \<Rightarrow> mr_previous_revision_id r = None
      | Some row \<Rightarrow> mir_memory_kind row = encode_memory_kind (mi_kind item) \<and> mir_created_at_ms row = mi_created_at_ms item
          \<and> mir_current_revision_id row \<noteq> None \<and> mr_previous_revision_id r = mir_current_revision_id row"
    and "mt_revisions m1 = mt_revisions m" "mt_links m1 = mt_links m" "mt_evidence m1 = mt_evidence m"
proof -
  let ?f = "\<lambda>row. row\<lparr>mir_current_revision_id := Some (mr_id r), mir_updated_at_ms := mi_updated_at_ms item\<rparr>"
  from advance have items: "mt_items m' = map (\<lambda>row. if mir_id row = mi_id item \<and> mir_current_revision_id row = head
      then ?f row else row) (mt_items m1)"
    by (auto simp: advance_head_def update_rows_def same split: if_splits)
  have cases: "row_of mir_id (mt_items m) (mi_id item) = None \<and> head = None \<and> mr_previous_revision_id r = None
      \<and> m1 = m\<lparr>mt_items := mt_items m @ [new_item_row item]\<rparr>
    \<or> (\<exists>row h. row_of mir_id (mt_items m) (mi_id item) = Some row \<and> m1 = m \<and> head = Some h
      \<and> mir_memory_kind row = encode_memory_kind (mi_kind item) \<and> mir_created_at_ms row = mi_created_at_ms item
      \<and> mir_current_revision_id row = Some h \<and> mr_previous_revision_id r = Some h)"
    using head kinds by (auto simp: expected_head_def split: option.splits if_splits)
  note key = row_of_update [of mir_id ?f "mi_id item" "\<lambda>row. mir_current_revision_id row = head" "mt_items m1"]
  show "row_of mir_id (mt_items m') j = (if j = mi_id item
      then map_option ?f (case row_of mir_id (mt_items m) j of None \<Rightarrow> Some (new_item_row item) | Some row \<Rightarrow> Some row)
      else row_of mir_id (mt_items m) j)"
    using cases by (auto simp: items key row_of_snoc new_item_row_def split: option.splits)
  show "distinct (map mir_id (mt_items m)) \<Longrightarrow> distinct (map mir_id (mt_items m'))"
  proof -
    assume "distinct (map mir_id (mt_items m))"
    moreover have "map mir_id (mt_items m') = map mir_id (mt_items m1)" by (simp add: items)
    ultimately show ?thesis using cases by (auto simp: row_of_None new_item_row_def simp del: map_map)
  qed
  show "case row_of mir_id (mt_items m) (mi_id item) of None \<Rightarrow> mr_previous_revision_id r = None
      | Some row \<Rightarrow> mir_memory_kind row = encode_memory_kind (mi_kind item) \<and> mir_created_at_ms row = mi_created_at_ms item
          \<and> mir_current_revision_id row \<noteq> None \<and> mr_previous_revision_id r = mir_current_revision_id row"
    "mt_revisions m1 = mt_revisions m" "mt_links m1 = mt_links m" "mt_evidence m1 = mt_evidence m"
    using cases by auto
qed

lemma insert_revision_ok:
  assumes "insert_revision MJ r m = Inr m'"
  shows "mr_id r \<notin> mrr_id ` set (mt_revisions m)" "mt_revisions m' = mt_revisions m @ [revision_to_row MJ r]"
    "mt_links m' = mt_links m @ map (Pair (mr_id r)) (mr_evidence_ids r)" "mt_items m' = mt_items m"
    "mt_evidence m' = mt_evidence m"
  using assms by (auto simp: insert_revision_def list_ex_iff split: if_splits)

lemma advance_head_frame:
  assumes "advance_head item r head m = Inr m'"
  shows "mt_revisions m' = mt_revisions m" "mt_links m' = mt_links m" "mt_evidence m' = mt_evidence m"
  using assms by (auto simp: advance_head_def split: prod.splits if_splits)

text \<open>A persisted change extends the represented ledger by exactly this revision.\<close>

lemma change_memory_extends:
  assumes change: "change_memory MJ item r evidence m = Inr m'" and rep: "represents MJ m l"
  shows "follows item r l" "represents MJ m' (ledger_extend item r l)"
proof -
  from change obtain head m1 trusts m2 m3 where check: "check_revision item r evidence = Inr ()"
    and head: "expected_head item r m = Inr (head, m1)"
    and resolve: "resolve_evidence evidence (mr_evidence_ids r) m1 = Inr (trusts, m2)"
    and ins: "insert_revision MJ r m2 = Inr m3" and advance: "advance_head item r head m3 = Inr m'"
    by (rule change_memory_ok)
  note ok = check_revision_ok [OF check] and frame = resolve_frame [OF resolve]
  note new = insert_revision_ok [OF ins] and adv = advance_head_frame [OF advance]
  note items = head_items [OF head advance _ ok(3)]
  have same: "mt_items m3 = mt_items m1" using new(4) frame by simp
  have look: "ledger_revision (ledger_extend item r l) = (ledger_revision l)(mr_id r \<mapsto> r)"
    "ledger_item (ledger_extend item r l) = (ledger_item l)(mi_id item \<mapsto> item)"
    by (rule ledger_lookup_insert, simp add: ledger_extend_def)+
  have old: "mt_revisions m2 = mt_revisions m" "mt_links m2 = mt_links m" using frame items(4,5) [OF same] by simp_all
  have "mr_id r \<notin> mrr_id ` set (mt_revisions m)" using new(1) old by simp
  then have absent: "row_of mrr_id (mt_revisions m) (mr_id r) = None" by (simp add: row_of_None)
  moreover have "mr_id r \<notin> fst ` set (mt_links m)"
    using rep \<open>mr_id r \<notin> mrr_id ` set (mt_revisions m)\<close> by (auto simp: represents_def)
  then have "links_of m (mr_id r) = []" by (force simp: links_of_def filter_empty_conv)
  ultimately have fresh: "ledger_revision l (mr_id r) = None" "links_of m (mr_id r) = []"
    using rep unfolding represents_def by (metis option.rel_distinct(1) option.exhaust, blast)
  have matched: "rel_option item_matches (row_of mir_id (mt_items m) (mi_id item)) (ledger_item l (mi_id item))"
    using rep by (simp add: represents_def)
  show "follows item r l"
    using items(3) [OF same] matched fresh(1) ok
    by (auto simp: follows_def item_matches_def memory_kind_codec.encode_inject split: option.splits)
  have links: "links_of m' j = (if j = mr_id r then mr_evidence_ids r else links_of m j)" for j
    using fresh(2) by (auto simp: links_of_def adv new(3) old comp_def)
  have lookup: "row_of mrr_id (mt_revisions m') j = (if j = mr_id r then Some (revision_to_row MJ r)
      else row_of mrr_id (mt_revisions m) j)" for j
    using absent by (auto simp: adv new(2) old row_of_snoc revision_to_row_def split: option.splits)
  have "rel_option (revision_matches MJ m') (row_of mrr_id (mt_revisions m') j) (ledger_revision (ledger_extend item r l) j)" for j
  proof (cases "j = mr_id r")
    case True
    then show ?thesis by (simp add: lookup look revision_matches_def links)
  next
    case False
    moreover have "rel_option (revision_matches MJ m) (row_of mrr_id (mt_revisions m) j) (ledger_revision l j)"
      using rep by (simp add: represents_def)
    ultimately show ?thesis
      by (auto simp: lookup look revision_matches_def links revision_to_row_def elim!: option.rel_mono_strong
          dest: row_of_key)
  qed
  moreover have "rel_option item_matches (row_of mir_id (mt_items m') j) (ledger_item (ledger_extend item r l) j)" for j
  proof (cases "j = mi_id item")
    case True
    then show ?thesis using items(3) [OF same] ok(2)
      by (auto simp: items(1) [OF same] look item_matches_def new_item_row_def split: option.splits dest: row_of_key)
  next
    case False
    then show ?thesis using rep by (simp add: items(1) [OF same] look represents_def)
  qed
  moreover have "distinct (map mir_id (mt_items m'))" using items(2) [OF same] rep by (simp add: represents_def)
  moreover have "fst ` set (mt_links m') \<subseteq> mrr_id ` set (mt_revisions m')"
    using rep by (auto simp: represents_def adv new old revision_to_row_def)
  ultimately show "represents MJ m' (ledger_extend item r l)" by (simp add: represents_def)
qed

lemma row_of_map_key: "(\<And>x. key (f x) = key x) \<Longrightarrow> row_of key (map f xs) k = map_option f (row_of key xs k)"
  unfolding row_of_def by (induction xs) auto

lemma represents_empty: "represents MJ empty_memory MemoryLedger_new"
  by (simp add: represents_def empty_memory_def MemoryLedger_new_def row_of_def ledger_item_def ledger_revision_def bt.get_empty)

lemma represents_state:
  assumes "represents MJ m l"
  shows "represents MJ (snd (set_memory_state i pinned disabled priority m)) l"
proof (cases "is_some_and (\<lambda>v. v > 1000) priority")
  case True
  then show ?thesis using assms by (simp add: set_memory_state_def)
next
  case False
  let ?f = "\<lambda>row. row\<lparr>mir_pinned := coalesce pinned (mir_pinned row), mir_disabled := coalesce disabled (mir_disabled row),
     mir_priority_permille := coalesce (map_option int priority) (mir_priority_permille row)\<rparr>"
  let ?rows = "map (\<lambda>row. if mir_id row = i then ?f row else row) (mt_items m)"
  have m': "snd (set_memory_state i pinned disabled priority m) = m\<lparr>mt_items := ?rows\<rparr>"
    using False by (simp add: set_memory_state_def update_rows_def)
  have "row_of mir_id ?rows j = map_option (\<lambda>row. if mir_id row = i then ?f row else row) (row_of mir_id (mt_items m) j)" for j
    by (rule row_of_map_key) simp
  moreover have "map mir_id ?rows = map mir_id (mt_items m)" by simp
  moreover have "(\<lambda>row. item_matches (if mir_id row = i then ?f row else row)) = item_matches"
    by (simp add: item_matches_def fun_eq_iff)
  moreover have "revision_matches MJ (m\<lparr>mt_items := rows\<rparr>) = revision_matches MJ m" for rows
    by (simp add: revision_matches_def links_of_def fun_eq_iff)
  ultimately show ?thesis
    using assms unfolding represents_def m' by (simp add: option.rel_map del: map_map)
qed

section \<open>Reachable stores\<close>

inductive store_reachable :: "memory_json \<Rightarrow> serde_json \<Rightarrow> memory_tables \<Rightarrow> bool" for MJ J where
  empty: "store_reachable MJ J empty_memory"
| persist: "store_reachable MJ J m \<Longrightarrow>
    persist_memory_revision MJ J audit_id item r evidence (db, m) = (result, db', m') \<Longrightarrow> store_reachable MJ J m'"
| state: "store_reachable MJ J m \<Longrightarrow> store_reachable MJ J (snd (set_memory_state i pinned disabled priority m))"

lemma persist_cases:
  assumes "persist_memory_revision MJ J audit_id item r evidence (db, m) = (result, db', m')"
  obtains (failed) e where "result = Inl e" "db' = db" "m' = m"
  | (changed) "result = Inr ()" "change_memory MJ item r evidence m = Inr m'"
      "append_audit J (memory_audit audit_id item r) db = (Inr (), db')"
  using assms
  by (auto simp: persist_memory_revision_def Let_def and_then_Inr_iff append_audit_def commit_def split: sum.splits)

definition user_authority :: "string \<Rightarrow> bool" where
  "user_authority trust \<longleftrightarrow> trust \<in> {encode_trust_class TC_UserExplicit, encode_trust_class TC_UserConfirmedResult}"

lemma user_authority_parse:
  "parse_trust_class s = Some t \<Longrightarrow> independently_authorizes_procedural_memory t \<Longrightarrow> user_authority s"
  by (cases t) (auto simp: user_authority_def independently_authorizes_procedural_memory_def trust_class_codec.parse_Some_iff)

definition authorized_revision :: "memory_tables \<Rightarrow> memory_revision_id \<Rightarrow> bool" where
  "authorized_revision m r \<longleftrightarrow>
     (\<exists>i row. (r, i) \<in> set (mt_links m) \<and> row_of evd_id (mt_evidence m) i = Some row \<and> user_authority (evd_trust_class row))"

definition procedures_authorized :: "memory_json \<Rightarrow> memory_tables \<Rightarrow> bool" where
  "procedures_authorized MJ m \<longleftrightarrow>
     (\<forall>row \<in> set (mt_revisions m). \<forall>v. mj_parse MJ (mrr_value_json row) = Some v \<and> value_kind v = Procedural
        \<longrightarrow> authorized_revision m (mrr_id row))"

lemma resolve_trusts:
  "resolve_evidence supplied is m = Inr (trusts, m') \<Longrightarrow>
   list_all2 (\<lambda>i t. \<exists>row. row_of evd_id (mt_evidence m') i = Some row \<and> parse_trust_class (evd_trust_class row) = Some t) is trusts
   \<and> (\<forall>i row. row_of evd_id (mt_evidence m) i = Some row \<longrightarrow> row_of evd_id (mt_evidence m') i = Some row)"
proof (induction "is" arbitrary: m trusts)
  case (Cons i "is")
  from Cons.prems obtain t ts m1 where trusts: "trusts = t # ts" and rest: "resolve_evidence supplied is m1 = Inr (ts, m')"
    and first: "(case find (\<lambda>e. ev_id e = i) supplied of
          Some e \<Rightarrow> and_then (insert_or_verify_evidence e m) (\<lambda>m. Inr (ev_trust e, m))
        | None \<Rightarrow> and_then (ok_or (InvalidMemoryChange ''revision references missing evidence'')
                (row_of evd_id (mt_evidence m) i)) (\<lambda>row.
            and_then (stored_trust (evd_trust_class row)) (\<lambda>trust. Inr (trust, m)))) = Inr (t, m1)"
    by (auto simp: and_then_Inr_iff)
  note IH = Cons.IH [OF rest]
  have "\<exists>row. row_of evd_id (mt_evidence m1) i = Some row \<and> parse_trust_class (evd_trust_class row) = Some t"
  proof (cases "find (\<lambda>e. ev_id e = i) supplied")
    case None
    then show ?thesis using first by (auto simp: and_then_Inr_iff stored_trust_def)
  next
    case (Some e)
    then have "ev_id e = i" by (auto simp: find_Some_iff)
    then show ?thesis using first Some
      by (auto simp: and_then_Inr_iff insert_or_verify_evidence_def row_of_snoc evidence_to_row_def
          trust_class_codec.parse_encode split: option.splits if_splits)
  qed
  moreover have "row_of evd_id (mt_evidence m1) j = Some row" if "row_of evd_id (mt_evidence m) j = Some row" for j row
    using first that by (auto simp: and_then_Inr_iff insert_or_verify_evidence_def row_of_snoc split: option.splits if_splits)
  ultimately show ?case using IH by (auto simp: trusts)
qed simp

lemma change_memory_authorized:
  assumes change: "change_memory MJ item r evidence m = Inr m'" and json: "memory_json_faithful MJ"
    and old: "procedures_authorized MJ m"
  shows "procedures_authorized MJ m'"
proof -
  from change obtain head m1 trusts m2 m3 where check: "check_revision item r evidence = Inr ()"
    and head: "expected_head item r m = Inr (head, m1)"
    and resolve: "resolve_evidence evidence (mr_evidence_ids r) m1 = Inr (trusts, m2)"
    and authority: "value_kind (mr_value r) = Procedural \<longrightarrow> list_ex independently_authorizes_procedural_memory trusts"
    and ins: "insert_revision MJ r m2 = Inr m3" and advance: "advance_head item r head m3 = Inr m'"
    by (rule change_memory_ok)
  note new = insert_revision_ok [OF ins] and adv = advance_head_frame [OF advance] and frame = resolve_frame [OF resolve]
  note trust = resolve_trusts [OF resolve]
  have same: "mt_revisions m1 = mt_revisions m" "mt_links m1 = mt_links m" "mt_evidence m1 = mt_evidence m"
    using head_items(4-6) [OF head advance _ check_revision_ok(3) [OF check]] new(4) frame by simp_all
  have kept: "authorized_revision m' x" if "authorized_revision m x" for x
  proof -
    from that obtain i row where "(x, i) \<in> set (mt_links m)" "row_of evd_id (mt_evidence m) i = Some row"
      "user_authority (evd_trust_class row)" unfolding authorized_revision_def by blast
    moreover from this have "row_of evd_id (mt_evidence m') i = Some row" using trust same(3) adv(3) new(5) by simp
    moreover have "set (mt_links m) \<subseteq> set (mt_links m')" using adv(2) new(3) frame same(2) by simp
    ultimately show ?thesis unfolding authorized_revision_def by blast
  qed
  have "authorized_revision m' (mr_id r)" if proc: "value_kind (mr_value r) = Procedural"
  proof -
    from authority proc obtain t where t: "t \<in> set trusts" "independently_authorizes_procedural_memory t"
      by (auto simp: list_ex_iff)
    from t(1) obtain k where k: "k < length trusts" "t = trusts ! k" by (auto simp: in_set_conv_nth)
    let ?i = "mr_evidence_ids r ! k"
    have "?i \<in> set (mr_evidence_ids r)"
      "\<exists>row. row_of evd_id (mt_evidence m2) ?i = Some row \<and> parse_trust_class (evd_trust_class row) = Some t"
      using trust k by (auto simp: list_all2_conv_all_nth)
    then show ?thesis using t(2) by (auto simp: authorized_revision_def adv new dest: user_authority_parse)
  qed
  moreover have "mj_parse MJ (mj_value MJ (mr_value r)) = Some (mr_value r)" using json by (simp add: memory_json_faithful_def)
  ultimately show ?thesis
    using old kept unfolding procedures_authorized_def by (auto simp: adv new same frame revision_to_row_def)
qed

lemma store_represents:
  assumes "store_reachable MJ J m"
  shows "\<exists>l. represents MJ m l \<and> ledger_invar l"
  using assms
proof (induction rule: store_reachable.induct)
  case empty
  then show ?case using represents_empty ledger_invar_reachable [OF ledger_reachable.new] by blast
next
  case (persist m audit_id item r evidence db result db' m')
  then obtain l where l: "represents MJ m l" "ledger_invar l" by blast
  from persist(2) show ?case
    by (cases rule: persist_cases) (use l change_memory_extends [OF _ l(1)] ledger_invar_extend [OF l(2)] in blast)+
next
  case (state m i pinned disabled priority)
  then show ?case using represents_state by blast
qed

lemma store_authorized:
  assumes "store_reachable MJ J m" and "memory_json_faithful MJ"
  shows "procedures_authorized MJ m"
  using assms(1)
proof (induction rule: store_reachable.induct)
  case empty
  then show ?case by (simp add: procedures_authorized_def empty_memory_def)
next
  case (persist m audit_id item r evidence db result db' m')
  from persist(2) show ?case
    by (cases rule: persist_cases) (use persist.IH change_memory_authorized [OF _ assms(2)] in auto)
next
  case (state m i pinned disabled priority)
  then show ?case
    by (auto simp: procedures_authorized_def authorized_revision_def set_memory_state_def split: prod.splits)
qed

section \<open>Properties\<close>

text \<open>
  C23. The memory tables refine the revision ledger: every store that persisting and re-prioritising
  can build represents a ledger in which every memory has one linear history, and each further
  successful persist extends this ledger by exactly the submitted revision as the new head of its item,
  after the head that was stored.
\<close>

theorem memory_store_refines_ledger:
  assumes "store_reachable MJ J m"
  shows "\<exists>l. represents MJ m l \<and> (\<forall>i item. ledger_item l i = Some item \<longrightarrow> (\<exists>h. history l item h))
    \<and> (\<forall>audit_id item r evidence db db' m'.
         persist_memory_revision MJ J audit_id item r evidence (db, m) = (Inr (), db', m')
         \<longrightarrow> follows item r l \<and> represents MJ m' (ledger_extend item r l))"
proof -
  obtain l where l: "represents MJ m l" "ledger_invar l" using store_represents [OF assms] by blast
  moreover have "follows item r l \<and> represents MJ m' (ledger_extend item r l)"
    if "persist_memory_revision MJ J audit_id item r evidence (db, m) = (Inr (), db', m')"
    for audit_id item r evidence db db' m'
    using that by (cases rule: persist_cases) (auto dest: change_memory_extends [OF _ l(1)])
  ultimately show ?thesis using ledger_invarD(4) [OF l(2)] by blast
qed

text \<open>
  C22. No untrusted text becomes a procedure: every stored revision of a procedure is linked to
  stored evidence of explicit or confirmed user authority, in every store that can be built.
\<close>

theorem stored_procedures_have_user_authority:
  assumes "store_reachable MJ J m" and "memory_json_faithful MJ" and "row \<in> set (mt_revisions m)"
    and "mj_parse MJ (mrr_value_json row) = Some v" and "value_kind v = Procedural"
  shows "\<exists>i e. (mrr_id row, i) \<in> set (mt_links m) \<and> e \<in> set (mt_evidence m) \<and> evd_id e = i
    \<and> evd_trust_class e \<in> {''user_explicit'', ''user_confirmed_result''}"
proof -
  from store_authorized [OF assms(1,2)] assms(3-5) have "authorized_revision m (mrr_id row)"
    by (auto simp: procedures_authorized_def)
  then show ?thesis
    by (auto simp: authorized_revision_def user_authority_def) (metis row_of_in_set row_of_key)+
qed

fun value_texts :: "memory_value \<Rightarrow> string list" where
  "value_texts (Fact a b c) = [''fact'', a, b, c]"
| "value_texts (Relation a b c) = [''relation'', a, b, c]"
| "value_texts (Preference a b) = [''preference'', a, b]"
| "value_texts (Procedure a steps) = ''procedure'' # a # steps"

fun texts_value :: "string list \<Rightarrow> memory_value option" where
  "texts_value (kind # a # rest) =
     (if kind = ''procedure'' then Some (Procedure a rest)
      else if kind = ''preference'' then Some (Preference a (hd rest))
      else if kind = ''fact'' then Some (Fact a (hd rest) (hd (tl rest)))
      else Some (Relation a (hd rest) (hd (tl rest))))"
| "texts_value _ = None"

definition plain_memory_json :: memory_json where
  "plain_memory_json =
     \<lparr>mj_value = (\<lambda>v. plain_texts (value_texts v)),
      mj_parse = (\<lambda>t. Option.bind (plain_parse [] t) texts_value),
      mj_preference_key = (\<lambda>t. case Option.bind (plain_parse [] t) texts_value of
         Some (Preference key _) \<Rightarrow> Some key | _ \<Rightarrow> None)\<rparr>"

lemma plain_memory_json_faithful: "memory_json_faithful plain_memory_json"
proof -
  have "texts_value (value_texts v) = Some v" for v by (cases v) simp_all
  then show ?thesis by (simp add: memory_json_faithful_def plain_memory_json_def plain_parse_texts split: memory_value.splits)
qed

definition example_procedure :: memory_revision where
  "example_procedure =
     \<lparr>mr_id = ''rev:1'', mr_memory_id = ''memory:1'', mr_previous_revision_id = None,
      mr_value = Procedure ''tidy'' [''system.open_app''], mr_evidence_ids = [''evidence:1''],
      mr_created_at_ms = 10, mr_valid_from_ms = Some 10, mr_valid_until_ms = None\<rparr>"

definition example_item :: memory_item where
  "example_item = \<lparr>mi_id = ''memory:1'', mi_kind = Procedural, mi_current_revision_id = ''rev:1'',
     mi_created_at_ms = 10, mi_updated_at_ms = 10\<rparr>"

definition example_evidence :: evidence where
  "example_evidence = \<lparr>ev_id = ''evidence:1'', ev_trust = TC_UserExplicit, ev_source_reference = None, ev_created_at_ms = 10\<rparr>"

definition example_store :: memory_tables where
  "example_store =
     \<lparr>mt_items = [(new_item_row example_item)\<lparr>mir_current_revision_id := Some ''rev:1''\<rparr>],
      mt_revisions = [revision_to_row plain_memory_json example_procedure],
      mt_evidence = [evidence_to_row example_evidence], mt_links = [(''rev:1'', ''evidence:1'')]\<rparr>"

lemma example_store_persisted:
  "\<exists>db. persist_memory_revision plain_memory_json plain_json ''audit:1'' example_item example_procedure [example_evidence]
     (empty_database, empty_memory) = (Inr (), db, example_store)"
  by (simp add: persist_memory_revision_def change_memory_def check_revision_def expected_head_def example_item_def
      example_procedure_def example_evidence_def empty_memory_def row_of_def insert_or_verify_evidence_def insert_revision_def
      validity_check_def revision_to_row_def advance_head_def update_rows_def new_item_row_def evidence_to_row_def
      independently_authorizes_procedural_memory_def memory_audit_def insert_audit_def insert_event_for_audit_def
      empty_database_def example_store_def Let_def)

lemma example_store_reachable: "store_reachable plain_memory_json plain_json example_store"
  using example_store_persisted by (blast intro: store_reachable.intros)

theorem memory_store_refines_ledger_witness:
  "\<exists>l. represents plain_memory_json example_store l \<and> (\<forall>i item. ledger_item l i = Some item \<longrightarrow> (\<exists>h. history l item h))"
  using memory_store_refines_ledger [OF example_store_reachable] by blast

theorem stored_procedures_have_user_authority_witness:
  "\<exists>e \<in> set (mt_evidence example_store). evd_trust_class e \<in> {''user_explicit'', ''user_confirmed_result''}"
proof -
  let ?row = "revision_to_row plain_memory_json example_procedure"
  have "mj_parse plain_memory_json (mrr_value_json ?row) = Some (mr_value example_procedure)"
    using plain_memory_json_faithful by (simp add: memory_json_faithful_def revision_to_row_def)
  then show ?thesis
    using stored_procedures_have_user_authority [OF example_store_reachable plain_memory_json_faithful, of ?row]
    by (auto simp: example_store_def example_procedure_def)
qed

end
