(* ===== verification/Halquen_Dialogue.thy ===== *)
theory Halquen_Dialogue
  imports Halquen_Memory_Store Halquen_Routing Halquen_Records
begin

text \<open>
  The tables of the interaction layer and their operations (\<open>crates/storage/src/interaction.rs\<close>):
  settings, providers and models, chats, activity, cached responses and usage counters, with the
  constraints of the migrations and the cascades of their foreign keys. Rows with equal sort keys
  keep the order of their insertion. A counter that leaves the 64-bit range becomes a floating-point
  value in SQLite and can no longer be read; here it is kept as an integer that no reader accepts.
\<close>

section \<open>Tables\<close>

record settings_row =
  sr_appearance :: string
  sr_language :: string
  sr_allow_cloud_ai :: bool
  sr_allow_local_ai :: bool
  sr_allow_personal_context :: bool
  sr_routing_preset :: string
  sr_max_model_calls_per_request :: i64
  sr_max_context_tokens :: i64
  sr_max_output_tokens :: i64
  sr_prefer_cached_local :: bool
  sr_allow_expensive_fallback :: bool
  sr_personal_instructions :: string
  sr_learning_enabled :: bool
  sr_ask_before_procedural_rules :: bool
  sr_auto_save_explicit_preferences :: bool
  sr_conversation_retention_days :: i64
  sr_episodic_retention_days :: i64
  sr_log_level :: string
  sr_diagnostic_logging :: bool
  sr_log_retention_days :: i64
  sr_log_max_total_mb :: i64
  sr_updated_at_ms :: i64

record provider_row =
  pvw_id :: string
  pvw_provider_kind :: string
  pvw_name :: string
  pvw_base_url :: string
  pvw_enabled :: bool
  pvw_privacy_class :: string
  pvw_credential_id :: "string option"
  pvw_status :: string
  pvw_created_at_ms :: i64
  pvw_updated_at_ms :: i64

record model_row =
  mdw_id :: string
  mdw_provider_id :: string
  mdw_display_name :: string
  mdw_provider_model_id :: string
  mdw_enabled :: bool
  mdw_context_limit :: "i64 option"
  mdw_privacy_class :: string
  mdw_priority :: i64
  mdw_is_default :: bool

record message_row =
  mgw_id :: string
  mgw_session_id :: string
  mgw_role :: string
  mgw_content :: string
  mgw_origin :: string
  mgw_route :: "string option"
  mgw_provider_id :: "string option"
  mgw_model_id :: "string option"
  mgw_input_tokens :: "i64 option"
  mgw_output_tokens :: "i64 option"
  mgw_latency_ms :: "i64 option"
  mgw_reusable_candidate_id :: "string option"
  mgw_created_at_ms :: i64

record activity_row =
  acw_id :: string
  acw_session_id :: "string option"
  acw_correlation_id :: string
  acw_activity_kind :: string
  acw_summary :: string
  acw_detail :: "string option"
  acw_created_at_ms :: i64

record cache_row =
  chw_id :: string
  chw_normalized_request :: string
  chw_response :: string
  chw_context_key :: string
  chw_confidence_permille :: i64
  chw_priority_permille :: i64
  chw_trust_class :: string
  chw_valid_until_ms :: "i64 option"
  chw_reusable :: bool
  chw_created_at_ms :: i64
  chw_last_used_at_ms :: "i64 option"
  chw_usage_count :: i64
  chw_success_count :: i64
  chw_correction_count :: i64
  chw_original_provider_id :: "string option"
  chw_original_model_id :: "string option"
  chw_estimated_tokens_avoided :: i64

record correction =
  co_id :: string
  co_target_id :: string
  co_correction_summary :: string
  co_created_at_ms :: i64

text \<open>The usage counters are one row of ten integers, in the order of the columns.\<close>

record dialogue =
  dg_settings :: "settings_row list"
  dg_providers :: "provider_row list"
  dg_models :: "model_row list"
  dg_model_tasks :: "(string \<times> string) list"
  dg_sessions :: "chat_session list"
  dg_messages :: "message_row list"
  dg_activity :: "activity_row list"
  dg_cache :: "cache_row list"
  dg_usage :: "i64 list list"
  dg_corrections :: "correction list"

type_synonym 'a dialogue_op = "dialogue \<Rightarrow> (storage_error, 'a) result \<times> dialogue"

section \<open>Settings\<close>

definition get_u8 :: "i64 \<Rightarrow> (storage_error, nat) result" where
  "get_u8 value = (if 0 \<le> value \<and> value \<le> 255 then Inr (nat value) else Inl conversion_error)"

definition settings_to_row :: "application_settings \<Rightarrow> i64 \<Rightarrow> settings_row" where
  "settings_to_row s now =
     \<lparr>sr_appearance = encode_appearance (as_appearance s), sr_language = as_language s,
      sr_allow_cloud_ai = as_allow_cloud_ai s, sr_allow_local_ai = as_allow_local_ai s,
      sr_allow_personal_context = as_allow_personal_context s,
      sr_routing_preset = encode_routing_preset (as_routing_preset s),
      sr_max_model_calls_per_request = int (as_max_model_calls_per_request s),
      sr_max_context_tokens = int (as_max_context_tokens s), sr_max_output_tokens = int (as_max_output_tokens s),
      sr_prefer_cached_local = as_prefer_cached_local s, sr_allow_expensive_fallback = as_allow_expensive_fallback s,
      sr_personal_instructions = as_personal_instructions s, sr_learning_enabled = as_learning_enabled s,
      sr_ask_before_procedural_rules = as_ask_before_procedural_rules s,
      sr_auto_save_explicit_preferences = as_auto_save_explicit_preferences s,
      sr_conversation_retention_days = int (as_conversation_retention_days s),
      sr_episodic_retention_days = int (as_episodic_retention_days s), sr_log_level = encode_log_level (as_log_level s),
      sr_diagnostic_logging = as_diagnostic_logging s, sr_log_retention_days = int (as_log_retention_days s),
      sr_log_max_total_mb = int (as_log_max_total_mb s), sr_updated_at_ms = now\<rparr>"

definition settings_from_row :: "settings_row \<Rightarrow> (storage_error, application_settings) result" where
  "settings_from_row row =
     and_then (ok_or invalid_query (parse_appearance (sr_appearance row))) (\<lambda>appearance.
     and_then (ok_or invalid_query (parse_routing_preset (sr_routing_preset row))) (\<lambda>preset.
     and_then (get_u8 (sr_max_model_calls_per_request row)) (\<lambda>calls.
     and_then (get_u32 (sr_max_context_tokens row)) (\<lambda>context_tokens.
     and_then (get_u32 (sr_max_output_tokens row)) (\<lambda>output_tokens.
     and_then (get_u16 (sr_conversation_retention_days row)) (\<lambda>conversation.
     and_then (get_u16 (sr_episodic_retention_days row)) (\<lambda>episodic.
     and_then (ok_or invalid_query (parse_log_level (sr_log_level row))) (\<lambda>level.
     and_then (get_u16 (sr_log_retention_days row)) (\<lambda>log_days.
     and_then (get_u16 (sr_log_max_total_mb row)) (\<lambda>log_mb.
       Inr \<lparr>as_appearance = appearance, as_language = sr_language row, as_allow_cloud_ai = sr_allow_cloud_ai row,
            as_allow_local_ai = sr_allow_local_ai row, as_allow_personal_context = sr_allow_personal_context row,
            as_routing_preset = preset, as_max_model_calls_per_request = calls,
            as_max_context_tokens = context_tokens, as_max_output_tokens = output_tokens,
            as_prefer_cached_local = sr_prefer_cached_local row,
            as_allow_expensive_fallback = sr_allow_expensive_fallback row,
            as_personal_instructions = sr_personal_instructions row, as_learning_enabled = sr_learning_enabled row,
            as_ask_before_procedural_rules = sr_ask_before_procedural_rules row,
            as_auto_save_explicit_preferences = sr_auto_save_explicit_preferences row,
            as_conversation_retention_days = conversation, as_episodic_retention_days = episodic,
            as_log_level = level, as_diagnostic_logging = sr_diagnostic_logging row,
            as_log_retention_days = log_days, as_log_max_total_mb = log_mb\<rparr>))))))))))"

definition dialogue_settings :: "dialogue \<Rightarrow> (storage_error, application_settings) result" where
  "dialogue_settings D =
     (case first_row (dg_settings D) of
        None \<Rightarrow> Inl (Database_error QueryReturnedNoRows)
      | Some row \<Rightarrow> settings_from_row row)"

text \<open>The texts pass \<open>CHECK (length(\<dots>))\<close> if SQLite does not count them shorter than they are.\<close>

definition settings_check :: "settings_row \<Rightarrow> bool" where
  "settings_check row \<longleftrightarrow> sql_length (sr_language row) \<ge> 1 \<and> sql_length (sr_language row) \<le> 32
     \<and> sql_length (sr_personal_instructions row) \<le> 8000"

definition update_application_settings :: "application_settings \<Rightarrow> i64 \<Rightarrow> unit dialogue_op" where
  "update_application_settings s now D =
     (case settings_validate s of
        Inl e \<Rightarrow> (Inl (InvalidInteraction (settings_error_text e)), D)
      | Inr _ \<Rightarrow>
          if dg_settings D \<noteq> [] \<and> \<not> settings_check (settings_to_row s now) then (Inl constraint_error, D)
          else case update_rows (\<lambda>_. True) (\<lambda>_. settings_to_row s now) (dg_settings D) of
            (rows, updated) \<Rightarrow>
              if updated \<noteq> 1 then (Inl (InvalidInteraction ''settings singleton is missing''), D)
              else (Inr (), D\<lparr>dg_settings := rows\<rparr>))"

section \<open>Providers and models\<close>

definition provider_to_row :: "provider \<Rightarrow> provider_row" where
  "provider_to_row p =
     \<lparr>pvw_id = pv_id p, pvw_provider_kind = encode_provider_kind (pv_kind p), pvw_name = pv_name p,
      pvw_base_url = pv_base_url p, pvw_enabled = pv_enabled p, pvw_privacy_class = encode_privacy_class (pv_privacy p),
      pvw_credential_id = pv_credential_id p, pvw_status = encode_provider_status (pv_status p),
      pvw_created_at_ms = pv_created_at_ms p, pvw_updated_at_ms = pv_updated_at_ms p\<rparr>"

definition provider_from_row :: "provider_row \<Rightarrow> (storage_error, provider) result" where
  "provider_from_row row =
     and_then (ok_or invalid_query (parse_privacy_class (pvw_privacy_class row))) (\<lambda>privacy.
     and_then (opaque (pvw_id row)) (\<lambda>i.
     and_then (ok_or invalid_query (parse_provider_kind (pvw_provider_kind row))) (\<lambda>kind.
     and_then (ok_or invalid_query (parse_provider_status (pvw_status row))) (\<lambda>status.
       Inr \<lparr>pv_id = i, pv_kind = kind, pv_name = pvw_name row, pv_base_url = pvw_base_url row,
            pv_enabled = pvw_enabled row, pv_privacy = privacy,
            pv_configured = (pvw_credential_id row \<noteq> None \<or> privacy = Privacy_Local),
            pv_credential_id = pvw_credential_id row, pv_status = status,
            pv_created_at_ms = pvw_created_at_ms row, pv_updated_at_ms = pvw_updated_at_ms row\<rparr>))))"

definition dialogue_providers :: "dialogue \<Rightarrow> (storage_error, provider list) result" where
  "dialogue_providers D =
     collect_rows provider_from_row (sort_key (\<lambda>row. (nocase (pvw_name row), pvw_id row)) (dg_providers D))"

definition dialogue_provider :: "dialogue \<Rightarrow> provider_id \<Rightarrow> (storage_error, provider option) result" where
  "dialogue_provider D i =
     (case row_of pvw_id (dg_providers D) i of
        None \<Rightarrow> Inr None
      | Some row \<Rightarrow> and_then (provider_from_row row) (\<lambda>p. Inr (Some p)))"

definition merge_provider :: "provider_row \<Rightarrow> provider_row \<Rightarrow> provider_row" where
  "merge_provider old new = new\<lparr>pvw_created_at_ms := pvw_created_at_ms old\<rparr>"

definition provider_check :: "provider_row \<Rightarrow> bool" where
  "provider_check row \<longleftrightarrow> length_between 1 128 (pvw_name row) \<and> length_between 1 2048 (pvw_base_url row)"

definition credential_taken :: "dialogue \<Rightarrow> provider_row \<Rightarrow> bool" where
  "credential_taken D row \<longleftrightarrow> pvw_credential_id row \<noteq> None
     \<and> list_ex (\<lambda>r. pvw_id r \<noteq> pvw_id row \<and> pvw_credential_id r = pvw_credential_id row) (dg_providers D)"

definition dialogue_upsert_provider :: "provider \<Rightarrow> unit dialogue_op" where
  "dialogue_upsert_provider p D =
     (if trim (pv_name p) = [] \<or> length (pv_name p) > 128 \<or> trim (pv_base_url p) = [] \<or> length (pv_base_url p) > 2048
      then (Inl (InvalidInteraction ''provider metadata is outside accepted bounds''), D)
      else let row = provider_to_row p in
        if \<not> provider_check row \<or> credential_taken D row then (Inl constraint_error, D)
        else (Inr (), D\<lparr>dg_providers := upsert_row pvw_id merge_provider row (dg_providers D)\<rparr>))"

definition forget_if :: "('a \<Rightarrow> bool) \<Rightarrow> 'a option \<Rightarrow> 'a option" where
  "forget_if p x = (case x of None \<Rightarrow> None | Some a \<Rightarrow> if p a then None else Some a)"

text \<open>Deleting a provider deletes its models and their tasks, and clears the references to both.\<close>

definition dialogue_remove_provider :: "provider_id \<Rightarrow> bool dialogue_op" where
  "dialogue_remove_provider i D =
     (case delete_rows (\<lambda>row. pvw_id row = i) (dg_providers D) of
        (providers, deleted) \<Rightarrow>
          let gone = (\<lambda>model. list_ex (\<lambda>row. mdw_id row = model \<and> mdw_provider_id row = i) (dg_models D));
              provider_gone = (\<lambda>p. p = i \<and> deleted > 0) in
          (Inr (deleted = 1),
           if deleted = 0 then D
           else D\<lparr>dg_providers := providers,
             dg_models := filter (\<lambda>row. mdw_provider_id row \<noteq> i) (dg_models D),
             dg_model_tasks := filter (\<lambda>(model, _). \<not> gone model) (dg_model_tasks D),
             dg_messages := map (\<lambda>row. row\<lparr>mgw_provider_id := forget_if provider_gone (mgw_provider_id row),
                 mgw_model_id := forget_if gone (mgw_model_id row)\<rparr>) (dg_messages D),
             dg_cache := map (\<lambda>row. row\<lparr>chw_original_provider_id := forget_if provider_gone (chw_original_provider_id row),
                 chw_original_model_id := forget_if gone (chw_original_model_id row)\<rparr>) (dg_cache D)\<rparr>))"

definition get_i16 :: "i64 \<Rightarrow> (storage_error, i16) result" where
  "get_i16 value = (if -32768 \<le> value \<and> value \<le> 32767 then Inr value else Inl conversion_error)"

definition get_u32_option :: "i64 option \<Rightarrow> (storage_error, u32 option) result" where
  "get_u32_option value = (case value of None \<Rightarrow> Inr None | Some v \<Rightarrow> and_then (get_u32 v) (\<lambda>n. Inr (Some n)))"

definition model_tasks :: "dialogue \<Rightarrow> model_id \<Rightarrow> (storage_error, ai_task_type list) result" where
  "model_tasks D i =
     collect_rows (\<lambda>task. ok_or invalid_query (parse_ai_task task))
       (sort (map snd (filter (\<lambda>(model, _). model = i) (dg_model_tasks D))))"

definition model_from_row :: "dialogue \<Rightarrow> model_row \<Rightarrow> (storage_error, ai_model) result" where
  "model_from_row D row =
     and_then (opaque (mdw_id row)) (\<lambda>i.
     and_then (opaque (mdw_provider_id row)) (\<lambda>provider.
     and_then (get_u32_option (mdw_context_limit row)) (\<lambda>context_limit.
     and_then (ok_or invalid_query (parse_privacy_class (mdw_privacy_class row))) (\<lambda>privacy.
     and_then (get_i16 (mdw_priority row)) (\<lambda>priority.
     and_then (model_tasks D i) (\<lambda>tasks.
       Inr \<lparr>am_id = i, am_provider_id = provider, am_display_name = mdw_display_name row,
            am_provider_model_id = mdw_provider_model_id row, am_enabled = mdw_enabled row,
            am_context_limit = context_limit, am_privacy = privacy, am_priority = priority,
            am_task_eligibility = tasks, am_is_default = mdw_is_default row\<rparr>))))))"

definition dialogue_models :: "dialogue \<Rightarrow> (storage_error, ai_model list) result" where
  "dialogue_models D =
     collect_rows (model_from_row D)
       (sort_key (\<lambda>row. (\<not> mdw_is_default row, - mdw_priority row, nocase (mdw_display_name row))) (dg_models D))"

definition dialogue_model :: "dialogue \<Rightarrow> model_id \<Rightarrow> (storage_error, ai_model option) result" where
  "dialogue_model D i =
     (case row_of mdw_id (dg_models D) i of
        None \<Rightarrow> Inr None
      | Some row \<Rightarrow> and_then (model_from_row D row) (\<lambda>m. Inr (Some m)))"

definition model_to_row :: "ai_model \<Rightarrow> model_row" where
  "model_to_row m =
     \<lparr>mdw_id = am_id m, mdw_provider_id = am_provider_id m, mdw_display_name = am_display_name m,
      mdw_provider_model_id = am_provider_model_id m, mdw_enabled = am_enabled m,
      mdw_context_limit = map_option int (am_context_limit m), mdw_privacy_class = encode_privacy_class (am_privacy m),
      mdw_priority = am_priority m, mdw_is_default = am_is_default m\<rparr>"

definition model_check :: "model_row \<Rightarrow> bool" where
  "model_check row \<longleftrightarrow> length_between 1 128 (mdw_display_name row) \<and> length_between 1 256 (mdw_provider_model_id row)
     \<and> is_none_or (\<lambda>n. 256 \<le> n \<and> n \<le> 1048576) (mdw_context_limit row)"

definition clear_defaults :: "ai_model \<Rightarrow> model_row list \<Rightarrow> model_row list" where
  "clear_defaults m rows =
     (if am_is_default m
      then map (\<lambda>row. if mdw_provider_id row = am_provider_id m \<and> mdw_id row \<noteq> am_id m
                      then row\<lparr>mdw_is_default := False\<rparr> else row) rows
      else rows)"

text \<open>The constraints the insertion of a model can violate: its provider is missing, another model of
  the provider has the same name there, or a task is listed twice.\<close>

definition model_conflict :: "dialogue \<Rightarrow> ai_model \<Rightarrow> bool" where
  "model_conflict D m \<longleftrightarrow>
     \<not> list_ex (\<lambda>row. pvw_id row = am_provider_id m) (dg_providers D)
     \<or> list_ex (\<lambda>row. mdw_id row \<noteq> am_id m \<and> mdw_provider_id row = am_provider_id m
          \<and> mdw_provider_model_id row = am_provider_model_id m) (dg_models D)
     \<or> \<not> distinct (am_task_eligibility m)"

definition dialogue_upsert_model :: "ai_model \<Rightarrow> unit dialogue_op" where
  "dialogue_upsert_model m D =
     (if trim (am_display_name m) = [] \<or> length (am_display_name m) > 128 \<or> trim (am_provider_model_id m) = []
         \<or> length (am_provider_model_id m) > 256 \<or> am_task_eligibility m = []
         \<or> \<not> (- 1000 \<le> am_priority m \<and> am_priority m \<le> 1000)
      then (Inl (InvalidInteraction ''model metadata is outside accepted bounds''), D)
      else if \<not> model_check (model_to_row m) \<or> model_conflict D m then (Inl constraint_error, D)
      else (Inr (), D\<lparr>dg_models := upsert_row mdw_id (\<lambda>_ new. new) (model_to_row m) (clear_defaults m (dg_models D)),
             dg_model_tasks := filter (\<lambda>(model, _). model \<noteq> am_id m) (dg_model_tasks D)
               @ map (\<lambda>task. (am_id m, encode_ai_task task)) (am_task_eligibility m)\<rparr>))"

section \<open>Chats\<close>

text \<open>
  \<open>str::split_whitespace\<close>: the maximal runs of characters without the property \<open>White_Space\<close>.
\<close>

definition is_whitespace :: "string \<Rightarrow> bool" where
  "is_whitespace character \<longleftrightarrow> character \<in> set white_space"

fun split_whitespace :: "string list \<Rightarrow> string list" where
  "split_whitespace [] = []"
| "split_whitespace (c # cs) =
     (if is_whitespace c then split_whitespace cs
      else case cs of
        [] \<Rightarrow> [c]
      | d # _ \<Rightarrow> if is_whitespace d then c # split_whitespace cs
                else (case split_whitespace cs of [] \<Rightarrow> [c] | w # ws \<Rightarrow> (c @ w) # ws))"

definition join_with :: "string \<Rightarrow> string list \<Rightarrow> string" where
  "join_with sep parts = (case parts of [] \<Rightarrow> [] | p # ps \<Rightarrow> p @ concat (map (\<lambda>w. sep @ w) ps))"

definition bounded_title :: "string \<Rightarrow> string" where
  "bounded_title value =
     (let normalized = join_with '' '' (split_whitespace (utf8_chars value));
          title = (if normalized = [] then ''New conversation'' else normalized) in
      concat (take 80 (utf8_chars title)))"

definition chat_session_from_row :: "chat_session \<Rightarrow> (storage_error, chat_session) result" where
  "chat_session_from_row row = and_then (opaque (cs_id row)) (\<lambda>i. Inr (row\<lparr>cs_id := i\<rparr>))"

definition dialogue_session :: "dialogue \<Rightarrow> chat_session_id \<Rightarrow> (storage_error, chat_session option) result" where
  "dialogue_session D i =
     (case row_of cs_id (dg_sessions D) i of
        None \<Rightarrow> Inr None
      | Some row \<Rightarrow> and_then (chat_session_from_row row) (\<lambda>s. Inr (Some s)))"

text \<open>The identifier of a new session is drawn by the caller's argument.\<close>

definition ensure_chat_session ::
  "chat_session_id \<Rightarrow> chat_session_id option \<Rightarrow> string \<Rightarrow> i64 \<Rightarrow> chat_session dialogue_op" where
  "ensure_chat_session generated requested title now D =
     (case requested of
        Some i \<Rightarrow>
          (case dialogue_session D i of
             Inl e \<Rightarrow> (Inl e, D)
           | Inr (Some session) \<Rightarrow> (Inr session, D)
           | Inr None \<Rightarrow> (Inl (InvalidInteraction ''requested chat session does not exist''), D))
      | None \<Rightarrow>
          let session = \<lparr>cs_id = generated, cs_title = bounded_title title, cs_created_at_ms = now, cs_updated_at_ms = now\<rparr> in
          if list_ex (\<lambda>s. cs_id s = generated) (dg_sessions D) \<or> \<not> length_between 1 256 (cs_title session)
          then (Inl constraint_error, D)
          else (Inr session, D\<lparr>dg_sessions := dg_sessions D @ [session]\<rparr>))"

definition dialogue_sessions :: "dialogue \<Rightarrow> u16 \<Rightarrow> (storage_error, chat_session list) result" where
  "dialogue_sessions D limit =
     collect_rows chat_session_from_row
       (take (max 1 (min 200 limit)) (sort_key (\<lambda>s. - cs_updated_at_ms s) (dg_sessions D)))"

definition sql_i64 :: "u64 \<Rightarrow> (storage_error, i64) result" where
  "sql_i64 value =
     (if int value \<le> i64_max then Inr (int value)
      else Inl (InvalidInteraction ''numeric value exceeds SQLite integer range''))"

definition sql_i64_option :: "u64 option \<Rightarrow> (storage_error, i64 option) result" where
  "sql_i64_option value = (case value of None \<Rightarrow> Inr None | Some v \<Rightarrow> and_then (sql_i64 v) (\<lambda>i. Inr (Some i)))"

definition row_u64 :: "i64 \<Rightarrow> (storage_error, u64) result" where
  "row_u64 value =
     (if value > i64_max then Inl conversion_error else if value < 0 then Inl invalid_query else Inr (nat value))"

definition message_to_row :: "chat_message \<Rightarrow> i64 option \<Rightarrow> message_row" where
  "message_to_row m latency =
     \<lparr>mgw_id = cm_id m, mgw_session_id = cm_session_id m, mgw_role = encode_chat_role (cm_role m),
      mgw_content = cm_content m, mgw_origin = encode_chat_origin (cm_origin m),
      mgw_route = map_option encode_chat_route (cm_route m), mgw_provider_id = cm_provider_id m,
      mgw_model_id = cm_model_id m, mgw_input_tokens = map_option int (cm_input_tokens m),
      mgw_output_tokens = map_option int (cm_output_tokens m), mgw_latency_ms = latency,
      mgw_reusable_candidate_id = cm_reusable_candidate_id m, mgw_created_at_ms = cm_created_at_ms m\<rparr>"

definition parse_option :: "(string \<Rightarrow> 'a option) \<Rightarrow> string option \<Rightarrow> (storage_error, 'a option) result" where
  "parse_option f value =
     (case value of None \<Rightarrow> Inr None | Some v \<Rightarrow> and_then (ok_or invalid_query (f v)) (\<lambda>a. Inr (Some a)))"

definition row_u64_option :: "i64 option \<Rightarrow> (storage_error, u64 option) result" where
  "row_u64_option value = (case value of None \<Rightarrow> Inr None | Some v \<Rightarrow> and_then (row_u64 v) (\<lambda>n. Inr (Some n)))"

definition message_from_row :: "message_row \<Rightarrow> (storage_error, chat_message) result" where
  "message_from_row row =
     and_then (opaque (mgw_id row)) (\<lambda>i.
     and_then (opaque (mgw_session_id row)) (\<lambda>session.
     and_then (ok_or invalid_query (parse_chat_role (mgw_role row))) (\<lambda>role.
     and_then (ok_or invalid_query (parse_chat_origin (mgw_origin row))) (\<lambda>origin.
     and_then (parse_option parse_chat_route (mgw_route row)) (\<lambda>route.
     and_then (opaque_option (mgw_provider_id row)) (\<lambda>provider.
     and_then (opaque_option (mgw_model_id row)) (\<lambda>model.
     and_then (get_u32_option (mgw_input_tokens row)) (\<lambda>input_tokens.
     and_then (get_u32_option (mgw_output_tokens row)) (\<lambda>output_tokens.
     and_then (row_u64_option (mgw_latency_ms row)) (\<lambda>latency.
     and_then (opaque_option (mgw_reusable_candidate_id row)) (\<lambda>candidate.
       Inr \<lparr>cm_id = i, cm_session_id = session, cm_role = role, cm_content = mgw_content row, cm_origin = origin,
            cm_route = route, cm_provider_id = provider, cm_model_id = model, cm_input_tokens = input_tokens,
            cm_output_tokens = output_tokens, cm_latency_ms = latency, cm_reusable_candidate_id = candidate,
            cm_created_at_ms = mgw_created_at_ms row\<rparr>)))))))))))"

definition known_provider :: "dialogue \<Rightarrow> provider_id option \<Rightarrow> bool" where
  "known_provider D i \<longleftrightarrow> is_none_or (\<lambda>p. list_ex (\<lambda>row. pvw_id row = p) (dg_providers D)) i"

definition known_model :: "dialogue \<Rightarrow> model_id option \<Rightarrow> bool" where
  "known_model D i \<longleftrightarrow> is_none_or (\<lambda>m. list_ex (\<lambda>row. mdw_id row = m) (dg_models D)) i"

definition known_session :: "dialogue \<Rightarrow> chat_session_id option \<Rightarrow> bool" where
  "known_session D i \<longleftrightarrow> is_none_or (\<lambda>s. list_ex (\<lambda>row. cs_id row = s) (dg_sessions D)) i"

definition append_chat_message :: "chat_message \<Rightarrow> unit dialogue_op" where
  "append_chat_message m D =
     (if trim (cm_content m) = [] \<or> length (cm_content m) > 65536
      then (Inl (InvalidInteraction ''chat message is empty or too large''), D)
      else case sql_i64_option (cm_latency_ms m) of
        Inl e \<Rightarrow> (Inl e, D)
      | Inr latency \<Rightarrow>
          if list_ex (\<lambda>row. mgw_id row = cm_id m) (dg_messages D) \<or> \<not> known_session D (Some (cm_session_id m))
             \<or> \<not> length_between 1 65536 (cm_content m)
             \<or> \<not> known_provider D (cm_provider_id m) \<or> \<not> known_model D (cm_model_id m)
          then (Inl constraint_error, D)
          else (Inr (), D\<lparr>dg_messages := dg_messages D @ [message_to_row m latency],
                 dg_sessions := map (\<lambda>s. if cs_id s = cm_session_id m then s\<lparr>cs_updated_at_ms := cm_created_at_ms m\<rparr> else s)
                   (dg_sessions D)\<rparr>))"

definition dialogue_messages :: "dialogue \<Rightarrow> chat_session_id \<Rightarrow> u16 \<Rightarrow> (storage_error, chat_message list) result" where
  "dialogue_messages D session limit =
     and_then (collect_rows message_from_row
       (take (max 1 (min 500 limit))
         (sort_key (\<lambda>row. - mgw_created_at_ms row)
           (rev (filter (\<lambda>row. mgw_session_id row = session) (dg_messages D))))))
       (\<lambda>messages. Inr (rev messages))"

section \<open>Activity\<close>

definition activity_to_row :: "activity_event \<Rightarrow> activity_row" where
  "activity_to_row e =
     \<lparr>acw_id = ae_id e, acw_session_id = ae_session_id e, acw_correlation_id = ae_correlation_id e,
      acw_activity_kind = encode_activity_kind (ae_kind e), acw_summary = ae_summary e, acw_detail = ae_detail e,
      acw_created_at_ms = ae_created_at_ms e\<rparr>"

definition activity_from_row :: "activity_row \<Rightarrow> (storage_error, activity_event) result" where
  "activity_from_row row =
     and_then (opaque (acw_id row)) (\<lambda>i.
     and_then (opaque_option (acw_session_id row)) (\<lambda>session.
     and_then (ok_or invalid_query (parse_activity_kind (acw_activity_kind row))) (\<lambda>kind.
       Inr \<lparr>ae_id = i, ae_session_id = session, ae_correlation_id = acw_correlation_id row, ae_kind = kind,
            ae_summary = acw_summary row, ae_detail = acw_detail row, ae_created_at_ms = acw_created_at_ms row\<rparr>)))"

definition activity_check :: "activity_row \<Rightarrow> bool" where
  "activity_check row \<longleftrightarrow> length_between 1 128 (acw_correlation_id row) \<and> length_between 1 1024 (acw_summary row)
     \<and> is_none_or (\<lambda>d. sql_length d \<le> 4096) (acw_detail row)"

definition append_activity :: "activity_event \<Rightarrow> unit dialogue_op" where
  "append_activity e D =
     (if ae_correlation_id e = [] \<or> length (ae_correlation_id e) > 128 \<or> trim (ae_summary e) = []
         \<or> length (ae_summary e) > 1024 \<or> is_some_and (\<lambda>d. length d > 4096) (ae_detail e)
      then (Inl (InvalidInteraction ''activity event is outside accepted bounds''), D)
      else if list_ex (\<lambda>row. acw_id row = ae_id e) (dg_activity D) \<or> \<not> known_session D (ae_session_id e)
         \<or> \<not> activity_check (activity_to_row e)
      then (Inl constraint_error, D)
      else (Inr (), D\<lparr>dg_activity := dg_activity D @ [activity_to_row e]\<rparr>))"

definition dialogue_activity :: "dialogue \<Rightarrow> u16 \<Rightarrow> (storage_error, activity_event list) result" where
  "dialogue_activity D limit =
     collect_rows activity_from_row
       (take (max 1 (min 500 limit)) (sort_key (\<lambda>row. - acw_created_at_ms row) (rev (dg_activity D))))"

section \<open>Cached responses\<close>

definition cache_to_row :: "cached_response \<Rightarrow> i64 list \<Rightarrow> cache_row" where
  "cache_to_row e counts =
     \<lparr>chw_id = ca_id e, chw_normalized_request = ca_normalized_request e, chw_response = ca_response e,
      chw_context_key = ca_context_key e, chw_confidence_permille = int (ca_confidence_permille e),
      chw_priority_permille = int (ca_priority_permille e), chw_trust_class = encode_trust_class (ca_trust e),
      chw_valid_until_ms = ca_valid_until_ms e, chw_reusable = ca_reusable e, chw_created_at_ms = ca_created_at_ms e,
      chw_last_used_at_ms = ca_last_used_at_ms e, chw_usage_count = counts ! 0, chw_success_count = counts ! 1,
      chw_correction_count = counts ! 2, chw_original_provider_id = ca_original_provider_id e,
      chw_original_model_id = ca_original_model_id e, chw_estimated_tokens_avoided = counts ! 3\<rparr>"

definition cached_response_from_row :: "cache_row \<Rightarrow> (storage_error, cached_response) result" where
  "cached_response_from_row row =
     and_then (opaque (chw_id row)) (\<lambda>i.
     and_then (get_u16 (chw_confidence_permille row)) (\<lambda>confidence.
     and_then (get_u16 (chw_priority_permille row)) (\<lambda>priority.
     and_then (ok_or invalid_query (parse_trust_class (chw_trust_class row))) (\<lambda>trust.
     and_then (row_u64 (chw_usage_count row)) (\<lambda>uses.
     and_then (row_u64 (chw_success_count row)) (\<lambda>successes.
     and_then (row_u64 (chw_correction_count row)) (\<lambda>corrections.
     and_then (opaque_option (chw_original_provider_id row)) (\<lambda>provider.
     and_then (opaque_option (chw_original_model_id row)) (\<lambda>model.
     and_then (row_u64 (chw_estimated_tokens_avoided row)) (\<lambda>avoided.
       Inr \<lparr>ca_id = i, ca_normalized_request = chw_normalized_request row, ca_response = chw_response row,
            ca_context_key = chw_context_key row, ca_confidence_permille = confidence, ca_priority_permille = priority,
            ca_trust = trust, ca_valid_until_ms = chw_valid_until_ms row, ca_reusable = chw_reusable row,
            ca_created_at_ms = chw_created_at_ms row, ca_last_used_at_ms = chw_last_used_at_ms row,
            ca_usage_count = uses, ca_success_count = successes, ca_correction_count = corrections,
            ca_original_provider_id = provider, ca_original_model_id = model,
            ca_estimated_tokens_avoided = avoided\<rparr>))))))))))"

definition cache_hit :: "string \<Rightarrow> string \<Rightarrow> i64 \<Rightarrow> cache_row \<Rightarrow> bool" where
  "cache_hit request context_key now row \<longleftrightarrow>
     chw_normalized_request row = request \<and> chw_context_key row = context_key \<and> chw_reusable row
     \<and> chw_confidence_permille row \<ge> 800 \<and> is_none_or (\<lambda>until. until \<ge> now) (chw_valid_until_ms row)"

definition dialogue_cached_response ::
  "dialogue \<Rightarrow> string \<Rightarrow> string \<Rightarrow> i64 \<Rightarrow> (storage_error, cached_response option) result" where
  "dialogue_cached_response D request context_key now =
     (case find (cache_hit request context_key now) (dg_cache D) of
        None \<Rightarrow> Inr None
      | Some row \<Rightarrow> and_then (cached_response_from_row row) (\<lambda>e. Inr (Some e)))"

definition cache_key :: "cache_row \<Rightarrow> string \<times> string" where
  "cache_key row = (chw_normalized_request row, chw_context_key row)"

definition cache_check :: "cache_row \<Rightarrow> bool" where
  "cache_check row \<longleftrightarrow> length_between 1 4096 (chw_normalized_request row) \<and> length_between 1 65536 (chw_response row)
     \<and> length_between 1 512 (chw_context_key row)"

definition store_response_candidate :: "cached_response \<Rightarrow> unit dialogue_op" where
  "store_response_candidate e D =
     (if ca_normalized_request e = [] \<or> length (ca_normalized_request e) > 4096 \<or> ca_response e = []
         \<or> length (ca_response e) > 65536 \<or> ca_context_key e = [] \<or> length (ca_context_key e) > 512
         \<or> ca_confidence_permille e > 1000 \<or> ca_priority_permille e > 1000
      then (Inl (InvalidInteraction ''response cache candidate is outside accepted bounds''), D)
      else case collect_rows sql_i64 [ca_usage_count e, ca_success_count e, ca_correction_count e,
          ca_estimated_tokens_avoided e] of
        Inl error \<Rightarrow> (Inl error, D)
      | Inr counts \<Rightarrow>
          (let row = cache_to_row e counts in
           if \<not> cache_check row \<or> \<not> known_provider D (ca_original_provider_id e) \<or> \<not> known_model D (ca_original_model_id e)
              \<or> list_ex (\<lambda>r. chw_id r = ca_id e \<and> cache_key r \<noteq> cache_key row) (dg_cache D)
           then (Inl constraint_error, D)
           else (Inr (), D\<lparr>dg_cache := upsert_row cache_key (\<lambda>_ new. new) row (dg_cache D)\<rparr>)))"

definition add_usage_columns :: "i64 list \<Rightarrow> i64 list list \<Rightarrow> i64 list list" where
  "add_usage_columns delta rows = map (\<lambda>row. map2 (+) row delta) rows"

definition record_cache_hit :: "cache_entry_id \<Rightarrow> i64 \<Rightarrow> u64 \<Rightarrow> unit dialogue_op" where
  "record_cache_hit i now tokens D =
     (case sql_i64 tokens of
        Inl e \<Rightarrow> (Inl e, D)
      | Inr avoided \<Rightarrow>
          (case update_rows (\<lambda>row. chw_id row = i)
                 (\<lambda>row. row\<lparr>chw_last_used_at_ms := Some now, chw_usage_count := chw_usage_count row + 1,
                    chw_estimated_tokens_avoided := chw_estimated_tokens_avoided row + avoided\<rparr>) (dg_cache D) of
             (rows, updated) \<Rightarrow>
               if updated \<noteq> 1 then (Inl (InvalidInteraction ''cache entry was not found''), D)
               else (Inr (), D\<lparr>dg_cache := rows,
                      dg_usage := add_usage_columns [0, 0, 0, 0, 0, 0, 1, 0, 0, avoided] (dg_usage D)\<rparr>)))"

fun feedback_deltas :: "response_feedback \<Rightarrow> i64 \<times> i64 \<times> i64 \<times> i64 \<times> bool option" where
  "feedback_deltas FB_Useful = (50, 20, 1, 0, None)"
| "feedback_deltas FB_Wrong = (- 500, - 200, 0, 1, Some False)"
| "feedback_deltas FB_DoNotRemember = (0, 0, 0, 0, Some False)"
| "feedback_deltas FB_AlwaysUse = (500, 300, 1, 0, Some True)"
| "feedback_deltas FB_Prefer = (100, 150, 1, 0, None)"

definition clamp_permille :: "i64 \<Rightarrow> i64" where
  "clamp_permille n = min 1000 (max 0 n)"

definition feed_back :: "response_feedback \<Rightarrow> cache_row \<Rightarrow> cache_row" where
  "feed_back feedback row =
     (case feedback_deltas feedback of
        (confidence, priority, success, corrected, reusable) \<Rightarrow>
          row\<lparr>chw_confidence_permille := clamp_permille (chw_confidence_permille row + confidence),
              chw_priority_permille := clamp_permille (chw_priority_permille row + priority),
              chw_success_count := chw_success_count row + success,
              chw_correction_count := chw_correction_count row + corrected,
              chw_reusable := coalesce reusable (chw_reusable row)\<rparr>)"

definition apply_response_feedback :: "cache_entry_id \<Rightarrow> response_feedback \<Rightarrow> unit dialogue_op" where
  "apply_response_feedback i feedback D =
     (case update_rows (\<lambda>row. chw_id row = i) (feed_back feedback) (dg_cache D) of
        (rows, updated) \<Rightarrow>
          if updated \<noteq> 1 then (Inl (InvalidInteraction ''cache entry was not found''), D)
          else (Inr (), D\<lparr>dg_cache := rows\<rparr>))"

definition cached_response_count :: "dialogue \<Rightarrow> nat" where
  "cached_response_count D = length (dg_cache D)"

section \<open>Usage and corrections\<close>

definition usage_columns :: "usage_stats \<Rightarrow> u64 list" where
  "usage_columns u = [us_model_requests u, us_input_tokens u, us_output_tokens u, us_cached_tokens u,
     us_ai_fallbacks u, us_local_resolutions u, us_response_cache_hits u, us_clarifications u,
     us_failed_provider_calls u, us_estimated_tokens_avoided u]"

definition usage_from_columns :: "u64 list \<Rightarrow> usage_stats" where
  "usage_from_columns c =
     \<lparr>us_model_requests = c ! 0, us_input_tokens = c ! 1, us_output_tokens = c ! 2, us_cached_tokens = c ! 3,
      us_ai_fallbacks = c ! 4, us_local_resolutions = c ! 5, us_response_cache_hits = c ! 6,
      us_clarifications = c ! 7, us_failed_provider_calls = c ! 8, us_estimated_tokens_avoided = c ! 9\<rparr>"

definition dialogue_usage :: "dialogue \<Rightarrow> (storage_error, usage_stats) result" where
  "dialogue_usage D =
     (case first_row (dg_usage D) of
        None \<Rightarrow> Inl (Database_error QueryReturnedNoRows)
      | Some row \<Rightarrow> and_then (collect_rows row_u64 row) (\<lambda>columns. Inr (usage_from_columns columns)))"

definition add_usage :: "usage_stats \<Rightarrow> unit dialogue_op" where
  "add_usage delta D =
     (case collect_rows sql_i64 (usage_columns delta) of
        Inl e \<Rightarrow> (Inl e, D)
      | Inr columns \<Rightarrow> (Inr (), D\<lparr>dg_usage := add_usage_columns columns (dg_usage D)\<rparr>))"

definition record_correction :: "correction \<Rightarrow> unit dialogue_op" where
  "record_correction c D =
     (if list_ex (\<lambda>r. co_id r = co_id c) (dg_corrections D) \<or> \<not> length_between 1 2048 (co_correction_summary c)
      then (Inl constraint_error, D)
      else (Inr (), D\<lparr>dg_corrections := dg_corrections D @ [c]\<rparr>))"

text \<open>The tables as the migrations create them: the default settings and a row of zero counters.\<close>

definition empty_dialogue :: dialogue where
  "empty_dialogue =
     \<lparr>dg_settings = [settings_to_row default_settings 0], dg_providers = [], dg_models = [], dg_model_tasks = [],
      dg_sessions = [], dg_messages = [], dg_activity = [], dg_cache = [], dg_usage = [replicate 10 0],
      dg_corrections = []\<rparr>"

end
