(* ===== verification/Halquen_Chat.thy ===== *)
theory Halquen_Chat
  imports Halquen_Dialogue
begin

text \<open>
  The local commands of the chat (\<open>apps/daemon/src/chat.rs\<close>): opening an application, remembering
  and forgetting a preference, and the two context-dependent forms, in English and Russian. Strings are
  UTF-8 bytes. The Unicode tables of the standard library are an argument; lower-casing a string
  follows \<open>str::to_lowercase\<close> with its rule for the final sigma. Slicing a string at a byte that is
  not a character boundary panics, which is a value of the result.
\<close>

section \<open>Strings\<close>

text \<open>The tables: lower case of a character, and the properties \<open>Alphabetic\<close> or \<open>Numeric\<close>,
  \<open>Cased\<close> and \<open>Case_Ignorable\<close>. Characters are given by their UTF-8 encoding.\<close>

record unicode =
  uc_lower :: "string \<Rightarrow> string"
  uc_alphanumeric :: "string \<Rightarrow> bool"
  uc_cased :: "string \<Rightarrow> bool"
  uc_case_ignorable :: "string \<Rightarrow> bool"

definition capital_sigma :: string where "capital_sigma = [CHR 0xCE, CHR 0xA3]"
definition small_sigma :: string where "small_sigma = [CHR 0xCF, CHR 0x83]"
definition final_sigma :: string where "final_sigma = [CHR 0xCF, CHR 0x82]"

definition case_ignorable_then_cased :: "unicode \<Rightarrow> string list \<Rightarrow> bool" where
  "case_ignorable_then_cased U cs =
     (case dropWhile (uc_case_ignorable U) cs of [] \<Rightarrow> False | c # _ \<Rightarrow> uc_cased U c)"

fun lower_chars :: "unicode \<Rightarrow> string list \<Rightarrow> string list \<Rightarrow> string list" where
  "lower_chars U before [] = []"
| "lower_chars U before (c # cs) =
     (if c \<noteq> capital_sigma then uc_lower U c
      else if case_ignorable_then_cased U before \<and> \<not> case_ignorable_then_cased U cs then final_sigma
      else small_sigma)
     # lower_chars U (c # before) cs"

definition to_lowercase :: "unicode \<Rightarrow> string \<Rightarrow> string" where
  "to_lowercase U s = concat (lower_chars U [] (utf8_chars s))"

datatype str_panic = Not_a_char_boundary

definition is_char_boundary :: "string \<Rightarrow> nat \<Rightarrow> bool" where
  "is_char_boundary s k \<longleftrightarrow> k = 0 \<or> k = length s \<or> (k < length s \<and> \<not> continuation_byte (s ! k))"

definition slice_to :: "string \<Rightarrow> nat \<Rightarrow> (str_panic, string) result" where
  "slice_to s k = (if is_char_boundary s k then Inr (take k s) else Inl Not_a_char_boundary)"

definition slice_from :: "string \<Rightarrow> nat \<Rightarrow> (str_panic, string) result" where
  "slice_from s k = (if is_char_boundary s k then Inr (drop k s) else Inl Not_a_char_boundary)"

fun find_str :: "string \<Rightarrow> string \<Rightarrow> nat option" where
  "find_str pattern [] = (if pattern = [] then Some 0 else None)"
| "find_str pattern (c # cs) =
     (if prefix pattern (c # cs) then Some 0 else map_option Suc (find_str pattern cs))"

definition strip_prefix :: "string \<Rightarrow> string \<Rightarrow> string option" where
  "strip_prefix p s = (if prefix p s then Some (drop (length p) s) else None)"

definition trim_end_marks :: "string \<Rightarrow> string" where
  "trim_end_marks s = rev (dropWhile (\<lambda>c. c \<in> {CHR ''.'', CHR ''!'', CHR ''?''}) (rev s))"

definition quote_chars :: "string list" where
  "quote_chars = [[CHR 0x22], [CHR 0x27], [CHR 0xC2, CHR 0xAB], [CHR 0xC2, CHR 0xBB], [CHR 0x60]]"

definition trim_quotes :: "string \<Rightarrow> string" where
  "trim_quotes s =
     (let quoted = (\<lambda>c. c \<in> set quote_chars) in
      concat (rev (dropWhile quoted (rev (dropWhile quoted (utf8_chars s))))))"

section \<open>The phrases\<close>

text \<open>The Russian phrases of the code as bytes: open, open this, open this one, launch that messenger,
  open that messenger, not, remember that when I say (with and without a comma), I mean, remember that
  my (masculine and feminine, with and without a comma), a dash, this is, forget.\<close>

definition open_ru :: string where
  "open_ru =
     [CHR 0xD0, CHR 0xBE, CHR 0xD1, CHR 0x82, CHR 0xD0, CHR 0xBA, CHR 0xD1, CHR 0x80, CHR 0xD0, CHR 0xBE,
      CHR 0xD0, CHR 0xB9, CHR 0x20]"

definition open_this_ru :: string where
  "open_this_ru =
     [CHR 0xD0, CHR 0xBE, CHR 0xD1, CHR 0x82, CHR 0xD0, CHR 0xBA, CHR 0xD1, CHR 0x80, CHR 0xD0, CHR 0xBE,
      CHR 0xD0, CHR 0xB9, CHR 0x20, CHR 0xD1, CHR 0x8D, CHR 0xD1, CHR 0x82, CHR 0xD0, CHR 0xBE]"

definition open_this_same_ru :: string where
  "open_this_same_ru =
     [CHR 0xD0, CHR 0xBE, CHR 0xD1, CHR 0x82, CHR 0xD0, CHR 0xBA, CHR 0xD1, CHR 0x80, CHR 0xD0, CHR 0xBE,
      CHR 0xD0, CHR 0xB9, CHR 0x20, CHR 0xD1, CHR 0x8D, CHR 0xD1, CHR 0x82, CHR 0xD0, CHR 0xBE, CHR 0x20,
      CHR 0xD1, CHR 0x81, CHR 0xD0, CHR 0xB0, CHR 0xD0, CHR 0xBC, CHR 0xD0, CHR 0xBE, CHR 0xD0, CHR 0xB5]"

definition launch_that_messenger_ru :: string where
  "launch_that_messenger_ru =
     [CHR 0xD0, CHR 0xB7, CHR 0xD0, CHR 0xB0, CHR 0xD0, CHR 0xBF, CHR 0xD1, CHR 0x83, CHR 0xD1, CHR 0x81,
      CHR 0xD1, CHR 0x82, CHR 0xD0, CHR 0xB8, CHR 0x20, CHR 0xD1, CHR 0x82, CHR 0xD0, CHR 0xBE, CHR 0xD1,
      CHR 0x82, CHR 0x20, CHR 0xD0, CHR 0xBC, CHR 0xD0, CHR 0xB5, CHR 0xD1, CHR 0x81, CHR 0xD1, CHR 0x81,
      CHR 0xD0, CHR 0xB5, CHR 0xD0, CHR 0xBD, CHR 0xD0, CHR 0xB4, CHR 0xD0, CHR 0xB6, CHR 0xD0, CHR 0xB5,
      CHR 0xD1, CHR 0x80]"

definition open_that_messenger_ru :: string where
  "open_that_messenger_ru =
     [CHR 0xD0, CHR 0xBE, CHR 0xD1, CHR 0x82, CHR 0xD0, CHR 0xBA, CHR 0xD1, CHR 0x80, CHR 0xD0, CHR 0xBE,
      CHR 0xD0, CHR 0xB9, CHR 0x20, CHR 0xD1, CHR 0x82, CHR 0xD0, CHR 0xBE, CHR 0xD1, CHR 0x82, CHR 0x20,
      CHR 0xD0, CHR 0xBC, CHR 0xD0, CHR 0xB5, CHR 0xD1, CHR 0x81, CHR 0xD1, CHR 0x81, CHR 0xD0, CHR 0xB5,
      CHR 0xD0, CHR 0xBD, CHR 0xD0, CHR 0xB4, CHR 0xD0, CHR 0xB6, CHR 0xD0, CHR 0xB5, CHR 0xD1, CHR 0x80]"

definition not_ru :: string where
  "not_ru =
     [CHR 0xD0, CHR 0xBD, CHR 0xD0, CHR 0xB5, CHR 0x20]"

definition when_i_say_comma_ru :: string where
  "when_i_say_comma_ru =
     [CHR 0xD0, CHR 0xB7, CHR 0xD0, CHR 0xB0, CHR 0xD0, CHR 0xBF, CHR 0xD0, CHR 0xBE, CHR 0xD0, CHR 0xBC,
      CHR 0xD0, CHR 0xBD, CHR 0xD0, CHR 0xB8, CHR 0x2C, CHR 0x20, CHR 0xD1, CHR 0x87, CHR 0xD1, CHR 0x82,
      CHR 0xD0, CHR 0xBE, CHR 0x20, CHR 0xD0, CHR 0xBA, CHR 0xD0, CHR 0xBE, CHR 0xD0, CHR 0xB3, CHR 0xD0,
      CHR 0xB4, CHR 0xD0, CHR 0xB0, CHR 0x20, CHR 0xD1, CHR 0x8F, CHR 0x20, CHR 0xD0, CHR 0xB3, CHR 0xD0,
      CHR 0xBE, CHR 0xD0, CHR 0xB2, CHR 0xD0, CHR 0xBE, CHR 0xD1, CHR 0x80, CHR 0xD1, CHR 0x8E, CHR 0x20]"

definition when_i_say_ru :: string where
  "when_i_say_ru =
     [CHR 0xD0, CHR 0xB7, CHR 0xD0, CHR 0xB0, CHR 0xD0, CHR 0xBF, CHR 0xD0, CHR 0xBE, CHR 0xD0, CHR 0xBC,
      CHR 0xD0, CHR 0xBD, CHR 0xD0, CHR 0xB8, CHR 0x20, CHR 0xD1, CHR 0x87, CHR 0xD1, CHR 0x82, CHR 0xD0,
      CHR 0xBE, CHR 0x20, CHR 0xD0, CHR 0xBA, CHR 0xD0, CHR 0xBE, CHR 0xD0, CHR 0xB3, CHR 0xD0, CHR 0xB4,
      CHR 0xD0, CHR 0xB0, CHR 0x20, CHR 0xD1, CHR 0x8F, CHR 0x20, CHR 0xD0, CHR 0xB3, CHR 0xD0, CHR 0xBE,
      CHR 0xD0, CHR 0xB2, CHR 0xD0, CHR 0xBE, CHR 0xD1, CHR 0x80, CHR 0xD1, CHR 0x8E, CHR 0x20]"

definition i_mean_ru :: string where
  "i_mean_ru =
     [CHR 0x20, CHR 0xD1, CHR 0x8F, CHR 0x20, CHR 0xD0, CHR 0xB8, CHR 0xD0, CHR 0xBC, CHR 0xD0, CHR 0xB5,
      CHR 0xD1, CHR 0x8E, CHR 0x20, CHR 0xD0, CHR 0xB2, CHR 0x20, CHR 0xD0, CHR 0xB2, CHR 0xD0, CHR 0xB8,
      CHR 0xD0, CHR 0xB4, CHR 0xD1, CHR 0x83, CHR 0x20]"

definition my_m_comma_ru :: string where
  "my_m_comma_ru =
     [CHR 0xD0, CHR 0xB7, CHR 0xD0, CHR 0xB0, CHR 0xD0, CHR 0xBF, CHR 0xD0, CHR 0xBE, CHR 0xD0, CHR 0xBC,
      CHR 0xD0, CHR 0xBD, CHR 0xD0, CHR 0xB8, CHR 0x2C, CHR 0x20, CHR 0xD1, CHR 0x87, CHR 0xD1, CHR 0x82,
      CHR 0xD0, CHR 0xBE, CHR 0x20, CHR 0xD0, CHR 0xBC, CHR 0xD0, CHR 0xBE, CHR 0xD0, CHR 0xB9, CHR 0x20]"

definition my_m_ru :: string where
  "my_m_ru =
     [CHR 0xD0, CHR 0xB7, CHR 0xD0, CHR 0xB0, CHR 0xD0, CHR 0xBF, CHR 0xD0, CHR 0xBE, CHR 0xD0, CHR 0xBC,
      CHR 0xD0, CHR 0xBD, CHR 0xD0, CHR 0xB8, CHR 0x20, CHR 0xD1, CHR 0x87, CHR 0xD1, CHR 0x82, CHR 0xD0,
      CHR 0xBE, CHR 0x20, CHR 0xD0, CHR 0xBC, CHR 0xD0, CHR 0xBE, CHR 0xD0, CHR 0xB9, CHR 0x20]"

definition my_f_comma_ru :: string where
  "my_f_comma_ru =
     [CHR 0xD0, CHR 0xB7, CHR 0xD0, CHR 0xB0, CHR 0xD0, CHR 0xBF, CHR 0xD0, CHR 0xBE, CHR 0xD0, CHR 0xBC,
      CHR 0xD0, CHR 0xBD, CHR 0xD0, CHR 0xB8, CHR 0x2C, CHR 0x20, CHR 0xD1, CHR 0x87, CHR 0xD1, CHR 0x82,
      CHR 0xD0, CHR 0xBE, CHR 0x20, CHR 0xD0, CHR 0xBC, CHR 0xD0, CHR 0xBE, CHR 0xD1, CHR 0x8F, CHR 0x20]"

definition my_f_ru :: string where
  "my_f_ru =
     [CHR 0xD0, CHR 0xB7, CHR 0xD0, CHR 0xB0, CHR 0xD0, CHR 0xBF, CHR 0xD0, CHR 0xBE, CHR 0xD0, CHR 0xBC,
      CHR 0xD0, CHR 0xBD, CHR 0xD0, CHR 0xB8, CHR 0x20, CHR 0xD1, CHR 0x87, CHR 0xD1, CHR 0x82, CHR 0xD0,
      CHR 0xBE, CHR 0x20, CHR 0xD0, CHR 0xBC, CHR 0xD0, CHR 0xBE, CHR 0xD1, CHR 0x8F, CHR 0x20]"

definition dash :: string where
  "dash =
     [CHR 0x20, CHR 0xE2, CHR 0x80, CHR 0x94, CHR 0x20]"

definition this_ru :: string where
  "this_ru =
     [CHR 0x20, CHR 0xD1, CHR 0x8D, CHR 0xD1, CHR 0x82, CHR 0xD0, CHR 0xBE, CHR 0x20]"

definition forget_ru :: string where
  "forget_ru =
     [CHR 0xD0, CHR 0xB7, CHR 0xD0, CHR 0xB0, CHR 0xD0, CHR 0xB1, CHR 0xD1, CHR 0x83, CHR 0xD0, CHR 0xB4,
      CHR 0xD1, CHR 0x8C, CHR 0x20]"

section \<open>Commands\<close>

datatype local_intent =
  Intent_OpenApp string entity_id
| Intent_RememberPreference string string
| Intent_ForgetPreference string
| Intent_ContextualOpenApp
| Intent_CorrectOpenApp string string

definition clean_fragment :: "string \<Rightarrow> string option" where
  "clean_fragment fragment =
     (let cleaned = trim (trim_quotes (trim fragment)) in
      if cleaned \<noteq> [] \<and> length cleaned \<le> 2048 then Some cleaned else None)"

definition application_entity :: "unicode \<Rightarrow> string \<Rightarrow> entity_id option" where
  "application_entity U display_name =
     (case clean_fragment display_name of
        None \<Rightarrow> None
      | Some name \<Rightarrow>
          let slug = concat (map (\<lambda>c. if uc_alphanumeric U c then c else ''_'') (utf8_chars (to_lowercase U name))) in
          (case OpaqueId_new (''app:'' @ slug) of Inl _ \<Rightarrow> None | Inr i \<Rightarrow> Some i))"

definition normalize_request :: "unicode \<Rightarrow> string \<Rightarrow> string" where
  "normalize_request U message =
     join_with '' '' (split_whitespace
       (map (\<lambda>c. if uc_alphanumeric U c \<or> is_whitespace c then c else '' '') (utf8_chars (to_lowercase U (trim message)))))"

definition parse_open_app :: "unicode \<Rightarrow> string \<Rightarrow> local_intent option" where
  "parse_open_app U message =
     (let lower = to_lowercase U message in
      case (case strip_prefix ''open '' lower of Some n \<Rightarrow> Some n | None \<Rightarrow> strip_prefix open_ru lower) of
        None \<Rightarrow> None
      | Some raw_name \<Rightarrow>
     (case clean_fragment raw_name of
        None \<Rightarrow> None
      | Some display_name \<Rightarrow>
          map_option (Intent_OpenApp display_name) (application_entity U display_name)))"

definition contextual_phrases :: "string list" where
  "contextual_phrases =
     [''open it'', ''open that'', ''open that messenger'', ''open the messenger'', open_this_ru,
      open_this_same_ru, launch_that_messenger_ru, open_that_messenger_ru]"

definition parse_contextual_open :: "unicode \<Rightarrow> string \<Rightarrow> local_intent option" where
  "parse_contextual_open U message =
     (if normalize_request U message \<in> set contextual_phrases then Some Intent_ContextualOpenApp else None)"

text \<open>The comma is an ASCII character of the string it is searched in, so both slices are at boundaries.\<close>

definition parse_correction :: "unicode \<Rightarrow> string \<Rightarrow> local_intent option" where
  "parse_correction U message =
     (let lower = to_lowercase U (trim_end_marks (trim message)) in
      case (case strip_prefix ''not '' lower of Some r \<Rightarrow> Some r | None \<Rightarrow> strip_prefix not_ru lower) of
        None \<Rightarrow> None
      | Some remainder \<Rightarrow>
     (case find_str '','' remainder of
        None \<Rightarrow> None
      | Some comma \<Rightarrow>
     (case clean_fragment (take comma remainder) of
        None \<Rightarrow> None
      | Some rejected \<Rightarrow>
          map_option (Intent_CorrectOpenApp rejected) (clean_fragment (drop (comma + 1) remainder)))))"

definition preference :: "string \<Rightarrow> string \<Rightarrow> local_intent option" where
  "preference key content =
     (if length key > 256 \<or> length content > 2048 then None else Some (Intent_RememberPreference key content))"

text \<open>
  The loops over separators and prefixes: \<open>None\<close> goes on with the loop, \<open>Some\<close> is the value the
  function returns, which is itself an option.
\<close>

fun try_separators :: "string \<Rightarrow> string \<Rightarrow> string list \<Rightarrow> (str_panic, local_intent option option) result" where
  "try_separators remainder lower_remainder [] = Inr None"
| "try_separators remainder lower_remainder (separator # separators) =
     (case find_str separator lower_remainder of
        None \<Rightarrow> try_separators remainder lower_remainder separators
      | Some position \<Rightarrow>
          and_then (slice_to remainder position) (\<lambda>before.
          (case clean_fragment before of
             None \<Rightarrow> Inr (Some None)
           | Some key \<Rightarrow>
               and_then (slice_from remainder (position + length separator)) (\<lambda>after.
               (case clean_fragment after of
                  None \<Rightarrow> Inr (Some None)
                | Some content \<Rightarrow> Inr (Some (preference key content)))))))"

fun try_prefixes ::
  "unicode \<Rightarrow> string \<Rightarrow> string \<Rightarrow> string list \<Rightarrow> string list \<Rightarrow> (str_panic, local_intent option option) result" where
  "try_prefixes U normalized lower separators [] = Inr None"
| "try_prefixes U normalized lower separators (p # ps) =
     (if starts_with lower p then
        and_then (slice_from normalized (length p)) (\<lambda>remainder.
        and_then (try_separators remainder (to_lowercase U remainder) separators) (\<lambda>found.
          case found of
            Some returned \<Rightarrow> Inr (Some returned)
          | None \<Rightarrow> try_prefixes U normalized lower separators ps))
      else try_prefixes U normalized lower separators ps)"

definition say_prefixes :: "string list" where
  "say_prefixes = [''remember that when i say '', when_i_say_comma_ru, when_i_say_ru]"

definition say_separators :: "string list" where
  "say_separators = ['' i mean '', i_mean_ru]"

definition my_prefixes :: "string list" where
  "my_prefixes = [''remember that my '', my_m_comma_ru, my_m_ru, my_f_comma_ru, my_f_ru]"

definition my_separators :: "string list" where
  "my_separators = ['' is '', dash, this_ru]"

definition parse_remember :: "unicode \<Rightarrow> string \<Rightarrow> (str_panic, local_intent option) result" where
  "parse_remember U message =
     (let normalized = trim_end_marks (trim message); lower = to_lowercase U normalized in
      and_then (try_prefixes U normalized lower say_separators say_prefixes) (\<lambda>found.
        case found of
          Some returned \<Rightarrow> Inr returned
        | None \<Rightarrow>
            and_then (try_prefixes U normalized lower my_separators my_prefixes) (\<lambda>found.
              Inr (case found of Some returned \<Rightarrow> returned | None \<Rightarrow> None))))"

definition parse_forget :: "unicode \<Rightarrow> string \<Rightarrow> local_intent option" where
  "parse_forget U message =
     (let lower = to_lowercase U message in
      case (case strip_prefix ''forget '' lower of Some k \<Rightarrow> Some k | None \<Rightarrow> strip_prefix forget_ru lower) of
        None \<Rightarrow> None
      | Some key \<Rightarrow> map_option Intent_ForgetPreference (clean_fragment key))"

definition resolve_local :: "unicode \<Rightarrow> string \<Rightarrow> (str_panic, local_intent option) result" where
  "resolve_local U message =
     (let trimmed = trim message in
      case parse_correction U trimmed of
        Some intent \<Rightarrow> Inr (Some intent)
      | None \<Rightarrow>
     (case parse_contextual_open U trimmed of
        Some intent \<Rightarrow> Inr (Some intent)
      | None \<Rightarrow>
     (case parse_open_app U trimmed of
        Some intent \<Rightarrow> Inr (Some intent)
      | None \<Rightarrow>
          and_then (parse_remember U trimmed) (\<lambda>found.
            Inr (case found of Some intent \<Rightarrow> Some intent | None \<Rightarrow> parse_forget U trimmed)))))"

section \<open>Characters and boundaries\<close>

definition utf8_width :: "char \<Rightarrow> nat" where
  "utf8_width c = (if byte c < 128 then 1 else if byte c < 224 then 2 else if byte c < 240 then 3 else 4)"

definition utf8_char :: "string \<Rightarrow> bool" where
  "utf8_char c \<longleftrightarrow>
     c \<noteq> [] \<and> \<not> continuation_byte (hd c) \<and> list_all continuation_byte (tl c) \<and> length c = utf8_width (hd c)"

definition valid_utf8 :: "string \<Rightarrow> bool" where
  "valid_utf8 s \<longleftrightarrow> list_all utf8_char (utf8_chars s)"

text \<open>What the slices rely on: the lower case of each character is one character of the same width.\<close>

definition keeps_width :: "unicode \<Rightarrow> string \<Rightarrow> bool" where
  "keeps_width U s \<longleftrightarrow>
     list_all (\<lambda>c. utf8_char (uc_lower U c) \<and> length (uc_lower U c) = length c) (utf8_chars s)"

lemma concat_utf8_chars [simp]: "concat (utf8_chars s) = s"
  by (induction s rule: utf8_chars.induct) auto

lemma utf8_char_cases:
  assumes "utf8_char c"
  obtains b bs where "c = b # bs" "\<not> continuation_byte b" "list_all continuation_byte bs" "Suc (length bs) = utf8_width b"
  using assms by (cases c) (auto simp: utf8_char_def)

lemma utf8_chars_concat: "list_all utf8_char cs \<Longrightarrow> utf8_chars (concat cs) = cs"
proof (induction cs)
  case (Cons c cs)
  then obtain b bs where c: "c = b # bs" "\<not> continuation_byte b" "list_all continuation_byte bs"
      "Suc (length bs) = utf8_width b"
    by (auto elim: utf8_char_cases)
  have stop: "takeWhile continuation_byte (concat cs) = []" "dropWhile continuation_byte (concat cs) = concat cs"
    using Cons.prems by (cases cs; auto elim!: utf8_char_cases)+
  have "takeWhile continuation_byte (bs @ concat cs) = bs" "dropWhile continuation_byte (bs @ concat cs) = concat cs"
    using c(3) stop by (auto simp: takeWhile_append2 dropWhile_append2 list_all_iff)
  moreover have "bs = []" if "byte b < 192"
    using that c(2,4) by (auto simp: continuation_byte_def utf8_width_def split: if_splits)
  ultimately show ?case using Cons c by (cases "192 \<le> byte b") (auto simp: not_le)
qed simp

lemma utf8_char_hd: "list_all utf8_char cs \<Longrightarrow> cs \<noteq> [] \<Longrightarrow> concat cs \<noteq> [] \<and> \<not> continuation_byte (hd (concat cs))"
  by (cases cs) (auto elim!: utf8_char_cases)

lemma boundary_take:
  assumes "list_all utf8_char cs"
  shows "is_char_boundary (concat cs) (length (concat (take i cs)))"
proof (cases "drop i cs = []")
  case False
  have split: "concat cs = concat (take i cs) @ concat (drop i cs)"
    by (metis append_take_drop_id concat_append)
  have "concat (drop i cs) \<noteq> [] \<and> \<not> continuation_byte (hd (concat (drop i cs)))"
    using assms False by (intro utf8_char_hd) (auto simp: list_all_iff dest: in_set_dropD)
  then have "\<not> continuation_byte (concat cs ! length (concat (take i cs)))"
    "length (concat (take i cs)) < length (concat cs)"
    unfolding split by (cases "concat (drop i cs)"; simp add: nth_append del: concat_eq_Nil_conv)+
  then show ?thesis by (simp add: is_char_boundary_def)
qed (simp add: is_char_boundary_def)

lemma ascii_boundary:
  "list_all utf8_char ds \<Longrightarrow> concat ds = p @ b # q \<Longrightarrow> byte b < 128 \<Longrightarrow>
   \<exists>i < length ds. concat (take i ds) = p \<and> concat (take (Suc i) ds) = p @ [b]"
proof (induction ds arbitrary: p)
  case (Cons d ds)
  then have d: "utf8_char d" by simp
  show ?case
  proof (cases "length d \<le> length p")
    case True
    then obtain p' where p: "p = d @ p'"
      using Cons.prems(2) by (metis append_eq_append_conv_if append_take_drop_id concat.simps(2))
    then obtain i where "i < length ds" "concat (take i ds) = p'" "concat (take (Suc i) ds) = p' @ [b]"
      using Cons by auto
    then show ?thesis using p by (intro exI [of _ "Suc i"]) auto
  next
    case False
    then have b: "d ! length p = b" using Cons.prems(2)
      by (metis concat.simps(2) linorder_not_le nth_append nth_append_length)
    from d obtain h t where ht: "d = h # t" "\<not> continuation_byte h" "list_all continuation_byte t"
        "Suc (length t) = utf8_width h"
      by (auto elim: utf8_char_cases)
    have "p = []"
    proof (rule ccontr)
      assume "p \<noteq> []"
      then have "b \<in> set t" using b False ht(1) by (cases p) auto
      then show False using ht(3) Cons.prems(3) by (auto simp: list_all_iff continuation_byte_def)
    qed
    then show ?thesis using b ht Cons.prems(3) by (intro exI [of _ 0]) (auto simp: utf8_width_def)
  qed
qed simp

section \<open>Lower-casing that keeps widths\<close>

lemma sigma_chars: "utf8_char small_sigma" "utf8_char final_sigma"
  "length small_sigma = length capital_sigma" "length final_sigma = length capital_sigma"
  by (simp_all add: utf8_char_def small_sigma_def final_sigma_def capital_sigma_def continuation_byte_def
      utf8_width_def byte_def)

lemma lower_chars_widths:
  "list_all (\<lambda>c. utf8_char (uc_lower U c) \<and> length (uc_lower U c) = length c) cs \<Longrightarrow>
   list_all utf8_char (lower_chars U before cs) \<and> map length (lower_chars U before cs) = map length cs"
  by (induction cs arbitrary: before) (auto simp: sigma_chars)

lemma length_concat_take:
  "map length ds = map length cs \<Longrightarrow> length (concat (take i ds)) = length (concat (take i cs))"
  by (simp add: length_concat take_map [symmetric])

text \<open>A phrase that ends with an ASCII character is found at boundaries of the original string.\<close>

lemma lower_boundaries:
  assumes valid: "valid_utf8 s" and width: "keeps_width U s"
    and found: "to_lowercase U s = p @ w @ q" and "w \<noteq> []" and last: "byte (last w) < 128"
  shows "\<exists>i. length (concat (take i (utf8_chars s))) = length p + length w"
    and "byte (hd w) < 128 \<Longrightarrow> \<exists>i. length (concat (take i (utf8_chars s))) = length p"
proof -
  let ?ds = "lower_chars U [] (utf8_chars s)"
  have ds: "list_all utf8_char ?ds" "map length ?ds = map length (utf8_chars s)"
    using lower_chars_widths width by (auto simp: keeps_width_def)
  have at: "\<exists>i. length (concat (take i (utf8_chars s))) = length a
      \<and> length (concat (take (Suc i) (utf8_chars s))) = Suc (length a)"
    if split: "concat ?ds = a @ b # r" and ascii: "byte b < 128" for a b r
  proof -
    obtain i where "concat (take i ?ds) = a" "concat (take (Suc i) ?ds) = a @ [b]"
      using ascii_boundary [OF ds(1) split ascii] by blast
    then show ?thesis using length_concat_take [OF ds(2)] by (metis length_append_singleton)
  qed
  have "concat ?ds = (p @ butlast w) @ last w # q"
    using found \<open>w \<noteq> []\<close> by (simp add: to_lowercase_def)
  from at [OF this last] show "\<exists>i. length (concat (take i (utf8_chars s))) = length p + length w"
  proof (elim exE conjE)
    fix i assume "length (concat (take (Suc i) (utf8_chars s))) = Suc (length (p @ butlast w))"
    with \<open>w \<noteq> []\<close> show ?thesis by (intro exI [of _ "Suc i"]) (cases w rule: rev_cases; simp)
  qed
  have "concat ?ds = p @ hd w # (tl w @ q)"
    using found \<open>w \<noteq> []\<close> by (simp add: to_lowercase_def)
  from at [OF this] show "byte (hd w) < 128 \<Longrightarrow> \<exists>i. length (concat (take i (utf8_chars s))) = length p"
    by blast
qed

lemma find_str_Some: "find_str w s = Some k \<Longrightarrow> \<exists>p q. s = p @ w @ q \<and> length p = k"
proof (induction s arbitrary: k)
  case (Cons c s)
  show ?case
  proof (cases "prefix w (c # s)")
    case True
    then show ?thesis using Cons.prems by (auto simp: prefix_def)
  next
    case False
    then obtain j where j: "find_str w s = Some j" "k = Suc j" using Cons.prems by auto
    from Cons.IH [OF j(1)] obtain p q where "s = p @ w @ q" "length p = j" by auto
    then show ?thesis using j(2) by (intro exI [of _ "c # p"] exI [of _ q]) simp
  qed
qed (simp split: if_splits)

section \<open>Trimming keeps whole characters\<close>

lemma white_space_chars: "list_all utf8_char white_space"
  unfolding white_space_code by (simp add: utf8_char_def continuation_byte_def utf8_width_def byte_def)

lemma utf8_char_prefix:
  assumes "utf8_char w" and "list_all utf8_char cs" and "prefix w (concat cs)"
  shows "\<exists>cs'. cs = w # cs'"
proof (cases cs)
  case (Cons c cs')
  have "w \<noteq> []" "c \<noteq> []" using assms Cons by (auto simp: utf8_char_def)
  with assms Cons have "hd w = hd c" by (auto simp: prefix_def hd_append split: if_splits) (metis hd_append2)
  then have "length w = length c" using assms(1,2) Cons by (simp add: utf8_char_def)
  then show ?thesis using assms(3) Cons by (auto simp: prefix_def)
qed (use assms in \<open>auto simp: utf8_char_def\<close>)

lemma split_at_first:
  "list_all P as \<Longrightarrow> list_all P bs \<Longrightarrow> \<not> P x \<Longrightarrow> \<not> P y \<Longrightarrow> as @ x # r = bs @ y # q \<Longrightarrow>
   as = bs \<and> x # r = y # q"
proof (induction as arbitrary: bs)
  case Nil
  then show ?case by (cases bs) auto
next
  case (Cons a as)
  then show ?case by (cases bs) auto
qed

lemma utf8_char_suffix:
  assumes "utf8_char w" and "list_all utf8_char cs" and "suffix w (concat cs)"
  shows "\<exists>cs'. cs = cs' @ [w]"
proof (cases cs rule: rev_cases)
  case (snoc cs' c)
  obtain p where p: "concat cs' @ c = p @ w" using assms(3) snoc by (auto simp: suffix_def)
  obtain b bs where w: "w = b # bs" "\<not> continuation_byte b" "list_all continuation_byte bs"
    using assms(1) by (auto elim: utf8_char_cases)
  obtain d ds where c: "c = d # ds" "\<not> continuation_byte d" "list_all continuation_byte ds"
    using assms(2) snoc by (auto elim: utf8_char_cases)
  have "rev ds @ d # rev (concat cs') = rev bs @ b # rev p" using arg_cong [OF p, of rev] w c by simp
  then have "rev ds = rev bs \<and> d # rev (concat cs') = b # rev p"
    using w c by (intro split_at_first [of continuation_byte]) simp_all
  then show ?thesis using w c snoc by simp
qed (use assms in \<open>auto simp: utf8_char_def\<close>)

lemma trim_start_chars: "list_all utf8_char cs \<Longrightarrow> \<exists>n. trim_start (concat cs) = concat (drop n cs)"
proof (induction "concat cs" arbitrary: cs rule: trim_start.induct)
  case 1
  show ?case
  proof (cases "find (\<lambda>w. w \<noteq> [] \<and> prefix w (concat cs)) white_space")
    case None
    then show ?thesis by (subst trim_start.simps) (auto intro: exI [of _ 0])
  next
    case (Some w)
    then have w: "utf8_char w" "prefix w (concat cs)"
      using white_space_chars by (auto simp: find_Some_iff list_all_iff)
    then obtain cs' where cs: "cs = w # cs'" using utf8_char_prefix 1(2) by blast
    then obtain n where "trim_start (concat cs') = concat (drop n cs')"
      using 1(1) [OF Some, of cs'] 1(2) by auto
    then show ?thesis using Some cs by (subst trim_start.simps) (auto intro: exI [of _ "Suc n"])
  qed
qed

lemma trim_end_chars:
  "list_all utf8_char cs \<Longrightarrow> \<exists>n. rev (trim_start_rev (rev (concat cs))) = concat (take n cs)"
proof (induction "length cs" arbitrary: cs)
  case (Suc k)
  show ?case
  proof (cases "find (\<lambda>w. w \<noteq> [] \<and> prefix (rev w) (rev (concat cs))) white_space")
    case None
    then show ?thesis by (subst trim_start_rev.simps) (auto intro: exI [of _ "length cs"])
  next
    case (Some w)
    then have "utf8_char w" "suffix w (concat cs)"
      using white_space_chars by (auto simp: find_Some_iff list_all_iff suffix_to_prefix)
    then obtain cs' where cs: "cs = cs' @ [w]" using utf8_char_suffix Suc.prems by blast
    then obtain n where "rev (trim_start_rev (rev (concat cs'))) = concat (take n cs')"
      using Suc by auto
    moreover have "trim_start_rev (rev (concat cs)) = trim_start_rev (rev (concat cs'))"
      using Some cs by (subst trim_start_rev.simps) simp
    ultimately have "rev (trim_start_rev (rev (concat cs))) = concat (take (min n (length cs')) cs)"
      using cs by (simp add: min_def)
    then show ?thesis by blast
  qed
qed (simp add: trim_start_rev.simps find_None_iff [THEN iffD2])

text \<open>A string whose characters are among those of a well-behaved one is well behaved.\<close>

definition tame :: "unicode \<Rightarrow> string \<Rightarrow> bool" where
  "tame U s \<longleftrightarrow> valid_utf8 s \<and> keeps_width U s"

lemma tame_concat:
  assumes "tame U s" and "set ds \<subseteq> set (utf8_chars s)"
  shows "tame U (concat ds)"
  using assms utf8_chars_concat [of ds] unfolding tame_def valid_utf8_def keeps_width_def list_all_iff
  by (metis (no_types, lifting) subsetD)

lemma tame_trim:
  assumes "tame U s"
  shows "tame U (trim s)"
proof -
  have cs: "list_all utf8_char (utf8_chars s)" using assms by (simp add: tame_def valid_utf8_def)
  then obtain n where n: "trim_start s = concat (drop n (utf8_chars s))"
    using trim_start_chars [of "utf8_chars s"] by auto
  have "list_all utf8_char (drop n (utf8_chars s))"
    using cs by (auto simp: list_all_iff dest: in_set_dropD)
  then obtain k where "trim s = concat (take k (drop n (utf8_chars s)))"
    using trim_end_chars n by (auto simp: trim_def)
  moreover have "set (take k (drop n (utf8_chars s))) \<subseteq> set (utf8_chars s)"
    by (meson set_drop_subset set_take_subset subset_trans)
  ultimately show ?thesis using tame_concat [OF assms] by metis
qed

lemma tame_drop_ascii:
  assumes "tame U (s @ [c])" and "byte c < 128"
  shows "tame U s"
proof -
  have "list_all utf8_char (utf8_chars (s @ [c]))" using assms by (simp add: tame_def valid_utf8_def)
  from ascii_boundary [OF this, of s c "[]"] assms(2)
  obtain i where "concat (take i (utf8_chars (s @ [c]))) = s" by auto
  then show ?thesis using tame_concat [OF assms(1)] set_take_subset by metis
qed

lemma tame_trim_end_marks: "tame U s \<Longrightarrow> tame U (trim_end_marks s)"
proof (induction s rule: rev_induct)
  case (snoc c s)
  show ?case
  proof (cases "c \<in> {CHR ''.'', CHR ''!'', CHR ''?''}")
    case True
    then have "byte c < 128" by (auto simp: byte_def)
    then have "tame U s" using tame_drop_ascii snoc.prems by blast
    with True show ?thesis using snoc.IH by (auto simp: trim_end_marks_def)
  qed (use snoc.prems in \<open>simp add: trim_end_marks_def\<close>)
qed (simp add: trim_end_marks_def)

section \<open>The parser does not panic\<close>

lemma slice_at:
  assumes "tame U s" and "\<exists>i. length (concat (take i (utf8_chars s))) = k"
  shows "slice_to s k = Inr (take k s)" and "slice_from s k = Inr (drop k s) \<and> tame U (drop k s)"
proof -
  let ?cs = "utf8_chars s"
  obtain i where k: "length (concat (take i ?cs)) = k" using assms(2) by blast
  have "is_char_boundary s k"
    using boundary_take [of ?cs i] assms(1) k by (simp add: tame_def valid_utf8_def)
  then show "slice_to s k = Inr (take k s)" by (simp add: slice_to_def)
  have "s = concat (take i ?cs) @ concat (drop i ?cs)"
    by (metis append_take_drop_id concat_append concat_utf8_chars)
  then have "drop k s = concat (drop i ?cs)" using k by (metis append_eq_conv_conj)
  then show "slice_from s k = Inr (drop k s) \<and> tame U (drop k s)"
    using \<open>is_char_boundary s k\<close> tame_concat [OF assms(1), of "drop i ?cs"] set_drop_subset
    by (metis slice_from_def)
qed

definition spaced :: "string \<Rightarrow> bool" where
  "spaced w \<longleftrightarrow> w \<noteq> [] \<and> last w = CHR '' ''"

lemma spaced_phrases:
  "list_all spaced (say_prefixes @ my_prefixes)"
  "list_all (\<lambda>w. spaced w \<and> hd w = CHR '' '') (say_separators @ my_separators)"
  by (simp_all add: spaced_def say_prefixes_def my_prefixes_def say_separators_def my_separators_def
      when_i_say_comma_ru_def when_i_say_ru_def i_mean_ru_def my_m_comma_ru_def my_m_ru_def my_f_comma_ru_def
      my_f_ru_def dash_def this_ru_def)

lemma separators_no_panic:
  assumes "tame U r"
  shows "list_all (\<lambda>w. spaced w \<and> hd w = CHR '' '') ws \<Longrightarrow> \<exists>found. try_separators r (to_lowercase U r) ws = Inr found"
proof (induction ws)
  case (Cons w ws)
  show ?case
  proof (cases "find_str w (to_lowercase U r)")
    case None
    then show ?thesis using Cons by simp
  next
    case (Some k)
    then obtain p q where split: "to_lowercase U r = p @ w @ q" "length p = k" using find_str_Some by blast
    have w: "w \<noteq> []" "byte (last w) < 128" "byte (hd w) < 128"
      using Cons.prems by (auto simp: spaced_def byte_def)
    have "valid_utf8 r" "keeps_width U r" using assms by (simp_all add: tame_def)
    note at = lower_boundaries [OF this split(1) w(1,2)]
    from slice_at(1) [OF assms at(2) [OF w(3)]] slice_at(2) [OF assms at(1)] Some split(2) show ?thesis
      by (auto split: option.splits)
  qed
qed simp

lemma prefixes_no_panic:
  assumes "tame U s" and "list_all (\<lambda>w. spaced w \<and> hd w = CHR '' '') ws"
  shows "list_all spaced ps \<Longrightarrow> \<exists>found. try_prefixes U s (to_lowercase U s) ws ps = Inr found"
proof (induction ps)
  case (Cons p ps)
  show ?case
  proof (cases "prefix p (to_lowercase U s)")
    case True
    then obtain q where split: "to_lowercase U s = [] @ p @ q" by (auto simp: prefix_def)
    have p: "p \<noteq> []" "byte (last p) < 128" using Cons.prems by (auto simp: spaced_def byte_def)
    have "valid_utf8 s" "keeps_width U s" using assms(1) by (simp_all add: tame_def)
    then have rest: "slice_from s (length p) = Inr (drop (length p) s)" "tame U (drop (length p) s)"
      using slice_at(2) [OF assms(1)] lower_boundaries(1) [OF _ _ split p] by auto
    obtain found where "try_separators (drop (length p) s) (to_lowercase U (drop (length p) s)) ws = Inr found"
      using separators_no_panic [OF rest(2) assms(2)] by blast
    then show ?thesis using Cons True rest(1) by (auto simp: starts_with_def split: option.splits)
  qed (use Cons in \<open>simp add: starts_with_def\<close>)
qed simp

lemma remember_no_panic:
  assumes "tame U s"
  shows "\<exists>found. parse_remember U s = Inr found"
proof -
  have n: "tame U (trim_end_marks (trim s))" using assms by (intro tame_trim_end_marks tame_trim)
  have phrases: "list_all spaced say_prefixes" "list_all spaced my_prefixes"
    "list_all (\<lambda>w. spaced w \<and> hd w = CHR '' '') say_separators"
    "list_all (\<lambda>w. spaced w \<and> hd w = CHR '' '') my_separators"
    using spaced_phrases by simp_all
  from prefixes_no_panic [OF n phrases(3,1)] prefixes_no_panic [OF n phrases(4,2)] show ?thesis
    by (auto simp: parse_remember_def Let_def split: option.splits)
qed

lemma resolve_local_returns:
  assumes "tame U message"
  shows "\<exists>found. resolve_local U message = Inr found"
proof -
  obtain found where "parse_remember U (trim message) = Inr found"
    using remember_no_panic [OF tame_trim [OF assms]] by blast
  then show ?thesis by (auto simp: resolve_local_def Let_def split: option.splits)
qed

text \<open>
  C35. The parser of local commands returns for every message whose characters keep their width in
  lower case; it then never slices inside a character.
\<close>

theorem local_parser_never_panics:
  assumes "valid_utf8 message" and "keeps_width U message"
  shows "\<exists>found. resolve_local U message = Inr found"
  using assms by (intro resolve_local_returns) (simp add: tame_def)

text \<open>Tables for ASCII letters and digits and the Kelvin sign, the one character outside ASCII whose
  lower case is an ASCII letter.\<close>

definition kelvin :: string where "kelvin = [CHR 0xE2, CHR 0x84, CHR 0xAA]"

definition basic_unicode :: unicode where
  "basic_unicode =
     \<lparr>uc_lower = (\<lambda>c. if c = kelvin then ''k'' else nocase c),
      uc_alphanumeric = (\<lambda>c. list_all is_ascii_alphanumeric c),
      uc_cased = (\<lambda>c. list_all (\<lambda>b. is_ascii_lowercase b \<or> is_ascii_uppercase b) c),
      uc_case_ignorable = (\<lambda>c. c \<in> set [''.'', '':'', [CHR 0x27]])\<rparr>"

theorem local_parser_never_panics_witness:
  "\<exists>found. resolve_local basic_unicode ''Remember that when I say editor I mean Zed.'' = Inr found"
  by (rule local_parser_never_panics) code_simp+

text \<open>The bytes of the separator are counted in the lower-cased text and sliced from the original, so a
  single character of another width stops the daemon's handler.\<close>

lemma kelvin_sign_panics:
  "resolve_local basic_unicode (''remember that my '' @ kelvin @ '' is x'') = Inl Not_a_char_boundary"
  by code_simp

end
