(* ===== verification/Halquen_Dialogue_Facts.thy ===== *)
theory Halquen_Dialogue_Facts
  imports Halquen_Dialogue
begin

text \<open>
  What the interaction tables guarantee: every operation keeps them well formed, cached answers are
  reused only with the approval of the user, and settings and providers are read back as written.
\<close>

section \<open>Well-formed tables\<close>

definition one_default :: "model_row list \<Rightarrow> bool" where
  "one_default rows \<longleftrightarrow> (\<forall>a \<in> set rows. \<forall>b \<in> set rows.
     mdw_is_default a \<and> mdw_is_default b \<and> mdw_provider_id a = mdw_provider_id b \<longrightarrow> mdw_id a = mdw_id b)"

definition credentials_unique :: "provider_row list \<Rightarrow> bool" where
  "credentials_unique rows \<longleftrightarrow> (\<forall>a \<in> set rows. \<forall>b \<in> set rows.
     pvw_credential_id a \<noteq> None \<and> pvw_credential_id a = pvw_credential_id b \<longrightarrow> pvw_id a = pvw_id b)"

definition refers :: "'a set \<Rightarrow> 'a option \<Rightarrow> bool" where
  "refers ids x \<longleftrightarrow> (case x of None \<Rightarrow> True | Some i \<Rightarrow> i \<in> ids)"

definition provider_ids :: "dialogue \<Rightarrow> string set" where
  "provider_ids D = pvw_id ` set (dg_providers D)"

definition model_ids :: "dialogue \<Rightarrow> string set" where
  "model_ids D = mdw_id ` set (dg_models D)"

definition session_ids :: "dialogue \<Rightarrow> string set" where
  "session_ids D = cs_id ` set (dg_sessions D)"

text \<open>What the schema promises its readers, table by table.\<close>

definition settings_ok :: "dialogue \<Rightarrow> bool" where
  "settings_ok D \<longleftrightarrow> (\<exists>s now. dg_settings D = [settings_to_row s now] \<and> settings_validate s = Inr ())"

definition catalogue_ok :: "dialogue \<Rightarrow> bool" where
  "catalogue_ok D \<longleftrightarrow>
     distinct (map pvw_id (dg_providers D)) \<and> credentials_unique (dg_providers D)
     \<and> distinct (map mdw_id (dg_models D)) \<and> one_default (dg_models D)
     \<and> mdw_provider_id ` set (dg_models D) \<subseteq> provider_ids D
     \<and> distinct (dg_model_tasks D) \<and> fst ` set (dg_model_tasks D) \<subseteq> model_ids D"

definition chats_ok :: "dialogue \<Rightarrow> bool" where
  "chats_ok D \<longleftrightarrow>
     distinct (map cs_id (dg_sessions D)) \<and> distinct (map mgw_id (dg_messages D)) \<and> distinct (map acw_id (dg_activity D))
     \<and> (\<forall>row \<in> set (dg_messages D). mgw_session_id row \<in> session_ids D
          \<and> refers (provider_ids D) (mgw_provider_id row) \<and> refers (model_ids D) (mgw_model_id row))
     \<and> (\<forall>row \<in> set (dg_activity D). refers (session_ids D) (acw_session_id row))"

definition cache_ok :: "dialogue \<Rightarrow> bool" where
  "cache_ok D \<longleftrightarrow>
     distinct (map chw_id (dg_cache D)) \<and> distinct (map cache_key (dg_cache D))
     \<and> (\<forall>row \<in> set (dg_cache D). refers (provider_ids D) (chw_original_provider_id row)
          \<and> refers (model_ids D) (chw_original_model_id row)
          \<and> 0 \<le> chw_confidence_permille row \<and> chw_confidence_permille row \<le> 1000)"

definition usage_ok :: "dialogue \<Rightarrow> bool" where
  "usage_ok D \<longleftrightarrow> (\<exists>row. dg_usage D = [row] \<and> length row = 10 \<and> list_all (\<lambda>n. 0 \<le> n) row)"

definition dialogue_ok :: "dialogue \<Rightarrow> bool" where
  "dialogue_ok D \<longleftrightarrow> settings_ok D \<and> catalogue_ok D \<and> chats_ok D \<and> cache_ok D \<and> usage_ok D"

lemmas table_defs = provider_ids_def model_ids_def session_ids_def

text \<open>Each condition reads only its own tables.\<close>

lemma dialogue_frames [simp]:
  "settings_ok (D\<lparr>dg_providers := x_providers\<rparr>) = settings_ok D"
  "settings_ok (D\<lparr>dg_models := x_models\<rparr>) = settings_ok D"
  "settings_ok (D\<lparr>dg_model_tasks := x_model_tasks\<rparr>) = settings_ok D"
  "settings_ok (D\<lparr>dg_sessions := x_sessions\<rparr>) = settings_ok D"
  "settings_ok (D\<lparr>dg_messages := x_messages\<rparr>) = settings_ok D"
  "settings_ok (D\<lparr>dg_activity := x_activity\<rparr>) = settings_ok D"
  "settings_ok (D\<lparr>dg_cache := x_cache\<rparr>) = settings_ok D"
  "settings_ok (D\<lparr>dg_usage := x_usage\<rparr>) = settings_ok D"
  "settings_ok (D\<lparr>dg_corrections := x_corrections\<rparr>) = settings_ok D"
  "catalogue_ok (D\<lparr>dg_settings := x_settings\<rparr>) = catalogue_ok D"
  "catalogue_ok (D\<lparr>dg_sessions := x_sessions\<rparr>) = catalogue_ok D"
  "catalogue_ok (D\<lparr>dg_messages := x_messages\<rparr>) = catalogue_ok D"
  "catalogue_ok (D\<lparr>dg_activity := x_activity\<rparr>) = catalogue_ok D"
  "catalogue_ok (D\<lparr>dg_cache := x_cache\<rparr>) = catalogue_ok D"
  "catalogue_ok (D\<lparr>dg_usage := x_usage\<rparr>) = catalogue_ok D"
  "catalogue_ok (D\<lparr>dg_corrections := x_corrections\<rparr>) = catalogue_ok D"
  "chats_ok (D\<lparr>dg_settings := x_settings\<rparr>) = chats_ok D"
  "chats_ok (D\<lparr>dg_model_tasks := x_model_tasks\<rparr>) = chats_ok D"
  "chats_ok (D\<lparr>dg_cache := x_cache\<rparr>) = chats_ok D"
  "chats_ok (D\<lparr>dg_usage := x_usage\<rparr>) = chats_ok D"
  "chats_ok (D\<lparr>dg_corrections := x_corrections\<rparr>) = chats_ok D"
  "cache_ok (D\<lparr>dg_settings := x_settings\<rparr>) = cache_ok D"
  "cache_ok (D\<lparr>dg_model_tasks := x_model_tasks\<rparr>) = cache_ok D"
  "cache_ok (D\<lparr>dg_sessions := x_sessions\<rparr>) = cache_ok D"
  "cache_ok (D\<lparr>dg_messages := x_messages\<rparr>) = cache_ok D"
  "cache_ok (D\<lparr>dg_activity := x_activity\<rparr>) = cache_ok D"
  "cache_ok (D\<lparr>dg_usage := x_usage\<rparr>) = cache_ok D"
  "cache_ok (D\<lparr>dg_corrections := x_corrections\<rparr>) = cache_ok D"
  "usage_ok (D\<lparr>dg_settings := x_settings\<rparr>) = usage_ok D"
  "usage_ok (D\<lparr>dg_providers := x_providers\<rparr>) = usage_ok D"
  "usage_ok (D\<lparr>dg_models := x_models\<rparr>) = usage_ok D"
  "usage_ok (D\<lparr>dg_model_tasks := x_model_tasks\<rparr>) = usage_ok D"
  "usage_ok (D\<lparr>dg_sessions := x_sessions\<rparr>) = usage_ok D"
  "usage_ok (D\<lparr>dg_messages := x_messages\<rparr>) = usage_ok D"
  "usage_ok (D\<lparr>dg_activity := x_activity\<rparr>) = usage_ok D"
  "usage_ok (D\<lparr>dg_cache := x_cache\<rparr>) = usage_ok D"
  "usage_ok (D\<lparr>dg_corrections := x_corrections\<rparr>) = usage_ok D"
  by (simp_all add: settings_ok_def catalogue_ok_def chats_ok_def cache_ok_def usage_ok_def table_defs)

lemma empty_dialogue_ok: "dialogue_ok empty_dialogue"
proof -
  have "settings_ok empty_dialogue" using default_settings_valid by (auto simp: settings_ok_def empty_dialogue_def)
  then show ?thesis
    by (simp add: dialogue_ok_def catalogue_ok_def chats_ok_def cache_ok_def usage_ok_def empty_dialogue_def
        credentials_unique_def one_default_def list_all_iff)
qed

interpretation provider_rows: keyed_rows pvw_id merge_provider
  by unfold_locales (simp add: merge_provider_def)

interpretation model_rows: keyed_rows mdw_id "\<lambda>_ new. new"
  by unfold_locales simp

interpretation cache_rows: keyed_rows cache_key "\<lambda>_ new. new"
  by unfold_locales simp

lemma settings_update_ok:
  assumes "dialogue_ok D" and "update_application_settings s now D = (r, D')"
  shows "dialogue_ok D'"
proof (cases r)
  case (Inl e)
  then have "D' = D" using assms(2) by (auto simp: update_application_settings_def split: sum.splits if_splits prod.splits)
  with assms(1) show ?thesis by simp
next
  case (Inr u)
  then have valid: "settings_validate s = Inr ()"
    and D': "D' = D\<lparr>dg_settings := map (\<lambda>_. settings_to_row s now) (dg_settings D)\<rparr>"
    using assms(2) by (auto simp: update_application_settings_def update_rows_def split: sum.splits if_splits)
  obtain row where "dg_settings D = [row]" using assms(1) by (auto simp: dialogue_ok_def settings_ok_def)
  then have "settings_ok D'" using valid by (auto simp: D' settings_ok_def)
  with assms(1) show ?thesis by (simp add: D' dialogue_ok_def)
qed

lemma refers_mono: "refers A x \<Longrightarrow> A \<subseteq> B \<Longrightarrow> refers B x"
  by (auto simp: refers_def split: option.splits)

lemma upsert_ids: "key ` set (upsert_row key merge new rows) = insert (key new) (key ` set rows)"
  if "\<And>old. key old = key new \<Longrightarrow> key (merge old new) = key new"
proof (cases "list_ex (\<lambda>r. key r = key new) rows")
  case True
  then have "map key (upsert_row key merge new rows) = map key rows"
    using that by (simp add: upsert_row_def)
  then have "key ` set (upsert_row key merge new rows) = key ` set rows" by (metis set_map)
  moreover have "key new \<in> key ` set rows" using True by (auto simp: list_ex_iff) (metis imageI)
  ultimately show ?thesis by auto
next
  case False
  then show ?thesis by (simp add: upsert_row_def)
qed

lemma provider_upsert_ok:
  assumes "dialogue_ok D" and "dialogue_upsert_provider p D = (r, D')"
  shows "dialogue_ok D'"
proof (cases r)
  case (Inl e)
  then have "D' = D" using assms(2) by (auto simp: dialogue_upsert_provider_def Let_def split: if_splits)
  with assms(1) show ?thesis by simp
next
  case (Inr u)
  let ?row = "provider_to_row p" and ?rows = "upsert_row pvw_id merge_provider (provider_to_row p) (dg_providers D)"
  have D': "D' = D\<lparr>dg_providers := ?rows\<rparr>" and free: "\<not> credential_taken D ?row"
    using Inr assms(2) by (auto simp: dialogue_upsert_provider_def Let_def split: if_splits)
  have ids: "pvw_id ` set ?rows = insert (pvw_id ?row) (pvw_id ` set (dg_providers D))"
    by (rule upsert_ids) (simp add: merge_provider_def)
  have "distinct (map pvw_id ?rows)"
    using provider_rows.keyed_upsert [of "dg_providers D" ?row] assms(1)
    by (simp add: provider_rows.keyed_def dialogue_ok_def catalogue_ok_def)
  moreover have "credentials_unique ?rows"
  proof -
    have "pvw_credential_id a = pvw_credential_id ?row \<and> pvw_id a = pvw_id ?row \<or> a \<in> set (dg_providers D) \<and> pvw_id a \<noteq> pvw_id ?row"
      if "a \<in> set ?rows" for a
      using provider_rows.set_upsert [OF that] by (auto simp: merge_provider_def)
    moreover have "pvw_credential_id ?row = None \<or> pvw_credential_id a \<noteq> pvw_credential_id ?row"
      if "a \<in> set (dg_providers D)" "pvw_id a \<noteq> pvw_id ?row" for a
      using free that by (auto simp: credential_taken_def list_ex_iff)
    moreover have "credentials_unique (dg_providers D)" using assms(1) by (simp add: dialogue_ok_def catalogue_ok_def)
    ultimately show ?thesis unfolding credentials_unique_def by metis
  qed
  ultimately have "catalogue_ok D'"
    using assms(1) ids by (auto simp: D' dialogue_ok_def catalogue_ok_def table_defs)
  moreover have mono: "provider_ids D \<subseteq> provider_ids D'" using ids by (auto simp: D' table_defs)
  moreover have "chats_ok D'" "cache_ok D'"
    using assms(1) refers_mono [OF _ mono] by (auto simp: D' dialogue_ok_def chats_ok_def cache_ok_def table_defs)
  ultimately show ?thesis using assms(1) by (simp add: D' dialogue_ok_def)
qed

lemma unique_subset:
  "credentials_unique rows \<Longrightarrow> set rows' \<subseteq> set rows \<Longrightarrow> credentials_unique rows'"
  "one_default models \<Longrightarrow> set models' \<subseteq> set models \<Longrightarrow> one_default models'"
  unfolding credentials_unique_def one_default_def by (meson subsetD)+

lemma forget_refers:
  "refers A x \<Longrightarrow> (\<And>a. a \<in> A \<Longrightarrow> \<not> P a \<Longrightarrow> a \<in> B) \<Longrightarrow> refers B (forget_if P x)"
  by (auto simp: refers_def forget_if_def split: option.splits)

lemma provider_remove_ok:
  assumes "dialogue_ok D" and "dialogue_remove_provider i D = (r, D')"
  shows "dialogue_ok D'"
proof (cases "i \<in> provider_ids D")
  case False
  then have "D' = D"
    using assms(2) by (auto simp: dialogue_remove_provider_def delete_rows_def Let_def table_defs filter_empty_conv)
  with assms(1) show ?thesis by simp
next
  case True
  let ?gone = "\<lambda>model. list_ex (\<lambda>row. mdw_id row = model \<and> mdw_provider_id row = i) (dg_models D)"
  from True have "filter (\<lambda>row. pvw_id row = i) (dg_providers D) \<noteq> []" by (auto simp: table_defs filter_empty_conv)
  then have D': "D' = D\<lparr>dg_providers := filter (\<lambda>row. pvw_id row \<noteq> i) (dg_providers D),
      dg_models := filter (\<lambda>row. mdw_provider_id row \<noteq> i) (dg_models D),
      dg_model_tasks := filter (\<lambda>(model, _). \<not> ?gone model) (dg_model_tasks D),
      dg_messages := map (\<lambda>row. row\<lparr>mgw_provider_id := forget_if (\<lambda>p. p = i) (mgw_provider_id row),
          mgw_model_id := forget_if ?gone (mgw_model_id row)\<rparr>) (dg_messages D),
      dg_cache := map (\<lambda>row. row\<lparr>chw_original_provider_id := forget_if (\<lambda>p. p = i) (chw_original_provider_id row),
          chw_original_model_id := forget_if ?gone (chw_original_model_id row)\<rparr>) (dg_cache D)\<rparr>"
    using assms(2) by (auto simp: dialogue_remove_provider_def delete_rows_def Let_def)
  have ok: "catalogue_ok D" "chats_ok D" "cache_ok D" "settings_ok D" "usage_ok D" using assms(1) by (simp_all add: dialogue_ok_def)
  have providers: "a \<in> provider_ids D' \<longleftrightarrow> a \<in> provider_ids D \<and> a \<noteq> i" for a by (auto simp: D' table_defs)
  have models: "a \<in> model_ids D' \<longleftrightarrow> a \<in> model_ids D \<and> \<not> ?gone a" for a
  proof -
    have "inj_on mdw_id (set (dg_models D))" using ok(1) by (simp add: catalogue_ok_def distinct_map)
    then show ?thesis by (auto simp: D' table_defs list_ex_iff inj_on_def)
  qed
  have "catalogue_ok D'"
    using ok(1) models unfolding catalogue_ok_def
    by (auto simp: D' table_defs distinct_map_filter elim: unique_subset)
  moreover have refs: "refers (provider_ids D) x \<Longrightarrow> refers (provider_ids D') (forget_if (\<lambda>p. p = i) x)"
    "refers (model_ids D) x \<Longrightarrow> refers (model_ids D') (forget_if ?gone x)" for x
    by (rule forget_refers, assumption, simp add: providers models)+
  have messages: "dg_messages D' = map (\<lambda>row. row\<lparr>mgw_provider_id := forget_if (\<lambda>p. p = i) (mgw_provider_id row),
      mgw_model_id := forget_if ?gone (mgw_model_id row)\<rparr>) (dg_messages D)"
    and cache: "dg_cache D' = map (\<lambda>row. row\<lparr>chw_original_provider_id := forget_if (\<lambda>p. p = i) (chw_original_provider_id row),
      chw_original_model_id := forget_if ?gone (chw_original_model_id row)\<rparr>) (dg_cache D)"
    and rest: "dg_sessions D' = dg_sessions D" "dg_activity D' = dg_activity D" "session_ids D' = session_ids D"
    by (simp_all add: D' session_ids_def)
  have "chats_ok D'" using ok(2) unfolding chats_ok_def messages rest by (simp add: comp_def refs)
  moreover have "cache_ok D'" using ok(3) unfolding cache_ok_def cache by (simp add: comp_def cache_key_def [abs_def] refs)
  ultimately show ?thesis using ok(4,5) by (simp add: D' dialogue_ok_def)
qed

lemma cleared_defaults:
  assumes "one_default rows"
  shows "one_default (clear_defaults m rows)"
    and "am_is_default m \<Longrightarrow> a \<in> set (clear_defaults m rows) \<Longrightarrow> mdw_provider_id a = am_provider_id m \<Longrightarrow>
      mdw_id a \<noteq> am_id m \<Longrightarrow> \<not> mdw_is_default a"
proof -
  have row: "\<exists>b \<in> set rows. mdw_id a = mdw_id b \<and> mdw_provider_id a = mdw_provider_id b
      \<and> (mdw_is_default a \<longrightarrow> mdw_is_default b \<and> (am_is_default m \<longrightarrow> mdw_provider_id b = am_provider_id m \<longrightarrow> mdw_id b = am_id m))"
    if "a \<in> set (clear_defaults m rows)" for a
    using that unfolding clear_defaults_def by (cases "am_is_default m") fastforce+
  show "one_default (clear_defaults m rows)"
    using assms row unfolding one_default_def by metis
  show "am_is_default m \<Longrightarrow> a \<in> set (clear_defaults m rows) \<Longrightarrow> mdw_provider_id a = am_provider_id m \<Longrightarrow>
      mdw_id a \<noteq> am_id m \<Longrightarrow> \<not> mdw_is_default a"
    using row by metis
qed

lemma model_to_row_default:
  "mdw_is_default (model_to_row m) = am_is_default m" "mdw_provider_id (model_to_row m) = am_provider_id m"
  "mdw_id (model_to_row m) = am_id m"
  by (simp_all add: model_to_row_def)

lemma model_upsert_ok:
  assumes "dialogue_ok D" and "dialogue_upsert_model m D = (r, D')"
  shows "dialogue_ok D'"
proof (cases r)
  case (Inl e)
  then have "D' = D" using assms(2) by (auto simp: dialogue_upsert_model_def split: if_splits)
  with assms(1) show ?thesis by simp
next
  case (Inr u)
  let ?row = "model_to_row m" and ?base = "clear_defaults m (dg_models D)"
  let ?rows = "upsert_row mdw_id (\<lambda>_ new. new) ?row ?base"
  let ?kept = "filter (\<lambda>(model, _). model \<noteq> am_id m) (dg_model_tasks D)"
  have D': "D' = D\<lparr>dg_models := ?rows, dg_model_tasks := ?kept @ map (\<lambda>task. (am_id m, encode_ai_task task)) (am_task_eligibility m)\<rparr>"
    and free: "\<not> model_conflict D m"
    using Inr assms(2) by (auto simp: dialogue_upsert_model_def split: if_splits)
  have ok: "catalogue_ok D" "chats_ok D" "cache_ok D" "settings_ok D" "usage_ok D" using assms(1) by (simp_all add: dialogue_ok_def)
  have base: "map mdw_id ?base = map mdw_id (dg_models D)" "map mdw_provider_id ?base = map mdw_provider_id (dg_models D)"
    by (simp_all add: clear_defaults_def)
  then have base_ids: "mdw_id ` set ?base = mdw_id ` set (dg_models D)"
    "mdw_provider_id ` set ?base = mdw_provider_id ` set (dg_models D)"
    by (metis set_map)+
  have ids: "mdw_id ` set ?rows = insert (am_id m) (mdw_id ` set (dg_models D))"
    using upsert_ids [of mdw_id ?row "\<lambda>_ new. new" ?base] by (simp add: base_ids model_to_row_def)
  have new: "a = ?row \<or> a \<in> set ?base \<and> mdw_id a \<noteq> am_id m" if "a \<in> set ?rows" for a
    using model_rows.set_upsert [OF that] by (auto simp: model_to_row_def)
  have "distinct (map mdw_id ?rows)"
    using model_rows.keyed_upsert [of ?base ?row] base(1) ok(1) by (simp add: model_rows.keyed_def catalogue_ok_def)
  moreover have "one_default ?rows"
    using new cleared_defaults [of "dg_models D" m] ok(1) unfolding one_default_def catalogue_ok_def
    by (metis model_to_row_default)
  moreover have "mdw_provider_id ` set ?rows \<subseteq> provider_ids D"
  proof -
    have "mdw_provider_id ?row \<in> provider_ids D"
      using free by (auto simp: model_conflict_def list_ex_iff model_to_row_def provider_ids_def) (metis imageI)
    moreover have "mdw_provider_id a \<in> provider_ids D" if "a \<in> set ?base" for a
      using that ok(1) base_ids(2) unfolding catalogue_ok_def by (metis imageI subsetD)
    ultimately show ?thesis using new by auto
  qed
  moreover have "distinct (dg_model_tasks D')" "fst ` set (dg_model_tasks D') \<subseteq> model_ids D'"
  proof -
    have "inj encode_ai_task" by (simp add: inj_def ai_task_codec.encode_inject)
    then have "distinct (map (\<lambda>task. (am_id m, encode_ai_task task)) (am_task_eligibility m))"
      using free by (auto simp: model_conflict_def distinct_map inj_on_def)
    then show "distinct (dg_model_tasks D')" using ok(1) by (auto simp: D' catalogue_ok_def)
    show "fst ` set (dg_model_tasks D') \<subseteq> model_ids D'"
      using ok(1) ids by (auto simp: D' catalogue_ok_def model_ids_def)
  qed
  ultimately have "catalogue_ok D'" using ok(1) by (simp add: D' catalogue_ok_def provider_ids_def)
  moreover have mono: "model_ids D \<subseteq> model_ids D'" using ids by (auto simp: D' model_ids_def)
  moreover have "chats_ok D'" "cache_ok D'"
    using ok(2,3) refers_mono [OF _ mono] by (auto simp: D' chats_ok_def cache_ok_def table_defs)
  ultimately show ?thesis using ok(4,5) by (simp add: D' dialogue_ok_def)
qed

lemma session_ensure_ok:
  assumes "dialogue_ok D" and "ensure_chat_session generated requested title now D = (r, D')"
  shows "dialogue_ok D'" "\<And>session. r = Inr session \<Longrightarrow> cs_id session \<in> session_ids D'"
proof -
  have "D' = D \<and> (\<forall>session. r = Inr session \<longrightarrow> cs_id session \<in> session_ids D)
    \<or> (\<exists>s. r = Inr s \<and> D' = D\<lparr>dg_sessions := dg_sessions D @ [s]\<rparr> \<and> cs_id s \<notin> session_ids D)"
    using assms(2)
    by (auto simp: ensure_chat_session_def dialogue_session_def chat_session_from_row_def opaque_def OpaqueId_new_def
        and_then_def map_err_def session_ids_def list_ex_iff Let_def row_of_def find_Some_iff
        split: option.splits sum.splits if_splits)
  moreover have "refers (session_ids D) x \<Longrightarrow> refers (session_ids (D\<lparr>dg_sessions := dg_sessions D @ [s]\<rparr>)) x" for x s
    by (rule refers_mono) (auto simp: session_ids_def)
  ultimately show "dialogue_ok D'" "\<And>session. r = Inr session \<Longrightarrow> cs_id session \<in> session_ids D'"
    using assms(1) by (auto simp: dialogue_ok_def chats_ok_def table_defs)
qed

lemma known_refers:
  "known_provider D x = refers (provider_ids D) x" "known_model D y = refers (model_ids D) y"
  "known_session D z = refers (session_ids D) z"
  by (auto simp: known_provider_def known_model_def known_session_def refers_def table_defs list_ex_iff split: option.splits)

lemma fresh_key: "list_ex (\<lambda>row. key row = k) rows \<longleftrightarrow> k \<in> key ` set rows"
  by (auto simp: list_ex_iff)

lemma message_append_cases:
  assumes "append_chat_message m D = (r, D')"
  obtains (failed) e where "r = Inl e" "D' = D"
  | (stored) latency where "r = Inr ()" "sql_i64_option (cm_latency_ms m) = Inr latency"
      "D' = D\<lparr>dg_messages := dg_messages D @ [message_to_row m latency],
         dg_sessions := map (\<lambda>s. if cs_id s = cm_session_id m then s\<lparr>cs_updated_at_ms := cm_created_at_ms m\<rparr> else s) (dg_sessions D)\<rparr>"
      "cm_id m \<notin> mgw_id ` set (dg_messages D)" "cm_session_id m \<in> session_ids D"
      "refers (provider_ids D) (cm_provider_id m)" "refers (model_ids D) (cm_model_id m)"
      "trim (cm_content m) \<noteq> []" "length (cm_content m) \<le> 65536"
  using assms
  by (auto simp: append_chat_message_def known_refers fresh_key refers_def [of "session_ids D" "Some _"]
      split: if_splits sum.splits)

lemma message_append_ok:
  assumes "dialogue_ok D" and "append_chat_message m D = (r, D')"
  shows "dialogue_ok D'" "session_ids D' = session_ids D"
proof -
  have sessions: "map cs_id (dg_sessions D') = map cs_id (dg_sessions D)"
    using assms(2) by (cases rule: message_append_cases) simp_all
  then show ids: "session_ids D' = session_ids D" unfolding session_ids_def by (metis set_map)
  from assms(2) show "dialogue_ok D'"
  proof (cases rule: message_append_cases)
    case (stored latency)
    have same: "session_ids D' = session_ids D" "provider_ids D' = provider_ids D" "model_ids D' = model_ids D"
      by (rule ids, simp_all add: stored(3) table_defs)
    have "chats_ok D'"
      using assms(1) stored(4-7) sessions unfolding chats_ok_def dialogue_ok_def same
      by (simp add: stored(3) message_to_row_def del: map_map)
    with assms(1) show ?thesis by (simp add: stored(3) dialogue_ok_def)
  qed (use assms(1) in simp)
qed

lemma activity_append_ok:
  assumes "dialogue_ok D" and "append_activity e D = (r, D')"
  shows "dialogue_ok D'" "session_ids D' = session_ids D"
proof -
  have "D' = D \<or> D' = D\<lparr>dg_activity := dg_activity D @ [activity_to_row e]\<rparr> \<and> ae_id e \<notin> acw_id ` set (dg_activity D)
      \<and> refers (session_ids D) (ae_session_id e)"
    using assms(2) by (auto simp: append_activity_def known_refers list_ex_iff split: if_splits)
  then show "dialogue_ok D'" "session_ids D' = session_ids D"
    using assms(1) by (auto simp: dialogue_ok_def chats_ok_def activity_to_row_def table_defs)
qed

lemma candidate_store_cases:
  assumes "store_response_candidate e D = (r, D')"
  obtains (failed) error where "r = Inl error" "D' = D"
  | (stored) counts where "r = Inr ()" "D' = D\<lparr>dg_cache := upsert_row cache_key (\<lambda>_ new. new) (cache_to_row e counts) (dg_cache D)\<rparr>"
      "refers (provider_ids D) (ca_original_provider_id e)" "refers (model_ids D) (ca_original_model_id e)"
      "\<And>row. row \<in> set (dg_cache D) \<Longrightarrow> chw_id row = ca_id e \<Longrightarrow> cache_key row = cache_key (cache_to_row e counts)"
      "ca_confidence_permille e \<le> 1000"
  using assms
  by (auto simp: store_response_candidate_def known_refers list_ex_iff Let_def split: if_splits sum.splits)

lemma candidate_store_ok:
  assumes "dialogue_ok D" and "store_response_candidate e D = (r, D')"
  shows "dialogue_ok D'"
  using assms(2)
proof (cases rule: candidate_store_cases)
  case (stored counts)
  let ?row = "cache_to_row e counts" and ?rows = "upsert_row cache_key (\<lambda>_ new. new) (cache_to_row e counts) (dg_cache D)"
  have ok: "cache_ok D" using assms(1) by (simp add: dialogue_ok_def)
  have new: "a = ?row \<or> a \<in> set (dg_cache D) \<and> cache_key a \<noteq> cache_key ?row" if "a \<in> set ?rows" for a
    using cache_rows.set_upsert [OF that] by auto
  have keys: "distinct (map cache_key ?rows)"
    using cache_rows.keyed_upsert [of "dg_cache D" ?row] ok by (simp add: cache_rows.keyed_def cache_ok_def)
  have "inj_on chw_id (set ?rows)"
  proof (rule inj_onI)
    fix a b assume "a \<in> set ?rows" "b \<in> set ?rows" "chw_id a = chw_id b"
    with new [of a] new [of b] stored(5) ok show "a = b"
      by (auto simp: cache_ok_def cache_to_row_def distinct_map inj_on_def)
  qed
  then have "distinct (map chw_id ?rows)" using keys by (simp add: distinct_map)
  moreover have "refers (provider_ids D) (chw_original_provider_id a) \<and> refers (model_ids D) (chw_original_model_id a)
      \<and> 0 \<le> chw_confidence_permille a \<and> chw_confidence_permille a \<le> 1000" if "a \<in> set ?rows" for a
    using new [OF that] ok stored(3,4,6) by (auto simp: cache_ok_def cache_to_row_def)
  ultimately have "cache_ok D'" using keys by (simp add: stored(2) cache_ok_def table_defs)
  with assms(1) show ?thesis by (simp add: stored(2) dialogue_ok_def)
qed (use assms(1) in simp)

lemma usage_add_ok:
  assumes "usage_ok D" and "list_all (\<lambda>n. 0 \<le> n) delta" and "length delta = 10"
  shows "usage_ok (D\<lparr>dg_usage := add_usage_columns delta (dg_usage D)\<rparr>)"
proof -
  obtain row where row: "dg_usage D = [row]" "length row = 10" "list_all (\<lambda>n. 0 \<le> n) row"
    using assms(1) by (auto simp: usage_ok_def)
  then have "list_all (\<lambda>n. 0 \<le> n) (map2 (+) row delta)"
    using assms(2,3) by (simp add: list_all_length)
  with row assms(3) show ?thesis by (simp add: usage_ok_def add_usage_columns_def)
qed

lemma usage_record_ok:
  assumes "dialogue_ok D" and "add_usage delta D = (r, D')"
  shows "dialogue_ok D'"
proof (cases r)
  case (Inl e)
  then show ?thesis using assms by (auto simp: add_usage_def split: sum.splits)
next
  case (Inr u)
  then obtain columns where columns: "collect_rows sql_i64 (usage_columns delta) = Inr columns"
    and D': "D' = D\<lparr>dg_usage := add_usage_columns columns (dg_usage D)\<rparr>"
    using assms(2) by (auto simp: add_usage_def split: sum.splits)
  have "list_all (\<lambda>n. 0 \<le> n) columns" "length columns = 10"
    using columns by (auto simp: usage_columns_def and_then_Inr_iff sql_i64_def split: if_splits)
  then show ?thesis using assms(1) usage_add_ok by (simp add: D' dialogue_ok_def)
qed

lemma cache_update_ok:
  assumes "cache_ok D" and "\<And>row. chw_id (f row) = chw_id row \<and> cache_key (f row) = cache_key row
      \<and> chw_original_provider_id (f row) = chw_original_provider_id row \<and> chw_original_model_id (f row) = chw_original_model_id row"
    and "\<And>row. 0 \<le> chw_confidence_permille row \<Longrightarrow> chw_confidence_permille row \<le> 1000 \<Longrightarrow>
      0 \<le> chw_confidence_permille (f row) \<and> chw_confidence_permille (f row) \<le> 1000"
  shows "cache_ok (D\<lparr>dg_cache := map (\<lambda>row. if P row then f row else row) (dg_cache D)\<rparr>)"
proof -
  let ?f = "\<lambda>row. if P row then f row else row"
  have "map chw_id (map ?f rows) = map chw_id rows" "map cache_key (map ?f rows) = map cache_key rows" for rows
    by (simp_all add: assms(2))
  then show ?thesis using assms unfolding cache_ok_def by (auto simp: table_defs simp del: map_map)
qed

lemma cache_hit_ok:
  assumes "dialogue_ok D" and "record_cache_hit i now tokens D = (r, D')"
  shows "dialogue_ok D'"
proof (cases r)
  case (Inl e)
  then show ?thesis using assms by (auto simp: record_cache_hit_def split: sum.splits prod.splits if_splits)
next
  case (Inr u)
  let ?f = "\<lambda>n row. row\<lparr>chw_last_used_at_ms := Some now, chw_usage_count := chw_usage_count row + 1,
     chw_estimated_tokens_avoided := chw_estimated_tokens_avoided row + n\<rparr>"
  let ?n = "int tokens"
  from Inr assms(2) have D': "D' = D\<lparr>dg_cache := map (\<lambda>row. if chw_id row = i then ?f ?n row else row) (dg_cache D),
      dg_usage := add_usage_columns [0, 0, 0, 0, 0, 0, 1, 0, 0, ?n] (dg_usage D)\<rparr>"
    by (auto simp: record_cache_hit_def update_rows_def sql_i64_def split: sum.splits if_splits)
  have "cache_ok (D\<lparr>dg_cache := map (\<lambda>row. if chw_id row = i then ?f ?n row else row) (dg_cache D)\<rparr>)"
    using assms(1) by (intro cache_update_ok) (simp_all add: dialogue_ok_def cache_key_def)
  moreover have "usage_ok (D\<lparr>dg_usage := add_usage_columns [0, 0, 0, 0, 0, 0, 1, 0, 0, ?n] (dg_usage D)\<rparr>)"
    using assms(1) by (intro usage_add_ok) (simp_all add: dialogue_ok_def)
  ultimately show ?thesis using assms(1) by (simp add: D' dialogue_ok_def usage_ok_def)
qed

lemma feedback_ok:
  assumes "dialogue_ok D" and "apply_response_feedback i feedback D = (r, D')"
  shows "dialogue_ok D'"
proof (cases r)
  case (Inl e)
  then show ?thesis using assms by (auto simp: apply_response_feedback_def split: prod.splits if_splits)
next
  case (Inr u)
  then have D': "D' = D\<lparr>dg_cache := map (\<lambda>row. if chw_id row = i then feed_back feedback row else row) (dg_cache D)\<rparr>"
    using assms(2) by (auto simp: apply_response_feedback_def update_rows_def split: if_splits)
  have "cache_ok D'" unfolding D' using assms(1)
    by (intro cache_update_ok) (auto simp: dialogue_ok_def feed_back_def cache_key_def clamp_permille_def split: prod.splits)
  with assms(1) show ?thesis by (simp add: D' dialogue_ok_def)
qed

lemma correction_ok: "dialogue_ok D \<Longrightarrow> record_correction c D = (r, D') \<Longrightarrow> dialogue_ok D'"
  by (auto simp: record_correction_def dialogue_ok_def split: if_splits)

section \<open>Properties\<close>

text \<open>One operation of the storage interface, whatever its outcome.\<close>

inductive dialogue_step :: "dialogue \<Rightarrow> dialogue \<Rightarrow> bool" where
  settings: "update_application_settings s now D = (r, D') \<Longrightarrow> dialogue_step D D'"
| upsert_provider: "dialogue_upsert_provider p D = (r, D') \<Longrightarrow> dialogue_step D D'"
| remove_provider: "dialogue_remove_provider i D = (r, D') \<Longrightarrow> dialogue_step D D'"
| upsert_model: "dialogue_upsert_model m D = (r, D') \<Longrightarrow> dialogue_step D D'"
| session: "ensure_chat_session generated requested title now D = (r, D') \<Longrightarrow> dialogue_step D D'"
| message: "append_chat_message msg D = (r, D') \<Longrightarrow> dialogue_step D D'"
| activity: "append_activity e D = (r, D') \<Longrightarrow> dialogue_step D D'"
| candidate: "store_response_candidate c D = (r, D') \<Longrightarrow> dialogue_step D D'"
| hit: "record_cache_hit i now tokens D = (r, D') \<Longrightarrow> dialogue_step D D'"
| feedback: "apply_response_feedback i f D = (r, D') \<Longrightarrow> dialogue_step D D'"
| usage: "add_usage u D = (r, D') \<Longrightarrow> dialogue_step D D'"
| correction: "record_correction x D = (r, D') \<Longrightarrow> dialogue_step D D'"

inductive_cases dialogue_stepE: "dialogue_step D D'"

lemma dialogue_step_ok: "dialogue_step D D' \<Longrightarrow> dialogue_ok D \<Longrightarrow> dialogue_ok D'"
  by (elim dialogue_stepE)
    (blast intro: settings_update_ok provider_upsert_ok provider_remove_ok model_upsert_ok session_ensure_ok
      message_append_ok activity_append_ok candidate_store_ok cache_hit_ok feedback_ok usage_record_ok correction_ok)+

text \<open>The texts of the enumerations, and the numbers the schema bounds, are ones the readers accept.\<close>

definition parsed_option :: "(string \<Rightarrow> 'a option) \<Rightarrow> string option \<Rightarrow> bool" where
  "parsed_option parse x \<longleftrightarrow> (case x of None \<Rightarrow> True | Some text \<Rightarrow> parse text \<noteq> None)"

definition provider_texts_ok :: "dialogue \<Rightarrow> bool" where
  "provider_texts_ok D \<longleftrightarrow> (\<forall>row \<in> set (dg_providers D). parse_provider_kind (pvw_provider_kind row) \<noteq> None
     \<and> parse_privacy_class (pvw_privacy_class row) \<noteq> None \<and> parse_provider_status (pvw_status row) \<noteq> None)"

definition model_texts_ok :: "dialogue \<Rightarrow> bool" where
  "model_texts_ok D \<longleftrightarrow> (\<forall>row \<in> set (dg_models D). parse_privacy_class (mdw_privacy_class row) \<noteq> None
       \<and> get_i16 (mdw_priority row) = Inr (mdw_priority row) \<and> \<not> is_err (get_u32_option (mdw_context_limit row)))
     \<and> (\<forall>task \<in> snd ` set (dg_model_tasks D). parse_ai_task task \<noteq> None)"

definition message_texts_ok :: "dialogue \<Rightarrow> bool" where
  "message_texts_ok D \<longleftrightarrow> (\<forall>row \<in> set (dg_messages D). parse_chat_role (mgw_role row) \<noteq> None
     \<and> parse_chat_origin (mgw_origin row) \<noteq> None \<and> parsed_option parse_chat_route (mgw_route row))"

definition activity_texts_ok :: "dialogue \<Rightarrow> bool" where
  "activity_texts_ok D \<longleftrightarrow> (\<forall>row \<in> set (dg_activity D). parse_activity_kind (acw_activity_kind row) \<noteq> None)"

definition cache_texts_ok :: "dialogue \<Rightarrow> bool" where
  "cache_texts_ok D \<longleftrightarrow> (\<forall>row \<in> set (dg_cache D). parse_trust_class (chw_trust_class row) \<noteq> None)"

definition texts_ok :: "dialogue \<Rightarrow> bool" where
  "texts_ok D \<longleftrightarrow> provider_texts_ok D \<and> model_texts_ok D \<and> message_texts_ok D \<and> activity_texts_ok D \<and> cache_texts_ok D"

lemmas texts_defs = provider_texts_ok_def model_texts_ok_def message_texts_ok_def activity_texts_ok_def cache_texts_ok_def

lemma texts_same:
  "texts_ok D \<Longrightarrow> dg_providers D' = dg_providers D \<Longrightarrow> dg_models D' = dg_models D \<Longrightarrow>
   dg_model_tasks D' = dg_model_tasks D \<Longrightarrow> dg_messages D' = dg_messages D \<Longrightarrow> dg_activity D' = dg_activity D \<Longrightarrow>
   dg_cache D' = dg_cache D \<Longrightarrow> texts_ok D'"
  by (simp add: texts_ok_def texts_defs)

lemma provider_upsert_texts:
  assumes "texts_ok D" and "dialogue_upsert_provider p D = (r, D')"
  shows "texts_ok D'"
proof -
  have row: "parse_provider_kind (pvw_provider_kind (provider_to_row p)) \<noteq> None
      \<and> parse_privacy_class (pvw_privacy_class (provider_to_row p)) \<noteq> None
      \<and> parse_provider_status (pvw_status (provider_to_row p)) \<noteq> None"
    by (simp add: provider_to_row_def provider_kind_codec.parse_encode privacy_class_codec.parse_encode
        provider_status_codec.parse_encode)
  have "D' = D \<or> D' = D\<lparr>dg_providers := upsert_row pvw_id merge_provider (provider_to_row p) (dg_providers D)\<rparr>"
    using assms(2) by (auto simp: dialogue_upsert_provider_def Let_def split: if_splits)
  moreover have "parse_provider_kind (pvw_provider_kind a) \<noteq> None \<and> parse_privacy_class (pvw_privacy_class a) \<noteq> None
      \<and> parse_provider_status (pvw_status a) \<noteq> None"
    if "a \<in> set (upsert_row pvw_id merge_provider (provider_to_row p) (dg_providers D))" for a
    using provider_rows.set_upsert [OF that] row assms(1)
    by (auto simp: texts_ok_def provider_texts_ok_def merge_provider_def)
  ultimately show ?thesis using assms(1) by (auto simp: texts_ok_def texts_defs)
qed

lemma provider_remove_texts:
  "texts_ok D \<Longrightarrow> dialogue_remove_provider i D = (r, D') \<Longrightarrow> texts_ok D'"
  by (auto simp: dialogue_remove_provider_def delete_rows_def Let_def texts_ok_def texts_defs split: if_splits)

lemma model_upsert_texts:
  assumes "texts_ok D" and "dialogue_upsert_model m D = (r, D')"
  shows "texts_ok D'"
proof (cases r)
  case (Inl e)
  then have "D' = D" using assms(2) by (auto simp: dialogue_upsert_model_def split: if_splits)
  with assms(1) show ?thesis by simp
next
  case (Inr u)
  let ?row = "model_to_row m" and ?base = "clear_defaults m (dg_models D)"
  let ?good = "\<lambda>row. parse_privacy_class (mdw_privacy_class row) \<noteq> None
      \<and> get_i16 (mdw_priority row) = Inr (mdw_priority row) \<and> \<not> is_err (get_u32_option (mdw_context_limit row))"
  have D': "D' = D\<lparr>dg_models := upsert_row mdw_id (\<lambda>_ new. new) ?row ?base,
      dg_model_tasks := filter (\<lambda>(model, _). model \<noteq> am_id m) (dg_model_tasks D)
        @ map (\<lambda>task. (am_id m, encode_ai_task task)) (am_task_eligibility m)\<rparr>"
    and bounds: "- 1000 \<le> am_priority m" "am_priority m \<le> 1000" "model_check ?row"
    using Inr assms(2) by (auto simp: dialogue_upsert_model_def split: if_splits)
  have "?good ?row"
    using bounds by (auto simp: model_to_row_def model_check_def privacy_class_codec.parse_encode get_i16_def
        get_u32_option_def get_u32_def u32_max_def is_none_or_def is_err_def split: option.splits)
  moreover have "?good a" if "a \<in> set ?base" for a
  proof -
    have "\<exists>b \<in> set (dg_models D). a = b \<or> a = b\<lparr>mdw_is_default := False\<rparr>"
      using that unfolding clear_defaults_def by (cases "am_is_default m") fastforce+
    then show ?thesis using assms(1) by (auto simp: texts_ok_def model_texts_ok_def)
  qed
  ultimately have "?good a" if "a \<in> set (dg_models D')" for a
    using model_rows.set_upsert [of a ?row ?base] that by (auto simp: D')
  moreover have "parse_ai_task task \<noteq> None" if "task \<in> snd ` set (dg_model_tasks D')" for task
    using that assms(1) by (auto simp: D' texts_ok_def model_texts_ok_def ai_task_codec.parse_encode)
  ultimately have "model_texts_ok D'" unfolding model_texts_ok_def by blast
  with assms(1) show ?thesis by (simp add: texts_ok_def texts_defs D')
qed

lemma message_append_texts:
  assumes "texts_ok D" and "append_chat_message m D = (r, D')"
  shows "texts_ok D'"
  using assms(2)
proof (cases rule: message_append_cases)
  case (stored latency)
  have "parse_chat_role (mgw_role (message_to_row m latency)) \<noteq> None
      \<and> parse_chat_origin (mgw_origin (message_to_row m latency)) \<noteq> None
      \<and> parsed_option parse_chat_route (mgw_route (message_to_row m latency))"
    by (auto simp: message_to_row_def chat_role_codec.parse_encode chat_origin_codec.parse_encode
        chat_route_codec.parse_encode parsed_option_def split: option.splits)
  with assms(1) show ?thesis by (simp add: stored(3) texts_ok_def texts_defs)
qed (use assms(1) in simp)

lemma activity_append_texts:
  assumes "texts_ok D" and "append_activity e D = (r, D')"
  shows "texts_ok D'"
proof -
  have "D' = D \<or> D' = D\<lparr>dg_activity := dg_activity D @ [activity_to_row e]\<rparr>"
    using assms(2) by (auto simp: append_activity_def split: if_splits)
  then show ?thesis
    using assms(1) by (auto simp: texts_ok_def texts_defs activity_to_row_def activity_kind_codec.parse_encode)
qed

lemma candidate_store_texts:
  assumes "texts_ok D" and "store_response_candidate e D = (r, D')"
  shows "texts_ok D'"
  using assms(2)
proof (cases rule: candidate_store_cases)
  case (stored counts)
  have "parse_trust_class (chw_trust_class a) \<noteq> None"
    if "a \<in> set (upsert_row cache_key (\<lambda>_ new. new) (cache_to_row e counts) (dg_cache D))" for a
    using cache_rows.set_upsert [OF that] assms(1)
    by (auto simp: texts_ok_def cache_texts_ok_def cache_to_row_def trust_class_codec.parse_encode)
  with assms(1) show ?thesis by (simp add: stored(2) texts_ok_def texts_defs)
qed (use assms(1) in simp)

lemma cache_change_texts:
  "texts_ok D \<Longrightarrow> record_cache_hit i now tokens D = (r, D') \<Longrightarrow> texts_ok D'"
  "texts_ok D \<Longrightarrow> apply_response_feedback i f D = (r, D') \<Longrightarrow> texts_ok D'"
  by (auto simp: record_cache_hit_def apply_response_feedback_def update_rows_def feed_back_def texts_ok_def texts_defs
      split: sum.splits if_splits prod.splits)

lemma other_change_texts:
  "texts_ok D \<Longrightarrow> update_application_settings s now D = (r, D') \<Longrightarrow> texts_ok D'"
  "texts_ok D \<Longrightarrow> ensure_chat_session generated requested title now D = (r', D') \<Longrightarrow> texts_ok D'"
  "texts_ok D \<Longrightarrow> add_usage u D = (r'', D') \<Longrightarrow> texts_ok D'"
  "texts_ok D \<Longrightarrow> record_correction x D = (r'', D') \<Longrightarrow> texts_ok D'"
  by (auto simp: update_application_settings_def update_rows_def ensure_chat_session_def add_usage_def
      record_correction_def Let_def split: sum.splits if_splits prod.splits option.splits intro: texts_same)

lemma dialogue_step_texts: "dialogue_step D D' \<Longrightarrow> texts_ok D \<Longrightarrow> texts_ok D'"
  by (elim dialogue_stepE)
    (blast intro: provider_upsert_texts provider_remove_texts model_upsert_texts message_append_texts
      activity_append_texts candidate_store_texts cache_change_texts other_change_texts)+



text \<open>
  The cache with the set of entries the user asked to always use since they were stored, and the stored
  candidates: a candidate starts unapproved, as \<open>ai_fallback\<close> stores it; \<open>AlwaysUse\<close> approves an
  entry, \<open>Wrong\<close> and \<open>DoNotRemember\<close> withdraw it; the removal of a provider keeps the entries.
\<close>

inductive cache_run :: "dialogue \<Rightarrow> string set \<Rightarrow> cached_response set \<Rightarrow> bool" where
  start: "dg_cache D = [] \<Longrightarrow> cache_run D {} {}"
| candidate: "cache_run D A C \<Longrightarrow> \<not> ca_reusable c \<Longrightarrow> store_response_candidate c D = (Inr (), D') \<Longrightarrow>
    cache_run D' (A - {ca_id c}) (insert c C)"
| hit: "cache_run D A C \<Longrightarrow> record_cache_hit i now tokens D = (Inr (), D') \<Longrightarrow> cache_run D' A C"
| approve: "cache_run D A C \<Longrightarrow> apply_response_feedback i FB_AlwaysUse D = (Inr (), D') \<Longrightarrow> cache_run D' (insert i A) C"
| withdraw: "cache_run D A C \<Longrightarrow> f \<in> {FB_Wrong, FB_DoNotRemember} \<Longrightarrow> apply_response_feedback i f D = (Inr (), D') \<Longrightarrow>
    cache_run D' (A - {i}) C"
| rate: "cache_run D A C \<Longrightarrow> f \<in> {FB_Useful, FB_Prefer} \<Longrightarrow> apply_response_feedback i f D = (Inr (), D') \<Longrightarrow>
    cache_run D' A C"
| removed: "cache_run D A C \<Longrightarrow> dialogue_remove_provider i D = (r, D') \<Longrightarrow> cache_run D' A C"
| other: "cache_run D A C \<Longrightarrow> dg_cache D' = dg_cache D \<Longrightarrow> cache_run D' A C"

lemma find_SomeD: "find P xs = Some x \<Longrightarrow> x \<in> set xs \<and> P x"
  by (auto simp: find_Some_iff)

lemma feedback_rows:
  assumes "apply_response_feedback i f D = (Inr (), D')"
  shows "dg_cache D' = map (\<lambda>row. if chw_id row = i then feed_back f row else row) (dg_cache D)"
  using assms by (auto simp: apply_response_feedback_def update_rows_def split: if_splits)

text \<open>No operation of the storage interface leaves these histories, but the storing of an approved candidate.\<close>

lemma cache_run_step:
  assumes "cache_run D A C" and "dialogue_step D D'"
    and "\<And>c r. ca_reusable c \<Longrightarrow> store_response_candidate c D = (r, D') \<Longrightarrow> D' = D"
  shows "\<exists>A' C'. cache_run D' A' C'"
  using assms(2)
proof (cases rule: dialogue_step.cases)
  case (remove_provider i r)
  then show ?thesis using cache_run.removed [OF assms(1)] by blast
next
  case (candidate c r)
  show ?thesis
  proof (cases "ca_reusable c")
    case True
    then show ?thesis using assms(1,3) candidate by metis
  next
    case False
    from candidate show ?thesis
    proof (cases rule: candidate_store_cases)
      case (stored counts)
      then show ?thesis using cache_run.candidate [OF assms(1) False] candidate by metis
    qed (use assms(1) in blast)
  qed
next
  case (hit i now tokens r)
  then have "D' = D \<or> r = Inr ()"
    by (auto simp: record_cache_hit_def split: sum.splits prod.splits if_splits)
  then show ?thesis using cache_run.hit [OF assms(1)] assms(1) hit by metis
next
  case (feedback i f r)
  then have "D' = D \<or> r = Inr ()" by (auto simp: apply_response_feedback_def split: prod.splits if_splits)
  moreover have "\<exists>A' C'. cache_run D' A' C'" if "r = Inr ()"
    using feedback that cache_run.approve [OF assms(1)] cache_run.withdraw [OF assms(1)] cache_run.rate [OF assms(1)]
    by (cases f) blast+
  ultimately show ?thesis using assms(1) by blast
next
  case (upsert_provider p r)
  then have "dg_cache D' = dg_cache D" by (auto simp: dialogue_upsert_provider_def Let_def split: if_splits)
  then show ?thesis using cache_run.other [OF assms(1)] by blast
next
  case (upsert_model m r)
  then have "dg_cache D' = dg_cache D" by (auto simp: dialogue_upsert_model_def split: if_splits)
  then show ?thesis using cache_run.other [OF assms(1)] by blast
next
  case (settings s now r)
  then have "dg_cache D' = dg_cache D"
    by (auto simp: update_application_settings_def split: sum.splits if_splits prod.splits)
  then show ?thesis using cache_run.other [OF assms(1)] by blast
next
  case (session generated requested title now r)
  then have "dg_cache D' = dg_cache D"
    by (auto simp: ensure_chat_session_def Let_def split: sum.splits if_splits option.splits)
  then show ?thesis using cache_run.other [OF assms(1)] by blast
next
  case (message msg r)
  then have "dg_cache D' = dg_cache D" by (cases rule: message_append_cases) simp_all
  then show ?thesis using cache_run.other [OF assms(1)] by blast
next
  case (activity e r)
  then have "dg_cache D' = dg_cache D" by (auto simp: append_activity_def split: if_splits)
  then show ?thesis using cache_run.other [OF assms(1)] by blast
next
  case (usage u r)
  then have "dg_cache D' = dg_cache D" by (auto simp: add_usage_def split: sum.splits)
  then show ?thesis using cache_run.other [OF assms(1)] by blast
next
  case (correction x r)
  then have "dg_cache D' = dg_cache D" by (auto simp: record_correction_def split: if_splits)
  then show ?thesis using cache_run.other [OF assms(1)] by blast
qed

text \<open>What a row of the cache says: it was stored as some candidate, and it is reusable only if approved.\<close>

definition traced :: "string set \<Rightarrow> cached_response set \<Rightarrow> cache_row \<Rightarrow> bool" where
  "traced A C row \<longleftrightarrow> (chw_reusable row \<longrightarrow> chw_id row \<in> A)
     \<and> (\<exists>c \<in> C. ca_id c = chw_id row \<and> ca_response c = chw_response row
          \<and> ca_normalized_request c = chw_normalized_request row \<and> ca_context_key c = chw_context_key row)"

lemma cache_run_traced: "cache_run D A C \<Longrightarrow> row \<in> set (dg_cache D) \<Longrightarrow> traced A C row"
proof (induction arbitrary: row rule: cache_run.induct)
  case (candidate D A C c D')
  from candidate(3) show ?case
  proof (cases rule: candidate_store_cases)
    case (stored counts)
    let ?new = "cache_to_row c counts"
    have "row = ?new \<or> row \<in> set (dg_cache D) \<and> cache_key row \<noteq> cache_key ?new"
      using cache_rows.set_upsert [of row ?new "dg_cache D"] candidate.prems stored(2) by auto
    then show ?thesis
    proof
      assume "row = ?new"
      then show ?thesis using candidate(2) by (auto simp: traced_def cache_to_row_def)
    next
      assume old: "row \<in> set (dg_cache D) \<and> cache_key row \<noteq> cache_key ?new"
      then have "chw_id row \<noteq> ca_id c" using stored(5) by blast
      with candidate.IH old show ?thesis by (auto simp: traced_def)
    qed
  qed simp
next
  case (hit D A C i now tokens D')
  then have "dg_cache D' = map (\<lambda>row. if chw_id row = i then row\<lparr>chw_last_used_at_ms := Some now,
      chw_usage_count := chw_usage_count row + 1,
      chw_estimated_tokens_avoided := chw_estimated_tokens_avoided row + int tokens\<rparr> else row) (dg_cache D)"
    by (auto simp: record_cache_hit_def update_rows_def sql_i64_def split: sum.splits if_splits)
  with hit.prems obtain old where "old \<in> set (dg_cache D)" "chw_id row = chw_id old" "chw_reusable row = chw_reusable old"
    "chw_response row = chw_response old" "chw_normalized_request row = chw_normalized_request old"
    "chw_context_key row = chw_context_key old" by auto
  with hit.IH show ?case by (auto simp: traced_def)
next
  case (removed D A C i r D')
  then obtain old where "old \<in> set (dg_cache D)" "chw_id row = chw_id old" "chw_reusable row = chw_reusable old"
    "chw_response row = chw_response old" "chw_normalized_request row = chw_normalized_request old"
    "chw_context_key row = chw_context_key old"
    by (auto simp: dialogue_remove_provider_def delete_rows_def Let_def split: if_splits)
  with removed.IH show ?case by (auto simp: traced_def)
next
  case (approve D A C i D')
  then show ?case by (auto simp: feedback_rows feed_back_def coalesce_def traced_def split: if_splits)
next
  case (withdraw D A C f i D')
  then show ?case by (auto simp: feedback_rows feed_back_def coalesce_def traced_def split: if_splits)
next
  case (rate D A C f i D')
  then show ?case by (auto simp: feedback_rows feed_back_def coalesce_def traced_def split: if_splits)
qed auto

text \<open>
  C24. A stored AI answer is reused only if the user asked for it. In every history of the cache (hits,
  ratings, removed providers and all other changes of the tables included) a response it returns belongs
  to an entry that the user asked to always use after it was stored, without a later withdrawal; it is
  the response that was stored for exactly this request and context under this identifier; and the entry
  has a confidence of at least 800 and has not expired.
\<close>

theorem cached_answer_was_approved:
  assumes "cache_run D A C" and "dialogue_cached_response D request context_key now = Inr (Some entry)"
  shows "ca_id entry \<in> A \<and> ca_normalized_request entry = request \<and> ca_context_key entry = context_key
    \<and> (\<exists>c \<in> C. ca_id c = ca_id entry \<and> ca_response entry = ca_response c
        \<and> ca_normalized_request c = request \<and> ca_context_key c = context_key)
    \<and> 800 \<le> ca_confidence_permille entry \<and> ca_reusable entry \<and> is_none_or (\<lambda>until. now \<le> until) (ca_valid_until_ms entry)"
proof -
  obtain row where row: "row \<in> set (dg_cache D)" "cache_hit request context_key now row"
    "cached_response_from_row row = Inr entry"
    using assms(2) by (auto simp: dialogue_cached_response_def and_then_Inr_iff split: option.splits dest: find_SomeD)
  then have same: "ca_id entry = chw_id row" "ca_normalized_request entry = chw_normalized_request row"
    "ca_context_key entry = chw_context_key row" "int (ca_confidence_permille entry) = chw_confidence_permille row"
    "ca_reusable entry = chw_reusable row" "ca_valid_until_ms entry = chw_valid_until_ms row"
    "ca_response entry = chw_response row"
    by (auto simp: cached_response_from_row_def and_then_Inr_iff opaque_def OpaqueId_new_def get_u16_def split: if_splits)
  moreover have hit: "chw_reusable row" "chw_normalized_request row = request" "chw_context_key row = context_key"
    "chw_confidence_permille row \<ge> 800" "is_none_or (\<lambda>until. until \<ge> now) (chw_valid_until_ms row)"
    using row(2) by (simp_all add: cache_hit_def)
  moreover have "traced A C row" by (rule cache_run_traced [OF assms(1) row(1)])
  moreover have "800 \<le> ca_confidence_permille entry" using same(4) hit(4) by linarith
  ultimately show ?thesis unfolding traced_def by (auto simp: same)
qed

definition example_candidate :: cached_response where
  "example_candidate =
     \<lparr>ca_id = ''cache:1'', ca_normalized_request = ''status'', ca_response = ''fine'', ca_context_key = ''global'',
      ca_confidence_permille = 550, ca_priority_permille = 500, ca_trust = TC_AiInferred, ca_valid_until_ms = None,
      ca_reusable = False, ca_created_at_ms = 1, ca_last_used_at_ms = None, ca_usage_count = 0, ca_success_count = 0,
      ca_correction_count = 0, ca_original_provider_id = None, ca_original_model_id = None,
      ca_estimated_tokens_avoided = 0\<rparr>"

theorem cached_answer_was_approved_witness:
  "\<exists>D A C entry. cache_run D A C \<and> dialogue_cached_response D ''status'' ''global'' 2 = Inr (Some entry) \<and> ca_id entry \<in> A
    \<and> ca_response entry = ''fine''
    \<and> dialogue_cached_response (snd (store_response_candidate example_candidate empty_dialogue)) ''status'' ''global'' 2 = Inr None"
proof -
  let ?row = "cache_to_row example_candidate [0, 0, 0, 0]"
  let ?D1 = "empty_dialogue\<lparr>dg_cache := [?row]\<rparr>"
  let ?D2 = "empty_dialogue\<lparr>dg_cache := [feed_back FB_AlwaysUse ?row]\<rparr>"
  have "cache_check ?row"
    by (simp add: cache_check_def length_between_def cache_to_row_def example_candidate_def sql_ascii ascii_text_def byte_def)
  then have store: "store_response_candidate example_candidate empty_dialogue = (Inr (), ?D1)"
    by (simp add: store_response_candidate_def empty_dialogue_def sql_i64_def i64_max_def known_provider_def known_model_def
        upsert_row_def) (simp add: example_candidate_def upsert_row_def)
  have feedback: "apply_response_feedback ''cache:1'' FB_AlwaysUse ?D1 = (Inr (), ?D2)"
    by (simp add: apply_response_feedback_def update_rows_def cache_to_row_def example_candidate_def)
  have miss: "dialogue_cached_response ?D1 ''status'' ''global'' 2 = Inr None"
    by (simp add: dialogue_cached_response_def cache_hit_def cache_to_row_def example_candidate_def)
  have "OpaqueId_new ''cache:1'' = Inr ''cache:1''" by code_simp
  then have answer: "\<exists>entry. dialogue_cached_response ?D2 ''status'' ''global'' 2 = Inr (Some entry)"
    by (simp add: dialogue_cached_response_def cache_hit_def cache_to_row_def example_candidate_def feed_back_def
        clamp_permille_def coalesce_def cached_response_from_row_def opaque_def opaque_option_def get_u16_def row_u64_def
        i64_max_def parse_trust_class_def)
  have "cache_run empty_dialogue {} {}" by (rule cache_run.start) (simp add: empty_dialogue_def)
  then have "cache_run ?D1 ({} - {ca_id example_candidate}) {example_candidate}"
    by (rule cache_run.candidate [OF _ _ store]) (simp add: example_candidate_def)
  then have run: "cache_run ?D2 (insert ''cache:1'' ({} - {ca_id example_candidate})) {example_candidate}"
    using feedback by (rule cache_run.approve)
  from answer obtain entry where entry: "dialogue_cached_response ?D2 ''status'' ''global'' 2 = Inr (Some entry)" by blast
  have "ca_response example_candidate = ''fine''" by (simp add: example_candidate_def)
  with cached_answer_was_approved [OF run entry] run entry miss store show ?thesis
    by (intro exI [of _ ?D2] exI conjI) (assumption | simp)+
qed

lemma settings_read_back:
  assumes "update_application_settings s now D = (Inr (), D')" and "as_max_model_calls_per_request s \<le> 255"
  shows "dialogue_settings D' = Inr s"
proof -
  have valid: "settings_validate s = Inr ()" and D': "D' = D\<lparr>dg_settings := map (\<lambda>_. settings_to_row s now) (dg_settings D)\<rparr>"
    and one: "length (dg_settings D) = 1"
    using assms(1) by (auto simp: update_application_settings_def update_rows_def split: sum.splits if_splits)
  then have bounds: "as_max_model_calls_per_request s \<le> 3" "as_max_context_tokens s \<le> 131072" "as_max_output_tokens s \<le> 16384"
    "as_conversation_retention_days s \<le> 3650" "as_episodic_retention_days s \<le> 3650" "as_log_retention_days s \<le> 365"
    "as_log_max_total_mb s \<le> 1024"
    by (auto simp: settings_validate_def within_def split: if_splits)
  obtain row where "dg_settings D = [row]" using one by (auto simp: length_Suc_conv)
  then have "dialogue_settings D' = settings_from_row (settings_to_row s now)" by (simp add: D' dialogue_settings_def)
  then show ?thesis using bounds
    by (simp add: settings_from_row_def settings_to_row_def appearance_codec.parse_encode routing_preset_codec.parse_encode
        log_level_codec.parse_encode get_u8_def get_u16_def get_u32_def u32_max_def)
qed

text \<open>Read after write for a provider: what is read is what was saved, with the creation time kept.\<close>

lemma provider_read_back:
  assumes "dialogue_upsert_provider p D = (Inr (), D')" and "OpaqueId_new (pv_id p) = Inr (pv_id p)"
    and "pv_configured p = (pv_credential_id p \<noteq> None \<or> pv_privacy p = Privacy_Local)"
  shows "\<exists>created. dialogue_provider D' (pv_id p) = Inr (Some (p\<lparr>pv_created_at_ms := created\<rparr>))"
proof -
  let ?row = "provider_to_row p"
  have "D' = D\<lparr>dg_providers := upsert_row pvw_id merge_provider ?row (dg_providers D)\<rparr>"
    using assms(1) by (auto simp: dialogue_upsert_provider_def Let_def split: if_splits)
  moreover have "row_of pvw_id (upsert_row pvw_id merge_provider ?row (dg_providers D)) (pvw_id ?row)
      = Some (case row_of pvw_id (dg_providers D) (pvw_id ?row) of None \<Rightarrow> ?row | Some r \<Rightarrow> merge_provider r ?row)"
    by (rule provider_rows.row_of_upsert_same)
  ultimately obtain created where "row_of pvw_id (dg_providers D') (pv_id p) = Some (?row\<lparr>pvw_created_at_ms := created\<rparr>)"
    by (auto simp: provider_to_row_def merge_provider_def split: option.splits)
  then show ?thesis using assms(2,3)
    by (cases p) (auto simp: dialogue_provider_def provider_from_row_def provider_to_row_def opaque_def
        privacy_class_codec.parse_encode provider_kind_codec.parse_encode provider_status_codec.parse_encode)
qed

end
