(* ===== verification/Halquen_Assistant.thy ===== *)
theory Halquen_Assistant
  imports Halquen_Chat Halquen_Service Halquen_Provider Halquen_Dialogue_Facts
begin

text \<open>
  The state of the whole daemon and its handlers as steps on it: the service of the action pipeline,
  the memory and interaction tables of the same database, the diagnostics ring, and the credential
  store (\<open>crates/ai/src/secret.rs\<close>) over a keyring argument. Two further components record what left
  the daemon: the provider calls made and the commands spawned. A step returns an error or a value
  and the changed state; state changed before an error stays changed, as in the code. The locale
  \<open>step_relation\<close> is the interface for reasoning about steps: a preorder on states that every part of a
  handler respects is respected by the handler.
\<close>

section \<open>Credential store\<close>

datatype secret_error = Secret_Unavailable | Secret_NotFound | Secret_OperationFailed

text \<open>The trait \<open>SecretStore\<close>; the store is shared state of the operating system.\<close>

record 'k secret_store =
  ss_store :: "string \<Rightarrow> string \<Rightarrow> 'k \<Rightarrow> (secret_error, unit) result \<times> 'k"
  ss_retrieve :: "string \<Rightarrow> 'k \<Rightarrow> (secret_error, string) result"
  ss_delete :: "string \<Rightarrow> 'k \<Rightarrow> (secret_error, unit) result \<times> 'k"

datatype keyring_error = NoEntry | Keyring_Error

text \<open>What the store uses of the keyring library, for a service name and an account name.\<close>

record 'k keyring =
  kr_entry :: "string \<Rightarrow> string \<Rightarrow> bool"
  kr_set_password :: "string \<Rightarrow> string \<Rightarrow> string \<Rightarrow> 'k \<Rightarrow> (keyring_error, unit) result \<times> 'k"
  kr_get_password :: "string \<Rightarrow> string \<Rightarrow> 'k \<Rightarrow> (keyring_error, string) result"
  kr_delete_credential :: "string \<Rightarrow> string \<Rightarrow> 'k \<Rightarrow> (keyring_error, unit) result \<times> 'k"

fun keyring_failure :: "keyring_error \<Rightarrow> secret_error" where
  "keyring_failure NoEntry = Secret_NotFound"
| "keyring_failure Keyring_Error = Secret_OperationFailed"

definition keyring_store_secret ::
  "'k keyring \<Rightarrow> string \<Rightarrow> string \<Rightarrow> string \<Rightarrow> 'k \<Rightarrow> (secret_error, unit) result \<times> 'k" where
  "keyring_store_secret K service credential_id secret k =
     (if \<not> kr_entry K service credential_id then (Inl Secret_Unavailable, k)
      else case kr_set_password K service credential_id secret k of
        (r, k') \<Rightarrow> (map_err (\<lambda>_. Secret_OperationFailed) r, k'))"

definition keyring_retrieve :: "'k keyring \<Rightarrow> string \<Rightarrow> string \<Rightarrow> 'k \<Rightarrow> (secret_error, string) result" where
  "keyring_retrieve K service credential_id k =
     (if \<not> kr_entry K service credential_id then Inl Secret_Unavailable
      else map_err keyring_failure (kr_get_password K service credential_id k))"

definition keyring_delete :: "'k keyring \<Rightarrow> string \<Rightarrow> string \<Rightarrow> 'k \<Rightarrow> (secret_error, unit) result \<times> 'k" where
  "keyring_delete K service credential_id k =
     (if \<not> kr_entry K service credential_id then (Inl Secret_Unavailable, k)
      else case kr_delete_credential K service credential_id k of (r, k') \<Rightarrow> (map_err keyring_failure r, k'))"

definition KeyringSecretStore :: "'k keyring \<Rightarrow> string \<Rightarrow> 'k secret_store" where
  "KeyringSecretStore K service =
     \<lparr>ss_store = keyring_store_secret K service, ss_retrieve = keyring_retrieve K service,
      ss_delete = keyring_delete K service\<rparr>"

text \<open>What a client relies on: what was stored is retrieved, what was deleted is not found, other
  credentials are not touched, and a failed operation changes nothing that can be observed.\<close>

definition lawful_secrets :: "'k secret_store \<Rightarrow> bool" where
  "lawful_secrets S \<longleftrightarrow>
     (\<forall>i s k k'. ss_store S i s k = (Inr (), k') \<longrightarrow>
        (\<forall>j. ss_retrieve S j k' = (if j = i then Inr s else ss_retrieve S j k)))
     \<and> (\<forall>i k k'. ss_delete S i k = (Inr (), k') \<longrightarrow>
        (\<forall>j. ss_retrieve S j k' = (if j = i then Inl Secret_NotFound else ss_retrieve S j k)))
     \<and> (\<forall>i s k k' e. ss_store S i s k = (Inl e, k') \<longrightarrow> (\<forall>j. ss_retrieve S j k' = ss_retrieve S j k))
     \<and> (\<forall>i k k' e. ss_delete S i k = (Inl e, k') \<longrightarrow> (\<forall>j. ss_retrieve S j k' = ss_retrieve S j k)
          \<and> (e = Secret_NotFound \<longrightarrow> ss_retrieve S i k = Inl Secret_NotFound))"

definition lawful_keyring :: "'k keyring \<Rightarrow> bool" where
  "lawful_keyring K \<longleftrightarrow>
     (\<forall>v i s k k'. kr_set_password K v i s k = (Inr (), k') \<longrightarrow>
        (\<forall>j. kr_get_password K v j k' = (if j = i then Inr s else kr_get_password K v j k)))
     \<and> (\<forall>v i k k'. kr_delete_credential K v i k = (Inr (), k') \<longrightarrow>
        (\<forall>j. kr_get_password K v j k' = (if j = i then Inl NoEntry else kr_get_password K v j k)))
     \<and> (\<forall>v i s k k' e. kr_set_password K v i s k = (Inl e, k') \<longrightarrow>
        (\<forall>j. kr_get_password K v j k' = kr_get_password K v j k))
     \<and> (\<forall>v i k k' e. kr_delete_credential K v i k = (Inl e, k') \<longrightarrow>
        (\<forall>j. kr_get_password K v j k' = kr_get_password K v j k)
        \<and> (e = NoEntry \<longrightarrow> kr_get_password K v i k = Inl NoEntry))"

lemma keyring_failure_NotFound: "keyring_failure e = Secret_NotFound \<longleftrightarrow> e = NoEntry"
  by (cases e) simp_all

lemma keyring_store_lawful:
  assumes "lawful_keyring K"
  shows "lawful_secrets (KeyringSecretStore K service)"
proof -
  have law: "kr_set_password K v i s k = (Inr (), k') \<Longrightarrow>
      kr_get_password K v j k' = (if j = i then Inr s else kr_get_password K v j k)"
    "kr_delete_credential K v i k = (Inr (), k') \<Longrightarrow>
      kr_get_password K v j k' = (if j = i then Inl NoEntry else kr_get_password K v j k)"
    "kr_set_password K v i s k = (Inl e, k') \<Longrightarrow> kr_get_password K v j k' = kr_get_password K v j k"
    "kr_delete_credential K v i k = (Inl e, k') \<Longrightarrow> kr_get_password K v j k' = kr_get_password K v j k"
    "kr_delete_credential K v i k = (Inl NoEntry, k') \<Longrightarrow> kr_get_password K v i k = Inl NoEntry"
    for v i s k k' j e
    using assms unfolding lawful_keyring_def by metis+
  show ?thesis
    unfolding lawful_secrets_def KeyringSecretStore_def
    by (auto simp: keyring_store_secret_def keyring_retrieve_def keyring_delete_def map_err_def law
        keyring_failure_NotFound split: if_splits prod.splits sum.splits dest: law)
qed

section \<open>State and environment\<close>

text \<open>The trait \<open>ProviderClient\<close>, and the calls made through it.\<close>

record provider_client =
  pcl_complete :: "provider \<Rightarrow> ai_model \<Rightarrow> string option \<Rightarrow> ai_request \<Rightarrow> (ai_error, ai_response) result"
  pcl_test :: "provider \<Rightarrow> string option \<Rightarrow> (ai_error, provider_test_result) result"

definition OpenAiCompatibleClient :: "'u url_lib \<Rightarrow> 'u web \<Rightarrow> provider_client" where
  "OpenAiCompatibleClient L W =
     \<lparr>pcl_complete = (\<lambda>provider model credential request. fst (openai_complete L W provider model credential request)),
      pcl_test = (\<lambda>provider credential. fst (openai_test L W provider credential))\<rparr>"

definition DisabledProviderClient :: provider_client where
  "DisabledProviderClient =
     \<lparr>pcl_complete = (\<lambda>_ _ _ _. Inl AI_NoEligibleRoute), pcl_test = (\<lambda>_ _. Inl AI_NoEligibleRoute)\<rparr>"

datatype client_call =
  Complete_Call provider ai_model "string option" ai_request
| Test_Call provider "string option"

record 'k daemon =
  dm_service :: service
  dm_memory :: memory_tables
  dm_dialogue :: dialogue
  dm_diagnostics :: "diagnostic_entry list"
  dm_secrets :: 'k
  dm_calls :: "client_call list"
  dm_spawned :: "command_line list"

text \<open>What the handlers take from outside: encodings, the executor, the Unicode tables, the
  floating-point primitives of the scorer and how a score is printed, the provider client, the
  validation of a provider, the credential store, the two paths of \<open>ServiceEnvironment\<close>, the version of
  the schema, and the number of unknown cases, a table no handler writes.\<close>

record ('k, 'f) environment =
  en_json :: serde_json
  en_memory_json :: memory_json
  en_executor :: executor
  en_unicode :: unicode
  en_floats :: "'f f64_ops"
  en_score_text :: "u16 \<Rightarrow> string"
  en_client :: provider_client
  en_validate_provider :: "provider \<Rightarrow> (ai_error, unit) result"
  en_secrets :: "'k secret_store"
  en_database_path :: string
  en_runtime_socket :: string
  en_schema_version :: i64
  en_unknown_cases :: u64

text \<open>The identifiers and clock readings a handler draws, numbered by their place in the code, those
  of the pipeline run inside it, and the measured latency.\<close>

record chat_draws =
  cw_id :: "nat \<Rightarrow> string"
  cw_now :: "nat \<Rightarrow> i64"
  cw_pipeline :: draws
  cw_latency_ms :: u64

section \<open>Steps\<close>

type_synonym ('k, 'a) step = "'k daemon \<Rightarrow> (service_error, 'a) result \<times> 'k daemon"

definition answer :: "'a \<Rightarrow> ('k, 'a) step" where
  "answer x d = (Inr x, d)"

definition refuse :: "service_error \<Rightarrow> ('k, 'a) step" where
  "refuse e d = (Inl e, d)"

definition then_step :: "('k, 'a) step \<Rightarrow> ('a \<Rightarrow> ('k, 'b) step) \<Rightarrow> ('k, 'b) step" where
  "then_step m f d = (case m d of (Inl e, d') \<Rightarrow> (Inl e, d') | (Inr x, d') \<Rightarrow> f x d')"

definition of_result :: "(service_error, 'a) result \<Rightarrow> ('k, 'a) step" where
  "of_result r d = (r, d)"

text \<open>A query of the database; its failure is an internal error.\<close>

definition query :: "('k daemon \<Rightarrow> (storage_error, 'a) result) \<Rightarrow> ('k, 'a) step" where
  "query q d = (map_err (\<lambda>_. internal_error) (q d), d)"

definition on_dialogue :: "'a dialogue_op \<Rightarrow> ('k, 'a) step" where
  "on_dialogue operation d =
     (case operation (dm_dialogue d) of (r, D) \<Rightarrow> (map_err (\<lambda>_. internal_error) r, d\<lparr>dm_dialogue := D\<rparr>))"

definition on_records :: "'a db_op \<Rightarrow> ('k, 'a) step" where
  "on_records operation d =
     (case operation (sv_database (dm_service d)) of
        (r, db) \<Rightarrow> (map_err (\<lambda>_. internal_error) r, d\<lparr>dm_service := (dm_service d)\<lparr>sv_database := db\<rparr>\<rparr>))"

definition on_memory :: "(memory_tables \<Rightarrow> (storage_error, 'a) result \<times> memory_tables) \<Rightarrow> ('k, 'a) step" where
  "on_memory operation d =
     (case operation (dm_memory d) of (r, m) \<Rightarrow> (map_err (\<lambda>_. internal_error) r, d\<lparr>dm_memory := m\<rparr>))"

definition persist_step ::
  "('k, 'f) environment \<Rightarrow> audit_id \<Rightarrow> memory_item \<Rightarrow> memory_revision \<Rightarrow> evidence list \<Rightarrow> ('k, unit) step" where
  "persist_step E audit_id item revision evidence d =
     (case persist_memory_revision (en_memory_json E) (en_json E) audit_id item revision evidence
             (sv_database (dm_service d), dm_memory d) of
        (r, db, m) \<Rightarrow>
          (map_err (\<lambda>_. internal_error) r, d\<lparr>dm_service := (dm_service d)\<lparr>sv_database := db\<rparr>, dm_memory := m\<rparr>))"

definition log_spawn :: "command_line option \<Rightarrow> 'k daemon \<Rightarrow> 'k daemon" where
  "log_spawn cmd d = (case cmd of None \<Rightarrow> d | Some c \<Rightarrow> d\<lparr>dm_spawned := dm_spawned d @ [c]\<rparr>)"

definition run_pipeline :: "(service \<Rightarrow> 'a handled) \<Rightarrow> ('k, 'a) step" where
  "run_pipeline operation d =
     (case operation (dm_service d) of (r, sv, cmd) \<Rightarrow> (r, log_spawn cmd (d\<lparr>dm_service := sv\<rparr>)))"

section \<open>Reasoning about steps\<close>

definition obeys :: "('k daemon \<Rightarrow> 'k daemon \<Rightarrow> bool) \<Rightarrow> ('k, 'a) step \<Rightarrow> bool" where
  "obeys R m \<longleftrightarrow> (\<forall>d. R d (snd (m d)))"

lemma obeysI: "(\<And>d. R d (snd (m d))) \<Longrightarrow> obeys R m"
  by (simp add: obeys_def)

lemma obeysD: "obeys R m \<Longrightarrow> m d = (r, d') \<Longrightarrow> R d d'"
  unfolding obeys_def by (metis snd_conv)

text \<open>Case distinctions of a handler.\<close>

lemma obeys_cases:
  "(b \<Longrightarrow> obeys R m) \<Longrightarrow> (\<not> b \<Longrightarrow> obeys R m') \<Longrightarrow> obeys R (if b then m else m')"
  "(x = None \<Longrightarrow> obeys R m) \<Longrightarrow> (\<And>a. x = Some a \<Longrightarrow> obeys R (f a)) \<Longrightarrow> obeys R (case x of None \<Rightarrow> m | Some a \<Rightarrow> f a)"
  "(\<And>e. r = Inl e \<Longrightarrow> obeys R (g e)) \<Longrightarrow> (\<And>a. r = Inr a \<Longrightarrow> obeys R (f a)) \<Longrightarrow>
   obeys R (case r of Inl e \<Rightarrow> g e | Inr a \<Rightarrow> f a)"
  "(\<And>a b. p = (a, b) \<Longrightarrow> obeys R (h a b)) \<Longrightarrow> obeys R (case p of (a, b) \<Rightarrow> h a b)"
  "(\<And>a. a = v \<Longrightarrow> obeys R (f a)) \<Longrightarrow> obeys R (let a = v in f a)"
  by (simp_all split: option.splits sum.splits prod.splits)

locale step_relation =
  fixes R :: "'k daemon \<Rightarrow> 'k daemon \<Rightarrow> bool"
  assumes unchanged: "R d d"
    and composes: "R d d' \<Longrightarrow> R d' d'' \<Longrightarrow> R d d''"
begin

lemma answer_obeys: "obeys R (answer x)"
  by (simp add: obeys_def answer_def unchanged)

lemma refuse_obeys: "obeys R (refuse e)"
  by (simp add: obeys_def refuse_def unchanged)

lemma of_result_obeys: "obeys R (of_result r)"
  by (simp add: obeys_def of_result_def unchanged)

lemma query_obeys: "obeys R (query q)"
  by (simp add: obeys_def query_def unchanged)

lemma then_obeys_from:
  assumes "R d (snd (m d))" and "\<And>x d'. m d = (Inr x, d') \<Longrightarrow> R d' (snd (f x d'))"
  shows "R d (snd (then_step m f d))"
  using assms by (auto simp: then_step_def split: prod.splits sum.splits intro: composes)

lemma then_obeys: "obeys R m \<Longrightarrow> (\<And>x. obeys R (f x)) \<Longrightarrow> obeys R (then_step m f)"
  unfolding obeys_def using then_obeys_from by blast

lemmas step_obeys = answer_obeys refuse_obeys of_result_obeys query_obeys

end

lemma then_step_Inr:
  "then_step m f d = (Inr y, d'') \<longleftrightarrow> (\<exists>x d'. m d = (Inr x, d') \<and> f x d' = (Inr y, d''))"
  by (auto simp: then_step_def split: prod.splits sum.splits)

section \<open>Parts shared by the handlers\<close>

definition activity ::
  "chat_draws \<Rightarrow> nat \<Rightarrow> chat_session_id option \<Rightarrow> string \<Rightarrow> activity_kind \<Rightarrow> string \<Rightarrow> string option \<Rightarrow> ('k, unit) step" where
  "activity T n session_id correlation_id kind summary detail =
     on_dialogue (append_activity
       \<lparr>ae_id = cw_id T n, ae_session_id = session_id, ae_correlation_id = correlation_id, ae_kind = kind,
        ae_summary = summary, ae_detail = detail, ae_created_at_ms = cw_now T n\<rparr>)"

definition push_diagnostic ::
  "chat_draws \<Rightarrow> nat \<Rightarrow> diagnostic_severity \<Rightarrow> string \<Rightarrow> string \<Rightarrow> string \<Rightarrow> string option \<Rightarrow> ('k, unit) step" where
  "push_diagnostic T n severity component code message correlation_id d =
     (let kept = (if length (dm_diagnostics d) = 200 then tl (dm_diagnostics d) else dm_diagnostics d) in
      (Inr (), d\<lparr>dm_diagnostics := kept @
         [\<lparr>de_timestamp_ms = cw_now T n, de_severity = severity, de_component = component, de_code = code,
           de_message = message, de_correlation_id = correlation_id\<rparr>]\<rparr>))"

definition not_found :: service_error where
  "not_found = Refused \<lparr>peb_code = NotFound, peb_message = ''requested item was not found''\<rparr>"

definition secret_store_error :: service_error where
  "secret_store_error = Refused \<lparr>peb_code = SecretStoreUnavailable,
     peb_message = ''OS credential storage is unavailable; the secret was not stored''\<rparr>"

fun sanitized_ai_error :: "ai_error \<Rightarrow> string" where
  "sanitized_ai_error AI_Disabled = ''AI is disabled by settings.''"
| "sanitized_ai_error AI_NoEligibleRoute = ''No eligible provider/model route is configured.''"
| "sanitized_ai_error AI_UnsupportedProvider = ''This provider adapter is not implemented yet.''"
| "sanitized_ai_error AI_InvalidEndpoint = ''The provider endpoint is invalid.''"
| "sanitized_ai_error AI_CredentialUnavailable = ''The provider credential is unavailable.''"
| "sanitized_ai_error AI_AuthenticationFailed = ''Provider authentication failed.''"
| "sanitized_ai_error AI_RateLimited = ''The provider rate limit was reached.''"
| "sanitized_ai_error AI_EndpointUnavailable = ''The provider endpoint is unreachable.''"
| "sanitized_ai_error AI_InvalidResponse = ''The provider returned an invalid response.''"
| "sanitized_ai_error AI_ResponseTooLarge = ''The provider response exceeded the safe size limit.''"
| "sanitized_ai_error AI_RequestFailed = ''The provider request failed.''"

definition provider_status_for_error :: "ai_error \<Rightarrow> provider_status" where
  "provider_status_for_error error =
     (case error of
        AI_AuthenticationFailed \<Rightarrow> Provider_AuthenticationFailed
      | AI_CredentialUnavailable \<Rightarrow> Provider_AuthenticationFailed
      | AI_RateLimited \<Rightarrow> Provider_RateLimited
      | AI_UnsupportedProvider \<Rightarrow> Provider_Unsupported
      | AI_EndpointUnavailable \<Rightarrow> Provider_EndpointUnreachable
      | AI_InvalidEndpoint \<Rightarrow> Provider_EndpointUnreachable
      | _ \<Rightarrow> Provider_Unavailable)"

definition provider_credential :: "('k, 'f) environment \<Rightarrow> provider \<Rightarrow> ('k, string option) step" where
  "provider_credential E provider d =
     (case pv_credential_id provider of
        None \<Rightarrow> (Inr None, d)
      | Some reference \<Rightarrow>
          (and_then (map_err (\<lambda>_. secret_store_error) (ss_retrieve (en_secrets E) reference (dm_secrets d)))
             (\<lambda>secret. Inr (Some secret)), d))"

lemma push_diagnostic_bounded:
  "length (dm_diagnostics d) \<le> 200 \<Longrightarrow>
   length (dm_diagnostics (snd (push_diagnostic T n severity component code message correlation d))) \<le> 200"
  by (simp add: push_diagnostic_def Let_def)

end
