(* ===== verification/Halquen_Conversation.thy ===== *)
theory Halquen_Conversation
  imports Halquen_Assistant
begin

text \<open>
  The conversation of the daemon (\<open>apps/daemon/src/interaction_service.rs\<close>): a chat message is
  answered by a local command, by an approved cached response, or by the one model the router selects;
  every answer is stored with its route. A local command goes through the action pipeline as every
  other request does. The call of a provider can be cancelled before it starts or while it runs, which
  is an argument.
\<close>

section \<open>Messages\<close>

definition CONFIRMATION_TTL_MS :: i64 where "CONFIRMATION_TTL_MS = 5 * 60 * 1000"
definition RESPONSE_CANDIDATE_TTL_MS :: i64 where "RESPONSE_CANDIDATE_TTL_MS = 30 * 24 * 60 * 60 * 1000"

definition saturating_add_i64 :: "i64 \<Rightarrow> i64 \<Rightarrow> i64" where
  "saturating_add_i64 a b = max i64_min (min i64_max (a + b))"

record chat_request =
  crq_session_id :: "chat_session_id option"
  crq_message :: string
  crq_model_selection :: model_selection

record confirmation_prompt =
  cfp_confirmation_id :: string
  cfp_title :: string
  cfp_reason :: string
  cfp_expires_at_ms :: i64
  cfp_operation :: string
  cfp_target :: string
  cfp_destination :: "destination_class option"
  cfp_origin :: action_origin
  cfp_resource_classifications :: "resource_classification list"
  cfp_agent_id :: "agent_id option"
  cfp_agent_session_id :: "agent_session_id option"

record chat_result =
  crs_session :: chat_session
  crs_user_message :: chat_message
  crs_assistant_message :: chat_message
  crs_confirmation :: "confirmation_prompt option"

record memory_mutation_receipt =
  mmr_memory_id :: memory_id
  mmr_revision_id :: memory_revision_id
  mmr_summary :: string

datatype cancellation = Not_Cancelled | Cancelled_Before | Cancelled_During

text \<open>The characters outside ASCII in the texts of the daemon: middle dot, arrow, quotation marks,
  almost equal.\<close>

definition middle_dot :: string where "middle_dot = [CHR 0xC2, CHR 0xB7]"
definition right_arrow :: string where "right_arrow = [CHR 0xE2, CHR 0x86, CHR 0x92]"
definition left_quote :: string where "left_quote = [CHR 0xE2, CHR 0x80, CHR 0x9C]"
definition right_quote :: string where "right_quote = [CHR 0xE2, CHR 0x80, CHR 0x9D]"
definition almost_equal :: string where "almost_equal = [CHR 0xE2, CHR 0x89, CHR 0x88]"

definition user_message_of :: "chat_draws \<Rightarrow> chat_session \<Rightarrow> string \<Rightarrow> chat_message" where
  "user_message_of T session message =
     \<lparr>cm_id = cw_id T 1, cm_session_id = cs_id session, cm_role = Role_User, cm_content = message,
      cm_origin = Chat_User, cm_route = None, cm_provider_id = None, cm_model_id = None,
      cm_input_tokens = None, cm_output_tokens = None, cm_latency_ms = None,
      cm_reusable_candidate_id = None, cm_created_at_ms = cw_now T 0\<rparr>"

definition assistant_message ::
  "chat_draws \<Rightarrow> chat_session_id \<Rightarrow> string \<Rightarrow> chat_origin \<Rightarrow> chat_route \<Rightarrow> provider_id option \<Rightarrow> model_id option
   \<Rightarrow> (u32 \<times> u32) option \<Rightarrow> cache_entry_id option \<Rightarrow> chat_message" where
  "assistant_message T session_id content origin route provider_id model_id usage candidate =
     \<lparr>cm_id = cw_id T 4, cm_session_id = session_id, cm_role = Role_Assistant, cm_content = content,
      cm_origin = origin, cm_route = Some route, cm_provider_id = provider_id, cm_model_id = model_id,
      cm_input_tokens = map_option fst usage, cm_output_tokens = map_option snd usage,
      cm_latency_ms = Some (cw_latency_ms T), cm_reusable_candidate_id = candidate,
      cm_created_at_ms = cw_now T 4\<rparr>"

text \<open>An answer without a model.\<close>

abbreviation local_message ::
  "chat_draws \<Rightarrow> chat_session \<Rightarrow> string \<Rightarrow> chat_origin \<Rightarrow> chat_route \<Rightarrow> chat_message" where
  "local_message T session content origin route \<equiv>
     assistant_message T (cs_id session) content origin route None None None None"

definition finish_chat ::
  "chat_session \<Rightarrow> chat_message \<Rightarrow> chat_message \<Rightarrow> confirmation_prompt option \<Rightarrow> ('k, chat_result) step" where
  "finish_chat session user_message assistant prompt =
     then_step (on_dialogue (append_chat_message assistant)) (\<lambda>_.
       answer \<lparr>crs_session = session, crs_user_message = user_message, crs_assistant_message = assistant,
               crs_confirmation = prompt\<rparr>)"

definition display_for_entity :: "entity_id \<Rightarrow> string" where
  "display_for_entity entity =
     map (\<lambda>c. if c = CHR ''_'' then CHR '' '' else c)
       (case strip_prefix ''app:'' entity of Some name \<Rightarrow> name | None \<Rightarrow> entity)"

fun debug_status :: "execution_status \<Rightarrow> string" where
  "debug_status NotExecuted = ''NotExecuted''"
| "debug_status DryRunSucceeded = ''DryRunSucceeded''"
| "debug_status Succeeded = ''Succeeded''"
| "debug_status Failed = ''Failed''"
| "debug_status TimedOut = ''TimedOut''"

fun debug_role :: "chat_role \<Rightarrow> string" where
  "debug_role Role_User = ''User''"
| "debug_role Role_Assistant = ''Assistant''"
| "debug_role Role_System = ''System''"

fun debug_privacy :: "privacy_class \<Rightarrow> string" where
  "debug_privacy Privacy_Local = ''Local''"
| "debug_privacy Privacy_Cloud = ''Cloud''"

section \<open>Local commands\<close>

definition usage_event ::
  "chat_draws \<Rightarrow> nat \<Rightarrow> entity_id \<Rightarrow> behaviour_outcome \<Rightarrow> i64 \<Rightarrow> intent_usage_event" where
  "usage_event T n entity outcome now =
     \<lparr>iu_id = cw_id T n, iu_intent = ''open_application'', iu_entity_id = entity, iu_outcome = outcome,
      iu_context_class = ''application'', iu_created_at_ms = now\<rparr>"

text \<open>The two clarifications of a contextual request; only the first is logged as activity.\<close>

definition ambiguous_detail :: "('k, 'f) environment \<Rightarrow> intent_candidate list \<Rightarrow> string" where
  "ambiguous_detail E candidates =
     join_with ('' '' @ middle_dot @ '' '')
       (map (\<lambda>c. display_for_entity (ic_entity_id c) @ '' '' @ en_score_text E (ic_score_permille c)) candidates)"

definition clarify_ambiguous ::
  "chat_draws \<Rightarrow> chat_session \<Rightarrow> chat_message \<Rightarrow> string \<Rightarrow> string \<Rightarrow> ('k, chat_result) step" where
  "clarify_ambiguous T session user_message correlation_id detail =
     then_step (on_dialogue (add_usage (no_usage\<lparr>us_clarifications := 1\<rparr>))) (\<lambda>_.
     then_step (activity T 14 (Some (cs_id session)) correlation_id AK_LocalRouteHit
         ''Clarification requested for contextual application intent'' (Some detail)) (\<lambda>_.
       finish_chat session user_message
         (local_message T session
            (if detail = [] then ''Which application should I open?''
             else ''Which application did you mean? Recent candidates: '' @ detail)
            Chat_Local Route_Clarification) None))"

definition clarify_unknown :: "chat_draws \<Rightarrow> chat_session \<Rightarrow> chat_message \<Rightarrow> ('k, chat_result) step" where
  "clarify_unknown T session user_message =
     then_step (on_dialogue (add_usage (no_usage\<lparr>us_clarifications := 1\<rparr>))) (\<lambda>_.
       finish_chat session user_message
         (local_message T session
            ''Which application should I open? I do not have enough recent evidence to choose safely.''
            Chat_Local Route_Clarification) None)"

definition correct_open_app ::
  "('k, 'f) environment \<Rightarrow> chat_draws \<Rightarrow> string \<Rightarrow> string \<Rightarrow> ('k, entity_id) step" where
  "correct_open_app E T rejected accepted =
     then_step (of_result (ok_or (validation ''corrected application name is invalid'')
         (application_entity (en_unicode E) rejected))) (\<lambda>rejected_entity.
     then_step (of_result (ok_or (validation ''corrected application name is invalid'')
         (application_entity (en_unicode E) accepted))) (\<lambda>accepted_entity.
     then_step (on_records (record_intent_usage
         (usage_event T 9 rejected_entity Outcome_CorrectionRejected (cw_now T 9)))) (\<lambda>_.
     then_step (on_records (record_intent_usage
         (usage_event T 10 accepted_entity Outcome_CorrectionAccepted (cw_now T 9)))) (\<lambda>_.
     then_step (on_dialogue (record_correction
         \<lparr>co_id = cw_id T 11, co_target_id = ''intent:open_application'',
          co_correction_summary = rejected @ '' -> '' @ accepted, co_created_at_ms = cw_now T 9\<rparr>)) (\<lambda>_.
       answer accepted_entity)))))"

text \<open>A stored preference for the name replaces it by its value, if that names an application.\<close>

definition resolve_alias ::
  "('k, 'f) environment \<Rightarrow> string \<Rightarrow> entity_id \<Rightarrow> ('k, string \<times> entity_id) step" where
  "resolve_alias E display_name entity =
     then_step (query (\<lambda>d. preference_by_key (en_memory_json E) (dm_memory d) display_name)) (\<lambda>found.
       answer
         (case found of
            Some (_, revision) \<Rightarrow>
              (case mr_value revision of
                 Preference _ alias \<Rightarrow>
                   (case application_entity (en_unicode E) alias of
                      Some alias_entity \<Rightarrow> (alias, alias_entity)
                    | None \<Rightarrow> (display_name, entity))
               | _ \<Rightarrow> (display_name, entity))
          | None \<Rightarrow> (display_name, entity)))"

definition open_app_proposal :: "string \<Rightarrow> entity_id \<Rightarrow> resource_classification \<Rightarrow> (service_error, action_proposal) result" where
  "open_app_proposal correlation_id entity classification =
     and_then (map_err (\<lambda>_. internal_error) (CapabilityId_new ''system.open_app'')) (\<lambda>capability.
       map_err (\<lambda>_. validation ''local action context is invalid'')
         (ActionProposal_new \<lparr>ar_capability_id = capability, ar_arguments = Args_OpenApp entity\<rparr>
           (with_resource (local_resolution (Some correlation_id))
              \<lparr>rd_kind = RK_Application, rd_identifier = entity, rd_classification = classification\<rparr>)))"

definition report_allowed ::
  "chat_draws \<Rightarrow> chat_session \<Rightarrow> string \<Rightarrow> string \<Rightarrow> action_proposal \<Rightarrow> execution_receipt
   \<Rightarrow> ('k, string \<times> confirmation_prompt option) step" where
  "report_allowed T session correlation_id display_name proposal receipt =
     (case ar_arguments (ap_action proposal) of
        Args_None \<Rightarrow> refuse internal_error
      | Args_OpenApp app \<Rightarrow>
          then_step (on_records (record_intent_usage (usage_event T 12 app Outcome_Success (cw_now T 12)))) (\<lambda>_.
          then_step (activity T 14 (Some (cs_id session)) correlation_id AK_ExecutionCompleted
              ''Local capability execution completed''
              (Some (er_capability_id receipt @ '' v'' @ dec (er_capability_version receipt) @ '' '' @ middle_dot @ '' ''
                 @ debug_status (er_status receipt)))) (\<lambda>_.
            answer (if er_status receipt = DryRunSucceeded
                    then ''Dry-run completed for '' @ display_name @ ''. No application was launched.''
                    else ''Launch request completed for '' @ display_name @ ''.'', None))))"

definition add_pending :: "string \<Rightarrow> pending_confirmation \<Rightarrow> ('k, unit) step" where
  "add_pending confirmation_id pending d =
     (Inr (), d\<lparr>dm_service := (dm_service d)
        \<lparr>sv_pending := bt_insert confirmation_id pending (sv_pending (dm_service d))\<rparr>\<rparr>)"

definition ask_confirmation ::
  "chat_draws \<Rightarrow> chat_session \<Rightarrow> string \<Rightarrow> string \<Rightarrow> action_proposal \<Rightarrow> execution_receipt
   \<Rightarrow> ('k, string \<times> confirmation_prompt option) step" where
  "ask_confirmation T session correlation_id display_name proposal receipt =
     (let confirmation_id = ''confirmation:'' @ cw_id T 13;
          expires_at_ms = saturating_add_i64 (cw_now T 13) CONFIRMATION_TTL_MS in
      then_step (add_pending confirmation_id
          \<lparr>pn_request_execution_id = er_execution_id receipt, pn_proposal = proposal,
           pn_title = ''Open '' @ display_name, pn_expires_at_ms = expires_at_ms,
           pn_session_id = Some (cs_id session)\<rparr>) (\<lambda>_.
      then_step (activity T 14 (Some (cs_id session)) correlation_id AK_ConfirmationRequired
          ''Action requires confirmation''
          (Some ''Allow once is available; dismissing does not confirm'')) (\<lambda>_.
        answer (''Confirmation is required before this action can run.'',
          Some \<lparr>cfp_confirmation_id = confirmation_id, cfp_title = ''Open '' @ display_name,
                cfp_reason = ''Policy requires explicit confirmation'', cfp_expires_at_ms = expires_at_ms,
                cfp_operation = ''system.open_app'', cfp_target = display_name, cfp_destination = None,
                cfp_origin = ac_origin (ap_context proposal),
                cfp_resource_classifications = map rd_classification (ac_resources (ap_context proposal)),
                cfp_agent_id = None, cfp_agent_session_id = None\<rparr>))))"

definition report_execution ::
  "chat_draws \<Rightarrow> chat_session \<Rightarrow> string \<Rightarrow> string \<Rightarrow> action_proposal \<Rightarrow> policy_decision \<times> execution_receipt
   \<Rightarrow> ('k, string \<times> confirmation_prompt option) step" where
  "report_execution T session correlation_id display_name proposal response =
     (case pd_outcome (fst response) of
        Allow \<Rightarrow> report_allowed T session correlation_id display_name proposal (snd response)
      | Confirm \<Rightarrow> ask_confirmation T session correlation_id display_name proposal (snd response)
      | _ \<Rightarrow> answer (''Halquen denied this action.'', None))"

definition open_application ::
  "('k, 'f) environment \<Rightarrow> chat_draws \<Rightarrow> chat_session \<Rightarrow> chat_message \<Rightarrow> string \<Rightarrow> string \<Rightarrow> entity_id
   \<Rightarrow> ('k, chat_result) step" where
  "open_application E T session user_message correlation_id name entity0 =
     then_step (resolve_alias E name entity0) (\<lambda>(display_name, entity).
     then_step (query (\<lambda>d. application_classification (sv_database (dm_service d)) entity)) (\<lambda>classification.
     then_step (of_result (open_app_proposal correlation_id entity classification)) (\<lambda>proposal.
     then_step (run_pipeline (process_proposal (en_json E) (cw_pipeline T) (en_executor E) proposal
         (Some (cs_id session)) False)) (\<lambda>response.
     then_step (report_execution T session correlation_id display_name proposal response) (\<lambda>(content, prompt).
     then_step (on_dialogue (add_usage (no_usage\<lparr>us_local_resolutions := 1\<rparr>))) (\<lambda>_.
     then_step (activity T 15 (Some (cs_id session)) correlation_id AK_LocalRouteHit
         ''Resolved locally as system.open_app'' (Some ''No AI used'')) (\<lambda>_.
       finish_chat session user_message
         (local_message T session content Chat_Local Route_LocalCapability) prompt)))))))"

definition preference_revision ::
  "chat_draws \<Rightarrow> string \<Rightarrow> string \<Rightarrow> evidence_id \<Rightarrow> (memory_item \<times> memory_revision) option \<Rightarrow> memory_item \<times> memory_revision" where
  "preference_revision T key content evidence existing =
     (let now = cw_now T 5;
          revision = (\<lambda>i previous.
            \<lparr>mr_id = cw_id T 7, mr_memory_id = i, mr_previous_revision_id = previous,
             mr_value = Preference key content, mr_evidence_ids = [evidence], mr_created_at_ms = now,
             mr_valid_from_ms = Some now, mr_valid_until_ms = None\<rparr>) in
      case existing of
        Some (item, _) \<Rightarrow>
          (item\<lparr>mi_current_revision_id := cw_id T 7, mi_updated_at_ms := now\<rparr>,
           revision (mi_id item) (Some (mi_current_revision_id item)))
      | None \<Rightarrow>
          (\<lparr>mi_id = cw_id T 6, mi_kind = Semantic, mi_current_revision_id = cw_id T 7,
            mi_created_at_ms = now, mi_updated_at_ms = now\<rparr>,
           revision (cw_id T 6) None))"

definition commit_preference ::
  "('k, 'f) environment \<Rightarrow> chat_draws \<Rightarrow> string \<Rightarrow> string \<Rightarrow> string \<Rightarrow> ('k, memory_mutation_receipt) step" where
  "commit_preference E T key content source_reference =
     (let evidence = \<lparr>ev_id = cw_id T 5, ev_trust = TC_UserExplicit, ev_source_reference = Some source_reference,
            ev_created_at_ms = cw_now T 5\<rparr> in
      then_step (query (\<lambda>d. preference_by_key (en_memory_json E) (dm_memory d) key)) (\<lambda>existing.
        let (item, revision) = preference_revision T key content (ev_id evidence) existing in
        then_step (persist_step E (cw_id T 8) item revision [evidence]) (\<lambda>_.
          answer \<lparr>mmr_memory_id = mi_id item, mmr_revision_id = mr_id revision,
                  mmr_summary = key @ '' '' @ right_arrow @ '' '' @ content\<rparr>)))"

definition remember_preference ::
  "('k, 'f) environment \<Rightarrow> chat_draws \<Rightarrow> chat_session \<Rightarrow> chat_message \<Rightarrow> string \<Rightarrow> string \<Rightarrow> string \<Rightarrow> ('k, chat_result) step" where
  "remember_preference E T session user_message correlation_id key content =
     (let summary = key @ '' '' @ right_arrow @ '' '' @ content in
      then_step (commit_preference E T key content (''chat:'' @ cm_id user_message)) (\<lambda>_.
      then_step (on_dialogue (add_usage (no_usage\<lparr>us_local_resolutions := 1\<rparr>))) (\<lambda>_.
      then_step (activity T 16 (Some (cs_id session)) correlation_id AK_MemoryCommitted
          ''Explicit preference stored as versioned semantic memory'' (Some summary)) (\<lambda>_.
        finish_chat session user_message
          (local_message T session (''Remembered.'' @ newline @ summary) Chat_Local Route_LocalMemory) None))))"

definition forget_preference ::
  "('k, 'f) environment \<Rightarrow> chat_draws \<Rightarrow> chat_session \<Rightarrow> chat_message \<Rightarrow> string \<Rightarrow> string \<Rightarrow> ('k, chat_result) step" where
  "forget_preference E T session user_message correlation_id key =
     then_step (query (\<lambda>d. preference_by_key (en_memory_json E) (dm_memory d) key)) (\<lambda>existing.
     then_step
       (case existing of
          Some (item, _) \<Rightarrow>
            then_step (on_memory (set_memory_state (mi_id item) None (Some True) None)) (\<lambda>_.
            then_step (activity T 16 (Some (cs_id session)) correlation_id AK_MemoryCommitted
                ''Memory item disabled'' (Some key)) (\<lambda>_.
              answer (''Forgot the preference '' @ left_quote @ key @ right_quote @ ''.'')))
        | None \<Rightarrow>
            answer (''I couldn'' @ [CHR 0x27] @ ''t find an active preference named ''
              @ left_quote @ key @ right_quote @ ''.'')) (\<lambda>content.
     then_step (on_dialogue (add_usage (no_usage\<lparr>us_local_resolutions := 1\<rparr>))) (\<lambda>_.
       finish_chat session user_message
         (local_message T session content Chat_Local Route_LocalMemory) None)))"

definition contextual_open ::
  "('k, 'f) environment \<Rightarrow> chat_draws \<Rightarrow> chat_session \<Rightarrow> chat_message \<Rightarrow> string \<Rightarrow> ('k, chat_result) step" where
  "contextual_open E T session user_message correlation_id =
     then_step (query (\<lambda>d. recent_intent_usage (sv_database (dm_service d)) ''open_application'' ''application''
         (saturating_sub_i64 (cw_now T 9) DEFAULT_RETENTION_MS) 512)) (\<lambda>events.
       case resolve (en_floats E) (BehaviourScorer_new DEFAULT_HALF_LIFE_MS) events (cw_now T 9) of
         Resolved candidate \<Rightarrow>
           open_application E T session user_message correlation_id
             (display_for_entity (ic_entity_id candidate)) (ic_entity_id candidate)
       | Ambiguous candidates \<Rightarrow>
           clarify_ambiguous T session user_message correlation_id (ambiguous_detail E candidates)
       | Unknown \<Rightarrow> clarify_unknown T session user_message)"

text \<open>The first match of the code turns the two contextual intents into one to open an application
  and the second match acts on it; the arm for an intent that was not turned is unreachable.\<close>

fun handle_local_intent ::
  "('k, 'f) environment \<Rightarrow> chat_draws \<Rightarrow> chat_session \<Rightarrow> chat_message \<Rightarrow> string \<Rightarrow> local_intent \<Rightarrow> ('k, chat_result) step" where
  "handle_local_intent E T session user_message correlation_id Intent_ContextualOpenApp =
     contextual_open E T session user_message correlation_id"
| "handle_local_intent E T session user_message correlation_id (Intent_CorrectOpenApp rejected accepted) =
     then_step (correct_open_app E T rejected accepted)
       (open_application E T session user_message correlation_id accepted)"
| "handle_local_intent E T session user_message correlation_id (Intent_OpenApp display_name entity) =
     open_application E T session user_message correlation_id display_name entity"
| "handle_local_intent E T session user_message correlation_id (Intent_RememberPreference key content) =
     remember_preference E T session user_message correlation_id key content"
| "handle_local_intent E T session user_message correlation_id (Intent_ForgetPreference key) =
     forget_preference E T session user_message correlation_id key"

section \<open>The fallback to a model\<close>

definition conversation_item :: "chat_message \<Rightarrow> context_item" where
  "conversation_item message =
     \<lparr>ci_category = CC_RecentConversation,
      ci_content = debug_role (cm_role message) @ '': '' @ cm_content message, ci_priority = 10,
      ci_untrusted = (cm_origin message \<noteq> Chat_User)\<rparr>"

definition conversation_context ::
  "application_settings \<Rightarrow> chat_session \<Rightarrow> chat_message \<Rightarrow> ('k, context_item list) step" where
  "conversation_context s session user_message =
     (if as_allow_personal_context s
      then then_step (query (\<lambda>d. dialogue_messages (dm_dialogue d) (cs_id session) 8)) (\<lambda>history.
             answer (map conversation_item (filter (\<lambda>m. cm_id m \<noteq> cm_id user_message) history)))
      else answer [])"

definition conversation_profile :: prompt_profile where
  "conversation_profile =
     \<lparr>pp_version = 1, pp_task = Task_Conversation,
      pp_task_instructions = ''Answer the current conversational request. Do not propose or claim side effects unless a typed schema explicitly permits it.'',
      pp_output_schema = None\<rparr>"

definition ai_request_for :: "application_settings \<Rightarrow> chat_message \<Rightarrow> context_projection \<Rightarrow> ai_request" where
  "ai_request_for s user_message projection =
     \<lparr>aq_task = Task_Conversation,
      aq_system_prompt = prompt_compose conversation_profile (as_personal_instructions s),
      aq_user_message = cm_content user_message, aq_context = cx_items projection,
      aq_max_output_tokens = as_max_output_tokens s\<rparr>"

definition call_provider ::
  "('k, 'f) environment \<Rightarrow> cancellation \<Rightarrow> provider \<Rightarrow> ai_model \<Rightarrow> string option \<Rightarrow> ai_request
   \<Rightarrow> ('k, (ai_error, ai_response) result option) step" where
  "call_provider E C provider model credential request d =
     (let called = d\<lparr>dm_calls := dm_calls d @ [Complete_Call provider model credential request]\<rparr> in
      case C of
        Cancelled_Before \<Rightarrow> (Inr None, d)
      | Cancelled_During \<Rightarrow> (Inr None, called)
      | Not_Cancelled \<Rightarrow> (Inr (Some (pcl_complete (en_client E) provider model credential request)), called))"

definition response_candidate ::
  "('k, 'f) environment \<Rightarrow> chat_draws \<Rightarrow> chat_message \<Rightarrow> provider \<Rightarrow> ai_model \<Rightarrow> ai_response \<Rightarrow> cached_response" where
  "response_candidate E T user_message provider model response =
     \<lparr>ca_id = cw_id T 19, ca_normalized_request = normalize_request (en_unicode E) (cm_content user_message),
      ca_response = an_content response, ca_context_key = ''global'', ca_confidence_permille = 550,
      ca_priority_permille = 500, ca_trust = TC_AiInferred,
      ca_valid_until_ms = Some (saturating_add_i64 (cw_now T 19) RESPONSE_CANDIDATE_TTL_MS), ca_reusable = False,
      ca_created_at_ms = cw_now T 19, ca_last_used_at_ms = None, ca_usage_count = 0, ca_success_count = 0,
      ca_correction_count = 0, ca_original_provider_id = Some (pv_id provider),
      ca_original_model_id = Some (am_id model), ca_estimated_tokens_avoided = 0\<rparr>"

definition bool_text :: "bool \<Rightarrow> string" where
  "bool_text b = (if b then ''true'' else ''false'')"

definition ai_answered ::
  "('k, 'f) environment \<Rightarrow> chat_draws \<Rightarrow> chat_session \<Rightarrow> chat_message \<Rightarrow> string \<Rightarrow> provider \<Rightarrow> ai_model \<Rightarrow> bool
   \<Rightarrow> ai_response \<Rightarrow> ('k, chat_result) step" where
  "ai_answered E T session user_message correlation_id provider model has_context response =
     (let usage = an_usage response in
      then_step
        (if has_context then answer None
         else then_step (on_dialogue (store_response_candidate
                  (response_candidate E T user_message provider model response))) (\<lambda>_.
                answer (Some (cw_id T 19)))) (\<lambda>candidate.
      then_step (on_dialogue (add_usage (no_usage\<lparr>us_model_requests := 1, us_input_tokens := au_input_tokens usage,
          us_output_tokens := au_output_tokens usage, us_cached_tokens := au_cached_tokens usage,
          us_ai_fallbacks := 1\<rparr>))) (\<lambda>_.
      then_step (activity T 18 (Some (cs_id session)) correlation_id AK_AiCompleted ''AI response completed''
          (Some (''input='' @ dec (au_input_tokens usage) @ '' output='' @ dec (au_output_tokens usage)
             @ '' cached='' @ dec (au_cached_tokens usage) @ '' reusable_candidate='' @ bool_text (candidate \<noteq> None)))) (\<lambda>_.
        finish_chat session user_message
          (assistant_message T (cs_id session) (an_content response) Chat_Ai Route_Ai (Some (pv_id provider))
             (Some (am_id model)) (Some (au_input_tokens usage, au_output_tokens usage)) candidate) None))))"

definition ai_failed ::
  "chat_draws \<Rightarrow> chat_session \<Rightarrow> chat_message \<Rightarrow> string \<Rightarrow> ai_error \<Rightarrow> ('k, chat_result) step" where
  "ai_failed T session user_message correlation_id error =
     then_step (on_dialogue (add_usage (no_usage\<lparr>us_model_requests := 1, us_ai_fallbacks := 1,
         us_failed_provider_calls := 1\<rparr>))) (\<lambda>_.
     then_step (activity T 18 (Some (cs_id session)) correlation_id AK_AiFailed ''AI provider request failed''
         (Some (sanitized_ai_error error))) (\<lambda>_.
     then_step (push_diagnostic T 20 DS_Warn ''ai_gateway'' ''provider_request_failed'' (sanitized_ai_error error)
         (Some correlation_id)) (\<lambda>_.
       finish_chat session user_message
         (local_message T session (''AI is currently unavailable. '' @ sanitized_ai_error error)
            Chat_System Route_Unavailable) None)))"

definition ai_cancelled ::
  "chat_draws \<Rightarrow> chat_session \<Rightarrow> chat_message \<Rightarrow> string \<Rightarrow> ('k, chat_result) step" where
  "ai_cancelled T session user_message correlation_id =
     then_step (activity T 18 (Some (cs_id session)) correlation_id AK_AiFailed ''AI request cancelled''
         (Some ''The in-progress provider request was dropped without using its result'')) (\<lambda>_.
       finish_chat session user_message
         (local_message T session ''Request cancelled.'' Chat_System Route_Unavailable) None)"

definition no_route ::
  "chat_draws \<Rightarrow> chat_session \<Rightarrow> chat_message \<Rightarrow> string \<Rightarrow> route_error \<Rightarrow> ('k, chat_result) step" where
  "no_route T session user_message correlation_id error =
     then_step (activity T 17 (Some (cs_id session)) correlation_id AK_LocalRouteMiss
         ''Request could not be resolved locally'' (Some (route_error_text error))) (\<lambda>_.
       finish_chat session user_message
         (local_message T session
            (''I couldn'' @ [CHR 0x27] @ ''t resolve this locally and no eligible AI provider is configured.'')
            Chat_System Route_Unavailable) None)"

definition selection_detail :: "provider \<Rightarrow> ai_model \<Rightarrow> context_projection \<Rightarrow> selected_model \<Rightarrow> string" where
  "selection_detail provider model projection selected =
     ''provider='' @ pv_name provider @ '' model='' @ am_display_name model @ '' privacy=''
     @ debug_privacy (pv_privacy provider) @ '' context'' @ almost_equal @ dec (cx_estimated_tokens projection)
     @ '' tokens reason='' @ sm_reason_code selected"

definition ask_model ::
  "('k, 'f) environment \<Rightarrow> chat_draws \<Rightarrow> cancellation \<Rightarrow> chat_session \<Rightarrow> chat_message \<Rightarrow> string
   \<Rightarrow> application_settings \<Rightarrow> provider \<Rightarrow> ai_model \<Rightarrow> selected_model \<Rightarrow> ('k, chat_result) step" where
  "ask_model E T C session user_message correlation_id s provider model selected =
     then_step (provider_credential E provider) (\<lambda>credential.
     then_step (conversation_context s session user_message) (\<lambda>context.
       let projection = context_build (ContextBuilder_new (as_max_context_tokens s)) context in
       then_step (activity T 17 (Some (cs_id session)) correlation_id AK_AiSelected ''AI fallback selected''
           (Some (selection_detail provider model projection selected))) (\<lambda>_.
       then_step (call_provider E C provider model credential (ai_request_for s user_message projection)) (\<lambda>response.
         case response of
           None \<Rightarrow> ai_cancelled T session user_message correlation_id
         | Some (Inr reply) \<Rightarrow>
             ai_answered E T session user_message correlation_id provider model (cx_items projection \<noteq> []) reply
         | Some (Inl error) \<Rightarrow> ai_failed T session user_message correlation_id error))))"

definition ai_fallback ::
  "('k, 'f) environment \<Rightarrow> chat_draws \<Rightarrow> cancellation \<Rightarrow> model_selection \<Rightarrow> chat_session \<Rightarrow> chat_message \<Rightarrow> string
   \<Rightarrow> ('k, chat_result) step" where
  "ai_fallback E T C selection session user_message correlation_id =
     then_step (query (\<lambda>d. dialogue_settings (dm_dialogue d))) (\<lambda>s.
     then_step (query (\<lambda>d. dialogue_providers (dm_dialogue d))) (\<lambda>providers.
     then_step (query (\<lambda>d. dialogue_models (dm_dialogue d))) (\<lambda>models.
       case router_select s providers models
              \<lparr>rq_task = Task_Conversation, rq_selection = selection,
               rq_contains_personal_context = as_allow_personal_context s\<rparr> of
         Inl error \<Rightarrow> no_route T session user_message correlation_id error
       | Inr selected \<Rightarrow>
           then_step (of_result (ok_or internal_error (find (\<lambda>p. pv_id p = sm_provider_id selected) providers))) (\<lambda>provider.
           then_step (of_result (ok_or internal_error (find (\<lambda>m. am_id m = sm_model_id selected) models))) (\<lambda>model.
             ask_model E T C session user_message correlation_id s provider model selected)))))"

section \<open>A chat request\<close>

definition cached_answer ::
  "chat_draws \<Rightarrow> chat_session \<Rightarrow> chat_message \<Rightarrow> string \<Rightarrow> cached_response \<Rightarrow> ('k, chat_result) step" where
  "cached_answer T session user_message correlation_id entry =
     then_step (on_dialogue (record_cache_hit (ca_id entry) (cw_now T 0)
         ((char_count (cm_content user_message) + char_count (ca_response entry)) div 4))) (\<lambda>_.
     then_step (activity T 3 (Some (cs_id session)) correlation_id AK_CacheHit
         ''Reusable response resolved locally'' (Some ''No AI provider was contacted'')) (\<lambda>_.
       finish_chat session user_message
         (assistant_message T (cs_id session) (ca_response entry) Chat_Cache Route_ResponseCache None None None
            (Some (ca_id entry))) None))"

definition cached_or_model ::
  "('k, 'f) environment \<Rightarrow> chat_draws \<Rightarrow> cancellation \<Rightarrow> model_selection \<Rightarrow> chat_session \<Rightarrow> chat_message \<Rightarrow> string
   \<Rightarrow> ('k, chat_result) step" where
  "cached_or_model E T C selection session user_message correlation_id =
     then_step (query (\<lambda>d. dialogue_settings (dm_dialogue d))) (\<lambda>s.
     then_step
       (if as_prefer_cached_local s
        then query (\<lambda>d. dialogue_cached_response (dm_dialogue d)
               (normalize_request (en_unicode E) (cm_content user_message)) ''global'' (cw_now T 0))
        else answer None) (\<lambda>found.
       case found of
         Some entry \<Rightarrow> cached_answer T session user_message correlation_id entry
       | None \<Rightarrow>
           then_step (activity T 3 (Some (cs_id session)) correlation_id AK_CacheMiss
               ''No reusable local response matched'' None) (\<lambda>_.
             ai_fallback E T C selection session user_message correlation_id)))"

definition chat_with_cancellation ::
  "('k, 'f) environment \<Rightarrow> chat_draws \<Rightarrow> cancellation \<Rightarrow> chat_request \<Rightarrow> string \<Rightarrow> ('k, chat_result) step" where
  "chat_with_cancellation E T C request correlation_id =
     (let message = trim (crq_message request) in
      if message = [] \<or> length message > 16384
      then refuse (validation ''message must contain between 1 and 16384 bytes'')
      else
        then_step (on_dialogue (ensure_chat_session (cw_id T 0) (crq_session_id request) message (cw_now T 0))) (\<lambda>session.
        let user_message = user_message_of T session message in
        then_step (on_dialogue (append_chat_message user_message)) (\<lambda>_.
        then_step (activity T 2 (Some (cs_id session)) correlation_id AK_RequestReceived ''Request received'' None) (\<lambda>_.
          case resolve_local (en_unicode E) message of
            Inl _ \<Rightarrow> refuse Panicked
          | Inr (Some intent) \<Rightarrow> handle_local_intent E T session user_message correlation_id intent
          | Inr None \<Rightarrow> cached_or_model E T C (crq_model_selection request) session user_message correlation_id))))"

end
