(* ===== verification/Halquen_Handlers.thy ===== *)
theory Halquen_Handlers
  imports Halquen_Conversation
begin

text \<open>
  The handlers of \<open>apps/daemon/src/interaction_service.rs\<close> around the conversation: sessions,
  messages and activity, memory, providers with their credentials, models, settings, diagnostics,
  feedback and the preview of a request.
\<close>

section \<open>Sessions, messages, activity\<close>

definition handle_list_chat_sessions :: "u16 \<Rightarrow> ('k, chat_session list) step" where
  "handle_list_chat_sessions limit = query (\<lambda>d. dialogue_sessions (dm_dialogue d) limit)"

definition handle_list_chat_messages :: "chat_session_id \<Rightarrow> u16 \<Rightarrow> ('k, chat_message list) step" where
  "handle_list_chat_messages session_id limit = query (\<lambda>d. dialogue_messages (dm_dialogue d) session_id limit)"

definition handle_list_activity :: "u16 \<Rightarrow> ('k, activity_event list) step" where
  "handle_list_activity limit = query (\<lambda>d. dialogue_activity (dm_dialogue d) limit)"

section \<open>Memory\<close>

record memory_query =
  mq_kind :: "memory_kind option"
  mq_search :: "string option"
  mq_limit :: u16

record memory_state_update =
  mu_memory_id :: memory_id
  mu_pinned :: "bool option"
  mu_disabled :: "bool option"
  mu_priority_permille :: "u16 option"

definition handle_list_memory :: "('k, 'f) environment \<Rightarrow> memory_query \<Rightarrow> ('k, memory_view list) step" where
  "handle_list_memory E q =
     (if is_some_and (\<lambda>text. length text > 512) (mq_search q) then refuse (validation ''memory search is too long'')
      else query (\<lambda>d. list_memory (en_memory_json E) (dm_memory d) (mq_kind q) (mq_search q) (mq_limit q)))"

definition handle_memory_history :: "('k, 'f) environment \<Rightarrow> memory_id \<Rightarrow> ('k, memory_revision_view list) step" where
  "handle_memory_history E i = query (\<lambda>d. memory_history (en_memory_json E) (dm_memory d) i)"

definition handle_update_memory_state :: "memory_state_update \<Rightarrow> ('k, bool) step" where
  "handle_update_memory_state u =
     on_memory (set_memory_state (mu_memory_id u) (mu_pinned u) (mu_disabled u) (mu_priority_permille u))"

definition handle_restore_memory_revision ::
  "('k, 'f) environment \<Rightarrow> chat_draws \<Rightarrow> memory_id \<Rightarrow> memory_revision_id \<Rightarrow> ('k, memory_mutation_receipt) step" where
  "handle_restore_memory_revision E T i r =
     then_step (query (\<lambda>d. memory_head (en_memory_json E) (dm_memory d) i)) (\<lambda>head.
     then_step (of_result (ok_or not_found head)) (\<lambda>(item, _).
     then_step (query (\<lambda>d. stored_memory_revision (en_memory_json E) (dm_memory d) i r)) (\<lambda>found.
     then_step (of_result (ok_or not_found found)) (\<lambda>source.
       let now = cw_now T 5;
           evidence = \<lparr>ev_id = cw_id T 5, ev_trust = TC_UserExplicit, ev_source_reference = Some (''restore:'' @ r),
             ev_created_at_ms = now\<rparr>;
           revision = \<lparr>mr_id = cw_id T 7, mr_memory_id = i, mr_previous_revision_id = Some (mi_current_revision_id item),
             mr_value = mr_value source, mr_evidence_ids = [ev_id evidence], mr_created_at_ms = now,
             mr_valid_from_ms = Some now, mr_valid_until_ms = None\<rparr>;
           item' = item\<lparr>mi_current_revision_id := mr_id revision, mi_updated_at_ms := now\<rparr> in
       then_step (persist_step E (cw_id T 8) item' revision [evidence]) (\<lambda>_.
         answer \<lparr>mmr_memory_id = mi_id item', mmr_revision_id = mr_id revision,
                 mmr_summary = ''Restored as a new revision''\<rparr>)))))"

section \<open>Providers and their credentials\<close>

record provider_upsert =
  pu_id :: "provider_id option"
  pu_kind :: provider_kind
  pu_name :: string
  pu_base_url :: string
  pu_enabled :: bool
  pu_privacy :: privacy_class
  pu_api_key :: "string option"
  pu_clear_api_key :: bool

record provider_test_status =
  pts_provider_id :: provider_id
  pts_status :: provider_status
  pts_message :: string

definition capture_secret :: "('k, 'f) environment \<Rightarrow> string \<Rightarrow> ('k, string option) step" where
  "capture_secret E reference d =
     (case ss_retrieve (en_secrets E) reference (dm_secrets d) of
        Inr secret \<Rightarrow> (Inr (Some secret), d)
      | Inl Secret_NotFound \<Rightarrow> (Inr None, d)
      | Inl _ \<Rightarrow> (Inl secret_store_error, d))"

definition store_secret :: "('k, 'f) environment \<Rightarrow> string \<Rightarrow> string \<Rightarrow> ('k, unit) step" where
  "store_secret E reference secret d =
     (case ss_store (en_secrets E) reference secret (dm_secrets d) of
        (r, k) \<Rightarrow> (map_err (\<lambda>_. secret_store_error) r, d\<lparr>dm_secrets := k\<rparr>))"

definition delete_secret :: "('k, 'f) environment \<Rightarrow> string \<Rightarrow> ('k, unit) step" where
  "delete_secret E reference d =
     (case ss_delete (en_secrets E) reference (dm_secrets d) of
        (Inr _, k) \<Rightarrow> (Inr (), d\<lparr>dm_secrets := k\<rparr>)
      | (Inl Secret_NotFound, k) \<Rightarrow> (Inr (), d\<lparr>dm_secrets := k\<rparr>)
      | (Inl _, k) \<Rightarrow> (Inl secret_store_error, d\<lparr>dm_secrets := k\<rparr>))"

definition restore_secret :: "('k, 'f) environment \<Rightarrow> string \<Rightarrow> string option \<Rightarrow> ('k, unit) step" where
  "restore_secret E reference previous =
     (case previous of Some secret \<Rightarrow> store_secret E reference secret | None \<Rightarrow> delete_secret E reference)"

text \<open>A database write that undoes the change of the credential if it fails.\<close>

definition or_undo :: "('k, 'a) step \<Rightarrow> ('k, unit) step \<Rightarrow> ('k, 'a) step" where
  "or_undo m undo d =
     (case m d of
        (Inr x, d') \<Rightarrow> (Inr x, d')
      | (Inl e, d') \<Rightarrow> then_step undo (\<lambda>_. refuse e) d')"

definition on_reference :: "string option \<Rightarrow> (string \<Rightarrow> ('k, 'a) step) \<Rightarrow> 'a \<Rightarrow> ('k, 'a) step" where
  "on_reference reference f none = (case reference of None \<Rightarrow> answer none | Some i \<Rightarrow> f i)"

definition previous_credential :: "provider option \<Rightarrow> string option" where
  "previous_credential previous = (case previous of None \<Rightarrow> None | Some p \<Rightarrow> pv_credential_id p)"

definition replacement_reference :: "provider_id \<Rightarrow> provider option \<Rightarrow> string" where
  "replacement_reference i previous =
     (case previous_credential previous of Some reference \<Rightarrow> reference | None \<Rightarrow> ''provider:'' @ i)"

definition upserted_provider ::
  "chat_draws \<Rightarrow> provider_upsert \<Rightarrow> provider_id \<Rightarrow> provider option \<Rightarrow> provider" where
  "upserted_provider T input i previous =
     (let credential =
            (if pu_api_key input \<noteq> None then Some (replacement_reference i previous)
             else if pu_clear_api_key input then None else previous_credential previous) in
      \<lparr>pv_id = i, pv_kind = pu_kind input, pv_name = pu_name input, pv_base_url = pu_base_url input,
       pv_enabled = pu_enabled input, pv_privacy = pu_privacy input,
       pv_configured = (credential \<noteq> None \<or> pu_privacy input = Privacy_Local), pv_credential_id = credential,
       pv_status = Provider_Configured,
       pv_created_at_ms = (case previous of None \<Rightarrow> cw_now T 0 | Some p \<Rightarrow> pv_created_at_ms p),
       pv_updated_at_ms = cw_now T 0\<rparr>)"

definition checked_provider :: "('k, 'f) environment \<Rightarrow> provider \<Rightarrow> (service_error, provider) result" where
  "checked_provider E provider =
     (case en_validate_provider E provider of
        Inr _ \<Rightarrow> Inr provider
      | Inl AI_UnsupportedProvider \<Rightarrow> Inr (provider\<lparr>pv_status := Provider_Unsupported\<rparr>)
      | Inl _ \<Rightarrow> Inl (validation ''provider endpoint is not permitted''))"

definition mutation_reference :: "provider_upsert \<Rightarrow> provider_id \<Rightarrow> provider option \<Rightarrow> string option" where
  "mutation_reference input i previous =
     (if pu_api_key input \<noteq> None then Some (replacement_reference i previous)
      else if pu_clear_api_key input then previous_credential previous else None)"

definition change_secret :: "('k, 'f) environment \<Rightarrow> string option \<Rightarrow> string option \<Rightarrow> ('k, unit) step" where
  "change_secret E reference api_key =
     on_reference reference (\<lambda>i. case api_key of Some secret \<Rightarrow> store_secret E i secret | None \<Rightarrow> delete_secret E i) ()"

definition handle_upsert_provider ::
  "('k, 'f) environment \<Rightarrow> chat_draws \<Rightarrow> provider_upsert \<Rightarrow> ('k, provider) step" where
  "handle_upsert_provider E T input =
     (if is_some_and (\<lambda>key. key = [] \<or> length key > 8192 \<or> CHR 0x00 \<in> set key) (pu_api_key input)
      then refuse (validation ''provider credential is empty or too large'')
      else
        let i = (case pu_id input of Some i \<Rightarrow> i | None \<Rightarrow> cw_id T 0) in
        then_step (query (\<lambda>d. dialogue_provider (dm_dialogue d) i)) (\<lambda>previous.
        then_step (of_result (checked_provider E (upserted_provider T input i previous))) (\<lambda>provider.
        let reference = mutation_reference input i previous in
        then_step (on_reference reference (capture_secret E) None) (\<lambda>previous_secret.
        then_step (change_secret E reference (pu_api_key input)) (\<lambda>_.
        then_step (or_undo (on_dialogue (dialogue_upsert_provider provider))
            (on_reference reference (\<lambda>i. restore_secret E i previous_secret) ())) (\<lambda>_.
          answer provider))))))"

definition handle_remove_provider :: "('k, 'f) environment \<Rightarrow> provider_id \<Rightarrow> ('k, bool) step" where
  "handle_remove_provider E i =
     then_step (query (\<lambda>d. dialogue_provider (dm_dialogue d) i)) (\<lambda>provider.
     let reference = previous_credential provider in
     then_step (on_reference reference (capture_secret E) None) (\<lambda>previous_secret.
     then_step (on_reference reference (delete_secret E) ()) (\<lambda>_.
     let undo = on_reference reference (\<lambda>i. restore_secret E i previous_secret) () in
     then_step (or_undo (on_dialogue (dialogue_remove_provider i)) undo) (\<lambda>removed.
     then_step (if removed then answer () else undo) (\<lambda>_. answer removed)))))"

definition call_test ::
  "('k, 'f) environment \<Rightarrow> provider \<Rightarrow> string option \<Rightarrow> ('k, (ai_error, provider_test_result) result) step" where
  "call_test E provider credential d =
     (Inr (pcl_test (en_client E) provider credential), d\<lparr>dm_calls := dm_calls d @ [Test_Call provider credential]\<rparr>)"

definition handle_test_provider ::
  "('k, 'f) environment \<Rightarrow> chat_draws \<Rightarrow> provider_id \<Rightarrow> ('k, provider_test_status) step" where
  "handle_test_provider E T i =
     then_step (query (\<lambda>d. dialogue_provider (dm_dialogue d) i)) (\<lambda>found.
     then_step (of_result (ok_or not_found found)) (\<lambda>provider.
     then_step (provider_credential E provider) (\<lambda>credential.
     then_step (call_test E provider credential) (\<lambda>result.
       let (status, message) =
             (case result of
                Inr r \<Rightarrow> (Provider_Connected, pt_sanitized_message r)
              | Inl error \<Rightarrow> (provider_status_for_error error, sanitized_ai_error error)) in
       then_step (on_dialogue (dialogue_upsert_provider
           (provider\<lparr>pv_status := status, pv_updated_at_ms := cw_now T 0\<rparr>))) (\<lambda>_.
         answer \<lparr>pts_provider_id = pv_id provider, pts_status = status, pts_message = message\<rparr>)))))"

definition handle_list_providers :: "('k, provider list) step" where
  "handle_list_providers = query (\<lambda>d. dialogue_providers (dm_dialogue d))"

section \<open>Models, settings, usage\<close>

record model_upsert =
  mup_id :: "model_id option"
  mup_provider_id :: provider_id
  mup_display_name :: string
  mup_provider_model_id :: string
  mup_enabled :: bool
  mup_context_limit :: "u32 option"
  mup_privacy :: privacy_class
  mup_priority :: i16
  mup_task_eligibility :: "ai_task_type list"
  mup_is_default :: bool

definition into_model :: "model_id \<Rightarrow> model_upsert \<Rightarrow> ai_model" where
  "into_model generated input =
     \<lparr>am_id = (case mup_id input of Some i \<Rightarrow> i | None \<Rightarrow> generated), am_provider_id = mup_provider_id input,
      am_display_name = mup_display_name input, am_provider_model_id = mup_provider_model_id input,
      am_enabled = mup_enabled input, am_context_limit = mup_context_limit input, am_privacy = mup_privacy input,
      am_priority = mup_priority input, am_task_eligibility = mup_task_eligibility input,
      am_is_default = mup_is_default input\<rparr>"

definition handle_list_models :: "('k, ai_model list) step" where
  "handle_list_models = query (\<lambda>d. dialogue_models (dm_dialogue d))"

definition handle_upsert_model :: "chat_draws \<Rightarrow> model_upsert \<Rightarrow> ('k, ai_model) step" where
  "handle_upsert_model T input =
     (let model = into_model (cw_id T 0) input in
      then_step (query (\<lambda>d. dialogue_provider (dm_dialogue d) (am_provider_id model))) (\<lambda>found.
      then_step (of_result (ok_or not_found found)) (\<lambda>provider.
        if pv_privacy provider \<noteq> am_privacy model then refuse (validation ''model privacy must match its provider'')
        else then_step (on_dialogue (dialogue_upsert_model model)) (\<lambda>_. answer model))))"

definition handle_application_settings :: "('k, application_settings) step" where
  "handle_application_settings = query (\<lambda>d. dialogue_settings (dm_dialogue d))"

definition handle_update_application_settings ::
  "chat_draws \<Rightarrow> application_settings \<Rightarrow> ('k, application_settings) step" where
  "handle_update_application_settings T s =
     then_step (of_result (map_err (\<lambda>e. validation (settings_error_text e)) (settings_validate s))) (\<lambda>_.
     then_step (on_dialogue (update_application_settings s (cw_now T 0))) (\<lambda>_. answer s))"

definition handle_usage_stats :: "('k, usage_stats) step" where
  "handle_usage_stats = query (\<lambda>d. dialogue_usage (dm_dialogue d))"

section \<open>Diagnostics, feedback, preview\<close>

record diagnostics_snapshot =
  dss_protocol_version :: u16
  dss_schema_version :: i64
  dss_database_path :: string
  dss_runtime_socket :: string
  dss_provider_statuses :: "provider_test_status list"
  dss_recent :: "diagnostic_entry list"
  dss_memory_items :: u64
  dss_cached_responses :: u64
  dss_unknown_cases :: u64
  dss_audit_records :: u64

definition handle_diagnostics :: "('k, 'f) environment \<Rightarrow> u16 \<Rightarrow> u16 \<Rightarrow> ('k, diagnostics_snapshot) step" where
  "handle_diagnostics E version limit =
     then_step (query (\<lambda>d. dialogue_providers (dm_dialogue d))) (\<lambda>providers d.
       (Inr \<lparr>dss_protocol_version = version, dss_schema_version = en_schema_version E,
             dss_database_path = en_database_path E, dss_runtime_socket = en_runtime_socket E,
             dss_provider_statuses = map (\<lambda>p. \<lparr>pts_provider_id = pv_id p, pts_status = pv_status p,
               pts_message = ''Last known status''\<rparr>) providers,
             dss_recent = take (max 1 (min 200 limit)) (rev (dm_diagnostics d)),
             dss_memory_items = fst (memory_stats (dm_memory d)),
             dss_cached_responses = cached_response_count (dm_dialogue d),
             dss_unknown_cases = en_unknown_cases E,
             dss_audit_records = fst (audit_stats (sv_database (dm_service d)))\<rparr>, d))"

text \<open>Removing the old log files is the result of a file-system operation.\<close>

definition handle_clear_operational_logs :: "u64 option \<Rightarrow> ('k, u64) step" where
  "handle_clear_operational_logs cleared d =
     (case cleared of
        None \<Rightarrow> (Inl internal_error, d)
      | Some removed \<Rightarrow> (Inr removed, d\<lparr>dm_diagnostics := []\<rparr>))"

definition handle_submit_response_feedback :: "cache_entry_id \<Rightarrow> response_feedback \<Rightarrow> ('k, unit) step" where
  "handle_submit_response_feedback i feedback = on_dialogue (apply_response_feedback i feedback)"

record prompt_preview =
  ppv_provider_id :: "provider_id option"
  ppv_model_id :: "model_id option"
  ppv_task :: ai_task_type
  ppv_estimated_context_tokens :: u32
  ppv_context_categories :: "context_category list"
  ppv_personal_instructions :: string
  ppv_core_contract_managed :: bool

definition preview_context :: "application_settings \<Rightarrow> chat_session_id option \<Rightarrow> ('k, context_item list) step" where
  "preview_context s session_id =
     (if as_allow_personal_context s
      then (case session_id of
              None \<Rightarrow> answer []
            | Some i \<Rightarrow> then_step (query (\<lambda>d. dialogue_messages (dm_dialogue d) i 8)) (\<lambda>history.
                answer (map conversation_item history)))
      else answer [])"

definition handle_preview_ai_request :: "chat_request \<Rightarrow> ('k, prompt_preview) step" where
  "handle_preview_ai_request request =
     (if trim (crq_message request) = [] \<or> length (crq_message request) > 16384
      then refuse (validation ''message must contain between 1 and 16384 bytes'')
      else
        then_step (query (\<lambda>d. dialogue_settings (dm_dialogue d))) (\<lambda>s.
        then_step (query (\<lambda>d. dialogue_providers (dm_dialogue d))) (\<lambda>providers.
        then_step (query (\<lambda>d. dialogue_models (dm_dialogue d))) (\<lambda>models.
        then_step (preview_context s (crq_session_id request)) (\<lambda>context.
          let selected = (case router_select s providers models
                \<lparr>rq_task = Task_Conversation, rq_selection = crq_model_selection request,
                 rq_contains_personal_context = (as_allow_personal_context s \<and> crq_session_id request \<noteq> None)\<rparr> of
                Inl _ \<Rightarrow> None | Inr chosen \<Rightarrow> Some chosen);
              projection = context_build (ContextBuilder_new (as_max_context_tokens s)) context in
          answer \<lparr>ppv_provider_id = map_option sm_provider_id selected,
                  ppv_model_id = map_option sm_model_id selected, ppv_task = Task_Conversation,
                  ppv_estimated_context_tokens =
                    saturating_add_u32 (estimate_tokens (crq_message request)) (cx_estimated_tokens projection),
                  ppv_context_categories =
                    CC_CurrentRequest # (if cx_items projection = [] then [] else [CC_RecentConversation]),
                  ppv_personal_instructions = as_personal_instructions s,
                  ppv_core_contract_managed = True\<rparr>)))))"

end
