(* ===== verification/Halquen_Daemon.thy ===== *)
theory Halquen_Daemon
  imports Halquen_Broker Halquen_Protocol Halquen_Handlers
begin

text \<open>
  The daemon as a whole (\<open>apps/daemon/src/service.rs\<close>): every request of the protocol and its reply
  (\<open>crates/protocol/src/request.rs\<close>, \<open>response.rs\<close>), the dispatcher that routes a request to its handler,
  the start and the end of a daemon, and the handler the connections of \<open>Halquen_Protocol\<close> call. Everything
  a request takes from outside is one record of inputs.
\<close>

section \<open>Requests and replies\<close>

datatype protocol_request =
  Req_Health
| Req_ListCapabilities
| Req_GetCapability capability_id
| Req_EvaluateAction action_request
| Req_DryRunAction action_request
| Req_ExecuteAction action_request
| Req_MemoryStats
| Req_AuditStats
| Req_Chat chat_request
| Req_CancelChat string
| Req_ListChatSessions u16
| Req_ListChatMessages chat_session_id u16
| Req_ListActivity u16
| Req_ListMemory memory_query
| Req_GetMemoryHistory memory_id
| Req_UpdateMemoryState memory_state_update
| Req_RestoreMemoryRevision memory_id memory_revision_id
| Req_ListProviders
| Req_UpsertProvider provider_upsert
| Req_RemoveProvider provider_id
| Req_TestProvider provider_id
| Req_ListModels
| Req_UpsertModel model_upsert
| Req_GetApplicationSettings
| Req_UpdateApplicationSettings application_settings
| Req_GetUsageStats
| Req_GetDiagnostics u16
| Req_ClearOperationalLogs
| Req_SubmitResponseFeedback cache_entry_id response_feedback
| Req_ConfirmAction string bool confirmation_persistence "i64 option"
| Req_PreviewAiRequest chat_request
| Req_GetSecurityOverview
| Req_UpdateSecurityProfile security_profile
| Req_ListPermissionGrants u16
| Req_UpsertPermissionGrant permission_grant_upsert
| Req_RevokePermissionGrant permission_id
| Req_ListResourceLabels u16
| Req_UpsertResourceLabel resource_label_upsert
| Req_RemoveResourceLabel resource_label_id
| Req_ListAgents u16
| Req_UpsertAgent agent_configuration_upsert
| Req_RemoveAgent agent_id
| Req_RunAgent agent_run_request
| Req_ListAgentSessions u16
| Req_ListRegisteredApplications u16
| Req_UpsertRegisteredApplication application_registration_upsert
| Req_RemoveRegisteredApplication entity_id

text \<open>The variants of \<open>ProtocolResponse\<close> but the error, which \<open>Halquen_Protocol\<close> adds; the status of a
  health reply has the one value \<open>ok\<close>.\<close>

datatype reply =
  Health_Reply i64
| Capabilities_Reply "capability_descriptor list"
| Capability_Reply "capability_descriptor option"
| Evaluation_Reply policy_decision
| DryRun_Reply policy_decision execution_receipt
| Execution_Reply policy_decision execution_receipt
| MemoryStats_Reply u64 u64 u64 u64
| AuditStats_Reply u64 u64
| Chat_Reply chat_result
| ChatCancellation_Reply bool
| ChatSessions_Reply "chat_session list"
| ChatMessages_Reply "chat_message list"
| Activity_Reply "activity_event list"
| MemoryItems_Reply "memory_view list"
| MemoryHistory_Reply "memory_revision_view list"
| MemoryUpdated_Reply bool
| MemoryMutation_Reply memory_mutation_receipt
| Providers_Reply "provider list"
| ProviderSaved_Reply provider
| ProviderRemoved_Reply bool
| ProviderTest_Reply provider_test_status
| Models_Reply "ai_model list"
| ModelSaved_Reply ai_model
| ApplicationSettings_Reply application_settings
| SettingsUpdated_Reply application_settings
| UsageStats_Reply usage_stats
| Diagnostics_Reply diagnostics_snapshot
| OperationalLogsCleared_Reply u64
| FeedbackRecorded_Reply
| Confirmation_Reply confirmation_result
| AiRequestPreview_Reply prompt_preview
| SecurityOverview_Reply security_overview
| SecurityProfileUpdated_Reply security_profile
| PermissionGrants_Reply "permission_grant list"
| PermissionSaved_Reply permission_grant
| PermissionRevoked_Reply bool
| ResourceLabels_Reply "resource_label list"
| ResourceLabelSaved_Reply resource_label
| ResourceLabelRemoved_Reply bool
| Agents_Reply "agent_configuration list"
| AgentSaved_Reply agent_configuration
| AgentRemoved_Reply bool
| AgentRun_Reply agent_run_result
| AgentSessions_Reply "agent_session list"
| RegisteredApplications_Reply "registered_application list"
| RegisteredApplicationSaved_Reply registered_application
| RegisteredApplicationRemoved_Reply bool

section \<open>What a request takes from outside\<close>

record request_inputs =
  ri_now :: i64
  ri_generated :: string
  ri_draws :: draws
  ri_chat :: chat_draws
  ri_cancellation :: cancellation
  ri_run :: run_draws
  ri_executors :: "nat \<Rightarrow> executor"
  ri_os :: os
  ri_digest :: "string \<Rightarrow> string"
  ri_agent_json :: agent_json
  ri_agent_process :: agent_process
  ri_agent_host :: agent_host
  ri_cleared :: "u64 option"

section \<open>Handlers of the other theories as steps\<close>

definition administer :: "(service \<Rightarrow> 'a administered) \<Rightarrow> ('k, 'a) step" where
  "administer operation d = (case operation (dm_service d) of (r, sv) \<Rightarrow> (r, d\<lparr>dm_service := sv\<rparr>))"

definition inspect :: "(service \<Rightarrow> (service_error, 'a) result) \<Rightarrow> ('k, 'a) step" where
  "inspect q d = (q (dm_service d), d)"

definition agent_step :: "(service \<Rightarrow> 'a agent_run) \<Rightarrow> ('k, 'a) step" where
  "agent_step operation d =
     (case operation (dm_service d) of
        (r, sv, cmds, _) \<Rightarrow> (r, d\<lparr>dm_service := sv, dm_spawned := dm_spawned d @ cmds\<rparr>))"

definition replying :: "('k, 'a) step \<Rightarrow> ('a \<Rightarrow> reply) \<Rightarrow> ('k, reply) step" where
  "replying m f = then_step m (\<lambda>x. answer (f x))"

definition health :: "('k, 'f) environment \<Rightarrow> ('k, i64) step" where
  "health E = answer (en_schema_version E)"

definition handle_memory_stats :: "('k, 'f) environment \<Rightarrow> ('k, reply) step" where
  "handle_memory_stats E d =
     (case memory_stats (dm_memory d) of
        (items, revisions, evidence) \<Rightarrow> (Inr (MemoryStats_Reply items revisions evidence (en_unknown_cases E)), d))"

definition handle_audit_stats :: "('k, reply) step" where
  "handle_audit_stats d =
     (case audit_stats (sv_database (dm_service d)) of (records, executions) \<Rightarrow> (Inr (AuditStats_Reply records executions), d))"

section \<open>The dispatcher\<close>

text \<open>A chat without a channel is never cancelled.\<close>

definition chat :: "('k, 'f) environment \<Rightarrow> chat_draws \<Rightarrow> chat_request \<Rightarrow> string \<Rightarrow> ('k, chat_result) step" where
  "chat E T request correlation = chat_with_cancellation E T Not_Cancelled request correlation"

fun handle_request ::
  "('k, 'f) environment \<Rightarrow> request_inputs \<Rightarrow> cancellation option \<Rightarrow> string \<Rightarrow> protocol_request \<Rightarrow> ('k, reply) step" where
  "handle_request E _ _ _ Req_Health =
     replying (health E) Health_Reply"
| "handle_request _ _ _ _ Req_ListCapabilities =
     inspect (\<lambda>sv. Inr (Capabilities_Reply (registry_list (sv_registry sv))))"
| "handle_request _ _ _ _ (Req_GetCapability i) =
     inspect (\<lambda>sv. Inr (Capability_Reply (registry_get (sv_registry sv) i)))"
| "handle_request E X _ _ (Req_EvaluateAction action) =
     replying (run_pipeline (evaluate_action (en_json E) (ri_draws X) action)) Evaluation_Reply"
| "handle_request E X _ _ (Req_DryRunAction action) =
     replying (run_pipeline (dry_run_action (en_json E) (ri_draws X) (en_executor E) action)) (\<lambda>(d, r). DryRun_Reply d r)"
| "handle_request E X _ _ (Req_ExecuteAction action) =
     replying (run_pipeline (execute_action (en_json E) (ri_draws X) (en_executor E) action)) (\<lambda>(d, r). Execution_Reply d r)"
| "handle_request E _ _ _ Req_MemoryStats =
     handle_memory_stats E"
| "handle_request _ _ _ _ Req_AuditStats =
     handle_audit_stats"
| "handle_request E X channel correlation (Req_Chat request) =
     replying (case channel of Some C \<Rightarrow> chat_with_cancellation E (ri_chat X) C request correlation
       | None \<Rightarrow> chat E (ri_chat X) request correlation) Chat_Reply"
| "handle_request _ _ _ _ (Req_CancelChat _) =
     answer (ChatCancellation_Reply False)"
| "handle_request _ _ _ _ (Req_ListChatSessions n) =
     replying (handle_list_chat_sessions n) ChatSessions_Reply"
| "handle_request _ _ _ _ (Req_ListChatMessages i n) =
     replying (handle_list_chat_messages i n) ChatMessages_Reply"
| "handle_request _ _ _ _ (Req_ListActivity n) =
     replying (handle_list_activity n) Activity_Reply"
| "handle_request E _ _ _ (Req_ListMemory q) =
     replying (handle_list_memory E q) MemoryItems_Reply"
| "handle_request E _ _ _ (Req_GetMemoryHistory i) =
     replying (handle_memory_history E i) MemoryHistory_Reply"
| "handle_request _ _ _ _ (Req_UpdateMemoryState u) =
     replying (handle_update_memory_state u) MemoryUpdated_Reply"
| "handle_request E X _ _ (Req_RestoreMemoryRevision i r) =
     replying (handle_restore_memory_revision E (ri_chat X) i r) MemoryMutation_Reply"
| "handle_request _ _ _ _ Req_ListProviders =
     replying handle_list_providers Providers_Reply"
| "handle_request E X _ _ (Req_UpsertProvider p) =
     replying (handle_upsert_provider E (ri_chat X) p) ProviderSaved_Reply"
| "handle_request E _ _ _ (Req_RemoveProvider i) =
     replying (handle_remove_provider E i) ProviderRemoved_Reply"
| "handle_request E X _ _ (Req_TestProvider i) =
     replying (handle_test_provider E (ri_chat X) i) ProviderTest_Reply"
| "handle_request _ _ _ _ Req_ListModels =
     replying handle_list_models Models_Reply"
| "handle_request _ X _ _ (Req_UpsertModel m) =
     replying (handle_upsert_model (ri_chat X) m) ModelSaved_Reply"
| "handle_request _ _ _ _ Req_GetApplicationSettings =
     replying handle_application_settings ApplicationSettings_Reply"
| "handle_request _ X _ _ (Req_UpdateApplicationSettings s) =
     replying (handle_update_application_settings (ri_chat X) s) SettingsUpdated_Reply"
| "handle_request _ _ _ _ Req_GetUsageStats =
     replying handle_usage_stats UsageStats_Reply"
| "handle_request E _ _ _ (Req_GetDiagnostics n) =
     replying (handle_diagnostics E PROTOCOL_VERSION n) Diagnostics_Reply"
| "handle_request _ X _ _ Req_ClearOperationalLogs =
     replying (handle_clear_operational_logs (ri_cleared X)) OperationalLogsCleared_Reply"
| "handle_request _ _ _ _ (Req_SubmitResponseFeedback i feedback) =
     replying (handle_submit_response_feedback i feedback) (\<lambda>_. FeedbackRecorded_Reply)"
| "handle_request E X _ _ (Req_ConfirmAction i accept persistence expires_at_ms) =
     replying (run_pipeline (confirm_action (en_json E) (ri_draws X) (en_executor E) i accept persistence expires_at_ms))
       Confirmation_Reply"
| "handle_request _ _ _ _ (Req_PreviewAiRequest request) =
     replying (handle_preview_ai_request request) AiRequestPreview_Reply"
| "handle_request E X _ _ Req_GetSecurityOverview =
     replying (inspect (service_security_overview (en_json E) (ri_now X))) SecurityOverview_Reply"
| "handle_request _ X _ _ (Req_UpdateSecurityProfile profile) =
     replying (administer (service_update_security_profile (ri_now X) profile)) SecurityProfileUpdated_Reply"
| "handle_request E _ _ _ (Req_ListPermissionGrants n) =
     replying (inspect (service_list_permission_grants (en_json E) n)) PermissionGrants_Reply"
| "handle_request E X _ _ (Req_UpsertPermissionGrant grant) =
     replying (administer (service_upsert_permission_grant (en_json E) (ri_now X) (ri_generated X) grant)) PermissionSaved_Reply"
| "handle_request _ X _ _ (Req_RevokePermissionGrant i) =
     replying (administer (service_revoke_permission_grant (ri_now X) i)) PermissionRevoked_Reply"
| "handle_request _ _ _ _ (Req_ListResourceLabels n) =
     replying (inspect (service_list_resource_labels n)) ResourceLabels_Reply"
| "handle_request _ X _ _ (Req_UpsertResourceLabel label) =
     replying (administer (service_upsert_resource_label (ri_now X) (ri_generated X) label)) ResourceLabelSaved_Reply"
| "handle_request _ _ _ _ (Req_RemoveResourceLabel i) =
     replying (administer (service_remove_resource_label i)) ResourceLabelRemoved_Reply"
| "handle_request E _ _ _ (Req_ListAgents n) =
     replying (inspect (service_list_agents (en_json E) n)) Agents_Reply"
| "handle_request E X _ _ (Req_UpsertAgent agent) =
     replying (administer (service_upsert_agent (en_json E) (ri_os X) (ri_digest X) (ri_now X) (ri_generated X) agent)) AgentSaved_Reply"
| "handle_request _ _ _ _ (Req_RemoveAgent i) =
     replying (administer (service_remove_agent i)) AgentRemoved_Reply"
| "handle_request E X _ _ (Req_RunAgent request) =
     replying (agent_step (run_agent (en_json E) (ri_os X) (ri_digest X) (ri_agent_json X) (ri_agent_process X) (ri_agent_host X)
       (ri_run X) (ri_executors X) request)) AgentRun_Reply"
| "handle_request _ _ _ _ (Req_ListAgentSessions n) =
     replying (inspect (service_list_agent_sessions n)) AgentSessions_Reply"
| "handle_request E _ _ _ (Req_ListRegisteredApplications n) =
     replying (inspect (service_list_registered_applications (en_json E) n)) RegisteredApplications_Reply"
| "handle_request E X _ _ (Req_UpsertRegisteredApplication application) =
     replying (administer (service_upsert_registered_application (en_json E) (ri_os X) (ri_digest X) (ri_now X) application))
       RegisteredApplicationSaved_Reply"
| "handle_request _ _ _ _ (Req_RemoveRegisteredApplication i) =
     replying (administer (service_remove_registered_application i)) RegisteredApplicationRemoved_Reply"

text \<open>A refused request is answered with the error; a panic is no answer.\<close>

fun response_of :: "(service_error, reply) result \<Rightarrow> reply protocol_response option" where
  "response_of (Inr (ChatCancellation_Reply requested)) = Some (ChatCancellation requested)"
| "response_of (Inr r) = Some (Response r)"
| "response_of (Inl (Refused body)) = Some (Error_Response body)"
| "response_of (Inl Panicked) = None"

definition handle_with_cancellation ::
  "('k, 'f) environment \<Rightarrow> request_inputs \<Rightarrow> cancellation option \<Rightarrow> protocol_request \<Rightarrow> string \<Rightarrow> 'k daemon
   \<Rightarrow> reply protocol_response option \<times> 'k daemon" where
  "handle_with_cancellation E X channel request i d =
     (case handle_request E X channel i request d of (r, d') \<Rightarrow> (response_of r, d'))"

text \<open>The handler of the connections. Whether the channel of a chat is signalled before or while the
  model answers is an input.\<close>

definition daemon_handler ::
  "('k, 'f) environment \<Rightarrow> request_inputs \<Rightarrow> (protocol_request, reply, 'k daemon) handler" where
  "daemon_handler E X =
     \<lparr>hd_cancels = (\<lambda>request. case request of Req_CancelChat i \<Rightarrow> Some i | _ \<Rightarrow> None),
      hd_is_chat = (\<lambda>request. case request of Req_Chat _ \<Rightarrow> True | _ \<Rightarrow> False),
      hd_handle = (\<lambda>request i ch. handle_with_cancellation E X (map_option (\<lambda>_. ri_cancellation X) ch) request i)\<rparr>"

section \<open>Start and end\<close>

datatype start_error = Start_Storage storage_error | Start_Initialization

definition new_with_application_registry ::
  "application_registry \<Rightarrow> daemon_session_id \<Rightarrow> i64 \<Rightarrow> database \<Rightarrow> (start_error, service) result \<times> database" where
  "new_with_application_registry applications i now db =
     (case register open_app_descriptor CapabilityRegistry_new of
        Inl _ \<Rightarrow> (Inl Start_Initialization, db)
      | Inr registry \<Rightarrow>
          (case begin_daemon_session \<lparr>ds_id = i, ds_started_at_ms = now, ds_ended_at_ms = None\<rparr> db of
             (Inl _, db') \<Rightarrow> (Inl Start_Initialization, db')
           | (Inr _, db') \<Rightarrow>
               (Inr \<lparr>sv_registry = registry, sv_policy = PolicyEngine_new, sv_database = db',
                     sv_applications = Some applications, sv_daemon_session_id = i, sv_pending = []\<rparr>, db')))"

text \<open>The state of a starting daemon: the tables it finds and the credential store of the system.\<close>

definition start_daemon ::
  "serde_json \<Rightarrow> daemon_session_id \<Rightarrow> i64 \<Rightarrow> database \<Rightarrow> memory_tables \<Rightarrow> dialogue \<Rightarrow> 'k
   \<Rightarrow> (start_error, 'k daemon) result" where
  "start_daemon J i now db m D k =
     and_then (map_err Start_Storage (dialogue_settings D)) (\<lambda>_.
     and_then (map_err Start_Storage (list_registered_applications J db 200)) (\<lambda>rows.
     and_then (map_err (\<lambda>_. Start_Initialization) (from_applications rows)) (\<lambda>applications.
     and_then (fst (new_with_application_registry applications i now db)) (\<lambda>sv.
       Inr \<lparr>dm_service = sv, dm_memory = m, dm_dialogue = D, dm_diagnostics = [], dm_secrets = k,
            dm_calls = [], dm_spawned = []\<rparr>))))"

definition stop_daemon :: "i64 \<Rightarrow> ('k, bool) step" where
  "stop_daemon now d = on_records (finish_daemon_session (sv_daemon_session_id (dm_service d)) now) d"

end
