(* ===== verification/Halquen_Conversation_Facts.thy ===== *)
theory Halquen_Conversation_Facts
  imports Halquen_Conversation Halquen_Pipeline
begin

text \<open>
  What a conversation can reach: a local command or a cached answer contacts no provider, and a model
  is called at most once, with the permission the settings give and nothing the user did not allow.
\<close>

section \<open>Steps that contact no provider\<close>

definition quiet :: "'k daemon \<Rightarrow> 'k daemon \<Rightarrow> bool" where
  "quiet d d' \<longleftrightarrow> dm_calls d' = dm_calls d"

interpretation quiet: step_relation quiet
  by unfold_locales (simp_all add: quiet_def)

lemma quiet_parts:
  "obeys quiet (on_dialogue op)" "obeys quiet (on_records db_op)" "obeys quiet (on_memory mem_op)"
  "obeys quiet (persist_step E i item revision evidence)" "obeys quiet (run_pipeline service_op)"
  "obeys quiet (activity T n session correlation kind summary detail)"
  "obeys quiet (push_diagnostic T n severity component code message related)"
  "obeys quiet (provider_credential E provider)" "obeys quiet (add_pending i pending)"
  by (auto simp: obeys_def quiet_def on_dialogue_def on_records_def on_memory_def persist_step_def run_pipeline_def
      log_spawn_def activity_def push_diagnostic_def Let_def provider_credential_def add_pending_def
      split: prod.splits option.splits)

lemmas quiet_intros = obeys_cases quiet.then_obeys quiet.step_obeys quiet_parts

lemma finish_quiet: "obeys quiet (finish_chat session user assistant prompt)"
  by (auto simp: finish_chat_def intro!: quiet_intros)

lemma report_quiet: "obeys quiet (report_execution T session correlation name proposal response)"
  unfolding report_execution_def report_allowed_def ask_confirmation_def
  by (auto split: policy_outcome.splits action_arguments.splits intro!: quiet_intros)

lemma open_application_quiet: "obeys quiet (open_application E T session user correlation name entity)"
  unfolding open_application_def resolve_alias_def by (auto intro!: quiet_intros report_quiet finish_quiet)

lemma local_intent_quiet: "obeys quiet (handle_local_intent E T session user correlation intent)"
proof (cases intent)
  case Intent_ContextualOpenApp
  then show ?thesis
    by (auto simp: contextual_open_def clarify_ambiguous_def clarify_unknown_def split: intent_resolution.splits
        intro!: quiet_intros open_application_quiet finish_quiet)
next
  case (Intent_RememberPreference key content)
  then show ?thesis
    by (auto simp: remember_preference_def commit_preference_def intro!: quiet_intros finish_quiet)
next
  case (Intent_ForgetPreference key)
  then show ?thesis by (auto simp: forget_preference_def intro!: quiet_intros finish_quiet)
qed (auto simp: correct_open_app_def intro!: quiet_intros open_application_quiet)

lemma after_model_quiet:
  "obeys quiet (ai_answered E T session user correlation provider model has_context reply)"
  "obeys quiet (ai_failed T session user correlation error)"
  "obeys quiet (ai_cancelled T session user correlation)"
  "obeys quiet (no_route T session user correlation why)"
  "obeys quiet (cached_answer T session user correlation entry)"
  by (auto simp: ai_answered_def ai_failed_def ai_cancelled_def no_route_def cached_answer_def
      intro!: quiet_intros finish_quiet)

section \<open>Steps that keep the configuration\<close>

definition configuration ::
  "dialogue \<Rightarrow> settings_row list \<times> provider_row list \<times> model_row list \<times> (string \<times> string) list \<times> cache_row list" where
  "configuration D = (dg_settings D, dg_providers D, dg_models D, dg_model_tasks D, dg_cache D)"

definition steady :: "'k daemon \<Rightarrow> 'k daemon \<Rightarrow> bool" where
  "steady d d' \<longleftrightarrow> dm_calls d' = dm_calls d \<and> configuration (dm_dialogue d') = configuration (dm_dialogue d)"

interpretation steady: step_relation steady
  by unfold_locales (simp_all add: steady_def)

lemma steady_parts:
  "obeys steady (on_dialogue (ensure_chat_session generated requested title now))"
  "obeys steady (on_dialogue (append_chat_message message))"
  "obeys steady (activity T n session correlation kind summary detail)"
  "obeys steady (provider_credential E provider)"
  by (auto simp: obeys_def steady_def configuration_def on_dialogue_def activity_def ensure_chat_session_def
      append_chat_message_def append_activity_def provider_credential_def Let_def
      split: prod.splits option.splits sum.splits)

lemma steady_reads:
  assumes "steady d d'"
  shows "dialogue_settings (dm_dialogue d') = dialogue_settings (dm_dialogue d)"
    and "dialogue_providers (dm_dialogue d') = dialogue_providers (dm_dialogue d)"
    and "dialogue_models (dm_dialogue d') = dialogue_models (dm_dialogue d)"
    and "dialogue_cached_response (dm_dialogue d') = dialogue_cached_response (dm_dialogue d)"
proof -
  have same: "dg_settings (dm_dialogue d') = dg_settings (dm_dialogue d)"
    "dg_providers (dm_dialogue d') = dg_providers (dm_dialogue d)" "dg_models (dm_dialogue d') = dg_models (dm_dialogue d)"
    "dg_model_tasks (dm_dialogue d') = dg_model_tasks (dm_dialogue d)" "dg_cache (dm_dialogue d') = dg_cache (dm_dialogue d)"
    using assms by (auto simp: steady_def configuration_def)
  then have "model_from_row (dm_dialogue d') = model_from_row (dm_dialogue d)"
    by (intro ext) (simp add: model_from_row_def model_tasks_def)
  with same show "dialogue_models (dm_dialogue d') = dialogue_models (dm_dialogue d)"
    by (simp add: dialogue_models_def)
qed (use assms in \<open>auto simp: steady_def configuration_def dialogue_settings_def dialogue_providers_def
    dialogue_cached_response_def fun_eq_iff\<close>)

section \<open>The calls of a chat\<close>

text \<open>At most one call after the calls of before, and a permitted one.\<close>

definition made :: "client_call list \<Rightarrow> (client_call \<Rightarrow> bool) \<Rightarrow> 'k daemon \<Rightarrow> bool" where
  "made calls permitted d \<longleftrightarrow>
     dm_calls d = calls \<or> (\<exists>call. dm_calls d = calls @ [call] \<and> permitted call)"

lemma made_quiet: "obeys quiet m \<Longrightarrow> made (dm_calls d) permitted (snd (m d))"
  by (simp add: obeys_def quiet_def made_def)

lemma made_then:
  assumes "obeys steady m" and "\<And>x d'. m d = (Inr x, d') \<Longrightarrow> steady d d' \<Longrightarrow> made (dm_calls d') permitted (snd (f x d'))"
  shows "made (dm_calls d) permitted (snd (then_step m f d))"
proof (cases "m d")
  case (Pair r d')
  have "steady d d'" using obeysD [OF assms(1) Pair] .
  then show ?thesis
    using assms(2) Pair by (cases r) (auto simp: then_step_def made_def steady_def)
qed

lemma made_after:
  assumes "made calls permitted (snd (m d))" and "\<And>x. obeys quiet (f x)"
  shows "made calls permitted (snd (then_step m f d))"
  using assms
  by (auto simp: then_step_def made_def obeys_def quiet_def split: prod.splits sum.splits)

lemma made_mono: "made calls permitted d \<Longrightarrow> (\<And>call. permitted call \<Longrightarrow> permitted' call) \<Longrightarrow> made calls permitted' d"
  by (auto simp: made_def)

text \<open>What the model receives.\<close>

definition model_call ::
  "cancellation \<Rightarrow> application_settings \<Rightarrow> chat_message \<Rightarrow> provider \<Rightarrow> ai_model \<Rightarrow> client_call \<Rightarrow> bool" where
  "model_call C s user provider model call \<longleftrightarrow>
     C \<noteq> Cancelled_Before
     \<and> (\<exists>credential context. call = Complete_Call provider model credential
          (ai_request_for s user (context_build (ContextBuilder_new (as_max_context_tokens s)) context))
        \<and> (context = [] \<or> as_allow_personal_context s))"

lemma steady_query: "query q d = (Inr x, d') \<Longrightarrow> d' = d \<and> q d = Inr x"
  by (auto simp: query_def map_err_Inr_iff)

lemma then_query:
  "q d = Inr x \<Longrightarrow> then_step (query q) f d = f x d"
  "q d = Inl e \<Longrightarrow> then_step (query q) f d = (Inl internal_error, d)"
  by (simp_all add: then_step_def query_def)

lemma then_of_result: "then_step (of_result r) f d = (case r of Inl e \<Rightarrow> (Inl e, d) | Inr x \<Rightarrow> f x d)"
  by (simp add: then_step_def of_result_def)

lemma context_steady:
  "obeys steady (conversation_context s session user)"
  "conversation_context s session user d = (Inr context, d') \<Longrightarrow> context = [] \<or> as_allow_personal_context s"
  by (auto simp: conversation_context_def answer_def intro!: obeys_cases steady.then_obeys steady.step_obeys
      split: if_splits)

lemma ask_model_calls:
  "made (dm_calls d) (model_call C s user provider model)
     (snd (ask_model E T C session user correlation s provider model selected d))"
proof -
  have call: "made (dm_calls d3) (model_call C s user provider model)
      (snd (call_provider E C provider model credential
        (ai_request_for s user (context_build (ContextBuilder_new (as_max_context_tokens s)) items)) d3))"
    if "conversation_context s session user d1 = (Inr items, d2)" for d1 d2 items credential d3
    using context_steady(2) [OF that]
    by (auto simp: call_provider_def made_def model_call_def Let_def split: cancellation.splits)
  show ?thesis
    unfolding ask_model_def Let_def
    by (intro made_then [OF steady_parts(4)] made_then [OF context_steady(1)] made_then [OF steady_parts(3)]
        made_after [OF call])
      (assumption, intro obeys_cases after_model_quiet)
qed

text \<open>Identifiers are unique among the rows, so the pair the router selected is the pair that is called.\<close>

lemma collect_rows_keys:
  "collect_rows f rows = Inr xs \<Longrightarrow> (\<And>r x. f r = Inr x \<Longrightarrow> k x = g r) \<Longrightarrow> map k xs = map g rows"
  by (induction rows arbitrary: xs) (auto simp: and_then_Inr_iff)

lemma distinct_sorted_keys: "distinct (map g (sort_key k xs)) \<longleftrightarrow> distinct (map g xs)"
  by (simp add: distinct_map)

lemma decoded_ids:
  assumes "catalogue_ok D"
  shows "dialogue_providers D = Inr ps \<Longrightarrow> distinct (map pv_id ps)"
    and "dialogue_models D = Inr ms \<Longrightarrow> distinct (map am_id ms)"
proof -
  have provider: "pv_id p = pvw_id row" if "provider_from_row row = Inr p" for row p
    using that by (auto simp: provider_from_row_def opaque_def OpaqueId_new_def and_then_Inr_iff map_err_Inr_iff)
  have model: "am_id m = mdw_id row" if "model_from_row D row = Inr m" for row m
    using that by (auto simp: model_from_row_def opaque_def OpaqueId_new_def and_then_Inr_iff map_err_Inr_iff)
  show "dialogue_providers D = Inr ps \<Longrightarrow> distinct (map pv_id ps)"
    using collect_rows_keys [of provider_from_row _ ps pv_id pvw_id] provider assms
    by (auto simp: dialogue_providers_def catalogue_ok_def distinct_sorted_keys)
  show "dialogue_models D = Inr ms \<Longrightarrow> distinct (map am_id ms)"
    using collect_rows_keys [of "model_from_row D" _ ms am_id mdw_id] model assms
    by (auto simp: dialogue_models_def catalogue_ok_def distinct_sorted_keys)
qed

lemma find_unique_key:
  "distinct (map k xs) \<Longrightarrow> x \<in> set xs \<Longrightarrow> find (\<lambda>y. k y = k x) xs = Some x"
  by (induction xs) (auto simp: image_iff)

definition usable_call ::
  "cancellation \<Rightarrow> application_settings \<Rightarrow> model_selection \<Rightarrow> chat_message \<Rightarrow> client_call \<Rightarrow> bool" where
  "usable_call C s selection user call \<longleftrightarrow>
     (\<exists>provider model. model_call C s user provider model call \<and> am_enabled model
        \<and> usable_provider s \<lparr>rq_task = Task_Conversation, rq_selection = selection,
            rq_contains_personal_context = as_allow_personal_context s\<rparr> model provider)"

lemma ai_fallback_calls:
  assumes ok: "catalogue_ok (dm_dialogue d)" and s: "dialogue_settings (dm_dialogue d) = Inr s"
  shows "made (dm_calls d) (usable_call C s selection user)
    (snd (ai_fallback E T C selection session user correlation d))"
proof -
  let ?q = "\<lparr>rq_task = Task_Conversation, rq_selection = selection, rq_contains_personal_context = as_allow_personal_context s\<rparr>"
  have ask: "made (dm_calls d) (usable_call C s selection user)
      (snd (ask_model E T C session user correlation s provider model selected d))"
    if lists: "dialogue_providers (dm_dialogue d) = Inr ps" "dialogue_models (dm_dialogue d) = Inr ms"
      and route: "router_select s ps ms ?q = Inr selected"
      and found: "find (\<lambda>p. pv_id p = sm_provider_id selected) ps = Some provider"
        "find (\<lambda>m. am_id m = sm_model_id selected) ms = Some model" for ps ms selected provider model
  proof -
    obtain m p where mp: "m \<in> set ms" "p \<in> set ps" "am_id m = sm_model_id selected" "pv_id p = sm_provider_id selected"
      "usable_provider s ?q m p" "am_enabled m"
      using router.selected_eligible [OF route] by (auto simp: model_eligible_def list_ex_iff usable_provider_def)
    then have "model = m" "provider = p"
      using found find_unique_key [OF decoded_ids(1) [OF ok lists(1)] mp(2)]
        find_unique_key [OF decoded_ids(2) [OF ok lists(2)] mp(1)] by auto
    then show ?thesis
      using mp by (intro made_mono [OF ask_model_calls]) (auto simp: usable_call_def)
  qed
  have quietly: "made (dm_calls d) permitted d'" if "dm_calls d' = dm_calls d" for permitted and d' :: "'a daemon"
    using that by (simp add: made_def)
  show ?thesis
  proof (cases "dialogue_providers (dm_dialogue d)")
    case (Inr ps)
    note ps = this
    show ?thesis
    proof (cases "dialogue_models (dm_dialogue d)")
      case (Inr ms)
      show ?thesis
      proof (cases "router_select s ps ms ?q")
        case (Inl error)
        then show ?thesis
          using s ps \<open>dialogue_models (dm_dialogue d) = Inr ms\<close>
          by (simp add: ai_fallback_def then_query made_quiet after_model_quiet)
      next
        case (Inr selected)
        then show ?thesis
          using s ps \<open>dialogue_models (dm_dialogue d) = Inr ms\<close> ask [OF ps _ Inr]
          by (auto simp: ai_fallback_def then_query then_of_result ok_or_def quietly split: option.splits)
      qed
    qed (use s ps in \<open>simp add: ai_fallback_def then_query quietly\<close>)
  qed (use s in \<open>simp add: ai_fallback_def then_query quietly\<close>)
qed

definition not_cached :: "('k, 'f) environment \<Rightarrow> chat_draws \<Rightarrow> application_settings \<Rightarrow> string \<Rightarrow> dialogue \<Rightarrow> bool" where
  "not_cached E T s message D \<longleftrightarrow>
     (as_prefer_cached_local s \<longrightarrow>
      dialogue_cached_response D (normalize_request (en_unicode E) message) ''global'' (cw_now T 0) = Inr None)"

lemma cached_or_model_calls:
  assumes ok: "catalogue_ok (dm_dialogue d)" and s: "dialogue_settings (dm_dialogue d) = Inr s"
  shows "made (dm_calls d) (\<lambda>call. usable_call C s selection user call \<and> not_cached E T s (cm_content user) (dm_dialogue d))
    (snd (cached_or_model E T C selection session user correlation d))"
proof -
  let ?permitted = "\<lambda>call. usable_call C s selection user call \<and> not_cached E T s (cm_content user) (dm_dialogue d)"
  let ?model = "then_step (activity T 3 (Some (cs_id session)) correlation AK_CacheMiss
      ''No reusable local response matched'' None) (\<lambda>_. ai_fallback E T C selection session user correlation)"
  have model: "made (dm_calls d) ?permitted (snd (?model d))" if "not_cached E T s (cm_content user) (dm_dialogue d)"
  proof (rule made_then [OF steady_parts(3)])
    fix d1 :: "'a daemon" assume steady: "steady d d1"
    have "dialogue_settings (dm_dialogue d1) = Inr s"
      using s steady_reads(1) [OF steady] by simp
    moreover have "catalogue_ok (dm_dialogue d1)"
      using ok steady by (auto simp: catalogue_ok_def table_defs steady_def configuration_def)
    ultimately show "made (dm_calls d1) ?permitted (snd (ai_fallback E T C selection session user correlation d1))"
      using that by (intro made_mono [OF ai_fallback_calls]) auto
  qed
  show ?thesis
  proof (cases "as_prefer_cached_local s")
    case True
    let ?found = "dialogue_cached_response (dm_dialogue d) (normalize_request (en_unicode E) (cm_content user)) ''global'' (cw_now T 0)"
    show ?thesis
    proof (cases ?found)
      case (Inl e)
      then show ?thesis using s True by (simp add: cached_or_model_def then_query made_def)
    next
      case (Inr found)
      then show ?thesis
        using s True model
        by (cases found) (simp_all add: cached_or_model_def then_query made_quiet after_model_quiet not_cached_def)
    qed
  next
    case False
    then show ?thesis
      using s model by (simp add: cached_or_model_def then_query not_cached_def) (simp add: then_step_def answer_def)
  qed
qed

lemma chat_calls:
  assumes ok: "catalogue_ok (dm_dialogue d)"
  shows "made (dm_calls d) (\<lambda>call. \<exists>s user. dialogue_settings (dm_dialogue d) = Inr s
      \<and> resolve_local (en_unicode E) (trim (crq_message request)) = Inr None
      \<and> cm_content user = trim (crq_message request) \<and> usable_call C s (crq_model_selection request) user call
      \<and> not_cached E T s (trim (crq_message request)) (dm_dialogue d))
    (snd (chat_with_cancellation E T C request correlation d))" (is "made _ ?permitted _")
proof -
  let ?message = "trim (crq_message request)"
  have act: "made (dm_calls d1) ?permitted (snd ((case resolve_local (en_unicode E) ?message of
        Inl _ \<Rightarrow> refuse Panicked
      | Inr (Some intent) \<Rightarrow> handle_local_intent E T session (user_message_of T session ?message) correlation intent
      | Inr None \<Rightarrow> cached_or_model E T C (crq_model_selection request) session
          (user_message_of T session ?message) correlation) d1))"
    if steady: "steady d d1" for session and d1 :: "'a daemon"
  proof (cases "resolve_local (en_unicode E) ?message")
    case (Inr found)
    have same: "dialogue_cached_response (dm_dialogue d1) = dialogue_cached_response (dm_dialogue d)"
      "dialogue_settings (dm_dialogue d1) = dialogue_settings (dm_dialogue d)" "catalogue_ok (dm_dialogue d1)"
      using ok steady_reads [OF steady] steady by (auto simp: catalogue_ok_def table_defs steady_def configuration_def)
    show ?thesis
    proof (cases found)
      case None
      show ?thesis
      proof (cases "dialogue_settings (dm_dialogue d)")
        case (Inl e)
        then show ?thesis using Inr None same by (simp add: cached_or_model_def then_query made_def)
      next
        fix s assume s: "dialogue_settings (dm_dialogue d) = Inr s"
        have content: "cm_content (user_message_of T session ?message) = ?message" by (simp add: user_message_of_def)
        have "made (dm_calls d1) ?permitted (snd (cached_or_model E T C (crq_model_selection request) session
            (user_message_of T session ?message) correlation d1))"
        proof (rule made_mono [OF cached_or_model_calls [OF same(3)]])
          show "dialogue_settings (dm_dialogue d1) = Inr s" using s same(2) by simp
        next
          fix call assume "usable_call C s (crq_model_selection request) (user_message_of T session ?message) call
            \<and> not_cached E T s (cm_content (user_message_of T session ?message)) (dm_dialogue d1)"
          then show "?permitted call"
            using s content Inr None same(1)
            by (intro exI [of _ s] exI [of _ "user_message_of T session ?message"]) (simp add: not_cached_def)
        qed
        then show ?thesis using Inr None by simp
      qed
    qed (use Inr in \<open>simp add: made_quiet local_intent_quiet\<close>)
  qed (simp add: made_quiet quiet.refuse_obeys)
  show ?thesis
  proof (cases "?message = [] \<or> length ?message > 16384")
    case False
    then show ?thesis
      unfolding chat_with_cancellation_def Let_def
      apply (simp only: if_False)
      apply (rule made_then [OF steady_parts(1)])
      apply (rule made_then [OF steady_parts(2)])
      apply (rule made_then [OF steady_parts(3)])
      apply (rule act)
      apply (blast intro: steady.composes)
      done
  qed (simp add: chat_with_cancellation_def Let_def made_quiet quiet.refuse_obeys)
qed

lemma request_tokens:
  "sum_list (map (\<lambda>item. estimate_tokens (cp_content item))
     (aq_context (ai_request_for s user (context_build (ContextBuilder_new n) items)))) \<le> max 256 n"
proof -
  let ?start = "\<lparr>cx_items = [], cx_estimated_tokens = 0, cx_truncated = False\<rparr>"
  let ?n = "ContextBuilder_new n" and ?cs = "sort_key (\<lambda>c. - ci_priority c) items"
  have "cx_estimated_tokens ?start \<le> ?n" "?n < u32_max" by (simp_all add: ContextBuilder_new_def u32_max_def min_def max_def)
  from fold_candidates [OF this, of ?cs] obtain kept where
    "cx_items (fold (add_candidate ?n) ?cs ?start) = cx_items ?start @ map payload_of kept"
    "cx_estimated_tokens (fold (add_candidate ?n) ?cs ?start)
       = cx_estimated_tokens ?start + sum_list (map (\<lambda>c. estimate_tokens (ci_content c)) kept)"
    "cx_estimated_tokens (fold (add_candidate ?n) ?cs ?start) \<le> ?n"
    by blast
  then have "cx_items (context_build ?n items) = map payload_of kept"
    "sum_list (map (\<lambda>c. estimate_tokens (ci_content c)) kept) \<le> ?n"
    by (simp_all add: context_build_def)
  moreover have "ContextBuilder_new n \<le> max 256 n"
    by (simp add: ContextBuilder_new_def)
  ultimately show ?thesis
    by (simp add: ai_request_for_def payload_of_def comp_def)
qed

text \<open>
  C18. A chat contacts a provider at most once, and only after every local way failed: the message is no
  local command, no approved answer is cached for it (if the settings prefer one), and the chat was not
  cancelled before. The call goes to an enabled model at the enabled and supported provider it
  belongs to, of a privacy class the settings allow; it carries the managed contract first and exactly the
  message; and conversation history is sent only if the settings allow personal context, within the
  token budget.
\<close>

theorem chat_calls_only_permitted_model:
  assumes "dialogue_ok (dm_dialogue d)" and "chat_with_cancellation E T C request correlation d = (r, d')"
  shows "dm_calls d' = dm_calls d
    \<or> (\<exists>s provider model credential aq.
         dm_calls d' = dm_calls d @ [Complete_Call provider model credential aq]
         \<and> resolve_local (en_unicode E) (trim (crq_message request)) = Inr None \<and> C \<noteq> Cancelled_Before
         \<and> dialogue_settings (dm_dialogue d) = Inr s
         \<and> (as_prefer_cached_local s \<longrightarrow> dialogue_cached_response (dm_dialogue d)
              (normalize_request (en_unicode E) (trim (crq_message request))) ''global'' (cw_now T 0) = Inr None)
         \<and> am_enabled model \<and> am_provider_id model = pv_id provider
         \<and> pv_enabled provider \<and> provider_supported (pv_kind provider)
         \<and> (pv_privacy provider = Privacy_Cloud \<longrightarrow> as_allow_cloud_ai s)
         \<and> (pv_privacy provider = Privacy_Local \<longrightarrow> as_allow_local_ai s)
         \<and> aq_user_message aq = trim (crq_message request)
         \<and> prefix (''HALQUEN CORE SECURITY CONTRACT (managed, immutable)'' @ newline @ CORE_SECURITY_CONTRACT)
             (aq_system_prompt aq)
         \<and> (aq_context aq \<noteq> [] \<longrightarrow> as_allow_personal_context s)
         \<and> sum_list (map (\<lambda>item. estimate_tokens (cp_content item)) (aq_context aq))
             \<le> max 256 (as_max_context_tokens s))"
proof -
  have "made (dm_calls d) (\<lambda>call. \<exists>s user. dialogue_settings (dm_dialogue d) = Inr s
      \<and> resolve_local (en_unicode E) (trim (crq_message request)) = Inr None
      \<and> cm_content user = trim (crq_message request) \<and> usable_call C s (crq_model_selection request) user call
      \<and> not_cached E T s (trim (crq_message request)) (dm_dialogue d)) d'"
    using chat_calls [of d E request C T correlation] assms by (simp add: dialogue_ok_def)
  then consider "dm_calls d' = dm_calls d" | call s user where "dm_calls d' = dm_calls d @ [call]"
      "dialogue_settings (dm_dialogue d) = Inr s" "resolve_local (en_unicode E) (trim (crq_message request)) = Inr None"
      "cm_content user = trim (crq_message request)" "usable_call C s (crq_model_selection request) user call"
      "not_cached E T s (trim (crq_message request)) (dm_dialogue d)"
    unfolding made_def by blast
  then show ?thesis
  proof cases
    case (2 call s user)
    then obtain provider model credential items where call: "C \<noteq> Cancelled_Before"
      "call = Complete_Call provider model credential
         (ai_request_for s user (context_build (ContextBuilder_new (as_max_context_tokens s)) items))"
      "items = [] \<or> as_allow_personal_context s" "am_enabled model"
      "usable_provider s \<lparr>rq_task = Task_Conversation, rq_selection = crq_model_selection request,
         rq_contains_personal_context = as_allow_personal_context s\<rparr> model provider"
      by (auto simp: usable_call_def model_call_def)
    let ?aq = "ai_request_for s user (context_build (ContextBuilder_new (as_max_context_tokens s)) items)"
    have "aq_user_message ?aq = trim (crq_message request)" "aq_context ?aq \<noteq> [] \<longrightarrow> as_allow_personal_context s"
      "prefix (''HALQUEN CORE SECURITY CONTRACT (managed, immutable)'' @ newline @ CORE_SECURITY_CONTRACT)
         (aq_system_prompt ?aq)"
      using 2(4) call(3) prompt_starts_with_contract by (auto simp: ai_request_for_def context_build_def)
    then show ?thesis
      using 2 call request_tokens [of s user "as_max_context_tokens s" items]
      by (intro disjI2 exI [of _ s] exI [of _ provider] exI [of _ model] exI [of _ credential] exI [of _ ?aq])
        (auto simp: usable_provider_def privacy_allowed_def not_cached_def)
  qed simp
qed

text \<open>A daemon with one local model, whose provider refuses every call.\<close>

definition unit_floats :: "unit f64_ops" where
  "unit_floats =
     \<lparr>f_lit = (\<lambda>_. ()), f_of_i64 = (\<lambda>_. ()), f_add = (\<lambda>_ _. ()), f_sub = (\<lambda>_ _. ()), f_mul = (\<lambda>_ _. ()),
      f_div = (\<lambda>_ _. ()), f_neg = (\<lambda>_. ()), f_powf = (\<lambda>_ _. ()), f_exp = (\<lambda>_. ()), f_max = (\<lambda>_ _. ()),
      f_eq = (\<lambda>_ _. True), f_round = (\<lambda>_. ()), f_clamp = (\<lambda>_ _ _. ()), f_as_u16 = (\<lambda>_. 0)\<rparr>"

text \<open>A credential store that keeps its secrets in an association list.\<close>

definition list_secrets :: "(string \<times> string) list secret_store" where
  "list_secrets =
     \<lparr>ss_store = (\<lambda>i s k. (Inr (), (i, s) # k)),
      ss_retrieve = (\<lambda>i k. case map_of k i of None \<Rightarrow> Inl Secret_NotFound | Some s \<Rightarrow> Inr s),
      ss_delete = (\<lambda>i k. (if map_of k i = None then Inl Secret_NotFound else Inr (), filter (\<lambda>(j, _). j \<noteq> i) k))\<rparr>"

lemma list_secrets_lawful: "lawful_secrets list_secrets"
proof -
  have kept: "map_of (filter (\<lambda>(j, _). j \<noteq> i) k) j = (if j = i then None else map_of k j)" for i j and k :: "(string \<times> string) list"
    by (induction k) auto
  show ?thesis
    by (auto simp: lawful_secrets_def list_secrets_def kept split: option.splits if_splits)
qed

definition example_environment :: "((string \<times> string) list, unit) environment" where
  "example_environment =
     \<lparr>en_json = plain_json, en_memory_json = plain_memory_json, en_executor = (\<lambda>_ _. (None, None)),
      en_unicode = basic_unicode, en_floats = unit_floats, en_score_text = (\<lambda>_. ''0''),
      en_client = DisabledProviderClient, en_validate_provider = validate_provider plain_urls, en_secrets = list_secrets,
      en_database_path = ''/db'', en_runtime_socket = ''/socket'', en_schema_version = 8, en_unknown_cases = 0\<rparr>"

definition example_chat_draws :: chat_draws where
  "example_chat_draws =
     \<lparr>cw_id = (\<lambda>n. ''id:'' @ replicate n CHR ''1''), cw_now = (\<lambda>_. 0), cw_pipeline = example_draws, cw_latency_ms = 0\<rparr>"

definition example_chat_daemon :: "(string \<times> string) list daemon" where
  "example_chat_daemon =
     \<lparr>dm_service = example_service, dm_memory = example_store,
      dm_dialogue = snd (dialogue_upsert_model (example_model Privacy_Local ''p'' ''m'')
        (snd (dialogue_upsert_provider (example_provider Privacy_Local ''p'') empty_dialogue))),
      dm_diagnostics = [], dm_secrets = [], dm_calls = [], dm_spawned = []\<rparr>"

lemma example_chat_daemon_ok: "dialogue_ok (dm_dialogue example_chat_daemon)"
proof -
  let ?D = "snd (dialogue_upsert_provider (example_provider Privacy_Local ''p'') empty_dialogue)"
  have "dialogue_step empty_dialogue ?D" by (rule dialogue_step.upsert_provider) (rule prod.collapse [symmetric])
  moreover have "dialogue_step ?D (dm_dialogue example_chat_daemon)"
    unfolding example_chat_daemon_def daemon.select_convs
    by (rule dialogue_step.upsert_model) (rule prod.collapse [symmetric])
  ultimately show ?thesis using empty_dialogue_ok dialogue_step_ok by blast
qed

lemma example_chat_daemon_calls: "dm_calls example_chat_daemon = []"
  by (simp add: example_chat_daemon_def)

theorem chat_calls_only_permitted_model_witness:
  "dm_calls (snd (chat_with_cancellation example_environment example_chat_draws Cancelled_Before
     \<lparr>crq_session_id = None, crq_message = ''What is a monad?'', crq_model_selection = Automatic\<rparr> ''c''
     example_chat_daemon)) = []"
  (is "dm_calls (snd ?chat) = []")
  using chat_calls_only_permitted_model [OF example_chat_daemon_ok, of example_environment example_chat_draws
      Cancelled_Before _ "''c''" "fst ?chat" "snd ?chat", OF prod.collapse [symmetric]]
    example_chat_daemon_calls by auto

end
