(* ===== verification/Halquen_Handlers_Facts.thy ===== *)
theory Halquen_Handlers_Facts
  imports Halquen_Handlers Halquen_Conversation_Facts
begin

text \<open>
  Changing a provider and its credential together: the database and the credential store change both or
  neither, a key that was saved is the key that is read, and the text of a key never reaches the
  database.
\<close>

section \<open>Credential steps\<close>

text \<open>What a daemon can read of its credentials.\<close>

definition readable :: "('k, 'f) environment \<Rightarrow> 'k daemon \<Rightarrow> string \<Rightarrow> (secret_error, string) result" where
  "readable E d i = ss_retrieve (en_secrets E) i (dm_secrets d)"

lemma secret_laws:
  assumes "lawful_secrets S"
  shows "ss_store S i s k = (Inr u, k') \<Longrightarrow> ss_retrieve S j k' = (if j = i then Inr s else ss_retrieve S j k)"
    and "ss_delete S i k = (Inr u, k') \<Longrightarrow>
      ss_retrieve S j k' = (if j = i then Inl Secret_NotFound else ss_retrieve S j k)"
    and "ss_store S i s k = (Inl e, k') \<Longrightarrow> ss_retrieve S j k' = ss_retrieve S j k"
    and "ss_delete S i k = (Inl e, k') \<Longrightarrow> ss_retrieve S j k' = ss_retrieve S j k"
    and "ss_delete S i k = (Inl Secret_NotFound, k') \<Longrightarrow> ss_retrieve S i k = Inl Secret_NotFound"
  using assms unfolding lawful_secrets_def by (metis (full_types) old.unit.exhaust)+

definition touches_secrets_only :: "'k daemon \<Rightarrow> 'k daemon \<Rightarrow> bool" where
  "touches_secrets_only d d' \<longleftrightarrow> d' = d\<lparr>dm_secrets := dm_secrets d'\<rparr>"

interpretation secretive: step_relation touches_secrets_only
  by unfold_locales (simp_all add: touches_secrets_only_def, metis daemon.surjective daemon.update_convs(5))

lemma store_secret_effect:
  assumes "lawful_secrets (en_secrets E)" and "store_secret E i s d = (r, d')"
  shows "r = Inr () \<Longrightarrow> readable E d' = (readable E d)(i := Inr s)"
    and "r = Inl e \<Longrightarrow> readable E d' = readable E d \<and> e = secret_store_error"
  using assms(2) by (auto simp: store_secret_def readable_def fun_eq_iff map_err_def
      secret_laws(1,3) [OF assms(1)] split: prod.splits sum.splits)

lemma delete_secret_effect:
  assumes "lawful_secrets (en_secrets E)" and "delete_secret E i d = (r, d')"
  shows "r = Inr () \<Longrightarrow> readable E d' = (readable E d)(i := Inl Secret_NotFound)"
    and "r = Inl e \<Longrightarrow> readable E d' = readable E d \<and> e = secret_store_error"
  using assms(2) by (auto simp: delete_secret_def readable_def fun_eq_iff
      secret_laws(2,4,5) [OF assms(1)] split: prod.splits sum.splits secret_error.splits)

lemma capture_secret_effect:
  "capture_secret E i d = (r, d') \<Longrightarrow> d' = d"
  "capture_secret E i d = (Inr previous, d') \<Longrightarrow>
     readable E d i = (case previous of Some s \<Rightarrow> Inr s | None \<Rightarrow> Inl Secret_NotFound)"
  by (auto simp: capture_secret_def readable_def split: sum.splits secret_error.splits)

lemma restore_secret_effect:
  assumes "lawful_secrets (en_secrets E)" and "restore_secret E i previous d = (Inr u, d')"
  shows "readable E d' = (readable E d)(i := case previous of Some s \<Rightarrow> Inr s | None \<Rightarrow> Inl Secret_NotFound)"
  using assms(2) store_secret_effect(1) [OF assms(1) _ refl] delete_secret_effect(1) [OF assms(1) _ refl]
  by (cases previous) (auto simp: restore_secret_def)

lemma secretive_steps:
  "obeys touches_secrets_only (capture_secret E i)" "obeys touches_secrets_only (store_secret E i s)"
  "obeys touches_secrets_only (delete_secret E i)" "obeys touches_secrets_only (restore_secret E i previous)"
  by (auto simp: obeys_def touches_secrets_only_def capture_secret_def store_secret_def delete_secret_def
      restore_secret_def split: sum.splits secret_error.splits prod.splits option.splits)

section \<open>Providers and credentials change together\<close>

lemma then_step_Inl:
  "then_step m f d = (Inl e, d'') \<longleftrightarrow> m d = (Inl e, d'') \<or> (\<exists>x d'. m d = (Inr x, d') \<and> f x d' = (Inl e, d''))"
  by (auto simp: then_step_def split: prod.splits sum.splits)

lemma then_step_result:
  "then_step m f d = (r, d'') \<longleftrightarrow>
     (\<exists>e. r = Inl e \<and> m d = (Inl e, d'')) \<or> (\<exists>x d'. m d = (Inr x, d') \<and> f x d' = (r, d''))"
  by (auto simp: then_step_def split: prod.splits sum.splits)

text \<open>A change of at most one credential, and its undoing with what was captured before.\<close>

lemma captured:
  assumes "on_reference reference (capture_secret E) None d = (r, d')"
  shows "d' = d"
    and "r = Inr previous \<Longrightarrow> reference = Some i \<Longrightarrow>
      readable E d i = (case previous of Some s \<Rightarrow> Inr s | None \<Rightarrow> Inl Secret_NotFound)"
proof -
  show "d' = d" using assms capture_secret_effect(1) by (auto simp: on_reference_def answer_def split: option.splits)
  assume "r = Inr previous" "reference = Some i"
  then have "capture_secret E i d = (Inr previous, d')" using assms by (simp add: on_reference_def)
  then show "readable E d i = (case previous of Some s \<Rightarrow> Inr s | None \<Rightarrow> Inl Secret_NotFound)"
    by (rule capture_secret_effect(2))
qed

lemma undone:
  assumes "lawful_secrets (en_secrets E)"
    and "on_reference reference (capture_secret E) None d = (Inr previous, d)"
    and "\<And>j. reference \<noteq> Some j \<Longrightarrow> readable E d1 j = readable E d j"
    and "on_reference reference (\<lambda>i. restore_secret E i previous) () d1 = (Inr u, d2)"
  shows "readable E d2 = readable E d"
proof (cases reference)
  case None
  then show ?thesis using assms(3,4) by (auto simp: on_reference_def answer_def)
next
  case (Some i)
  then have "readable E d2 = (readable E d1)(i := readable E d i)"
    using restore_secret_effect [OF assms(1)] assms(4) captured(2) [OF assms(2) refl Some] by (auto simp: on_reference_def)
  then show ?thesis using assms(3) Some by auto
qed

lemma changed:
  assumes "lawful_secrets (en_secrets E)" and "change_secret E reference key d = (r, d')"
  shows "r = Inl e \<Longrightarrow> e = secret_store_error"
    and "r = Inr u \<Longrightarrow> reference \<noteq> Some j \<Longrightarrow> readable E d' j = readable E d j"
    and "r = Inr u \<Longrightarrow> reference = Some i \<Longrightarrow> key = Some s \<Longrightarrow> readable E d' i = Inr s"
    and "dm_dialogue d' = dm_dialogue d"
    and "r = Inr u \<Longrightarrow> readable E d' = (case reference of None \<Rightarrow> readable E d
      | Some i \<Rightarrow> (readable E d)(i := case key of Some s \<Rightarrow> Inr s | None \<Rightarrow> Inl Secret_NotFound))"
proof -
  have *: "change_secret E reference key d =
      (case reference of None \<Rightarrow> (Inr (), d) | Some i \<Rightarrow>
         (case key of Some secret \<Rightarrow> store_secret E i secret | None \<Rightarrow> delete_secret E i) d)"
    by (simp add: change_secret_def on_reference_def answer_def split: option.splits)
  note effects = store_secret_effect [OF assms(1)] delete_secret_effect [OF assms(1)]
  show "r = Inl e \<Longrightarrow> e = secret_store_error"
    using assms(2) effects(2,4) unfolding * by (auto split: option.splits)
  show "r = Inr u \<Longrightarrow> reference \<noteq> Some j \<Longrightarrow> readable E d' j = readable E d j"
    using assms(2) effects(1,3) [OF _ refl] unfolding * by (auto split: option.splits)
  show "r = Inr u \<Longrightarrow> reference = Some i \<Longrightarrow> key = Some s \<Longrightarrow> readable E d' i = Inr s"
    using assms(2) effects(1) [OF _ refl] unfolding * by (auto split: option.splits)
  show "dm_dialogue d' = dm_dialogue d"
    using assms(2) unfolding * by (auto simp: store_secret_def delete_secret_def
        split: option.splits prod.splits sum.splits secret_error.splits)
  show "r = Inr u \<Longrightarrow> readable E d' = (case reference of None \<Rightarrow> readable E d
      | Some i \<Rightarrow> (readable E d)(i := case key of Some s \<Rightarrow> Inr s | None \<Rightarrow> Inl Secret_NotFound))"
    using assms(2) effects(1,3) [OF _ refl] unfolding * by (auto split: option.splits)
qed

lemma or_undo_result:
  "or_undo m undo d = (r, d'') \<longleftrightarrow>
     (\<exists>x. r = Inr x \<and> m d = (Inr x, d'')) \<or> (\<exists>e d'. m d = (Inl e, d') \<and> then_step undo (\<lambda>_. refuse e) d' = (r, d''))"
  by (auto simp: or_undo_def split: prod.splits sum.splits)

lemma upsert_failed: "dialogue_upsert_provider p D = (Inl e, D') \<Longrightarrow> D' = D"
  by (auto simp: dialogue_upsert_provider_def Let_def split: if_splits)

lemma restore_result:
  assumes "on_reference reference (\<lambda>i. restore_secret E i previous) () d = (x, d')"
  shows "dm_dialogue d' = dm_dialogue d" and "x = Inl e \<Longrightarrow> e = secret_store_error"
  using assms
  by (auto simp: on_reference_def answer_def restore_secret_def store_secret_def delete_secret_def map_err_def
      split: option.splits prod.splits sum.splits secret_error.splits)

lemma write_or_undo:
  assumes lawful: "lawful_secrets (en_secrets E)"
    and capture: "on_reference reference (capture_secret E) None d = (Inr previous, d)"
    and change: "change_secret E reference key d = (Inr u, d1)"
    and wrote: "or_undo (on_dialogue (dialogue_upsert_provider p))
      (on_reference reference (\<lambda>i. restore_secret E i previous) ()) d1 = (r, d')"
  shows "r = Inr v \<Longrightarrow> readable E d' = readable E d1"
    and "r = Inl e \<Longrightarrow> dm_dialogue d' = dm_dialogue d \<and> (e \<noteq> secret_store_error \<longrightarrow> readable E d' = readable E d)"
proof -
  show "r = Inr v \<Longrightarrow> readable E d' = readable E d1"
    using wrote by (auto simp: or_undo_result on_dialogue_def readable_def then_step_result refuse_def fun_eq_iff
        split: prod.splits)
  assume r: "r = Inl e"
  obtain x D where op: "dialogue_upsert_provider p (dm_dialogue d1) = (x, D)" by fastforce
  then obtain e1 where "x = Inl e1" using wrote r
    by (cases x) (auto simp: or_undo_result on_dialogue_def)
  with op have failed: "dialogue_upsert_provider p (dm_dialogue d1) = (Inl e1, D)" by simp
  with wrote r have undo: "then_step (on_reference reference (\<lambda>i. restore_secret E i previous) ())
      (\<lambda>_. refuse internal_error) (d1\<lparr>dm_dialogue := D\<rparr>) = (Inl e :: (service_error, unit) result, d')"
    by (auto simp: or_undo_result on_dialogue_def)
  have same: "dm_dialogue d1 = dm_dialogue d" "d1\<lparr>dm_dialogue := D\<rparr> = d1"
    using upsert_failed [OF failed] changed(4) [OF lawful change] by simp_all
  have others: "reference \<noteq> Some j \<Longrightarrow> readable E d1 j = readable E d j" for j
    using changed(2) [OF lawful change refl] .
  from undo consider
      "on_reference reference (\<lambda>i. restore_secret E i previous) () d1 = (Inl e, d')"
    | u where "on_reference reference (\<lambda>i. restore_secret E i previous) () d1 = (Inr u, d')"
    unfolding same by (auto simp: then_step_result refuse_def)
  then show "dm_dialogue d' = dm_dialogue d \<and> (e \<noteq> secret_store_error \<longrightarrow> readable E d' = readable E d)"
  proof cases
    case 1
    then show ?thesis using restore_result [OF 1] same by auto
  next
    case (2 u)
    then show ?thesis using restore_result(1) [OF 2] undone [OF lawful capture others 2] same by auto
  qed
qed

lemma credential_then_row:
  assumes lawful: "lawful_secrets (en_secrets E)"
    and run: "then_step (on_reference reference (capture_secret E) None) (\<lambda>previous.
      then_step (change_secret E reference key) (\<lambda>_.
      then_step (or_undo (on_dialogue (dialogue_upsert_provider p))
        (on_reference reference (\<lambda>i. restore_secret E i previous) ())) (\<lambda>_. answer p))) d = (r, d')"
  shows "case r of
      Inr q \<Rightarrow> q = p \<and> (\<forall>i s. reference = Some i \<longrightarrow> key = Some s \<longrightarrow> readable E d' i = Inr s)
        \<and> (\<forall>j. reference \<noteq> Some j \<longrightarrow> readable E d' j = readable E d j)
    | Inl e \<Rightarrow> dm_dialogue d' = dm_dialogue d \<and> (e \<noteq> secret_store_error \<longrightarrow> readable E d' = readable E d)"
proof (cases "on_reference reference (capture_secret E) None d")
  case (Pair captured d0)
  have d0: "d0 = d" using captured(1) [OF Pair] .
  show ?thesis
  proof (cases captured)
    case (Inl e)
    then show ?thesis using run Pair d0 by (auto simp: then_step_result)
  next
    case (Inr previous)
    note capture = Pair [unfolded d0 Inr]
    show ?thesis
    proof (cases "change_secret E reference key d")
      case change: (Pair x d1)
      show ?thesis
      proof (cases x)
        case (Inl e)
        then show ?thesis
          using run capture change changed(1,4) [OF lawful change] by (auto simp: then_step_result)
      next
        case (Inr u)
        note change = change [unfolded Inr]
        obtain w where wrote: "or_undo (on_dialogue (dialogue_upsert_provider p))
            (on_reference reference (\<lambda>i. restore_secret E i previous) ()) d1 = (w, d')"
          and "r = (case w of Inl e \<Rightarrow> Inl e | Inr _ \<Rightarrow> Inr p)"
          using run capture change by (auto simp: then_step_result answer_def)
        then show ?thesis
          using write_or_undo [OF lawful capture change wrote] changed(2,3) [OF lawful change refl]
          by (cases w) auto
      qed
    qed
  qed
qed

section \<open>A saved provider\<close>

lemma saved_provider:
  assumes "then_step (on_reference reference (capture_secret E) None) (\<lambda>previous.
      then_step (change_secret E reference key) (\<lambda>_.
      then_step (or_undo (on_dialogue (dialogue_upsert_provider p))
        (on_reference reference (\<lambda>i. restore_secret E i previous) ())) (\<lambda>_. answer p))) d = (Inr q, d')"
  shows "q = p" and "d' = d\<lparr>dm_dialogue := snd (dialogue_upsert_provider p (dm_dialogue d)), dm_secrets := dm_secrets d'\<rparr>"
proof -
  from assms obtain previous d0 u d1 v where steps:
      "on_reference reference (capture_secret E) None d = (Inr previous, d0)"
      "change_secret E reference key d0 = (Inr u, d1)"
      "or_undo (on_dialogue (dialogue_upsert_provider p))
         (on_reference reference (\<lambda>i. restore_secret E i previous) ()) d1 = (Inr v, d')" "q = p"
    by (auto simp: then_step_Inr answer_def)
  then show "q = p" by simp
  have "d0 = d" using captured(1) [OF steps(1)] .
  moreover have "touches_secrets_only d0 d1"
    using steps(2) by (auto simp: change_secret_def on_reference_def answer_def intro: secretive.unchanged
        dest!: obeysD [OF secretive_steps(2)] obeysD [OF secretive_steps(3)] split: option.splits)
  moreover have "d' = d1\<lparr>dm_dialogue := snd (dialogue_upsert_provider p (dm_dialogue d1))\<rparr>"
    using steps(3) by (auto simp: or_undo_result on_dialogue_def then_step_Inr refuse_def split: prod.splits)
  ultimately show "d' = d\<lparr>dm_dialogue := snd (dialogue_upsert_provider p (dm_dialogue d)), dm_secrets := dm_secrets d'\<rparr>"
    unfolding touches_secrets_only_def by (cases d; cases d1) simp
qed

lemma upsert_saved:
  fixes input :: provider_upsert and T :: chat_draws
  defines "i \<equiv> case pu_id input of Some i \<Rightarrow> i | None \<Rightarrow> cw_id T 0"
  assumes "handle_upsert_provider E T input d = (Inr p, d')"
  obtains previous where "dialogue_provider (dm_dialogue d) i = Inr previous"
    and "checked_provider E (upserted_provider T input i previous) = Inr p"
    and "d' = d\<lparr>dm_dialogue := snd (dialogue_upsert_provider p (dm_dialogue d)), dm_secrets := dm_secrets d'\<rparr>"
proof -
  have "\<not> is_some_and (\<lambda>key. key = [] \<or> length key > 8192 \<or> CHR 0x00 \<in> set key) (pu_api_key input)"
    using assms(2) by (auto simp: handle_upsert_provider_def refuse_def)
  then obtain previous q where previous: "dialogue_provider (dm_dialogue d) i = Inr previous"
      "checked_provider E (upserted_provider T input i previous) = Inr q"
    and tail: "then_step (on_reference (mutation_reference input i previous) (capture_secret E) None) (\<lambda>secret.
      then_step (change_secret E (mutation_reference input i previous) (pu_api_key input)) (\<lambda>_.
      then_step (or_undo (on_dialogue (dialogue_upsert_provider q))
        (on_reference (mutation_reference input i previous) (\<lambda>i. restore_secret E i secret) ())) (\<lambda>_. answer q))) d
      = (Inr p, d')"
    using assms(2) unfolding i_def handle_upsert_provider_def Let_def
    by (auto simp: then_step_Inr [of "query _"] then_step_Inr [of "of_result _"] query_def of_result_def)
  show thesis using that [OF previous(1)] previous(2) saved_provider [OF tail] by simp
qed

text \<open>The row and the credential of a saved provider.\<close>

lemma row_and_credential:
  assumes lawful: "lawful_secrets (en_secrets E)"
    and run: "then_step (on_reference reference (capture_secret E) None) (\<lambda>previous.
      then_step (change_secret E reference key) (\<lambda>_.
      then_step (or_undo (on_dialogue (dialogue_upsert_provider p))
        (on_reference reference (\<lambda>i. restore_secret E i previous) ())) (\<lambda>_. answer p))) d = (Inr q, d')"
  shows "dialogue_upsert_provider p (dm_dialogue d) = (Inr (), dm_dialogue d')"
    and "readable E d' = (case reference of None \<Rightarrow> readable E d
      | Some i \<Rightarrow> (readable E d)(i := case key of Some s \<Rightarrow> Inr s | None \<Rightarrow> Inl Secret_NotFound))"
proof -
  from run obtain previous d0 u d1 v where steps:
      "on_reference reference (capture_secret E) None d = (Inr previous, d0)"
      "change_secret E reference key d0 = (Inr u, d1)"
      "or_undo (on_dialogue (dialogue_upsert_provider p))
         (on_reference reference (\<lambda>i. restore_secret E i previous) ()) d1 = (Inr v, d')"
    by (auto simp: then_step_Inr answer_def)
  have "d0 = d" using captured(1) [OF steps(1)] .
  note change = steps(2) [unfolded this]
  have "on_dialogue (dialogue_upsert_provider p) d1 = (Inr v, d')"
    using steps(3) by (auto simp: or_undo_result then_step_Inr refuse_def)
  then obtain D where D: "dialogue_upsert_provider p (dm_dialogue d1) = (Inr (), D)" "d' = d1\<lparr>dm_dialogue := D\<rparr>"
    by (auto simp: on_dialogue_def map_err_def split: prod.splits sum.splits)
  then show "dialogue_upsert_provider p (dm_dialogue d) = (Inr (), dm_dialogue d')"
    using changed(4) [OF lawful change] by simp
  show "readable E d' = (case reference of None \<Rightarrow> readable E d
      | Some i \<Rightarrow> (readable E d)(i := case key of Some s \<Rightarrow> Inr s | None \<Rightarrow> Inl Secret_NotFound))"
    using changed(5) [OF lawful change refl] D(2) by (simp add: readable_def [abs_def])
qed

text \<open>A request to save a provider is refused before anything changes, or reaches the change of the credential.\<close>

lemma upsert_cases:
  assumes "handle_upsert_provider E T input d = (r, d')"
  obtains (refused) e where "r = Inl e" "d' = d"
  | (checked) i previous p where "dialogue_provider (dm_dialogue d) i = Inr previous"
      "checked_provider E (upserted_provider T input i previous) = Inr p"
      "then_step (on_reference (mutation_reference input i previous) (capture_secret E) None) (\<lambda>secret.
        then_step (change_secret E (mutation_reference input i previous) (pu_api_key input)) (\<lambda>_.
        then_step (or_undo (on_dialogue (dialogue_upsert_provider p))
          (on_reference (mutation_reference input i previous) (\<lambda>i. restore_secret E i secret) ())) (\<lambda>_. answer p))) d = (r, d')"
proof (cases "is_some_and (\<lambda>key. key = [] \<or> length key > 8192 \<or> CHR 0x00 \<in> set key) (pu_api_key input)")
  case True
  with assms refused show thesis by (auto simp: handle_upsert_provider_def refuse_def)
next
  case False
  let ?i = "case pu_id input of Some i \<Rightarrow> i | None \<Rightarrow> cw_id T 0"
  show thesis
  proof (cases "dialogue_provider (dm_dialogue d) ?i")
    case (Inl e)
    with False assms refused show thesis by (auto simp: handle_upsert_provider_def then_query Let_def)
  next
    case (Inr previous)
    show thesis
    proof (cases "checked_provider E (upserted_provider T input ?i previous)")
      case (Inl e)
      with False assms \<open>dialogue_provider _ _ = _\<close> show thesis
        by (intro refused [of e]) (simp_all add: handle_upsert_provider_def then_query then_of_result Let_def)
    next
      case (Inr p)
      with False assms \<open>dialogue_provider _ _ = _\<close> show thesis
        by (intro checked [of ?i previous p]) (simp_all add: handle_upsert_provider_def then_query then_of_result Let_def)
    qed
  qed
qed

lemma checked_fields:
  assumes "checked_provider E (upserted_provider T input i previous) = Inr p"
  shows "pv_id p = i" "pv_name p = pu_name input" "pv_base_url p = pu_base_url input" "pv_kind p = pu_kind input"
    "pv_privacy p = pu_privacy input" "pv_enabled p = pu_enabled input"
    "pv_credential_id p = (if pu_api_key input \<noteq> None then Some (replacement_reference i previous)
       else if pu_clear_api_key input then None else previous_credential previous)"
  using assms
  by (auto simp: checked_provider_def upserted_provider_def Let_def split: sum.splits ai_error.splits)

text \<open>
  C19. Saving a provider changes its row and its credential together. If it succeeds, the provider of the
  answer, with the settings of the request, is the row that is stored; with a key, exactly that key is
  what is read under the credential reference of this row; with a request to clear the key, the row has no
  reference and what it referred to before is gone; otherwise the row keeps its reference; and no other
  credential changes. If it fails, the tables are as they were, and unless the credential store itself
  failed every credential reads as it did before.
\<close>

theorem provider_and_credential_change_together:
  assumes "lawful_secrets (en_secrets E)" and "handle_upsert_provider E T input d = (r, d')"
  shows "case r of
      Inr p \<Rightarrow> dialogue_upsert_provider p (dm_dialogue d) = (Inr (), dm_dialogue d')
        \<and> pv_name p = pu_name input \<and> pv_base_url p = pu_base_url input \<and> pv_kind p = pu_kind input
        \<and> pv_privacy p = pu_privacy input \<and> pv_enabled p = pu_enabled input
        \<and> (\<exists>previous. dialogue_provider (dm_dialogue d) (pv_id p) = Inr previous
            \<and> (case pu_api_key input of
                 Some key \<Rightarrow> \<exists>i. pv_credential_id p = Some i \<and> readable E d' = (readable E d)(i := Inr key)
               | None \<Rightarrow>
                   if pu_clear_api_key input
                   then pv_credential_id p = None \<and> readable E d' = (case previous_credential previous of
                       None \<Rightarrow> readable E d | Some i \<Rightarrow> (readable E d)(i := Inl Secret_NotFound))
                   else pv_credential_id p = previous_credential previous \<and> readable E d' = readable E d))
    | Inl e \<Rightarrow> dm_dialogue d' = dm_dialogue d \<and> (e \<noteq> secret_store_error \<longrightarrow> readable E d' = readable E d)"
  using assms(2)
proof (cases rule: upsert_cases)
  case (refused e)
  then show ?thesis by simp
next
  case (checked i previous p)
  note run = checked(3)
  show ?thesis
  proof (cases r)
    case (Inl e)
    then show ?thesis using credential_then_row [OF assms(1) run] by simp
  next
    case (Inr q)
    have "q = p" using credential_then_row [OF assms(1) run] Inr by simp
    with Inr run have "then_step (on_reference (mutation_reference input i previous) (capture_secret E) None) (\<lambda>secret.
        then_step (change_secret E (mutation_reference input i previous) (pu_api_key input)) (\<lambda>_.
        then_step (or_undo (on_dialogue (dialogue_upsert_provider p))
          (on_reference (mutation_reference input i previous) (\<lambda>i. restore_secret E i secret) ())) (\<lambda>_. answer p))) d
      = (Inr p, d')" by simp
    note effect = row_and_credential [OF assms(1) this]
    show ?thesis
      using effect checked_fields [OF checked(2)] checked(1) Inr \<open>q = p\<close>
      by (auto simp: mutation_reference_def split: option.splits)
  qed
qed

section \<open>The text of a key\<close>

text \<open>
  A credential store is blind to the text of the keys if whether it stores or deletes does not depend on
  them, neither on the key to be stored nor on the stored ones: \<open>alike\<close> relates its states that differ
  only in the texts.
\<close>

definition key_blind :: "('k \<Rightarrow> 'k \<Rightarrow> bool) \<Rightarrow> 'k secret_store \<Rightarrow> bool" where
  "key_blind alike S \<longleftrightarrow> (\<forall>k. alike k k)
     \<and> (\<forall>i s t k l. alike k l \<longrightarrow> fst (ss_store S i s k) = fst (ss_store S i t l)
          \<and> alike (snd (ss_store S i s k)) (snd (ss_store S i t l)))
     \<and> (\<forall>i k l. alike k l \<longrightarrow> fst (ss_delete S i k) = fst (ss_delete S i l)
          \<and> alike (snd (ss_delete S i k)) (snd (ss_delete S i l)))"

definition same_but_keys :: "('k \<Rightarrow> 'k \<Rightarrow> bool) \<Rightarrow> 'k daemon \<Rightarrow> 'k daemon \<Rightarrow> bool" where
  "same_but_keys alike d e \<longleftrightarrow> alike (dm_secrets d) (dm_secrets e) \<and> e = d\<lparr>dm_secrets := dm_secrets e\<rparr>"

definition blind_steps :: "('k \<Rightarrow> 'k \<Rightarrow> bool) \<Rightarrow> ('k, 'a) step \<Rightarrow> ('k, 'a) step \<Rightarrow> bool" where
  "blind_steps alike m n \<longleftrightarrow> (\<forall>d e. same_but_keys alike d e \<longrightarrow>
     fst (m d) = fst (n e) \<and> same_but_keys alike (snd (m d)) (snd (n e)))"

lemma blind_stepsD:
  assumes "blind_steps alike m n" and "same_but_keys alike d e" and "m d = (r1, d1)" and "n e = (r2, d2)"
  shows "r1 = r2 \<and> same_but_keys alike d1 d2"
  using assms unfolding blind_steps_def by fastforce

named_theorems blind

lemma blind_basic [blind]: "blind_steps alike (answer x) (answer x)" "blind_steps alike (refuse e) (refuse e)"
  by (simp_all add: blind_steps_def answer_def refuse_def)

lemma blind_then [blind]:
  assumes "blind_steps alike m n" and "\<And>x. blind_steps alike (f x) (g x)"
  shows "blind_steps alike (then_step m f) (then_step n g)"
  unfolding blind_steps_def
proof (intro allI impI)
  fix d e
  assume "same_but_keys alike d e"
  then have "fst (m d) = fst (n e)" "same_but_keys alike (snd (m d)) (snd (n e))"
    using assms(1) by (simp_all add: blind_steps_def)
  then show "fst (then_step m f d) = fst (then_step n g e)
      \<and> same_but_keys alike (snd (then_step m f d)) (snd (then_step n g e))"
    using assms(2) by (cases "m d"; cases "n e"; cases "fst (m d)") (auto simp: then_step_def blind_steps_def)
qed

lemma blind_secrets [blind]:
  assumes "key_blind alike (en_secrets E)"
  shows "blind_steps alike (store_secret E i s) (store_secret E i t)"
    and "blind_steps alike (delete_secret E i) (delete_secret E i)"
proof -
  have store: "fst (ss_store (en_secrets E) i s k) = fst (ss_store (en_secrets E) i t l)
      \<and> alike (snd (ss_store (en_secrets E) i s k)) (snd (ss_store (en_secrets E) i t l))"
    and delete: "fst (ss_delete (en_secrets E) i k) = fst (ss_delete (en_secrets E) i l)
      \<and> alike (snd (ss_delete (en_secrets E) i k)) (snd (ss_delete (en_secrets E) i l))" if "alike k l" for k l
    using assms that unfolding key_blind_def by blast+
  show "blind_steps alike (store_secret E i s) (store_secret E i t)"
    unfolding blind_steps_def
  proof (intro allI impI)
    fix d e :: "'a daemon"
    assume same: "same_but_keys alike d e"
    then have "alike (dm_secrets d) (dm_secrets e)" by (simp add: same_but_keys_def)
    from store [OF this] same
    show "fst (store_secret E i s d) = fst (store_secret E i t e)
        \<and> same_but_keys alike (snd (store_secret E i s d)) (snd (store_secret E i t e))"
      by (cases d; cases e) (auto simp: store_secret_def same_but_keys_def split: prod.splits)
  qed
  show "blind_steps alike (delete_secret E i) (delete_secret E i)"
    unfolding blind_steps_def
  proof (intro allI impI)
    fix d e :: "'a daemon"
    assume same: "same_but_keys alike d e"
    then have "alike (dm_secrets d) (dm_secrets e)" by (simp add: same_but_keys_def)
    from delete [OF this] same
    show "fst (delete_secret E i d) = fst (delete_secret E i e)
        \<and> same_but_keys alike (snd (delete_secret E i d)) (snd (delete_secret E i e))"
      by (cases d; cases e) (auto simp: delete_secret_def same_but_keys_def
          split: prod.splits sum.splits secret_error.splits)
  qed
qed

lemma blind_dialogue [blind]: "blind_steps alike (on_dialogue operation) (on_dialogue operation)"
  unfolding blind_steps_def
proof (intro allI impI)
  fix d e :: "'a daemon"
  assume "same_but_keys alike d e"
  then show "fst (on_dialogue operation d) = fst (on_dialogue operation e)
      \<and> same_but_keys alike (snd (on_dialogue operation d)) (snd (on_dialogue operation e))"
    by (cases d; cases e) (auto simp: on_dialogue_def same_but_keys_def split: prod.splits)
qed

lemma blind_undo [blind]:
  assumes "blind_steps alike m n" and "blind_steps alike undo undo'"
  shows "blind_steps alike (or_undo m undo) (or_undo n undo')"
  unfolding blind_steps_def
proof (intro allI impI)
  fix d e
  assume "same_but_keys alike d e"
  then have same: "fst (m d) = fst (n e)" "same_but_keys alike (snd (m d)) (snd (n e))"
    using assms(1) by (simp_all add: blind_steps_def)
  have "blind_steps alike (then_step undo (\<lambda>_. refuse x)) (then_step undo' (\<lambda>_. refuse x))" for x
    by (intro blind assms(2))
  with same show "fst (or_undo m undo d) = fst (or_undo n undo' e)
      \<and> same_but_keys alike (snd (or_undo m undo d)) (snd (or_undo n undo' e))"
    by (cases "m d"; cases "n e"; cases "fst (m d)") (auto simp: or_undo_def blind_steps_def)
qed

lemma blind_reference [blind]:
  "(\<And>i. blind_steps alike (f i) (g i)) \<Longrightarrow> blind_steps alike (on_reference reference f x) (on_reference reference g x)"
  by (simp add: on_reference_def blind split: option.splits)

lemma blind_change [blind]:
  "key_blind alike (en_secrets E) \<Longrightarrow>
   blind_steps alike (change_secret E reference (Some key1)) (change_secret E reference (Some key2))"
  by (simp add: change_secret_def blind)

lemma blind_restore [blind]:
  "key_blind alike (en_secrets E) \<Longrightarrow> blind_steps alike (restore_secret E i previous) (restore_secret E i previous)"
  by (simp add: restore_secret_def blind split: option.splits)

lemma blind_tail:
  assumes "key_blind alike (en_secrets E)"
  shows "blind_steps alike
    (then_step (change_secret E reference (Some key1)) (\<lambda>_.
      then_step (or_undo (on_dialogue (dialogue_upsert_provider p))
        (on_reference reference (\<lambda>i. restore_secret E i previous) ())) (\<lambda>_. answer p)))
    (then_step (change_secret E reference (Some key2)) (\<lambda>_.
      then_step (or_undo (on_dialogue (dialogue_upsert_provider p))
        (on_reference reference (\<lambda>i. restore_secret E i previous) ())) (\<lambda>_. answer p)))"
  by (intro blind_then blind_change blind_undo blind_dialogue blind_reference blind_restore blind_basic assms)

lemma same_but_keysD:
  "same_but_keys alike d e \<Longrightarrow> d\<lparr>dm_secrets := k\<rparr> = e\<lparr>dm_secrets := k\<rparr>"
  unfolding same_but_keys_def by (cases d; cases e) simp

text \<open>
  C20. The text of a key reaches the credential store and nothing else. Two requests to save a provider
  that differ only in the key, where both keys or neither keep the limits on the length and against the
  byte zero, get the same answer, be it the saved provider or an error, and leave the daemon the same (its
  tables, the service, memory, diagnostics, provider calls and spawned commands), but for the credential
  store, if whether the store accepts a key does not depend on its text.
\<close>

theorem key_reaches_credential_store_only:
  assumes "key_blind alike (en_secrets E)"
    and "(key1 = [] \<or> length key1 > 8192 \<or> CHR 0x00 \<in> set key1)
      \<longleftrightarrow> (key2 = [] \<or> length key2 > 8192 \<or> CHR 0x00 \<in> set key2)"
    and "handle_upsert_provider E T (input\<lparr>pu_api_key := Some key1\<rparr>) d = (r1, d1)"
    and "handle_upsert_provider E T (input\<lparr>pu_api_key := Some key2\<rparr>) d = (r2, d2)"
  shows "r1 = r2 \<and> d1\<lparr>dm_secrets := dm_secrets d\<rparr> = d2\<lparr>dm_secrets := dm_secrets d\<rparr>"
proof -
  let ?input1 = "input\<lparr>pu_api_key := Some key1\<rparr>" and ?input2 = "input\<lparr>pu_api_key := Some key2\<rparr>"
  let ?i = "case pu_id input of Some i \<Rightarrow> i | None \<Rightarrow> cw_id T 0"
  have same: "upserted_provider T ?input1 = upserted_provider T ?input2"
    "mutation_reference ?input1 = mutation_reference ?input2"
    by (intro ext, simp add: upserted_provider_def) (intro ext, simp add: mutation_reference_def)
  show ?thesis
  proof (cases "key1 = [] \<or> length key1 > 8192 \<or> CHR 0x00 \<in> set key1")
    case True
    with assms(2) have "is_some_and (\<lambda>key. key = [] \<or> length key > 8192 \<or> CHR 0x00 \<in> set key) (Some key1)"
      "is_some_and (\<lambda>key. key = [] \<or> length key > 8192 \<or> CHR 0x00 \<in> set key) (Some key2)"
      by (simp_all add: is_some_and_def)
    with assms(3,4) show ?thesis by (simp add: handle_upsert_provider_def refuse_def)
  next
    case False
    with assms(2) have good: "\<not> is_some_and (\<lambda>key. key = [] \<or> length key > 8192 \<or> CHR 0x00 \<in> set key) (Some key1)"
      "\<not> is_some_and (\<lambda>key. key = [] \<or> length key > 8192 \<or> CHR 0x00 \<in> set key) (Some key2)"
      by (simp_all add: is_some_and_def)
    show ?thesis
    proof (cases "dialogue_provider (dm_dialogue d) ?i")
      case (Inl e)
      with assms(3,4) good show ?thesis by (auto simp: handle_upsert_provider_def then_query Let_def)
    next
      case (Inr previous)
      note previous = this
      show ?thesis
      proof (cases "checked_provider E (upserted_provider T ?input2 ?i previous)")
        case (Inl e)
        then have "handle_upsert_provider E T ?input1 d = (Inl e, d)" "handle_upsert_provider E T ?input2 d = (Inl e, d)"
          using good previous same by (simp_all add: handle_upsert_provider_def then_query then_of_result Let_def)
        with assms(3,4) show ?thesis by simp
      next
        case (Inr p)
        let ?reference = "mutation_reference ?input2 ?i previous"
        let ?tail = "\<lambda>key secret. then_step (change_secret E ?reference (Some key)) (\<lambda>_.
          then_step (or_undo (on_dialogue (dialogue_upsert_provider p))
            (on_reference ?reference (\<lambda>i. restore_secret E i secret) ())) (\<lambda>_. answer p))"
        have runs: "then_step (on_reference ?reference (capture_secret E) None) (?tail key1) d = (r1, d1)"
          "then_step (on_reference ?reference (capture_secret E) None) (?tail key2) d = (r2, d2)"
          using assms(3,4) good previous Inr same
          by (simp_all add: handle_upsert_provider_def then_query then_of_result Let_def)
        show ?thesis
        proof (cases "on_reference ?reference (capture_secret E) None d")
          case (Pair captured d0)
          have d0: "d0 = d" by (rule captured(1) [OF Pair])
          show ?thesis
          proof (cases captured)
            case (Inl e)
            with runs Pair show ?thesis by (simp add: then_step_def)
          next
            case (Inr secret)
            then have tails: "?tail key1 secret d = (r1, d1)" "?tail key2 secret d = (r2, d2)"
              using runs Pair d0 by (simp_all add: then_step_def [of "on_reference _ _ _"])
            have "same_but_keys alike d d" using assms(1) by (simp add: same_but_keys_def key_blind_def)
            with blind_stepsD [OF blind_tail [OF assms(1)] _ tails] have "r1 = r2" "same_but_keys alike d1 d2" by blast+
            then show ?thesis by (intro conjI) (assumption, rule same_but_keysD)
          qed
        qed
      qed
    qed
  qed
qed

section \<open>Examples\<close>

definition example_upsert :: "string \<Rightarrow> provider_upsert" where
  "example_upsert key =
     \<lparr>pu_id = Some ''p'', pu_kind = PK_OpenAi, pu_name = ''p'', pu_base_url = ''https://p'', pu_enabled = True,
      pu_privacy = Privacy_Cloud, pu_api_key = Some key, pu_clear_api_key = False\<rparr>"

definition example_new_daemon :: "(string \<times> string) list daemon" where
  "example_new_daemon = example_chat_daemon\<lparr>dm_dialogue := empty_dialogue\<rparr>"

lemma example_upsert_saves:
  assumes "key = ''first'' \<or> key = ''second''"
  shows "\<exists>p d. handle_upsert_provider example_environment example_chat_draws (example_upsert key) example_new_daemon = (Inr p, d)"
proof -
  let ?p = "upserted_provider example_chat_draws (example_upsert key) ''p'' None"
  have p: "pv_kind ?p = PK_OpenAi" "pv_base_url ?p = ''https://p''" "pv_name ?p = ''p''" "pv_privacy ?p = Privacy_Cloud"
    "pv_credential_id ?p = Some ''provider:p''" "pv_id ?p = ''p''"
    by (simp_all add: upserted_provider_def example_upsert_def replacement_reference_def previous_credential_def Let_def)
  have "endpoint plain_urls ?p ''models'' = Inr (''https'', ''/models'')"
    by (simp add: endpoint_def plain_urls_def p starts_with_def)
  then have checked: "checked_provider example_environment ?p = Inr ?p"
    by (simp add: checked_provider_def example_environment_def validate_provider_def ensure_supported_def p)
  have none: "dialogue_provider empty_dialogue ''p'' = Inr None"
    by (simp add: dialogue_provider_def empty_dialogue_def row_of_def)
  have lengths: "sql_length ''p'' = 1" "sql_length ''https://p'' = 9" by code_simp+
  have "trim ''p'' = ''p''" "trim ''https://p'' = ''https://p''" by code_simp+
  moreover have "length_between 1 128 ''p''" "length_between 1 2048 ''https://p''" "dg_providers empty_dialogue = []"
    using lengths by (simp_all add: length_between_def empty_dialogue_def)
  ultimately obtain D where saved: "dialogue_upsert_provider ?p empty_dialogue = (Inr (), D)"
    by (simp add: dialogue_upsert_provider_def p provider_check_def provider_to_row_def credential_taken_def Let_def)
  have start: "dm_dialogue example_new_daemon = empty_dialogue" "dm_secrets example_new_daemon = []"
    by (simp_all add: example_new_daemon_def example_chat_daemon_def)
  have input: "pu_id (example_upsert key) = Some ''p''" "pu_api_key (example_upsert key) = Some key"
    by (simp_all add: example_upsert_def)
  have "mutation_reference (example_upsert key) ''p'' None = Some ''provider:p''"
    by (simp add: mutation_reference_def input replacement_reference_def previous_credential_def)
  moreover have "\<not> is_some_and (\<lambda>key. key = [] \<or> length key > 8192 \<or> CHR 0x00 \<in> set key) (Some key)"
    using assms by (elim disjE) simp_all
  ultimately show ?thesis
    using checked none saved
    by (simp add: handle_upsert_provider_def input start then_query then_of_result Let_def)
      (simp add: then_step_def on_reference_def capture_secret_def change_secret_def store_secret_def or_undo_def
        on_dialogue_def example_environment_def list_secrets_def start answer_def)
qed

lemma list_secrets_blind: "key_blind (\<lambda>k l. map fst k = map fst l) list_secrets"
  unfolding key_blind_def
proof (intro conjI allI impI)
  fix i and k l :: "(string \<times> string) list"
  assume same: "map fst k = map fst l"
  have kept: "map fst (filter (\<lambda>(j, _). j \<noteq> i) xs) = filter (\<lambda>j. j \<noteq> i) (map fst xs)" for xs :: "(string \<times> string) list"
    by (induction xs) auto
  have "map_of k i = None \<longleftrightarrow> map_of l i = None"
    using arg_cong [OF same, of set] by (simp add: map_of_eq_None_iff)
  then show "fst (ss_delete list_secrets i k) = fst (ss_delete list_secrets i l)"
    by (simp add: list_secrets_def)
  show "map fst (snd (ss_delete list_secrets i k)) = map fst (snd (ss_delete list_secrets i l))"
    using kept [of k] kept [of l] same by (simp add: list_secrets_def)
qed (simp_all add: list_secrets_def)

theorem key_reaches_credential_store_only_witness:
  "\<exists>p d1 d2. handle_upsert_provider example_environment example_chat_draws (example_upsert ''first'') example_new_daemon = (Inr p, d1)
     \<and> handle_upsert_provider example_environment example_chat_draws (example_upsert ''second'') example_new_daemon = (Inr p, d2)
     \<and> dm_dialogue d1 = dm_dialogue d2"
proof -
  have keys: "(example_upsert [])\<lparr>pu_api_key := Some key\<rparr> = example_upsert key" for key
    by (simp add: example_upsert_def)
  have "\<exists>p d. handle_upsert_provider example_environment example_chat_draws (example_upsert ''first'') example_new_daemon = (Inr p, d)"
    by (rule example_upsert_saves) simp
  then obtain p1 d1 where first:
    "handle_upsert_provider example_environment example_chat_draws (example_upsert ''first'') example_new_daemon = (Inr p1, d1)"
    by (elim exE)
  obtain r2 d2 where second:
    "handle_upsert_provider example_environment example_chat_draws (example_upsert ''second'') example_new_daemon = (r2, d2)"
    by fastforce
  have blind: "key_blind (\<lambda>k l. map fst k = map fst l) (en_secrets example_environment)"
    using list_secrets_blind by (simp add: example_environment_def)
  have limits: "(''first'' = [] \<or> length ''first'' > 8192 \<or> CHR 0x00 \<in> set ''first'')
      \<longleftrightarrow> (''second'' = [] \<or> length ''second'' > 8192 \<or> CHR 0x00 \<in> set ''second'')" by simp
  have "Inr p1 = r2 \<and> d1\<lparr>dm_secrets := dm_secrets example_new_daemon\<rparr> = d2\<lparr>dm_secrets := dm_secrets example_new_daemon\<rparr>"
    by (rule key_reaches_credential_store_only [where input = "example_upsert []", unfolded keys, OF blind limits first second])
  then have "r2 = Inr p1" "d1\<lparr>dm_secrets := dm_secrets example_new_daemon\<rparr> = d2\<lparr>dm_secrets := dm_secrets example_new_daemon\<rparr>"
    by simp_all
  moreover from this(2) have "dm_dialogue d1 = dm_dialogue d2" by (drule_tac arg_cong [where f = dm_dialogue]) simp
  ultimately show ?thesis using first second by (intro exI [of _ p1] exI [of _ d1] exI [of _ d2]) simp
qed

theorem provider_and_credential_change_together_witness:
  "\<exists>p d i. handle_upsert_provider example_environment example_chat_draws (example_upsert ''first'') example_new_daemon = (Inr p, d)
     \<and> dialogue_upsert_provider p empty_dialogue = (Inr (), dm_dialogue d)
     \<and> pv_name p = ''p'' \<and> pv_credential_id p = Some i \<and> readable example_environment d i = Inr ''first''"
proof -
  have lawful: "lawful_secrets (en_secrets example_environment)"
    using list_secrets_lawful by (simp add: example_environment_def)
  have "\<exists>p d. handle_upsert_provider example_environment example_chat_draws (example_upsert ''first'') example_new_daemon = (Inr p, d)"
    by (rule example_upsert_saves) simp
  then obtain p d where run:
    "handle_upsert_provider example_environment example_chat_draws (example_upsert ''first'') example_new_daemon = (Inr p, d)"
    by (elim exE)
  have "pu_api_key (example_upsert ''first'') = Some ''first''" "pu_name (example_upsert ''first'') = ''p''"
    "dm_dialogue example_new_daemon = empty_dialogue"
    by (simp_all add: example_upsert_def example_new_daemon_def)
  with provider_and_credential_change_together [OF lawful run] run show ?thesis by auto
qed

end
