(* ===== verification/Halquen_Steps.thy ===== *)
theory Halquen_Steps
  imports Halquen_Handlers_Facts
begin

text \<open>
  What every handler of the interaction service keeps, proved once: a relation between states that the
  parts of the handlers keep is kept by the handlers. The relations form three interfaces, by what a
  handler may do: change the tables, the diagnostics and the credentials (\<open>table_relation\<close>), also call a
  provider (\<open>calling_relation\<close>), also run the action pipeline (\<open>acting_relation\<close>). The invariants of the
  daemon are their instances.
\<close>

section \<open>Interfaces\<close>

locale table_relation = step_relation R
  for R :: "'k daemon \<Rightarrow> 'k daemon \<Rightarrow> bool" +
  assumes dialogue: "dialogue_step (dm_dialogue d) D \<Longrightarrow> R d (d\<lparr>dm_dialogue := D\<rparr>)"
    and memory: "R d (d\<lparr>dm_memory := m\<rparr>)"
    and secrets: "R d (d\<lparr>dm_secrets := k\<rparr>)"
    and diagnostics: "(length (dm_diagnostics d) \<le> 200 \<Longrightarrow> length log \<le> 200) \<Longrightarrow> R d (d\<lparr>dm_diagnostics := log\<rparr>)"
    and persisted: "persist_memory_revision MJ J i item revision evidence (sv_database (dm_service d), dm_memory d)
        = (r, db, m) \<Longrightarrow> R d (d\<lparr>dm_service := (dm_service d)\<lparr>sv_database := db\<rparr>, dm_memory := m\<rparr>)"
begin

lemma on_dialogue_obeys:
  "(\<And>D r D'. operation D = (r, D') \<Longrightarrow> dialogue_step D D') \<Longrightarrow> obeys R (on_dialogue operation)"
  by (auto simp: obeys_def on_dialogue_def intro: dialogue split: prod.splits)

lemma on_memory_obeys: "obeys R (on_memory operation)"
  by (auto simp: obeys_def on_memory_def intro: memory split: prod.splits)

lemma persist_obeys: "obeys R (persist_step E i item revision evidence)"
  by (auto simp: obeys_def persist_step_def intro: persisted split: prod.splits)

lemma push_obeys: "obeys R (push_diagnostic T n severity component code message related)"
  by (auto simp: obeys_def push_diagnostic_def Let_def intro!: diagnostics)

lemma cleared_obeys: "obeys R (handle_clear_operational_logs cleared)"
  by (auto simp: obeys_def handle_clear_operational_logs_def intro: diagnostics unchanged split: option.splits)

lemma secret_obeys: "obeys R (capture_secret E i)" "obeys R (store_secret E i s)" "obeys R (delete_secret E i)"
  by (auto simp: obeys_def capture_secret_def store_secret_def delete_secret_def intro: secrets unchanged
      split: sum.splits secret_error.splits prod.splits)

lemma restore_obeys: "obeys R (restore_secret E i previous)"
  by (simp add: restore_secret_def secret_obeys split: option.splits)

lemma reference_obeys: "(\<And>i. obeys R (f i)) \<Longrightarrow> obeys R (on_reference reference f none)"
  by (simp add: on_reference_def answer_obeys split: option.splits)

lemma undo_obeys:
  fixes m :: "('k, 'a) step"
  assumes "obeys R m" and "obeys R undo"
  shows "obeys R (or_undo m undo)"
proof (rule obeysI)
  fix d
  have m: "R d (snd (m d))" using assms(1) by (simp add: obeys_def)
  have undo: "R d' (snd ((then_step undo (\<lambda>_. refuse e) :: ('k, 'a) step) d'))" for e d'
  proof -
    have "obeys R (then_step undo (\<lambda>_. refuse e) :: ('k, 'a) step)" by (intro then_obeys assms(2) refuse_obeys)
    then show ?thesis by (simp add: obeys_def)
  qed
  show "R d (snd (or_undo m undo d))"
    using m undo by (auto simp: or_undo_def intro: composes split: prod.splits sum.splits)
qed

lemma credential_obeys: "obeys R (provider_credential E provider)"
  by (auto simp: obeys_def provider_credential_def intro: unchanged split: option.splits)

lemma dialogue_obeys:
  "obeys R (on_dialogue (update_application_settings s now))" "obeys R (on_dialogue (dialogue_upsert_provider p))"
  "obeys R (on_dialogue (dialogue_remove_provider i))" "obeys R (on_dialogue (dialogue_upsert_model m))"
  "obeys R (on_dialogue (ensure_chat_session generated requested title now))"
  "obeys R (on_dialogue (append_chat_message msg))" "obeys R (on_dialogue (append_activity e))"
  "obeys R (on_dialogue (store_response_candidate c))" "obeys R (on_dialogue (record_cache_hit i now tokens))"
  "obeys R (on_dialogue (apply_response_feedback i f))" "obeys R (on_dialogue (add_usage u))"
  "obeys R (on_dialogue (record_correction x))"
  by (blast intro: on_dialogue_obeys dialogue_step.intros)+

lemma activity_obeys: "obeys R (activity T n session correlation kind summary detail)"
  unfolding activity_def by (rule dialogue_obeys)

lemmas table_intros = obeys_cases then_obeys step_obeys dialogue_obeys on_memory_obeys persist_obeys push_obeys
  cleared_obeys secret_obeys restore_obeys reference_obeys undo_obeys credential_obeys activity_obeys

text \<open>The handlers that only read and write tables.\<close>

lemma read_obeys:
  "obeys R (handle_list_chat_sessions n)" "obeys R (handle_list_chat_messages session n)"
  "obeys R (handle_list_activity n)" "obeys R (handle_list_memory E q)" "obeys R (handle_memory_history E i)"
  "obeys R handle_list_providers" "obeys R handle_list_models" "obeys R handle_application_settings"
  "obeys R handle_usage_stats" "obeys R (handle_preview_ai_request request)"
  by (auto simp: handle_list_chat_sessions_def handle_list_chat_messages_def handle_list_activity_def
      handle_list_memory_def handle_memory_history_def handle_list_providers_def handle_list_models_def
      handle_application_settings_def handle_usage_stats_def handle_preview_ai_request_def preview_context_def
      intro!: table_intros)

lemma diagnostics_obeys: "obeys R (handle_diagnostics E version n)"
  unfolding handle_diagnostics_def by (intro table_intros) (simp add: obeys_def unchanged)

lemma write_obeys:
  "obeys R (handle_update_memory_state u)" "obeys R (handle_restore_memory_revision E T i revision)"
  "obeys R (handle_upsert_model T m)" "obeys R (handle_update_application_settings T s)"
  "obeys R (handle_submit_response_feedback entry feedback)"
  by (auto simp: handle_update_memory_state_def handle_restore_memory_revision_def handle_upsert_model_def
      handle_update_application_settings_def handle_submit_response_feedback_def intro!: table_intros)

lemma provider_obeys: "obeys R (handle_upsert_provider E T p)" "obeys R (handle_remove_provider E i)"
  by (auto simp: handle_upsert_provider_def handle_remove_provider_def change_secret_def intro!: table_intros)

end

locale calling_relation = table_relation R
  for R :: "'k daemon \<Rightarrow> 'k daemon \<Rightarrow> bool" +
  assumes called: "R d (d\<lparr>dm_calls := calls\<rparr>)"
begin

lemma call_obeys: "obeys R (call_test E provider credential)" "obeys R (call_provider E C provider model credential request)"
  by (auto simp: obeys_def call_test_def call_provider_def Let_def intro: called unchanged split: cancellation.splits)

lemma test_obeys: "obeys R (handle_test_provider E T i)"
  by (auto simp: handle_test_provider_def intro!: table_intros call_obeys split: prod.splits)

end

locale acting_relation = calling_relation R
  for R :: "'k daemon \<Rightarrow> 'k daemon \<Rightarrow> bool" and J :: serde_json +
  assumes processed: "process_proposal J T X p session simulate (dm_service d) = (r, sv, cmd) \<Longrightarrow>
      R d (log_spawn cmd (d\<lparr>dm_service := sv\<rparr>))"
    and used: "record_intent_usage u (sv_database (dm_service d)) = (stored, db) \<Longrightarrow>
      R d (d\<lparr>dm_service := (dm_service d)\<lparr>sv_database := db\<rparr>\<rparr>)"
    and pending: "R d (d\<lparr>dm_service := (dm_service d)\<lparr>sv_pending := bt_insert i waiting (sv_pending (dm_service d))\<rparr>\<rparr>)"
begin

lemma usage_obeys: "obeys R (on_records (record_intent_usage u))"
  by (auto simp: obeys_def on_records_def intro: used split: prod.splits)

lemma pending_obeys: "obeys R (add_pending i p)"
  by (auto simp: obeys_def add_pending_def intro: pending)

lemma pipeline_obeys: "J' = J \<Longrightarrow> obeys R (run_pipeline (process_proposal J' T X p session simulate))"
  by (auto simp: obeys_def run_pipeline_def intro: processed split: prod.splits)

lemmas acting_intros = table_intros usage_obeys pending_obeys pipeline_obeys call_obeys

lemma finish_obeys: "obeys R (finish_chat session user assistant prompt)"
  by (auto simp: finish_chat_def intro!: acting_intros)

lemma report_obeys: "obeys R (report_execution T session correlation name proposal response)"
  unfolding report_execution_def report_allowed_def ask_confirmation_def
  by (auto split: policy_outcome.splits action_arguments.splits intro!: acting_intros)

lemma open_obeys: "en_json E = J \<Longrightarrow> obeys R (open_application E T session user correlation name entity)"
  unfolding open_application_def resolve_alias_def by (auto intro!: acting_intros report_obeys finish_obeys)

lemma intent_obeys:
  assumes "en_json E = J"
  shows "obeys R (handle_local_intent E T session user correlation intent)"
proof (cases intent)
  case Intent_ContextualOpenApp
  with assms show ?thesis
    by (auto simp: contextual_open_def clarify_ambiguous_def clarify_unknown_def split: intent_resolution.splits
        intro!: acting_intros open_obeys finish_obeys)
next
  case (Intent_RememberPreference key content)
  then show ?thesis
    by (auto simp: remember_preference_def commit_preference_def intro!: acting_intros finish_obeys)
next
  case (Intent_ForgetPreference key)
  then show ?thesis by (auto simp: forget_preference_def intro!: acting_intros finish_obeys)
qed (use assms in \<open>auto simp: correct_open_app_def intro!: acting_intros open_obeys\<close>)

lemma model_obeys:
  "obeys R (ai_answered E T session user correlation provider model has_context reply)"
  "obeys R (ai_failed T session user correlation error)"
  "obeys R (ai_cancelled T session user correlation)"
  "obeys R (no_route T session user correlation why)"
  "obeys R (cached_answer T session user correlation entry)"
  by (auto simp: ai_answered_def ai_failed_def ai_cancelled_def no_route_def cached_answer_def
      intro!: acting_intros finish_obeys)

lemma ask_obeys: "obeys R (ask_model E T C session user correlation s provider model selected)"
  unfolding ask_model_def conversation_context_def by (intro acting_intros model_obeys)

lemma chat_obeys:
  assumes "en_json E = J"
  shows "obeys R (chat_with_cancellation E T C request correlation)"
  unfolding chat_with_cancellation_def cached_or_model_def ai_fallback_def
  by (intro acting_intros intent_obeys assms model_obeys ask_obeys)

end

end
