(* ===== verification/Halquen_Daemon_Facts.thy ===== *)
theory Halquen_Daemon_Facts
  imports Halquen_Daemon Halquen_Steps
begin

text \<open>
  What holds of every request, whatever it is: the daemon keeps its capabilities, its policy and its
  session, its tables stay well formed, authority grows only by the user's own grants and
  confirmations, and each kind of effect outside the daemon belongs to the few requests made for it.
\<close>

section \<open>What the actions keep of the service\<close>

definition same_rules :: "service \<Rightarrow> service \<Rightarrow> bool" where
  "same_rules sv sv' \<longleftrightarrow> sv_registry sv' = sv_registry sv \<and> sv_policy sv' = sv_policy sv
     \<and> sv_daemon_session_id sv' = sv_daemon_session_id sv"

lemma same_rules_simps [simp]:
  "same_rules sv sv" "same_rules sv (sv'\<lparr>sv_database := db\<rparr>) = same_rules sv sv'"
  "same_rules sv (sv'\<lparr>sv_pending := p\<rparr>) = same_rules sv sv'" "same_rules sv (sv'\<lparr>sv_applications := a\<rparr>) = same_rules sv sv'"
  "same_rules (sv\<lparr>sv_pending := p\<rparr>) sv' = same_rules sv sv'"
  by (simp_all add: same_rules_def)

lemma same_rules_trans: "same_rules a b \<Longrightarrow> same_rules b c \<Longrightarrow> same_rules a c"
  by (simp add: same_rules_def)

lemma journal_same_rules: "journal_frame sv sv' \<Longrightarrow> same_rules sv sv'"
  by (auto simp: journal_frame_def with_journal_def)

lemma confirm_same_rules:
  assumes "confirm_action J T E i accept persistence expiry sv = (r, sv', cmd)"
  shows "same_rules sv sv'"
proof -
  have persist: "same_rules sv sv1" if "persist_confirmation J T pending persistence expiry t sv = (q, sv1)" for pending t q sv sv1
    using persist_confirmation_frame [OF that] by auto
  have usage: "same_rules sv sv1" if "record_usage T p status sv = (q, sv1)" for p status q sv sv1
    using record_usage_frame [OF that] by auto
  have run: "same_rules sv sv1" if "run_confirmed J T E pending c v a t sv = (q, sv1, x)" for pending c v a t q sv sv1 x
    using that by (auto simp: run_confirmed_def Let_def split: prod.splits sum.splits dest!: usage)
  have accept: "same_rules sv sv1" if "accept_pending J T E pending persistence expiry sv = (q, sv1, x)" for pending q sv sv1 x
    using that by (auto simp: accept_pending_def Let_def split: prod.splits sum.splits option.splits dest!: persist run
        intro: same_rules_trans)
  show ?thesis
    using assms by (auto simp: confirm_action_def Let_def split: option.splits if_splits prod.splits sum.splits dest!: accept)
qed

lemma administered_same_rules:
  "same_rules sv (snd (service_update_security_profile now profile sv))"
  "same_rules sv (snd (service_upsert_permission_grant J now generated grant sv))"
  "same_rules sv (snd (service_revoke_permission_grant now i sv))"
  "same_rules sv (snd (service_upsert_resource_label now generated label sv))"
  "same_rules sv (snd (service_remove_resource_label i sv))"
  "same_rules sv (snd (service_upsert_agent J sys digest now generated agent sv))"
  "same_rules sv (snd (service_remove_agent i sv))"
  "same_rules sv (snd (service_upsert_registered_application J sys digest now application sv))"
  "same_rules sv (snd (service_remove_registered_application i sv))"
  by (auto simp: service_update_security_profile_def service_upsert_permission_grant_def
      service_revoke_permission_grant_def service_upsert_resource_label_def service_remove_resource_label_def
      service_upsert_agent_def service_remove_agent_def service_upsert_registered_application_def
      service_remove_registered_application_def on_database_def Let_def split: prod.splits sum.splits option.splits)

lemma administered_pending:
  "sv_pending (snd (service_update_security_profile now profile sv)) = sv_pending sv"
  "sv_pending (snd (service_upsert_permission_grant J now generated grant sv)) = sv_pending sv"
  "sv_pending (snd (service_revoke_permission_grant now i sv)) = sv_pending sv"
  "sv_pending (snd (service_upsert_resource_label now generated label sv)) = sv_pending sv"
  "sv_pending (snd (service_remove_resource_label i sv)) = sv_pending sv"
  "sv_pending (snd (service_upsert_agent J sys digest now generated agent sv)) = sv_pending sv"
  "sv_pending (snd (service_remove_agent i sv)) = sv_pending sv"
  "sv_pending (snd (service_upsert_registered_application J sys digest now application sv)) = sv_pending sv"
  "sv_pending (snd (service_remove_registered_application i sv)) = sv_pending sv"
  by (auto simp: service_update_security_profile_def service_upsert_permission_grant_def
      service_revoke_permission_grant_def service_upsert_resource_label_def service_remove_resource_label_def
      service_upsert_agent_def service_remove_agent_def service_upsert_registered_application_def
      service_remove_registered_application_def on_database_def Let_def split: prod.splits sum.splits option.splits)

lemma confirm_same_tables:
  assumes "confirm_action J T E i accept persistence expiry sv = (r, sv', cmd)" and "bt_invar (sv_pending sv)"
  shows "bt_invar (sv_pending sv')"
  using assms(1)
proof (cases rule: confirm_cases)
  case (accepted pending)
  from accepted(4) show ?thesis
  proof (cases rule: accept_cases)
    case (ran c ctx ev a sv1)
    then show ?thesis
      using run_confirmed_shape(3) [OF ran(6)] persist_confirmation_frame [OF ran(5)] assms(2)
      by (auto simp: bt.invar_remove)
  qed (use assms(2) in \<open>simp add: bt.invar_remove\<close>)
qed (use assms(2) in \<open>simp_all add: bt.invar_remove\<close>)

lemma run_agent_only_records:
  assumes "run_agent J sys digest W P host R E request sv = (r, sv', cmds, ch)"
  shows "only_records_changed sv sv'"
  using assms
proof (cases rule: run_agent_cases)
  case (closed configuration sv1 ps q sv2 status)
  obtain b db where fin: "finish_agent_session (as_id (run_session_of R configuration sv)) status
      (max (rn_finished_at_ms R) (as_started_at_ms (run_session_of R configuration sv))) (sv_database sv2) = (Inr b, db)"
    "journal_frame (sv2\<lparr>sv_database := db\<rparr>) sv'" "db_permissions (sv_database sv') = db_permissions db"
    by (rule finish_closes [OF closed(6,7)])
  show ?thesis using closed_only_records [OF closed(2) _ fin(1,2)] broker_frame [OF closed(3)] by blast
qed simp

lemma run_agent_same_rules:
  assumes "run_agent J sys digest W P host R E request sv = (r, sv', cmds, ch)"
  shows "same_rules sv sv'" "sv_pending sv' = sv_pending sv"
proof -
  obtain rows xs as es where records: "sv' = with_journal rows xs as es
      (sv\<lparr>sv_database := (sv_database sv)\<lparr>db_agent_sessions := db_agent_sessions (sv_database sv')\<rparr>\<rparr>)"
    using run_agent_only_records [OF assms] unfolding only_records_changed_def by blast
  show "same_rules sv sv'" by (subst records) (simp add: with_journal_def)
  show "sv_pending sv' = sv_pending sv" by (subst records) (simp add: with_journal_def)
qed

section \<open>Authority\<close>

lemma narrowed_refl: "narrowed g g"
  by (simp add: narrowed_def)

lemma narrowed_trans:
  assumes "narrowed f g" and "narrowed g h"
  shows "narrowed f h"
proof -
  obtain n v where g: "g = f\<lparr>pg_use_count := n, pg_revoked_at_ms := v\<rparr>" "pg_use_count f \<le> n"
    "v = pg_revoked_at_ms f \<or> v \<noteq> None" using assms(1) by (auto simp: narrowed_def)
  obtain n' v' where h: "h = g\<lparr>pg_use_count := n', pg_revoked_at_ms := v'\<rparr>" "pg_use_count g \<le> n'"
    "v' = pg_revoked_at_ms g \<or> v' \<noteq> None" using assms(2) by (auto simp: narrowed_def)
  show ?thesis using g h by (auto simp: narrowed_def)
qed

text \<open>Every stored grant is afterwards at most as strong, and there is no new one.\<close>

definition no_wider :: "serde_json \<Rightarrow> database \<Rightarrow> database \<Rightarrow> bool" where
  "no_wider J db db' \<longleftrightarrow>
     (\<forall>gs. stores J db gs \<longrightarrow> (\<exists>gs'. stores J db' gs' \<and> list_all2 narrowed gs gs'))"

lemma no_wider_same: "db_permissions db' = db_permissions db \<Longrightarrow> no_wider J db db'"
  unfolding no_wider_def by (meson list_all2_refl narrowed_refl stores_cong)

lemma no_wider_trans:
  assumes "no_wider J a b" and "no_wider J b c"
  shows "no_wider J a c"
  unfolding no_wider_def
proof (intro allI impI)
  fix gs assume "stores J a gs"
  then obtain hs where hs: "stores J b hs" "list_all2 narrowed gs hs" using assms(1) by (auto simp: no_wider_def)
  then obtain ks where ks: "stores J c ks" "list_all2 narrowed hs ks" using assms(2) by (auto simp: no_wider_def)
  have "list_all2 narrowed gs ks" by (rule list_all2_trans [OF _ hs(2) ks(2)]) (rule narrowed_trans)
  with ks(1) show "\<exists>ks. stores J c ks \<and> list_all2 narrowed gs ks" by blast
qed

lemma spent_narrowed: "spent n g h \<Longrightarrow> narrowed g h"
  using spent_revoked_narrowed [of n g h "\<lambda>_. False"] by (simp add: revoke_grants_def)

lemma process_no_wider:
  assumes "process_proposal J T E p session simulate sv = (r, sv', cmd)"
  shows "no_wider J (sv_database sv) (sv_database sv')"
  unfolding no_wider_def
proof (intro allI impI)
  fix gs assume "stores J (sv_database sv) gs"
  from process_stores [OF this assms] obtain gs' where "stores J (sv_database sv') gs'" "list_all2 (spent 1) gs gs'" by blast
  then show "\<exists>gs'. stores J (sv_database sv') gs' \<and> list_all2 narrowed gs gs'"
    by (blast intro: list_all2_mono spent_narrowed)
qed

lemma revoke_no_wider:
  assumes "revoke_permission i now db = (r, db')"
  shows "no_wider J db db'"
proof -
  have "list_all2 narrowed gs (map (revoke_grant i now) gs)" for gs
    by (simp add: list_all2_map2 list_all2_refl narrowed_def revoke_grant_def)
  then show ?thesis using stores_revoke [OF _ assms] unfolding no_wider_def by blast
qed

lemma administered_no_wider:
  "no_wider J (sv_database sv) (sv_database (snd (service_update_security_profile now profile sv)))"
  "no_wider J (sv_database sv) (sv_database (snd (service_revoke_permission_grant now i sv)))"
  "no_wider J (sv_database sv) (sv_database (snd (service_upsert_resource_label now generated label sv)))"
  "no_wider J (sv_database sv) (sv_database (snd (service_remove_resource_label i sv)))"
  "no_wider J (sv_database sv) (sv_database (snd (service_upsert_agent J' sys digest now generated agent sv)))"
  "no_wider J (sv_database sv) (sv_database (snd (service_remove_agent i sv)))"
  "no_wider J (sv_database sv) (sv_database (snd (service_upsert_registered_application J' sys digest now application sv)))"
  "no_wider J (sv_database sv) (sv_database (snd (service_remove_registered_application i sv)))"
  by (auto simp: service_update_security_profile_def service_revoke_permission_grant_def
      service_upsert_resource_label_def service_remove_resource_label_def service_upsert_agent_def
      service_remove_agent_def service_upsert_registered_application_def service_remove_registered_application_def
      on_database_def Let_def update_security_profile_def upsert_resource_label_def remove_resource_label_def
      upsert_agent_def remove_agent_def upsert_registered_application_def remove_registered_application_def
      split: prod.splits sum.splits option.splits if_splits intro: no_wider_same revoke_no_wider)

lemma evaluate_no_wider:
  assumes "evaluate_action J T action sv = (r, sv', cmd)"
  shows "no_wider J' (sv_database sv) (sv_database sv')" "same_rules sv sv'" "cmd = None"
  using assms
  by (auto simp: evaluate_action_def split: sum.splits option.splits prod.splits intro!: no_wider_same
      dest!: append_audit_journal(2))

lemma run_agent_no_wider:
  assumes "run_agent J sys digest W P host R E request sv = (r, sv', cmds, ch)"
  shows "no_wider J (sv_database sv) (sv_database sv')"
  using run_agent_narrows [OF _ assms] unfolding no_wider_def by blast

section \<open>The invariants as instances of the interfaces\<close>

text \<open>The daemon keeps what it decides by: its capabilities, its policy and its session.\<close>

definition fixed :: "'k daemon \<Rightarrow> 'k daemon \<Rightarrow> bool" where
  "fixed d d' \<longleftrightarrow> same_rules (dm_service d) (dm_service d')"

text \<open>The tables of a daemon are well formed, its diagnostics bounded and its pending confirmations a map.\<close>

definition daemon_ok :: "'k daemon \<Rightarrow> bool" where
  "daemon_ok d \<longleftrightarrow> dialogue_ok (dm_dialogue d) \<and> length (dm_diagnostics d) \<le> 200
     \<and> bt_invar (sv_pending (dm_service d))"

definition stays_ok :: "'k daemon \<Rightarrow> 'k daemon \<Rightarrow> bool" where
  "stays_ok d d' \<longleftrightarrow> (daemon_ok d \<longrightarrow> daemon_ok d')"

definition narrows :: "serde_json \<Rightarrow> 'k daemon \<Rightarrow> 'k daemon \<Rightarrow> bool" where
  "narrows J d d' \<longleftrightarrow> no_wider J (sv_database (dm_service d)) (sv_database (dm_service d'))"

definition silent :: "'k daemon \<Rightarrow> 'k daemon \<Rightarrow> bool" where
  "silent d d' \<longleftrightarrow> dm_spawned d' = dm_spawned d"

lemma log_spawn_frame [simp]:
  "dm_service (log_spawn cmd d) = dm_service d" "dm_dialogue (log_spawn cmd d) = dm_dialogue d"
  "dm_diagnostics (log_spawn cmd d) = dm_diagnostics d" "dm_calls (log_spawn cmd d) = dm_calls d"
  by (simp_all add: log_spawn_def split: option.splits)

lemma persist_permissions:
  "persist_memory_revision MJ J i item revision evidence (db, m) = (r, db', m') \<Longrightarrow> db_permissions db' = db_permissions db"
  by (auto simp: persist_memory_revision_def insert_audit_def insert_event_for_audit_def Let_def and_then_Inr_iff
      split: sum.splits if_splits prod.splits)

lemma usage_permissions: "record_intent_usage u db = (r, db') \<Longrightarrow> db_permissions db' = db_permissions db"
  by (auto dest!: record_intent_usage_frame)

interpretation fixed: acting_relation fixed J for J
proof unfold_locales
  fix T X p session simulate r sv cmd and d :: "'a daemon"
  assume "process_proposal J T X p session simulate (dm_service d) = (r, sv, cmd)"
  then show "fixed d (log_spawn cmd (d\<lparr>dm_service := sv\<rparr>))"
    using journal_same_rules [OF process_frame] by (simp add: fixed_def)
qed (auto simp: fixed_def intro: same_rules_trans)

interpretation stays_ok: acting_relation stays_ok J for J
proof unfold_locales
  fix T X p session simulate r sv cmd and d :: "'a daemon"
  assume "process_proposal J T X p session simulate (dm_service d) = (r, sv, cmd)"
  then show "stays_ok d (log_spawn cmd (d\<lparr>dm_service := sv\<rparr>))"
    using journal_frame_fields(4) [OF process_frame] by (simp add: stays_ok_def daemon_ok_def)
qed (auto simp: stays_ok_def daemon_ok_def bt_invar_insert intro: dialogue_step_ok)

interpretation narrows: acting_relation "narrows J" J for J
proof unfold_locales
  fix T X p session simulate r sv cmd and d :: "'a daemon"
  assume "process_proposal J T X p session simulate (dm_service d) = (r, sv, cmd)"
  then show "narrows J d (log_spawn cmd (d\<lparr>dm_service := sv\<rparr>))"
    using process_no_wider by (simp add: narrows_def)
qed (auto simp: narrows_def intro: no_wider_trans no_wider_same dest: persist_permissions usage_permissions)

interpretation silent: calling_relation silent
  by unfold_locales (auto simp: silent_def)

interpretation quiet_tables: table_relation quiet
  by unfold_locales (auto simp: quiet_def)

section \<open>Requests\<close>

lemma replying_obeys [simp]: "obeys R (replying m f) \<longleftrightarrow> obeys R m"
proof -
  have "snd (replying m f d) = snd (m d)" for d
    by (simp add: replying_def then_step_def answer_def split: prod.splits sum.splits)
  then show ?thesis by (simp add: obeys_def)
qed

lemma unchanging_obeys:
  assumes "step_relation R"
  shows "obeys R (inspect q)" "obeys R (health E)" "obeys R (handle_memory_stats E)" "obeys R handle_audit_stats"
  using step_relation.unchanged [OF assms]
  by (simp_all add: obeys_def inspect_def health_def answer_def handle_memory_stats_def handle_audit_stats_def
      split: prod.splits)

lemma administer_obeys: "(\<And>d. R d (d\<lparr>dm_service := snd (operation (dm_service d))\<rparr>)) \<Longrightarrow> obeys R (administer operation)"
  by (simp add: obeys_def administer_def split_beta)

lemma pipeline_run_obeys:
  "(\<And>d r sv cmd. operation (dm_service d) = (r, sv, cmd) \<Longrightarrow> R d (log_spawn cmd (d\<lparr>dm_service := sv\<rparr>))) \<Longrightarrow>
   obeys R (run_pipeline operation)"
  by (auto simp: obeys_def run_pipeline_def split: prod.splits)

lemma agent_step_obeys:
  "(\<And>d r sv cmds ch. operation (dm_service d) = (r, sv, cmds, ch) \<Longrightarrow>
      R d (d\<lparr>dm_service := sv, dm_spawned := dm_spawned d @ cmds\<rparr>)) \<Longrightarrow> obeys R (agent_step operation)"
  by (auto simp: obeys_def agent_step_def split: prod.splits)

lemma action_cases:
  assumes "execute_action J T E action sv = (r, sv', cmd) \<or> dry_run_action J T E action sv = (r, sv', cmd)"
  obtains "sv' = sv" "cmd = None" | p simulate where "process_proposal J T E p None simulate sv = (r, sv', cmd)"
  using assms by (auto simp: execute_action_def dry_run_action_def split: sum.splits)

lemma action_same_rules:
  assumes "execute_action J T E action sv = (r, sv', cmd) \<or> dry_run_action J T E action sv = (r, sv', cmd)"
  shows "same_rules sv sv'" "sv_pending sv' = sv_pending sv" "no_wider J (sv_database sv) (sv_database sv')"
  using assms
  by (elim action_cases; auto intro: no_wider_same journal_same_rules process_frame process_no_wider
      dest: journal_frame_fields(4) [OF process_frame])+

lemma dry_run_command: "dry_run_action J T E action sv = (r, sv', cmd) \<Longrightarrow> cmd = None"
  using dry_run_never_spawns [of J T E action sv] by (auto split: sum.splits)

lemma fixed_request: "obeys fixed (handle_request E X channel i request)"
  by (cases request)
    (auto simp: chat_def fixed_def intro!: unchanging_obeys administer_obeys pipeline_run_obeys agent_step_obeys
      fixed.step_relation_axioms fixed.answer_obeys administered_same_rules
      intro: fixed.read_obeys fixed.diagnostics_obeys fixed.write_obeys fixed.provider_obeys fixed.test_obeys fixed.cleared_obeys
        fixed.chat_obeys [OF refl] action_same_rules evaluate_no_wider confirm_same_rules run_agent_same_rules
      split: option.splits)

lemma stays_okI:
  "dm_dialogue d' = dm_dialogue d \<Longrightarrow> dm_diagnostics d' = dm_diagnostics d \<Longrightarrow>
   (bt_invar (sv_pending (dm_service d)) \<Longrightarrow> bt_invar (sv_pending (dm_service d'))) \<Longrightarrow> stays_ok d d'"
  by (simp add: stays_ok_def daemon_ok_def)

lemma evaluate_pending: "evaluate_action J T action sv = (r, sv', cmd) \<Longrightarrow> sv_pending sv' = sv_pending sv"
  by (auto simp: evaluate_action_def split: sum.splits option.splits prod.splits)

lemma stays_ok_request: "obeys stays_ok (handle_request E X channel i request)"
  by (cases request)
    (auto simp: chat_def administered_pending evaluate_pending action_same_rules(2) [OF disjI1]
      action_same_rules(2) [OF disjI2] run_agent_same_rules(2) confirm_same_tables
      intro!: unchanging_obeys administer_obeys pipeline_run_obeys agent_step_obeys stays_okI
        stays_ok.step_relation_axioms stays_ok.answer_obeys
        stays_ok.read_obeys stays_ok.diagnostics_obeys stays_ok.write_obeys stays_ok.provider_obeys
        stays_ok.test_obeys stays_ok.cleared_obeys stays_ok.chat_obeys [OF refl]
      split: option.splits)

lemma narrows_request:
  assumes "\<And>grant. request \<noteq> Req_UpsertPermissionGrant grant"
    and "\<And>j accept persistence expiry. request \<noteq> Req_ConfirmAction j accept persistence expiry"
  shows "obeys (narrows (en_json E)) (handle_request E X channel i request)"
  using assms
  by (cases request)
    (auto simp: chat_def narrows_def
      intro!: unchanging_obeys administer_obeys pipeline_run_obeys agent_step_obeys administered_no_wider
        narrows.step_relation_axioms narrows.answer_obeys
      intro: narrows.read_obeys narrows.diagnostics_obeys narrows.write_obeys narrows.provider_obeys
        narrows.test_obeys narrows.cleared_obeys narrows.chat_obeys [OF refl]
        evaluate_no_wider action_same_rules(3) run_agent_no_wider
      split: option.splits)

text \<open>The requests that may start a program, and those that may contact a provider.\<close>

fun may_spawn :: "protocol_request \<Rightarrow> bool" where
  "may_spawn (Req_ExecuteAction _) = True"
| "may_spawn (Req_ConfirmAction _ _ _ _) = True"
| "may_spawn (Req_Chat _) = True"
| "may_spawn (Req_RunAgent _) = True"
| "may_spawn _ = False"

fun may_call :: "protocol_request \<Rightarrow> bool" where
  "may_call (Req_Chat _) = True"
| "may_call (Req_TestProvider _) = True"
| "may_call _ = False"

lemma silent_request: "\<not> may_spawn request \<Longrightarrow> obeys silent (handle_request E X channel i request)"
  by (cases request)
    (auto simp: silent_def log_spawn_def
      intro!: unchanging_obeys administer_obeys pipeline_run_obeys silent.step_relation_axioms silent.answer_obeys
      intro: silent.read_obeys silent.diagnostics_obeys silent.write_obeys silent.provider_obeys
        silent.test_obeys silent.cleared_obeys
      dest!: evaluate_no_wider(3) dry_run_command
      split: option.splits)

lemma quiet_request: "\<not> may_call request \<Longrightarrow> obeys quiet (handle_request E X channel i request)"
  by (cases request)
    (auto simp: quiet_def
      intro!: unchanging_obeys administer_obeys agent_step_obeys quiet_parts
        quiet.step_relation_axioms quiet.answer_obeys
      intro: quiet_tables.read_obeys quiet_tables.diagnostics_obeys quiet_tables.write_obeys
        quiet_tables.provider_obeys quiet_tables.cleared_obeys
      split: option.splits)

section \<open>A running daemon\<close>

text \<open>Every state a started daemon reaches by requests that arrive over its connections.\<close>

inductive daemon_reachable :: "('k, 'f) environment \<Rightarrow> 'k daemon \<Rightarrow> 'k daemon \<times> ipc \<Rightarrow> bool" for E d0 where
  start: "daemon_reachable E d0 (d0, ipc_start)"
| request: "daemon_reachable E d0 st \<Longrightarrow> dispatch_request (daemon_handler E X) envelope st = (response, st') \<Longrightarrow>
    daemon_reachable E d0 st'"

lemma dispatch_obeys:
  assumes "step_relation R" and "\<And>channel i request. obeys R (handle_request E X channel i request)"
    and "dispatch_request (daemon_handler E X) envelope (d, ip) = (response, d', ip')"
  shows "R d d'"
proof -
  have handled: "R d d1" if "handle_with_cancellation E X channel request i d = (x, d1)" for channel request i x d1
    using that obeysD [OF assms(2)] by (auto simp: handle_with_cancellation_def split: prod.splits)
  show ?thesis
    using assms(3) step_relation.unchanged [OF assms(1)] handled
    by (auto simp: dispatch_request_def daemon_handler_def Let_def split: option.splits prod.splits if_splits)
qed

lemma reachable_obeys:
  assumes "step_relation R" and "\<And>X channel i request. obeys R (handle_request E X channel i request)"
    and "daemon_reachable E d0 st"
  shows "R d0 (fst st)"
  using assms(3)
proof (induction rule: daemon_reachable.induct)
  case start
  then show ?case by (simp add: step_relation.unchanged [OF assms(1)])
next
  case (request st X envelope response st')
  then have "R (fst st) (fst st')"
    using dispatch_obeys [OF assms(1,2), of X envelope "fst st" "snd st" response "fst st'" "snd st'"] by simp
  with request.IH show ?case by (rule step_relation.composes [OF assms(1)])
qed

text \<open>
  C7. A started daemon decides by the same rules for its whole life and keeps its state well formed,
  whatever requests reach it over its connections: its only capability is the opening of applications, as
  its descriptor says, its policy is the built-in one and its session the one it began; the
  interaction tables satisfy their constraints, the diagnostics stay within 200 entries, and the pending
  confirmations are one per identifier.
\<close>

theorem daemon_keeps_its_rules:
  assumes "start_daemon J i now db m D k = Inr d0" and "dialogue_ok D" and "daemon_reachable E d0 (d, ip)"
  shows "registry_list (sv_registry (dm_service d)) = [open_app_descriptor]
    \<and> sv_policy (dm_service d) = PolicyEngine_new \<and> sv_daemon_session_id (dm_service d) = i
    \<and> dialogue_ok (dm_dialogue d) \<and> length (dm_diagnostics d) \<le> 200
    \<and> distinct (map fst (sv_pending (dm_service d)))"
proof -
  have only: "register open_app_descriptor CapabilityRegistry_new = Inr [(cd_id open_app_descriptor, open_app_descriptor)]"
    by (simp add: register_def CapabilityRegistry_new_def open_app_descriptor_valid bt_get_def)
  obtain b db' where opened: "begin_daemon_session \<lparr>ds_id = i, ds_started_at_ms = now, ds_ended_at_ms = None\<rparr> db = (b, db')"
    by fastforce
  have start: "sv_registry (dm_service d0) = [(cd_id open_app_descriptor, open_app_descriptor)]"
    "sv_policy (dm_service d0) = PolicyEngine_new" "sv_daemon_session_id (dm_service d0) = i" "daemon_ok d0"
    using assms(1,2) opened
    by (cases b; auto simp: start_daemon_def new_with_application_registry_def and_then_Inr_iff only daemon_ok_def bt_invar_def)+
  have "fixed d0 d" "stays_ok d0 d"
    using reachable_obeys [OF _ fixed_request assms(3)] reachable_obeys [OF _ stays_ok_request assms(3)]
      fixed.step_relation_axioms stays_ok.step_relation_axioms by auto
  then show ?thesis
    using start by (simp add: fixed_def same_rules_def stays_ok_def daemon_ok_def registry_list_def bt_values_def bt_invar_def
        strict_sorted_iff)
qed

text \<open>
  C5. Authority grows only by the user's own word: a request that is neither the saving of a grant nor
  the answer to a confirmation, be it a chat, an agent run, an executed action or the administration of
  anything else, leaves every stored grant as it was or weaker and adds none; so a grant that is
  active afterwards was active before for the same action, session and agent.
\<close>

theorem only_the_user_widens_authority:
  assumes "handle_request E X channel i request d = (r, d')"
    and "\<And>grant. request \<noteq> Req_UpsertPermissionGrant grant"
    and "\<And>j accept persistence expiry. request \<noteq> Req_ConfirmAction j accept persistence expiry"
    and "stores (en_json E) (sv_database (dm_service d)) gs"
  shows "\<exists>gs'. stores (en_json E) (sv_database (dm_service d')) gs'
    \<and> list_all2 (\<lambda>g g'. pg_id g' = pg_id g \<and> pg_scope g' = pg_scope g \<and> pg_effect g' = pg_effect g
        \<and> (\<forall>t session agent. grant_is_active g' t session agent \<longrightarrow> grant_is_active g t session agent)) gs gs'"
proof -
  have "no_wider (en_json E) (sv_database (dm_service d)) (sv_database (dm_service d'))"
    using obeysD [OF narrows_request [OF assms(2,3)] assms(1)] by (simp add: narrows_def)
  then obtain gs' where gs': "stores (en_json E) (sv_database (dm_service d')) gs'" "list_all2 narrowed gs gs'"
    using assms(4) by (auto simp: no_wider_def)
  have same: "pg_id g' = pg_id g \<and> pg_scope g' = pg_scope g \<and> pg_effect g' = pg_effect g" if narrow: "narrowed g g'" for g g'
  proof -
    obtain n v where "g' = g\<lparr>pg_use_count := n, pg_revoked_at_ms := v\<rparr>" using narrow unfolding narrowed_def by blast
    then show ?thesis by simp
  qed
  show ?thesis
    by (intro exI [of _ gs'] conjI gs'(1) list_all2_mono [OF gs'(2)]) (use same narrowed_active in blast)+
qed

text \<open>
  C6. Each effect outside the daemon belongs to the requests made for it: a program is started only while
  an action is executed, a confirmation answered, a chat handled or an agent run, and a provider is
  contacted only by a chat or by the test of a provider. A dry run, an evaluation, a preview and every
  administrative request do neither.
\<close>

theorem effects_belong_to_their_requests:
  assumes "handle_request E X channel i request d = (r, d')"
  shows "(dm_spawned d' = dm_spawned d \<or> may_spawn request) \<and> (dm_calls d' = dm_calls d \<or> may_call request)"
  using obeysD [OF silent_request assms] obeysD [OF quiet_request assms] by (auto simp: silent_def quiet_def)

section \<open>A concrete daemon\<close>

definition example_inputs :: request_inputs where
  "example_inputs =
     \<lparr>ri_now = 5, ri_generated = ''generated:1'', ri_draws = example_draws, ri_chat = example_chat_draws,
      ri_cancellation = Cancelled_During, ri_run = example_run_draws, ri_executors = launcher, ri_os = example_host_os,
      ri_digest = (\<lambda>_. []), ri_agent_json = example_agent_json, ri_agent_process = example_process,
      ri_agent_host = AgentHost_new, ri_cleared = Some 3\<rparr>"

definition example_agent_daemon :: "(string \<times> string) list daemon" where
  "example_agent_daemon = example_chat_daemon\<lparr>dm_service := example_agent_service\<rparr>"

lemma empty_dialogue_settings: "dialogue_settings empty_dialogue = Inr default_settings"
proof -
  have "parse_appearance ''system'' = Some Appearance_System" "parse_routing_preset ''balanced'' = Some RP_Balanced"
    "parse_log_level ''info'' = Some Log_Info" by code_simp+
  then show ?thesis
    by (simp add: dialogue_settings_def empty_dialogue_def settings_from_row_def settings_to_row_def default_settings_def
        get_u8_def get_u16_def get_u32_def u32_max_def)
qed

lemma example_daemon_start:
  "\<exists>d0. start_daemon plain_json ''daemon:2'' 5 example_db example_store empty_dialogue ([] :: (string \<times> string) list) = Inr d0"
proof -
  obtain db where "begin_daemon_session \<lparr>ds_id = ''daemon:2'', ds_started_at_ms = 5, ds_ended_at_ms = None\<rparr> example_db = (Inr (), db)"
    by (simp add: begin_daemon_session_def Let_def update_rows_def)
  moreover have "list_registered_applications plain_json example_db 200 = Inr []" "from_applications [] = Inr []"
    by (simp_all add: list_registered_applications_def from_applications_def ApplicationRegistry_new_def)
  moreover have "register open_app_descriptor CapabilityRegistry_new = Inr [(cd_id open_app_descriptor, open_app_descriptor)]"
    by (simp add: register_def CapabilityRegistry_new_def open_app_descriptor_valid bt_get_def)
  ultimately show ?thesis
    by (simp add: start_daemon_def new_with_application_registry_def empty_dialogue_settings)
qed

theorem daemon_keeps_its_rules_witness:
  "\<exists>d0 response d ip. start_daemon plain_json ''daemon:2'' 5 example_db example_store empty_dialogue [] = Inr d0
     \<and> dispatch_request (daemon_handler example_environment example_inputs)
         \<lparr>env_version = PROTOCOL_VERSION, env_request_id = ''r'', env_body = Req_RemoveAgent ''agent:1''\<rparr> (d0, ipc_start)
       = (response, d, ip)
     \<and> registry_list (sv_registry (dm_service d)) = [open_app_descriptor]"
proof -
  obtain d0 :: "(string \<times> string) list daemon" where start:
    "start_daemon plain_json ''daemon:2'' 5 example_db example_store empty_dialogue [] = Inr d0"
    using example_daemon_start by (elim exE)
  obtain response d ip where run: "dispatch_request (daemon_handler example_environment example_inputs)
      \<lparr>env_version = PROTOCOL_VERSION, env_request_id = ''r'', env_body = Req_RemoveAgent ''agent:1''\<rparr> (d0, ipc_start)
      = (response, d, ip)" by (metis prod_cases3)
  then have "daemon_reachable example_environment d0 (d, ip)"
    by (rule daemon_reachable.request [OF daemon_reachable.start])
  from daemon_keeps_its_rules [OF start empty_dialogue_ok this]
  have "registry_list (sv_registry (dm_service d)) = [open_app_descriptor]" by (elim conjE)
  with start run show ?thesis by (intro exI conjI)
qed

theorem only_the_user_widens_authority_witness:
  "\<exists>g'. stores plain_json (sv_database (dm_service (snd (handle_request example_environment example_inputs None ''r''
       (Req_RevokePermissionGrant (pg_id example_agent_grant)) example_agent_daemon)))) [g']
     \<and> pg_scope g' = pg_scope example_agent_grant"
proof -
  let ?run = "handle_request example_environment example_inputs None ''r''
    (Req_RevokePermissionGrant (pg_id example_agent_grant)) example_agent_daemon"
  have json: "en_json example_environment = plain_json" by (simp add: example_environment_def)
  have "stores (en_json example_environment) (sv_database (dm_service example_agent_daemon)) [example_agent_grant]"
    using example_agent_stores by (simp add: json example_agent_daemon_def)
  from only_the_user_widens_authority [OF prod.collapse [of ?run, symmetric] _ _ this]
  show ?thesis unfolding json by (auto simp: list_all2_Cons1)
qed

theorem effects_belong_to_their_requests_witness:
  "dm_calls (snd (handle_request example_environment example_inputs None ''r'' (Req_RunAgent example_request)
     example_agent_daemon)) = []"
proof -
  let ?run = "handle_request example_environment example_inputs None ''r'' (Req_RunAgent example_request) example_agent_daemon"
  have "dm_calls example_agent_daemon = []" by (simp add: example_agent_daemon_def example_chat_daemon_calls)
  with effects_belong_to_their_requests [OF prod.collapse [of ?run, symmetric]] show ?thesis by (simp del: handle_request.simps)
qed

end
