(* ===== verification/Halquen_Files.thy ===== *)
theory Halquen_Files
  imports Halquen_Capabilities "HOL-Library.AList"
begin

text \<open>
  The file system the daemon prepares its directories in (\<open>std::fs\<close> and \<open>std::path\<close> as
  \<open>crates/protocol/src/transport.rs\<close>, \<open>crates/storage/src/paths.rs\<close> and \<open>apps/daemon/src/logging.rs\<close> use
  them). A path is the list of its components, which is how Rust compares paths; the state maps paths to
  nodes and lists them in the order \<open>read_dir\<close> yields them. A symbolic link carries the location it leads to.
  Which calls the operating system refuses for other reasons is an arbitrary predicate of the state.
\<close>

section \<open>Paths\<close>

type_synonym path = "path_component list"

definition path_is_absolute :: "path \<Rightarrow> bool" where
  "path_is_absolute p = (first_row p = Some RootDir)"

text \<open>\<open>Path::join\<close> with a relative path, and \<open>Path::parent\<close>.\<close>

definition path_join :: "path \<Rightarrow> string \<Rightarrow> path" where
  "path_join p relative = p @ components relative"

definition path_parent :: "path \<Rightarrow> path option" where
  "path_parent p = (if p = [] \<or> last p = RootDir then None else Some (butlast p))"

section \<open>Nodes and calls\<close>

datatype node_kind = Directory | Regular | Socket | Symlink path | Special

record node =
  nd_kind :: node_kind
  nd_uid :: u32
  nd_mode :: "32 word"
  nd_len :: u64
  nd_modified :: "int option"

datatype io_error = Io_NotFound | Io_Failed

datatype fs_call = Stat_Call path | Create_Call path | Chmod_Call path | Remove_Call path | Read_Call path | Bind_Call path

text \<open>\<open>fs_user\<close> is the user of the process, whom its new files belong to, \<open>fs_status\<close> its status file.\<close>

record file_system =
  fs_nodes :: "(path \<times> node) list"
  fs_refused :: "fs_call \<Rightarrow> bool"
  fs_user :: u32
  fs_umask :: "32 word"
  fs_status :: "string option"
  fs_var :: "string \<Rightarrow> string option"

type_synonym ('e, 'a) fs_op = "file_system \<Rightarrow> ('e, 'a) result \<times> file_system"

definition fs_then :: "('e, 'a) fs_op \<Rightarrow> ('a \<Rightarrow> ('e, 'b) fs_op) \<Rightarrow> ('e, 'b) fs_op" where
  "fs_then m f fs = (case m fs of (Inl e, fs') \<Rightarrow> (Inl e, fs') | (Inr x, fs') \<Rightarrow> f x fs')"

definition fs_result :: "('e, 'a) result \<Rightarrow> ('e, 'a) fs_op" where
  "fs_result r fs = (r, fs)"

definition fs_catch :: "('e, 'a) fs_op \<Rightarrow> ('e \<Rightarrow> ('f, 'b) fs_op) \<Rightarrow> ('a \<Rightarrow> ('f, 'b) fs_op) \<Rightarrow> ('f, 'b) fs_op" where
  "fs_catch m h f fs = (case m fs of (Inl e, fs') \<Rightarrow> h e fs' | (Inr x, fs') \<Rightarrow> f x fs')"

definition fs_error :: "('e \<Rightarrow> 'f) \<Rightarrow> ('e, 'a) fs_op \<Rightarrow> ('f, 'a) fs_op" where
  "fs_error g m fs = (case m fs of (r, fs') \<Rightarrow> (map_err g r, fs'))"

definition fs_lookup :: "file_system \<Rightarrow> path \<Rightarrow> node option" where
  "fs_lookup fs p = map_of (fs_nodes fs) p"

definition fs_put :: "path \<Rightarrow> node \<Rightarrow> file_system \<Rightarrow> file_system" where
  "fs_put p n fs = fs\<lparr>fs_nodes := AList.update p n (fs_nodes fs)\<rparr>"

definition fs_drop :: "path \<Rightarrow> file_system \<Rightarrow> file_system" where
  "fs_drop p fs = fs\<lparr>fs_nodes := AList.delete p (fs_nodes fs)\<rparr>"

definition fs_target :: "file_system \<Rightarrow> path \<Rightarrow> path" where
  "fs_target fs p = (case fs_lookup fs p of Some n \<Rightarrow> (case nd_kind n of Symlink t \<Rightarrow> t | _ \<Rightarrow> p) | None \<Rightarrow> p)"

text \<open>\<open>fs::symlink_metadata\<close>, \<open>Path::is_dir\<close>, \<open>fs::create_dir\<close>, \<open>fs::set_permissions\<close> (which follows a
  link), \<open>fs::remove_file\<close> and \<open>UnixListener::bind\<close>.\<close>

definition fs_symlink_metadata :: "path \<Rightarrow> (io_error, node) fs_op" where
  "fs_symlink_metadata p fs =
     (if fs_refused fs (Stat_Call p) then Inl Io_Failed else ok_or Io_NotFound (fs_lookup fs p), fs)"

definition fs_is_dir :: "file_system \<Rightarrow> path \<Rightarrow> bool" where
  "fs_is_dir fs p = is_some_and (\<lambda>n. nd_kind n = Directory) (fs_lookup fs (fs_target fs p))"

definition created :: "node_kind \<Rightarrow> file_system \<Rightarrow> node" where
  "created kind fs =
     \<lparr>nd_kind = kind, nd_uid = fs_user fs, nd_mode = 511 AND NOT (fs_umask fs), nd_len = 0, nd_modified = None\<rparr>"

definition fs_create_dir :: "path \<Rightarrow> (io_error, unit) fs_op" where
  "fs_create_dir p fs =
     (if fs_refused fs (Create_Call p) \<or> fs_lookup fs p \<noteq> None then (Inl Io_Failed, fs)
      else case path_parent p of
          None \<Rightarrow> (Inl Io_Failed, fs)
        | Some parent \<Rightarrow>
            if fs_lookup fs (fs_target fs parent) = None then (Inl Io_NotFound, fs)
            else if fs_is_dir fs parent then (Inr (), fs_put p (created Directory fs) fs)
            else (Inl Io_Failed, fs))"

definition fs_set_permissions :: "path \<Rightarrow> 32 word \<Rightarrow> (io_error, unit) fs_op" where
  "fs_set_permissions p mode fs =
     (let t = fs_target fs p in
      if fs_refused fs (Chmod_Call t) then (Inl Io_Failed, fs)
      else case fs_lookup fs t of
          None \<Rightarrow> (Inl Io_NotFound, fs)
        | Some n \<Rightarrow> (Inr (), fs_put t (n\<lparr>nd_mode := mode\<rparr>) fs))"

definition fs_remove_file :: "path \<Rightarrow> (io_error, unit) fs_op" where
  "fs_remove_file p fs =
     (if fs_refused fs (Remove_Call p) then (Inl Io_Failed, fs)
      else case fs_lookup fs p of
          None \<Rightarrow> (Inl Io_NotFound, fs)
        | Some n \<Rightarrow> if nd_kind n = Directory then (Inl Io_Failed, fs) else (Inr (), fs_drop p fs))"

definition fs_bind :: "path \<Rightarrow> (io_error, unit) fs_op" where
  "fs_bind p fs =
     (if fs_refused fs (Bind_Call p) \<or> fs_lookup fs p \<noteq> None then (Inl Io_Failed, fs)
      else (Inr (), fs_put p (created Socket fs) fs))"

text \<open>\<open>fs::create_dir_all\<close>: the path is tried first, then its parents.\<close>

function fs_create_dir_all :: "path \<Rightarrow> (io_error, unit) fs_op" where
  "fs_create_dir_all p fs =
     (if p = [] then (Inr (), fs)
      else case fs_create_dir p fs of
          (Inr _, fs') \<Rightarrow> (Inr (), fs')
        | (Inl Io_Failed, fs') \<Rightarrow> (if fs_is_dir fs' p then Inr () else Inl Io_Failed, fs')
        | (Inl Io_NotFound, fs') \<Rightarrow>
            (case path_parent p of
               None \<Rightarrow> (Inl Io_Failed, fs')
             | Some parent \<Rightarrow>
                 (case fs_create_dir_all parent fs' of
                    (Inl e, fs'') \<Rightarrow> (Inl e, fs'')
                  | (Inr _, fs'') \<Rightarrow>
                      (case fs_create_dir p fs'' of
                         (Inr _, fs3) \<Rightarrow> (Inr (), fs3)
                       | (Inl e, fs3) \<Rightarrow> (if fs_is_dir fs3 p then Inr () else Inl e, fs3)))))"
  by pat_completeness auto
termination
  by (relation "measure (\<lambda>(p, fs). length p)") (auto simp: path_parent_def split: if_splits)

declare fs_create_dir_all.simps [simp del]

text \<open>\<open>fs::read_dir\<close>: the entries directly below a directory.\<close>

definition fs_read_dir :: "path \<Rightarrow> (io_error, (path \<times> node) list) fs_op" where
  "fs_read_dir p fs =
     (if fs_refused fs (Read_Call p) \<or> \<not> fs_is_dir fs p then Inl Io_Failed
      else Inr (filter (\<lambda>(q, n). path_parent q = Some p) (fs_nodes fs)), fs)"

text \<open>\<open>DirEntry::file_name\<close>.\<close>

definition file_name :: "path \<Rightarrow> string" where
  "file_name p = (case last p of Normal s \<Rightarrow> s | c \<Rightarrow> component_str c)"

section \<open>Laws of the calls\<close>

lemma fs_lookup_put [simp]: "fs_lookup (fs_put p n fs) q = (if q = p then Some n else fs_lookup fs q)"
  by (simp add: fs_lookup_def fs_put_def update_conv)

lemma fs_lookup_drop [simp]: "fs_lookup (fs_drop p fs) q = (if q = p then None else fs_lookup fs q)"
  by (simp add: fs_lookup_def fs_drop_def delete_conv)

lemma fs_put_other [simp]:
  "fs_refused (fs_put p n fs) = fs_refused fs" "fs_user (fs_put p n fs) = fs_user fs"
  "fs_umask (fs_put p n fs) = fs_umask fs" "fs_status (fs_put p n fs) = fs_status fs" "fs_var (fs_put p n fs) = fs_var fs"
  "fs_refused (fs_drop p fs) = fs_refused fs" "fs_user (fs_drop p fs) = fs_user fs"
  "fs_umask (fs_drop p fs) = fs_umask fs" "fs_status (fs_drop p fs) = fs_status fs" "fs_var (fs_drop p fs) = fs_var fs"
  by (simp_all add: fs_put_def fs_drop_def)

lemma path_parent_join [simp]: "path_parent (p @ [Normal s]) = Some p"
  by (simp add: path_parent_def)

text \<open>
  What an operation leaves behind: it changes at most the nodes of given paths. Successful and failing
  sequences compose.
\<close>

definition touches :: "path set \<Rightarrow> file_system \<Rightarrow> file_system \<Rightarrow> bool" where
  "touches S fs fs' \<longleftrightarrow>
     (\<forall>q. q \<notin> S \<longrightarrow> fs_lookup fs' q = fs_lookup fs q) \<and> fs_refused fs' = fs_refused fs \<and> fs_user fs' = fs_user fs
     \<and> fs_umask fs' = fs_umask fs \<and> fs_status fs' = fs_status fs \<and> fs_var fs' = fs_var fs"

lemma touches_refl [simp]: "touches S fs fs"
  by (simp add: touches_def)

lemma touches_trans: "touches S fs fs' \<Longrightarrow> touches T fs' fs'' \<Longrightarrow> S \<union> T \<subseteq> U \<Longrightarrow> touches U fs fs''"
  unfolding touches_def by (metis UnCI subsetD)

lemma touches_put_drop: "p \<in> S \<Longrightarrow> touches S fs (fs_put p n fs)" "p \<in> S \<Longrightarrow> touches S fs (fs_drop p fs)"
  by (auto simp: touches_def)

lemma touches_lookup: "touches S fs fs' \<Longrightarrow> q \<notin> S \<Longrightarrow> fs_lookup fs' q = fs_lookup fs q"
  by (simp add: touches_def)

lemma touches_same: "touches S fs fs' \<Longrightarrow> fs_refused fs' = fs_refused fs" "touches S fs fs' \<Longrightarrow> fs_status fs' = fs_status fs"
  "touches S fs fs' \<Longrightarrow> fs_user fs' = fs_user fs" "touches S fs fs' \<Longrightarrow> fs_umask fs' = fs_umask fs"
  "touches S fs fs' \<Longrightarrow> fs_var fs' = fs_var fs"
  by (simp_all add: touches_def)

lemma fs_then_Inr:
  "fs_then m f fs = (Inr y, fs'') \<longleftrightarrow> (\<exists>x fs'. m fs = (Inr x, fs') \<and> f x fs' = (Inr y, fs''))"
  by (auto simp: fs_then_def split: prod.splits sum.splits)

lemma fs_then_step: "m fs = (Inr x, fs') \<Longrightarrow> fs_then m f fs = f x fs'" "m fs = (Inl e, fs') \<Longrightarrow> fs_then m f fs = (Inl e, fs')"
  by (simp_all add: fs_then_def)

lemma fs_error_Inr [simp]: "fs_error g m fs = (Inr x, fs') \<longleftrightarrow> m fs = (Inr x, fs')"
  by (auto simp: fs_error_def split: prod.splits)

lemma snd_fs_error [simp]: "snd (fs_error g m fs) = snd (m fs)"
  by (simp add: fs_error_def split: prod.splits)

lemma fs_result_Inr [simp]: "fs_result r fs = (r', fs') \<longleftrightarrow> r' = r \<and> fs' = fs"
  by (auto simp: fs_result_def)

lemma ok_or_Inl_iff: "ok_or e x = Inl e' \<longleftrightarrow> x = None \<and> e' = e"
  by (cases x) auto

lemma fs_symlink_metadata_Inr [simp]:
  "fs_symlink_metadata p fs = (Inr n, fs') \<longleftrightarrow> \<not> fs_refused fs (Stat_Call p) \<and> fs_lookup fs p = Some n \<and> fs' = fs"
  by (auto simp: fs_symlink_metadata_def)

lemma snd_fs_symlink_metadata [simp]: "snd (fs_symlink_metadata p fs) = fs"
  by (simp add: fs_symlink_metadata_def)

lemma touches_then:
  assumes "touches S fs (snd (m fs))" and "\<And>x fs'. m fs = (Inr x, fs') \<Longrightarrow> touches S fs' (snd (f x fs'))"
  shows "touches S fs (snd (fs_then m f fs))"
  using assms touches_trans [of S fs _ S _ S] by (fastforce simp: fs_then_def split: prod.splits sum.splits)

lemma touches_catch:
  assumes "touches S fs (snd (m fs))" and "\<And>x fs'. m fs = (Inr x, fs') \<Longrightarrow> touches S fs' (snd (f x fs'))"
    and "\<And>e fs'. m fs = (Inl e, fs') \<Longrightarrow> touches S fs' (snd (h e fs'))"
  shows "touches S fs (snd (fs_catch m h f fs))"
  using assms touches_trans [of S fs _ S _ S] by (fastforce simp: fs_catch_def split: prod.splits sum.splits)

lemma touches_calls:
  "p \<in> S \<Longrightarrow> touches S fs (snd (fs_create_dir p fs))" "p \<in> S \<Longrightarrow> touches S fs (snd (fs_remove_file p fs))"
  "p \<in> S \<Longrightarrow> touches S fs (snd (fs_bind p fs))" "fs_target fs p \<in> S \<Longrightarrow> touches S fs (snd (fs_set_permissions p mode fs))"
  "touches S fs (snd (fs_result r fs))"
  by (auto simp: fs_create_dir_def fs_remove_file_def fs_bind_def fs_set_permissions_def fs_result_def Let_def
      touches_put_drop split: option.splits)

lemma fs_target_plain: "fs_lookup fs p = Some n \<Longrightarrow> (\<And>t. nd_kind n \<noteq> Symlink t) \<Longrightarrow> fs_target fs p = p"
  by (simp add: fs_target_def split: node_kind.split)

end
