(* ===== verification/Halquen_Paths.thy ===== *)
theory Halquen_Paths
  imports Halquen_Files
begin

text \<open>
  The directories of the daemon: the runtime directory with its socket (\<open>crates/protocol/src/transport.rs\<close>
  and the binding in \<open>apps/daemon/src/ipc.rs\<close>), the data directory with its database
  (\<open>crates/storage/src/paths.rs\<close> and the checks of \<open>Database::open\<close>). The texts of the error messages are
  constructors.
\<close>

section \<open>The user of the process\<close>

datatype path_problem =
  Not_Absolute | No_Parent | Not_A_Real_Directory path | Not_Owned path | Accessible path
| Refusing_To_Replace path | Not_An_Owned_Socket | Socket_Not_Private | Not_A_Private_Socket path
| Not_A_Database_File path | Not_A_Private_Directory path | Uid_Undetermined | Uid_Unparsable

datatype runtime_path_error = MissingRuntimeDirectory | Insecure path_problem | Runtime_Io io_error

datatype data_path_error = MissingDataHome | InsecureDataPath path_problem | Data_Io io_error

definition uid_line :: "string \<Rightarrow> string option" where
  "uid_line status = find (\<lambda>line. starts_with line ''Uid:'') (str_lines status)"

definition second_word :: "string \<Rightarrow> string option" where
  "second_word line = (case split_whitespace line of _ # w # _ \<Rightarrow> Some w | _ \<Rightarrow> None)"

definition runtime_uid :: "file_system \<Rightarrow> (runtime_path_error, u32) result" where
  "runtime_uid fs =
     and_then (ok_or (Runtime_Io Io_Failed) (fs_status fs)) (\<lambda>status.
     and_then (ok_or (Insecure Uid_Undetermined) (Option.bind (uid_line status) second_word)) (\<lambda>w.
       ok_or (Insecure Uid_Unparsable) (parse_u32 w)))"

definition data_uid :: "file_system \<Rightarrow> (data_path_error, u32) result" where
  "data_uid fs =
     and_then (ok_or (Data_Io Io_Failed) (fs_status fs)) (\<lambda>status.
     and_then (ok_or (InsecureDataPath Uid_Undetermined) (uid_line status)) (\<lambda>line.
     and_then (ok_or (InsecureDataPath Uid_Unparsable) (second_word line)) (\<lambda>w.
       ok_or (InsecureDataPath Uid_Unparsable) (parse_u32 w))))"

section \<open>The runtime directory\<close>

record runtime_paths =
  rp_app_dir :: path
  rp_socket :: path

definition runtime_discover :: "file_system \<Rightarrow> (runtime_path_error, runtime_paths) result" where
  "runtime_discover fs =
     and_then (ok_or MissingRuntimeDirectory (fs_var fs ''XDG_RUNTIME_DIR'')) (\<lambda>value.
       let root = components value in
       if \<not> path_is_absolute root then Inl (Insecure Not_Absolute)
       else let app_dir = path_join root ''halquen'' in
         Inr \<lparr>rp_app_dir = app_dir, rp_socket = path_join app_dir ''halquen.sock''\<rparr>)"

definition validate_directory_metadata :: "path \<Rightarrow> node \<Rightarrow> bool \<Rightarrow> (runtime_path_error, unit) fs_op" where
  "validate_directory_metadata p n private fs =
     (if nd_kind n \<noteq> Directory then Inl (Insecure (Not_A_Real_Directory p))
      else and_then (runtime_uid fs) (\<lambda>uid.
        if nd_uid n \<noteq> uid then Inl (Insecure (Not_Owned p))
        else if private \<and> nd_mode n AND 63 \<noteq> 0 then Inl (Insecure (Accessible p))
        else Inr ()), fs)"

definition validate_directory :: "path \<Rightarrow> bool \<Rightarrow> (runtime_path_error, unit) fs_op" where
  "validate_directory p private =
     fs_then (fs_error Runtime_Io (fs_symlink_metadata p)) (\<lambda>n. validate_directory_metadata p n private)"

definition owned_socket :: "path_problem \<Rightarrow> node \<Rightarrow> (runtime_path_error, unit) fs_op" where
  "owned_socket problem n fs =
     (if nd_kind n \<noteq> Socket then Inl (Insecure problem)
      else and_then (runtime_uid fs) (\<lambda>uid. if nd_uid n \<noteq> uid then Inl (Insecure problem) else Inr ()), fs)"

definition prepare_app_dir :: "path \<Rightarrow> (runtime_path_error, unit) fs_op" where
  "prepare_app_dir p =
     fs_then (fs_catch (fs_symlink_metadata p)
        (\<lambda>e. if e = Io_NotFound then fs_error Runtime_Io (fs_create_dir p) else fs_result (Inl (Runtime_Io e)))
        (\<lambda>n. validate_directory_metadata p n True)) (\<lambda>_.
     fs_then (fs_error Runtime_Io (fs_set_permissions p 448)) (\<lambda>_. validate_directory p True))"

definition remove_stale_socket :: "path \<Rightarrow> (runtime_path_error, unit) fs_op" where
  "remove_stale_socket p =
     fs_catch (fs_symlink_metadata p)
       (\<lambda>e. fs_result (if e = Io_NotFound then Inr () else Inl (Runtime_Io e)))
       (\<lambda>n. fs_then (owned_socket (Refusing_To_Replace p) n) (\<lambda>_. fs_error Runtime_Io (fs_remove_file p)))"

definition prepare_server :: "runtime_paths \<Rightarrow> (runtime_path_error, unit) fs_op" where
  "prepare_server P =
     (case path_parent (rp_app_dir P) of
        None \<Rightarrow> fs_result (Inl (Insecure No_Parent))
      | Some root \<Rightarrow>
          fs_then (validate_directory root True) (\<lambda>_.
          fs_then (prepare_app_dir (rp_app_dir P)) (\<lambda>_. remove_stale_socket (rp_socket P))))"

definition secure_bound_socket :: "runtime_paths \<Rightarrow> (runtime_path_error, unit) fs_op" where
  "secure_bound_socket P =
     fs_then (fs_error Runtime_Io (fs_symlink_metadata (rp_socket P))) (\<lambda>n.
     fs_then (owned_socket Not_An_Owned_Socket n) (\<lambda>_.
     fs_then (fs_error Runtime_Io (fs_set_permissions (rp_socket P) 384)) (\<lambda>_.
     fs_then (fs_error Runtime_Io (fs_symlink_metadata (rp_socket P))) (\<lambda>secured.
       fs_result (if nd_mode secured AND 63 \<noteq> 0 then Inl (Insecure Socket_Not_Private) else Inr ())))))"

definition validate_client :: "runtime_paths \<Rightarrow> (runtime_path_error, unit) fs_op" where
  "validate_client P =
     fs_then (validate_directory (rp_app_dir P) True) (\<lambda>_.
     fs_then (fs_error Runtime_Io (fs_symlink_metadata (rp_socket P))) (\<lambda>n.
     fs_then (owned_socket (Not_A_Private_Socket (rp_socket P)) n) (\<lambda>_.
       fs_result (if nd_mode n AND 63 \<noteq> 0 then Inl (Insecure (Not_A_Private_Socket (rp_socket P))) else Inr ()))))"

text \<open>The daemon's endpoint: the directory is prepared, the socket bound and closed to others. When the
  daemon ends, its guard removes the socket. An error of binding is reported apart from those of the paths.\<close>

datatype endpoint_error = Endpoint_Path runtime_path_error | Endpoint_Io io_error

definition open_endpoint :: "runtime_paths \<Rightarrow> (endpoint_error, unit) fs_op" where
  "open_endpoint P =
     fs_then (fs_error Endpoint_Path (prepare_server P)) (\<lambda>_.
     fs_then (fs_error Endpoint_Io (fs_bind (rp_socket P))) (\<lambda>_. fs_error Endpoint_Path (secure_bound_socket P)))"

definition remove_known_socket :: "path \<Rightarrow> file_system \<Rightarrow> file_system" where
  "remove_known_socket p fs =
     (case fs_symlink_metadata p fs of
        (Inr n, fs') \<Rightarrow> if nd_kind n = Socket then snd (fs_remove_file p fs') else fs'
      | (Inl _, fs') \<Rightarrow> fs')"

section \<open>The data directory\<close>

record data_paths =
  dp_app_dir :: path
  dp_database :: path

definition data_discover :: "file_system \<Rightarrow> (data_path_error, data_paths) result" where
  "data_discover fs =
     and_then (case fs_var fs ''XDG_DATA_HOME'' of
        Some value \<Rightarrow> Inr (components value)
      | None \<Rightarrow> and_then (ok_or MissingDataHome (fs_var fs ''HOME'')) (\<lambda>home.
          Inr (path_join (components home) ''.local/share''))) (\<lambda>data_home.
     if \<not> path_is_absolute data_home then Inl (InsecureDataPath Not_Absolute)
     else let app_dir = path_join data_home ''halquen'' in
       Inr \<lparr>dp_app_dir = app_dir, dp_database = path_join app_dir ''halquen.sqlite3''\<rparr>)"

definition validate_owned_directory :: "path \<Rightarrow> node \<Rightarrow> (data_path_error, unit) fs_op" where
  "validate_owned_directory p n fs =
     (if nd_kind n \<noteq> Directory then Inl (InsecureDataPath (Not_A_Real_Directory p))
      else and_then (data_uid fs) (\<lambda>uid.
        if nd_uid n \<noteq> uid then Inl (InsecureDataPath (Not_Owned p)) else Inr ()), fs)"

definition validate_private_directory :: "path \<Rightarrow> node \<Rightarrow> (data_path_error, unit) fs_op" where
  "validate_private_directory p n =
     fs_then (validate_owned_directory p n) (\<lambda>_.
       fs_result (if nd_mode n AND 63 \<noteq> 0 then Inl (InsecureDataPath (Accessible p)) else Inr ()))"

text \<open>The guard on the database file, in \<open>DataPaths::prepare\<close> and again in \<open>Database::open\<close>.\<close>

definition check_database_file :: "path \<Rightarrow> (data_path_error, unit) fs_op" where
  "check_database_file p =
     fs_catch (fs_symlink_metadata p)
       (\<lambda>e. fs_result (if e = Io_NotFound then Inr () else Inl (Data_Io e)))
       (\<lambda>n fs. (if nd_kind n \<noteq> Regular then Inl (InsecureDataPath (Not_A_Database_File p))
               else and_then (data_uid fs) (\<lambda>uid.
                 if nd_uid n \<noteq> uid then Inl (InsecureDataPath (Not_A_Database_File p)) else Inr ()), fs))"

definition data_prepare :: "data_paths \<Rightarrow> (data_path_error, unit) fs_op" where
  "data_prepare P =
     (case path_parent (dp_app_dir P) of
        None \<Rightarrow> fs_result (Inl (InsecureDataPath No_Parent))
      | Some parent \<Rightarrow>
          fs_then (fs_catch (fs_symlink_metadata parent)
             (\<lambda>e. if e = Io_NotFound
                  then fs_then (fs_error Data_Io (fs_create_dir_all parent)) (\<lambda>_.
                       fs_then (fs_error Data_Io (fs_symlink_metadata parent)) (validate_owned_directory parent))
                  else fs_result (Inl (Data_Io e)))
             (validate_owned_directory parent)) (\<lambda>_.
          fs_then (fs_catch (fs_symlink_metadata (dp_app_dir P))
             (\<lambda>e. if e = Io_NotFound then fs_error Data_Io (fs_create_dir (dp_app_dir P)) else fs_result (Inl (Data_Io e)))
             (validate_private_directory (dp_app_dir P))) (\<lambda>_.
          fs_then (fs_error Data_Io (fs_set_permissions (dp_app_dir P) 448)) (\<lambda>_.
          fs_then (fs_error Data_Io (fs_symlink_metadata (dp_app_dir P))) (\<lambda>n.
          fs_then (validate_private_directory (dp_app_dir P) n) (\<lambda>_. check_database_file (dp_database P)))))))"

text \<open>What \<open>Database::open\<close> checks before it opens the connection.\<close>

definition open_checks :: "path \<Rightarrow> (data_path_error, unit) fs_op" where
  "open_checks p =
     (case path_parent p of
        None \<Rightarrow> fs_result (Inl (InsecureDataPath No_Parent))
      | Some parent \<Rightarrow>
          fs_then (fs_error Data_Io (fs_symlink_metadata parent)) (\<lambda>n.
          fs_then (\<lambda>fs. (if nd_kind n \<noteq> Directory then Inl (InsecureDataPath (Not_A_Private_Directory parent))
                         else and_then (data_uid fs) (\<lambda>uid.
                           if nd_uid n \<noteq> uid \<or> nd_mode n AND 63 \<noteq> 0
                           then Inl (InsecureDataPath (Not_A_Private_Directory parent)) else Inr ()), fs)) (\<lambda>_.
            check_database_file p)))"

section \<open>Facts\<close>

text \<open>The user all three parts of the code read from the status file, and what they call private.\<close>

definition reported_uid :: "file_system \<Rightarrow> u32 option" where
  "reported_uid fs = Option.bind (Option.bind (Option.bind (fs_status fs) uid_line) second_word) parse_u32"

definition private_node :: "node_kind \<Rightarrow> u32 \<Rightarrow> node \<Rightarrow> bool" where
  "private_node kind uid n \<longleftrightarrow> nd_kind n = kind \<and> nd_uid n = uid \<and> nd_mode n AND 63 = 0"

lemma uid_reported:
  "runtime_uid fs = Inr u \<longleftrightarrow> reported_uid fs = Some u" "data_uid fs = Inr u \<longleftrightarrow> reported_uid fs = Some u"
  by (auto simp: runtime_uid_def data_uid_def reported_uid_def and_then_Inr_iff bind_eq_Some_conv)

lemma reported_uid_touches: "touches S fs fs' \<Longrightarrow> reported_uid fs' = reported_uid fs"
  by (simp add: reported_uid_def touches_same)

lemma validate_directory_metadata_Inr [simp]:
  "validate_directory_metadata p n private fs = (Inr x, fs') \<longleftrightarrow>
     fs' = fs \<and> (\<exists>u. reported_uid fs = Some u \<and> nd_kind n = Directory \<and> nd_uid n = u \<and> (private \<longrightarrow> nd_mode n AND 63 = 0))"
  by (auto simp: validate_directory_metadata_def and_then_Inr_iff uid_reported)

lemma validate_directory_Inr:
  "validate_directory p private fs = (Inr x, fs') \<longleftrightarrow>
     fs' = fs \<and> \<not> fs_refused fs (Stat_Call p)
     \<and> (\<exists>u n. reported_uid fs = Some u \<and> fs_lookup fs p = Some n \<and> nd_kind n = Directory \<and> nd_uid n = u
         \<and> (private \<longrightarrow> nd_mode n AND 63 = 0))"
  by (auto simp: validate_directory_def fs_then_Inr)

lemma owned_socket_Inr [simp]:
  "owned_socket problem n fs = (Inr x, fs') \<longleftrightarrow> fs' = fs \<and> nd_kind n = Socket \<and> reported_uid fs = Some (nd_uid n)"
  by (auto simp: owned_socket_def and_then_Inr_iff uid_reported)

lemma checks_change_nothing [simp]:
  "snd (validate_directory_metadata p n private fs) = fs" "snd (validate_directory p private fs) = fs"
  "snd (owned_socket problem n fs) = fs"
  by (auto simp: validate_directory_metadata_def validate_directory_def owned_socket_def fs_then_def fs_error_def
      fs_symlink_metadata_def split: prod.splits sum.splits)

text \<open>A mode without group and other bits is private.\<close>

lemma private_modes [simp]: "(448 :: 32 word) AND 63 = 0" "(384 :: 32 word) AND 63 = 0"
  by (simp_all add: and_one_eq)

lemma prepare_app_dir_touches: "touches {p} fs (snd (prepare_app_dir p fs))"
proof -
  let ?look = "fs_catch (fs_symlink_metadata p)
    (\<lambda>e. if e = Io_NotFound then fs_error Runtime_Io (fs_create_dir p) else fs_result (Inl (Runtime_Io e)))
    (\<lambda>n. validate_directory_metadata p n True)"
  have found: "\<exists>n. fs_lookup fs' p = Some n \<and> nd_kind n = Directory" if "?look fs = (Inr x, fs')" for x fs'
    using that by (auto simp: fs_catch_def fs_create_dir_def created_def fs_symlink_metadata_def
        split: prod.splits sum.splits if_splits option.splits)
  show ?thesis unfolding prepare_app_dir_def
  proof (intro touches_then touches_catch; (simp add: touches_calls; fail)?)
    fix x fs' assume "?look fs = (Inr x, fs')"
    from found [OF this] show "touches {p} fs' (snd (fs_error Runtime_Io (fs_set_permissions p 448) fs'))"
      by (auto simp: fs_target_plain touches_calls)
  qed
qed

lemma prepare_app_dir_private:
  assumes "prepare_app_dir p fs = (Inr x, fs')"
  obtains u n where "reported_uid fs = Some u" "fs_lookup fs' p = Some n" "private_node Directory u n"
    "\<And>m. fs_lookup fs p = Some m \<Longrightarrow> private_node Directory u m" "\<not> fs_refused fs (Stat_Call p)"
proof -
  have same: "touches {p} fs fs'" using prepare_app_dir_touches [of p fs] assms by simp
  from assms obtain fs1 y where last: "validate_directory p True fs1 = (Inr y, fs')"
    by (auto simp: prepare_app_dir_def fs_then_Inr)
  then obtain u n where n: "reported_uid fs' = Some u" "fs_lookup fs' p = Some n" "private_node Directory u n"
      and stat: "\<not> fs_refused fs' (Stat_Call p)"
    by (auto simp: validate_directory_Inr private_node_def)
  have "private_node Directory u m" if "fs_lookup fs p = Some m" for m
    using assms that stat same n(1) reported_uid_touches [OF same] touches_same(1) [OF same]
    by (auto simp: prepare_app_dir_def fs_then_Inr fs_catch_def fs_symlink_metadata_def private_node_def)
  with n stat that reported_uid_touches [OF same] touches_same(1) [OF same] show thesis by metis
qed

text \<open>A directory that was there is kept, with the mode for its owner alone.\<close>

definition closed_directory :: "u32 option \<Rightarrow> node \<Rightarrow> node option \<Rightarrow> bool" where
  "closed_directory uid n found \<longleftrightarrow> found = Some n
     \<or> nd_kind n = Directory \<and> uid = Some (nd_uid n) \<and> found = Some (n\<lparr>nd_mode := 448\<rparr>)"

lemma prepare_app_dir_keeps:
  assumes "prepare_app_dir p fs = (r, fs')" and "fs_lookup fs p = Some n"
  shows "closed_directory (reported_uid fs) n (fs_lookup fs' p)"
  using assms
  by (auto simp: prepare_app_dir_def fs_catch_def fs_symlink_metadata_def fs_then_def fs_error_def fs_set_permissions_def
      validate_directory_def validate_directory_metadata_def and_then_Inr_iff uid_reported fs_target_plain
      closed_directory_def Let_def split: prod.splits sum.splits if_splits option.splits)

lemma remove_stale_socket_outcome:
  assumes "remove_stale_socket p fs = (r, fs')"
  shows "touches {p} fs fs'"
    and "fs_lookup fs p = Some n \<Longrightarrow> fs_lookup fs' p \<noteq> Some n \<Longrightarrow> nd_kind n = Socket \<and> reported_uid fs = Some (nd_uid n)"
    and "r = Inr () \<Longrightarrow> fs_lookup fs' p = None"
    and "r = Inr () \<Longrightarrow> fs_lookup fs p = Some n \<Longrightarrow> nd_kind n = Socket \<and> reported_uid fs = Some (nd_uid n)"
  using assms
  by (auto simp: remove_stale_socket_def fs_catch_def fs_symlink_metadata_def fs_then_def fs_error_def fs_remove_file_def
      owned_socket_def and_then_Inr_iff and_then_def uid_reported touches_put_drop fs_result_def ok_or_Inl_iff
      split: prod.splits sum.splits if_splits option.splits)

lemma bind_outcome:
  assumes "fs_bind p fs = (Inr x, fs')"
  shows "fs_lookup fs' p = Some (created Socket fs)" "touches {p} fs fs'" "fs_lookup fs p = None"
  using assms by (auto simp: fs_bind_def touches_put_drop split: if_splits)

lemma secure_bound_socket_outcome:
  assumes "secure_bound_socket P fs = (r, fs')"
  shows "touches {rp_socket P} fs fs'"
    and "r = Inr () \<Longrightarrow> \<exists>u n. reported_uid fs = Some u \<and> fs_lookup fs' (rp_socket P) = Some n \<and> private_node Socket u n
      \<and> \<not> fs_refused fs (Stat_Call (rp_socket P))"
  using assms
  by (auto simp: secure_bound_socket_def fs_symlink_metadata_def fs_then_def fs_error_def fs_set_permissions_def
      owned_socket_def and_then_Inr_iff and_then_def uid_reported touches_put_drop fs_result_def fs_target_plain
      private_node_def Let_def split: prod.splits sum.splits if_splits option.splits)

text \<open>Whatever the outcome, only the two paths of the endpoint change, and at the path of the socket only a
  socket of the user is removed. Success went through both parts.\<close>

lemma prepare_server_parts:
  assumes "prepare_server P fs = (r, fs')" and "rp_socket P \<noteq> rp_app_dir P"
  shows "touches {rp_app_dir P, rp_socket P} fs fs'
    \<and> (\<forall>n. fs_lookup fs (rp_socket P) = Some n \<longrightarrow> fs_lookup fs' (rp_socket P) \<noteq> Some n
        \<longrightarrow> nd_kind n = Socket \<and> reported_uid fs = Some (nd_uid n))
    \<and> (\<forall>n. fs_lookup fs (rp_app_dir P) = Some n
        \<longrightarrow> closed_directory (reported_uid fs) n (fs_lookup fs' (rp_app_dir P)))
    \<and> (r = Inr () \<longrightarrow> (\<exists>fs1. prepare_app_dir (rp_app_dir P) fs = (Inr (), fs1)
        \<and> remove_stale_socket (rp_socket P) fs1 = (Inr (), fs')))"
proof -
  consider (early) "fs' = fs" "is_err r" | (late) root where "path_parent (rp_app_dir P) = Some root"
      "validate_directory root True fs = (Inr (), fs)"
    using assms(1) by (cases "validate_directory (the (path_parent (rp_app_dir P))) True fs")
      (auto simp: prepare_server_def fs_then_def validate_directory_Inr split: option.splits sum.splits
        dest: arg_cong [of _ _ snd])
  then show ?thesis
  proof cases
    case early
    then show ?thesis by (auto simp: closed_directory_def)
  next
    case late
    obtain r1 fs1 where app: "prepare_app_dir (rp_app_dir P) fs = (r1, fs1)" by fastforce
    have same: "touches {rp_app_dir P} fs fs1" using prepare_app_dir_touches [of "rp_app_dir P" fs] app by simp
    have socket: "fs_lookup fs1 (rp_socket P) = fs_lookup fs (rp_socket P)"
      using same assms(2) by (simp add: touches_lookup)
    show ?thesis
    proof (cases r1)
      case (Inl e)
      with late app assms(1) have "fs' = fs1" "r = Inl e" by (auto simp: prepare_server_def fs_then_def)
      with same socket prepare_app_dir_keeps [OF app] show ?thesis by (auto intro: touches_trans)
    next
      case (Inr u)
      with late app assms(1) have rest: "remove_stale_socket (rp_socket P) fs1 = (r, fs')"
        by (auto simp: prepare_server_def fs_then_def)
      from touches_trans [OF same remove_stale_socket_outcome(1) [OF rest]]
      have "touches {rp_app_dir P, rp_socket P} fs fs'" by auto
      moreover have "fs_lookup fs' (rp_app_dir P) = fs_lookup fs1 (rp_app_dir P)"
        using touches_lookup [OF remove_stale_socket_outcome(1) [OF rest]] assms(2) by auto
      ultimately show ?thesis
        using rest socket remove_stale_socket_outcome(2) [OF rest] reported_uid_touches [OF same] Inr app
          prepare_app_dir_keeps [OF app] by auto
    qed
  qed
qed

lemma discovered_paths:
  assumes "runtime_discover fs = Inr P"
  shows "rp_socket P = rp_app_dir P @ [Normal ''halquen.sock'']" "rp_socket P \<noteq> rp_app_dir P"
proof -
  have "components ''halquen.sock'' = [Normal ''halquen.sock'']" by code_simp
  with assms show "rp_socket P = rp_app_dir P @ [Normal ''halquen.sock'']"
    by (auto simp: runtime_discover_def path_join_def Let_def and_then_Inr_iff split: if_splits)
  then show "rp_socket P \<noteq> rp_app_dir P" by simp
qed

text \<open>Binding and closing the socket change only its node, once the path is free.\<close>

lemma bind_and_secure:
  assumes "fs_then (fs_error Endpoint_Io (fs_bind (rp_socket P)))
      (\<lambda>_. fs_error Endpoint_Path (secure_bound_socket P)) fs = (r, fs')"
  shows "touches {rp_socket P} fs fs'"
    and "fs_lookup fs (rp_socket P) = Some n \<Longrightarrow> fs_lookup fs' (rp_socket P) = Some n"
    and "r = Inr () \<Longrightarrow> \<exists>u n. reported_uid fs = Some u \<and> fs_lookup fs' (rp_socket P) = Some n \<and> private_node Socket u n
      \<and> \<not> fs_refused fs (Stat_Call (rp_socket P))"
proof -
  obtain r1 fs1 where bound: "fs_bind (rp_socket P) fs = (r1, fs1)" by fastforce
  consider (failed) "fs' = fs" "is_err r"
    | (secured) r2 where "r1 = Inr ()" "secure_bound_socket P fs1 = (r2, fs')" "r = map_err Endpoint_Path r2"
        "fs_lookup fs (rp_socket P) = None"
    using assms bound by (cases r1) (auto simp: fs_then_def fs_error_def fs_bind_def split: if_splits prod.splits)
  note cases = this
  show "touches {rp_socket P} fs fs'"
  proof (cases rule: cases)
    case (secured r2)
    with bound touches_trans [OF bind_outcome(2) secure_bound_socket_outcome(1) [OF secured(2)]] show ?thesis by blast
  qed simp
  show "fs_lookup fs' (rp_socket P) = Some n" if "fs_lookup fs (rp_socket P) = Some n"
    by (cases rule: cases) (use that in auto)
  show "\<exists>u n. reported_uid fs = Some u \<and> fs_lookup fs' (rp_socket P) = Some n \<and> private_node Socket u n
      \<and> \<not> fs_refused fs (Stat_Call (rp_socket P))" if "r = Inr ()"
  proof (cases rule: cases)
    case (secured r2)
    then have same: "touches {rp_socket P} fs fs1" using bound bind_outcome(2) by blast
    from secured(3) that have "r2 = Inr ()" by (cases r2) simp_all
    from secure_bound_socket_outcome(2) [OF secured(2) this] reported_uid_touches [OF same] touches_same(1) [OF same]
    show ?thesis by auto
  qed (use that in auto)
qed

section \<open>The data directory is private\<close>

lemma data_checks_Inr [simp]:
  "validate_owned_directory p n fs = (Inr x, fs') \<longleftrightarrow>
     fs' = fs \<and> nd_kind n = Directory \<and> reported_uid fs = Some (nd_uid n)"
  "validate_private_directory p n fs = (Inr x, fs') \<longleftrightarrow>
     fs' = fs \<and> (\<exists>u. reported_uid fs = Some u \<and> private_node Directory u n)"
  by (auto simp: validate_owned_directory_def validate_private_directory_def fs_then_Inr private_node_def
      and_then_Inr_iff uid_reported)

lemma check_database_file_Inr:
  "check_database_file p fs = (Inr x, fs') \<longleftrightarrow>
     fs' = fs \<and> \<not> fs_refused fs (Stat_Call p)
     \<and> (\<forall>n. fs_lookup fs p = Some n \<longrightarrow> nd_kind n = Regular \<and> reported_uid fs = Some (nd_uid n))"
  by (auto simp: check_database_file_def fs_catch_def fs_symlink_metadata_def fs_result_def ok_or_Inl_iff
      and_then_Inr_iff uid_reported split: prod.splits sum.splits if_splits)

text \<open>What \<open>DataPaths::prepare\<close> accepted passes the checks of \<open>Database::open\<close>.\<close>

lemma prepared_database_opens:
  assumes "data_prepare P fs = (Inr (), fs')" and "path_parent (dp_database P) = Some (dp_app_dir P)"
  shows "open_checks (dp_database P) fs' = (Inr (), fs')"
    and "\<exists>u n. reported_uid fs' = Some u \<and> fs_lookup fs' (dp_app_dir P) = Some n \<and> private_node Directory u n"
proof -
  from assms(1) obtain u n where *: "reported_uid fs' = Some u" "fs_lookup fs' (dp_app_dir P) = Some n"
      "private_node Directory u n" "\<not> fs_refused fs' (Stat_Call (dp_app_dir P))"
    and stored: "check_database_file (dp_database P) fs' = (Inr (), fs')"
    by (auto simp: data_prepare_def fs_then_Inr check_database_file_Inr split: option.splits)
  then show "open_checks (dp_database P) fs' = (Inr (), fs')"
    by (auto simp: open_checks_def assms(2) fs_then_Inr private_node_def and_then_Inr_iff uid_reported)
  from * show "\<exists>u n. reported_uid fs' = Some u \<and> fs_lookup fs' (dp_app_dir P) = Some n \<and> private_node Directory u n"
    by blast
qed

section \<open>The endpoint\<close>

lemma endpoint_outcome:
  assumes "runtime_discover fs = Inr P" and "open_endpoint P fs = (r, fs')"
  shows "(\<forall>q. q \<noteq> rp_app_dir P \<longrightarrow> q \<noteq> rp_socket P \<longrightarrow> fs_lookup fs' q = fs_lookup fs q)
    \<and> (\<forall>n. fs_lookup fs (rp_socket P) = Some n \<longrightarrow> fs_lookup fs' (rp_socket P) \<noteq> Some n
        \<longrightarrow> nd_kind n = Socket \<and> reported_uid fs = Some (nd_uid n))
    \<and> (\<forall>n. fs_lookup fs (rp_app_dir P) = Some n \<longrightarrow> fs_lookup fs' (rp_app_dir P) \<noteq> Some n
        \<longrightarrow> nd_kind n = Directory \<and> reported_uid fs = Some (nd_uid n)
          \<and> fs_lookup fs' (rp_app_dir P) = Some (n\<lparr>nd_mode := 448\<rparr>))
    \<and> (r = Inr () \<longrightarrow>
        (\<exists>u d s. reported_uid fs = Some u \<and> fs_lookup fs' (rp_app_dir P) = Some d \<and> private_node Directory u d
          \<and> fs_lookup fs' (rp_socket P) = Some s \<and> private_node Socket u s)
        \<and> validate_client P fs' = (Inr (), fs'))"
proof -
  note distinct = discovered_paths(2) [OF assms(1)]
  obtain r1 fs1 where prepared: "prepare_server P fs = (r1, fs1)" by fastforce
  note server = prepare_server_parts [OF prepared distinct]
  show ?thesis
  proof (cases r1)
    case (Inl e)
    with assms(2) prepared have "fs' = fs1" "is_err r" by (auto simp: open_endpoint_def fs_then_def fs_error_def)
    with server show ?thesis by (auto simp: touches_lookup closed_directory_def)
  next
    case (Inr x)
    with assms(2) prepared have rest: "fs_then (fs_error Endpoint_Io (fs_bind (rp_socket P)))
        (\<lambda>_. fs_error Endpoint_Path (secure_bound_socket P)) fs1 = (r, fs')"
      by (auto simp: open_endpoint_def fs_then_def fs_error_def)
    note socket = bind_and_secure [OF rest]
    from server Inr obtain fs0 where app: "prepare_app_dir (rp_app_dir P) fs = (Inr (), fs0)"
      and stale: "remove_stale_socket (rp_socket P) fs0 = (Inr (), fs1)" by auto
    from prepare_app_dir_private [OF app] obtain u d where d: "reported_uid fs = Some u"
      "fs_lookup fs0 (rp_app_dir P) = Some d" "private_node Directory u d" "\<not> fs_refused fs (Stat_Call (rp_app_dir P))"
      by metis
    from server have whole: "touches {rp_app_dir P, rp_socket P} fs fs1" by blast
    have ends: "touches {rp_app_dir P, rp_socket P} fs fs'" using touches_trans [OF whole socket(1)] by auto
    have kept: "fs_lookup fs' (rp_app_dir P) = Some d"
      using d(2) distinct touches_lookup [OF socket(1)] touches_lookup [OF remove_stale_socket_outcome(1) [OF stale]] by auto
    have closed: "(\<exists>s. fs_lookup fs' (rp_socket P) = Some s \<and> private_node Socket u s) \<and> validate_client P fs' = (Inr (), fs')"
      if "r = Inr ()"
    proof -
      from socket(3) [OF that] d(1) reported_uid_touches [OF whole] touches_same(1) [OF whole] obtain s where
        s: "fs_lookup fs' (rp_socket P) = Some s" "private_node Socket u s" "\<not> fs_refused fs (Stat_Call (rp_socket P))" by auto
      with kept d reported_uid_touches [OF ends] touches_same(1) [OF ends] show ?thesis
        by (auto simp: validate_client_def fs_then_Inr validate_directory_Inr private_node_def)
    qed
    have removed: "nd_kind n = Socket \<and> reported_uid fs = Some (nd_uid n)"
      if "fs_lookup fs (rp_socket P) = Some n" "fs_lookup fs' (rp_socket P) \<noteq> Some n" for n
      using server socket(2) [of n] that by blast
    have directory: "nd_kind n = Directory \<and> reported_uid fs = Some (nd_uid n)
        \<and> fs_lookup fs' (rp_app_dir P) = Some (n\<lparr>nd_mode := 448\<rparr>)"
      if "fs_lookup fs (rp_app_dir P) = Some n" "fs_lookup fs' (rp_app_dir P) \<noteq> Some n" for n
    proof -
      have "fs_lookup fs' (rp_app_dir P) = fs_lookup fs1 (rp_app_dir P)"
        using touches_lookup [OF socket(1)] distinct by auto
      with server that(1) have "closed_directory (reported_uid fs) n (fs_lookup fs' (rp_app_dir P))" by metis
      with that(2) show ?thesis by (simp add: closed_directory_def)
    qed
    have others: "fs_lookup fs' q = fs_lookup fs q" if "q \<noteq> rp_app_dir P" "q \<noteq> rp_socket P" for q
      using touches_lookup [OF ends] that by simp
    have success: "\<exists>u d s. reported_uid fs = Some u \<and> fs_lookup fs' (rp_app_dir P) = Some d \<and> private_node Directory u d
          \<and> fs_lookup fs' (rp_socket P) = Some s \<and> private_node Socket u s" if "r = Inr ()"
      using closed [OF that] kept d(1,3) by blast
    have accepted: "r = Inr () \<Longrightarrow> validate_client P fs' = (Inr (), fs')" using closed by blast
    show ?thesis
    proof (intro conjI allI impI)
      show "fs_lookup fs' q = fs_lookup fs q" if "q \<noteq> rp_app_dir P" "q \<noteq> rp_socket P" for q using that by (rule others)
    qed (use removed directory success accepted in blast)+
  qed
qed

text \<open>
  C28. Opening the daemon's endpoint changes no path but its own directory and socket, what it removes
  there is a socket of the user, and a directory that was there is changed only if it is a directory of
  the user, and then only in its mode, to one for the user alone. When it succeeds, directory and socket
  belong to the user and are closed to everybody else, and a client accepts them.
\<close>

theorem endpoint_is_private:
  assumes "runtime_discover fs = Inr P" and "open_endpoint P fs = (r, fs')"
  shows "(\<forall>q. q \<noteq> rp_app_dir P \<longrightarrow> q \<noteq> rp_socket P \<longrightarrow> fs_lookup fs' q = fs_lookup fs q)
    \<and> (\<forall>n. fs_lookup fs (rp_socket P) = Some n \<longrightarrow> fs_lookup fs' (rp_socket P) \<noteq> Some n
        \<longrightarrow> nd_kind n = Socket \<and> reported_uid fs = Some (nd_uid n))
    \<and> (\<forall>n. fs_lookup fs (rp_app_dir P) = Some n \<longrightarrow> fs_lookup fs' (rp_app_dir P) \<noteq> Some n
        \<longrightarrow> nd_kind n = Directory \<and> reported_uid fs = Some (nd_uid n)
          \<and> fs_lookup fs' (rp_app_dir P) = Some (n\<lparr>nd_mode := 448\<rparr>))
    \<and> (r = Inr () \<longrightarrow>
        (\<exists>u d s. reported_uid fs = Some u \<and> fs_lookup fs' (rp_app_dir P) = Some d \<and> private_node Directory u d
          \<and> fs_lookup fs' (rp_socket P) = Some s \<and> private_node Socket u s)
        \<and> validate_client P fs' = (Inr (), fs'))"
  using assms by (rule endpoint_outcome)

text \<open>A runtime directory with a socket a former daemon left behind.\<close>

definition example_runtime :: file_system where
  "example_runtime =
     \<lparr>fs_nodes = [([RootDir, Normal ''run''], \<lparr>nd_kind = Directory, nd_uid = 7, nd_mode = 448, nd_len = 0, nd_modified = None\<rparr>),
        ([RootDir, Normal ''run'', Normal ''halquen''],
          \<lparr>nd_kind = Directory, nd_uid = 7, nd_mode = 448, nd_len = 0, nd_modified = None\<rparr>),
        ([RootDir, Normal ''run'', Normal ''halquen'', Normal ''halquen.sock''],
          \<lparr>nd_kind = Socket, nd_uid = 7, nd_mode = 493, nd_len = 0, nd_modified = None\<rparr>)],
      fs_refused = (\<lambda>_. False), fs_user = 7, fs_umask = 18, fs_status = Some ''Uid: 7 7'',
      fs_var = (\<lambda>name. if name = ''XDG_RUNTIME_DIR'' then Some ''/run'' else None)\<rparr>"

definition example_runtime_paths :: runtime_paths where
  "example_runtime_paths =
     \<lparr>rp_app_dir = [RootDir, Normal ''run'', Normal ''halquen''],
      rp_socket = [RootDir, Normal ''run'', Normal ''halquen'', Normal ''halquen.sock'']\<rparr>"

lemma example_uid: "reported_uid example_runtime = Some 7" "runtime_uid example_runtime = Inr 7"
proof -
  have "uid_line ''Uid: 7 7'' = Some ''Uid: 7 7''" "second_word ''Uid: 7 7'' = Some ''7''" by code_simp+
  moreover have "parse_u32 ''7'' = Some 7" by (simp add: parse_u32_def is_ascii_digit_def byte_def u32_max_def)
  ultimately show "reported_uid example_runtime = Some 7" by (simp add: reported_uid_def example_runtime_def)
  then show "runtime_uid example_runtime = Inr 7" by (simp add: uid_reported)
qed

lemma uid_after: "runtime_uid (fs_put p n fs) = runtime_uid fs" "runtime_uid (fs_drop p fs) = runtime_uid fs"
  by (simp_all add: runtime_uid_def)

lemma example_nodes:
  "fs_lookup example_runtime [RootDir, Normal ''run''] =
     Some \<lparr>nd_kind = Directory, nd_uid = 7, nd_mode = 448, nd_len = 0, nd_modified = None\<rparr>"
  "fs_lookup example_runtime [RootDir, Normal ''run'', Normal ''halquen''] =
     Some \<lparr>nd_kind = Directory, nd_uid = 7, nd_mode = 448, nd_len = 0, nd_modified = None\<rparr>"
  "fs_lookup example_runtime [RootDir, Normal ''run'', Normal ''halquen'', Normal ''halquen.sock''] =
     Some \<lparr>nd_kind = Socket, nd_uid = 7, nd_mode = 493, nd_len = 0, nd_modified = None\<rparr>"
  "fs_refused example_runtime = (\<lambda>_. False)" "fs_user example_runtime = 7" "fs_umask example_runtime = 18"
  by (simp_all add: example_runtime_def fs_lookup_def)

lemma example_discovered: "runtime_discover example_runtime = Inr example_runtime_paths"
proof -
  have "components ''/run'' = [RootDir, Normal ''run'']" "components ''halquen'' = [Normal ''halquen'']"
    "components ''halquen.sock'' = [Normal ''halquen.sock'']" by code_simp+
  then show ?thesis
    by (simp add: runtime_discover_def example_runtime_def example_runtime_paths_def path_join_def path_is_absolute_def)
qed

theorem endpoint_is_private_witness:
  "\<exists>fs'. open_endpoint example_runtime_paths example_runtime = (Inr (), fs')
     \<and> validate_client example_runtime_paths fs' = (Inr (), fs')
     \<and> fs_lookup fs' [RootDir, Normal ''run''] = fs_lookup example_runtime [RootDir, Normal ''run'']"
proof -
  let ?opened = "open_endpoint example_runtime_paths example_runtime"
  have "fst ?opened = Inr ()"
    by (simp add: open_endpoint_def prepare_server_def prepare_app_dir_def remove_stale_socket_def secure_bound_socket_def
        validate_directory_def validate_directory_metadata_def owned_socket_def fs_then_def fs_catch_def fs_error_def
        fs_result_def fs_symlink_metadata_def fs_set_permissions_def fs_remove_file_def fs_bind_def fs_target_def
        created_def example_runtime_paths_def path_parent_def example_nodes example_uid uid_after Let_def)
  then obtain fs' where opened: "?opened = (Inr (), fs')" by (metis prod.collapse)
  from endpoint_is_private [OF example_discovered opened]
  have "validate_client example_runtime_paths fs' = (Inr (), fs')"
    "fs_lookup fs' [RootDir, Normal ''run''] = fs_lookup example_runtime [RootDir, Normal ''run'']"
    by (simp_all add: example_runtime_paths_def)
  with opened show ?thesis by blast
qed

end
