(* ===== verification/Halquen_Logging.thy ===== *)
theory Halquen_Logging
  imports Halquen_Paths Halquen_Dialogue "HOL-Library.Multiset"
begin

text \<open>
  Operational logging (\<open>apps/daemon/src/logging.rs\<close>): the private log directory, the policy the settings
  give, pruning by age and size, clearing of the history, and the redaction of a logged text.
\<close>

section \<open>The log directory\<close>

datatype logging_error = MissingStateHome | InsecureLogDirectory | UnknownUser | Log_Io io_error

definition log_uid :: "file_system \<Rightarrow> (logging_error, u32) result" where
  "log_uid fs =
     and_then (ok_or (Log_Io Io_Failed) (fs_status fs)) (\<lambda>status.
       ok_or UnknownUser (Option.bind (Option.bind (uid_line status) second_word) parse_u32))"

definition log_directory :: "file_system \<Rightarrow> (logging_error, path) result" where
  "log_directory fs =
     and_then (case fs_var fs ''XDG_STATE_HOME'' of
        Some value \<Rightarrow> Inr (components value)
      | None \<Rightarrow> and_then (ok_or MissingStateHome (fs_var fs ''HOME'')) (\<lambda>home.
          Inr (path_join (components home) ''.local/state''))) (\<lambda>state_home.
     if \<not> path_is_absolute state_home then Inl InsecureLogDirectory
     else Inr (path_join state_home ''halquen/logs''))"

definition prepare_log_directory :: "(logging_error, path) fs_op" where
  "prepare_log_directory fs =
     (case log_directory fs of
        Inl e \<Rightarrow> (Inl e, fs)
      | Inr directory \<Rightarrow>
          fs_then (fs_error Log_Io (fs_create_dir_all directory)) (\<lambda>_.
          fs_then (fs_error Log_Io (fs_set_permissions directory 448)) (\<lambda>_.
          fs_then (fs_error Log_Io (fs_symlink_metadata directory)) (\<lambda>n fs'.
            (if nd_kind n \<noteq> Directory then Inl InsecureLogDirectory
             else and_then (log_uid fs') (\<lambda>uid.
               if nd_uid n \<noteq> uid \<or> nd_mode n AND 63 \<noteq> 0 then Inl InsecureLogDirectory else Inr directory), fs')))) fs)"

section \<open>Policy\<close>

record logging_policy =
  lp_level :: log_level
  lp_retention_secs :: u64
  lp_max_total_bytes :: u64

definition policy_of_settings :: "application_settings \<Rightarrow> logging_policy" where
  "policy_of_settings settings =
     \<lparr>lp_level = (if as_diagnostic_logging settings then as_log_level settings else Log_Error),
      lp_retention_secs = as_log_retention_days settings * 24 * 60 * 60,
      lp_max_total_bytes = as_log_max_total_mb settings * 1024 * 1024\<rparr>"

section \<open>Pruning and clearing\<close>

definition is_log :: "path \<times> node \<Rightarrow> bool" where
  "is_log entry = (nd_kind (snd entry) = Regular \<and> starts_with (file_name (fst entry)) ''halquen.log'')"

type_synonym log_file = "path \<times> u64 \<times> int"

text \<open>The entries whose metadata and modification time can be read. Times are in nanoseconds.\<close>

definition log_files :: "file_system \<Rightarrow> (path \<times> node) list \<Rightarrow> log_file list" where
  "log_files fs entries =
     List.map_filter (\<lambda>entry.
       if fs_refused fs (Stat_Call (fst entry)) \<or> \<not> is_log entry then None
       else map_option (\<lambda>modified. (fst entry, nd_len (snd entry), modified)) (nd_modified (snd entry))) entries"

definition log_size :: "log_file \<Rightarrow> u64" where
  "log_size f = fst (snd f)"

definition log_modified :: "log_file \<Rightarrow> int" where
  "log_modified f = snd (snd f)"

definition log_expired :: "int \<Rightarrow> u64 \<Rightarrow> log_file \<Rightarrow> bool" where
  "log_expired now retention_secs f =
     (log_modified f \<le> now \<and> now - log_modified f > int retention_secs * 1000000000)"

fun prune_loop :: "int \<Rightarrow> u64 \<Rightarrow> u64 \<Rightarrow> u64 \<Rightarrow> log_file list \<Rightarrow> (logging_error, unit) fs_op" where
  "prune_loop now retention_secs max_total_bytes remaining [] = fs_result (Inr ())"
| "prune_loop now retention_secs max_total_bytes remaining (f # files) =
     (if log_expired now retention_secs f \<or> remaining > max_total_bytes
      then fs_then (fs_error Log_Io (fs_remove_file (fst f))) (\<lambda>_.
        prune_loop now retention_secs max_total_bytes (remaining - log_size f) files)
      else prune_loop now retention_secs max_total_bytes remaining files)"

text \<open>The sum of the sizes is an unsigned sum of 64 bits.\<close>

definition total_size :: "log_file list \<Rightarrow> nat" where
  "total_size files = sum_list (map log_size files)"

definition prune_logs :: "path \<Rightarrow> int \<Rightarrow> u64 \<Rightarrow> u64 \<Rightarrow> (logging_error, unit) fs_op" where
  "prune_logs directory now retention_secs max_total_bytes =
     fs_then (fs_error Log_Io (fs_read_dir directory)) (\<lambda>entries fs.
       let files = sort_key log_modified (log_files fs entries) in
       prune_loop now retention_secs max_total_bytes (total_size files mod 2 ^ 64) files fs)"

text \<open>Clearing stops with an error at an entry whose type cannot be read. Within one directory paths are
  ordered by their file names.\<close>

fun remove_files :: "path list \<Rightarrow> (logging_error, unit) fs_op" where
  "remove_files [] = fs_result (Inr ())"
| "remove_files (p # ps) = fs_then (fs_error Log_Io (fs_remove_file p)) (\<lambda>_. remove_files ps)"

definition clear_historical_logs_in :: "path \<Rightarrow> (logging_error, nat) fs_op" where
  "clear_historical_logs_in directory =
     fs_then (fs_error Log_Io (fs_read_dir directory)) (\<lambda>entries fs.
       if list_ex (\<lambda>entry. fs_refused fs (Stat_Call (fst entry))) entries then (Inl (Log_Io Io_Failed), fs)
       else let files = butlast (sort_key file_name (map fst (filter is_log entries))) in
         fs_then (remove_files files) (\<lambda>_. fs_result (Inr (length files))) fs)"

definition clear_historical_logs :: "(logging_error, u64) fs_op" where
  "clear_historical_logs =
     fs_then prepare_log_directory (\<lambda>directory.
     fs_then (clear_historical_logs_in directory) (\<lambda>removed.
       fs_result (if removed < 2 ^ 64 then Inr removed else Inl (Log_Io Io_Failed))))"

text \<open>The start of logging up to the subscriber, which the tracing library installs.\<close>

definition initialize_logging :: "application_settings \<Rightarrow> int \<Rightarrow> (logging_error, path) fs_op" where
  "initialize_logging settings now =
     fs_then prepare_log_directory (\<lambda>directory.
       let policy = policy_of_settings settings in
       fs_then (prune_logs directory now (lp_retention_secs policy) (lp_max_total_bytes policy)) (\<lambda>_.
         fs_result (Inr directory)))"

section \<open>Redaction\<close>

definition to_ascii_lowercase :: "string \<Rightarrow> string" where
  "to_ascii_lowercase s = map (\<lambda>c. if is_ascii_uppercase c then char_of (byte c + 32) else c) s"

definition sensitive :: "string \<Rightarrow> bool" where
  "sensitive lower =
     (sublist ''api_key'' lower \<or> sublist ''apikey'' lower \<or> sublist ''password'' lower
      \<or> sublist ''authorization'' lower \<or> lower = ''bearer'')"

fun redact_tokens :: "nat \<Rightarrow> string list \<Rightarrow> string list" where
  "redact_tokens redact_next [] = []"
| "redact_tokens redact_next (token # tokens) =
     (let lower = to_ascii_lowercase token in
      if redact_next > 0 \<or> sensitive lower
      then ''[REDACTED]'' #
        redact_tokens (if sublist ''authorization'' lower then 2 else if lower = ''bearer'' then 1
          else redact_next - 1) tokens
      else (if length token > 256 then ''[OVERSIZED_REDACTED]'' else token) # redact_tokens 0 tokens)"

definition redact :: "string \<Rightarrow> string" where
  "redact value = join_with '' '' (redact_tokens 0 (Halquen_Capabilities.split_whitespace value))"

section \<open>Pruning keeps the newest logs within the limits\<close>

definition logs_in :: "path \<Rightarrow> file_system \<Rightarrow> log_file list" where
  "logs_in directory fs = log_files fs (filter (\<lambda>(q, n). path_parent q = Some directory) (fs_nodes fs))"

text \<open>The reference: the longest newest part of the logs that has no expired file and fits.\<close>

fun kept_logs :: "int \<Rightarrow> u64 \<Rightarrow> u64 \<Rightarrow> log_file list \<Rightarrow> log_file list" where
  "kept_logs now retention_secs max_total_bytes [] = []"
| "kept_logs now retention_secs max_total_bytes (f # files) =
     (if log_expired now retention_secs f \<or> total_size (f # files) > max_total_bytes
      then kept_logs now retention_secs max_total_bytes files else f # files)"

lemma total_size_Cons: "total_size (f # files) = log_size f + total_size files"
  by (simp add: total_size_def)

lemma expired_earlier:
  "log_expired now r g \<Longrightarrow> log_modified f \<le> log_modified g \<Longrightarrow> log_expired now r f"
  by (auto simp: log_expired_def)

lemma prune_loop_keeps_all:
  assumes "\<forall>f\<in>set files. \<not> log_expired now r f" and "remaining \<le> limit"
  shows "prune_loop now r limit remaining files fs = (Inr (), fs)"
  using assms by (induction files) auto

lemma fs_remove_file_Inr: "fs_remove_file p fs = (Inr x, fs') \<Longrightarrow> fs' = fs_drop p fs"
  by (auto simp: fs_remove_file_def split: if_splits option.splits)

lemma prune_loop_drops:
  assumes "sorted (map log_modified files)" and "prune_loop now r limit (total_size files) files fs = (Inr (), fs')"
  shows "\<exists>gone. files = gone @ kept_logs now r limit files \<and> fs' = fold fs_drop (map fst gone) fs"
  using assms
proof (induction files arbitrary: fs)
  case (Cons f files)
  show ?case
  proof (cases "log_expired now r f \<or> total_size (f # files) > limit")
    case True
    with Cons.prems(2) have "prune_loop now r limit (total_size files) files (fs_drop (fst f) fs) = (Inr (), fs')"
      by (auto simp: fs_then_Inr total_size_Cons dest!: fs_remove_file_Inr)
    from Cons.IH [OF _ this] Cons.prems(1) obtain gone where
      "files = gone @ kept_logs now r limit files" "fs' = fold fs_drop (map fst gone) (fs_drop (fst f) fs)" by auto
    with True show ?thesis by (intro exI [of _ "f # gone"]) auto
  next
    case False
    have "\<forall>g\<in>set files. \<not> log_expired now r g" using Cons.prems(1) expired_earlier False by fastforce
    with False Cons.prems(2) prune_loop_keeps_all [of files now r "total_size (f # files)" limit fs] show ?thesis
      by (intro exI [of _ "[]"]) auto
  qed
qed simp

lemma kept_logs_fit:
  "total_size (kept_logs now r limit files) \<le> limit"
  "sorted (map log_modified files) \<Longrightarrow> f \<in> set (kept_logs now r limit files) \<Longrightarrow> \<not> log_expired now r f"
proof (induction files)
  case (Cons g files)
  { case 1 then show ?case using Cons by (auto simp: total_size_def) }
  { case 2 then show ?case using Cons expired_earlier [of now r f g] by (auto split: if_splits) }
qed (simp_all add: total_size_def)

lemma dropped_log:
  "sorted (map log_modified files) \<Longrightarrow> f \<in> set files \<Longrightarrow> f \<notin> set (kept_logs now r limit files) \<Longrightarrow>
   \<not> log_expired now r f \<Longrightarrow> limit < total_size (filter (\<lambda>g. log_modified f \<le> log_modified g) files)"
proof (induction files)
  case (Cons g files)
  have all: "filter (\<lambda>h. log_modified g \<le> log_modified h) (g # files) = g # files"
    using Cons.prems(1) by (auto intro: filter_True)
  show ?case
  proof (cases "f = g")
    case True
    with Cons.prems all show ?thesis by (auto split: if_splits)
  next
    case False
    with Cons have "limit < total_size (filter (\<lambda>g. log_modified f \<le> log_modified g) files)" by (auto split: if_splits)
    then show ?thesis by (auto simp: total_size_Cons)
  qed
qed simp

lemma log_files_alt:
  "log_files fs es = map (\<lambda>e. (fst e, nd_len (snd e), the (nd_modified (snd e))))
     (filter (\<lambda>e. \<not> fs_refused fs (Stat_Call (fst e)) \<and> is_log e \<and> nd_modified (snd e) \<noteq> None) es)"
  by (induction es) (auto simp: log_files_def map_filter_simps)

lemma logs_in_drop: "logs_in directory (fs_drop p fs) = filter (\<lambda>f. fst f \<noteq> p) (logs_in directory fs)"
  by (auto simp: logs_in_def log_files_alt fs_drop_def AList.delete_eq filter_map o_def case_prod_unfold
      intro!: arg_cong [of _ _ "map _"] filter_cong)

lemma logs_in_drops: "logs_in directory (fold fs_drop ps fs) = filter (\<lambda>f. fst f \<notin> set ps) (logs_in directory fs)"
  by (induction ps arbitrary: fs) (auto simp: logs_in_drop filter_filter intro: filter_cong)

lemma fs_lookup_drops: "fs_lookup (fold fs_drop ps fs) q = (if q \<in> set ps then None else fs_lookup fs q)"
  by (induction ps arbitrary: fs) auto

lemma distinct_logs: "distinct (map fst (fs_nodes fs)) \<Longrightarrow> distinct (map fst (logs_in directory fs))"
  by (simp add: logs_in_def log_files_alt o_def distinct_map_filter)

lemma total_size_mset: "mset xs = mset ys \<Longrightarrow> total_size xs = total_size ys"
  by (simp add: total_size_def) (metis mset_map sum_mset_sum_list)

lemma filter_rest: "distinct (map fst (xs @ ys)) \<Longrightarrow> filter (\<lambda>f. fst f \<notin> fst ` set xs) (xs @ ys) = ys"
  by (auto simp: filter_empty_conv filter_id_conv)

lemma prune_logs_outcome:
  assumes "prune_logs directory now r limit fs = (Inr (), fs')" and "distinct (map fst (fs_nodes fs))"
    and "total_size (logs_in directory fs) < 2 ^ 64"
  obtains gone kept where "sort_key log_modified (logs_in directory fs) = gone @ kept"
    "kept = kept_logs now r limit (gone @ kept)" "fs' = fold fs_drop (map fst gone) fs"
    "mset (logs_in directory fs') = mset kept"
proof -
  let ?files = "sort_key log_modified (logs_in directory fs)"
  have total: "total_size ?files = total_size (logs_in directory fs)" by (rule total_size_mset) simp
  from assms(1,3) have "prune_loop now r limit (total_size ?files) ?files fs = (Inr (), fs')"
    by (auto simp: prune_logs_def fs_then_Inr Let_def fs_read_dir_def logs_in_def total [unfolded logs_in_def] split: if_splits)
  from prune_loop_drops [OF _ this] obtain gone where gone: "?files = gone @ kept_logs now r limit ?files"
    "fs' = fold fs_drop (map fst gone) fs" by auto
  let ?kept = "kept_logs now r limit ?files"
  have "distinct (map fst ?files)" using distinct_logs [OF assms(2)]
    by (metis mset_map mset_sort mset_eq_imp_distinct_iff)
  then have "filter (\<lambda>f. fst f \<notin> fst ` set gone) ?files = ?kept"
    using gone(1) filter_rest by metis
  then have "mset (logs_in directory fs') = mset ?kept"
    by (metis gone(2) logs_in_drops mset_filter mset_sort list.set_map)
  with gone show thesis using that by metis
qed

text \<open>
  C40. Pruning leaves logs that fit into the configured size and are not older than the retention, removes
  only logs, none of them newer than a log it keeps, and each only for a reason: it is older than the
  retention, or it and the logs since then exceed the size. Within both limits nothing changes.
\<close>

theorem pruned_logs_fit:
  assumes "prune_logs directory now retention_secs limit fs = (Inr (), fs')"
    and "distinct (map fst (fs_nodes fs))" and "total_size (logs_in directory fs) < 2 ^ 64"
  shows "total_size (logs_in directory fs') \<le> limit
    \<and> (\<forall>f \<in> set (logs_in directory fs'). \<not> log_expired now retention_secs f)
    \<and> set (logs_in directory fs') \<subseteq> set (logs_in directory fs)
    \<and> (\<forall>f \<in> set (logs_in directory fs) - set (logs_in directory fs'). \<forall>g \<in> set (logs_in directory fs').
         log_modified f \<le> log_modified g)
    \<and> (\<forall>f \<in> set (logs_in directory fs) - set (logs_in directory fs'). log_expired now retention_secs f
         \<or> limit < total_size (filter (\<lambda>g. log_modified f \<le> log_modified g) (logs_in directory fs)))
    \<and> (\<forall>q. q \<notin> fst ` set (logs_in directory fs) \<longrightarrow> fs_lookup fs' q = fs_lookup fs q)
    \<and> (total_size (logs_in directory fs) \<le> limit \<longrightarrow>
         (\<forall>f \<in> set (logs_in directory fs). \<not> log_expired now retention_secs f) \<longrightarrow> fs' = fs)"
proof -
  let ?files = "sort_key log_modified (logs_in directory fs)"
  from prune_logs_outcome [OF assms] obtain gone kept where outcome: "?files = gone @ kept"
    "kept = kept_logs now retention_secs limit (gone @ kept)" "fs' = fold fs_drop (map fst gone) fs"
    "mset (logs_in directory fs') = mset kept" .
  have sorted: "sorted (map log_modified (gone @ kept))" unfolding outcome(1) [symmetric] by simp
  have sets: "set (logs_in directory fs') = set kept" "set (logs_in directory fs) = set gone \<union> set kept"
    using outcome(1,4) by (metis mset_eq_setD, metis set_append set_sort)
  have "total_size (gone @ kept) = total_size (logs_in directory fs)"
    by (rule total_size_mset) (metis outcome(1) mset_sort)
  moreover have "kept_logs now retention_secs limit (gone @ kept) = gone @ kept"
    if "total_size (gone @ kept) \<le> limit" "\<forall>f\<in>set (gone @ kept). \<not> log_expired now retention_secs f"
    using that by (cases "gone @ kept") auto
  moreover have "total_size (logs_in directory fs') \<le> limit"
    using kept_logs_fit(1) [of now retention_secs limit "gone @ kept"] outcome(2) total_size_mset [OF outcome(4)] by simp
  moreover have "\<forall>f\<in>set kept. \<not> log_expired now retention_secs f"
    using kept_logs_fit(2) [OF sorted] outcome(2) by metis
  moreover have "log_expired now retention_secs f
      \<or> limit < total_size (filter (\<lambda>g. log_modified f \<le> log_modified g) (logs_in directory fs))"
    if "f \<in> set gone" "f \<notin> set kept" for f
  proof -
    have "total_size (filter (\<lambda>g. log_modified f \<le> log_modified g) (gone @ kept))
        = total_size (filter (\<lambda>g. log_modified f \<le> log_modified g) (logs_in directory fs))"
      by (rule total_size_mset) (metis outcome(1) mset_filter mset_sort)
    with dropped_log [OF sorted, of f now retention_secs limit] that outcome(2) show ?thesis by auto
  qed
  ultimately show ?thesis
    using outcome(2,3) sorted sets
    by (auto simp: sorted_append fs_lookup_drops)
qed

text \<open>Two logs of five bytes with room for seven, and a note that is no log.\<close>

definition example_log_node :: "int \<Rightarrow> node" where
  "example_log_node modified =
     \<lparr>nd_kind = Regular, nd_uid = 7, nd_mode = 384, nd_len = 5, nd_modified = Some modified\<rparr>"

definition example_logs :: file_system where
  "example_logs =
     \<lparr>fs_nodes = [([RootDir, Normal ''l''], \<lparr>nd_kind = Directory, nd_uid = 7, nd_mode = 448, nd_len = 0, nd_modified = None\<rparr>),
        ([RootDir, Normal ''l'', Normal ''halquen.log.2''], example_log_node 2),
        ([RootDir, Normal ''l'', Normal ''halquen.log.1''], example_log_node 1),
        ([RootDir, Normal ''l'', Normal ''note''], example_log_node 0)],
      fs_refused = (\<lambda>_. False), fs_user = 7, fs_umask = 18, fs_status = None, fs_var = (\<lambda>_. None)\<rparr>"

lemma example_logs_in:
  "logs_in [RootDir, Normal ''l''] example_logs =
     [([RootDir, Normal ''l'', Normal ''halquen.log.2''], 5, 2), ([RootDir, Normal ''l'', Normal ''halquen.log.1''], 5, 1)]"
  by (simp add: logs_in_def log_files_alt example_logs_def path_parent_def is_log_def file_name_def
      starts_with_def example_log_node_def)

theorem pruned_logs_fit_witness:
  "\<exists>fs'. prune_logs [RootDir, Normal ''l''] 3 60 7 example_logs = (Inr (), fs')
     \<and> total_size (logs_in [RootDir, Normal ''l''] fs') \<le> 7
     \<and> fs_lookup fs' [RootDir, Normal ''l'', Normal ''note''] = Some (example_log_node 0)"
proof -
  let ?D = "[RootDir, Normal ''l'']"
  have "fst (prune_logs ?D 3 60 7 example_logs) = Inr ()"
    using example_logs_in
    by (simp add: prune_logs_def fs_then_def fs_error_def fs_read_dir_def logs_in_def fs_is_dir_def fs_target_def
        total_size_def log_size_def log_modified_def log_expired_def fs_remove_file_def fs_result_def
        example_logs_def fs_lookup_def example_log_node_def fs_drop_def)
  then obtain fs' where pruned: "prune_logs ?D 3 60 7 example_logs = (Inr (), fs')" by (metis prod.collapse)
  have "distinct (map fst (fs_nodes example_logs))" "total_size (logs_in ?D example_logs) < 2 ^ 64"
    "fs_lookup example_logs [RootDir, Normal ''l'', Normal ''note''] = Some (example_log_node 0)"
    unfolding example_logs_in by (simp_all add: example_logs_def total_size_def log_size_def fs_lookup_def)
  with pruned_logs_fit [OF pruned] have "total_size (logs_in ?D fs') \<le> 7"
    "fs_lookup fs' [RootDir, Normal ''l'', Normal ''note''] = Some (example_log_node 0)"
    by (auto simp: example_logs_in)
  with pruned show ?thesis by blast
qed

section \<open>Clearing keeps the newest log\<close>

lemma remove_files_drops: "remove_files ps fs = (Inr x, fs') \<Longrightarrow> fs' = fold fs_drop ps fs"
  by (induction ps arbitrary: fs) (auto simp: fs_then_Inr dest!: fs_remove_file_Inr)

lemma cleared_history:
  assumes "clear_historical_logs_in directory fs = (Inr removed, fs')" and "distinct (map fst (fs_nodes fs))"
  defines "logs \<equiv> map fst (filter is_log (filter (\<lambda>(q, n). path_parent q = Some directory) (fs_nodes fs)))"
  shows "removed = length logs - 1"
    and "q \<notin> set logs \<Longrightarrow> fs_lookup fs' q = fs_lookup fs q"
    and "logs \<noteq> [] \<Longrightarrow> \<exists>active\<in>set logs. (\<forall>q\<in>set logs. file_name q \<le> file_name active)
      \<and> fs_lookup fs' active = fs_lookup fs active \<and> (\<forall>q\<in>set logs. q \<noteq> active \<longrightarrow> fs_lookup fs' q = None)"
proof -
  let ?sorted = "sort_key file_name logs"
  from assms(1) have outcome: "removed = length (butlast ?sorted)" "fs' = fold fs_drop (butlast ?sorted) fs"
    by (auto simp: clear_historical_logs_in_def fs_then_Inr fs_read_dir_def logs_def Let_def split: if_splits
        dest!: remove_files_drops)
  then show "removed = length logs - 1" by simp
  show "q \<notin> set logs \<Longrightarrow> fs_lookup fs' q = fs_lookup fs q"
    using outcome(2) by (auto simp: fs_lookup_drops dest: in_set_butlastD)
  assume "logs \<noteq> []"
  then have whole: "?sorted = butlast ?sorted @ [last ?sorted]" by (metis append_butlast_last_id length_0_conv length_sort)
  have "distinct ?sorted" using assms(2) by (simp add: logs_def distinct_map_filter)
  with whole have last: "last ?sorted \<notin> set (butlast ?sorted)" by (metis distinct_append disjoint_insert(1) list.set(2))
  have sets: "set logs = insert (last ?sorted) (set (butlast ?sorted))" using whole by (metis list.simps(15) set_sort Un_insert_right append_Nil2 set_append sup_bot.right_neutral list.set(1))
  have "sorted (map file_name (butlast ?sorted @ [last ?sorted]))" using whole by (metis sorted_sort_key)
  then have "\<forall>q\<in>set logs. file_name q \<le> file_name (last ?sorted)" unfolding sets by (auto simp: sorted_append)
  with sets last outcome(2) show "\<exists>active\<in>set logs. (\<forall>q\<in>set logs. file_name q \<le> file_name active)
      \<and> fs_lookup fs' active = fs_lookup fs active \<and> (\<forall>q\<in>set logs. q \<noteq> active \<longrightarrow> fs_lookup fs' q = None)"
    by (intro bexI [of _ "last ?sorted"]) (auto simp: fs_lookup_drops)
qed

section \<open>Redaction\<close>

text \<open>A text in which no white space of any encoding occurs.\<close>

definition spaceless :: "string \<Rightarrow> bool" where
  "spaceless t \<longleftrightarrow> (\<forall>w\<in>set white_space. w \<noteq> [] \<longrightarrow> \<not> sublist w t)"

definition token_ahead :: "string \<Rightarrow> string \<Rightarrow> bool" where
  "token_ahead t s \<longleftrightarrow> (\<forall>x y w. t = x @ y \<longrightarrow> y \<noteq> [] \<longrightarrow> w \<in> set white_space \<longrightarrow> w \<noteq> [] \<longrightarrow> \<not> prefix w (y @ s))"

lemma token_ahead_spaceless: "token_ahead t s \<Longrightarrow> spaceless t"
  unfolding token_ahead_def spaceless_def sublist_def by (metis append_assoc append_is_Nil_conv prefixI)

lemma split_tokens_spaceless:
  "token_ahead acc s \<Longrightarrow> t \<in> set (split_whitespace_acc acc s) \<Longrightarrow> t \<noteq> [] \<and> spaceless t"
proof (induction acc s rule: split_whitespace_acc.induct)
  case (1 acc s)
  show ?case
  proof (cases "find (\<lambda>w. w \<noteq> [] \<and> prefix w s) white_space")
    case (Some w)
    have "token_ahead [] x" for x by (simp add: token_ahead_def)
    with 1 Some show ?thesis
      by (subst (asm) (2) split_whitespace_acc.simps) (auto split: if_splits intro: token_ahead_spaceless)
  next
    case None
    show ?thesis
    proof (cases s)
      case Nil
      with 1 None show ?thesis
        by (subst (asm) (2) split_whitespace_acc.simps) (auto split: if_splits intro: token_ahead_spaceless)
    next
      case (Cons c cs)
      have "token_ahead (acc @ [c]) cs" using 1(4) None Cons
        unfolding token_ahead_def find_None_iff by (metis (no_types, lifting) append_Cons append_Nil append_assoc append_eq_append_conv2 append_is_Nil_conv append_self_conv2 butlast_append butlast_snoc last_appendR last_snoc snoc_eq_iff_butlast)
      with 1 None Cons show ?thesis
        by (subst (asm) (2) split_whitespace_acc.simps) auto
    qed
  qed
qed

text \<open>No encoding of white space but the space itself contains the byte of a space, so a token stays a token
  before a space.\<close>

lemma space_byte:
  assumes "w \<in> set white_space" and "CHR '' '' \<in> set w"
  shows "w = '' ''"
  using assms unfolding white_space_code by auto

lemma white_space_not_empty: "w \<in> set white_space \<Longrightarrow> w \<noteq> []"
  unfolding white_space_code by auto

lemma spaceless_before_space:
  assumes "spaceless t" and "w \<in> set white_space" and "prefix w (t @ CHR '' '' # rest)" and "t \<noteq> []"
  shows False
proof -
  from assms(3) consider "prefix w t" | w' where "w = t @ CHR '' '' # w'"
    by (auto simp: prefix_append prefix_Cons)
  then show False
  proof cases
    case 1
    with assms(1,2) white_space_not_empty show ?thesis by (auto simp: spaceless_def)
  next
    case 2
    with space_byte [OF assms(2)] assms(4) show ?thesis by (cases t) auto
  qed
qed

lemma spaceless_suffix: "spaceless (c # t) \<Longrightarrow> spaceless t"
  unfolding spaceless_def by (meson sublist_Cons_right)

lemma split_token:
  "spaceless t \<Longrightarrow> split_whitespace_acc acc (t @ CHR '' '' # rest)
     = (if acc @ t = [] then split_whitespace_acc [] rest else (acc @ t) # split_whitespace_acc [] rest)"
  "spaceless t \<Longrightarrow> split_whitespace_acc acc t = (if acc @ t = [] then [] else [acc @ t])"
proof (induction t arbitrary: acc)
  case Nil
  have space: "find (\<lambda>w. w \<noteq> [] \<and> prefix w (CHR '' '' # rest)) white_space = Some '' ''"
    unfolding white_space_code by (simp add: prefix_Cons)
  { case 1
    show ?case by (subst split_whitespace_acc.simps) (simp add: space) }
  { case 2
    have "find (\<lambda>w. w \<noteq> [] \<and> prefix w []) white_space = None" by (simp add: find_None_iff)
    then show ?case by (subst split_whitespace_acc.simps) simp }
next
  case (Cons c t)
  { case 1
    then have none: "find (\<lambda>w. w \<noteq> [] \<and> prefix w ((c # t) @ CHR '' '' # rest)) white_space = None"
      using spaceless_before_space [of "c # t"] by (auto simp: find_None_iff)
    show ?case using Cons.IH(1) [of "acc @ [c]"] spaceless_suffix [OF 1] none
      by (subst split_whitespace_acc.simps) simp }
  { case 2
    then have none: "find (\<lambda>w. w \<noteq> [] \<and> prefix w (c # t)) white_space = None"
      by (auto simp: find_None_iff spaceless_def dest: prefix_imp_sublist)
    show ?case using Cons.IH(2) [of "acc @ [c]"] spaceless_suffix [OF 2] none
      by (subst split_whitespace_acc.simps) simp }
qed

lemma split_joined:
  assumes "\<forall>t\<in>set ts. t \<noteq> [] \<and> spaceless t"
  shows "Halquen_Capabilities.split_whitespace (join_with '' '' ts) = ts"
proof (cases ts)
  case (Cons p ps)
  have "split_whitespace_acc [] (p @ concat (map (\<lambda>w. '' '' @ w) ps)) = p # ps"
    if "\<forall>t\<in>set (p # ps). t \<noteq> [] \<and> spaceless t" for p ps
    using that by (induction ps arbitrary: p) (auto simp: split_token)
  moreover have "(@) '' '' = (#) CHR '' ''" by (simp add: fun_eq_iff)
  ultimately show ?thesis using assms Cons by (simp add: split_whitespace_def join_with_def)
next
  case Nil
  have "find (\<lambda>w. False) xs = None" for xs :: "string list" by (induction xs) auto
  with Nil show ?thesis
    by (simp add: split_whitespace_def join_with_def) (subst split_whitespace_acc.simps, simp)
qed

section \<open>What a redaction hides\<close>

text \<open>
  The reference: a text reads as a lowercase pattern if each of its characters is the character of the
  pattern or its capital, and mentions the pattern if some part of it reads as the pattern.
\<close>

definition capital_of :: "char \<Rightarrow> char \<Rightarrow> bool" where
  "capital_of c d \<longleftrightarrow> (c, d) \<in> set (zip ''abcdefghijklmnopqrstuvwxyz'' ''ABCDEFGHIJKLMNOPQRSTUVWXYZ'')"

definition reads_as :: "string \<Rightarrow> string \<Rightarrow> bool" where
  "reads_as pattern t \<longleftrightarrow> list_all2 (\<lambda>c d. d = c \<or> capital_of c d) pattern t"

definition mentions :: "string \<Rightarrow> string \<Rightarrow> bool" where
  "mentions pattern t \<longleftrightarrow> (\<exists>u v w. t = u @ v @ w \<and> reads_as pattern v)"

text \<open>The tokens to be hidden: those that mention a key, a password or an authorization or read as
  \<open>bearer\<close>, the one after a bearer, and the two after one that mentions an authorization.\<close>

definition to_hide :: "string list \<Rightarrow> nat \<Rightarrow> bool" where
  "to_hide ts i \<longleftrightarrow>
     mentions ''api_key'' (ts ! i) \<or> mentions ''apikey'' (ts ! i) \<or> mentions ''password'' (ts ! i)
     \<or> mentions ''authorization'' (ts ! i) \<or> reads_as ''bearer'' (ts ! i)
     \<or> (1 \<le> i \<and> (mentions ''authorization'' (ts ! (i - 1)) \<or> reads_as ''bearer'' (ts ! (i - 1))))
     \<or> (2 \<le> i \<and> mentions ''authorization'' (ts ! (i - 2)))"

definition lower_char :: "char \<Rightarrow> char" where
  "lower_char c = (if is_ascii_uppercase c then char_of (byte c + 32) else c)"

lemma capital_letters: "is_ascii_uppercase d \<longleftrightarrow> d \<in> set ''ABCDEFGHIJKLMNOPQRSTUVWXYZ''"
proof -
  have "map char_of [65..<91::nat] = ''ABCDEFGHIJKLMNOPQRSTUVWXYZ''" by code_simp
  from byte_range_set [OF this, of d] show ?thesis unfolding is_ascii_uppercase_def by linarith
qed

lemma capital_pairs:
  "map (\<lambda>d. (char_of (byte d + 32), d)) ''ABCDEFGHIJKLMNOPQRSTUVWXYZ''
    = zip ''abcdefghijklmnopqrstuvwxyz'' ''ABCDEFGHIJKLMNOPQRSTUVWXYZ''"
  by code_simp

lemma pair_image: "(c, d) \<in> (\<lambda>d. (f d, d)) ` S \<longleftrightarrow> d \<in> S \<and> c = f d"
  by auto

lemma capital_pair: "capital_of c d \<longleftrightarrow> is_ascii_uppercase d \<and> c = char_of (byte d + 32)"
  unfolding capital_of_def capital_pairs [symmetric] set_map pair_image capital_letters ..

lemma lower_char_iff:
  assumes "\<not> is_ascii_uppercase c"
  shows "lower_char d = c \<longleftrightarrow> d = c \<or> capital_of c d"
  unfolding capital_pair using assms by (auto simp: lower_char_def)

lemma reads_as_iff:
  assumes "list_all (\<lambda>c. \<not> is_ascii_uppercase c) pattern"
  shows "to_ascii_lowercase t = pattern \<longleftrightarrow> reads_as pattern t"
proof -
  have lower: "to_ascii_lowercase t = map lower_char t" by (simp add: to_ascii_lowercase_def lower_char_def)
  have "reads_as pattern t \<longleftrightarrow> list_all2 (\<lambda>c d. c = lower_char d) pattern t"
    unfolding reads_as_def using assms
    by (intro list.rel_cong refl) (metis list_all_iff lower_char_iff)
  also have "\<dots> \<longleftrightarrow> pattern = map lower_char t"
    by (simp add: list_all2_map2 [of "(=)", symmetric] list.rel_eq)
  finally show ?thesis unfolding lower by auto
qed

lemma mentions_iff:
  assumes "list_all (\<lambda>c. \<not> is_ascii_uppercase c) pattern"
  shows "sublist pattern (to_ascii_lowercase t) \<longleftrightarrow> mentions pattern t"
proof -
  have lower: "to_ascii_lowercase t = map lower_char t" for t by (simp add: to_ascii_lowercase_def lower_char_def)
  have "sublist pattern (map lower_char t) \<longleftrightarrow> (\<exists>u v w. t = u @ v @ w \<and> map lower_char v = pattern)"
    unfolding sublist_def by (metis append_eq_map_conv map_append)
  then show ?thesis using reads_as_iff [OF assms] by (simp add: lower mentions_def)
qed

lemma pattern_mentions:
  "sublist ''api_key'' (to_ascii_lowercase t) = mentions ''api_key'' t"
  "sublist ''apikey'' (to_ascii_lowercase t) = mentions ''apikey'' t"
  "sublist ''password'' (to_ascii_lowercase t) = mentions ''password'' t"
  "sublist ''authorization'' (to_ascii_lowercase t) = mentions ''authorization'' t"
  "to_ascii_lowercase t = ''bearer'' \<longleftrightarrow> reads_as ''bearer'' t"
proof -
  have "list_all (\<lambda>c. \<not> is_ascii_uppercase c) ''api_key''" "list_all (\<lambda>c. \<not> is_ascii_uppercase c) ''apikey''"
    "list_all (\<lambda>c. \<not> is_ascii_uppercase c) ''password''" "list_all (\<lambda>c. \<not> is_ascii_uppercase c) ''authorization''"
    "list_all (\<lambda>c. \<not> is_ascii_uppercase c) ''bearer''"
    by code_simp+
  note plain = this
  show "sublist ''api_key'' (to_ascii_lowercase t) = mentions ''api_key'' t" by (rule mentions_iff [OF plain(1)])
  show "sublist ''apikey'' (to_ascii_lowercase t) = mentions ''apikey'' t" by (rule mentions_iff [OF plain(2)])
  show "sublist ''password'' (to_ascii_lowercase t) = mentions ''password'' t" by (rule mentions_iff [OF plain(3)])
  show "sublist ''authorization'' (to_ascii_lowercase t) = mentions ''authorization'' t"
    by (rule mentions_iff [OF plain(4)])
  show "to_ascii_lowercase t = ''bearer'' \<longleftrightarrow> reads_as ''bearer'' t" by (rule reads_as_iff [OF plain(5)])
qed

lemma bearer_names_none: "reads_as ''bearer'' t \<Longrightarrow> \<not> mentions ''authorization'' t"
  unfolding pattern_mentions [symmetric] by (simp add: sublist_code)

lemma redact_tokens_length [simp]: "length (redact_tokens k ts) = length ts"
  by (induction ts arbitrary: k) (auto simp: Let_def)

definition redacted :: "bool \<Rightarrow> string \<Rightarrow> string" where
  "redacted hide t = (if hide then ''[REDACTED]'' else if 256 < length t then ''[OVERSIZED_REDACTED]'' else t)"

definition secret_token :: "string \<Rightarrow> bool" where
  "secret_token t \<longleftrightarrow> mentions ''api_key'' t \<or> mentions ''apikey'' t \<or> mentions ''password'' t
     \<or> mentions ''authorization'' t \<or> reads_as ''bearer'' t"

definition window :: "nat \<Rightarrow> string \<Rightarrow> nat" where
  "window k t = (if mentions ''authorization'' t then 2 else if reads_as ''bearer'' t then 1 else k - 1)"

lemma redact_step:
  "redact_tokens k (t # ts) = redacted (k > 0 \<or> secret_token t) t # redact_tokens (window k t) ts"
  by (auto simp: Let_def sensitive_def pattern_mentions secret_token_def window_def redacted_def)

lemma to_hide_0: "to_hide (t # ts) 0 \<longleftrightarrow> secret_token t"
  by (simp add: to_hide_def secret_token_def)

lemma to_hide_Suc:
  "k \<le> 2 \<Longrightarrow> j < window k t \<or> to_hide ts j \<longleftrightarrow> Suc j < k \<or> to_hide (t # ts) (Suc j)"
  using bearer_names_none [of t]
  by (cases j; cases "j - 1") (auto simp: to_hide_def window_def)

lemma redact_tokens_nth:
  "i < length ts \<Longrightarrow> k \<le> 2 \<Longrightarrow> redact_tokens k ts ! i = redacted (i < k \<or> to_hide ts i) (ts ! i)"
proof (induction ts arbitrary: k i)
  case (Cons t ts)
  show ?case
  proof (cases i)
    case 0
    then show ?thesis by (simp only: redact_step nth_Cons_0 to_hide_0)
  next
    case (Suc j)
    have "window k t \<le> 2" using Cons.prems(2) by (auto simp: window_def)
    with Cons.IH [of j "window k t"] Cons.prems Suc show ?thesis
      by (simp add: redact_step to_hide_Suc del: redact_tokens.simps)
  qed
qed simp

definition passes :: "string \<Rightarrow> bool" where
  "passes t \<longleftrightarrow> \<not> secret_token t \<and> length t \<le> 256"

lemma markers_pass: "passes ''[REDACTED]''" "passes ''[OVERSIZED_REDACTED]''"
  unfolding passes_def secret_token_def pattern_mentions [symmetric] by code_simp+

lemma redact_tokens_idem: "(\<forall>t\<in>set ts. passes t) \<Longrightarrow> redact_tokens 0 ts = ts"
  by (induction ts)
    (simp_all add: passes_def redact_step redacted_def window_def secret_token_def del: redact_tokens.simps(2))

text \<open>
  C39. Redaction hides exactly the marked tokens. It replaces each token that mentions \<open>api_key\<close>,
  \<open>apikey\<close>, \<open>password\<close> or \<open>authorization\<close> or is \<open>bearer\<close>, in whatever case, each token
  after a \<open>bearer\<close> and the two tokens after one that mentions an authorization by one marker, every other
  token of more than 256 bytes by another, and lets the rest through unchanged, in number and order;
  and redacting again changes nothing. What follows a token that mentions a password or a key is not hidden.
\<close>

theorem redaction_hides_marked_tokens:
  fixes logged :: string
  defines "before \<equiv> Halquen_Capabilities.split_whitespace logged"
    and "after \<equiv> Halquen_Capabilities.split_whitespace (redact logged)"
  shows "length after = length before
    \<and> (\<forall>i < length before. after ! i = (if to_hide before i then ''[REDACTED]''
         else if 256 < length (before ! i) then ''[OVERSIZED_REDACTED]'' else before ! i))
    \<and> redact (redact logged) = redact logged"
proof -
  have good: "\<forall>t\<in>set before. t \<noteq> [] \<and> spaceless t"
    using split_tokens_spaceless [of "[]" logged] by (auto simp: before_def split_whitespace_def token_ahead_def)
  have markers: "spaceless ''[REDACTED]''" "spaceless ''[OVERSIZED_REDACTED]''"
    unfolding spaceless_def by code_simp+
  have each: "redact_tokens 0 before ! i = redacted (to_hide before i) (before ! i)" if "i < length before" for i
    using redact_tokens_nth [OF that, of 0] by simp
  have kept: "redacted (to_hide before i) (before ! i) \<noteq> [] \<and> spaceless (redacted (to_hide before i) (before ! i))
      \<and> passes (redacted (to_hide before i) (before ! i))" if "i < length before" for i
  proof -
    have "before ! i \<noteq> []" "spaceless (before ! i)" using good that by simp_all
    moreover have "\<not> to_hide before i \<Longrightarrow> \<not> secret_token (before ! i)"
      unfolding to_hide_def secret_token_def by blast
    ultimately show ?thesis
      using markers markers_pass unfolding redacted_def by (simp add: passes_def split: if_splits)
  qed
  have "\<forall>t\<in>set (redact_tokens 0 before). t \<noteq> [] \<and> spaceless t \<and> passes t"
  proof
    fix t
    assume "t \<in> set (redact_tokens 0 before)"
    then obtain i where "i < length before" "t = redact_tokens 0 before ! i" by (auto simp: in_set_conv_nth)
    with kept each show "t \<noteq> [] \<and> spaceless t \<and> passes t" by simp
  qed
  then have after: "after = redact_tokens 0 before" and again: "redact_tokens 0 after = after"
    using split_joined [of "redact_tokens 0 before"] redact_tokens_idem
    by (auto simp: after_def redact_def before_def)
  have "redact (redact logged) = redact logged"
    using after again by (simp add: redact_def after_def before_def)
  with after each show ?thesis by (simp add: redacted_def)
qed

theorem redaction_hides_marked_tokens_witness:
  "Halquen_Capabilities.split_whitespace (redact ''Bearer k'') ! 1 = ''[REDACTED]''
     \<and> redact (redact ''Bearer k'') = redact ''Bearer k''"
proof -
  have "to_ascii_lowercase ''Bearer'' = ''bearer''" by code_simp
  then have "reads_as ''bearer'' ''Bearer''" by (simp only: pattern_mentions)
  then have "to_hide [''Bearer'', ''k''] 1" by (simp add: to_hide_def)
  moreover have "Halquen_Capabilities.split_whitespace ''Bearer k'' = [''Bearer'', ''k'']" by code_simp
  ultimately show ?thesis using redaction_hides_marked_tokens [of "''Bearer k''"] by simp
qed

end
