(* ===== verification/Halquen_Desktop.thy ===== *)
theory Halquen_Desktop
  imports Halquen_Daemon_Facts Halquen_Logging
begin

text \<open>
  The client of the daemon (\<open>crates/protocol/src/client.rs\<close>) and the commands of the desktop application
  (\<open>apps/desktop/src-tauri/src/commands.rs\<close>): every command sends one request and expects one kind of
  answer. The facts show that the kinds agree with what the daemon answers.
\<close>

section \<open>The client\<close>

datatype client_failure = CF_Runtime runtime_path_error | CF_Io | CF_Timeout | CF_Protocol client_error

text \<open>
  Connecting, and sending a frame and reading what comes back, as the operating system does it. The state
  is the daemon on the other side.
\<close>

record 's transport =
  tr_connect :: "'s \<Rightarrow> (client_failure, unit) result"
  tr_exchange :: "string \<Rightarrow> 's \<Rightarrow> (client_failure, string option list) result \<times> 's"

definition client_discover :: "file_system \<Rightarrow> (client_failure, runtime_paths) result" where
  "client_discover fs = map_err CF_Runtime (runtime_discover fs)"

definition request_with_id ::
  "'q envelope json_codec \<Rightarrow> 'r protocol_response envelope json_codec \<Rightarrow> 's transport \<Rightarrow> file_system \<Rightarrow> runtime_paths
   \<Rightarrow> string \<Rightarrow> 'q \<Rightarrow> 's \<Rightarrow> (client_failure, 'r protocol_response) result \<times> 's" where
  "request_with_id CQ CR T fs P i request s =
     (case and_then (map_err CF_Runtime (fst (validate_client P fs))) (\<lambda>_. and_then (tr_connect T s) (\<lambda>_.
             map_err CF_Protocol (client_frame CQ i request))) of
        Inl e \<Rightarrow> (Inl e, s)
      | Inr frame \<Rightarrow>
          (case tr_exchange T frame s of
             (Inl e, s') \<Rightarrow> (Inl e, s')
           | (Inr reads, s') \<Rightarrow> (map_err CF_Protocol (client_receive CR i reads), s')))"

text \<open>How a client reaches the daemon: the identifier, the request, the state of the daemon.\<close>

type_synonym 's link =
  "string \<Rightarrow> protocol_request \<Rightarrow> 's \<Rightarrow> (client_failure, reply protocol_response) result \<times> 's"

definition client_link ::
  "protocol_request envelope json_codec \<Rightarrow> reply protocol_response envelope json_codec \<Rightarrow> 's transport \<Rightarrow> file_system \<Rightarrow> 's link" where
  "client_link CQ CR T fs i request s =
     (case client_discover fs of
        Inl e \<Rightarrow> (Inl e, s)
      | Inr P \<Rightarrow> request_with_id CQ CR T fs P i request s)"

section \<open>The commands of the desktop application\<close>

record command_error =
  ce_code :: string
  ce_message :: string

record health_view =
  hv_status :: string
  hv_schema_version :: i64

type_synonym ('s, 'a) command = "'s \<Rightarrow> (command_error, 'a) result \<times> 's"

definition client_error_view :: command_error where
  "client_error_view =
     \<lparr>ce_code = ''daemon_unavailable'',
      ce_message = ''Halquen daemon is unavailable or uses an incompatible protocol.''\<rparr>"

definition unexpected :: command_error where
  "unexpected =
     \<lparr>ce_code = ''unexpected_response'', ce_message = ''The daemon returned an unexpected response type.''\<rparr>"

fun error_code_debug :: "protocol_error_code \<Rightarrow> string" where
  "error_code_debug UnknownVersion = ''UnknownVersion''"
| "error_code_debug MalformedRequest = ''MalformedRequest''"
| "error_code_debug FrameTooLarge = ''FrameTooLarge''"
| "error_code_debug InvalidAction = ''InvalidAction''"
| "error_code_debug NotFound = ''NotFound''"
| "error_code_debug Unsupported = ''Unsupported''"
| "error_code_debug Internal = ''Internal''"
| "error_code_debug Validation = ''Validation''"
| "error_code_debug PrivacyDenied = ''PrivacyDenied''"
| "error_code_debug ProviderUnavailable = ''ProviderUnavailable''"
| "error_code_debug SecretStoreUnavailable = ''SecretStoreUnavailable''"
| "error_code_debug ConfirmationExpired = ''ConfirmationExpired''"
| "error_code_debug SandboxUnavailable = ''SandboxUnavailable''"

definition protocol_error_view :: "protocol_error_body \<Rightarrow> command_error" where
  "protocol_error_view error =
     \<lparr>ce_code = to_ascii_lowercase (error_code_debug (peb_code error)), ce_message = peb_message error\<rparr>"

definition bridge_request :: "'s link \<Rightarrow> string \<Rightarrow> protocol_request \<Rightarrow> ('s, reply protocol_response) command" where
  "bridge_request L i request s =
     (case L i request s of
        (Inl _, s') \<Rightarrow> (Inl client_error_view, s')
      | (Inr (Error_Response error), s') \<Rightarrow> (Inl (protocol_error_view error), s')
      | (Inr response, s') \<Rightarrow> (Inr response, s'))"

text \<open>The form of every command: a request, and the one answer it takes.\<close>

definition ask ::
  "'s link \<Rightarrow> string \<Rightarrow> protocol_request \<Rightarrow> (reply protocol_response \<Rightarrow> 'a option) \<Rightarrow> ('s, 'a) command" where
  "ask L i request expected s =
     (case bridge_request L i request s of
        (Inl e, s') \<Rightarrow> (Inl e, s')
      | (Inr response, s') \<Rightarrow> (ok_or unexpected (expected response), s'))"

definition get_health_command :: "'s link \<Rightarrow> string \<Rightarrow> ('s, health_view) command" where
  "get_health_command L i =
     ask L i Req_Health (\<lambda>r. case r of Response (Health_Reply v) \<Rightarrow> Some \<lparr>hv_status = ''ok'', hv_schema_version = v\<rparr> | _ \<Rightarrow> None)"

definition send_chat_message_command :: "'s link \<Rightarrow> string \<Rightarrow> chat_request \<Rightarrow> ('s, chat_result) command" where
  "send_chat_message_command L i message_input =
     ask L i (Req_Chat message_input) (\<lambda>r. case r of Response (Chat_Reply v) \<Rightarrow> Some v | _ \<Rightarrow> None)"

definition cancel_chat_message_command :: "'s link \<Rightarrow> string \<Rightarrow> string \<Rightarrow> ('s, bool) command" where
  "cancel_chat_message_command L i j =
     ask L i (Req_CancelChat j) (\<lambda>r. case r of ChatCancellation requested \<Rightarrow> Some requested | _ \<Rightarrow> None)"

definition list_chat_sessions_command :: "'s link \<Rightarrow> string \<Rightarrow> u16 \<Rightarrow> ('s, (chat_session list)) command" where
  "list_chat_sessions_command L i n =
     ask L i (Req_ListChatSessions n) (\<lambda>r. case r of Response (ChatSessions_Reply v) \<Rightarrow> Some v | _ \<Rightarrow> None)"

definition list_chat_messages_command :: "'s link \<Rightarrow> string \<Rightarrow> chat_session_id \<Rightarrow> u16 \<Rightarrow> ('s, (chat_message list)) command" where
  "list_chat_messages_command L i session n =
     ask L i (Req_ListChatMessages session n) (\<lambda>r. case r of Response (ChatMessages_Reply v) \<Rightarrow> Some v | _ \<Rightarrow> None)"

definition list_activity_command :: "'s link \<Rightarrow> string \<Rightarrow> u16 \<Rightarrow> ('s, (activity_event list)) command" where
  "list_activity_command L i n =
     ask L i (Req_ListActivity n) (\<lambda>r. case r of Response (Activity_Reply v) \<Rightarrow> Some v | _ \<Rightarrow> None)"

definition list_memory_command :: "'s link \<Rightarrow> string \<Rightarrow> memory_query \<Rightarrow> ('s, (memory_view list)) command" where
  "list_memory_command L i q =
     ask L i (Req_ListMemory q) (\<lambda>r. case r of Response (MemoryItems_Reply v) \<Rightarrow> Some v | _ \<Rightarrow> None)"

definition get_memory_history_command :: "'s link \<Rightarrow> string \<Rightarrow> memory_id \<Rightarrow> ('s, (memory_revision_view list)) command" where
  "get_memory_history_command L i memory =
     ask L i (Req_GetMemoryHistory memory) (\<lambda>r. case r of Response (MemoryHistory_Reply v) \<Rightarrow> Some v | _ \<Rightarrow> None)"

definition update_memory_state_command :: "'s link \<Rightarrow> string \<Rightarrow> memory_state_update \<Rightarrow> ('s, bool) command" where
  "update_memory_state_command L i u =
     ask L i (Req_UpdateMemoryState u) (\<lambda>r. case r of Response (MemoryUpdated_Reply v) \<Rightarrow> Some v | _ \<Rightarrow> None)"

definition restore_memory_revision_command :: "'s link \<Rightarrow> string \<Rightarrow> memory_id \<Rightarrow> memory_revision_id \<Rightarrow> ('s, memory_mutation_receipt) command" where
  "restore_memory_revision_command L i memory revision =
     ask L i (Req_RestoreMemoryRevision memory revision) (\<lambda>r. case r of Response (MemoryMutation_Reply v) \<Rightarrow> Some v | _ \<Rightarrow> None)"

definition list_providers_command :: "'s link \<Rightarrow> string \<Rightarrow> ('s, (provider list)) command" where
  "list_providers_command L i =
     ask L i Req_ListProviders (\<lambda>r. case r of Response (Providers_Reply v) \<Rightarrow> Some v | _ \<Rightarrow> None)"

definition upsert_provider_command :: "'s link \<Rightarrow> string \<Rightarrow> provider_upsert \<Rightarrow> ('s, provider) command" where
  "upsert_provider_command L i provider_input =
     ask L i (Req_UpsertProvider provider_input) (\<lambda>r. case r of Response (ProviderSaved_Reply v) \<Rightarrow> Some v | _ \<Rightarrow> None)"

definition remove_provider_command :: "'s link \<Rightarrow> string \<Rightarrow> provider_id \<Rightarrow> ('s, bool) command" where
  "remove_provider_command L i provider_i =
     ask L i (Req_RemoveProvider provider_i) (\<lambda>r. case r of Response (ProviderRemoved_Reply v) \<Rightarrow> Some v | _ \<Rightarrow> None)"

definition test_provider_command :: "'s link \<Rightarrow> string \<Rightarrow> provider_id \<Rightarrow> ('s, provider_test_status) command" where
  "test_provider_command L i provider_i =
     ask L i (Req_TestProvider provider_i) (\<lambda>r. case r of Response (ProviderTest_Reply v) \<Rightarrow> Some v | _ \<Rightarrow> None)"

definition list_models_command :: "'s link \<Rightarrow> string \<Rightarrow> ('s, (ai_model list)) command" where
  "list_models_command L i =
     ask L i Req_ListModels (\<lambda>r. case r of Response (Models_Reply v) \<Rightarrow> Some v | _ \<Rightarrow> None)"

definition upsert_model_command :: "'s link \<Rightarrow> string \<Rightarrow> model_upsert \<Rightarrow> ('s, ai_model) command" where
  "upsert_model_command L i model_input =
     ask L i (Req_UpsertModel model_input) (\<lambda>r. case r of Response (ModelSaved_Reply v) \<Rightarrow> Some v | _ \<Rightarrow> None)"

definition get_application_settings_command :: "'s link \<Rightarrow> string \<Rightarrow> ('s, application_settings) command" where
  "get_application_settings_command L i =
     ask L i Req_GetApplicationSettings (\<lambda>r. case r of Response (ApplicationSettings_Reply v) \<Rightarrow> Some v | _ \<Rightarrow> None)"

definition update_application_settings_command :: "'s link \<Rightarrow> string \<Rightarrow> application_settings \<Rightarrow> ('s, application_settings) command" where
  "update_application_settings_command L i s =
     ask L i (Req_UpdateApplicationSettings s) (\<lambda>r. case r of Response (SettingsUpdated_Reply v) \<Rightarrow> Some v | _ \<Rightarrow> None)"

definition get_usage_stats_command :: "'s link \<Rightarrow> string \<Rightarrow> ('s, usage_stats) command" where
  "get_usage_stats_command L i =
     ask L i Req_GetUsageStats (\<lambda>r. case r of Response (UsageStats_Reply v) \<Rightarrow> Some v | _ \<Rightarrow> None)"

definition get_diagnostics_command :: "'s link \<Rightarrow> string \<Rightarrow> u16 \<Rightarrow> ('s, diagnostics_snapshot) command" where
  "get_diagnostics_command L i n =
     ask L i (Req_GetDiagnostics n) (\<lambda>r. case r of Response (Diagnostics_Reply v) \<Rightarrow> Some v | _ \<Rightarrow> None)"

definition clear_operational_logs_command :: "'s link \<Rightarrow> string \<Rightarrow> ('s, u64) command" where
  "clear_operational_logs_command L i =
     ask L i Req_ClearOperationalLogs (\<lambda>r. case r of Response (OperationalLogsCleared_Reply v) \<Rightarrow> Some v | _ \<Rightarrow> None)"

definition submit_response_feedback_command :: "'s link \<Rightarrow> string \<Rightarrow> cache_entry_id \<Rightarrow> response_feedback \<Rightarrow> ('s, unit) command" where
  "submit_response_feedback_command L i entry f =
     ask L i (Req_SubmitResponseFeedback entry f) (\<lambda>r. case r of Response FeedbackRecorded_Reply \<Rightarrow> Some () | _ \<Rightarrow> None)"

definition confirm_action_command :: "'s link \<Rightarrow> string \<Rightarrow> string \<Rightarrow> bool \<Rightarrow> confirmation_persistence \<Rightarrow> (i64 option) \<Rightarrow> ('s, confirmation_result) command" where
  "confirm_action_command L i c accept persistence expires =
     ask L i (Req_ConfirmAction c accept persistence expires) (\<lambda>r. case r of Response (Confirmation_Reply v) \<Rightarrow> Some v | _ \<Rightarrow> None)"

definition preview_ai_request_command :: "'s link \<Rightarrow> string \<Rightarrow> chat_request \<Rightarrow> ('s, prompt_preview) command" where
  "preview_ai_request_command L i request_input =
     ask L i (Req_PreviewAiRequest request_input) (\<lambda>r. case r of Response (AiRequestPreview_Reply v) \<Rightarrow> Some v | _ \<Rightarrow> None)"

definition get_security_overview_command :: "'s link \<Rightarrow> string \<Rightarrow> ('s, security_overview) command" where
  "get_security_overview_command L i =
     ask L i Req_GetSecurityOverview (\<lambda>r. case r of Response (SecurityOverview_Reply v) \<Rightarrow> Some v | _ \<Rightarrow> None)"

definition update_security_profile_command :: "'s link \<Rightarrow> string \<Rightarrow> security_profile \<Rightarrow> ('s, security_profile) command" where
  "update_security_profile_command L i profile =
     ask L i (Req_UpdateSecurityProfile profile) (\<lambda>r. case r of Response (SecurityProfileUpdated_Reply v) \<Rightarrow> Some v | _ \<Rightarrow> None)"

definition list_permission_grants_command :: "'s link \<Rightarrow> string \<Rightarrow> u16 \<Rightarrow> ('s, (permission_grant list)) command" where
  "list_permission_grants_command L i n =
     ask L i (Req_ListPermissionGrants n) (\<lambda>r. case r of Response (PermissionGrants_Reply v) \<Rightarrow> Some v | _ \<Rightarrow> None)"

definition upsert_permission_grant_command :: "'s link \<Rightarrow> string \<Rightarrow> permission_grant_upsert \<Rightarrow> ('s, permission_grant) command" where
  "upsert_permission_grant_command L i grant_input =
     ask L i (Req_UpsertPermissionGrant grant_input) (\<lambda>r. case r of Response (PermissionSaved_Reply v) \<Rightarrow> Some v | _ \<Rightarrow> None)"

definition revoke_permission_grant_command :: "'s link \<Rightarrow> string \<Rightarrow> permission_id \<Rightarrow> ('s, bool) command" where
  "revoke_permission_grant_command L i permission =
     ask L i (Req_RevokePermissionGrant permission) (\<lambda>r. case r of Response (PermissionRevoked_Reply v) \<Rightarrow> Some v | _ \<Rightarrow> None)"

definition list_resource_labels_command :: "'s link \<Rightarrow> string \<Rightarrow> u16 \<Rightarrow> ('s, (resource_label list)) command" where
  "list_resource_labels_command L i n =
     ask L i (Req_ListResourceLabels n) (\<lambda>r. case r of Response (ResourceLabels_Reply v) \<Rightarrow> Some v | _ \<Rightarrow> None)"

definition upsert_resource_label_command :: "'s link \<Rightarrow> string \<Rightarrow> resource_label_upsert \<Rightarrow> ('s, resource_label) command" where
  "upsert_resource_label_command L i label_input =
     ask L i (Req_UpsertResourceLabel label_input) (\<lambda>r. case r of Response (ResourceLabelSaved_Reply v) \<Rightarrow> Some v | _ \<Rightarrow> None)"

definition remove_resource_label_command :: "'s link \<Rightarrow> string \<Rightarrow> resource_label_id \<Rightarrow> ('s, bool) command" where
  "remove_resource_label_command L i label =
     ask L i (Req_RemoveResourceLabel label) (\<lambda>r. case r of Response (ResourceLabelRemoved_Reply v) \<Rightarrow> Some v | _ \<Rightarrow> None)"

definition list_agents_command :: "'s link \<Rightarrow> string \<Rightarrow> u16 \<Rightarrow> ('s, (agent_configuration list)) command" where
  "list_agents_command L i n =
     ask L i (Req_ListAgents n) (\<lambda>r. case r of Response (Agents_Reply v) \<Rightarrow> Some v | _ \<Rightarrow> None)"

definition upsert_agent_command :: "'s link \<Rightarrow> string \<Rightarrow> agent_configuration_upsert \<Rightarrow> ('s, agent_configuration) command" where
  "upsert_agent_command L i agent_input =
     ask L i (Req_UpsertAgent agent_input) (\<lambda>r. case r of Response (AgentSaved_Reply v) \<Rightarrow> Some v | _ \<Rightarrow> None)"

definition remove_agent_command :: "'s link \<Rightarrow> string \<Rightarrow> agent_id \<Rightarrow> ('s, bool) command" where
  "remove_agent_command L i agent =
     ask L i (Req_RemoveAgent agent) (\<lambda>r. case r of Response (AgentRemoved_Reply v) \<Rightarrow> Some v | _ \<Rightarrow> None)"

definition run_agent_command :: "'s link \<Rightarrow> string \<Rightarrow> agent_run_request \<Rightarrow> ('s, agent_run_result) command" where
  "run_agent_command L i run_input =
     ask L i (Req_RunAgent run_input) (\<lambda>r. case r of Response (AgentRun_Reply v) \<Rightarrow> Some v | _ \<Rightarrow> None)"

definition list_agent_sessions_command :: "'s link \<Rightarrow> string \<Rightarrow> u16 \<Rightarrow> ('s, (agent_session list)) command" where
  "list_agent_sessions_command L i n =
     ask L i (Req_ListAgentSessions n) (\<lambda>r. case r of Response (AgentSessions_Reply v) \<Rightarrow> Some v | _ \<Rightarrow> None)"

definition list_registered_applications_command :: "'s link \<Rightarrow> string \<Rightarrow> u16 \<Rightarrow> ('s, (registered_application list)) command" where
  "list_registered_applications_command L i n =
     ask L i (Req_ListRegisteredApplications n) (\<lambda>r. case r of Response (RegisteredApplications_Reply v) \<Rightarrow> Some v | _ \<Rightarrow> None)"

definition upsert_registered_application_command :: "'s link \<Rightarrow> string \<Rightarrow> application_registration_upsert \<Rightarrow> ('s, registered_application) command" where
  "upsert_registered_application_command L i application_input =
     ask L i (Req_UpsertRegisteredApplication application_input) (\<lambda>r. case r of Response (RegisteredApplicationSaved_Reply v) \<Rightarrow> Some v | _ \<Rightarrow> None)"

definition remove_registered_application_command :: "'s link \<Rightarrow> string \<Rightarrow> entity_id \<Rightarrow> ('s, bool) command" where
  "remove_registered_application_command L i entity =
     ask L i (Req_RemoveRegisteredApplication entity) (\<lambda>r. case r of Response (RegisteredApplicationRemoved_Reply v) \<Rightarrow> Some v | _ \<Rightarrow> None)"

section \<open>Links to the daemon\<close>

definition answer_to ::
  "('k, 'f) environment \<Rightarrow> request_inputs \<Rightarrow> string \<Rightarrow> protocol_request \<Rightarrow> 'k daemon \<times> ipc \<Rightarrow> reply protocol_response option" where
  "answer_to E X i request st =
     map_option env_body (fst (dispatch_request (daemon_handler E X)
       \<lparr>env_version = PROTOCOL_VERSION, env_request_id = i, env_body = request\<rparr> st))"

text \<open>What passes a link is the daemon's answer.\<close>

definition delivering :: "('k, 'f) environment \<Rightarrow> request_inputs \<Rightarrow> ('k daemon \<times> ipc) link \<Rightarrow> bool" where
  "delivering E X L \<longleftrightarrow>
     (\<forall>i request st r. fst (L i request st) = Inr r \<longrightarrow> answer_to E X i request st = Some r)"

text \<open>A connection over a local socket that cuts the bytes into pieces; a connection that ends without an
  answer is an empty stream.\<close>

definition local_transport ::
  "'q envelope json_codec \<Rightarrow> 'r protocol_response envelope json_codec \<Rightarrow> ('q, 'r, 's) handler \<Rightarrow> (string \<Rightarrow> string list)
   \<Rightarrow> ('s \<times> ipc) transport" where
  "local_transport CQ CR H pieces =
     \<lparr>tr_connect = (\<lambda>_. Inr ()),
      tr_exchange = (\<lambda>frame st. case handle_connection CQ CR H (map Some (pieces frame)) st of
          (Inl _, st') \<Rightarrow> (Inr [], st')
        | (Inr bytes, st') \<Rightarrow> (Inr (map Some (pieces bytes)), st'))\<rparr>"

lemma client_link_delivers:
  assumes "json_faithful CQ" and "json_faithful CR" and pieces: "\<And>s. concat (pieces s) = s" "\<And>s. list_all (\<lambda>c. c \<noteq> []) (pieces s)"
  shows "delivering E X (client_link CQ CR (local_transport CQ CR (daemon_handler E X) pieces) fs)"
  unfolding delivering_def
proof (intro allI impI)
  fix i :: string and request :: protocol_request and st r
  let ?H = "daemon_handler E X"
  let ?e = "\<lparr>env_version = PROTOCOL_VERSION, env_request_id = i, env_body = request\<rparr>"
  assume "fst (client_link CQ CR (local_transport CQ CR ?H pieces) fs i request st) = Inr r"
  then obtain frame where frame: "encode_envelope CQ ?e = Inr frame"
    and received: "client_receive CR i (case handle_connection CQ CR ?H (map Some (pieces frame)) st of
        (Inl _, st') \<Rightarrow> [] | (Inr bytes, st') \<Rightarrow> map Some (pieces bytes)) = Inr r"
    by (auto simp: client_link_def request_with_id_def local_transport_def client_frame_def and_then_Inr_iff
        split: sum.splits prod.splits)
  have "handle_connection CQ CR ?H (map Some (pieces frame)) st =
      (case dispatch_request ?H ?e st of (Some response, st') \<Rightarrow> (map_err Daemon_Codec (encode_envelope CR response), st')
        | (None, st') \<Rightarrow> (Inl Task_Panicked, st'))"
    using read_encoded [OF assms(1) frame pieces(1) pieces(2), of "[]"] decode_encode [OF assms(1) frame]
    by (simp add: handle_connection_def)
  with received obtain response bytes where answered: "fst (dispatch_request ?H ?e st) = Some response"
      "encode_envelope CR response = Inr bytes" "client_receive CR i (map Some (pieces bytes)) = Inr r"
    by (cases "dispatch_request ?H ?e st")
      (auto simp: client_receive_def map_err_def split: option.splits sum.splits)
  then have "env_body response = r"
    using read_encoded [OF assms(2) answered(2) pieces(1) pieces(2), of "[]"] decode_encode [OF assms(2) answered(2)]
    by (auto simp: client_receive_def split: if_splits)
  with answered(1) show "answer_to E X i request st = Some r" by (simp add: answer_to_def)
qed

section \<open>Every command understands the daemon\<close>

text \<open>A command that returns a value returns what the daemon answered, in the given variant; an error it
  returns is not the one for an answer of another kind.\<close>

definition returns :: "(command_error, 'a) result \<Rightarrow> reply protocol_response option \<Rightarrow> ('a \<Rightarrow> reply protocol_response) \<Rightarrow> bool" where
  "returns outcome answered K \<longleftrightarrow>
     (case outcome of Inr x \<Rightarrow> answered = Some (K x) | Inl e \<Rightarrow> ce_code e \<noteq> ''unexpected_response'')"

lemma error_codes_differ: "ce_code client_error_view \<noteq> ''unexpected_response''" "ce_code (protocol_error_view b) \<noteq> ''unexpected_response''"
  by (simp add: client_error_view_def, cases "peb_code b")
    (simp_all add: protocol_error_view_def to_ascii_lowercase_def is_ascii_uppercase_def byte_def)

lemma replying_answers: "replying m f d = (Inr r, d') \<Longrightarrow> \<exists>x. r = f x"
  by (auto simp: replying_def then_step_def answer_def split: prod.splits sum.splits)

lemma ask_returns:
  assumes "delivering E X L" and "\<And>r. answer_to E X i request st = Some r \<Longrightarrow> (\<exists>b. r = Error_Response b) \<or> (\<exists>x. r = K x)"
    and "\<And>x. \<exists>y. expected (K x) = Some y \<and> K y = K x" and "\<And>x b. K x \<noteq> Error_Response b"
  shows "returns (fst (ask L i request expected st)) (answer_to E X i request st) K"
proof (cases "fst (L i request st)")
  case (Inl e)
  then show ?thesis
    by (auto simp: ask_def bridge_request_def returns_def error_codes_differ split: prod.splits sum.splits)
next
  case (Inr r)
  with assms(1) have answered: "answer_to E X i request st = Some r" unfolding delivering_def by blast
  from assms(2) [OF this] show ?thesis
  proof (elim disjE exE)
    fix b assume "r = Error_Response b"
    with Inr show ?thesis
      by (auto simp: ask_def bridge_request_def returns_def error_codes_differ split: prod.splits)
  next
    fix x assume r: "r = K x"
    from assms(3) [of x] obtain y where "expected (K x) = Some y" "K y = K x" by blast
    moreover have "bridge_request L i request st = (Inr (K x), snd (L i request st))"
      using Inr r assms(4) [of x] by (cases "K x") (auto simp: bridge_request_def split: prod.splits)
    ultimately show ?thesis using answered r by (simp add: ask_def returns_def)
  qed
qed

lemma answer_to_handled:
  assumes "answer_to E X i request st = Some r" and "\<And>j. request \<noteq> Req_CancelChat j"
  shows "(\<exists>b. r = Error_Response b) \<or> (\<exists>channel x d d'. handle_request E X channel i request d = (Inr x, d') \<and> response_of (Inr x) = Some r)"
proof -
  have handled: "(\<exists>b. r' = Error_Response b)
      \<or> (\<exists>channel x d d'. handle_request E X channel i request d = (Inr x, d') \<and> response_of (Inr x) = Some r')"
    if "handle_with_cancellation E X channel request i d = (Some r', d'')" for channel d r' d''
  proof -
    obtain result d' where run: "handle_request E X channel i request d = (result, d')" by fastforce
    show ?thesis
    proof (cases result)
      case (Inl e)
      with run that show ?thesis by (cases e) (auto simp: handle_with_cancellation_def)
    next
      case (Inr x)
      with run that have "response_of (Inr x) = Some r'" by (simp add: handle_with_cancellation_def)
      with run Inr show ?thesis by blast
    qed
  qed
  have "hd_cancels (daemon_handler E X) request = None" using assms(2) by (simp add: daemon_handler_def split: protocol_request.split)
  with assms(1) have "(\<exists>b. r = Error_Response b) \<or> (\<exists>channel d d''. handle_with_cancellation E X channel request i d = (Some r, d''))"
    by (auto simp: answer_to_def dispatch_request_def Let_def answer_envelope_def duplicate_request_response_def daemon_handler_def
        split: option.splits prod.splits if_splits; metis)
  with handled show ?thesis by blast
qed

lemmas command_defs =
  get_health_command_def send_chat_message_command_def cancel_chat_message_command_def
  list_chat_sessions_command_def list_chat_messages_command_def list_activity_command_def
  list_memory_command_def get_memory_history_command_def update_memory_state_command_def
  restore_memory_revision_command_def list_providers_command_def upsert_provider_command_def
  remove_provider_command_def test_provider_command_def list_models_command_def upsert_model_command_def
  get_application_settings_command_def update_application_settings_command_def get_usage_stats_command_def
  get_diagnostics_command_def clear_operational_logs_command_def submit_response_feedback_command_def
  confirm_action_command_def preview_ai_request_command_def get_security_overview_command_def
  update_security_profile_command_def list_permission_grants_command_def upsert_permission_grant_command_def
  revoke_permission_grant_command_def list_resource_labels_command_def upsert_resource_label_command_def
  remove_resource_label_command_def list_agents_command_def upsert_agent_command_def remove_agent_command_def
  run_agent_command_def list_agent_sessions_command_def list_registered_applications_command_def
  upsert_registered_application_command_def remove_registered_application_command_def

text \<open>A request the daemon answers in one variant.\<close>

lemma plain_returns:
  assumes "delivering E X L" and "\<And>j. request \<noteq> Req_CancelChat j"
    and "\<And>channel d x d'. handle_request E X channel i request d = (Inr x, d') \<Longrightarrow> \<exists>y. x = F y"
    and "\<And>y. response_of (Inr (F y)) = Some (Response (F y))"
    and "\<And>x. \<exists>y. expected (Response (F x)) = Some y \<and> F y = F x"
  shows "returns (fst (ask L i request expected st)) (answer_to E X i request st) (\<lambda>x. Response (F x))"
proof (rule ask_returns [OF assms(1)])
  fix r assume "answer_to E X i request st = Some r"
  from answer_to_handled [OF this assms(2)] assms(3,4)
  show "(\<exists>b. r = Error_Response b) \<or> (\<exists>x. r = Response (F x))" by (metis option.inject)
qed (use assms(5) in auto)

text \<open>
  C27. Over every link that delivers the daemon's answers, each command of the desktop application gets the
  kind of answer it expects: what it returns is the value the daemon answered its request with, and no command
  reports an unexpected response.
\<close>

theorem desktop_understands_daemon:
  assumes "delivering E X L"
  shows "returns (fst (get_health_command L i st)) (answer_to E X i Req_Health st) (\<lambda>v. Response (Health_Reply (hv_schema_version v)))
    \<and> returns (fst (send_chat_message_command L i message_input st)) (answer_to E X i (Req_Chat message_input) st) (\<lambda>v. Response (Chat_Reply v))
    \<and> returns (fst (cancel_chat_message_command L i j st)) (answer_to E X i (Req_CancelChat j) st) ChatCancellation
    \<and> returns (fst (list_chat_sessions_command L i n st)) (answer_to E X i (Req_ListChatSessions n) st) (\<lambda>v. Response (ChatSessions_Reply v))
    \<and> returns (fst (list_chat_messages_command L i session n st)) (answer_to E X i (Req_ListChatMessages session n) st) (\<lambda>v. Response (ChatMessages_Reply v))
    \<and> returns (fst (list_activity_command L i n st)) (answer_to E X i (Req_ListActivity n) st) (\<lambda>v. Response (Activity_Reply v))
    \<and> returns (fst (list_memory_command L i q st)) (answer_to E X i (Req_ListMemory q) st) (\<lambda>v. Response (MemoryItems_Reply v))
    \<and> returns (fst (get_memory_history_command L i memory st)) (answer_to E X i (Req_GetMemoryHistory memory) st) (\<lambda>v. Response (MemoryHistory_Reply v))
    \<and> returns (fst (update_memory_state_command L i u st)) (answer_to E X i (Req_UpdateMemoryState u) st) (\<lambda>v. Response (MemoryUpdated_Reply v))
    \<and> returns (fst (restore_memory_revision_command L i memory revision st)) (answer_to E X i (Req_RestoreMemoryRevision memory revision) st) (\<lambda>v. Response (MemoryMutation_Reply v))
    \<and> returns (fst (list_providers_command L i st)) (answer_to E X i Req_ListProviders st) (\<lambda>v. Response (Providers_Reply v))
    \<and> returns (fst (upsert_provider_command L i provider_input st)) (answer_to E X i (Req_UpsertProvider provider_input) st) (\<lambda>v. Response (ProviderSaved_Reply v))
    \<and> returns (fst (remove_provider_command L i provider_i st)) (answer_to E X i (Req_RemoveProvider provider_i) st) (\<lambda>v. Response (ProviderRemoved_Reply v))
    \<and> returns (fst (test_provider_command L i provider_i st)) (answer_to E X i (Req_TestProvider provider_i) st) (\<lambda>v. Response (ProviderTest_Reply v))
    \<and> returns (fst (list_models_command L i st)) (answer_to E X i Req_ListModels st) (\<lambda>v. Response (Models_Reply v))
    \<and> returns (fst (upsert_model_command L i model_input st)) (answer_to E X i (Req_UpsertModel model_input) st) (\<lambda>v. Response (ModelSaved_Reply v))
    \<and> returns (fst (get_application_settings_command L i st)) (answer_to E X i Req_GetApplicationSettings st) (\<lambda>v. Response (ApplicationSettings_Reply v))
    \<and> returns (fst (update_application_settings_command L i s st)) (answer_to E X i (Req_UpdateApplicationSettings s) st) (\<lambda>v. Response (SettingsUpdated_Reply v))
    \<and> returns (fst (get_usage_stats_command L i st)) (answer_to E X i Req_GetUsageStats st) (\<lambda>v. Response (UsageStats_Reply v))
    \<and> returns (fst (get_diagnostics_command L i n st)) (answer_to E X i (Req_GetDiagnostics n) st) (\<lambda>v. Response (Diagnostics_Reply v))
    \<and> returns (fst (clear_operational_logs_command L i st)) (answer_to E X i Req_ClearOperationalLogs st) (\<lambda>v. Response (OperationalLogsCleared_Reply v))
    \<and> returns (fst (submit_response_feedback_command L i entry f st)) (answer_to E X i (Req_SubmitResponseFeedback entry f) st) (\<lambda>_. Response FeedbackRecorded_Reply)
    \<and> returns (fst (confirm_action_command L i c accept persistence expires st)) (answer_to E X i (Req_ConfirmAction c accept persistence expires) st) (\<lambda>v. Response (Confirmation_Reply v))
    \<and> returns (fst (preview_ai_request_command L i request_input st)) (answer_to E X i (Req_PreviewAiRequest request_input) st) (\<lambda>v. Response (AiRequestPreview_Reply v))
    \<and> returns (fst (get_security_overview_command L i st)) (answer_to E X i Req_GetSecurityOverview st) (\<lambda>v. Response (SecurityOverview_Reply v))
    \<and> returns (fst (update_security_profile_command L i profile st)) (answer_to E X i (Req_UpdateSecurityProfile profile) st) (\<lambda>v. Response (SecurityProfileUpdated_Reply v))
    \<and> returns (fst (list_permission_grants_command L i n st)) (answer_to E X i (Req_ListPermissionGrants n) st) (\<lambda>v. Response (PermissionGrants_Reply v))
    \<and> returns (fst (upsert_permission_grant_command L i grant_input st)) (answer_to E X i (Req_UpsertPermissionGrant grant_input) st) (\<lambda>v. Response (PermissionSaved_Reply v))
    \<and> returns (fst (revoke_permission_grant_command L i permission st)) (answer_to E X i (Req_RevokePermissionGrant permission) st) (\<lambda>v. Response (PermissionRevoked_Reply v))
    \<and> returns (fst (list_resource_labels_command L i n st)) (answer_to E X i (Req_ListResourceLabels n) st) (\<lambda>v. Response (ResourceLabels_Reply v))
    \<and> returns (fst (upsert_resource_label_command L i label_input st)) (answer_to E X i (Req_UpsertResourceLabel label_input) st) (\<lambda>v. Response (ResourceLabelSaved_Reply v))
    \<and> returns (fst (remove_resource_label_command L i label st)) (answer_to E X i (Req_RemoveResourceLabel label) st) (\<lambda>v. Response (ResourceLabelRemoved_Reply v))
    \<and> returns (fst (list_agents_command L i n st)) (answer_to E X i (Req_ListAgents n) st) (\<lambda>v. Response (Agents_Reply v))
    \<and> returns (fst (upsert_agent_command L i agent_input st)) (answer_to E X i (Req_UpsertAgent agent_input) st) (\<lambda>v. Response (AgentSaved_Reply v))
    \<and> returns (fst (remove_agent_command L i agent st)) (answer_to E X i (Req_RemoveAgent agent) st) (\<lambda>v. Response (AgentRemoved_Reply v))
    \<and> returns (fst (run_agent_command L i run_input st)) (answer_to E X i (Req_RunAgent run_input) st) (\<lambda>v. Response (AgentRun_Reply v))
    \<and> returns (fst (list_agent_sessions_command L i n st)) (answer_to E X i (Req_ListAgentSessions n) st) (\<lambda>v. Response (AgentSessions_Reply v))
    \<and> returns (fst (list_registered_applications_command L i n st)) (answer_to E X i (Req_ListRegisteredApplications n) st) (\<lambda>v. Response (RegisteredApplications_Reply v))
    \<and> returns (fst (upsert_registered_application_command L i application_input st)) (answer_to E X i (Req_UpsertRegisteredApplication application_input) st) (\<lambda>v. Response (RegisteredApplicationSaved_Reply v))
    \<and> returns (fst (remove_registered_application_command L i entity st)) (answer_to E X i (Req_RemoveRegisteredApplication entity) st) (\<lambda>v. Response (RegisteredApplicationRemoved_Reply v))"
proof (intro conjI)
  have "\<exists>y. n = hv_schema_version y" for n by (metis health_view.select_convs(2))
  then show "returns (fst (get_health_command L i st)) (answer_to E X i Req_Health st) (\<lambda>v. Response (Health_Reply (hv_schema_version v)))"
    unfolding get_health_command_def by (intro plain_returns [OF assms]) (auto dest!: replying_answers)
  show "returns (fst (cancel_chat_message_command L i j st)) (answer_to E X i (Req_CancelChat j) st) ChatCancellation"
    unfolding cancel_chat_message_command_def
    by (rule ask_returns [OF assms])
      (auto simp: answer_to_def dispatch_request_def daemon_handler_def Let_def answer_envelope_def split: prod.splits)
qed (unfold command_defs, (rule plain_returns [OF assms]; auto dest: replying_answers; fail)+)

text \<open>The link of a client that shares the daemon's process.\<close>

definition direct_link :: "('k, 'f) environment \<Rightarrow> request_inputs \<Rightarrow> ('k daemon \<times> ipc) link" where
  "direct_link E X i request st =
     (case dispatch_request (daemon_handler E X)
          \<lparr>env_version = PROTOCOL_VERSION, env_request_id = i, env_body = request\<rparr> st of
        (Some response, st') \<Rightarrow> (Inr (env_body response), st')
      | (None, st') \<Rightarrow> (Inl CF_Io, st'))"

lemma direct_link_delivers: "delivering E X (direct_link E X)"
  by (auto simp: delivering_def direct_link_def answer_to_def split: prod.splits option.splits)

theorem desktop_understands_daemon_witness:
  "\<exists>v. fst (get_health_command (direct_link example_environment example_inputs) ''r'' (example_agent_daemon, ipc_start)) = Inr v
     \<and> answer_to example_environment example_inputs ''r'' Req_Health (example_agent_daemon, ipc_start)
         = Some (Response (Health_Reply (hv_schema_version v)))"
proof -
  let ?L = "direct_link example_environment example_inputs" and ?st = "(example_agent_daemon, ipc_start)"
  have "\<exists>v. fst (get_health_command ?L ''r'' ?st) = Inr v"
    by (simp add: get_health_command_def ask_def bridge_request_def direct_link_def dispatch_request_def daemon_handler_def
        handle_with_cancellation_def replying_def health_def then_step_def answer_def answer_envelope_def)
  moreover have "returns (fst (get_health_command ?L ''r'' ?st)) (answer_to example_environment example_inputs ''r'' Req_Health ?st)
      (\<lambda>v. Response (Health_Reply (hv_schema_version v)))"
    by (rule desktop_understands_daemon [OF direct_link_delivers, THEN conjunct1])
  ultimately show ?thesis by (auto simp: returns_def)
qed

end
