(* ===== verification/Halquen_Cli.thy ===== *)
theory Halquen_Cli
  imports Halquen_Desktop
begin

text \<open>
  The command line (\<open>apps/cli/src/main.rs\<close>): which request the arguments stand for. The text a response is
  printed as is left out; that an error response ends the program with an error is kept.
\<close>

datatype cli_error = Cli_Usage | Cli_Unsupported | Cli_Id id_error | Cli_Client client_failure | Cli_Response protocol_error_body

definition open_app_action :: "string \<Rightarrow> (cli_error, action_request) result" where
  "open_app_action entity =
     map_err Cli_Id
       (and_then (CapabilityId_new ''system.open_app'') (\<lambda>capability.
        and_then (OpaqueId_new entity) (\<lambda>app.
          Inr \<lparr>ar_capability_id = capability, ar_arguments = Args_OpenApp app\<rparr>)))"

definition identified :: "(id_error, string) result \<Rightarrow> (string \<Rightarrow> protocol_request) \<Rightarrow> (cli_error, protocol_request) result" where
  "identified i request = and_then (map_err Cli_Id i) (\<lambda>x. Inr (request x))"

definition parse_command :: "string list \<Rightarrow> (cli_error, protocol_request) result" where
  "parse_command arguments =
     (if arguments = [''health''] then Inr Req_Health
      else if arguments = [''capabilities'', ''list''] then Inr Req_ListCapabilities
      else if length arguments = 3 \<and> (take 2 arguments = [''capability'', ''get''] \<or> take 2 arguments = [''capabilities'', ''describe''])
        then identified (CapabilityId_new (arguments ! 2)) Req_GetCapability
      else if length arguments = 3 \<and> take 2 arguments = [''dry-run'', ''open-app'']
        then and_then (open_app_action (arguments ! 2)) (\<lambda>action. Inr (Req_DryRunAction action))
      else if length arguments = 3 \<and> take 2 arguments = [''evaluate'', ''open-app'']
        then and_then (open_app_action (arguments ! 2)) (\<lambda>action. Inr (Req_EvaluateAction action))
      else if length arguments = 3 \<and> take 2 arguments = [''execute'', ''open-app'']
        then and_then (open_app_action (arguments ! 2)) (\<lambda>action. Inr (Req_ExecuteAction action))
      else if arguments = [''agents'', ''list''] then Inr (Req_ListAgents 100)
      else if arguments = [''agents'', ''sessions''] then Inr (Req_ListAgentSessions 100)
      else if length arguments > 3 \<and> take 2 arguments = [''agents'', ''run'']
        then identified (OpaqueId_new (arguments ! 2)) (\<lambda>agent.
          Req_RunAgent \<lparr>arq_agent_id = agent, arq_input = join_with '' '' (drop 3 arguments)\<rparr>)
      else if arguments = [''security'', ''permissions''] then Inr (Req_ListPermissionGrants 200)
      else if arguments = [''applications'', ''list''] then Inr (Req_ListRegisteredApplications 200)
      else if length arguments = 5 \<and> take 2 arguments = [''applications'', ''register'']
        then identified (OpaqueId_new (arguments ! 2)) (\<lambda>entity.
          Req_UpsertRegisteredApplication
            \<lparr>aru_entity_id = entity, aru_display_name = arguments ! 3, aru_executable = arguments ! 4, aru_arguments = [],
             aru_ownership = RootOrCurrentUser, aru_sha256_hex = None, aru_enabled = True\<rparr>)
      else if arguments = [''memory'', ''stats''] then Inr Req_MemoryStats
      else if arguments = [''audit'', ''stats''] then Inr Req_AuditStats
      else if length arguments > 1 \<and> take 1 arguments = [''chat'']
        then Inr (Req_Chat \<lparr>crq_session_id = None, crq_message = join_with '' '' (drop 1 arguments),
                            crq_model_selection = Automatic\<rparr>)
      else if arguments = [''--help''] \<or> arguments = [''-h''] \<or> arguments = [] then Inl Cli_Usage
      else Inl Cli_Unsupported)"

text \<open>The outcome of \<open>print_response\<close>, and the whole program: nothing is sent for arguments that do not parse.\<close>

definition print_response :: "reply protocol_response \<Rightarrow> (cli_error, unit) result" where
  "print_response response = (case response of Error_Response error \<Rightarrow> Inl (Cli_Response error) | _ \<Rightarrow> Inr ())"

definition cli_run :: "'s link \<Rightarrow> string \<Rightarrow> string list \<Rightarrow> 's \<Rightarrow> (cli_error, unit) result \<times> 's" where
  "cli_run L i arguments s =
     (case parse_command arguments of
        Inl e \<Rightarrow> (Inl e, s)
      | Inr request \<Rightarrow>
          (case L i request s of
             (Inl e, s') \<Rightarrow> (Inl (Cli_Client e), s')
           | (Inr response, s') \<Rightarrow> (print_response response, s')))"

section \<open>What the command line can do\<close>

text \<open>The requests of the command line, with the word that asks for them.\<close>

lemma if_Inr_elim: "(if c then a else b) = Inr r \<Longrightarrow> (c \<Longrightarrow> a = Inr r \<Longrightarrow> P) \<Longrightarrow> (b = Inr r \<Longrightarrow> P) \<Longrightarrow> P"
  by (auto split: if_splits)

definition only_looks :: "protocol_request \<Rightarrow> bool" where
  "only_looks request \<longleftrightarrow> \<not> may_spawn request \<and> \<not> may_call request
     \<and> (\<forall>grant. request \<noteq> Req_UpsertPermissionGrant grant)
     \<and> (\<forall>j accept persistence expiry. request \<noteq> Req_ConfirmAction j accept persistence expiry)"

lemma parsed_cases:
  assumes "parse_command arguments = Inr request"
  shows "only_looks request
    \<or> take 2 arguments = [''execute'', ''open-app''] \<and> (\<exists>action. request = Req_ExecuteAction action)
    \<or> take 2 arguments = [''agents'', ''run''] \<and> (\<exists>agent. request = Req_RunAgent agent)
    \<or> take 1 arguments = [''chat''] \<and> (\<exists>chat. request = Req_Chat chat)"
  using assms unfolding parse_command_def identified_def
  by (elim if_Inr_elim conjE) (simp_all add: and_then_Inr_iff only_looks_def, auto)

text \<open>A link that does nothing to the daemon but to have it handle the request, if it reaches it.\<close>

definition serving :: "('k, 'f) environment \<Rightarrow> request_inputs \<Rightarrow> ('k daemon \<times> ipc) link \<Rightarrow> bool" where
  "serving E X L \<longleftrightarrow>
     (\<forall>i request st. snd (L i request st) = st
        \<or> snd (L i request st) = snd (dispatch_request (daemon_handler E X)
            \<lparr>env_version = PROTOCOL_VERSION, env_request_id = i, env_body = request\<rparr> st))"

lemma served_obeys:
  assumes "serving E X L" and "step_relation R" and "\<And>channel. obeys R (handle_request E X channel i request)"
  shows "R d (fst (snd (L i request (d, ip))))"
proof -
  let ?e = "\<lparr>env_version = PROTOCOL_VERSION, env_request_id = i, env_body = request\<rparr>"
  have handled: "R d d1" if "handle_with_cancellation E X channel request i d = (x, d1)" for channel x d1
    using that obeysD [OF assms(3)] by (auto simp: handle_with_cancellation_def split: prod.splits)
  have "R d (fst (snd (dispatch_request (daemon_handler E X) ?e (d, ip))))"
    using step_relation.unchanged [OF assms(2)] handled
    by (auto simp: dispatch_request_def daemon_handler_def Let_def split: option.splits prod.splits if_splits)
  moreover have "snd (L i request (d, ip)) = (d, ip)
      \<or> snd (L i request (d, ip)) = snd (dispatch_request (daemon_handler E X) ?e (d, ip))"
    using assms(1) unfolding serving_def by blast
  ultimately show ?thesis using step_relation.unchanged [OF assms(2)] by (elim disjE) simp_all
qed

lemma cli_run_state:
  "snd (cli_run L i arguments st) = (case parse_command arguments of Inl _ \<Rightarrow> st | Inr request \<Rightarrow> snd (L i request st))"
  by (simp add: cli_run_def split: sum.splits prod.splits)

text \<open>The client of the command line serves, over a local socket that cuts the bytes into any pieces.\<close>

lemma client_link_serves:
  assumes "json_faithful CQ" and pieces: "\<And>s. concat (pieces s) = s" "\<And>s. list_all (\<lambda>c. c \<noteq> []) (pieces s)"
  shows "serving E X (client_link CQ CR (local_transport CQ CR (daemon_handler E X) pieces) fs)"
  unfolding serving_def
proof (intro allI)
  fix i :: string and request :: protocol_request and st
  let ?H = "daemon_handler E X" and ?T = "local_transport CQ CR (daemon_handler E X) pieces"
  let ?e = "\<lparr>env_version = PROTOCOL_VERSION, env_request_id = i, env_body = request\<rparr>"
  show "snd (client_link CQ CR ?T fs i request st) = st
      \<or> snd (client_link CQ CR ?T fs i request st) = snd (dispatch_request ?H ?e st)"
  proof (cases "\<exists>P frame. client_discover fs = Inr P \<and> fst (validate_client P fs) = Inr () \<and> client_frame CQ i request = Inr frame")
    case False
    then have "snd (client_link CQ CR ?T fs i request st) = st"
      by (auto simp: client_link_def request_with_id_def local_transport_def and_then_def map_err_def split: sum.splits)
    then show ?thesis ..
  next
    case True
    then obtain P frame where open_link: "client_discover fs = Inr P" "fst (validate_client P fs) = Inr ()"
      and framed: "client_frame CQ i request = Inr frame" by blast
    then have frame: "encode_envelope CQ ?e = Inr frame" by (simp add: client_frame_def)
    have "handle_connection CQ CR ?H (map Some (pieces frame)) st =
        (case dispatch_request ?H ?e st of (Some response, st') \<Rightarrow> (map_err Daemon_Codec (encode_envelope CR response), st')
          | (None, st') \<Rightarrow> (Inl Task_Panicked, st'))"
      using read_encoded [OF assms(1) frame pieces(1) pieces(2), of "[]"] decode_encode [OF assms(1) frame]
      by (simp add: handle_connection_def)
    then have "snd (handle_connection CQ CR ?H (map Some (pieces frame)) st) = snd (dispatch_request ?H ?e st)"
      by (simp split: prod.splits option.splits)
    then show ?thesis
      using open_link framed
      by (auto simp: client_link_def request_with_id_def local_transport_def split: prod.splits sum.splits)
  qed
qed

text \<open>
  C29. The command line acts within its words: it never widens a stored grant, it starts programs only when its
  first words are \<open>execute open-app\<close>, \<open>agents run\<close> or \<open>chat\<close>, contacts a provider only when its first
  word is \<open>chat\<close>, and with arguments that it does not understand it leaves the daemon alone. This holds for every
  link that does no more to the daemon than have it handle the request, as \<open>client_link_serves\<close> shows for the
  client over a local socket.
\<close>

theorem command_line_stays_within_its_words:
  assumes "serving E X L" and "cli_run L i arguments (d, ip) = (r, d', ip')"
  shows "(is_err (parse_command arguments) \<longrightarrow> d' = d \<and> ip' = ip)
    \<and> (\<forall>gs. stores (en_json E) (sv_database (dm_service d)) gs \<longrightarrow>
         (\<exists>gs'. stores (en_json E) (sv_database (dm_service d')) gs' \<and> list_all2 narrowed gs gs'))
    \<and> (take 2 arguments \<notin> {[''execute'', ''open-app''], [''agents'', ''run'']} \<and> take 1 arguments \<noteq> [''chat''] \<longrightarrow>
         dm_spawned d' = dm_spawned d)
    \<and> (take 1 arguments \<noteq> [''chat''] \<longrightarrow> dm_calls d' = dm_calls d)"
proof (cases "parse_command arguments")
  case (Inl e)
  with assms(2) have "d' = d" "ip' = ip" by (simp_all add: cli_run_def)
  with no_wider_same [of "sv_database (dm_service d)" "sv_database (dm_service d)" "en_json E"] show ?thesis
    by (simp add: no_wider_def)
next
  case (Inr request)
  then have d': "d' = fst (snd (L i request (d, ip)))" using cli_run_state [of L i arguments "(d, ip)"] assms(2) by (simp add: prod_eq_iff)
  note parsed = parsed_cases [OF Inr]
  have "narrows (en_json E) d d'" unfolding d'
    by (rule served_obeys [OF assms(1) narrows.step_relation_axioms narrows_request]) (use parsed in \<open>auto simp: only_looks_def\<close>)
  moreover have "silent d d'" if "take 2 arguments \<notin> {[''execute'', ''open-app''], [''agents'', ''run'']}"
    "take 1 arguments \<noteq> [''chat'']" unfolding d'
    by (rule served_obeys [OF assms(1) silent.step_relation_axioms silent_request]) (use parsed that in \<open>auto simp: only_looks_def\<close>)
  moreover have "quiet d d'" if "take 1 arguments \<noteq> [''chat'']" unfolding d'
    by (rule served_obeys [OF assms(1) quiet.step_relation_axioms quiet_request]) (use parsed that in \<open>auto simp: only_looks_def\<close>)
  ultimately show ?thesis using Inr by (simp add: narrows_def no_wider_def silent_def quiet_def)
qed

lemma direct_link_serves: "serving E X (direct_link E X)"
  by (auto simp: serving_def direct_link_def split: prod.splits option.splits)

theorem command_line_stays_within_its_words_witness:
  "dm_spawned (fst (snd (cli_run (direct_link example_environment example_inputs) ''r'' [''dry-run'', ''open-app'', ''app:mail'']
     (example_agent_daemon, ipc_start)))) = dm_spawned example_agent_daemon"
proof -
  let ?run = "cli_run (direct_link example_environment example_inputs) ''r'' [''dry-run'', ''open-app'', ''app:mail'']
     (example_agent_daemon, ipc_start)"
  obtain r d' ip' where run: "?run = (r, d', ip')" using prod_cases3 by blast
  from command_line_stays_within_its_words [OF direct_link_serves run] show ?thesis unfolding run by simp
qed

end
