(* ===== verification/Halquen_Answers.thy ===== *)
theory Halquen_Answers
  imports Halquen_Daemon_Facts
begin

text \<open>
  Every request is answered. A handler that panics takes its connection down without an answer; the only
  panic the code can reach is the parser of local commands slicing inside a character, and it cannot for
  a message whose characters keep their width in lower case. All other handlers return a reply or an
  error of the protocol, whatever the state of the daemon.
\<close>

section \<open>Steps that do not panic\<close>

definition calm :: "('k, 'a) step \<Rightarrow> bool" where
  "calm m \<longleftrightarrow> (\<forall>d. fst (m d) \<noteq> Inl Panicked)"

lemma errors_refused [simp]:
  "internal_error \<noteq> Panicked" "validation message \<noteq> Panicked" "not_found \<noteq> Panicked" "secret_store_error \<noteq> Panicked"
  "Panicked \<noteq> internal_error" "Panicked \<noteq> validation message" "Panicked \<noteq> not_found" "Panicked \<noteq> secret_store_error"
  "agent_error e \<noteq> Panicked" "Panicked \<noteq> agent_error e"
  by (simp_all add: internal_error_def validation_def not_found_def secret_store_error_def agent_error_def)

lemma map_err_calm: "(\<And>e. f e \<noteq> Panicked) \<Longrightarrow> map_err f r \<noteq> Inl Panicked"
  by (simp add: map_err_def split: sum.splits)

lemma ok_or_calm: "e \<noteq> Panicked \<Longrightarrow> ok_or e x \<noteq> Inl Panicked"
  by (cases x) (simp_all add: ok_or_def)

lemma and_then_calm: "r \<noteq> Inl Panicked \<Longrightarrow> (\<And>x. r = Inr x \<Longrightarrow> f x \<noteq> Inl Panicked) \<Longrightarrow> and_then r f \<noteq> Inl Panicked"
  by (cases r) (simp_all add: and_then_def)

lemma if_calm: "(b \<Longrightarrow> r \<noteq> Inl Panicked) \<Longrightarrow> (\<not> b \<Longrightarrow> s \<noteq> Inl Panicked) \<Longrightarrow> (if b then r else s) \<noteq> Inl Panicked"
  by simp

lemma value_calm: "Inr x \<noteq> Inl Panicked" "e \<noteq> Panicked \<Longrightarrow> Inl e \<noteq> Inl Panicked"
  by simp_all

lemmas result_calm = map_err_calm ok_or_calm and_then_calm if_calm value_calm errors_refused

lemma calm_cases:
  "(b \<Longrightarrow> calm m) \<Longrightarrow> (\<not> b \<Longrightarrow> calm m') \<Longrightarrow> calm (if b then m else m')"
  "(x = None \<Longrightarrow> calm m) \<Longrightarrow> (\<And>a. x = Some a \<Longrightarrow> calm (f a)) \<Longrightarrow> calm (case x of None \<Rightarrow> m | Some a \<Rightarrow> f a)"
  "(\<And>e. r = Inl e \<Longrightarrow> calm (g e)) \<Longrightarrow> (\<And>a. r = Inr a \<Longrightarrow> calm (f a)) \<Longrightarrow>
   calm (case r of Inl e \<Rightarrow> g e | Inr a \<Rightarrow> f a)"
  "(\<And>a b. p = (a, b) \<Longrightarrow> calm (h a b)) \<Longrightarrow> calm (case p of (a, b) \<Rightarrow> h a b)"
  "(\<And>a. a = v \<Longrightarrow> calm (f a)) \<Longrightarrow> calm (let a = v in f a)"
  by (simp_all split: option.splits sum.splits prod.splits)

lemma then_calm: "calm m \<Longrightarrow> (\<And>x. calm (f x)) \<Longrightarrow> calm (then_step m f)"
proof -
  assume calm: "calm m" "\<And>x. calm (f x)"
  have "fst (then_step m f d) \<noteq> Inl Panicked" for d
  proof (cases "m d")
    case (Pair r d')
    with calm(1) have "r \<noteq> Inl Panicked" unfolding calm_def by (metis fst_conv)
    with Pair calm(2) show ?thesis by (auto simp: then_step_def calm_def split: sum.splits)
  qed
  then show ?thesis by (simp add: calm_def)
qed

lemma basic_calm:
  "calm (answer x)" "e \<noteq> Panicked \<Longrightarrow> calm (refuse e)" "r \<noteq> Inl Panicked \<Longrightarrow> calm (of_result r)"
  "calm (query q)" "calm (on_dialogue operation)" "calm (on_records operation')" "calm (on_memory operation'')"
  "calm (persist_step E i item revision evidence)" "calm (activity T n session correlation kind summary detail)"
  by (auto simp: calm_def answer_def refuse_def of_result_def query_def on_dialogue_def on_records_def on_memory_def
      persist_step_def activity_def map_err_def split: prod.splits sum.splits)

lemma undo_calm:
  fixes m :: "('k, 'a) step"
  assumes "calm m" and "calm undo"
  shows "calm (or_undo m undo)"
  unfolding calm_def
proof
  fix d
  have "fst ((then_step undo (\<lambda>_. refuse e) :: ('k, 'a) step) d') \<noteq> Inl Panicked" if "e \<noteq> Panicked" for e d'
  proof -
    have "calm (then_step undo (\<lambda>_. refuse e) :: ('k, 'a) step)" by (intro then_calm assms(2) basic_calm(2) that)
    then show ?thesis by (simp add: calm_def)
  qed
  moreover have "fst (m d) \<noteq> Inl Panicked" using assms(1) by (simp add: calm_def)
  ultimately show "fst (or_undo m undo d) \<noteq> Inl Panicked"
    by (auto simp: or_undo_def split: prod.splits sum.splits)
qed

lemma secret_calm:
  "calm (capture_secret E i)" "calm (store_secret E i s)" "calm (delete_secret E i)" "calm (restore_secret E i previous)"
  "calm (provider_credential E provider)"
  by (auto simp: calm_def capture_secret_def store_secret_def delete_secret_def restore_secret_def provider_credential_def
      map_err_def and_then_def split: sum.splits secret_error.splits prod.splits option.splits)

lemma reference_calm: "(\<And>i. calm (f i)) \<Longrightarrow> calm (on_reference reference f none)"
  by (simp add: on_reference_def basic_calm split: option.splits)

lemma other_calm:
  "calm (push_diagnostic T n severity component code message related)" "calm (handle_clear_operational_logs cleared)"
  "calm (add_pending i p)" "calm (call_test E provider credential)"
  "calm (call_provider E C provider model credential request)"
  by (auto simp: calm_def push_diagnostic_def handle_clear_operational_logs_def add_pending_def call_test_def
      call_provider_def Let_def split: option.splits cancellation.splits)

lemma pipeline_calm: "(\<And>sv. fst (operation sv) \<noteq> Inl Panicked) \<Longrightarrow> calm (run_pipeline operation)"
  by (auto simp: calm_def run_pipeline_def split: prod.splits) (metis fst_conv)

lemmas calm_intros = calm_cases then_calm basic_calm undo_calm secret_calm reference_calm other_calm result_calm

section \<open>The conversation\<close>

lemma finish_calm: "calm (finish_chat session user assistant prompt)"
  unfolding finish_chat_def by (intro calm_intros)

lemma report_calm: "calm (report_execution T session correlation name proposal response)"
  unfolding report_execution_def report_allowed_def ask_confirmation_def
  by (auto split: policy_outcome.splits action_arguments.splits intro!: calm_intros)

lemma open_proposal_calm: "open_app_proposal correlation entity classification \<noteq> Inl Panicked"
  unfolding open_app_proposal_def by (intro result_calm)

lemma open_calm: "calm (open_application E T session user correlation name entity)"
  unfolding open_application_def resolve_alias_def
  by (intro calm_intros open_proposal_calm pipeline_calm process_no_panic report_calm finish_calm)

lemma intent_calm: "calm (handle_local_intent E T session user correlation intent)"
proof (cases intent)
  case Intent_ContextualOpenApp
  then show ?thesis
    by (auto simp: contextual_open_def clarify_ambiguous_def clarify_unknown_def split: intent_resolution.splits
        intro!: calm_intros open_calm finish_calm)
next
  case (Intent_RememberPreference key content)
  then show ?thesis
    by (auto simp: remember_preference_def commit_preference_def intro!: calm_intros finish_calm)
next
  case (Intent_ForgetPreference key)
  then show ?thesis by (auto simp: forget_preference_def intro!: calm_intros finish_calm)
qed (auto simp: correct_open_app_def intro!: calm_intros open_calm)

lemma model_calm:
  "calm (ai_answered E T session user correlation provider model has_context reply)"
  "calm (ai_failed T session user correlation error)"
  "calm (ai_cancelled T session user correlation)"
  "calm (no_route T session user correlation why)"
  "calm (cached_answer T session user correlation entry)"
  by (auto simp: ai_answered_def ai_failed_def ai_cancelled_def no_route_def cached_answer_def
      intro!: calm_intros finish_calm)

lemma ask_calm: "calm (ask_model E T C session user correlation s provider model selected)"
  unfolding ask_model_def conversation_context_def by (intro calm_intros model_calm)

lemma chat_calm:
  assumes "tame (en_unicode E) (crq_message request)"
  shows "calm (chat_with_cancellation E T C request correlation)"
proof -
  obtain found where "resolve_local (en_unicode E) (trim (crq_message request)) = Inr found"
    using resolve_local_returns [OF tame_trim [OF assms]] by blast
  then show ?thesis
    unfolding chat_with_cancellation_def cached_or_model_def ai_fallback_def Let_def
    by (auto intro!: calm_intros intent_calm model_calm ask_calm)
qed

section \<open>The other handlers\<close>

lemma read_calm:
  "calm (handle_list_chat_sessions n)" "calm (handle_list_chat_messages session n)"
  "calm (handle_list_activity n)" "calm (handle_list_memory E q)" "calm (handle_memory_history E i)"
  "calm handle_list_providers" "calm handle_list_models" "calm handle_application_settings"
  "calm handle_usage_stats" "calm (handle_preview_ai_request request)"
  by (auto simp: handle_list_chat_sessions_def handle_list_chat_messages_def handle_list_activity_def
      handle_list_memory_def handle_memory_history_def handle_list_providers_def handle_list_models_def
      handle_application_settings_def handle_usage_stats_def handle_preview_ai_request_def preview_context_def
      intro!: calm_intros)

lemma counts_calm:
  "calm (health E)" "calm (handle_memory_stats E)" "calm handle_audit_stats" "calm (handle_diagnostics E version n)"
proof -
  show "calm (handle_diagnostics E version n)"
    unfolding handle_diagnostics_def by (intro calm_intros) (simp add: calm_def)
qed (simp_all add: calm_def health_def answer_def handle_memory_stats_def handle_audit_stats_def split: prod.splits)

lemma write_calm:
  "calm (handle_update_memory_state u)" "calm (handle_restore_memory_revision E T i revision)"
  "calm (handle_upsert_model T m)" "calm (handle_update_application_settings T s)"
  "calm (handle_submit_response_feedback entry feedback)"
  by (auto simp: handle_update_memory_state_def handle_restore_memory_revision_def handle_upsert_model_def
      handle_update_application_settings_def handle_submit_response_feedback_def intro!: calm_intros)

lemma checked_provider_calm: "checked_provider E provider \<noteq> Inl Panicked"
  by (auto simp: checked_provider_def split: sum.splits ai_error.splits)

lemma provider_calm:
  "calm (handle_upsert_provider E T p)" "calm (handle_remove_provider E i)" "calm (handle_test_provider E T i)"
  by (auto simp: handle_upsert_provider_def handle_remove_provider_def handle_test_provider_def change_secret_def
      intro!: calm_intros checked_provider_calm split: prod.splits)

section \<open>Authority and agents\<close>

lemma on_database_calm: "on_database operation sv = (r, sv') \<Longrightarrow> r \<noteq> Inl Panicked"
  by (auto simp: on_database_def map_err_def split: prod.splits sum.splits)

lemma page_calm: "page_limit message most reads n \<noteq> Inl Panicked"
  by (simp add: page_limit_def map_err_calm)

lemma checked_grant_calm: "checked_grant J now generated input sv \<noteq> Inl Panicked"
proof -
  have "agent_session_active db i a \<noteq> Inl Panicked" for db i a
    unfolding agent_session_active_def by (intro result_calm)
  then have "session_admissible sv input session \<noteq> Inl Panicked" for session
    by (cases session; simp add: session_admissible_def; intro result_calm; simp)
  then have binding: "grant_binding sv input \<noteq> Inl Panicked"
    by (cases "pgu_lifetime input"; simp add: grant_binding_def; intro result_calm; simp)
  have "agent_configured J (sv_database sv) agent \<noteq> Inl Panicked" for agent
    by (simp only: agent_configured_def split: option.split) (intro conjI allI impI result_calm)
  with binding show ?thesis unfolding checked_grant_def by (intro result_calm) (auto intro!: result_calm)
qed

lemma administered_calm:
  "fst (service_update_security_profile now profile sv) \<noteq> Inl Panicked"
  "fst (service_upsert_permission_grant J now generated grant sv) \<noteq> Inl Panicked"
  "fst (service_revoke_permission_grant now i sv) \<noteq> Inl Panicked"
  "fst (service_upsert_resource_label now generated label sv) \<noteq> Inl Panicked"
  "fst (service_remove_resource_label i sv) \<noteq> Inl Panicked"
  "fst (service_upsert_agent J sys digest now generated agent sv) \<noteq> Inl Panicked"
  "fst (service_remove_agent i sv) \<noteq> Inl Panicked"
  "fst (service_upsert_registered_application J sys digest now application sv) \<noteq> Inl Panicked"
  "fst (service_remove_registered_application i sv) \<noteq> Inl Panicked"
  using checked_grant_calm [of J now generated grant sv]
  by (auto simp: service_update_security_profile_def service_upsert_permission_grant_def
      service_revoke_permission_grant_def service_upsert_resource_label_def service_remove_resource_label_def
      service_upsert_agent_def service_remove_agent_def service_upsert_registered_application_def
      service_remove_registered_application_def on_database_def Let_def map_err_def and_then_def
      split: prod.splits sum.splits option.splits if_splits)

lemma listed_calm:
  "service_security_overview J now sv \<noteq> Inl Panicked" "service_list_permission_grants J n sv \<noteq> Inl Panicked"
  "service_list_resource_labels n sv \<noteq> Inl Panicked" "service_list_agents J n sv \<noteq> Inl Panicked"
  "service_list_agent_sessions n sv \<noteq> Inl Panicked" "service_list_registered_applications J n sv \<noteq> Inl Panicked"
  by (simp_all add: service_security_overview_def service_list_permission_grants_def service_list_resource_labels_def
      service_list_agents_def service_list_agent_sessions_def service_list_registered_applications_def page_calm
      map_err_calm Let_def)

lemma run_agent_no_panic: "fst (run_agent J sys digest W P host R E request sv) \<noteq> Inl Panicked"
proof -
  have close: "fst (service_finish_agent_session J R session status sv) \<noteq> Inl Panicked" for session status sv
    by (auto simp: service_finish_agent_session_def Let_def and_then_def dest!: on_database_calm split: prod.splits sum.splits)
  have abort: "e \<noteq> Panicked \<Longrightarrow> fst (aborted J R session status e cmds ch sv) \<noteq> Inl Panicked"
    for session status e cmds ch sv
    using close [of session status sv] by (auto simp: aborted_def abort_session_def split: prod.splits sum.splits)
  have finish: "fst (finish_run J W P R session running invocation results cmds sv) \<noteq> Inl Panicked"
    for session running invocation results cmds sv
    using close [of session Status_Completed sv]
    by (auto simp: finish_run_def abort split: prod.splits sum.splits)
  have session: "fst (run_session J sys digest W P host R E configuration input session sv) \<noteq> Inl Panicked"
    for configuration input session sv
    by (auto simp: run_session_def abort finish dest!: broker_frame split: prod.splits sum.splits)
  have "configured_agent J sv request \<noteq> Inl Panicked"
    unfolding configured_agent_def by (intro result_calm) simp
  then show ?thesis
    by (auto simp: run_agent_def session Let_def dest!: on_database_calm split: prod.splits sum.splits)
qed

section \<open>Requests\<close>

lemma replying_calm: "calm m \<Longrightarrow> calm (replying m f)"
  unfolding replying_def by (intro then_calm basic_calm)

lemma service_calm:
  "(\<And>sv. fst (operation sv) \<noteq> Inl Panicked) \<Longrightarrow> calm (administer operation)"
  "(\<And>sv. q sv \<noteq> Inl Panicked) \<Longrightarrow> calm (inspect q)"
  "(\<And>sv. fst (run sv) \<noteq> Inl Panicked) \<Longrightarrow> calm (agent_step run)"
  by (auto simp: calm_def administer_def inspect_def agent_step_def split: prod.splits) (metis fst_conv)+

text \<open>The message of a chat is a Rust string of characters that keep their width in lower case.\<close>

definition tame_request :: "unicode \<Rightarrow> protocol_request \<Rightarrow> bool" where
  "tame_request U request =
     (case request of Req_Chat r \<Rightarrow> valid_utf8 (crq_message r) \<and> keeps_width U (crq_message r) | _ \<Rightarrow> True)"

lemma request_calm:
  assumes "tame_request (en_unicode E) request"
  shows "calm (handle_request E X channel correlation request)"
proof (cases request)
  case (Req_Chat r)
  then have "tame (en_unicode E) (crq_message r)" using assms by (simp add: tame_request_def tame_def)
  then show ?thesis using Req_Chat by (auto simp: chat_def intro!: replying_calm chat_calm calm_intros)
qed (auto intro!: replying_calm service_calm administered_calm listed_calm run_agent_no_panic pipeline_calm
    evaluate_no_panic dry_run_no_panic execute_no_panic confirm_no_panic
    intro: read_calm counts_calm write_calm provider_calm calm_intros)

lemma response_of_calm: "r \<noteq> Inl Panicked \<Longrightarrow> \<exists>response. response_of r = Some response"
  by (cases r rule: response_of.cases) auto

text \<open>
  C34. A request gets its answer, in whatever state the daemon is and whatever the connections in flight
  are: one response, in the daemon's version and under the identifier of the request. The only
  condition is that the message of a chat is a string whose characters keep their width in lower case.
\<close>

theorem every_request_is_answered:
  assumes "tame_request (en_unicode E) (env_body envelope)"
  shows "\<exists>response st'. dispatch_request (daemon_handler E X) envelope st = (Some response, st')
    \<and> env_version response = PROTOCOL_VERSION \<and> env_request_id response = env_request_id envelope"
proof -
  obtain d ip where st: "st = (d, ip)" by fastforce
  let ?request = "env_body envelope" and ?i = "env_request_id envelope"
  have "\<exists>response d'. handle_with_cancellation E X channel ?request ?i d = (Some response, d')" for channel
  proof -
    obtain r d' where run: "handle_request E X channel ?i ?request d = (r, d')" by fastforce
    with request_calm [OF assms, of X channel ?i] have "r \<noteq> Inl Panicked" unfolding calm_def by (metis fst_conv)
    with run show ?thesis using response_of_calm by (auto simp: handle_with_cancellation_def)
  qed
  then have handled: "\<exists>response d'. hd_handle (daemon_handler E X) ?request ?i ch d = (Some response, d')" for ch
    by (simp add: daemon_handler_def)
  show ?thesis
  proof (cases "hd_cancels (daemon_handler E X) ?request")
    case (Some target)
    then show ?thesis by (simp add: dispatch_request_def st answer_envelope_def split: prod.split)
  next
    case None
    obtain ch ip' where registered: "ipc_register ?i ip = (ch, ip')" by fastforce
    obtain response d' where "hd_handle (daemon_handler E X) ?request ?i
        (if hd_is_chat (daemon_handler E X) ?request then ch else None) d = (Some response, d')"
      using handled by blast
    with None registered show ?thesis
      by (auto simp: dispatch_request_def st Let_def answer_envelope_def duplicate_request_response_def split: option.splits)
  qed
qed

theorem every_request_is_answered_witness:
  "\<exists>response st'. dispatch_request (daemon_handler example_environment example_inputs)
     \<lparr>env_version = PROTOCOL_VERSION, env_request_id = ''r'', env_body = Req_Chat
        \<lparr>crq_session_id = None, crq_message = ''Remember that when I say editor I mean Zed.'', crq_model_selection = Automatic\<rparr>\<rparr>
     (example_agent_daemon, ipc_start) = (Some response, st') \<and> env_request_id response = ''r''"
proof -
  have "valid_utf8 ''Remember that when I say editor I mean Zed.''"
    "keeps_width basic_unicode ''Remember that when I say editor I mean Zed.''" by code_simp+
  then have "tame_request (en_unicode example_environment) (Req_Chat
      \<lparr>crq_session_id = None, crq_message = ''Remember that when I say editor I mean Zed.'', crq_model_selection = Automatic\<rparr>)"
    by (simp add: tame_request_def example_environment_def)
  then show ?thesis
    using every_request_is_answered [of example_environment "\<lparr>env_version = PROTOCOL_VERSION, env_request_id = ''r'', env_body = Req_Chat
        \<lparr>crq_session_id = None, crq_message = ''Remember that when I say editor I mean Zed.'', crq_model_selection = Automatic\<rparr>\<rparr>"
        example_inputs "(example_agent_daemon, ipc_start)"]
    by (simp only: envelope.simps) blast
qed

end
