(* ===== verification/Spec2Isabelle.thy ===== *)
theory Spec2Isabelle
  imports Halquen_Startup Halquen_Answers
begin

text \<open>
  Halquen is a local assistant daemon written in Rust. Clients (a command line, a desktop application)
  send requests over a local socket; the daemon turns a request into a proposal with a provenance,
  classifies the resources it touches, decides by policy, asks the user for a confirmation where one
  is due, runs a registered capability and writes a journal. A chat is answered by local commands, by
  remembered facts, by a cache of approved answers, or by a language model the settings permit. Agents
  are foreign programs that the daemon runs in a sandbox and whose proposals it treats as untrusted.
  This library models the daemon from its endpoint to its tables, and proves what makes it safe.

  \<^bold>\<open>Theories and sources.\<close>

  \<^item> \<open>Halquen_Prelude\<close>: results (\<open>Result\<close> as a sum with the error on the left), sorted
    association lists for \<open>BTreeMap\<close>, tables of keyed rows with their locale, Rust's string
    functions on bytes, and the lemma collections the other theories share.
  \<^item> \<open>Halquen_Domain\<close>, \<open>Halquen_Security\<close>, \<open>Halquen_Interaction\<close>, \<open>Halquen_Audit\<close>: the
    vocabulary of \<open>crates/domain\<close> (identifiers, actions, capabilities, action contexts, grants, labels,
    agents, settings, providers, models, chats) and of \<open>crates/audit\<close> with every constructor check and
    validation.
  \<^item> \<open>Halquen_Policy\<close> (\<open>crates/policy\<close>): the decision order of the engine, its baseline, and
    the two ways of issuing an authorization, as an interface (locale \<open>authorizer\<close>) with both of them
    as its instances.
  \<^item> \<open>Halquen_Capabilities\<close> (\<open>crates/capabilities\<close>): capability and application registries,
    the inspection of executables over a model of the file system, the executors.
  \<^item> \<open>Halquen_Memory\<close> (\<open>crates/memory\<close>): working memory, the revision ledger, promotion of
    procedures, scoring of intents.
  \<^item> \<open>Halquen_Storage\<close>, \<open>Halquen_Grants\<close>, \<open>Halquen_Records\<close>, \<open>Halquen_Sessions\<close>,
    \<open>Halquen_Journal\<close>, \<open>Halquen_Memory_Store\<close>, \<open>Halquen_Dialogue\<close> with \<open>Halquen_Dialogue_Facts\<close>
    (\<open>crates/storage\<close>): rows, their text encodings and the constraints of the migrations; grants with
    lookup, claim and revocation; labels, usage, applications and agents; sessions; receipts and audit
    records; memory revisions with their evidence; settings, providers, models, chats, activity and the
    response cache.
  \<^item> \<open>Halquen_Routing\<close>, \<open>Halquen_Provider\<close>, \<open>Halquen_Agent_Host\<close> (\<open>crates/ai\<close>): model selection,
    context and prompts; the provider client and the credential store; starting an agent and talking to it.
  \<^item> \<open>Halquen_Service\<close> and \<open>Halquen_Pipeline\<close> (\<open>apps/daemon/src/service.rs\<close> and
    \<open>confirm_action\<close> of \<open>interaction_service.rs\<close>): the action pipeline and what it guarantees.
  \<^item> \<open>Halquen_Authority\<close> (\<open>security_service.rs\<close>) and \<open>Halquen_Broker\<close> (\<open>agent_service.rs\<close>): the
    handlers that administer authority, and the brokering of an agent's proposals.
  \<^item> \<open>Halquen_Chat\<close> (\<open>chat.rs\<close>), \<open>Halquen_Assistant\<close>, \<open>Halquen_Conversation\<close> with
    \<open>Halquen_Conversation_Facts\<close>, \<open>Halquen_Handlers\<close> with \<open>Halquen_Handlers_Facts\<close>
    (\<open>interaction_service.rs\<close>): the parser of local commands, the state of the whole daemon and steps over
    it, the chat, and the handlers of memory, providers, models, settings and diagnostics.
  \<^item> \<open>Halquen_Protocol\<close> (\<open>crates/protocol\<close>, \<open>ipc.rs\<close>): envelopes, frames, connections, cancellation.
  \<^item> \<open>Halquen_Steps\<close>, \<open>Halquen_Daemon\<close>, \<open>Halquen_Daemon_Facts\<close>: the dispatcher over every request, the
    start and end of a daemon, and relations that all steps respect, as a hierarchy of locales.
  \<^item> \<open>Halquen_Files\<close>, \<open>Halquen_Paths\<close>, \<open>Halquen_Logging\<close> (\<open>transport.rs\<close>, \<open>paths.rs\<close>,
    \<open>logging.rs\<close>): a file system that changes, the directories and the socket of the daemon, its logs and
    the redaction of what is logged.
  \<^item> \<open>Halquen_Desktop\<close>, \<open>Halquen_Cli\<close> (\<open>client.rs\<close>, \<open>apps/desktop/src-tauri/src/commands.rs\<close>,
    \<open>apps/cli/src/main.rs\<close>): the client, the commands of the desktop application, the command line.
  \<^item> \<open>Halquen_Startup\<close> (\<open>apps/daemon/src/main.rs\<close>, \<open>run\<close> of \<open>ipc.rs\<close>, \<open>Database::open\<close>): the options,
    the opening of the database with its migrations, and the sequence of a start up to the open endpoint.

  \<^bold>\<open>How the code is read.\<close> A struct is a record, an enum a datatype, a fallible function returns
  a sum, a method that changes its object returns the changed state beside its result. Strings are byte
  lists. Machine integers whose arithmetic cannot wrap in the code are \<open>nat\<close> or \<open>int\<close> with
  their bounds written where the code checks or converts them. A panic is a value of the error type.
  What the code takes from outside is an argument: the clock and the generated identifiers (records of
  draws, in the order of the code), the operating system, the digest function, the executor, the agent
  process (how each wait on it ends and what it writes), the Unicode tables, the URL library and the HTTP
  exchange, the keyring, the arithmetic of floating-point scores, and the JSON encoding. The assumptions on
  the encodings are that they can be read back (\<open>serde_faithful\<close>, \<open>json_faithful\<close>), and on the
  credential store that it keeps what it stores (\<open>lawful_secrets\<close>); concrete instances satisfy them. Every
  call of the file system may be refused for a reason of its own.

  \<^bold>\<open>What is shown.\<close> The policy engine computes a documented precedence of rules; the pipeline
  implements it over the whole grant table although it fetches one row, answers every well-formed
  request, journals what it answers, and spawns nothing without an authorization for exactly that
  action; confirmations act once and never against a denial; limited grants bound the number of
  executions; spawned programs are registered and verified; sessions stay consistent and take their
  grants with them; an agent runs confined, speaks only for itself, acts only on grants the user
  stored before, and leaves neither a process nor an open session nor any wider authority behind. A chat
  contacts a provider at most once and only as the settings permit; a credential reaches the credential
  store only, changes together with its provider, and leaves the daemon over a secure channel; an answer
  from the cache was approved; stored procedures have user authority; the stored memory refines the
  revision ledger. Over all requests: the daemon keeps its rules and its tables well formed, only the user
  widens authority, and every outside effect belongs to a request made for it. At the edge: frames carry
  requests and answers unchanged, the endpoint is private, the desktop commands agree with the daemon on
  the kind of every answer, the command line stays within its words, logs are bounded and redacted.
  The last section of each theory evaluates its definitions on a concrete daemon.

  \<^bold>\<open>Bounds.\<close> No definition needs fuel: the loops of the code run over lists, or over strings and
  paths that get shorter. Numeric limits are those of the code. The sum of log sizes wraps at 64 bits as in
  a release build, and the statement about pruning assumes that it does not.

  \<^bold>\<open>Not modelled.\<close> What SQLite does inside a connection and in a migration script (the tables and
  their constraints are modelled), the tracing subscriber, the accept loop (a connection is one request), the
  texts the command line prints, the React front end, and the domain types of entities and intents that no component uses.
  Links in the middle of a path are not resolved: two paths are the same file if they have the same
  components. Requests are handled one after another, as the daemon holds its service for the whole of a
  request; only the registry of running chats is modelled with interleaving.
\<close>

end
